(* ===== verification/Toss_Prelude.thy ===== *)
theory Toss_Prelude
  imports Main "HOL-Library.Char_ord" "HOL-Library.List_Lexorder" "HOL-Library.Product_Lexorder"
begin

text \<open>
  Shared vocabulary of the development.

  \<^item> The types every component uses: identifiers (\<open>Uuid\<close>), instants and durations in
    microseconds (\<open>DateTime<Utc>\<close>, the resolution PostgreSQL stores), byte strings.
  \<^item> The integer operations of the Rust standard library that the sources rely on, with the
    width written out.
  \<^item> The SQL statements as list functions: a table is the list of its rows, an
    \<open>UPDATE ... WHERE\<close> maps the rows that satisfy a predicate, a \<open>DELETE\<close> filters them
    out, an \<open>INSERT\<close> appends a row unless a unique constraint fails.
  \<^item> The locales that the components interpret: a transition system with an invariant, and a
    lease whose holder is fenced by a token.
\<close>

section \<open>Collections of facts\<close>

named_theorems sql_defs \<open>definitions of the SQL statements\<close>
named_theorems op_defs \<open>definitions of the operations of a component\<close>

section \<open>Basic types\<close>

type_synonym uuid = nat
type_synonym instant = int
type_synonym duration = int
type_synonym bytes = "char list"

definition seconds :: "int \<Rightarrow> duration" where
  "seconds n = n * 1000000"

lemma seconds_mono [simp]: "seconds a \<le> seconds b \<longleftrightarrow> a \<le> b"
  by (simp add: seconds_def)

lemma seconds_pos [simp]: "0 < seconds a \<longleftrightarrow> 0 < a"
  by (simp add: seconds_def zero_less_mult_iff)

text \<open>\<open>i32\<close> and \<open>i64\<close> values are integers with their bounds written out.\<close>

definition i32_max :: int where "i32_max = 2147483647"
definition i32_min :: int where "i32_min = -2147483648"
definition i64_max :: int where "i64_max = 9223372036854775807"
definition u64_max :: int where "u64_max = 18446744073709551615"

text \<open>\<open>i32::saturating_add\<close> and \<open>i32::saturating_sub\<close>.\<close>

definition i32_saturate :: "int \<Rightarrow> int" where
  "i32_saturate n = max i32_min (min i32_max n)"

text \<open>\<open>i64::try_from(content.len()).unwrap_or(i64::MAX)\<close>.\<close>

definition i64_len :: "'a list \<Rightarrow> int" where
  "i64_len xs = (if int (length xs) \<le> i64_max then int (length xs) else i64_max)"

lemma i32_saturate_id: "i32_min \<le> n \<Longrightarrow> n \<le> i32_max \<Longrightarrow> i32_saturate n = n"
  by (simp add: i32_saturate_def)

lemma i32_saturate_add_bounds: "0 \<le> n \<Longrightarrow> n < m \<Longrightarrow> 0 < i32_saturate (n + 1) \<and> i32_saturate (n + 1) \<le> m"
  by (auto simp: i32_saturate_def i32_min_def i32_max_def)

lemma i64_len_nonneg [simp]: "0 \<le> i64_len xs"
  by (simp add: i64_len_def i64_max_def)

section \<open>Strings\<close>

text \<open>\<open>str::starts_with\<close>, \<open>strip_prefix\<close> and \<open>ends_with\<close> on byte strings.\<close>

fun strip_prefix :: "'a list \<Rightarrow> 'a list \<Rightarrow> 'a list option" where
  "strip_prefix [] ys = Some ys"
| "strip_prefix (x # xs) [] = None"
| "strip_prefix (x # xs) (y # ys) = (if x = y then strip_prefix xs ys else None)"

definition starts_with :: "'a list \<Rightarrow> 'a list \<Rightarrow> bool" where
  "starts_with p s \<longleftrightarrow> strip_prefix p s \<noteq> None"

definition ends_with :: "'a list \<Rightarrow> 'a list \<Rightarrow> bool" where
  "ends_with p s \<longleftrightarrow> starts_with (rev p) (rev s)"

lemma strip_prefix_Some [simp]: "strip_prefix p s = Some r \<longleftrightarrow> s = p @ r"
  by (induction p s rule: strip_prefix.induct) auto

lemma strip_prefix_append [simp]: "strip_prefix p (p @ r) = Some r"
  by (simp only: strip_prefix_Some)

lemma starts_with_iff: "starts_with p s \<longleftrightarrow> (\<exists>r. s = p @ r)"
  by (auto simp: starts_with_def)

lemma ends_with_iff: "ends_with p s \<longleftrightarrow> (\<exists>r. s = r @ p)"
proof -
  have "(\<exists>r. rev s = rev p @ r) \<longleftrightarrow> (\<exists>r. s = r @ p)"
    by (metis rev_append rev_rev_ident)
  then show ?thesis by (simp add: ends_with_def starts_with_iff)
qed

text \<open>The ASCII classes of \<open>u8\<close> and \<open>char\<close> that the sources test.\<close>

definition ascii_lower :: "char \<Rightarrow> bool" where
  "ascii_lower c \<longleftrightarrow> CHR ''a'' \<le> c \<and> c \<le> CHR ''z''"

definition ascii_upper :: "char \<Rightarrow> bool" where
  "ascii_upper c \<longleftrightarrow> CHR ''A'' \<le> c \<and> c \<le> CHR ''Z''"

definition ascii_digit :: "char \<Rightarrow> bool" where
  "ascii_digit c \<longleftrightarrow> CHR ''0'' \<le> c \<and> c \<le> CHR ''9''"

definition ascii_hexdigit :: "char \<Rightarrow> bool" where
  "ascii_hexdigit c \<longleftrightarrow> ascii_digit c \<or> (CHR ''a'' \<le> c \<and> c \<le> CHR ''f'') \<or> (CHR ''A'' \<le> c \<and> c \<le> CHR ''F'')"

definition ascii_control :: "char \<Rightarrow> bool" where
  "ascii_control c \<longleftrightarrow> (of_char c :: nat) < 32 \<or> (of_char c :: nat) = 127"

subsection \<open>Characters of a UTF-8 text\<close>

text \<open>
  A Rust \<open>str\<close> is a valid UTF-8 byte string; \<open>len\<close> counts its bytes and \<open>chars\<close> its
  Unicode scalar values. \<open>utf8_split\<close> cuts the byte string into the bytes of each character,
  by the length that the leading byte announces.
\<close>

fun utf8_width :: "char \<Rightarrow> nat" where
  "utf8_width c =
     (let x = (of_char c :: nat) in if x < 192 then 1 else if x < 224 then 2 else if x < 240 then 3 else 4)"

function utf8_split :: "char list \<Rightarrow> char list list" where
  "utf8_split [] = []"
| "utf8_split (c # s) = (c # take (utf8_width c - 1) s) # utf8_split (drop (utf8_width c - 1) s)"
  by pat_completeness auto
termination
  by (relation "measure length") auto

fun code_point :: "char list \<Rightarrow> nat" where
  "code_point [] = 0"
| "code_point (c # s) =
     foldl (\<lambda>acc b. acc * 64 + (of_char b :: nat) mod 64)
       (let x = (of_char c :: nat) in
        if x < 192 then x else if x < 224 then x mod 32 else if x < 240 then x mod 16 else x mod 8) s"

text \<open>\<open>char::is_whitespace\<close> (Unicode \<open>White_Space\<close>) and \<open>char::is_control\<close> (\<open>Cc\<close>).\<close>

definition char_is_whitespace :: "char list \<Rightarrow> bool" where
  "char_is_whitespace g =
     (let p = code_point g in
      (9 \<le> p \<and> p \<le> 13) \<or> p = 32 \<or> p = 133 \<or> p = 160 \<or> p = 5760 \<or> (8192 \<le> p \<and> p \<le> 8202) \<or>
      p = 8232 \<or> p = 8233 \<or> p = 8239 \<or> p = 8287 \<or> p = 12288)"

definition char_is_control :: "char list \<Rightarrow> bool" where
  "char_is_control g = (let p = code_point g in p < 32 \<or> (127 \<le> p \<and> p \<le> 159))"

text \<open>\<open>str::trim\<close>, \<open>s.chars().any(p)\<close> and \<open>s.chars().count()\<close>.\<close>

definition trim :: "char list \<Rightarrow> char list" where
  "trim s = concat (rev (dropWhile char_is_whitespace (rev (dropWhile char_is_whitespace (utf8_split s)))))"

definition chars_any :: "(char list \<Rightarrow> bool) \<Rightarrow> char list \<Rightarrow> bool" where
  "chars_any p s = list_ex p (utf8_split s)"

definition chars_count :: "char list \<Rightarrow> nat" where
  "chars_count s = length (utf8_split s)"

lemma concat_utf8_split [simp]: "concat (utf8_split s) = s"
  by (induction s rule: utf8_split.induct) auto

lemma trim_Nil [simp]: "trim [] = []"
  by (simp add: trim_def)

lemma length_utf8_split: "length (utf8_split s) \<le> length s"
proof (induction s rule: utf8_split.induct)
  case (2 c s)
  have "length (drop (utf8_width c - 1) s) \<le> length s" by simp
  with 2 show ?case by simp
qed simp

lemma length_concat_dropWhile: "length (concat (dropWhile p xs)) \<le> length (concat xs)"
  by (induction xs) auto

lemma length_concat_rev: "length (concat (rev xs)) = length (concat xs)"
  by (induction xs) auto

lemma length_trim: "length (trim s) \<le> length s"
proof -
  let ?d = "dropWhile char_is_whitespace (utf8_split s)"
  have "length (trim s) \<le> length (concat (rev ?d))"
    unfolding trim_def
    by (subst length_concat_rev) (rule length_concat_dropWhile)
  also have "\<dots> \<le> length (concat (utf8_split s))"
    unfolding length_concat_rev by (rule length_concat_dropWhile)
  finally show ?thesis by simp
qed

section \<open>JSON values\<close>

datatype json = JNull | JBool bool | JNum int | JStr string | JArr "json list" | JObj "(string \<times> json) list"

text \<open>\<open>Value::get\<close> with a string key and \<open>Value::as_str\<close>.\<close>

fun json_get :: "json \<Rightarrow> string \<Rightarrow> json option" where
  "json_get (JObj kvs) k = map_of kvs k"
| "json_get _ k = None"

fun json_as_str :: "json \<Rightarrow> string option" where
  "json_as_str (JStr s) = Some s"
| "json_as_str _ = None"

section \<open>SQL statements on tables\<close>

definition update_where :: "('r \<Rightarrow> bool) \<Rightarrow> ('r \<Rightarrow> 'r) \<Rightarrow> 'r list \<Rightarrow> 'r list" where
  [sql_defs]: "update_where P f t = map (\<lambda>r. if P r then f r else r) t"

definition delete_where :: "('r \<Rightarrow> bool) \<Rightarrow> 'r list \<Rightarrow> 'r list" where
  [sql_defs]: "delete_where P t = filter (\<lambda>r. \<not> P r) t"

definition rows_affected :: "('r \<Rightarrow> bool) \<Rightarrow> 'r list \<Rightarrow> nat" where
  [sql_defs]: "rows_affected P t = length (filter P t)"

definition exists_where :: "('r \<Rightarrow> bool) \<Rightarrow> 'r list \<Rightarrow> bool" where
  [sql_defs]: "exists_where P t = list_ex P t"

definition count_where :: "('r \<Rightarrow> bool) \<Rightarrow> 'r list \<Rightarrow> int" where
  [sql_defs]: "count_where P t = int (length (filter P t))"

text \<open>\<open>INSERT\<close>: \<open>conflict r r'\<close> says that two rows violate a unique constraint.\<close>

definition insert_row :: "('r \<Rightarrow> 'r \<Rightarrow> bool) \<Rightarrow> 'r \<Rightarrow> 'r list \<Rightarrow> 'r list option" where
  [sql_defs]: "insert_row conflict r t = (if list_ex (conflict r) t then None else Some (t @ [r]))"

text \<open>\<open>SELECT ... ORDER BY k LIMIT 1\<close>: a row with the least key, the earliest on a tie.\<close>

definition first_by :: "('r \<Rightarrow> 'k::linorder) \<Rightarrow> 'r list \<Rightarrow> 'r option" where
  [sql_defs]: "first_by k t = (case sort_key k t of [] \<Rightarrow> None | r # _ \<Rightarrow> Some r)"

text \<open>A comparison with a nullable column is not true when the column is null.\<close>

definition null_le :: "int option \<Rightarrow> int \<Rightarrow> bool" where
  "null_le x n = (case x of None \<Rightarrow> False | Some y \<Rightarrow> y \<le> n)"

definition null_gt :: "int option \<Rightarrow> int \<Rightarrow> bool" where
  "null_gt x n = (case x of None \<Rightarrow> False | Some y \<Rightarrow> n < y)"

lemma null_le_simps [simp]: "null_le None n = False" "null_le (Some y) n = (y \<le> n)"
  by (simp_all add: null_le_def)

lemma null_gt_simps [simp]: "null_gt None n = False" "null_gt (Some y) n = (n < y)"
  by (simp_all add: null_gt_def)

subsection \<open>Rows after a statement\<close>

lemma in_update_where:
  "r \<in> set (update_where P f t) \<longleftrightarrow> (\<exists>r0 \<in> set t. r = (if P r0 then f r0 else r0))"
  by (auto simp: update_where_def)

lemma in_delete_where [simp]: "r \<in> set (delete_where P t) \<longleftrightarrow> r \<in> set t \<and> \<not> P r"
  by (auto simp: delete_where_def)

lemma update_where_Nil [simp]: "update_where P f [] = []"
  by (simp add: update_where_def)

lemma length_update_where [simp]: "length (update_where P f t) = length t"
  by (simp add: update_where_def)

lemma map_update_where:
  "(\<And>r. P r \<Longrightarrow> k (f r) = k r) \<Longrightarrow> map k (update_where P f t) = map k t"
  by (induction t) (auto simp: update_where_def)

lemma update_where_none: "(\<And>r. r \<in> set t \<Longrightarrow> \<not> P r) \<Longrightarrow> update_where P f t = t"
  by (induction t) (auto simp: update_where_def)

lemma delete_where_none: "(\<And>r. r \<in> set t \<Longrightarrow> \<not> P r) \<Longrightarrow> delete_where P t = t"
  by (induction t) (auto simp: delete_where_def)

lemma distinct_map_delete_where: "distinct (map k t) \<Longrightarrow> distinct (map k (delete_where P t))"
  by (induction t) (auto simp: delete_where_def)

lemma exists_where_iff [simp]: "exists_where P t \<longleftrightarrow> (\<exists>r \<in> set t. P r)"
  by (auto simp: exists_where_def list_ex_iff)

lemma count_where_nonneg [simp]: "0 \<le> count_where P t"
  by (simp add: count_where_def)

lemma count_where_mono: "(\<And>r. r \<in> set t \<Longrightarrow> P r \<Longrightarrow> Q r) \<Longrightarrow> count_where P t \<le> count_where Q t"
  by (induction t) (auto simp: count_where_def)

lemma count_where_append [simp]: "count_where P (s @ t) = count_where P s + count_where P t"
  by (simp add: count_where_def)

lemma count_where_single [simp]: "count_where P [r] = (if P r then 1 else 0)"
  by (simp add: count_where_def)

lemma count_where_pos: "0 < count_where P t \<longleftrightarrow> (\<exists>r \<in> set t. P r)"
  by (auto simp: count_where_def filter_empty_conv)

lemma find_update_where:
  assumes "\<And>x. Q (f x) = Q x"
  shows "find Q (update_where P f t) = map_option (\<lambda>x. if P x then f x else x) (find Q t)"
  using assms by (induction t) (auto simp: update_where_def)

lemma count_update_where_le:
  "(\<And>r. r \<in> set t \<Longrightarrow> P r \<Longrightarrow> Q (f r) \<Longrightarrow> Q r) \<Longrightarrow>
   count_where Q (update_where P f t) \<le> count_where Q t"
proof (induction t)
  case Nil
  then show ?case by (simp add: count_where_def)
next
  case (Cons r t)
  then have "count_where Q (update_where P f t) \<le> count_where Q t" by simp
  with Cons.prems show ?case by (auto simp: count_where_def update_where_def)
qed

lemma count_delete_where_le: "count_where Q (delete_where P t) \<le> count_where Q t"
  by (induction t) (auto simp: count_where_def delete_where_def)

lemma insert_row_Some [simp]:
  "insert_row c r t = Some t' \<longleftrightarrow> (\<forall>r' \<in> set t. \<not> c r r') \<and> t' = t @ [r]"
  by (auto simp: insert_row_def list_ex_iff)

lemma insert_row_None [simp]: "insert_row c r t = None \<longleftrightarrow> (\<exists>r' \<in> set t. c r r')"
  by (auto simp: insert_row_def list_ex_iff)

lemma first_by_Some:
  assumes "first_by k t = Some r"
  shows "r \<in> set t" and "\<And>r'. r' \<in> set t \<Longrightarrow> k r \<le> k r'"
proof -
  from assms obtain rs where s: "sort_key k t = r # rs"
    by (auto simp: first_by_def split: list.splits)
  then have st: "set t = set (r # rs)" by (metis set_sort)
  then show "r \<in> set t" by simp
  have "sorted (map k (r # rs))" using s by (metis sorted_sort_key)
  then show "\<And>r'. r' \<in> set t \<Longrightarrow> k r \<le> k r'" using st by auto
qed

lemma first_by_None [simp]: "first_by k t = None \<longleftrightarrow> t = []"
proof -
  have "sort_key k t = [] \<longleftrightarrow> t = []" by (metis length_0_conv length_sort)
  then show ?thesis by (auto simp: first_by_def split: list.splits)
qed

lemma find_Some_set: "find P t = Some r \<Longrightarrow> r \<in> set t \<and> P r"
  by (auto simp: find_Some_iff)

lemma find_None_set: "find P t = None \<longleftrightarrow> (\<forall>r \<in> set t. \<not> P r)"
  by (auto simp: find_None_iff)

text \<open>Rows with distinct keys: a key determines its row.\<close>

lemma key_unique:
  "distinct (map k t) \<Longrightarrow> r \<in> set t \<Longrightarrow> r' \<in> set t \<Longrightarrow> k r = k r' \<Longrightarrow> r = r'"
  by (induction t) (auto simp: image_iff)

lemma find_key: "distinct (map k t) \<Longrightarrow> r \<in> set t \<Longrightarrow> find (\<lambda>x. k x = k r) t = Some r"
  by (induction t) (auto simp: image_iff)

lemma rows_affected_key:
  "distinct (map k t) \<Longrightarrow> (\<And>r. P r \<Longrightarrow> k r = i) \<Longrightarrow> r \<in> set t \<Longrightarrow> P r \<Longrightarrow> rows_affected P t = 1"
proof (induction t)
  case Nil
  then show ?case by simp
next
  case (Cons x t)
  show ?case
  proof (cases "P x")
    case True
    with Cons.prems have "filter P t = []" by (force simp: filter_empty_conv image_iff)
    with True show ?thesis by (simp add: rows_affected_def)
  next
    case False
    with Cons show ?thesis by (auto simp: rows_affected_def)
  qed
qed

lemma rows_affected_zero: "rows_affected P t = 0 \<longleftrightarrow> (\<forall>r \<in> set t. \<not> P r)"
  by (auto simp: rows_affected_def filter_empty_conv)

section \<open>Interfaces\<close>

subsection \<open>Transition systems with an invariant\<close>

text \<open>
  A component whose operations are total functions on its state: \<open>step e s\<close> is the state
  after event \<open>e\<close>. The provider shows that its invariant holds initially and is kept by
  every event; the client gets it for every run.
\<close>

fun run_events :: "('e \<Rightarrow> 's \<Rightarrow> 's) \<Rightarrow> 'e list \<Rightarrow> 's \<Rightarrow> 's" where
  "run_events step [] s = s"
| "run_events step (e # es) s = run_events step es (step e s)"

lemma run_events_append: "run_events step (es @ fs) s = run_events step fs (run_events step es s)"
  by (induction es arbitrary: s) auto

locale transition_system =
  fixes step :: "'e \<Rightarrow> 's \<Rightarrow> 's"
    and start :: "'s"
    and inv :: "'s \<Rightarrow> bool"
  assumes inv_start: "inv start"
    and inv_step: "inv s \<Longrightarrow> inv (step e s)"
begin

lemma inv_run_from: "inv s \<Longrightarrow> inv (run_events step es s)"
  by (induction es arbitrary: s) (auto intro: inv_step)

lemma inv_run: "inv (run_events step es start)"
  by (rule inv_run_from [OF inv_start])

text \<open>A relation between consecutive states that is reflexive and transitive holds along runs.\<close>

lemma run_relation:
  assumes "\<And>s. R s s" and "\<And>a b c. R a b \<Longrightarrow> R b c \<Longrightarrow> R a c"
    and "\<And>s e. inv s \<Longrightarrow> R s (step e s)" and "inv s"
  shows "R s (run_events step es s)"
  using assms(4)
proof (induction es arbitrary: s)
  case Nil
  show ?case using assms(1) by simp
next
  case (Cons e es)
  have "R (step e s) (run_events step es (step e s))"
    by (rule Cons.IH) (rule inv_step [OF Cons.prems])
  with assms(2) assms(3) [OF Cons.prems] show ?case by simp blast
qed

end

subsection \<open>Leases fenced by a token\<close>

text \<open>
  A lease protects one resource of the state. \<open>holder s\<close> is the token that currently owns it;
  \<open>acquire t now s\<close> is the state in which \<open>t\<close> owns it, if it can be taken at \<open>now\<close>;
  \<open>commit t now s\<close> is a mutation issued by the owner \<open>t\<close>, which must not act for anybody
  else and which gives the lease up when it acts.
\<close>

locale fenced_lease =
  fixes ok :: "'s \<Rightarrow> bool"
    and holder :: "'s \<Rightarrow> 't option"
    and acquire :: "'t \<Rightarrow> instant \<Rightarrow> 's \<Rightarrow> 's option"
    and commit :: "'t \<Rightarrow> instant \<Rightarrow> 's \<Rightarrow> 's"
  assumes acquire_ok: "ok s \<Longrightarrow> acquire t now s = Some s' \<Longrightarrow> ok s'"
    and acquire_holder: "ok s \<Longrightarrow> acquire t now s = Some s' \<Longrightarrow> holder s' = Some t"
    and commit_ok: "ok s \<Longrightarrow> ok (commit t now s)"
    and commit_fenced: "ok s \<Longrightarrow> holder s \<noteq> Some t \<Longrightarrow> commit t now s = s"
    and commit_releases: "ok s \<Longrightarrow> commit t now s \<noteq> s \<Longrightarrow> holder (commit t now s) = None"
begin

lemma superseded_is_fenced:
  "ok s \<Longrightarrow> acquire t2 now s = Some s' \<Longrightarrow> t1 \<noteq> t2 \<Longrightarrow> commit t1 now' s' = s'"
  by (rule commit_fenced) (simp_all add: acquire_ok acquire_holder)

lemma commit_once:
  assumes "ok s"
  shows "commit t now' (commit t now s) = commit t now s \<or> commit t now s = s"
proof (cases "commit t now s = s")
  case True
  then show ?thesis by simp
next
  case False
  then have "holder (commit t now s) \<noteq> Some t" using assms by (simp add: commit_releases)
  then show ?thesis using assms by (simp add: commit_fenced commit_ok)
qed

end

end
