(* ===== verification/Processing_Model.thy ===== *)
theory Processing_Model
  imports Toss_Prelude
begin

text \<open>
  Domain values of Document Processing: \<open>document_processing/model.rs\<close>,
  \<open>operation_contract.rs\<close> and the value enums of \<open>worker_protocol.rs\<close>. Every enum keeps the
  source's constructors; \<open>as_ref\<close> and \<open>from_str\<close> are what the macro \<open>text_enum!\<close> generates.
\<close>

section \<open>Project types\<close>

datatype project_type = Typst | Latex

section \<open>Retry delay\<close>

text \<open>
  \<open>u32::try_from(n.saturating_sub(1)).unwrap_or(0).min(5)\<close>, then \<open>1_i64.checked_shl(shift)\<close>,
  which is \<open>None\<close> only for a shift of at least 64.
\<close>

definition i64_checked_shl_one :: "nat \<Rightarrow> int option" where
  "i64_checked_shl_one s = (if s < 64 then Some (if s = 63 then - (2 ^ 63) else 2 ^ s) else None)"

definition retry_shift :: "int \<Rightarrow> nat" where
  "retry_shift attempt_count =
     (let n = i32_saturate (attempt_count - 1) in min (if n < 0 then 0 else nat n) 5)"

definition processing_retry_delay :: "int \<Rightarrow> duration" where
  "processing_retry_delay attempt_count =
     seconds (min (case i64_checked_shl_one (retry_shift attempt_count) of None \<Rightarrow> 30 | Some n \<Rightarrow> n) 30)"

section \<open>Operations\<close>

datatype processing_operation = LatexCompilePdfV1 | TypstExportPptxV1 | PptxImportTypstV1

fun operation_as_ref :: "processing_operation \<Rightarrow> string" where
  "operation_as_ref LatexCompilePdfV1 = ''latex.compile.pdf/v1''"
| "operation_as_ref TypstExportPptxV1 = ''typst.export.pptx/v1''"
| "operation_as_ref PptxImportTypstV1 = ''pptx.import.typst/v1''"

definition operation_from_str :: "string \<Rightarrow> processing_operation option" where
  "operation_from_str value =
     (if value = ''latex.compile.pdf/v1'' then Some LatexCompilePdfV1
      else if value = ''typst.export.pptx/v1'' then Some TypstExportPptxV1
      else if value = ''pptx.import.typst/v1'' then Some PptxImportTypstV1
      else None)"

fun operation_project_type :: "processing_operation \<Rightarrow> project_type option" where
  "operation_project_type LatexCompilePdfV1 = Some Latex"
| "operation_project_type TypstExportPptxV1 = Some Typst"
| "operation_project_type PptxImportTypstV1 = None"

fun operation_result_project_type :: "processing_operation \<Rightarrow> project_type option" where
  "operation_result_project_type PptxImportTypstV1 = Some Typst"
| "operation_result_project_type LatexCompilePdfV1 = None"
| "operation_result_project_type TypstExportPptxV1 = None"

section \<open>Job states and phases\<close>

datatype job_state =
    Preparing | Queued | Running | Finalizing | Succeeded | Failed | Cancelled | Expired

fun job_state_as_ref :: "job_state \<Rightarrow> string" where
  "job_state_as_ref Preparing = ''preparing''"
| "job_state_as_ref Queued = ''queued''"
| "job_state_as_ref Running = ''running''"
| "job_state_as_ref Finalizing = ''finalizing''"
| "job_state_as_ref Succeeded = ''succeeded''"
| "job_state_as_ref Failed = ''failed''"
| "job_state_as_ref Cancelled = ''cancelled''"
| "job_state_as_ref Expired = ''expired''"

definition job_state_from_str :: "string \<Rightarrow> job_state option" where
  "job_state_from_str value =
     (if value = ''preparing'' then Some Preparing
      else if value = ''queued'' then Some Queued
      else if value = ''running'' then Some Running
      else if value = ''finalizing'' then Some Finalizing
      else if value = ''succeeded'' then Some Succeeded
      else if value = ''failed'' then Some Failed
      else if value = ''cancelled'' then Some Cancelled
      else if value = ''expired'' then Some Expired
      else None)"

fun is_terminal :: "job_state \<Rightarrow> bool" where
  "is_terminal Succeeded = True"
| "is_terminal Failed = True"
| "is_terminal Cancelled = True"
| "is_terminal Expired = True"
| "is_terminal _ = False"

datatype processing_phase =
    CapturingInput | WaitingForWorker | Processing | UploadingResult | ValidatingResult
  | PublishingResult | Complete

text \<open>The states that the admission queries count, \<open>array['preparing', 'queued', 'running', 'finalizing']\<close>.\<close>

definition active_state :: "job_state \<Rightarrow> bool" where
  "active_state s \<longleftrightarrow> s \<in> {Preparing, Queued, Running, Finalizing}"

section \<open>Worker protocol enums\<close>

datatype session_state = Active_session | Draining_session | Expired_session

datatype attempt_state =
    Running_attempt | Delivered_attempt | Failed_attempt | Released_attempt | Lost_attempt
  | Cancelled_attempt

datatype transfer_direction = Download | Upload

datatype transfer_state = Issued | Uploaded | Consumed | Expired_transfer

datatype claim_heartbeat_state = Active | CancellationRequested | ClaimLost | JobTerminal

datatype worker_failure_class =
    InvalidInput | ProcessorRejected | UnsupportedDependency | ResourceLimit
  | TransientInfrastructure | WorkerInterrupted | InternalContractViolation

fun failure_class_as_ref :: "worker_failure_class \<Rightarrow> string" where
  "failure_class_as_ref InvalidInput = ''invalid_input''"
| "failure_class_as_ref ProcessorRejected = ''processor_rejected''"
| "failure_class_as_ref UnsupportedDependency = ''unsupported_dependency''"
| "failure_class_as_ref ResourceLimit = ''resource_limit''"
| "failure_class_as_ref TransientInfrastructure = ''transient_infrastructure''"
| "failure_class_as_ref WorkerInterrupted = ''worker_interrupted''"
| "failure_class_as_ref InternalContractViolation = ''internal_contract_violation''"

fun retryable :: "worker_failure_class \<Rightarrow> bool" where
  "retryable TransientInfrastructure = True"
| "retryable WorkerInterrupted = True"
| "retryable _ = False"

section \<open>Operation contracts\<close>

datatype artifact_size_class = Output | Diagnostic

record artifact_contract =
  ac_role :: string
  ac_media_type :: string
  ac_filename_suffix :: string
  ac_size_class :: artifact_size_class
  ac_required :: bool

datatype finalization_kind = PdfArtifacts | PptxArtifacts | TypstWorkspace

record operation_contract =
  oc_input_schema :: string
  oc_input_media_type :: string
  oc_artifacts :: "artifact_contract list"
  oc_finalization :: finalization_kind

definition pptx_media_type :: string where
  "pptx_media_type = ''application/vnd.openxmlformats-officedocument.presentationml.presentation''"

definition project_bundle_media_type :: string where
  "project_bundle_media_type = ''application/vnd.toss.project-bundle+zip''"

definition typst_project_bundle_media_type :: string where
  "typst_project_bundle_media_type = ''application/vnd.toss.typst-project-bundle+zip''"

definition workspace_bundle_media_type :: string where
  "workspace_bundle_media_type = ''application/vnd.toss.workspace-bundle+zip''"

definition latex_artifacts :: "artifact_contract list" where
  "latex_artifacts =
     [\<lparr>ac_role = ''pdf'', ac_media_type = ''application/pdf'', ac_filename_suffix = ''.pdf'',
       ac_size_class = Output, ac_required = True\<rparr>,
      \<lparr>ac_role = ''log'', ac_media_type = ''text/plain'', ac_filename_suffix = ''.log'',
       ac_size_class = Diagnostic, ac_required = False\<rparr>]"

definition pptx_export_artifacts :: "artifact_contract list" where
  "pptx_export_artifacts =
     [\<lparr>ac_role = ''pptx'', ac_media_type = pptx_media_type, ac_filename_suffix = ''.pptx'',
       ac_size_class = Output, ac_required = True\<rparr>,
      \<lparr>ac_role = ''report'', ac_media_type = ''application/json'', ac_filename_suffix = ''.json'',
       ac_size_class = Diagnostic, ac_required = True\<rparr>]"

definition pptx_import_artifacts :: "artifact_contract list" where
  "pptx_import_artifacts =
     [\<lparr>ac_role = ''workspace'', ac_media_type = workspace_bundle_media_type,
       ac_filename_suffix = ''.zip'', ac_size_class = Output, ac_required = True\<rparr>,
      \<lparr>ac_role = ''report'', ac_media_type = ''application/json'', ac_filename_suffix = ''.json'',
       ac_size_class = Diagnostic, ac_required = True\<rparr>]"

fun contract :: "processing_operation \<Rightarrow> operation_contract" where
  "contract LatexCompilePdfV1 =
     \<lparr>oc_input_schema = ''project-bundle/v1'', oc_input_media_type = project_bundle_media_type,
      oc_artifacts = latex_artifacts, oc_finalization = PdfArtifacts\<rparr>"
| "contract TypstExportPptxV1 =
     \<lparr>oc_input_schema = ''typst-project-bundle/v1'',
      oc_input_media_type = typst_project_bundle_media_type,
      oc_artifacts = pptx_export_artifacts, oc_finalization = PptxArtifacts\<rparr>"
| "contract PptxImportTypstV1 =
     \<lparr>oc_input_schema = ''pptx-input/v1'', oc_input_media_type = pptx_media_type,
      oc_artifacts = pptx_import_artifacts, oc_finalization = TypstWorkspace\<rparr>"

definition contract_artifact :: "operation_contract \<Rightarrow> string \<Rightarrow> artifact_contract option" where
  "contract_artifact c role = find (\<lambda>a. ac_role a = role) (oc_artifacts c)"

lemmas contract_table_defs = latex_artifacts_def pptx_export_artifacts_def pptx_import_artifacts_def

section \<open>Properties\<close>

lemma operation_from_as_ref: "operation_from_str (operation_as_ref op) = Some op"
  by (cases op) (simp_all add: operation_from_str_def)

lemma operation_from_str_Some: "operation_from_str s = Some op \<Longrightarrow> s = operation_as_ref op"
  by (auto simp: operation_from_str_def split: if_splits)

lemma job_state_from_as_ref: "job_state_from_str (job_state_as_ref st) = Some st"
  by (cases st) (simp_all add: job_state_from_str_def)

lemma job_state_from_str_Some: "job_state_from_str s = Some st \<Longrightarrow> s = job_state_as_ref st"
  by (auto simp: job_state_from_str_def split: if_splits)

lemma inj_operation_as_ref: "inj operation_as_ref"
  by (rule injI) (metis operation_from_as_ref option.inject)

lemma active_state_iff: "active_state s \<longleftrightarrow> \<not> is_terminal s"
  by (cases s) (auto simp: active_state_def)

lemma retry_shift_eq:
  assumes "1 \<le> n" and "n \<le> i32_max"
  shows "retry_shift n = min (nat (n - 1)) 5"
  using assms by (simp add: retry_shift_def i32_saturate_id i32_min_def)

lemma retry_shift_le: "retry_shift n \<le> 5"
  by (simp add: retry_shift_def Let_def)

lemma retry_delay_shift: "processing_retry_delay n = seconds (min (2 ^ retry_shift n) 30)"
  using retry_shift_le [of n] by (simp add: processing_retry_delay_def i64_checked_shl_one_def)

lemma retry_delay_bounds: "seconds 1 \<le> processing_retry_delay n \<and> processing_retry_delay n \<le> seconds 30"
  by (simp add: retry_delay_shift)

lemma retry_delay_mono:
  assumes "1 \<le> m" and "m \<le> n" and "n \<le> i32_max"
  shows "processing_retry_delay m \<le> processing_retry_delay n"
proof -
  have "retry_shift m \<le> retry_shift n" using assms by (simp add: retry_shift_eq)
  then have "(2::int) ^ retry_shift m \<le> 2 ^ retry_shift n" by simp
  then show ?thesis by (simp add: retry_delay_shift min_le_iff_disj)
qed

lemma contract_artifact_Some:
  "contract_artifact c role = Some a \<Longrightarrow> a \<in> set (oc_artifacts c) \<and> ac_role a = role"
  by (auto simp: contract_artifact_def dest: find_Some_set)

text \<open>Roles are unique inside a contract, so the lookup by role is exact.\<close>

lemma contract_roles_distinct: "distinct (map ac_role (oc_artifacts (contract op)))"
  by (cases op) (simp_all add: contract_table_defs)

lemma contract_artifact_lookup:
  assumes "a \<in> set (oc_artifacts (contract op))"
  shows "contract_artifact (contract op) (ac_role a) = Some a"
  unfolding contract_artifact_def using contract_roles_distinct assms by (rule find_key)

end
