(* ===== verification/Processing_Config.thy ===== *)
theory Processing_Config
  imports Processing_Model
begin

text \<open>
  \<open>document_processing/config.rs\<close>: the deployment's worker identities, their allow-lists of
  processor contracts, the resource policy, and the authentication of a worker request.
  SHA-256 and the contents of the token files are parameters: \<open>sha256\<close> is the digest function
  and \<open>read_file\<close> gives the text of a file, \<open>None\<close> when it cannot be read. A \<open>HashMap\<close> or
  \<open>HashSet\<close> is a list without repetitions.
\<close>

section \<open>Configuration values\<close>

type_synonym operation_table = "(processing_operation \<times> string list) list"

record worker_identity =
  wi_id :: string
  wi_token_fingerprint :: bytes
  wi_operations :: operation_table

record authenticated_worker =
  aw_identity :: string
  aw_operations :: operation_table

record worker_operation_input =
  oi_id :: string
  oi_processor_contracts :: "string list"

record worker_identity_input =
  ii_id :: string
  ii_token_file :: string
  ii_operations :: "worker_operation_input list"

record processing_config_file =
  cf_worker_identities :: "worker_identity_input list"
  cf_max_queued_jobs :: int
  cf_max_active_jobs_per_user :: int
  cf_max_active_jobs_per_project :: int
  cf_max_input_bytes :: int
  cf_max_output_bytes :: int
  cf_max_diagnostic_bytes :: int
  cf_job_wall_seconds :: int
  cf_queue_wait_seconds :: int
  cf_retention_seconds :: int
  cf_claim_lease_seconds :: int
  cf_session_lease_seconds :: int
  cf_transfer_seconds :: int
  cf_finalization_lease_seconds :: int

record processing_config =
  c_identities :: "worker_identity list"
  c_max_queued_jobs :: int
  c_max_active_jobs_per_user :: int
  c_max_active_jobs_per_project :: int
  c_max_input_bytes :: int
  c_max_output_bytes :: int
  c_max_diagnostic_bytes :: int
  c_job_wall_seconds :: int
  c_queue_wait :: duration
  c_retention :: duration
  c_claim_lease :: duration
  c_session_lease :: duration
  c_transfer_ttl :: duration
  c_finalization_lease :: duration

definition default_config_file :: processing_config_file where
  "default_config_file =
     \<lparr>cf_worker_identities = [],
      cf_max_queued_jobs = 100, cf_max_active_jobs_per_user = 4, cf_max_active_jobs_per_project = 2,
      cf_max_input_bytes = 128 * 1024 * 1024, cf_max_output_bytes = 64 * 1024 * 1024,
      cf_max_diagnostic_bytes = 64 * 1024, cf_job_wall_seconds = 300,
      cf_queue_wait_seconds = 24 * 60 * 60, cf_retention_seconds = 7 * 24 * 60 * 60,
      cf_claim_lease_seconds = 45, cf_session_lease_seconds = 60, cf_transfer_seconds = 300,
      cf_finalization_lease_seconds = 60\<rparr>"

text \<open>One constructor per message that \<open>from_config\<close> and \<open>parse_identities\<close> return.\<close>

datatype config_error =
    IdentityIdInvalid
  | DuplicateIdentity string
  | TokenFileUnreadable string
  | TokenInvalid string
  | TokensNotUnique
  | UnknownOperation string string
  | NoProcessorContract string string
  | InvalidProcessorContract string
  | RepeatedProcessorContract string
  | RepeatedOperation string string
  | NoOperations string
  | NotPositive string

section \<open>Parsing the identities\<close>

definition valid_processor_contract :: "string \<Rightarrow> bool" where
  "valid_processor_contract value =
     (case strip_prefix ''sha256:'' value of
        None \<Rightarrow> False
      | Some digest \<Rightarrow> length digest = 64 \<and> list_all ascii_hexdigit digest)"

text \<open>The loop over the contracts of one operation; the accumulator is the set read so far.\<close>

fun parse_contracts :: "string \<Rightarrow> string list \<Rightarrow> string list \<Rightarrow> config_error + string list" where
  "parse_contracts ident acc [] = Inr acc"
| "parse_contracts ident acc (c # cs) =
     (if \<not> valid_processor_contract c then Inl (InvalidProcessorContract ident)
      else if c \<in> set acc then Inl (RepeatedProcessorContract ident)
      else parse_contracts ident (acc @ [c]) cs)"

fun parse_operations ::
  "string \<Rightarrow> operation_table \<Rightarrow> worker_operation_input list \<Rightarrow> config_error + operation_table" where
  "parse_operations ident acc [] = Inr acc"
| "parse_operations ident acc (opn # ops) =
     (case operation_from_str (oi_id opn) of
        None \<Rightarrow> Inl (UnknownOperation ident (oi_id opn))
      | Some operation_id \<Rightarrow>
          if oi_processor_contracts opn = [] then Inl (NoProcessorContract ident (oi_id opn))
          else (case parse_contracts ident [] (oi_processor_contracts opn) of
                  Inl e \<Rightarrow> Inl e
                | Inr contracts \<Rightarrow>
                    if operation_id \<in> fst ` set acc then Inl (RepeatedOperation ident (oi_id opn))
                    else parse_operations ident (acc @ [(operation_id, contracts)]) ops))"

definition valid_identity_id :: "string \<Rightarrow> bool" where
  "valid_identity_id i \<longleftrightarrow>
     \<not> (i = [] \<or> 64 < length i \<or>
        \<not> list_all (\<lambda>b. ascii_lower b \<or> ascii_digit b \<or> b = CHR ''-'') i)"

definition invalid_token :: "string \<Rightarrow> bool" where
  "invalid_token token \<longleftrightarrow>
     length token < 32 \<or> 512 < length token \<or> chars_any char_is_whitespace token \<or>
     chars_any char_is_control token"

text \<open>One turn of the loop of \<open>parse_identities\<close>; \<open>acc\<close> holds the identities read so far.\<close>

definition parse_identity ::
  "(bytes \<Rightarrow> bytes) \<Rightarrow> (string \<Rightarrow> string option) \<Rightarrow> worker_identity list \<Rightarrow> worker_identity_input \<Rightarrow>
   config_error + worker_identity" where
  "parse_identity sha256 read_file acc input =
     (if \<not> valid_identity_id (ii_id input) then Inl IdentityIdInvalid
      else if ii_id input \<in> wi_id ` set acc then Inl (DuplicateIdentity (ii_id input))
      else (case read_file (ii_token_file input) of
              None \<Rightarrow> Inl (TokenFileUnreadable (ii_id input))
            | Some text \<Rightarrow>
                let token = trim text in
                if invalid_token token then Inl (TokenInvalid (ii_id input))
                else let token_fingerprint = sha256 token in
                  if token_fingerprint \<in> wi_token_fingerprint ` set acc then Inl TokensNotUnique
                  else (case parse_operations (ii_id input) [] (ii_operations input) of
                          Inl e \<Rightarrow> Inl e
                        | Inr operations \<Rightarrow>
                            if operations = [] then Inl (NoOperations (ii_id input))
                            else Inr \<lparr>wi_id = ii_id input, wi_token_fingerprint = token_fingerprint,
                                      wi_operations = operations\<rparr>)))"

fun parse_identities_loop ::
  "(bytes \<Rightarrow> bytes) \<Rightarrow> (string \<Rightarrow> string option) \<Rightarrow> worker_identity list \<Rightarrow>
   worker_identity_input list \<Rightarrow> config_error + worker_identity list" where
  "parse_identities_loop sha256 read_file acc [] = Inr acc"
| "parse_identities_loop sha256 read_file acc (input # inputs) =
     (case parse_identity sha256 read_file acc input of
        Inl e \<Rightarrow> Inl e
      | Inr i \<Rightarrow> parse_identities_loop sha256 read_file (acc @ [i]) inputs)"

definition parse_identities ::
  "(bytes \<Rightarrow> bytes) \<Rightarrow> (string \<Rightarrow> string option) \<Rightarrow> worker_identity_input list \<Rightarrow>
   config_error + worker_identity list" where
  "parse_identities sha256 read_file inputs = parse_identities_loop sha256 read_file [] inputs"

section \<open>The configuration\<close>

definition positive :: "string \<Rightarrow> int \<Rightarrow> config_error + int" where
  "positive name value = (if 0 < value then Inr value else Inl (NotPositive name))"

text \<open>The fields are checked in the source's order; the first that is not positive is reported.\<close>

fun all_positive :: "(string \<times> int) list \<Rightarrow> config_error option" where
  "all_positive [] = None"
| "all_positive ((name, value) # rest) =
     (case positive name value of Inl e \<Rightarrow> Some e | Inr _ \<Rightarrow> all_positive rest)"

definition from_config ::
  "(bytes \<Rightarrow> bytes) \<Rightarrow> (string \<Rightarrow> string option) \<Rightarrow> processing_config_file \<Rightarrow> config_error + processing_config" where
  "from_config sha256 read_file f =
     (case parse_identities sha256 read_file (cf_worker_identities f) of
        Inl e \<Rightarrow> Inl e
      | Inr ids \<Rightarrow>
          (case all_positive
             [(''document_processing.max_queued_jobs'', cf_max_queued_jobs f),
              (''document_processing.max_active_jobs_per_user'', cf_max_active_jobs_per_user f),
              (''document_processing.max_active_jobs_per_project'', cf_max_active_jobs_per_project f),
              (''document_processing.max_input_bytes'', cf_max_input_bytes f),
              (''document_processing.max_output_bytes'', cf_max_output_bytes f),
              (''document_processing.max_diagnostic_bytes'', cf_max_diagnostic_bytes f),
              (''document_processing.job_wall_seconds'', cf_job_wall_seconds f),
              (''document_processing.queue_wait_seconds'', cf_queue_wait_seconds f),
              (''document_processing.retention_seconds'', cf_retention_seconds f),
              (''document_processing.claim_lease_seconds'', cf_claim_lease_seconds f),
              (''document_processing.session_lease_seconds'', cf_session_lease_seconds f),
              (''document_processing.transfer_seconds'', cf_transfer_seconds f),
              (''document_processing.finalization_lease_seconds'', cf_finalization_lease_seconds f)] of
             Some e \<Rightarrow> Inl e
           | None \<Rightarrow>
               Inr \<lparr>c_identities = ids,
                    c_max_queued_jobs = cf_max_queued_jobs f,
                    c_max_active_jobs_per_user = cf_max_active_jobs_per_user f,
                    c_max_active_jobs_per_project = cf_max_active_jobs_per_project f,
                    c_max_input_bytes = cf_max_input_bytes f,
                    c_max_output_bytes = cf_max_output_bytes f,
                    c_max_diagnostic_bytes = cf_max_diagnostic_bytes f,
                    c_job_wall_seconds = cf_job_wall_seconds f,
                    c_queue_wait = seconds (cf_queue_wait_seconds f),
                    c_retention = seconds (cf_retention_seconds f),
                    c_claim_lease = seconds (cf_claim_lease_seconds f),
                    c_session_lease = seconds (cf_session_lease_seconds f),
                    c_transfer_ttl = seconds (cf_transfer_seconds f),
                    c_finalization_lease = seconds (cf_finalization_lease_seconds f)\<rparr>))"

text \<open>
  \<open>ProcessingConfig::authenticate\<close>; the argument is the value of the \<open>Authorization\<close> header
  as text, \<open>None\<close> when it is missing or not visible ASCII.
\<close>

definition authenticate ::
  "(bytes \<Rightarrow> bytes) \<Rightarrow> processing_config \<Rightarrow> string option \<Rightarrow> authenticated_worker option" where
  "authenticate sha256 config auth_header =
     (case auth_header of None \<Rightarrow> None
      | Some v \<Rightarrow>
          (case strip_prefix ''Bearer '' v of None \<Rightarrow> None
           | Some rest \<Rightarrow>
               let candidate = sha256 (trim rest) in
               map_option (\<lambda>i. \<lparr>aw_identity = wi_id i, aw_operations = wi_operations i\<rparr>)
                 (find (\<lambda>i. wi_token_fingerprint i = candidate) (c_identities config))))"

definition operation_configured :: "processing_config \<Rightarrow> processing_operation \<Rightarrow> bool" where
  "operation_configured config opn =
     list_ex (\<lambda>i. map_of (wi_operations i) opn \<noteq> None) (c_identities config)"

definition configured_operations :: "processing_config \<Rightarrow> processing_operation list" where
  "configured_operations config =
     remdups_adj (sort_key operation_as_ref
       (concat (map (\<lambda>i. map fst (wi_operations i)) (c_identities config))))"

definition approves :: "authenticated_worker \<Rightarrow> processing_operation \<Rightarrow> string \<Rightarrow> bool" where
  "approves w opn processor_contract =
     (case map_of (aw_operations w) opn of None \<Rightarrow> False | Some cs \<Rightarrow> processor_contract \<in> set cs)"

section \<open>Properties\<close>

definition operation_entry_ok :: "processing_operation \<times> string list \<Rightarrow> bool" where
  "operation_entry_ok e \<longleftrightarrow>
     snd e \<noteq> [] \<and> distinct (snd e) \<and> list_all valid_processor_contract (snd e)"

definition identity_ok :: "worker_identity \<Rightarrow> bool" where
  "identity_ok i \<longleftrightarrow>
     valid_identity_id (wi_id i) \<and> wi_operations i \<noteq> [] \<and> distinct (map fst (wi_operations i)) \<and>
     list_all operation_entry_ok (wi_operations i)"

lemma parse_contracts_Inr:
  assumes "parse_contracts ident acc cs = Inr out"
  shows "out = acc @ cs" and "list_all valid_processor_contract cs" and "distinct acc \<Longrightarrow> distinct out"
proof -
  have "out = acc @ cs \<and> list_all valid_processor_contract cs \<and> (distinct acc \<longrightarrow> distinct out)"
    using assms
  proof (induction cs arbitrary: acc)
    case Nil
    then show ?case by simp
  next
    case (Cons c cs)
    then have "parse_contracts ident (acc @ [c]) cs = Inr out" and "valid_processor_contract c"
      and "c \<notin> set acc" by (auto split: if_splits)
    with Cons.IH [of "acc @ [c]"] show ?case by auto
  qed
  then show "out = acc @ cs" and "list_all valid_processor_contract cs" and "distinct acc \<Longrightarrow> distinct out"
    by blast+
qed

lemma parse_operations_Inr:
  assumes "parse_operations ident acc ops = Inr out"
    and "distinct (map fst acc)" and "list_all operation_entry_ok acc"
  shows "distinct (map fst out) \<and> list_all operation_entry_ok out"
  using assms
proof (induction ops arbitrary: acc)
  case Nil
  then show ?case by simp
next
  case (Cons opn ops)
  from Cons.prems(1) obtain o' cs where
    cs: "parse_contracts ident [] (oi_processor_contracts opn) = Inr cs"
    and ne: "oi_processor_contracts opn \<noteq> []" and new: "o' \<notin> fst ` set acc"
    and rec: "parse_operations ident (acc @ [(o', cs)]) ops = Inr out"
    by (auto split: option.splits sum.splits if_splits)
  have "operation_entry_ok (o', cs)"
    using parse_contracts_Inr [OF cs] ne by (auto simp: operation_entry_ok_def)
  with Cons.prems(2,3) new show ?case by (intro Cons.IH [OF rec]) auto
qed

lemma parse_identity_Inr:
  assumes "parse_identity sha256 read_file acc input = Inr i"
  shows "identity_ok i" and "wi_id i \<notin> wi_id ` set acc"
    and "wi_token_fingerprint i \<notin> wi_token_fingerprint ` set acc"
    and "wi_id i = ii_id input"
    and "\<exists>text. read_file (ii_token_file input) = Some text \<and> \<not> invalid_token (trim text) \<and>
      wi_token_fingerprint i = sha256 (trim text)"
proof -
  from assms obtain tx ops where v: "valid_identity_id (ii_id input)"
    and i0: "ii_id input \<notin> wi_id ` set acc"
    and t: "read_file (ii_token_file input) = Some tx" "\<not> invalid_token (trim tx)"
    and f: "sha256 (trim tx) \<notin> wi_token_fingerprint ` set acc"
    and ops: "parse_operations (ii_id input) [] (ii_operations input) = Inr ops" "ops \<noteq> []"
    and i: "i = \<lparr>wi_id = ii_id input, wi_token_fingerprint = sha256 (trim tx), wi_operations = ops\<rparr>"
    by (auto simp: parse_identity_def Let_def split: if_splits option.splits sum.splits)
  show "identity_ok i" using v ops parse_operations_Inr [OF ops(1)] by (simp add: i identity_ok_def)
  show "wi_id i \<notin> wi_id ` set acc" and "wi_token_fingerprint i \<notin> wi_token_fingerprint ` set acc"
    and "wi_id i = ii_id input" using i0 f by (simp_all add: i)
  show "\<exists>text. read_file (ii_token_file input) = Some text \<and> \<not> invalid_token (trim text) \<and>
      wi_token_fingerprint i = sha256 (trim text)" using t by (simp add: i)
qed

lemma parse_identities_loop_Inr:
  assumes "parse_identities_loop sha256 read_file acc inputs = Inr out"
    and "list_all identity_ok acc" and "distinct (map wi_id acc)"
    and "distinct (map wi_token_fingerprint acc)"
  shows "list_all identity_ok out \<and> distinct (map wi_id out) \<and> distinct (map wi_token_fingerprint out) \<and>
    map wi_id out = map wi_id acc @ map ii_id inputs"
  using assms
proof (induction inputs arbitrary: acc)
  case Nil
  then show ?case by simp
next
  case (Cons input inputs)
  from Cons.prems(1) obtain i where i: "parse_identity sha256 read_file acc input = Inr i"
    and rec: "parse_identities_loop sha256 read_file (acc @ [i]) inputs = Inr out"
    by (auto split: sum.splits)
  have "list_all identity_ok (acc @ [i]) \<and> distinct (map wi_id (acc @ [i])) \<and>
    distinct (map wi_token_fingerprint (acc @ [i]))"
    using Cons.prems(2-4) parse_identity_Inr(1-3) [OF i] by auto
  then have "list_all identity_ok out \<and> distinct (map wi_id out) \<and>
      distinct (map wi_token_fingerprint out) \<and> map wi_id out = map wi_id (acc @ [i]) @ map ii_id inputs"
    by (intro Cons.IH [OF rec]) simp_all
  moreover have "map wi_id (acc @ [i]) @ map ii_id inputs = map wi_id acc @ map ii_id (input # inputs)"
    by (simp add: parse_identity_Inr(4) [OF i])
  ultimately show ?case by metis
qed

lemma parse_identities_ok:
  assumes "parse_identities sha256 read_file inputs = Inr ids"
  shows "list_all identity_ok ids" and "distinct (map wi_id ids)"
    and "distinct (map wi_token_fingerprint ids)" and "map wi_id ids = map ii_id inputs"
  using parse_identities_loop_Inr [OF assms [unfolded parse_identities_def]] by auto

lemma parse_identities_loop_token:
  assumes "parse_identities_loop sha256 read_file acc inputs = Inr out" and "input \<in> set inputs"
  shows "\<exists>i \<in> set out. \<exists>text. wi_id i = ii_id input \<and> read_file (ii_token_file input) = Some text \<and>
    wi_token_fingerprint i = sha256 (trim text)"
  using assms
proof (induction inputs arbitrary: acc)
  case Nil
  then show ?case by simp
next
  case (Cons x inputs)
  from Cons.prems(1) obtain i where i: "parse_identity sha256 read_file acc x = Inr i"
    and rec: "parse_identities_loop sha256 read_file (acc @ [i]) inputs = Inr out"
    by (auto split: sum.splits)
  have keep: "\<And>a ys o'. parse_identities_loop sha256 read_file a ys = Inr o' \<Longrightarrow> set a \<subseteq> set o'"
  proof -
    fix a ys o'
    show "parse_identities_loop sha256 read_file a ys = Inr o' \<Longrightarrow> set a \<subseteq> set o'"
      by (induction ys arbitrary: a) (fastforce split: sum.splits)+
  qed
  show ?case
  proof (cases "input = x")
    case True
    have "i \<in> set out" using keep [OF rec] by simp
    with True parse_identity_Inr(4,5) [OF i] show ?thesis by blast
  next
    case False
    with Cons.prems(2) show ?thesis by (intro Cons.IH [OF rec]) simp
  qed
qed

lemma all_positive_None: "all_positive ps = None \<longleftrightarrow> (\<forall>(n, v) \<in> set ps. 0 < v)"
  by (induction ps rule: all_positive.induct) (auto simp: positive_def)

definition config_ok :: "processing_config \<Rightarrow> bool" where
  "config_ok c \<longleftrightarrow>
     0 < c_max_queued_jobs c \<and> 0 < c_max_active_jobs_per_user c \<and> 0 < c_max_active_jobs_per_project c \<and>
     0 < c_max_input_bytes c \<and> 0 < c_max_output_bytes c \<and> 0 < c_max_diagnostic_bytes c \<and>
     0 < c_job_wall_seconds c \<and> 0 < c_queue_wait c \<and> 0 < c_retention c \<and> 0 < c_claim_lease c \<and>
     0 < c_session_lease c \<and> 0 < c_transfer_ttl c \<and> 0 < c_finalization_lease c \<and>
     list_all identity_ok (c_identities c) \<and> distinct (map wi_id (c_identities c)) \<and>
     distinct (map wi_token_fingerprint (c_identities c))"

lemma from_config_ok: "from_config sha256 read_file f = Inr c \<Longrightarrow> config_ok c"
proof -
  assume a: "from_config sha256 read_file f = Inr c"
  then obtain ids where ids: "parse_identities sha256 read_file (cf_worker_identities f) = Inr ids"
    by (auto simp: from_config_def split: sum.splits)
  from a ids parse_identities_ok [OF ids] show "config_ok c"
    by (simp add: from_config_def config_ok_def all_positive_None del: all_positive.simps
        split: option.splits) auto
qed

lemma from_config_identities:
  "from_config sha256 read_file f = Inr c \<Longrightarrow>
   parse_identities sha256 read_file (cf_worker_identities f) = Inr (c_identities c)"
  by (auto simp: from_config_def split: sum.splits option.splits)

end
