(* ===== verification/Processing_Store.thy ===== *)
theory Processing_Store
  imports Processing_Config
begin

text \<open>
  The PostgreSQL tables that Document Processing owns
  (\<open>backend/migrations/202607140001_document_processing.sql\<close>), one record per row type and one
  list per table, with their unique constraints, check constraints and foreign keys. A column
  \<open>state\<close> of table \<open>processing_jobs\<close> is the field \<open>j_state\<close>; the prefixes are \<open>b_\<close> blobs,
  \<open>j_\<close> jobs, \<open>s_\<close> worker sessions, \<open>pin_\<close> input asset pins, \<open>p_\<close> worker processors,
  \<open>a_\<close> attempts, \<open>t_\<close> transfers, \<open>f_\<close> artifacts and \<open>q_\<close> worker requests. A nullable
  column has an option type. The foreign keys to the tables \<open>users\<close> and \<open>projects\<close> belong to
  other components and are not represented.

  An operation is a function of the store and returns its result with the new store. A
  transaction that returns an error or is rolled back leaves the store as it was.
\<close>

section \<open>Rows\<close>

record blob_row =
  b_id :: uuid
  b_sha256 :: bytes
  b_size_bytes :: int
  b_media_type :: string
  b_content :: bytes
  b_created_at :: instant

record job_row =
  j_id :: uuid
  j_operation :: processing_operation
  j_requester_user_id :: uuid
  j_project_id :: "uuid option"
  j_idempotency_scope :: string
  j_idempotency_key :: string
  j_command_digest :: bytes
  j_input_schema :: "string option"
  j_input_blob_id :: "uuid option"
  j_input_digest :: "bytes option"
  j_normalized_options :: json
  j_options_digest :: bytes
  j_state :: job_state
  j_phase :: processing_phase
  j_cancellation_requested :: bool
  j_attempt_count :: int
  j_max_attempts :: int
  j_current_claim_id :: "uuid option"
  j_claim_expires_at :: "instant option"
  j_processor_contract :: "string option"
  j_cache_hit :: bool
  j_cache_source_job_id :: "uuid option"
  j_finalization_token :: "uuid option"
  j_finalization_expires_at :: "instant option"
  j_failure_class :: "string option"
  j_failure_code :: "string option"
  j_failure_message :: "string option"
  j_result_project_id :: "uuid option"
  j_retry_of_job_id :: "uuid option"
  j_source_workspace_version :: "int option"
  j_source_content_epoch :: "int option"
  j_source_epoch :: "int option"
  j_next_attempt_at :: instant
  j_created_at :: instant
  j_updated_at :: instant
  j_queued_at :: "instant option"
  j_started_at :: "instant option"
  j_completed_at :: "instant option"
  j_queue_expires_at :: instant
  j_retained_until :: instant

record session_row =
  s_id :: uuid
  s_worker_identity :: string
  s_worker_instance :: string
  s_protocol_version :: int
  s_state :: session_state
  s_created_at :: instant
  s_updated_at :: instant
  s_last_heartbeat_at :: instant
  s_expires_at :: instant

record pin_row =
  pin_job_id :: uuid
  pin_object_key :: string
  pin_created_at :: instant

record processor_row =
  p_session_id :: uuid
  p_operation :: processing_operation
  p_processor_contract :: string
  p_runtime_version :: string
  p_slots :: int
  p_healthy :: bool
  p_updated_at :: instant

record claim_limits =
  l_wall_seconds :: int
  l_output_bytes :: int
  l_diagnostic_bytes :: int

record attempt_row =
  a_id :: uuid
  a_job_id :: uuid
  a_attempt_number :: int
  a_claim_id :: uuid
  a_worker_session_id :: uuid
  a_processor_contract :: string
  a_state :: attempt_state
  a_phase :: processing_phase
  a_lease_expires_at :: instant
  a_limits :: claim_limits
  a_failure_class :: "string option"
  a_failure_code :: "string option"
  a_failure_message :: "string option"
  a_created_at :: instant
  a_updated_at :: instant
  a_completed_at :: "instant option"

record transfer_row =
  t_id :: uuid
  t_token_fingerprint :: bytes
  t_job_id :: uuid
  t_attempt_id :: uuid
  t_claim_id :: uuid
  t_direction :: transfer_direction
  t_role :: string
  t_media_type :: string
  t_filename :: "string option"
  t_exact_size_bytes :: "int option"
  t_max_size_bytes :: int
  t_expected_sha256 :: "bytes option"
  t_blob_id :: "uuid option"
  t_state :: transfer_state
  t_remaining_uses :: int
  t_created_at :: instant
  t_updated_at :: instant
  t_expires_at :: instant

record artifact_row =
  f_id :: uuid
  f_job_id :: uuid
  f_blob_id :: uuid
  f_role :: string
  f_media_type :: string
  f_filename :: string
  f_size_bytes :: int
  f_sha256 :: bytes
  f_created_at :: instant

record request_row =
  q_worker_identity :: string
  q_request_id :: uuid
  q_route_key :: string
  q_payload_digest :: bytes
  q_response_status :: int
  q_response_body :: "json option"
  q_created_at :: instant
  q_expires_at :: instant

section \<open>The store\<close>

record processing_db =
  blobs :: "blob_row list"
  jobs :: "job_row list"
  sessions :: "session_row list"
  pins :: "pin_row list"
  processors :: "processor_row list"
  attempts :: "attempt_row list"
  transfers :: "transfer_row list"
  artifacts :: "artifact_row list"
  requests :: "request_row list"

definition empty_db :: processing_db where
  "empty_db = \<lparr>blobs = [], jobs = [], sessions = [], pins = [], processors = [], attempts = [],
     transfers = [], artifacts = [], requests = []\<rparr>"

section \<open>Unique and check constraints\<close>

definition job_conflict :: "job_row \<Rightarrow> job_row \<Rightarrow> bool" where
  "job_conflict j k \<longleftrightarrow>
     j_id j = j_id k \<or>
     (j_requester_user_id j = j_requester_user_id k \<and> j_idempotency_scope j = j_idempotency_scope k \<and>
      j_idempotency_key j = j_idempotency_key k)"

definition job_checks :: "job_row \<Rightarrow> bool" where
  "job_checks j \<longleftrightarrow>
     length (j_command_digest j) = 32 \<and> (\<forall>d \<in> set_option (j_input_digest j). length d = 32) \<and>
     length (j_options_digest j) = 32 \<and> 0 \<le> j_attempt_count j \<and> 0 < j_max_attempts j"

definition attempt_conflict :: "attempt_row \<Rightarrow> attempt_row \<Rightarrow> bool" where
  "attempt_conflict a b \<longleftrightarrow>
     a_id a = a_id b \<or> (a_job_id a = a_job_id b \<and> a_attempt_number a = a_attempt_number b) \<or>
     a_claim_id a = a_claim_id b"

definition attempt_checks :: "attempt_row \<Rightarrow> bool" where
  "attempt_checks a \<longleftrightarrow> 0 < a_attempt_number a \<and> a_phase a \<in> {Processing, UploadingResult, Complete}"

definition transfer_checks :: "transfer_row \<Rightarrow> bool" where
  "transfer_checks t \<longleftrightarrow>
     length (t_token_fingerprint t) = 32 \<and> (\<forall>n \<in> set_option (t_exact_size_bytes t). 0 \<le> n) \<and>
     0 < t_max_size_bytes t \<and> (\<forall>d \<in> set_option (t_expected_sha256 t). length d = 32) \<and>
     0 \<le> t_remaining_uses t"

definition blob_checks :: "blob_row \<Rightarrow> bool" where
  "blob_checks b \<longleftrightarrow> length (b_sha256 b) = 32 \<and> 0 \<le> b_size_bytes b \<and> b_size_bytes b = int (length (b_content b))"

text \<open>\<open>ON DELETE CASCADE\<close> and \<open>ON DELETE SET NULL\<close> of the references to \<open>processing_jobs\<close>.\<close>

definition delete_jobs :: "(job_row \<Rightarrow> bool) \<Rightarrow> processing_db \<Rightarrow> processing_db" where
  "delete_jobs P db =
     (let gone = map j_id (filter P (jobs db));
          unref = (\<lambda>r. case r of None \<Rightarrow> None | Some i \<Rightarrow> if i \<in> set gone then None else Some i);
          gone_attempts = map a_id (filter (\<lambda>a. a_job_id a \<in> set gone) (attempts db))
      in db\<lparr>jobs := map (\<lambda>j. j\<lparr>j_retry_of_job_id := unref (j_retry_of_job_id j),
                              j_cache_source_job_id := unref (j_cache_source_job_id j)\<rparr>)
                      (delete_where P (jobs db)),
            attempts := delete_where (\<lambda>a. a_job_id a \<in> set gone) (attempts db),
            transfers := delete_where (\<lambda>t. t_job_id t \<in> set gone \<or> t_attempt_id t \<in> set gone_attempts)
                           (transfers db),
            artifacts := delete_where (\<lambda>f. f_job_id f \<in> set gone) (artifacts db),
            pins := delete_where (\<lambda>p. pin_job_id p \<in> set gone) (pins db)\<rparr>)"

section \<open>Blobs\<close>

text \<open>
  \<open>persistence.rs: store_blob\<close>. A blob is identified by its digest and size; \<open>fresh\<close> is the
  identifier that \<open>Uuid::new_v4\<close> returns. \<open>None\<close> is a failed statement.
\<close>

definition store_blob ::
  "uuid \<Rightarrow> bytes \<Rightarrow> string \<Rightarrow> bytes \<Rightarrow> instant \<Rightarrow> blob_row list \<Rightarrow> (uuid \<times> blob_row list) option" where
  "store_blob fresh digest media_type content now t =
     (let size_bytes = i64_len content;
          row = \<lparr>b_id = fresh, b_sha256 = digest, b_size_bytes = size_bytes, b_media_type = media_type,
                 b_content = content, b_created_at = now\<rparr>
      in if \<not> blob_checks row then None
         else if exists_where (\<lambda>b. b_id b = fresh) t then None
         else (case find (\<lambda>b. b_sha256 b = digest \<and> b_size_bytes b = size_bytes) t of
                 Some b \<Rightarrow> Some (b_id b, t)
               | None \<Rightarrow> Some (fresh, t @ [row])))"

definition blob_content :: "uuid \<Rightarrow> blob_row list \<Rightarrow> bytes option" where
  "blob_content i t = map_option b_content (find (\<lambda>b. b_id b = i) t)"

text \<open>
  What a client of the blob table relies on: identifiers and \<open>(digest, size)\<close> pairs are unique,
  and every stored blob has the digest of its content.
\<close>

definition blobs_ok :: "(bytes \<Rightarrow> bytes) \<Rightarrow> blob_row list \<Rightarrow> bool" where
  "blobs_ok sha256 t \<longleftrightarrow>
     distinct (map b_id t) \<and> distinct (map (\<lambda>b. (b_sha256 b, b_size_bytes b)) t) \<and>
     (\<forall>b \<in> set t. b_sha256 b = sha256 (b_content b) \<and> blob_checks b)"

locale content_store =
  fixes digest :: "bytes \<Rightarrow> bytes"
    and put :: "uuid \<Rightarrow> string \<Rightarrow> bytes \<Rightarrow> instant \<Rightarrow> 's \<Rightarrow> (uuid \<times> 's) option"
    and get :: "uuid \<Rightarrow> 's \<Rightarrow> bytes option"
    and ok :: "'s \<Rightarrow> bool"
  assumes put_ok: "ok s \<Longrightarrow> put fresh media c now s = Some (i, s') \<Longrightarrow> ok s'"
    and put_get: "ok s \<Longrightarrow> put fresh media c now s = Some (i, s') \<Longrightarrow>
      \<exists>c'. get i s' = Some c' \<and> digest c' = digest c \<and> length c' = length c"
    and put_keeps: "ok s \<Longrightarrow> put fresh media c now s = Some (i, s') \<Longrightarrow> get k s = Some d \<Longrightarrow> get k s' = Some d"
    and put_dedup: "ok s \<Longrightarrow> put fresh media c now s = Some (i, s') \<Longrightarrow>
      put fresh' media' c now' s' = Some (k, s'') \<Longrightarrow> k = i \<and> s'' = s'"
begin

text \<open>With a digest without collisions, what was put is what is read, now and after later puts.\<close>

lemma put_get_exact:
  assumes "inj digest" and "ok s" and "put fresh media c now s = Some (i, s')"
  shows "get i s' = Some c"
  using put_get [OF assms(2,3)] assms(1) by (auto dest: injD)

lemma put_get_later:
  assumes "inj digest" and "ok s" and "put fresh media c now s = Some (i, s')"
    and "put fresh' media' d now' s' = Some (k, s'')"
  shows "get i s'' = Some c"
  using put_keeps [OF put_ok [OF assms(2,3)] assms(4)] put_get_exact [OF assms(1-3)] by blast

end

lemma find_blob_append:
  "find P (t @ [r]) = (case find P t of Some x \<Rightarrow> Some x | None \<Rightarrow> if P r then Some r else None)"
  by (induction t) auto

lemma store_blob_cases:
  assumes "store_blob fresh dg media c now t = Some (i, t')"
  obtains (old) b where "t' = t" "i = b_id b" "b \<in> set t" "b_sha256 b = dg" "b_size_bytes b = i64_len c"
  | (new) "t' = t @ [\<lparr>b_id = fresh, b_sha256 = dg, b_size_bytes = i64_len c, b_media_type = media,
        b_content = c, b_created_at = now\<rparr>]" "i = fresh" "\<forall>b \<in> set t. b_id b \<noteq> fresh"
      "\<forall>b \<in> set t. \<not> (b_sha256 b = dg \<and> b_size_bytes b = i64_len c)"
      "i64_len c = int (length c)" "length dg = 32"
proof -
  have checks: "i64_len c = int (length c)" "length dg = 32" and fresh: "\<forall>b \<in> set t. b_id b \<noteq> fresh"
    using assms by (auto simp: store_blob_def Let_def blob_checks_def split: if_splits)
  show thesis
  proof (cases "find (\<lambda>b. b_sha256 b = dg \<and> b_size_bytes b = i64_len c) t")
    case None
    with assms have "t' = t @ [\<lparr>b_id = fresh, b_sha256 = dg, b_size_bytes = i64_len c,
        b_media_type = media, b_content = c, b_created_at = now\<rparr>] \<and> i = fresh"
      by (auto simp: store_blob_def Let_def split: if_splits)
    with None checks fresh show thesis by (intro new) (auto simp: find_None_set)
  next
    case (Some b)
    with assms find_Some_set [OF Some] show thesis
      by (intro old [of b]) (auto simp: store_blob_def Let_def split: if_splits)
  qed
qed

lemma store_blob_ok:
  assumes "blobs_ok sha256 t" and "store_blob fresh (sha256 c) media c now t = Some (i, t')"
  shows "blobs_ok sha256 t'"
  using assms(2)
proof (cases rule: store_blob_cases)
  case old
  with assms(1) show ?thesis by simp
next
  case new
  with assms(1) show ?thesis by (auto simp: blobs_ok_def blob_checks_def)
qed

lemma store_blob_get:
  assumes "blobs_ok sha256 t" and "store_blob fresh (sha256 c) media c now t = Some (i, t')"
  shows "\<exists>c'. blob_content i t' = Some c' \<and> sha256 c' = sha256 c \<and> length c' = length c"
  using assms(2)
proof (cases rule: store_blob_cases)
  case (old b)
  from assms(1) have d: "distinct (map b_id t)" by (simp add: blobs_ok_def)
  have f: "blob_content i t' = Some (b_content b)"
    using find_key [OF d old(3)] by (simp add: blob_content_def old)
  from assms(1) old(3) have "b_sha256 b = sha256 (b_content b)" "b_size_bytes b = int (length (b_content b))"
    by (auto simp: blobs_ok_def blob_checks_def)
  moreover from assms(2) have "i64_len c = int (length c)"
    by (auto simp: store_blob_def Let_def blob_checks_def split: if_splits)
  ultimately show ?thesis using old f by simp
next
  case new
  then have "find (\<lambda>b. b_id b = fresh) t = None" by (simp add: find_None_set)
  with new show ?thesis by (simp add: blob_content_def find_blob_append)
qed

lemma store_blob_keeps:
  assumes "store_blob fresh dg media c now t = Some (i, t')" and "blob_content k t = Some d"
  shows "blob_content k t' = Some d"
  using assms by (cases rule: store_blob_cases) (auto simp: blob_content_def find_blob_append)

lemma store_blob_dedup:
  assumes "blobs_ok sha256 t" and "store_blob fresh (sha256 c) media c now t = Some (i, t')"
    and "store_blob fresh' (sha256 c) media' c now' t' = Some (k, t'')"
  shows "k = i \<and> t'' = t'"
proof -
  let ?key = "\<lambda>b. (b_sha256 b, b_size_bytes b)"
  have d: "distinct (map ?key t')" using store_blob_ok [OF assms(1,2)] by (simp add: blobs_ok_def)
  have "\<exists>b. b \<in> set t' \<and> ?key b = (sha256 c, i64_len c) \<and> b_id b = i"
    using assms(2) by (cases rule: store_blob_cases) auto
  then obtain b where b: "b \<in> set t'" "?key b = (sha256 c, i64_len c)" "b_id b = i" by blast
  from assms(3) show ?thesis
  proof (cases rule: store_blob_cases)
    case (old b')
    have "b' = b" by (rule key_unique [OF d old(3) b(1)]) (use old b in simp)
    with old b show ?thesis by simp
  next
    case new
    with b show ?thesis by auto
  qed
qed

interpretation blob_table: content_store sha256
  "\<lambda>fresh media c now t. store_blob fresh (sha256 c) media c now t" blob_content "blobs_ok sha256" for sha256
  by unfold_locales
    (auto intro: store_blob_ok store_blob_get store_blob_keeps dest: store_blob_dedup)

end
