(* ===== verification/Processing_Jobs.thy ===== *)
theory Processing_Jobs
  imports Processing_Store
begin

text \<open>
  \<open>document_processing/persistence.rs\<close>: admission of a job (idempotency and limits), storing its
  captured input, failing its preparation, cancelling it, and the reads of the public interface.
  Each operation is one transaction; the admission lock and the row locks make it atomic.
\<close>

section \<open>Values\<close>

record reserve_command =
  rc_id :: uuid
  rc_operation :: processing_operation
  rc_requester_user_id :: uuid
  rc_project_id :: "uuid option"
  rc_idempotency_scope :: string
  rc_idempotency_key :: string
  rc_command_digest :: bytes
  rc_normalized_options :: json
  rc_options_digest :: bytes
  rc_now :: instant

record job_record =
  jr_id :: uuid
  jr_operation :: processing_operation
  jr_project_id :: "uuid option"
  jr_result_project_id :: "uuid option"
  jr_state :: job_state
  jr_phase :: processing_phase
  jr_cancellation_requested :: bool
  jr_attempt_count :: int
  jr_processor_contract :: "string option"
  jr_failure_class :: "string option"
  jr_failure_code :: "string option"
  jr_failure_message :: "string option"
  jr_created_at :: instant
  jr_updated_at :: instant
  jr_completed_at :: "instant option"

datatype reserve_job_error =
  IdempotencyConflict | GlobalLimit | RequesterLimit | ProjectLimit | Persistence_reserve

datatype reserve_job_outcome = Reserved | Existing job_record

record artifact_record =
  ar_id :: uuid
  ar_job_id :: uuid
  ar_role :: string
  ar_media_type :: string
  ar_filename :: string
  ar_size_bytes :: int
  ar_sha256 :: bytes

record capability_stats =
  cs_healthy_sessions :: int
  cs_active_slots :: int
  cs_active_jobs :: int
  cs_queued_jobs :: int

definition job_from_row :: "job_row \<Rightarrow> job_record" where
  "job_from_row r =
     \<lparr>jr_id = j_id r, jr_operation = j_operation r, jr_project_id = j_project_id r,
      jr_result_project_id = j_result_project_id r, jr_state = j_state r, jr_phase = j_phase r,
      jr_cancellation_requested = j_cancellation_requested r, jr_attempt_count = j_attempt_count r,
      jr_processor_contract = j_processor_contract r, jr_failure_class = j_failure_class r,
      jr_failure_code = j_failure_code r, jr_failure_message = j_failure_message r,
      jr_created_at = j_created_at r, jr_updated_at = j_updated_at r, jr_completed_at = j_completed_at r\<rparr>"

definition artifact_from_row :: "artifact_row \<Rightarrow> artifact_record" where
  "artifact_from_row r =
     \<lparr>ar_id = f_id r, ar_job_id = f_job_id r, ar_role = f_role r, ar_media_type = f_media_type r,
      ar_filename = f_filename r, ar_size_bytes = f_size_bytes r, ar_sha256 = f_sha256 r\<rparr>"

subsection \<open>The public view of a job\<close>

record processing_artifact =
  pa_id :: uuid
  pa_role :: string
  pa_media_type :: string
  pa_filename :: string
  pa_size_bytes :: int
  pa_sha256 :: string
  pa_download_url :: string

record processing_job =
  pj_id :: uuid
  pj_operation :: processing_operation
  pj_project_id :: "uuid option"
  pj_result_project_id :: "uuid option"
  pj_state :: job_state
  pj_phase :: processing_phase
  pj_cancellation_requested :: bool
  pj_attempt_count :: int
  pj_processor_contract :: "string option"
  pj_failure :: "(string \<times> string \<times> string) option"
  pj_artifacts :: "processing_artifact list"
  pj_created_at :: instant
  pj_updated_at :: instant
  pj_completed_at :: "instant option"

text \<open>\<open>hex\<close> is \<open>hex::encode\<close> and \<open>show\<close> the textual form of a \<open>Uuid\<close>.\<close>

definition into_public ::
  "(bytes \<Rightarrow> string) \<Rightarrow> (uuid \<Rightarrow> string) \<Rightarrow> job_record \<Rightarrow> artifact_record list \<Rightarrow> processing_job" where
  "into_public hex shw r arts =
     \<lparr>pj_id = jr_id r, pj_operation = jr_operation r, pj_project_id = jr_project_id r,
      pj_result_project_id = jr_result_project_id r, pj_state = jr_state r, pj_phase = jr_phase r,
      pj_cancellation_requested = jr_cancellation_requested r, pj_attempt_count = jr_attempt_count r,
      pj_processor_contract = jr_processor_contract r,
      pj_failure =
        (case (jr_failure_class r, jr_failure_code r, jr_failure_message r) of
           (Some c, Some k, Some m) \<Rightarrow> Some (c, k, m) | _ \<Rightarrow> None),
      pj_artifacts =
        map (\<lambda>a. \<lparr>pa_id = ar_id a, pa_role = ar_role a, pa_media_type = ar_media_type a,
                  pa_filename = ar_filename a, pa_size_bytes = ar_size_bytes a,
                  pa_sha256 = hex (ar_sha256 a),
                  pa_download_url = ''/v1/processing/jobs/'' @ shw (ar_job_id a) @ ''/artifacts/'' @ shw (ar_id a)\<rparr>) arts,
      pj_created_at = jr_created_at r, pj_updated_at = jr_updated_at r, pj_completed_at = jr_completed_at r\<rparr>"

section \<open>Admission\<close>

definition find_idempotent_job :: "uuid \<Rightarrow> string \<Rightarrow> string \<Rightarrow> processing_db \<Rightarrow> job_row option" where
  "find_idempotent_job requester scope key db =
     find (\<lambda>j. j_requester_user_id j = requester \<and> j_idempotency_scope j = scope \<and>
               j_idempotency_key j = key) (jobs db)"

definition global_active :: "processing_db \<Rightarrow> int" where
  "global_active db = count_where (\<lambda>j. active_state (j_state j)) (jobs db)"

definition requester_active :: "uuid \<Rightarrow> processing_db \<Rightarrow> int" where
  "requester_active u db =
     count_where (\<lambda>j. j_requester_user_id j = u \<and> active_state (j_state j)) (jobs db)"

definition project_active :: "uuid \<Rightarrow> processing_db \<Rightarrow> int" where
  "project_active p db =
     count_where (\<lambda>j. j_project_id j = Some p \<and> active_state (j_state j)) (jobs db)"

definition new_job_row :: "processing_config \<Rightarrow> reserve_command \<Rightarrow> job_row" where
  "new_job_row config command =
     \<lparr>j_id = rc_id command, j_operation = rc_operation command,
      j_requester_user_id = rc_requester_user_id command, j_project_id = rc_project_id command,
      j_idempotency_scope = rc_idempotency_scope command, j_idempotency_key = rc_idempotency_key command,
      j_command_digest = rc_command_digest command,
      j_input_schema = None, j_input_blob_id = None, j_input_digest = None,
      j_normalized_options = rc_normalized_options command, j_options_digest = rc_options_digest command,
      j_state = Preparing, j_phase = CapturingInput,
      j_cancellation_requested = False, j_attempt_count = 0, j_max_attempts = 3,
      j_current_claim_id = None, j_claim_expires_at = None, j_processor_contract = None,
      j_cache_hit = False, j_cache_source_job_id = None,
      j_finalization_token = None, j_finalization_expires_at = None,
      j_failure_class = None, j_failure_code = None, j_failure_message = None,
      j_result_project_id = None, j_retry_of_job_id = None,
      j_source_workspace_version = None, j_source_content_epoch = None, j_source_epoch = None,
      j_next_attempt_at = rc_now command, j_created_at = rc_now command, j_updated_at = rc_now command,
      j_queued_at = None, j_started_at = None, j_completed_at = None,
      j_queue_expires_at = rc_now command + c_queue_wait config,
      j_retained_until = rc_now command + c_retention config\<rparr>"

definition reserve_job ::
  "processing_config \<Rightarrow> reserve_command \<Rightarrow> processing_db \<Rightarrow>
   (reserve_job_error + reserve_job_outcome) \<times> processing_db" where
  [op_defs]: "reserve_job config command db =
     (case find_idempotent_job (rc_requester_user_id command) (rc_idempotency_scope command)
             (rc_idempotency_key command) db of
        Some existing \<Rightarrow>
          if j_command_digest existing \<noteq> rc_command_digest command then (Inl IdempotencyConflict, db)
          else (Inr (Existing (job_from_row existing)), db)
      | None \<Rightarrow>
          if c_max_queued_jobs config \<le> global_active db then (Inl GlobalLimit, db)
          else if c_max_active_jobs_per_user config \<le> requester_active (rc_requester_user_id command) db
          then (Inl RequesterLimit, db)
          else if (case rc_project_id command of None \<Rightarrow> False
                   | Some p \<Rightarrow> c_max_active_jobs_per_project config \<le> project_active p db)
          then (Inl ProjectLimit, db)
          else if \<not> job_checks (new_job_row config command) then (Inl Persistence_reserve, db)
          else (case insert_row job_conflict (new_job_row config command) (jobs db) of
                  None \<Rightarrow> (Inl Persistence_reserve, db)
                | Some t \<Rightarrow> (Inr Reserved, db\<lparr>jobs := t\<rparr>)))"

section \<open>Input\<close>

definition is_inline_key :: "string \<Rightarrow> bool" where
  "is_inline_key key = starts_with ''inline://'' key"

fun insert_pins :: "uuid \<Rightarrow> instant \<Rightarrow> string list \<Rightarrow> pin_row list \<Rightarrow> pin_row list" where
  "insert_pins job_id now [] t = t"
| "insert_pins job_id now (key # keys) t =
     insert_pins job_id now keys
       (if is_inline_key key \<or> exists_where (\<lambda>p. pin_job_id p = job_id \<and> pin_object_key p = key) t then t
        else t @ [\<lparr>pin_job_id = job_id, pin_object_key = key, pin_created_at = now\<rparr>])"

text \<open>The foreign key of a pin names an existing job.\<close>

definition pin_project_assets ::
  "uuid \<Rightarrow> string list \<Rightarrow> instant \<Rightarrow> processing_db \<Rightarrow> (unit + unit) \<times> processing_db" where
  [op_defs]: "pin_project_assets job_id object_keys now db =
     (if list_all is_inline_key object_keys \<or> exists_where (\<lambda>j. j_id j = job_id) (jobs db)
      then (Inr (), db\<lparr>pins := insert_pins job_id now object_keys (pins db)\<rparr>)
      else (Inl (), db))"

definition release_project_asset_pins :: "uuid \<Rightarrow> processing_db \<Rightarrow> processing_db" where
  [op_defs]: "release_project_asset_pins job_id db =
     db\<lparr>pins := delete_where (\<lambda>p. pin_job_id p = job_id) (pins db)\<rparr>"

record prepared_input =
  pi_schema :: string
  pi_media_type :: string
  pi_bytes :: bytes
  pi_digest :: bytes
  pi_normalized_options :: json
  pi_options_digest :: bytes
  pi_workspace_version :: "int option"
  pi_content_epoch :: "int option"
  pi_source_epoch :: "int option"
  pi_now :: instant

definition awaiting_input :: "uuid \<Rightarrow> job_row \<Rightarrow> bool" where
  "awaiting_input job_id j \<longleftrightarrow> j_id j = job_id \<and> j_state j = Preparing \<and> \<not> j_cancellation_requested j"

definition attach_input :: "prepared_input \<Rightarrow> uuid \<Rightarrow> job_row \<Rightarrow> job_row" where
  "attach_input input blob_id j =
     j\<lparr>j_input_schema := Some (pi_schema input), j_input_blob_id := Some blob_id,
       j_input_digest := Some (pi_digest input), j_normalized_options := pi_normalized_options input,
       j_options_digest := pi_options_digest input,
       j_source_workspace_version := pi_workspace_version input,
       j_source_content_epoch := pi_content_epoch input, j_source_epoch := pi_source_epoch input,
       j_state := Queued, j_phase := WaitingForWorker,
       j_queued_at := Some (pi_now input), j_updated_at := pi_now input\<rparr>"

text \<open>\<open>Inl ()\<close> is a failed statement; \<open>Inr None\<close> the job that no longer waits for its input.\<close>

definition store_prepared_input ::
  "uuid \<Rightarrow> uuid \<Rightarrow> prepared_input \<Rightarrow> processing_db \<Rightarrow> (unit + job_record option) \<times> processing_db" where
  [op_defs]: "store_prepared_input fresh job_id input db =
     (case store_blob fresh (pi_digest input) (pi_media_type input) (pi_bytes input) (pi_now input) (blobs db) of
        None \<Rightarrow> (Inl (), db)
      | Some (blob_id, blobs') \<Rightarrow>
          (case find (awaiting_input job_id) (jobs db) of
             None \<Rightarrow> (Inr None, db)
           | Some j \<Rightarrow>
               if \<not> job_checks (attach_input input blob_id j) then (Inl (), db)
               else (Inr (Some (job_from_row (attach_input input blob_id j))),
                     db\<lparr>blobs := blobs',
                        jobs := update_where (awaiting_input job_id) (attach_input input blob_id) (jobs db),
                        pins := delete_where (\<lambda>p. pin_job_id p = job_id) (pins db)\<rparr>)))"

definition mark_preparation_failed :: "uuid \<Rightarrow> string \<Rightarrow> string \<Rightarrow> instant \<Rightarrow> processing_db \<Rightarrow> processing_db" where
  [op_defs]: "mark_preparation_failed job_id code message now db =
     db\<lparr>jobs := update_where (\<lambda>j. j_id j = job_id \<and> j_state j = Preparing)
                  (\<lambda>j. j\<lparr>j_state := Failed, j_phase := Complete, j_failure_class := Some ''internal'',
                         j_failure_code := Some code, j_failure_message := Some message,
                         j_updated_at := now, j_completed_at := Some now\<rparr>) (jobs db),
        pins := delete_where (\<lambda>p. pin_job_id p = job_id) (pins db)\<rparr>"

section \<open>Cancellation\<close>

definition cancel_now :: "instant \<Rightarrow> job_row \<Rightarrow> job_row" where
  "cancel_now now j =
     j\<lparr>j_state := Cancelled, j_phase := Complete, j_cancellation_requested := True,
       j_updated_at := now, j_completed_at := Some now\<rparr>"

definition request_cancellation :: "instant \<Rightarrow> job_row \<Rightarrow> job_row" where
  "request_cancellation now j = j\<lparr>j_cancellation_requested := True, j_updated_at := now\<rparr>"

definition cancel_effect :: "uuid \<Rightarrow> instant \<Rightarrow> job_state \<Rightarrow> processing_db \<Rightarrow> processing_db" where
  "cancel_effect job_id now st db =
     (case st of
        Preparing \<Rightarrow> db\<lparr>jobs := update_where (\<lambda>j. j_id j = job_id) (cancel_now now) (jobs db),
                       pins := delete_where (\<lambda>p. pin_job_id p = job_id) (pins db)\<rparr>
      | Queued \<Rightarrow> db\<lparr>jobs := update_where (\<lambda>j. j_id j = job_id) (cancel_now now) (jobs db),
                    pins := delete_where (\<lambda>p. pin_job_id p = job_id) (pins db)\<rparr>
      | Running \<Rightarrow> db\<lparr>jobs := update_where (\<lambda>j. j_id j = job_id) (request_cancellation now) (jobs db)\<rparr>
      | _ \<Rightarrow> db)"

definition cancel_job ::
  "uuid \<Rightarrow> uuid \<Rightarrow> instant \<Rightarrow> processing_db \<Rightarrow> job_record option \<times> processing_db" where
  [op_defs]: "cancel_job user_id job_id now db =
     (case find (\<lambda>j. j_id j = job_id \<and> j_requester_user_id j = user_id) (jobs db) of
        None \<Rightarrow> (None, db)
      | Some row \<Rightarrow>
          let db' = cancel_effect job_id now (j_state row) db
          in (map_option job_from_row (find (\<lambda>j. j_id j = job_id) (jobs db')), db'))"

section \<open>Reads\<close>

definition list_jobs_for_user :: "uuid \<Rightarrow> processing_db \<Rightarrow> job_record list" where
  "list_jobs_for_user user_id db =
     map job_from_row
       (take 50 (sort_key (\<lambda>j. (if active_state (j_state j) then 0 else 1 :: int, - j_updated_at j))
          (filter (\<lambda>j. j_requester_user_id j = user_id) (jobs db))))"

definition job_for_user :: "uuid \<Rightarrow> uuid \<Rightarrow> processing_db \<Rightarrow> job_record option" where
  "job_for_user user_id job_id db =
     map_option job_from_row (find (\<lambda>j. j_id j = job_id \<and> j_requester_user_id j = user_id) (jobs db))"

definition artifacts_for_jobs :: "uuid list \<Rightarrow> processing_db \<Rightarrow> artifact_record list" where
  "artifacts_for_jobs job_ids db =
     (if job_ids = [] then []
      else map artifact_from_row (sort_key f_role (filter (\<lambda>f. f_job_id f \<in> set job_ids) (artifacts db))))"

definition artifacts_by_job :: "uuid \<Rightarrow> processing_db \<Rightarrow> artifact_record list" where
  "artifacts_by_job job_id db = artifacts_for_jobs [job_id] db"

definition artifact_content_for_user ::
  "uuid \<Rightarrow> uuid \<Rightarrow> uuid \<Rightarrow> processing_db \<Rightarrow> (uuid option \<times> artifact_record \<times> bytes) option" where
  "artifact_content_for_user user_id job_id artifact_id db =
     (case find (\<lambda>f. f_id f = artifact_id \<and> f_job_id f = job_id) (artifacts db) of
        None \<Rightarrow> None
      | Some f \<Rightarrow>
          (case find (\<lambda>j. j_id j = f_job_id f \<and> j_requester_user_id j = user_id \<and> j_state j = Succeeded)
                  (jobs db) of
             None \<Rightarrow> None
           | Some j \<Rightarrow>
               (case find (\<lambda>b. b_id b = f_blob_id f) (blobs db) of
                  None \<Rightarrow> None
                | Some b \<Rightarrow> Some (j_project_id j, artifact_from_row f, b_content b))))"

definition offering :: "processing_operation \<Rightarrow> instant \<Rightarrow> processing_db \<Rightarrow> (session_row \<times> processor_row) list" where
  "offering opn now db =
     concat (map (\<lambda>s. map (Pair s)
       (filter (\<lambda>p. p_session_id p = s_id s \<and> p_operation p = opn \<and> p_healthy p) (processors db)))
       (filter (\<lambda>s. s_state s = Active_session \<and> now < s_expires_at s) (sessions db)))"

definition capability_stats :: "processing_operation \<Rightarrow> instant \<Rightarrow> processing_db \<Rightarrow> capability_stats" where
  "capability_stats opn now db =
     \<lparr>cs_healthy_sessions = int (length (remdups (map (s_id \<circ> fst) (offering opn now db)))),
      cs_active_slots = sum_list (map (p_slots \<circ> snd) (offering opn now db)),
      cs_active_jobs = count_where (\<lambda>j. j_operation j = opn \<and> j_state j \<in> {Running, Finalizing}) (jobs db),
      cs_queued_jobs = count_where (\<lambda>j. j_operation j = opn \<and> j_state j = Queued) (jobs db)\<rparr>"

section \<open>Properties of the operations\<close>

lemma reserve_job_cases:
  obtains (unchanged) "snd (reserve_job config command db) = db"
  | (inserted) "reserve_job config command db =
      (Inr Reserved, db\<lparr>jobs := jobs db @ [new_job_row config command]\<rparr>)"
      "\<forall>k \<in> set (jobs db). \<not> job_conflict (new_job_row config command) k"
      "global_active db < c_max_queued_jobs config"
      "requester_active (rc_requester_user_id command) db < c_max_active_jobs_per_user config"
      "\<And>p. rc_project_id command = Some p \<Longrightarrow> project_active p db < c_max_active_jobs_per_project config"
      "job_checks (new_job_row config command)"
proof (cases "\<exists>t. reserve_job config command db = (Inr Reserved, t)")
  case True
  then show thesis
    by (intro inserted) (auto simp: reserve_job_def split: option.splits if_splits)
next
  case False
  then show thesis
    by (intro unchanged) (auto simp: reserve_job_def split: option.splits if_splits)
qed

lemma reserve_job_found:
  assumes "find_idempotent_job (rc_requester_user_id command) (rc_idempotency_scope command)
    (rc_idempotency_key command) db = Some j"
  shows "reserve_job config command db =
    ((if j_command_digest j = rc_command_digest command then Inr (Existing (job_from_row j))
      else Inl IdempotencyConflict), db)"
  using assms by (simp add: reserve_job_def)

lemma find_idempotent_new:
  assumes "\<forall>k \<in> set (jobs db). \<not> job_conflict (new_job_row config command) k"
  shows "find_idempotent_job (rc_requester_user_id command) (rc_idempotency_scope command)
    (rc_idempotency_key command) (db\<lparr>jobs := jobs db @ [new_job_row config command]\<rparr>) =
    Some (new_job_row config command)"
proof -
  have "find (\<lambda>j. j_requester_user_id j = rc_requester_user_id command \<and>
      j_idempotency_scope j = rc_idempotency_scope command \<and>
      j_idempotency_key j = rc_idempotency_key command) (jobs db) = None"
    using assms by (auto simp: find_None_set job_conflict_def new_job_row_def)
  then show ?thesis by (simp add: find_idempotent_job_def find_blob_append) (simp add: new_job_row_def)
qed

end
