(* ===== verification/Worker_Sessions.thy ===== *)
theory Worker_Sessions
  imports Processing_Jobs
begin

text \<open>
  \<open>document_processing/worker_persistence.rs\<close>, worker sessions: registration with the advertised
  processors, heartbeats that report their health and extend the session lease, and draining.
\<close>

section \<open>Values\<close>

datatype worker_session_error =
  NotFound_session | Expired_session_error | Draining_session_error | Invalid_session | Persistence_session

record advertisement =
  ad_operation :: processing_operation
  ad_processor_contract :: string
  ad_runtime_version :: string
  ad_slots :: int

definition max_processors_per_session :: nat where "max_processors_per_session = 16"
definition max_worker_slots :: int where "max_worker_slots = 64"

section \<open>Registration\<close>

text \<open>The validation loop; \<open>unique\<close> holds the pairs inserted so far.\<close>

fun valid_advertisements ::
  "authenticated_worker \<Rightarrow> (processing_operation \<times> string) list \<Rightarrow> advertisement list \<Rightarrow> bool" where
  "valid_advertisements worker unique [] = True"
| "valid_advertisements worker unique (p # ps) =
     (if ad_slots p \<le> 0 \<or> max_worker_slots < ad_slots p
         \<or> trim (ad_runtime_version p) = [] \<or> 256 < length (ad_runtime_version p)
         \<or> \<not> approves worker (ad_operation p) (ad_processor_contract p)
         \<or> (ad_operation p, ad_processor_contract p) \<in> set unique
      then False
      else valid_advertisements worker ((ad_operation p, ad_processor_contract p) # unique) ps)"

definition session_conflict :: "session_row \<Rightarrow> session_row \<Rightarrow> bool" where
  "session_conflict s t \<longleftrightarrow> s_id s = s_id t"

definition processor_conflict :: "processor_row \<Rightarrow> processor_row \<Rightarrow> bool" where
  "processor_conflict p q \<longleftrightarrow>
     p_session_id p = p_session_id q \<and> p_operation p = p_operation q \<and>
     p_processor_contract p = p_processor_contract q"

definition processor_of :: "uuid \<Rightarrow> instant \<Rightarrow> advertisement \<Rightarrow> processor_row" where
  "processor_of session_id now ad =
     \<lparr>p_session_id = session_id, p_operation = ad_operation ad,
      p_processor_contract = ad_processor_contract ad, p_runtime_version = ad_runtime_version ad,
      p_slots = ad_slots ad, p_healthy = True, p_updated_at = now\<rparr>"

fun insert_processors :: "processor_row list \<Rightarrow> processor_row list \<Rightarrow> processor_row list option" where
  "insert_processors [] t = Some t"
| "insert_processors (p # ps) t =
     (case insert_row processor_conflict p t of None \<Rightarrow> None | Some t' \<Rightarrow> insert_processors ps t')"

definition register_session ::
  "authenticated_worker \<Rightarrow> string \<Rightarrow> advertisement list \<Rightarrow> processing_config \<Rightarrow> uuid \<Rightarrow> instant \<Rightarrow>
   processing_db \<Rightarrow> (worker_session_error + uuid) \<times> processing_db" where
  [op_defs]: "register_session worker worker_instance ads config fresh now db =
     (if trim worker_instance = [] \<or> 128 < length worker_instance \<or> ads = []
         \<or> max_processors_per_session < length ads
      then (Inl Invalid_session, db)
      else if \<not> valid_advertisements worker [] ads then (Inl Invalid_session, db)
      else
        let row = \<lparr>s_id = fresh, s_worker_identity = aw_identity worker, s_worker_instance = worker_instance,
                   s_protocol_version = 1, s_state = Active_session, s_created_at = now,
                   s_updated_at = now, s_last_heartbeat_at = now,
                   s_expires_at = now + c_session_lease config\<rparr>
        in case insert_row session_conflict row (sessions db) of
             None \<Rightarrow> (Inl Persistence_session, db)
           | Some ss \<Rightarrow>
               (case insert_processors (map (processor_of fresh now) ads) (processors db) of
                  None \<Rightarrow> (Inl Persistence_session, db)
                | Some ps \<Rightarrow> (Inr fresh, db\<lparr>sessions := ss, processors := ps\<rparr>)))"

section \<open>Heartbeat\<close>

text \<open>The loop over the reported processors; \<open>None\<close> is the early return \<open>Invalid\<close>.\<close>

fun report_health ::
  "uuid \<Rightarrow> instant \<Rightarrow> (processing_operation \<times> string) list \<Rightarrow> (processing_operation \<times> string \<times> bool) list \<Rightarrow>
   processor_row list \<Rightarrow> processor_row list option" where
  "report_health session_id now unique [] t = Some t"
| "report_health session_id now unique ((opn, contr, healthy) # rest) t =
     (let here = (\<lambda>p. p_session_id p = session_id \<and> p_operation p = opn \<and> p_processor_contract p = contr)
      in if (opn, contr) \<in> set unique then None
         else if rows_affected here t \<noteq> 1 then None
         else report_health session_id now ((opn, contr) # unique) rest
                (update_where here (\<lambda>p. p\<lparr>p_healthy := healthy, p_updated_at := now\<rparr>) t))"

definition heartbeat_session ::
  "authenticated_worker \<Rightarrow> uuid \<Rightarrow> (processing_operation \<times> string \<times> bool) list \<Rightarrow> processing_config \<Rightarrow>
   instant \<Rightarrow> processing_db \<Rightarrow> (worker_session_error + instant) \<times> processing_db" where
  [op_defs]: "heartbeat_session worker session_id reported config now db =
     (case find (\<lambda>s. s_id s = session_id \<and> s_worker_identity s = aw_identity worker) (sessions db) of
        None \<Rightarrow> (Inl NotFound_session, db)
      | Some row \<Rightarrow>
          if s_state row = Draining_session then (Inl Draining_session_error, db)
          else if s_state row \<noteq> Active_session \<or> s_expires_at row \<le> now
          then (Inl Expired_session_error,
                db\<lparr>sessions := update_where (\<lambda>s. s_id s = session_id)
                     (\<lambda>s. s\<lparr>s_state := Expired_session, s_updated_at := now\<rparr>) (sessions db)\<rparr>)
          else if count_where (\<lambda>p. p_session_id p = session_id) (processors db) \<noteq> int (length reported)
          then (Inl Invalid_session, db)
          else (case report_health session_id now [] reported (processors db) of
                  None \<Rightarrow> (Inl Invalid_session, db)
                | Some ps \<Rightarrow>
                    (Inr (now + c_session_lease config),
                     db\<lparr>processors := ps,
                        sessions := update_where (\<lambda>s. s_id s = session_id)
                          (\<lambda>s. s\<lparr>s_last_heartbeat_at := now, s_updated_at := now,
                                 s_expires_at := now + c_session_lease config\<rparr>) (sessions db)\<rparr>)))"

section \<open>Draining\<close>

definition drainable :: "authenticated_worker \<Rightarrow> uuid \<Rightarrow> session_row \<Rightarrow> bool" where
  "drainable worker session_id s \<longleftrightarrow>
     s_id s = session_id \<and> s_worker_identity s = aw_identity worker \<and>
     s_state s \<in> {Active_session, Draining_session}"

definition drain_session ::
  "authenticated_worker \<Rightarrow> uuid \<Rightarrow> instant \<Rightarrow> processing_db \<Rightarrow> (worker_session_error + unit) \<times> processing_db" where
  [op_defs]: "drain_session worker session_id now db =
     (if rows_affected (drainable worker session_id) (sessions db) = 0 then (Inl NotFound_session, db)
      else (Inr (), db\<lparr>sessions := update_where (drainable worker session_id)
                         (\<lambda>s. s\<lparr>s_state := Draining_session, s_updated_at := now\<rparr>) (sessions db)\<rparr>))"

section \<open>Properties\<close>

lemma valid_advertisements_spec:
  "valid_advertisements worker unique ps \<longleftrightarrow>
     (\<forall>p \<in> set ps. 0 < ad_slots p \<and> ad_slots p \<le> max_worker_slots \<and> trim (ad_runtime_version p) \<noteq> [] \<and>
        length (ad_runtime_version p) \<le> 256 \<and> approves worker (ad_operation p) (ad_processor_contract p)) \<and>
     distinct (map (\<lambda>p. (ad_operation p, ad_processor_contract p)) ps) \<and>
     set unique \<inter> (\<lambda>p. (ad_operation p, ad_processor_contract p)) ` set ps = {}"
  by (induction ps arbitrary: unique) (auto simp: not_less)

lemma insert_processors_Some: "insert_processors ps t = Some t' \<Longrightarrow> t' = t @ ps"
  by (induction ps arbitrary: t) (fastforce split: option.splits)+

lemma register_session_cases:
  obtains (rejected) e where "register_session worker inst ads config fresh now db = (Inl e, db)"
  | (registered) row where
      "register_session worker inst ads config fresh now db =
         (Inr fresh, db\<lparr>sessions := sessions db @ [row],
                        processors := processors db @ map (processor_of fresh now) ads\<rparr>)"
      "s_id row = fresh" "s_worker_identity row = aw_identity worker" "s_state row = Active_session"
      "s_expires_at row = now + c_session_lease config"
      "valid_advertisements worker [] ads" "ads \<noteq> []" "\<forall>s \<in> set (sessions db). s_id s \<noteq> fresh"
proof (cases "fst (register_session worker inst ads config fresh now db)")
  case (Inl e)
  then have "register_session worker inst ads config fresh now db = (Inl e, db)"
    by (auto simp: register_session_def Let_def split: if_splits option.splits)
  then show thesis by (rule rejected)
next
  case (Inr i)
  then show thesis
    by (intro registered [of "\<lparr>s_id = fresh, s_worker_identity = aw_identity worker, s_worker_instance = inst,
                   s_protocol_version = 1, s_state = Active_session, s_created_at = now,
                   s_updated_at = now, s_last_heartbeat_at = now,
                   s_expires_at = now + c_session_lease config\<rparr>"])
      (auto simp: register_session_def Let_def session_conflict_def dest: insert_processors_Some
        split: if_splits option.splits)
qed

lemma report_health_keys:
  assumes "report_health session_id now unique rest t = Some t'"
  shows "map (\<lambda>p. (p_session_id p, p_operation p, p_processor_contract p, p_slots p)) t' =
    map (\<lambda>p. (p_session_id p, p_operation p, p_processor_contract p, p_slots p)) t"
  using assms
proof (induction session_id now unique rest t rule: report_health.induct)
  case (2 session_id now unique opn contr healthy rest t)
  then show ?case by (auto simp: Let_def map_update_where split: if_splits)
qed simp

end
