(* ===== verification/Worker_Claims.thy ===== *)
theory Worker_Claims
  imports Worker_Sessions
begin

text \<open>
  \<open>document_processing/worker_persistence.rs\<close>, claims: a worker session takes a queued job as a
  new attempt under a lease (\<open>try_claim\<close>), extends the lease (\<open>heartbeat_claim\<close>), delivers
  (\<open>complete_claim\<close>), fails or releases it (\<open>mutate_failed_claim\<close>). Every mutation is fenced by
  the claim that the job currently names.
\<close>

section \<open>Values\<close>

datatype claim_error = SessionUnavailable | Lost_claim | Invalid_claim | Persistence_claim

record capacity_offer =
  of_operation :: processing_operation
  of_processor_contract :: string
  of_slots :: int

record claim_input =
  ci_schema :: string
  ci_size_bytes :: int
  ci_sha256 :: string
  ci_download_url :: string
  ci_download_token :: string

record worker_claim =
  wc_job_id :: uuid
  wc_attempt :: int
  wc_claim_id :: uuid
  wc_lease_expires_at :: instant
  wc_operation :: processing_operation
  wc_processor_contract :: string
  wc_options :: json
  wc_input :: claim_input
  wc_limits :: claim_limits

text \<open>
  The values that a transaction draws from its environment: \<open>e_sha256\<close> is the digest function,
  the identifiers come from \<open>Uuid::new_v4\<close>, \<open>e_token\<close> is the 48 random characters of a transfer
  token, \<open>e_hex\<close> and \<open>e_show\<close> are \<open>hex::encode\<close> and the text of a \<open>Uuid\<close>, and \<open>e_locked\<close>
  says which job rows concurrent transactions hold (\<open>SKIP LOCKED\<close>).
\<close>

record claim_env =
  e_sha256 :: "bytes \<Rightarrow> bytes"
  e_attempt_id :: uuid
  e_claim_id :: uuid
  e_transfer_id :: uuid
  e_token :: string
  e_hex :: "bytes \<Rightarrow> string"
  e_show :: "uuid \<Rightarrow> string"
  e_locked :: "uuid \<Rightarrow> bool"

definition input_transfer_reads :: int where "input_transfer_reads = 3"

section \<open>Transfer capabilities\<close>

definition transfer_conflict :: "transfer_row \<Rightarrow> transfer_row \<Rightarrow> bool" where
  "transfer_conflict t u \<longleftrightarrow> t_id t = t_id u"

definition transfer_token_text :: "string \<Rightarrow> string" where
  "transfer_token_text rnd = ''ptx_'' @ rnd"

text \<open>\<open>issue_transfer\<close>; it reads the clock again, so it has its own \<open>now\<close>.\<close>

definition issue_transfer ::
  "(bytes \<Rightarrow> bytes) \<Rightarrow> uuid \<Rightarrow> string \<Rightarrow> instant \<Rightarrow> uuid \<Rightarrow> uuid \<Rightarrow> uuid \<Rightarrow> transfer_direction \<Rightarrow> string \<Rightarrow> string \<Rightarrow>
   string option \<Rightarrow> int option \<Rightarrow> int \<Rightarrow> bytes option \<Rightarrow> uuid option \<Rightarrow> int \<Rightarrow> instant \<Rightarrow>
   transfer_row list \<Rightarrow> transfer_row list option" where
  "issue_transfer sha256 fresh rnd now job_id attempt_id claim_id direction role media_type filename
     exact_size max_size expected_sha256 blob_id remaining_uses expires_at t =
     (let row = \<lparr>t_id = fresh, t_token_fingerprint = sha256 (transfer_token_text rnd), t_job_id = job_id,
                 t_attempt_id = attempt_id, t_claim_id = claim_id, t_direction = direction, t_role = role,
                 t_media_type = media_type, t_filename = filename, t_exact_size_bytes = exact_size,
                 t_max_size_bytes = max_size, t_expected_sha256 = expected_sha256, t_blob_id = blob_id,
                 t_state = Issued, t_remaining_uses = remaining_uses, t_created_at = now,
                 t_updated_at = now, t_expires_at = expires_at\<rparr>
      in if \<not> transfer_checks row then None else insert_row transfer_conflict row t)"

section \<open>Taking a job\<close>

text \<open>The unexpired running attempts of one processor of a session.\<close>

definition active_on_processor :: "uuid \<Rightarrow> processing_operation \<Rightarrow> string \<Rightarrow> instant \<Rightarrow> processing_db \<Rightarrow> int" where
  "active_on_processor session_id opn contr now db =
     count_where (\<lambda>a. exists_where (\<lambda>j. j_id j = a_job_id a \<and> j_operation j = opn) (jobs db)
        \<and> a_worker_session_id a = session_id \<and> a_processor_contract a = contr
        \<and> a_state a = Running_attempt \<and> now < a_lease_expires_at a) (attempts db)"

definition claimable :: "(uuid \<Rightarrow> bool) \<Rightarrow> processing_operation \<Rightarrow> instant \<Rightarrow> processing_db \<Rightarrow> job_row \<Rightarrow> bool" where
  "claimable locked opn now db j \<longleftrightarrow>
     j_operation j = opn \<and> j_state j = Queued \<and> \<not> j_cancellation_requested j \<and>
     now < j_queue_expires_at j \<and> j_next_attempt_at j \<le> now \<and> \<not> locked (j_id j) \<and>
     exists_where (\<lambda>b. j_input_blob_id j = Some (b_id b)) (blobs db)"

definition select_candidate :: "(uuid \<Rightarrow> bool) \<Rightarrow> processing_operation \<Rightarrow> instant \<Rightarrow> processing_db \<Rightarrow> job_row option" where
  "select_candidate locked opn now db = first_by j_created_at (filter (claimable locked opn now db) (jobs db))"

text \<open>Ordering by \<open>completed_at desc\<close> puts a null first.\<close>

definition latest_first :: "instant option \<Rightarrow> int \<times> int" where
  "latest_first t = (case t of None \<Rightarrow> (0, 0) | Some x \<Rightarrow> (1, - x))"

definition cache_matches ::
  "job_row \<Rightarrow> bytes \<Rightarrow> string \<Rightarrow> processing_operation \<Rightarrow> instant \<Rightarrow> processing_db \<Rightarrow> job_row \<Rightarrow> bool" where
  "cache_matches j input_digest contr opn now db prior \<longleftrightarrow>
     j_id prior \<noteq> j_id j \<and> j_state prior = Succeeded \<and> j_operation prior = opn \<and>
     j_input_digest prior = Some input_digest \<and> j_processor_contract prior = Some contr \<and>
     j_options_digest prior = j_options_digest j \<and> now < j_retained_until prior \<and>
     (case j_project_id j of
        Some p \<Rightarrow> j_project_id prior = Some p
      | None \<Rightarrow> j_project_id prior = None \<and> j_requester_user_id prior = j_requester_user_id j) \<and>
     exists_where (\<lambda>f. f_job_id f = j_id prior) (artifacts db)"

definition select_cache_source ::
  "job_row \<Rightarrow> bytes \<Rightarrow> string \<Rightarrow> processing_operation \<Rightarrow> instant \<Rightarrow> processing_db \<Rightarrow> job_row option" where
  "select_cache_source j input_digest contr opn now db =
     first_by (\<lambda>k. latest_first (j_completed_at k)) (filter (cache_matches j input_digest contr opn now db) (jobs db))"

definition mark_cache_hit :: "string \<Rightarrow> uuid \<Rightarrow> instant \<Rightarrow> job_row \<Rightarrow> job_row" where
  "mark_cache_hit contr source now j =
     j\<lparr>j_state := Finalizing, j_phase := ValidatingResult, j_processor_contract := Some contr,
       j_cache_hit := True, j_cache_source_job_id := Some source, j_updated_at := now\<rparr>"

definition start_running :: "int \<Rightarrow> uuid \<Rightarrow> instant \<Rightarrow> string \<Rightarrow> instant \<Rightarrow> job_row \<Rightarrow> job_row" where
  "start_running n claim_id lease contr now j =
     j\<lparr>j_state := Running, j_phase := Processing, j_attempt_count := n,
       j_current_claim_id := Some claim_id, j_claim_expires_at := Some lease,
       j_processor_contract := Some contr,
       j_started_at := (case j_started_at j of None \<Rightarrow> Some now | Some t \<Rightarrow> Some t),
       j_updated_at := now\<rparr>"

definition new_attempt ::
  "claim_env \<Rightarrow> processing_config \<Rightarrow> uuid \<Rightarrow> job_row \<Rightarrow> string \<Rightarrow> instant \<Rightarrow> attempt_row" where
  "new_attempt env config session_id j contr now =
     \<lparr>a_id = e_attempt_id env, a_job_id = j_id j,
      a_attempt_number = i32_saturate (j_attempt_count j + 1), a_claim_id = e_claim_id env,
      a_worker_session_id = session_id, a_processor_contract = contr, a_state = Running_attempt,
      a_phase = Processing, a_lease_expires_at = now + c_claim_lease config,
      a_limits = \<lparr>l_wall_seconds = c_job_wall_seconds config, l_output_bytes = c_max_output_bytes config,
                  l_diagnostic_bytes = c_max_diagnostic_bytes config\<rparr>,
      a_failure_class = None, a_failure_code = None, a_failure_message = None,
      a_created_at = now, a_updated_at = now, a_completed_at = None\<rparr>"

text \<open>The part of \<open>try_claim\<close> that starts an attempt; \<open>None\<close> is a failed statement.\<close>

definition start_attempt ::
  "claim_env \<Rightarrow> processing_config \<Rightarrow> uuid \<Rightarrow> processing_operation \<Rightarrow> job_row \<Rightarrow> blob_row \<Rightarrow> string \<Rightarrow> string \<Rightarrow> instant \<Rightarrow> instant \<Rightarrow>
   processing_db \<Rightarrow> (worker_claim \<times> processing_db) option" where
  "start_attempt env config session_id opn j blob input_schema contr now issued_at db =
     (let a = new_attempt env config session_id j contr now;
          lease = now + c_claim_lease config
      in if \<not> attempt_checks a then None
         else case insert_row attempt_conflict a (attempts db) of
           None \<Rightarrow> None
         | Some as \<Rightarrow>
             (case issue_transfer (e_sha256 env) (e_transfer_id env) (e_token env) issued_at (j_id j)
                     (e_attempt_id env) (e_claim_id env) Download ''input''
                     (oc_input_media_type (contract opn)) None (Some (b_size_bytes blob))
                     (b_size_bytes blob) (Some (b_sha256 blob)) (Some (b_id blob)) input_transfer_reads
                     (now + c_transfer_ttl config) (transfers db) of
                None \<Rightarrow> None
              | Some ts \<Rightarrow>
                  Some (\<lparr>wc_job_id = j_id j, wc_attempt = a_attempt_number a, wc_claim_id = e_claim_id env,
                         wc_lease_expires_at = lease, wc_operation = opn,
                         wc_processor_contract = contr, wc_options = j_normalized_options j,
                         wc_input = \<lparr>ci_schema = input_schema, ci_size_bytes = b_size_bytes blob,
                                     ci_sha256 = e_hex env (b_sha256 blob),
                                     ci_download_url = ''/internal/v1/processing/transfers/'' @ e_show env (e_transfer_id env),
                                     ci_download_token = transfer_token_text (e_token env)\<rparr>,
                         wc_limits = a_limits a\<rparr>,
                        db\<lparr>attempts := as,
                           jobs := update_where (\<lambda>k. j_id k = j_id j)
                                     (start_running (a_attempt_number a) (e_claim_id env) lease contr now) (jobs db),
                           transfers := ts\<rparr>)))"

datatype offer_result =
    Offer_error claim_error
  | Offer_continue
  | Offer_return "worker_claim option" processing_db

text \<open>One turn of the loop over the offers.\<close>

definition try_offer ::
  "authenticated_worker \<Rightarrow> uuid \<Rightarrow> processing_config \<Rightarrow> claim_env \<Rightarrow> instant \<Rightarrow> instant \<Rightarrow> capacity_offer \<Rightarrow>
   processing_db \<Rightarrow> offer_result" where
  "try_offer worker session_id config env now issued_at offer db =
     (if \<not> approves worker (of_operation offer) (of_processor_contract offer) then Offer_error Invalid_claim
      else case find (\<lambda>p. p_session_id p = session_id \<and> p_operation p = of_operation offer \<and>
                          p_processor_contract p = of_processor_contract offer) (processors db) of
        None \<Rightarrow> Offer_error Invalid_claim
      | Some processor \<Rightarrow>
          let opn = p_operation processor; contr = p_processor_contract processor in
          if of_slots offer \<le> 0 \<or> p_slots processor < of_slots offer then Offer_error Invalid_claim
          else if \<not> p_healthy processor then Offer_continue
          else if p_slots processor \<le> active_on_processor session_id opn contr now db then Offer_continue
          else (case select_candidate (e_locked env) opn now db of
                  None \<Rightarrow> Offer_continue
                | Some j \<Rightarrow>
                    (case j_input_digest j of
                       None \<Rightarrow> Offer_error Persistence_claim
                     | Some input_digest \<Rightarrow>
                         (case select_cache_source j input_digest contr opn now db of
                            Some source \<Rightarrow>
                              Offer_return None
                                (db\<lparr>jobs := update_where (\<lambda>k. j_id k = j_id j \<and> j_state k = Queued)
                                     (mark_cache_hit contr (j_id source) now) (jobs db)\<rparr>)
                          | None \<Rightarrow>
                              (case (j_input_schema j, find (\<lambda>b. j_input_blob_id j = Some (b_id b)) (blobs db)) of
                                 (Some input_schema, Some blob) \<Rightarrow>
                                   (case start_attempt env config session_id opn j blob input_schema contr now issued_at db of
                                      None \<Rightarrow> Offer_error Persistence_claim
                                    | Some (claim, db') \<Rightarrow> Offer_return (Some claim) db')
                               | _ \<Rightarrow> Offer_error Persistence_claim)))))"

fun try_offers ::
  "authenticated_worker \<Rightarrow> uuid \<Rightarrow> processing_config \<Rightarrow> claim_env \<Rightarrow> instant \<Rightarrow> instant \<Rightarrow> capacity_offer list \<Rightarrow>
   processing_db \<Rightarrow> (claim_error + worker_claim option) \<times> processing_db" where
  "try_offers worker session_id config env now issued_at [] db = (Inr None, db)"
| "try_offers worker session_id config env now issued_at (offer # offers) db =
     (case try_offer worker session_id config env now issued_at offer db of
        Offer_error e \<Rightarrow> (Inl e, db)
      | Offer_return c db' \<Rightarrow> (Inr c, db')
      | Offer_continue \<Rightarrow> try_offers worker session_id config env now issued_at offers db)"

definition try_claim ::
  "authenticated_worker \<Rightarrow> uuid \<Rightarrow> capacity_offer list \<Rightarrow> processing_config \<Rightarrow> claim_env \<Rightarrow> instant \<Rightarrow> instant \<Rightarrow>
   processing_db \<Rightarrow> (claim_error + worker_claim option) \<times> processing_db" where
  [op_defs]: "try_claim worker session_id offers config env now issued_at db =
     (case find (\<lambda>s. s_id s = session_id \<and> s_worker_identity s = aw_identity worker) (sessions db) of
        None \<Rightarrow> (Inl SessionUnavailable, db)
      | Some s \<Rightarrow>
          if s_state s \<noteq> Active_session \<or> s_expires_at s \<le> now then (Inl SessionUnavailable, db)
          else try_offers worker session_id config env now issued_at offers db)"

section \<open>The attempt behind a claim\<close>

text \<open>The join of attempt, job and session that every claim mutation starts from.\<close>

definition claim_join :: "authenticated_worker \<Rightarrow> uuid \<Rightarrow> uuid \<Rightarrow> processing_db \<Rightarrow> (attempt_row \<times> job_row) option" where
  "claim_join worker session_id claim_id db =
     (case find (\<lambda>a. a_claim_id a = claim_id \<and> a_worker_session_id a = session_id \<and>
                exists_where (\<lambda>s. s_id s = session_id \<and> s_worker_identity s = aw_identity worker) (sessions db))
             (attempts db) of
        None \<Rightarrow> None
      | Some a \<Rightarrow>
          (case find (\<lambda>j. j_id j = a_job_id a) (jobs db) of None \<Rightarrow> None | Some j \<Rightarrow> Some (a, j)))"

section \<open>Heartbeat of a claim\<close>

record heartbeat_response =
  hb_state :: claim_heartbeat_state
  hb_server_time :: instant
  hb_lease_expires_at :: "instant option"
  hb_cancellation_deadline :: "instant option"

definition heartbeat_stop :: "claim_heartbeat_state \<Rightarrow> instant \<Rightarrow> heartbeat_response" where
  "heartbeat_stop st now =
     \<lparr>hb_state = st, hb_server_time = now, hb_lease_expires_at = None, hb_cancellation_deadline = None\<rparr>"

definition heartbeat_claim ::
  "authenticated_worker \<Rightarrow> uuid \<Rightarrow> uuid \<Rightarrow> processing_phase \<Rightarrow> processing_config \<Rightarrow> instant \<Rightarrow>
   processing_db \<Rightarrow> (claim_error + heartbeat_response) \<times> processing_db" where
  [op_defs]: "heartbeat_claim worker session_id claim_id phase config now db =
     (if phase \<notin> {Processing, UploadingResult} then (Inl Invalid_claim, db)
      else case claim_join worker session_id claim_id db of
        None \<Rightarrow> (Inr (heartbeat_stop ClaimLost now), db)
      | Some (a, j) \<Rightarrow>
          if is_terminal (j_state j) then (Inr (heartbeat_stop JobTerminal now), db)
          else if a_state a \<noteq> Running_attempt \<or> j_current_claim_id j \<noteq> Some claim_id
               \<or> a_lease_expires_at a \<le> now \<or> j_state j \<noteq> Running
          then (Inr (heartbeat_stop ClaimLost now), db)
          else
            let deadline = min (a_lease_expires_at a) (now + seconds 10);
                (st, lease, cancel) =
                  (if j_cancellation_requested j then (CancellationRequested, deadline, Some deadline)
                   else (Active, now + c_claim_lease config, None))
            in (Inr \<lparr>hb_state = st, hb_server_time = now, hb_lease_expires_at = Some lease,
                     hb_cancellation_deadline = cancel\<rparr>,
                db\<lparr>attempts := update_where (\<lambda>x. a_id x = a_id a)
                     (\<lambda>x. x\<lparr>a_phase := phase, a_lease_expires_at := lease, a_updated_at := now\<rparr>) (attempts db),
                   jobs := update_where (\<lambda>x. j_id x = j_id j)
                     (\<lambda>x. x\<lparr>j_phase := phase, j_claim_expires_at := Some lease, j_updated_at := now\<rparr>) (jobs db)\<rparr>))"

section \<open>Delivery\<close>

record completed_artifact =
  ca_transfer_id :: uuid
  ca_role :: string
  ca_size_bytes :: int
  ca_sha256 :: string

datatype complete_outcome = Accepted uuid | Lost_delivery | Cancelled_delivery | Invalid_delivery

text \<open>\<open>hex\<close> is \<open>hex::decode\<close>: \<open>None\<close> for text that is not hexadecimal.\<close>

definition artifact_staged ::
  "(string \<Rightarrow> bytes option) \<Rightarrow> attempt_row \<Rightarrow> uuid \<Rightarrow> completed_artifact \<Rightarrow> processing_db \<Rightarrow> bool" where
  "artifact_staged hex a claim_id art db =
     (case hex (ca_sha256 art) of
        None \<Rightarrow> False
      | Some digest \<Rightarrow>
          length digest = 32 \<and>
          exists_where (\<lambda>t. t_id t = ca_transfer_id art \<and> t_attempt_id t = a_id a \<and> t_claim_id t = claim_id \<and>
             t_direction t = Upload \<and> t_state t \<in> {Uploaded, Consumed} \<and> t_role t = ca_role art \<and>
             t_exact_size_bytes t = Some (ca_size_bytes art) \<and> t_expected_sha256 t = Some digest \<and>
             t_blob_id t \<noteq> None) (transfers db))"

text \<open>The loop over the declared artifacts; \<open>roles\<close> holds the roles seen so far.\<close>

fun artifacts_declared ::
  "(string \<Rightarrow> bytes option) \<Rightarrow> operation_contract \<Rightarrow> attempt_row \<Rightarrow> uuid \<Rightarrow> processing_db \<Rightarrow> string list \<Rightarrow>
   completed_artifact list \<Rightarrow> string list option" where
  "artifacts_declared hex contr a claim_id db roles [] = Some roles"
| "artifacts_declared hex contr a claim_id db roles (art # arts) =
     (if ca_role art \<in> set roles \<or> contract_artifact contr (ca_role art) = None then None
      else if \<not> artifact_staged hex a claim_id art db then None
      else artifacts_declared hex contr a claim_id db (ca_role art # roles) arts)"

definition delivered :: "instant \<Rightarrow> attempt_row \<Rightarrow> attempt_row" where
  "delivered now x = x\<lparr>a_state := Delivered_attempt, a_phase := Complete, a_updated_at := now, a_completed_at := Some now\<rparr>"

definition to_finalizing :: "instant \<Rightarrow> job_row \<Rightarrow> job_row" where
  "to_finalizing now x =
     x\<lparr>j_state := Finalizing, j_phase := ValidatingResult, j_current_claim_id := None,
       j_claim_expires_at := None, j_finalization_token := None, j_finalization_expires_at := None,
       j_updated_at := now\<rparr>"

definition complete_claim ::
  "(string \<Rightarrow> bytes option) \<Rightarrow> authenticated_worker \<Rightarrow> uuid \<Rightarrow> uuid \<Rightarrow> completed_artifact list \<Rightarrow> instant \<Rightarrow>
   processing_db \<Rightarrow> complete_outcome \<times> processing_db" where
  [op_defs]: "complete_claim hex worker session_id claim_id arts now db =
     (if arts = [] then (Invalid_delivery, db)
      else case claim_join worker session_id claim_id db of
        None \<Rightarrow> (Lost_delivery, db)
      | Some (a, j) \<Rightarrow>
          let replay = (a_state a = Delivered_attempt \<and> j_state j \<in> {Finalizing, Succeeded, Failed});
              contr = contract (j_operation j)
          in if j_cancellation_requested j \<and> \<not> replay then (Cancelled_delivery, db)
             else if \<not> replay \<and> (a_state a \<noteq> Running_attempt \<or> j_state j \<noteq> Running
                       \<or> j_current_claim_id j \<noteq> Some claim_id \<or> a_lease_expires_at a \<le> now)
             then (Lost_delivery, db)
             else if length (oc_artifacts contr) < length arts then (Invalid_delivery, db)
             else case artifacts_declared hex contr a claim_id db [] arts of
               None \<Rightarrow> (Invalid_delivery, db)
             | Some roles \<Rightarrow>
                 if list_ex (\<lambda>c. ac_required c \<and> ac_role c \<notin> set roles) (oc_artifacts contr)
                 then (Invalid_delivery, db)
                 else if replay then (Accepted (j_id j), db)
                 else (Accepted (j_id j),
                       db\<lparr>attempts := update_where (\<lambda>x. a_id x = a_id a) (delivered now) (attempts db),
                          jobs := update_where (\<lambda>x. j_id x = j_id j) (to_finalizing now) (jobs db)\<rparr>))"

section \<open>Failure and release\<close>

datatype mutation_outcome = Updated uuid job_state | Lost_mutation

definition next_state_after_failure :: "(worker_failure_class \<times> string \<times> string) option \<Rightarrow> job_row \<Rightarrow> job_state" where
  "next_state_after_failure failure j =
     (if j_cancellation_requested j then Cancelled
      else if (case failure of None \<Rightarrow> True | Some (cls, _, _) \<Rightarrow> retryable cls) \<and> j_attempt_count j < j_max_attempts j
      then Queued
      else Failed)"

definition close_attempt :: "(worker_failure_class \<times> string \<times> string) option \<Rightarrow> instant \<Rightarrow> attempt_row \<Rightarrow> attempt_row" where
  "close_attempt failure now x =
     x\<lparr>a_state := (case failure of None \<Rightarrow> Released_attempt | Some _ \<Rightarrow> Failed_attempt), a_phase := Complete,
       a_failure_class := map_option (\<lambda>(cls, _, _). failure_class_as_ref cls) failure,
       a_failure_code := map_option (\<lambda>(_, code, _). code) failure,
       a_failure_message := map_option (\<lambda>(_, _, message). message) failure,
       a_updated_at := now, a_completed_at := Some now\<rparr>"

definition after_failure ::
  "(worker_failure_class \<times> string \<times> string) option \<Rightarrow> job_state \<Rightarrow> instant \<Rightarrow> instant \<Rightarrow> job_row \<Rightarrow> job_row" where
  "after_failure failure st next_attempt_at now x =
     x\<lparr>j_state := st, j_phase := (if st = Queued then WaitingForWorker else Complete),
       j_current_claim_id := None, j_claim_expires_at := None,
       j_failure_class := (if st = Failed then map_option (\<lambda>(cls, _, _). failure_class_as_ref cls) failure else None),
       j_failure_code := (if st = Failed then map_option (\<lambda>(_, code, _). code) failure else None),
       j_failure_message := (if st = Failed then map_option (\<lambda>(_, _, message). message) failure else None),
       j_updated_at := now, j_completed_at := (if is_terminal st then Some now else None),
       j_next_attempt_at := (if st = Queued then next_attempt_at else j_next_attempt_at x)\<rparr>"

definition mutate_failed_claim ::
  "authenticated_worker \<Rightarrow> uuid \<Rightarrow> uuid \<Rightarrow> (worker_failure_class \<times> string \<times> string) option \<Rightarrow> instant \<Rightarrow>
   processing_db \<Rightarrow> mutation_outcome \<times> processing_db" where
  [op_defs]: "mutate_failed_claim worker session_id claim_id failure now db =
     (case claim_join worker session_id claim_id db of
        None \<Rightarrow> (Lost_mutation, db)
      | Some (a, j) \<Rightarrow>
          if a_state a \<in> {Failed_attempt, Released_attempt} then (Updated (j_id j) (j_state j), db)
          else if j_state j \<noteq> Running \<or> j_current_claim_id j \<noteq> Some claim_id \<or> a_lease_expires_at a \<le> now
          then (Lost_mutation, db)
          else
            let st = next_state_after_failure failure j;
                next_attempt_at = (if st = Queued then now + processing_retry_delay (j_attempt_count j) else now)
            in (Updated (j_id j) st,
                db\<lparr>attempts := update_where (\<lambda>x. a_id x = a_id a) (close_attempt failure now) (attempts db),
                   jobs := update_where (\<lambda>x. j_id x = j_id j) (after_failure failure st next_attempt_at now) (jobs db)\<rparr>))"

definition fail_claim ::
  "authenticated_worker \<Rightarrow> uuid \<Rightarrow> uuid \<Rightarrow> worker_failure_class \<Rightarrow> string \<Rightarrow> string \<Rightarrow> instant \<Rightarrow>
   processing_db \<Rightarrow> mutation_outcome \<times> processing_db" where
  [op_defs]: "fail_claim worker session_id claim_id cls code message now db =
     mutate_failed_claim worker session_id claim_id (Some (cls, code, message)) now db"

definition release_claim ::
  "authenticated_worker \<Rightarrow> uuid \<Rightarrow> uuid \<Rightarrow> instant \<Rightarrow> processing_db \<Rightarrow> mutation_outcome \<times> processing_db" where
  [op_defs]: "release_claim worker session_id claim_id now db =
     mutate_failed_claim worker session_id claim_id None now db"

end
