(* ===== verification/Worker_Transfers.thy ===== *)
theory Worker_Transfers
  imports Worker_Claims
begin

text \<open>
  \<open>document_processing/worker_persistence.rs\<close>, transfers: an artifact ticket for the current claim,
  the bounded download of the job's input, and the upload of an artifact, which is idempotent for
  the content that was declared. A transfer is authorised by the fingerprint of its bearer token.
\<close>

section \<open>Artifact tickets\<close>

record artifact_request =
  tr_session_id :: uuid
  tr_claim_id :: uuid
  tr_role :: string
  tr_media_type :: string
  tr_filename :: string
  tr_size_bytes :: int
  tr_expected_sha256 :: bytes

definition size_limit :: "processing_config \<Rightarrow> artifact_size_class \<Rightarrow> int" where
  "size_limit config cls = (case cls of Output \<Rightarrow> c_max_output_bytes config | Diagnostic \<Rightarrow> c_max_diagnostic_bytes config)"

definition valid_declaration :: "processing_config \<Rightarrow> operation_contract \<Rightarrow> artifact_request \<Rightarrow> bool" where
  "valid_declaration config contr request =
     (case contract_artifact contr (tr_role request) of
        None \<Rightarrow> False
      | Some artifact \<Rightarrow>
          tr_media_type request = ac_media_type artifact \<and>
          ends_with (ac_filename_suffix artifact) (tr_filename request) \<and>
          0 < tr_size_bytes request \<and> tr_size_bytes request \<le> size_limit config (ac_size_class artifact))"

definition unsafe_filename :: "string \<Rightarrow> bool" where
  "unsafe_filename name \<longleftrightarrow>
     name = [] \<or> 160 < length name \<or>
     list_ex (\<lambda>b. b = CHR ''/'' \<or> b = CHR 92 \<or> ascii_control b) name"

text \<open>The claim is current: the query of \<open>create_artifact_transfer\<close>.\<close>

definition current_claim :: "uuid \<Rightarrow> instant \<Rightarrow> attempt_row \<times> job_row \<Rightarrow> bool" where
  "current_claim claim_id now aj \<longleftrightarrow>
     a_state (fst aj) = Running_attempt \<and> now < a_lease_expires_at (fst aj) \<and> j_state (snd aj) = Running \<and>
     j_current_claim_id (snd aj) = Some claim_id \<and> \<not> j_cancellation_requested (snd aj)"

definition expire_ticket :: "uuid \<Rightarrow> string \<Rightarrow> instant \<Rightarrow> transfer_row list \<Rightarrow> transfer_row list" where
  "expire_ticket attempt_id role now t =
     update_where (\<lambda>x. t_attempt_id x = attempt_id \<and> t_direction x = Upload \<and> t_role x = role \<and>
                       t_state x = Issued \<and> t_expires_at x \<le> now)
       (\<lambda>x. x\<lparr>t_state := Expired_transfer, t_updated_at := now\<rparr>) t"

definition create_artifact_transfer ::
  "(bytes \<Rightarrow> bytes) \<Rightarrow> authenticated_worker \<Rightarrow> artifact_request \<Rightarrow> processing_config \<Rightarrow> uuid \<Rightarrow> string \<Rightarrow>
   instant \<Rightarrow> instant \<Rightarrow> processing_db \<Rightarrow> (claim_error + uuid \<times> string \<times> instant) \<times> processing_db" where
  [op_defs]: "create_artifact_transfer sha256 worker request config fresh rnd now issued_at db =
     (case claim_join worker (tr_session_id request) (tr_claim_id request) db of
        None \<Rightarrow> (Inl Lost_claim, db)
      | Some (a, j) \<Rightarrow>
          if \<not> current_claim (tr_claim_id request) now (a, j) then (Inl Lost_claim, db)
          else if \<not> valid_declaration config (contract (j_operation j)) request
               \<or> unsafe_filename (tr_filename request)
          then (Inl Invalid_claim, db)
          else
            let ts = expire_ticket (a_id a) (tr_role request) now (transfers db) in
            if exists_where (\<lambda>x. t_attempt_id x = a_id a \<and> t_direction x = Upload \<and> t_role x = tr_role request \<and>
                                t_state x \<in> {Issued, Uploaded, Consumed}) ts
            then (Inl Invalid_claim, db)
            else case issue_transfer sha256 fresh rnd issued_at (j_id j) (a_id a) (tr_claim_id request) Upload
                        (tr_role request) (tr_media_type request) (Some (tr_filename request))
                        (Some (tr_size_bytes request)) (tr_size_bytes request)
                        (Some (tr_expected_sha256 request)) None 1 (now + c_transfer_ttl config) ts of
                   None \<Rightarrow> (Inl Persistence_claim, db)
                 | Some ts' \<Rightarrow>
                     (Inr (fresh, transfer_token_text rnd, now + c_transfer_ttl config), db\<lparr>transfers := ts'\<rparr>))"

section \<open>Using a transfer\<close>

text \<open>The part common to both queries: the transfer belongs to the running, unexpired, current claim.\<close>

definition transfer_current :: "instant \<Rightarrow> processing_db \<Rightarrow> transfer_row \<Rightarrow> bool" where
  "transfer_current now db t \<longleftrightarrow>
     exists_where (\<lambda>a. a_id a = t_attempt_id t \<and> a_state a = Running_attempt \<and> now < a_lease_expires_at a) (attempts db) \<and>
     exists_where (\<lambda>j. j_id j = t_job_id t \<and> j_state j = Running \<and> j_current_claim_id j = Some (t_claim_id t)) (jobs db)"

datatype download_outcome = Content bytes string bytes | Rejected_download

definition download_transfer ::
  "(bytes \<Rightarrow> bytes) \<Rightarrow> uuid \<Rightarrow> string \<Rightarrow> instant \<Rightarrow> processing_db \<Rightarrow> (unit + download_outcome) \<times> processing_db" where
  [op_defs]: "download_transfer sha256 transfer_id token now db =
     (case find (\<lambda>t. t_id t = transfer_id \<and> transfer_current now db t) (transfers db) of
        None \<Rightarrow> (Inr Rejected_download, db)
      | Some t \<Rightarrow>
          (case find (\<lambda>b. t_blob_id t = Some (b_id b)) (blobs db) of
             None \<Rightarrow> (Inr Rejected_download, db)
           | Some blob \<Rightarrow>
               if t_token_fingerprint t \<noteq> sha256 token \<or> t_state t \<noteq> Issued \<or> t_direction t \<noteq> Download
                  \<or> t_remaining_uses t \<le> 0 \<or> t_expires_at t \<le> now
               then (Inr Rejected_download, db)
               else (case t_expected_sha256 t of
                       None \<Rightarrow> (Inl (), db)
                     | Some sha \<Rightarrow>
                         let next_uses = t_remaining_uses t - 1 in
                         (Inr (Content (b_content blob) (t_media_type t) sha),
                          db\<lparr>transfers := update_where (\<lambda>x. t_id x = transfer_id)
                               (\<lambda>x. x\<lparr>t_remaining_uses := next_uses,
                                      t_state := (if next_uses = 0 then Consumed else t_state x),
                                      t_updated_at := now\<rparr>) (transfers db)\<rparr>))))"

datatype upload_outcome = Stored int bytes | Rejected_upload | TooLarge | DigestMismatch

definition upload_transfer ::
  "(bytes \<Rightarrow> bytes) \<Rightarrow> uuid \<Rightarrow> string \<Rightarrow> bytes \<Rightarrow> uuid \<Rightarrow> instant \<Rightarrow> processing_db \<Rightarrow>
   (unit + upload_outcome) \<times> processing_db" where
  [op_defs]: "upload_transfer sha256 transfer_id token content fresh now db =
     (let digest = sha256 content; size_bytes = i64_len content in
      case find (\<lambda>t. t_id t = transfer_id \<and> transfer_current now db t) (transfers db) of
        None \<Rightarrow> (Inr Rejected_upload, db)
      | Some t \<Rightarrow>
          if t_token_fingerprint t \<noteq> sha256 token \<or> t_state t \<notin> {Issued, Uploaded} \<or> t_direction t \<noteq> Upload
             \<or> t_expires_at t \<le> now
          then (Inr Rejected_upload, db)
          else if t_max_size_bytes t < size_bytes \<or> (\<exists>exact \<in> set_option (t_exact_size_bytes t). exact \<noteq> size_bytes)
          then (Inr TooLarge, db)
          else if (\<exists>expected \<in> set_option (t_expected_sha256 t). expected \<noteq> digest)
          then (Inr DigestMismatch, db)
          else if t_state t = Uploaded
          then (case find (\<lambda>b. t_blob_id t = Some (b_id b)) (blobs db) of
                  None \<Rightarrow> (Inr Rejected_upload, db)
                | Some b \<Rightarrow>
                    if b_size_bytes b = size_bytes \<and> b_sha256 b = digest then (Inr (Stored size_bytes digest), db)
                    else (Inr Rejected_upload, db))
          else (case store_blob fresh digest (t_media_type t) content now (blobs db) of
                  None \<Rightarrow> (Inl (), db)
                | Some (blob_id, blobs') \<Rightarrow>
                    (Inr (Stored size_bytes digest),
                     db\<lparr>blobs := blobs',
                        transfers := update_where (\<lambda>x. t_id x = transfer_id)
                          (\<lambda>x. x\<lparr>t_blob_id := Some blob_id, t_state := Uploaded, t_remaining_uses := 0,
                                 t_updated_at := now\<rparr>) (transfers db)\<rparr>)))"

section \<open>Request parsing\<close>

text \<open>\<open>transfer_token\<close>: the argument is the \<open>Authorization\<close> header as text.\<close>

definition transfer_token :: "string option \<Rightarrow> string option" where
  "transfer_token auth_header =
     (case auth_header of None \<Rightarrow> None
      | Some v \<Rightarrow>
          (case strip_prefix ''ProcessingTransfer '' v of None \<Rightarrow> None
           | Some rest \<Rightarrow> if trim rest = [] then None else Some (trim rest)))"

definition decode_sha256 :: "(string \<Rightarrow> bytes option) \<Rightarrow> string \<Rightarrow> bytes option" where
  "decode_sha256 hex value =
     (case hex value of None \<Rightarrow> None | Some d \<Rightarrow> if length d = 32 then Some d else None)"

end
