(* ===== verification/Workspace_Paths.thy ===== *)
theory Workspace_Paths
  imports Processing_Model
begin

text \<open>
  Pure policies of the Workspace: project paths (\<open>workspace/file_policy.rs\<close>), the entry file of a
  project type (\<open>workspace/project_model.rs\<close>) and project names (\<open>workspace/project_name.rs\<close>).
  Texts are UTF-8 byte strings.
\<close>

section \<open>String functions of the standard library\<close>

text \<open>\<open>str::split(c)\<close>: at least one segment; a separator separates.\<close>

fun split_on :: "char \<Rightarrow> char list \<Rightarrow> char list list" where
  "split_on c [] = [[]]"
| "split_on c (x # xs) =
     (if x = c then [] # split_on c xs
      else (case split_on c xs of [] \<Rightarrow> [[x]] | seg # segs \<Rightarrow> (x # seg) # segs))"

text \<open>\<open>join(sep)\<close> of a list of texts.\<close>

fun join_with :: "char \<Rightarrow> char list list \<Rightarrow> char list" where
  "join_with c [] = []"
| "join_with c [seg] = seg"
| "join_with c (seg # segs) = seg @ c # join_with c segs"

definition ascii_lowercase :: "char \<Rightarrow> char" where
  "ascii_lowercase c = (if ascii_upper c then char_of ((of_char c :: nat) + 32) else c)"

definition to_ascii_lowercase :: "char list \<Rightarrow> char list" where
  "to_ascii_lowercase s = map ascii_lowercase s"

definition eq_ignore_ascii_case :: "char list \<Rightarrow> char list \<Rightarrow> bool" where
  "eq_ignore_ascii_case a b \<longleftrightarrow> to_ascii_lowercase a = to_ascii_lowercase b"

section \<open>Project paths\<close>

text \<open>The tests that reject one (trimmed) segment.\<close>

definition bad_segment :: "char list \<Rightarrow> bool" where
  "bad_segment seg \<longleftrightarrow>
     seg = [] \<or> seg = ''.'' \<or> seg = ''..'' \<or> eq_ignore_ascii_case seg ''.git'' \<or> CHR 0x00 \<in> set seg"

fun sanitize_segments :: "char list list \<Rightarrow> char list list option" where
  "sanitize_segments [] = Some []"
| "sanitize_segments (segment # segments) =
     (if bad_segment (trim segment) then None
      else map_option (Cons (trim segment)) (sanitize_segments segments))"

definition sanitize_project_path :: "string \<Rightarrow> string option" where
  "sanitize_project_path raw =
     (let trimmed = trim raw in
      if trimmed = [] \<or> starts_with ''/'' trimmed then None
      else
        let canonical = map (\<lambda>c. if c = CHR 92 then CHR ''/'' else c) trimmed in
        (case sanitize_segments (split_on (CHR ''/'') canonical) of
           None \<Rightarrow> None
         | Some parts \<Rightarrow> if parts = [] then None else Some (join_with (CHR ''/'') parts)))"

definition path_is_in_subtree :: "string \<Rightarrow> string \<Rightarrow> bool" where
  "path_is_in_subtree path subtree \<longleftrightarrow>
     path = subtree \<or>
     (case strip_prefix subtree path of None \<Rightarrow> False | Some suffix \<Rightarrow> starts_with ''/'' suffix)"

definition move_path_with_subtree :: "string \<Rightarrow> string \<Rightarrow> string \<Rightarrow> string option" where
  "move_path_with_subtree path from to =
     (if path = from then Some to
      else (case strip_prefix from path of
              None \<Rightarrow> None
            | Some suffix \<Rightarrow> if starts_with ''/'' suffix then Some (to @ suffix) else None))"

definition document_text_extensions :: "string list" where
  "document_text_extensions =
     [''.typ'', ''.tex'', ''.ltx'', ''.sty'', ''.cls'', ''.bst'', ''.bib'', ''.txt'', ''.md'', ''.json'',
      ''.toml'', ''.yaml'', ''.yml'', ''.csv'', ''.xml'', ''.html'', ''.css'', ''.js'', ''.ts'', ''.tsx'', ''.jsx'']"

definition is_document_text_path :: "string \<Rightarrow> bool" where
  "is_document_text_path path =
     (let lower = to_ascii_lowercase path in list_ex (\<lambda>ext. ends_with ext lower) document_text_extensions)"

section \<open>UTF-8 validity\<close>

text \<open>\<open>std::str::from_utf8(bytes).is_ok()\<close>: the well-formed byte sequences of the Unicode standard.\<close>

definition in_range :: "nat \<Rightarrow> nat \<Rightarrow> char \<Rightarrow> bool" where
  "in_range lo hi c \<longleftrightarrow> lo \<le> (of_char c :: nat) \<and> (of_char c :: nat) \<le> hi"

fun utf8_valid :: "char list \<Rightarrow> bool" where
  "utf8_valid [] = True"
| "utf8_valid [a] = in_range 0 127 a"
| "utf8_valid [a, b] =
     (if in_range 0 127 a then utf8_valid [b] else in_range 194 223 a \<and> in_range 128 191 b)"
| "utf8_valid [a, b, c] =
     (if in_range 0 127 a then utf8_valid [b, c]
      else if in_range 194 223 a then in_range 128 191 b \<and> utf8_valid [c]
      else ((in_range 224 224 a \<and> in_range 160 191 b) \<or> (in_range 225 236 a \<and> in_range 128 191 b) \<or>
            (in_range 237 237 a \<and> in_range 128 159 b) \<or> (in_range 238 239 a \<and> in_range 128 191 b)) \<and>
           in_range 128 191 c)"
| "utf8_valid (a # b # c # d # s) =
     (if in_range 0 127 a then utf8_valid (b # c # d # s)
      else if in_range 194 223 a then in_range 128 191 b \<and> utf8_valid (c # d # s)
      else if in_range 224 239 a
      then ((in_range 224 224 a \<and> in_range 160 191 b) \<or> (in_range 225 236 a \<and> in_range 128 191 b) \<or>
            (in_range 237 237 a \<and> in_range 128 159 b) \<or> (in_range 238 239 a \<and> in_range 128 191 b)) \<and>
           in_range 128 191 c \<and> utf8_valid (d # s)
      else ((in_range 240 240 a \<and> in_range 144 191 b) \<or> (in_range 241 243 a \<and> in_range 128 191 b) \<or>
            (in_range 244 244 a \<and> in_range 128 143 b)) \<and>
           in_range 128 191 c \<and> in_range 128 191 d \<and> utf8_valid s)"

definition looks_like_text :: "bytes \<Rightarrow> bool" where
  "looks_like_text bs \<longleftrightarrow> CHR 0x00 \<notin> set bs \<and> utf8_valid bs"

section \<open>Project types and entry files\<close>

datatype latex_engine = Pdftex | Xetex

fun default_entry_file_path :: "project_type \<Rightarrow> string" where
  "default_entry_file_path Typst = ''main.typ''"
| "default_entry_file_path Latex = ''main.tex''"

fun default_latex_engine :: "project_type \<Rightarrow> latex_engine option" where
  "default_latex_engine Typst = None"
| "default_latex_engine Latex = Some Xetex"

definition accepts_entry_file_path :: "project_type \<Rightarrow> string \<Rightarrow> bool" where
  "accepts_entry_file_path pt path =
     (let path = to_ascii_lowercase path in
      case pt of Typst \<Rightarrow> ends_with ''.typ'' path
      | Latex \<Rightarrow> ends_with ''.tex'' path \<or> ends_with ''.ltx'' path)"

fun preferred_entry_files :: "project_type \<Rightarrow> string list" where
  "preferred_entry_files Typst = [''main.typ'', ''slides.typ'', ''document.typ'']"
| "preferred_entry_files Latex = [''main.tex'', ''paper.tex'', ''document.tex'']"

definition choose_entry_file_path :: "project_type \<Rightarrow> string \<Rightarrow> string list \<Rightarrow> string option" where
  "choose_entry_file_path pt current document_paths =
     (let candidates = sort (filter (accepts_entry_file_path pt) document_paths) in
      if current \<in> set candidates then Some current
      else (case find (\<lambda>path. path \<in> set candidates) (preferred_entry_files pt) of
              Some path \<Rightarrow> Some path
            | None \<Rightarrow> (case candidates of [] \<Rightarrow> None | c # _ \<Rightarrow> Some c)))"

section \<open>Project names\<close>

definition max_project_name_chars :: nat where "max_project_name_chars = 200"

definition parse_project_name :: "string \<Rightarrow> string option" where
  "parse_project_name raw =
     (let value = trim raw in
      if value = [] \<or> max_project_name_chars < chars_count value \<or> chars_any char_is_control value
      then None else Some value)"

section \<open>Properties\<close>

lemma split_on_nonempty [simp]: "split_on c s \<noteq> []"
  by (cases s) (auto split: list.splits)

lemma split_on_no_sep: "seg \<in> set (split_on c s) \<Longrightarrow> c \<notin> set seg"
proof (induction s arbitrary: seg)
  case Nil
  then show ?case by simp
next
  case (Cons x xs)
  then show ?case by (cases "split_on c xs") (auto split: if_splits)
qed

lemma split_on_subset: "seg \<in> set (split_on c s) \<Longrightarrow> set seg \<subseteq> set s"
proof (induction s arbitrary: seg)
  case Nil
  then show ?case by simp
next
  case (Cons x xs)
  show ?case
  proof (cases "split_on c xs")
    case Nil
    then show ?thesis by simp
  next
    case (Cons a list)
    with Cons.IH [of a] Cons.IH [of seg] Cons.prems show ?thesis
      by (auto split: if_splits)
  qed
qed

lemma split_on_append: "c \<notin> set seg \<Longrightarrow> split_on c (seg @ c # s) = seg # split_on c s"
  by (induction seg) auto

lemma split_on_plain: "c \<notin> set seg \<Longrightarrow> split_on c seg = [seg]"
  by (induction seg) auto

lemma split_join:
  assumes "segs \<noteq> []" and "\<forall>seg \<in> set segs. c \<notin> set seg"
  shows "split_on c (join_with c segs) = segs"
  using assms by (induction c segs rule: join_with.induct) (auto simp: split_on_append split_on_plain)

lemma join_split: "join_with c (split_on c s) = s"
proof (induction s)
  case Nil
  then show ?case by simp
next
  case (Cons x xs)
  show ?case
  proof (cases "split_on c xs")
    case Nil
    then show ?thesis by simp
  next
    case (Cons seg segs)
    with Cons.IH show ?thesis by (cases segs) auto
  qed
qed

lemma set_trim: "set (trim s) \<subseteq> set s"
proof
  fix x assume "x \<in> set (trim s)"
  then obtain g where "x \<in> set g" "g \<in> set (utf8_split s)"
    by (auto simp: trim_def dest!: set_dropWhileD)
  moreover have "set s = \<Union> (set ` set (utf8_split s))" by (metis concat_utf8_split set_concat)
  ultimately show "x \<in> set s" by blast
qed

lemma sanitize_segments_Some:
  "sanitize_segments segs = Some parts \<Longrightarrow> parts = map trim segs \<and> (\<forall>p \<in> set parts. \<not> bad_segment p)"
  by (induction segs arbitrary: parts) (auto split: if_splits)

lemma sanitize_project_path_parts:
  assumes "sanitize_project_path raw = Some path"
  obtains parts where "parts \<noteq> []" "path = join_with (CHR ''/'') parts" "split_on (CHR ''/'') path = parts"
    "\<forall>p \<in> set parts. \<not> bad_segment p" "CHR 92 \<notin> set path"
proof -
  let ?canon = "map (\<lambda>c. if c = CHR 92 then CHR ''/'' else c) (trim raw)"
  from assms obtain parts where p: "sanitize_segments (split_on (CHR ''/'') ?canon) = Some parts"
    and ne: "parts \<noteq> []" and path: "path = join_with (CHR ''/'') parts"
    by (auto simp: sanitize_project_path_def Let_def split: if_splits option.splits)
  from sanitize_segments_Some [OF p] have parts: "parts = map trim (split_on (CHR ''/'') ?canon)"
    and ok: "\<forall>p \<in> set parts. \<not> bad_segment p" by simp_all
  have nosep: "\<forall>p \<in> set parts. CHR ''/'' \<notin> set p \<and> CHR 92 \<notin> set p"
  proof
    fix p assume "p \<in> set parts"
    then obtain seg where seg: "seg \<in> set (split_on (CHR ''/'') ?canon)" "p = trim seg"
      using parts by auto
    have "CHR 92 \<notin> set ?canon" by auto
    with split_on_no_sep [OF seg(1)] split_on_subset [OF seg(1)] set_trim [of seg] seg(2)
    show "CHR ''/'' \<notin> set p \<and> CHR 92 \<notin> set p" by blast
  qed
  have sp: "split_on (CHR ''/'') path = parts" unfolding path using ne nosep by (intro split_join) auto
  have set_join: "set (join_with c ps) \<subseteq> insert c (\<Union> (set ` set ps))" for c and ps :: "char list list"
    by (induction c ps rule: join_with.induct) auto
  have "CHR 92 \<notin> set path"
  proof
    assume "CHR 92 \<in> set path"
    then have "CHR 92 \<in> insert (CHR ''/'') (\<Union> (set ` set parts))" using set_join path by blast
    with nosep show False by auto
  qed
  with that [OF ne path sp ok] show thesis by blast
qed

lemma subtree_iff: "path_is_in_subtree path subtree \<longleftrightarrow> path = subtree \<or> (\<exists>s. path = subtree @ CHR ''/'' # s)"
  by (auto simp: path_is_in_subtree_def starts_with_iff split: option.splits)

lemma move_path_iff:
  "move_path_with_subtree path from to =
     (if path = from then Some to
      else if path_is_in_subtree path from then Some (to @ drop (length from) path) else None)"
  by (auto simp: move_path_with_subtree_def path_is_in_subtree_def starts_with_iff split: option.splits)

lemma pick_in:
  "(if x \<in> set c then Some x
    else case find (\<lambda>p. p \<in> set c) ps of Some q \<Rightarrow> Some q
         | None \<Rightarrow> (case c of [] \<Rightarrow> None | y # _ \<Rightarrow> Some y)) = Some p \<Longrightarrow> p \<in> set c"
  by (auto split: if_splits option.splits list.splits dest!: find_Some_set)

lemma choose_entry_file_path_sound:
  assumes "choose_entry_file_path pt current docs = Some p"
  shows "p \<in> set docs \<and> accepts_entry_file_path pt p"
  using pick_in [OF assms [unfolded choose_entry_file_path_def Let_def]] by simp

end
