(* ===== verification/Archive_Validation.thy ===== *)
theory Archive_Validation
  imports Workspace_Paths "HOL-Library.Word"
begin

unbundle bit_operations_syntax

text \<open>
  Structural validation of archives: \<open>document_processing/pptx.rs\<close> (\<open>validate_pptx\<close>) and
  \<open>document_processing/workspace_bundle.rs\<close> (\<open>validate_workspace_bundle\<close>). Reading a ZIP file
  is the \<open>zip\<close> crate's: the parameter \<open>zip_open\<close> gives the entries of an archive, \<open>None\<close> for
  bytes that are no archive; an entry that cannot be opened is \<open>None\<close>. Decoding the manifest
  (\<open>serde_json\<close>) and media types (\<open>mime\<close>) are parameters too.
\<close>

section \<open>Archive entries\<close>

text \<open>
  \<open>ze_data\<close> is what the decompressed stream delivers and \<open>ze_broken\<close> says that it then fails
  instead of ending; \<open>ze_size\<close> is the declared size.
\<close>

record zip_entry =
  ze_name :: string
  ze_is_dir :: bool
  ze_unix_mode :: "32 word option"
  ze_size :: int
  ze_data :: bytes
  ze_broken :: bool

type_synonym zip_reader = "bytes \<Rightarrow> zip_entry option list option"

text \<open>\<open>u64::checked_add\<close>.\<close>

definition u64_checked_add :: "int \<Rightarrow> int \<Rightarrow> int option" where
  "u64_checked_add a b = (if a + b \<le> u64_max then Some (a + b) else None)"

definition file_type :: "zip_entry \<Rightarrow> 32 word" where
  "file_type e = (case ze_unix_mode e of None \<Rightarrow> 0x81A4 | Some m \<Rightarrow> m) AND 0xF000"

definition strip_slash :: "string \<Rightarrow> string" where
  "strip_slash name = (if ends_with ''/'' name then butlast name else name)"

section \<open>PPTX packages\<close>

datatype pptx_error = Archive_pptx | UnsafePart | Limit_pptx | MissingPart

definition max_archive_entries :: nat where "max_archive_entries = 16384"

definition required_parts :: "string list" where
  "required_parts = [''[Content_Types].xml'', ''_rels/.rels'', ''ppt/presentation.xml'']"

fun contains_sub :: "char list \<Rightarrow> char list \<Rightarrow> bool" where
  "contains_sub p [] = (p = [])"
| "contains_sub p (x # xs) = (starts_with p (x # xs) \<or> contains_sub p xs)"

definition safe_part_name :: "string \<Rightarrow> bool" where
  "safe_part_name name =
     (let normalized = strip_slash name in
      normalized \<noteq> [] \<and> length normalized \<le> 1024 \<and> \<not> starts_with ''/'' normalized \<and>
      \<not> list_ex (\<lambda>c. c \<in> {CHR 92, CHR 0x00, CHR '':''}) normalized \<and>
      \<not> contains_sub ''//'' normalized \<and> \<not> chars_any char_is_control normalized \<and>
      list_all (\<lambda>component. component \<noteq> [] \<and> component \<noteq> ''.'' \<and> component \<noteq> ''..'')
        (split_on (CHR ''/'') normalized))"

text \<open>The loop over the entries, with the names, the required parts and the size seen so far.\<close>

fun validate_parts ::
  "int \<Rightarrow> string list \<Rightarrow> string list \<Rightarrow> int \<Rightarrow> zip_entry option list \<Rightarrow> pptx_error + string list" where
  "validate_parts max_expanded names required expanded [] = Inr required"
| "validate_parts max_expanded names required expanded (None # es) = Inl Archive_pptx"
| "validate_parts max_expanded names required expanded (Some e # es) =
     (let normalized = strip_slash (ze_name e) in
      if \<not> safe_part_name (ze_name e) \<or> normalized \<in> set names then Inl UnsafePart
      else if file_type e \<notin> {0, 0x4000, 0x8000} then Inl UnsafePart
      else (case u64_checked_add expanded (ze_size e) of
              None \<Rightarrow> Inl Limit_pptx
            | Some sz \<Rightarrow>
                if max_expanded < sz then Inl Limit_pptx
                else if normalized \<in> set required_parts \<and> (ze_is_dir e \<or> ze_size e = 0) then Inl MissingPart
                else if ze_broken e then Inl Archive_pptx
                else if int (length (ze_data e)) \<noteq> ze_size e then Inl Archive_pptx
                else validate_parts max_expanded (normalized # names)
                       (if normalized \<in> set required_parts then normalized # required else required) sz es))"

definition validate_pptx :: "zip_reader \<Rightarrow> bytes \<Rightarrow> int \<Rightarrow> pptx_error + unit" where
  "validate_pptx zip_open content max_expanded_bytes =
     (case zip_open content of
        None \<Rightarrow> Inl Archive_pptx
      | Some archive \<Rightarrow>
          if archive = [] \<or> max_archive_entries < length archive then Inl Limit_pptx
          else (case validate_parts max_expanded_bytes [] [] 0 archive of
                  Inl e \<Rightarrow> Inl e
                | Inr required \<Rightarrow>
                    if list_ex (\<lambda>part. part \<notin> set required) required_parts then Inl MissingPart else Inr ()))"

section \<open>Workspace bundles\<close>

datatype bundle_error = Archive_bundle | UnsafePath | Limit_bundle | Manifest | ManifestMismatch

record bundle_file =
  bf_path :: string
  bf_kind :: string
  bf_media_type :: "string option"
  bf_size_bytes :: int
  bf_sha256 :: string

record bundle_manifest =
  bm_schema :: string
  bm_project_type :: project_type
  bm_entry_file_path :: string
  bm_files :: "bundle_file list"

record workspace_document =
  wd_path :: string
  wd_content :: bytes

record bundle_asset =
  ba_path :: string
  ba_media_type :: string
  ba_bytes :: bytes

record validated_bundle =
  vb_entry_file_path :: string
  vb_directories :: "string list"
  vb_documents :: "workspace_document list"
  vb_assets :: "bundle_asset list"

definition max_files :: nat where "max_files = 4096"
definition max_manifest_bytes :: int where "max_manifest_bytes = 4 * 1024 * 1024"

definition safe_archive_name :: "string \<Rightarrow> bool" where
  "safe_archive_name name \<longleftrightarrow>
     name = ''manifest.json'' \<or>
     (case strip_prefix ''project/'' name of
        None \<Rightarrow> False
      | Some path \<Rightarrow>
          path \<noteq> [] \<and> CHR 92 \<notin> set path \<and> \<not> chars_any char_is_control path \<and>
          sanitize_project_path path = Some path)"

text \<open>\<open>read_bounded\<close> reads at most \<open>limit + 1\<close> bytes.\<close>

definition read_bounded :: "zip_entry \<Rightarrow> int \<Rightarrow> bundle_error + bytes" where
  "read_bounded e limit =
     (let n = min (limit + 1) u64_max in
      if int (length (ze_data e)) < n \<and> ze_broken e then Inl Archive_bundle
      else let got = take (nat n) (ze_data e) in
           if limit < int (length got) then Inl Limit_bundle else Inr got)"

record bundle_scan =
  bs_names :: "string list"
  bs_files :: "(string \<times> bytes) list"
  bs_manifest :: "bytes option"
  bs_expanded :: int

definition scan_entry :: "int \<Rightarrow> bundle_scan \<Rightarrow> zip_entry \<Rightarrow> bundle_error + bundle_scan" where
  "scan_entry max_expanded st e =
     (let name = ze_name e in
      if ze_is_dir e \<or> \<not> safe_archive_name name \<or> name \<in> set (bs_names st) then Inl UnsafePath
      else if file_type e \<notin> {0, 0x8000} then Inl UnsafePath
      else (case u64_checked_add (bs_expanded st) (ze_size e) of
              None \<Rightarrow> Inl Limit_bundle
            | Some sz \<Rightarrow>
                if max_expanded < sz then Inl Limit_bundle
                else
                  let limit = (if name = ''manifest.json'' then min max_manifest_bytes max_expanded else max_expanded);
                      st' = st\<lparr>bs_names := name # bs_names st, bs_expanded := sz\<rparr>
                  in case read_bounded e limit of
                       Inl x \<Rightarrow> Inl x
                     | Inr bytes \<Rightarrow>
                         if name = ''manifest.json'' then Inr (st'\<lparr>bs_manifest := Some bytes\<rparr>)
                         else (case strip_prefix ''project/'' name of
                                 None \<Rightarrow> Inl UnsafePath
                               | Some path \<Rightarrow>
                                   (case sanitize_project_path path of
                                      None \<Rightarrow> Inl UnsafePath
                                    | Some clean \<Rightarrow>
                                        if clean \<in> fst ` set (bs_files st) then Inl UnsafePath
                                        else Inr (st'\<lparr>bs_files := bs_files st @ [(clean, bytes)]\<rparr>)))))"

fun scan_entries :: "int \<Rightarrow> bundle_scan \<Rightarrow> zip_entry option list \<Rightarrow> bundle_error + bundle_scan" where
  "scan_entries max_expanded st [] = Inr st"
| "scan_entries max_expanded st (None # es) = Inl Archive_bundle"
| "scan_entries max_expanded st (Some e # es) =
     (case scan_entry max_expanded st e of Inl x \<Rightarrow> Inl x | Inr st' \<Rightarrow> scan_entries max_expanded st' es)"

text \<open>
  \<open>collect_parent_directories\<close>: the chain of \<open>Path::parent\<close> of a normalised relative path, the
  joined proper prefixes of its segments.
\<close>

definition parent_directories :: "string \<Rightarrow> string list" where
  "parent_directories path =
     (let segs = split_on (CHR ''/'') path in
      map (\<lambda>n. join_with (CHR ''/'') (take n segs)) [1 ..< length segs])"

record bundle_build =
  bb_paths :: "string list"
  bb_files :: "(string \<times> bytes) list"
  bb_documents :: "workspace_document list"
  bb_assets :: "bundle_asset list"
  bb_directories :: "string list"
  bb_entry_seen :: bool

text \<open>
  One record of the manifest. \<open>hex\<close> is \<open>hex::encode\<close> and \<open>essence\<close> the essence of a parsed media
  type, \<open>None\<close> when it does not parse.
\<close>

definition build_record ::
  "(bytes \<Rightarrow> bytes) \<Rightarrow> (bytes \<Rightarrow> string) \<Rightarrow> (string \<Rightarrow> string option) \<Rightarrow> string \<Rightarrow> bundle_build \<Rightarrow> bundle_file \<Rightarrow>
   bundle_error + bundle_build" where
  "build_record sha256 hex essence entry st r =
     (case sanitize_project_path (bf_path r) of
        None \<Rightarrow> Inl ManifestMismatch
      | Some path \<Rightarrow>
          if path \<noteq> bf_path r \<or> path \<in> set (bb_paths st) \<or> bf_size_bytes r < 0 \<or> length (bf_sha256 r) \<noteq> 64
          then Inl ManifestMismatch
          else (case map_of (bb_files st) path of
                  None \<Rightarrow> Inl ManifestMismatch
                | Some bytes \<Rightarrow>
                    let st' = st\<lparr>bb_paths := path # bb_paths st,
                                 bb_files := filter (\<lambda>(p, _). p \<noteq> path) (bb_files st),
                                 bb_directories := remdups (parent_directories path @ bb_directories st)\<rparr>
                    in if \<not> (int (length bytes) \<le> i64_max \<and> int (length bytes) = bf_size_bytes r)
                          \<or> hex (sha256 bytes) \<noteq> bf_sha256 r
                       then Inl ManifestMismatch
                       else if bf_kind r = ''document'' \<and> bf_media_type r = None \<and> is_document_text_path path \<and>
                               utf8_valid bytes
                       then Inr (st'\<lparr>bb_entry_seen := (bb_entry_seen st \<or> path = entry),
                                     bb_documents := bb_documents st @ [\<lparr>wd_path = path, wd_content = bytes\<rparr>]\<rparr>)
                       else if bf_kind r = ''asset''
                       then (case bf_media_type r of
                               None \<Rightarrow> Inl ManifestMismatch
                             | Some value \<Rightarrow>
                                 if length value \<le> 127 \<and> essence value = Some value
                                 then Inr (st'\<lparr>bb_assets := bb_assets st @
                                        [\<lparr>ba_path = path, ba_media_type = value, ba_bytes = bytes\<rparr>]\<rparr>)
                                 else Inl ManifestMismatch)
                       else Inl ManifestMismatch))"

fun build_records ::
  "(bytes \<Rightarrow> bytes) \<Rightarrow> (bytes \<Rightarrow> string) \<Rightarrow> (string \<Rightarrow> string option) \<Rightarrow> string \<Rightarrow> bundle_build \<Rightarrow> bundle_file list \<Rightarrow>
   bundle_error + bundle_build" where
  "build_records sha256 hex essence entry st [] = Inr st"
| "build_records sha256 hex essence entry st (r # rs) =
     (case build_record sha256 hex essence entry st r of
        Inl x \<Rightarrow> Inl x | Inr st' \<Rightarrow> build_records sha256 hex essence entry st' rs)"

definition materialize_manifest ::
  "(bytes \<Rightarrow> bytes) \<Rightarrow> (bytes \<Rightarrow> string) \<Rightarrow> (string \<Rightarrow> string option) \<Rightarrow> bundle_manifest \<Rightarrow> (string \<times> bytes) list \<Rightarrow>
   bundle_error + validated_bundle" where
  "materialize_manifest sha256 hex essence m files =
     (case sanitize_project_path (bm_entry_file_path m) of
        None \<Rightarrow> Inl ManifestMismatch
      | Some entry \<Rightarrow>
          if bm_schema m \<noteq> ''workspace-bundle/v1'' \<or> bm_project_type m \<noteq> Typst
             \<or> \<not> accepts_entry_file_path Typst entry \<or> bm_files m = [] \<or> max_files < length (bm_files m)
             \<or> length (bm_files m) \<noteq> length files
          then Inl ManifestMismatch
          else (case build_records sha256 hex essence entry
                       \<lparr>bb_paths = [], bb_files = files, bb_documents = [], bb_assets = [],
                        bb_directories = [], bb_entry_seen = False\<rparr> (bm_files m) of
                  Inl x \<Rightarrow> Inl x
                | Inr st \<Rightarrow>
                    if bb_files st \<noteq> [] \<or> \<not> bb_entry_seen st
                       \<or> list_ex (\<lambda>path. path \<in> set (bb_directories st)) (bb_paths st)
                    then Inl ManifestMismatch
                    else Inr \<lparr>vb_entry_file_path = entry, vb_directories = sort (bb_directories st),
                              vb_documents = sort_key wd_path (bb_documents st),
                              vb_assets = sort_key ba_path (bb_assets st)\<rparr>))"

definition validate_workspace_bundle ::
  "zip_reader \<Rightarrow> (bytes \<Rightarrow> bundle_manifest option) \<Rightarrow> (bytes \<Rightarrow> bytes) \<Rightarrow> (bytes \<Rightarrow> string) \<Rightarrow> (string \<Rightarrow> string option) \<Rightarrow>
   bytes \<Rightarrow> int \<Rightarrow> bundle_error + validated_bundle" where
  "validate_workspace_bundle zip_open parse_manifest sha256 hex essence content max_expanded_bytes =
     (case zip_open content of
        None \<Rightarrow> Inl Archive_bundle
      | Some archive \<Rightarrow>
          if archive = [] \<or> max_files + 1 < length archive then Inl Limit_bundle
          else (case scan_entries max_expanded_bytes
                       \<lparr>bs_names = [], bs_files = [], bs_manifest = None, bs_expanded = 0\<rparr> archive of
                  Inl x \<Rightarrow> Inl x
                | Inr st \<Rightarrow>
                    (case bs_manifest st of
                       None \<Rightarrow> Inl Manifest
                     | Some bytes \<Rightarrow>
                         (case parse_manifest bytes of
                            None \<Rightarrow> Inl Manifest
                          | Some m \<Rightarrow> materialize_manifest sha256 hex essence m (bs_files st)))))"

section \<open>Properties of PPTX validation\<close>

definition part_ok :: "zip_entry \<Rightarrow> bool" where
  "part_ok z \<longleftrightarrow> safe_part_name (ze_name z) \<and> file_type z \<in> {0, 0x4000, 0x8000} \<and> \<not> ze_broken z \<and>
     int (length (ze_data z)) = ze_size z"

lemma validate_parts_step:
  "validate_parts mx names req expanded (Some e # es) = Inr out \<longleftrightarrow>
     part_ok e \<and> strip_slash (ze_name e) \<notin> set names \<and> expanded + ze_size e \<le> min mx u64_max \<and>
     (strip_slash (ze_name e) \<in> set required_parts \<longrightarrow> \<not> ze_is_dir e \<and> ze_data e \<noteq> []) \<and>
     validate_parts mx (strip_slash (ze_name e) # names)
       (if strip_slash (ze_name e) \<in> set required_parts then strip_slash (ze_name e) # req else req)
       (expanded + ze_size e) es = Inr out"
  by (auto simp: Let_def u64_checked_add_def part_ok_def)

lemma validate_parts_cons:
  "validate_parts mx names req expanded (x # es) = Inr out \<longleftrightarrow>
     (\<exists>e. x = Some e \<and> validate_parts mx names req expanded (Some e # es) = Inr out)"
  by (cases x) auto

lemma validate_parts_entries:
  assumes "validate_parts mx names req expanded es = Inr out"
  shows "list_all (\<lambda>x. \<exists>z. x = Some z \<and> part_ok z) es"
  using assms
proof (induction es arbitrary: names req expanded)
  case (Cons x es)
  from Cons.prems validate_parts_cons validate_parts_step obtain e names' req' expanded'
    where "x = Some e" "part_ok e" "validate_parts mx names' req' expanded' es = Inr out" by metis
  with Cons.IH show ?case by simp
qed simp

lemma validate_parts_names:
  assumes "validate_parts mx names req expanded es = Inr out"
  shows "distinct (map (strip_slash \<circ> ze_name \<circ> the) es)"
    and "set (map (strip_slash \<circ> ze_name \<circ> the) es) \<inter> set names = {}"
proof -
  have "distinct (map (strip_slash \<circ> ze_name \<circ> the) es) \<and>
        set (map (strip_slash \<circ> ze_name \<circ> the) es) \<inter> set names = {}"
    using assms
  proof (induction es arbitrary: names req expanded)
    case (Cons x es)
    then obtain e where x: "x = Some e" and new: "strip_slash (ze_name e) \<notin> set names"
      and rec: "validate_parts mx (strip_slash (ze_name e) # names)
       (if strip_slash (ze_name e) \<in> set required_parts then strip_slash (ze_name e) # req else req)
       (expanded + ze_size e) es = Inr out"
      using validate_parts_cons validate_parts_step by metis
    show ?case using Cons.IH [OF rec] x new by auto
  qed simp
  then show "distinct (map (strip_slash \<circ> ze_name \<circ> the) es)"
    and "set (map (strip_slash \<circ> ze_name \<circ> the) es) \<inter> set names = {}" by simp_all
qed

lemma validate_parts_size:
  assumes "validate_parts mx names req expanded es = Inr out" and "expanded \<le> mx"
  shows "expanded + sum_list (map (ze_size \<circ> the) es) \<le> mx"
  using assms
proof (induction es arbitrary: names req expanded)
  case (Cons x es)
  then obtain e where x: "x = Some e" and le: "expanded + ze_size e \<le> mx"
    and rec: "validate_parts mx (strip_slash (ze_name e) # names)
     (if strip_slash (ze_name e) \<in> set required_parts then strip_slash (ze_name e) # req else req)
     (expanded + ze_size e) es = Inr out"
    using validate_parts_cons validate_parts_step by (metis min.bounded_iff)
  show ?case using Cons.IH [OF rec le] x by (simp add: algebra_simps)
qed simp

lemma validate_parts_required:
  assumes "validate_parts mx names req expanded es = Inr out" and "p \<in> set out" and "p \<notin> set req"
  shows "\<exists>z. Some z \<in> set es \<and> strip_slash (ze_name z) = p \<and> \<not> ze_is_dir z \<and> ze_data z \<noteq> []"
  using assms
proof (induction es arbitrary: names req expanded)
  case (Cons x es)
  then obtain e where x: "x = Some e"
    and rp: "strip_slash (ze_name e) \<in> set required_parts \<longrightarrow> \<not> ze_is_dir e \<and> ze_data e \<noteq> []"
    and rec: "validate_parts mx (strip_slash (ze_name e) # names)
     (if strip_slash (ze_name e) \<in> set required_parts then strip_slash (ze_name e) # req else req)
     (expanded + ze_size e) es = Inr out"
    using validate_parts_cons validate_parts_step by metis
  show ?case
  proof (cases "p = strip_slash (ze_name e) \<and> p \<in> set required_parts")
    case True
    then show ?thesis using x rp by auto
  next
    case False
    then have "p \<notin> set (if strip_slash (ze_name e) \<in> set required_parts then strip_slash (ze_name e) # req else req)"
      using Cons.prems(3) by auto
    from Cons.IH [OF rec Cons.prems(2) this] show ?thesis by auto
  qed
qed simp

end
