(* ===== verification/Project_Access.thy ===== *)
theory Project_Access
  imports Workspace_Paths
begin

text \<open>
  Effective access to a project: \<open>access/grant_model.rs\<close>, \<open>auth_settings_model.rs\<close>,
  \<open>principal.rs\<close>, \<open>resolution_persistence.rs\<close>, \<open>authorization.rs\<close> and the grants of
  \<open>grant_persistence.rs\<close> that change roles. A principal is a user with a direct role or an
  organisation permission, a guest session of a share link, or the bearer of a share token.
\<close>

section \<open>Roles and permissions\<close>

datatype project_role = Owner | ReadWrite | ReadOnly

fun role_rank :: "project_role \<Rightarrow> nat" where
  "role_rank Owner = 3"
| "role_rank ReadWrite = 2"
| "role_rank ReadOnly = 1"

datatype project_permission = Read_permission | Write_permission

fun permission_role :: "project_permission \<Rightarrow> project_role" where
  "permission_role Read_permission = ReadOnly"
| "permission_role Write_permission = ReadWrite"

fun can_write :: "project_permission \<Rightarrow> bool" where
  "can_write Write_permission = True"
| "can_write Read_permission = False"

datatype anonymous_mode = Off | ReadOnly_mode | ReadWriteNamed

fun allows_read :: "anonymous_mode \<Rightarrow> bool" where
  "allows_read Off = False"
| "allows_read ReadOnly_mode = True"
| "allows_read ReadWriteNamed = True"

fun allows_guest_write :: "anonymous_mode \<Rightarrow> bool" where
  "allows_guest_write ReadWriteNamed = True"
| "allows_guest_write _ = False"

datatype role_source = DirectRole | ShareLinkInvite

datatype access_need = Read | Write | Manage | GitSync

fun allows_role :: "access_need \<Rightarrow> project_role \<Rightarrow> bool" where
  "allows_role Read role = True"
| "allows_role Write role = (role = Owner \<or> role = ReadWrite)"
| "allows_role Manage role = (role = Owner)"
| "allows_role GitSync role = (role = Owner)"

fun allows_organization_permission :: "access_need \<Rightarrow> project_permission \<Rightarrow> bool" where
  "allows_organization_permission Read p = True"
| "allows_organization_permission Write p = can_write p"
| "allows_organization_permission Manage p = False"
| "allows_organization_permission GitSync p = False"

text \<open>Roles are ordered by their rank.\<close>

instantiation project_role :: linorder
begin

definition less_eq_project_role :: "project_role \<Rightarrow> project_role \<Rightarrow> bool" where
  "less_eq_project_role r s \<longleftrightarrow> role_rank r \<le> role_rank s"

definition less_project_role :: "project_role \<Rightarrow> project_role \<Rightarrow> bool" where
  "less_project_role r s \<longleftrightarrow> role_rank r < role_rank s"

instance
proof
  fix x y z :: project_role
  show "(x < y) = (x \<le> y \<and> \<not> y \<le> x)" by (auto simp: less_eq_project_role_def less_project_role_def)
  show "x \<le> x" by (simp add: less_eq_project_role_def)
  show "x \<le> y \<Longrightarrow> y \<le> z \<Longrightarrow> x \<le> z" by (simp add: less_eq_project_role_def)
  show "x \<le> y \<Longrightarrow> y \<le> x \<Longrightarrow> x = y" by (cases x; cases y; simp add: less_eq_project_role_def)
  show "x \<le> y \<or> y \<le> x" by (auto simp: less_eq_project_role_def)
qed

end

section \<open>Tables\<close>

record role_row =
  ro_project_id :: uuid
  ro_user_id :: uuid
  ro_role :: project_role
  ro_granted_at :: instant
  ro_source :: role_source

record organization_access_row =
  oa_project_id :: uuid
  oa_organization_id :: uuid
  oa_permission :: project_permission

record share_link_row =
  sl_id :: uuid
  sl_project_id :: uuid
  sl_permission :: project_permission
  sl_token_value :: string
  sl_expires_at :: "instant option"
  sl_revoked_at :: "instant option"

record guest_session_row =
  gs_id :: uuid
  gs_project_id :: uuid
  gs_share_link_id :: uuid
  gs_token_fingerprint :: bytes
  gs_display_name :: string
  gs_permission :: project_permission
  gs_expires_at :: "instant option"
  gs_last_used_at :: "instant option"

record auth_session_row =
  as_token_fingerprint :: bytes
  as_user_id :: uuid
  as_expires_at :: instant

record access_db =
  roles :: "role_row list"
  organization_access :: "organization_access_row list"
  memberships :: "(uuid \<times> uuid) list"
  template_access :: "(uuid \<times> uuid) list"
  share_links :: "share_link_row list"
  guest_sessions :: "guest_session_row list"
  auth_sessions :: "auth_session_row list"
  anonymous_setting :: "anonymous_mode option"
  access_epochs :: "(uuid \<times> int) list"

text \<open>\<open>memberships\<close> pairs an organisation with a member, \<open>template_access\<close> a project with an organisation.\<close>

section \<open>Request principals\<close>

text \<open>
  Request headers map a name to its text, \<open>None\<close> when it is absent or not text; \<open>dev\<close> is
  \<open>AUTH_DEV_HEADER_ENABLED\<close> and \<open>parse_uuid\<close> is \<open>Uuid::parse_str\<close>.
\<close>

type_synonym headers = "string \<Rightarrow> string option"

definition actor_user_id :: "bool \<Rightarrow> (string \<Rightarrow> uuid option) \<Rightarrow> headers \<Rightarrow> uuid option" where
  "actor_user_id dev parse_uuid headers =
     (if \<not> dev then None
      else case headers ''x-user-id'' of None \<Rightarrow> None | Some v \<Rightarrow> parse_uuid v)"

definition bearer_token :: "headers \<Rightarrow> string option" where
  "bearer_token headers =
     (case headers ''authorization'' of None \<Rightarrow> None
      | Some v \<Rightarrow> map_option trim (strip_prefix ''Bearer '' v))"

fun split_once :: "char \<Rightarrow> string \<Rightarrow> (string \<times> string) option" where
  "split_once d [] = None"
| "split_once d (c # cs) =
     (if c = d then Some ([], cs)
      else case split_once d cs of None \<Rightarrow> None | Some (k, v) \<Rightarrow> Some (c # k, v))"

fun find_cookie :: "string \<Rightarrow> string list \<Rightarrow> string option" where
  "find_cookie name [] = None"
| "find_cookie name (part # parts) =
     (case split_once (CHR ''='') (trim part) of
        None \<Rightarrow> find_cookie name parts
      | Some (key, v) \<Rightarrow> if trim key = name then Some (trim v) else find_cookie name parts)"

definition cookie_value :: "headers \<Rightarrow> string \<Rightarrow> string option" where
  "cookie_value headers name =
     (case headers ''cookie'' of None \<Rightarrow> None | Some v \<Rightarrow> find_cookie name (split_on (CHR '';'') v))"

definition header_value :: "headers \<Rightarrow> string \<Rightarrow> string option" where
  "header_value headers name =
     (case headers name of None \<Rightarrow> None | Some v \<Rightarrow> if trim v = [] then None else Some (trim v))"

definition session_user_id :: "(bytes \<Rightarrow> bytes) \<Rightarrow> instant \<Rightarrow> string \<Rightarrow> access_db \<Rightarrow> uuid option" where
  "session_user_id sha256 now token adb =
     map_option as_user_id
       (find (\<lambda>s. as_token_fingerprint s = sha256 token \<and> now < as_expires_at s) (auth_sessions adb))"

record request_env =
  re_sha256 :: "bytes \<Rightarrow> bytes"
  re_dev_header :: bool
  re_parse_uuid :: "string \<Rightarrow> uuid option"
  re_now :: instant

definition request_user_id :: "request_env \<Rightarrow> headers \<Rightarrow> access_db \<Rightarrow> uuid option" where
  "request_user_id env headers adb =
     (let via = (\<lambda>t. case t of None \<Rightarrow> None | Some token \<Rightarrow> session_user_id (re_sha256 env) (re_now env) token adb)
      in case actor_user_id (re_dev_header env) (re_parse_uuid env) headers of
           Some u \<Rightarrow> Some u
         | None \<Rightarrow>
             (case via (bearer_token headers) of
                Some u \<Rightarrow> Some u
              | None \<Rightarrow> via (cookie_value headers ''typst_session'')))"

section \<open>Access of a user\<close>

definition direct_role :: "uuid \<Rightarrow> uuid \<Rightarrow> access_db \<Rightarrow> project_role option" where
  "direct_role user_id project_id adb =
     map_option ro_role (find (\<lambda>r. ro_project_id r = project_id \<and> ro_user_id r = user_id) (roles adb))"

definition permission_order :: "project_permission \<Rightarrow> int" where
  "permission_order p = (case p of Write_permission \<Rightarrow> - 2 | Read_permission \<Rightarrow> - 1)"

definition organization_permission :: "uuid \<Rightarrow> uuid \<Rightarrow> access_db \<Rightarrow> project_permission option" where
  "organization_permission user_id project_id adb =
     map_option oa_permission
       (first_by (\<lambda>a. permission_order (oa_permission a))
          (filter (\<lambda>a. oa_project_id a = project_id \<and>
                       exists_where (\<lambda>m. m = (oa_organization_id a, user_id)) (memberships adb))
             (organization_access adb)))"

definition project_user_access ::
  "uuid \<Rightarrow> uuid \<Rightarrow> access_db \<Rightarrow> project_role option \<times> project_permission option" where
  "project_user_access user_id project_id adb =
     (direct_role user_id project_id adb, organization_permission user_id project_id adb)"

definition project_user_access_allows ::
  "project_role option \<Rightarrow> project_permission option \<Rightarrow> access_need \<Rightarrow> bool" where
  "project_user_access_allows role permission need \<longleftrightarrow>
     (case role of None \<Rightarrow> False | Some r \<Rightarrow> allows_role need r) \<or>
     (case permission of None \<Rightarrow> False | Some p \<Rightarrow> allows_organization_permission need p)"

datatype authorization_error =
  AuthenticationRequired | PermissionDenied | Store_authorization

definition ensure_project_role_for_user ::
  "uuid \<Rightarrow> uuid \<Rightarrow> access_need \<Rightarrow> access_db \<Rightarrow> authorization_error + unit" where
  "ensure_project_role_for_user actor project_id need adb =
     (case project_user_access actor project_id adb of
        (role, permission) \<Rightarrow>
          if project_user_access_allows role permission need then Inr () else Inl PermissionDenied)"

definition ensure_project_role ::
  "request_env \<Rightarrow> headers \<Rightarrow> uuid \<Rightarrow> access_need \<Rightarrow> access_db \<Rightarrow> authorization_error + uuid" where
  "ensure_project_role env headers project_id need adb =
     (case request_user_id env headers adb of
        None \<Rightarrow> Inl AuthenticationRequired
      | Some actor \<Rightarrow>
          (case ensure_project_role_for_user actor project_id need adb of
             Inl e \<Rightarrow> Inl e | Inr () \<Rightarrow> Inr actor))"

section \<open>Access of a request\<close>

record access_principal =
  ap_user_id :: "uuid option"
  ap_guest_session_id :: "uuid option"
  ap_guest_display_name :: "string option"
  ap_can_write :: bool

definition not_expired :: "instant \<Rightarrow> instant option \<Rightarrow> bool" where
  "not_expired now e \<longleftrightarrow> e = None \<or> null_gt e now"

definition share_link_permission :: "instant \<Rightarrow> uuid \<Rightarrow> string \<Rightarrow> access_db \<Rightarrow> project_permission option" where
  "share_link_permission now project_id token adb =
     map_option sl_permission
       (find (\<lambda>l. sl_project_id l = project_id \<and> sl_token_value l = token \<and> sl_revoked_at l = None \<and>
                  not_expired now (sl_expires_at l)) (share_links adb))"

definition guest_session_access :: "instant \<Rightarrow> uuid \<Rightarrow> bytes \<Rightarrow> access_db \<Rightarrow> guest_session_row option" where
  "guest_session_access now project_id fingerprint adb =
     find (\<lambda>g. gs_project_id g = project_id \<and> gs_token_fingerprint g = fingerprint \<and>
               not_expired now (gs_expires_at g) \<and>
               exists_where (\<lambda>l. sl_id l = gs_share_link_id g \<and> sl_revoked_at l = None \<and>
                                 not_expired now (sl_expires_at l)) (share_links adb)) (guest_sessions adb)"

definition touch_guest_session :: "uuid \<Rightarrow> instant \<Rightarrow> access_db \<Rightarrow> access_db" where
  "touch_guest_session session_id now adb =
     adb\<lparr>guest_sessions := update_where (\<lambda>g. gs_id g = session_id)
          (\<lambda>g. g\<lparr>gs_last_used_at := Some now\<rparr>) (guest_sessions adb)\<rparr>"

definition project_access_via_guest_session ::
  "request_env \<Rightarrow> uuid \<Rightarrow> string \<Rightarrow> access_db \<Rightarrow> access_principal option \<times> access_db" where
  "project_access_via_guest_session env project_id token adb =
     (case guest_session_access (re_now env) project_id (re_sha256 env token) adb of
        None \<Rightarrow> (None, adb)
      | Some g \<Rightarrow>
          (Some \<lparr>ap_user_id = None, ap_guest_session_id = Some (gs_id g),
                 ap_guest_display_name = Some (gs_display_name g), ap_can_write = can_write (gs_permission g)\<rparr>,
           touch_guest_session (gs_id g) (re_now env) adb))"

text \<open>The last part of \<open>ensure_project_access\<close>: a share token from a header or a cookie.\<close>

definition access_via_share_token ::
  "request_env \<Rightarrow> headers \<Rightarrow> uuid \<Rightarrow> access_need \<Rightarrow> anonymous_mode \<Rightarrow> access_db \<Rightarrow>
   authorization_error + access_principal" where
  "access_via_share_token env headers project_id need mode adb =
     (case (case header_value headers ''x-share-token'' of
              Some t \<Rightarrow> Some t | None \<Rightarrow> cookie_value headers ''typst_share_token'') of
        None \<Rightarrow> Inl AuthenticationRequired
      | Some token \<Rightarrow>
          (case share_link_permission (re_now env) project_id token adb of
             None \<Rightarrow> Inl PermissionDenied
           | Some permission \<Rightarrow>
               if \<not> allows_read mode then Inl AuthenticationRequired
               else if need \<in> {Write, Manage, GitSync} then Inl PermissionDenied
               else Inr \<lparr>ap_user_id = None, ap_guest_session_id = None, ap_guest_display_name = None,
                         ap_can_write = can_write permission\<rparr>))"

definition ensure_project_access ::
  "request_env \<Rightarrow> headers \<Rightarrow> uuid \<Rightarrow> access_need \<Rightarrow> access_db \<Rightarrow>
   (authorization_error + access_principal) \<times> access_db" where
  [op_defs]: "ensure_project_access env headers project_id need adb =
     (case request_user_id env headers adb of
        Some actor \<Rightarrow>
          (case ensure_project_role_for_user actor project_id need adb of
             Inl e \<Rightarrow> (Inl e, adb)
           | Inr () \<Rightarrow>
               if need \<in> {Write, Manage, GitSync}
               then (Inr \<lparr>ap_user_id = Some actor, ap_guest_session_id = None,
                          ap_guest_display_name = None, ap_can_write = True\<rparr>, adb)
               else (case ensure_project_role_for_user actor project_id Write adb of
                       Inr () \<Rightarrow> (Inr \<lparr>ap_user_id = Some actor, ap_guest_session_id = None,
                                      ap_guest_display_name = None, ap_can_write = True\<rparr>, adb)
                     | Inl PermissionDenied \<Rightarrow>
                         (Inr \<lparr>ap_user_id = Some actor, ap_guest_session_id = None,
                               ap_guest_display_name = None, ap_can_write = False\<rparr>, adb)
                     | Inl e \<Rightarrow> (Inl e, adb)))
      | None \<Rightarrow>
          let mode = (case anonymous_setting adb of None \<Rightarrow> Off | Some m \<Rightarrow> m) in
          if mode = Off then (Inl AuthenticationRequired, adb)
          else (case header_value headers ''x-guest-session'' of
                  None \<Rightarrow> (access_via_share_token env headers project_id need mode adb, adb)
                | Some token \<Rightarrow>
                    (case project_access_via_guest_session env project_id token adb of
                       (None, adb') \<Rightarrow> (access_via_share_token env headers project_id need mode adb', adb')
                     | (Some who, adb') \<Rightarrow>
                         if \<not> allows_read mode then (Inl AuthenticationRequired, adb')
                         else if need = Write \<and> (\<not> allows_guest_write mode \<or> \<not> ap_can_write who)
                         then (Inl PermissionDenied, adb')
                         else if need \<in> {Manage, GitSync} then (Inl PermissionDenied, adb')
                         else (Inr who, adb'))))"

section \<open>The project catalog\<close>

record catalog_access =
  pc_project_id :: uuid
  pc_direct_role :: "project_role option"
  pc_organization_permission :: "project_permission option"
  pc_has_template_access :: bool

definition catalog_can_read :: "catalog_access \<Rightarrow> bool" where
  "catalog_can_read c \<longleftrightarrow> pc_direct_role c \<noteq> None \<or> pc_organization_permission c \<noteq> None"

definition permits_catalog_entry :: "catalog_access \<Rightarrow> bool \<Rightarrow> bool" where
  "permits_catalog_entry c is_template \<longleftrightarrow> catalog_can_read c \<or> (is_template \<and> pc_has_template_access c)"

definition effective_role :: "catalog_access \<Rightarrow> project_role" where
  "effective_role c =
     (let direct = (case pc_direct_role c of None \<Rightarrow> ReadOnly | Some r \<Rightarrow> r);
          organization = (case pc_organization_permission c of None \<Rightarrow> ReadOnly | Some p \<Rightarrow> permission_role p)
      in if role_rank organization > role_rank direct then organization else direct)"

definition template_member :: "uuid \<Rightarrow> uuid \<Rightarrow> access_db \<Rightarrow> bool" where
  "template_member user_id project_id adb \<longleftrightarrow>
     exists_where (\<lambda>(p, o1). p = project_id \<and> exists_where (\<lambda>m. m = (o1, user_id)) (memberships adb))
       (template_access adb)"

definition visible_projects :: "uuid \<Rightarrow> access_db \<Rightarrow> uuid list" where
  "visible_projects user_id adb =
     remdups
       (map ro_project_id (filter (\<lambda>r. ro_user_id r = user_id) (roles adb)) @
        map oa_project_id (filter (\<lambda>a. exists_where (\<lambda>m. m = (oa_organization_id a, user_id)) (memberships adb))
          (organization_access adb)) @
        map fst (filter (\<lambda>(p, o1). exists_where (\<lambda>m. m = (o1, user_id)) (memberships adb)) (template_access adb)))"

definition list_project_catalog_access :: "uuid \<Rightarrow> access_db \<Rightarrow> catalog_access list" where
  "list_project_catalog_access user_id adb =
     map (\<lambda>p. \<lparr>pc_project_id = p, pc_direct_role = direct_role user_id p adb,
               pc_organization_permission = organization_permission user_id p adb,
               pc_has_template_access = template_member user_id p adb\<rparr>) (visible_projects user_id adb)"

definition project_user_has_catalog_access :: "uuid \<Rightarrow> uuid \<Rightarrow> bool \<Rightarrow> access_db \<Rightarrow> bool" where
  "project_user_has_catalog_access user_id project_id include_template adb \<longleftrightarrow>
     exists_where (\<lambda>r. ro_project_id r = project_id \<and> ro_user_id r = user_id) (roles adb) \<or>
     exists_where (\<lambda>a. oa_project_id a = project_id \<and>
        exists_where (\<lambda>m. m = (oa_organization_id a, user_id)) (memberships adb)) (organization_access adb) \<or>
     (include_template \<and> template_member user_id project_id adb)"

section \<open>Grants\<close>

text \<open>\<open>INSERT ... ON CONFLICT (project_id, user_id) DO UPDATE\<close>.\<close>

definition upsert_role :: "uuid \<Rightarrow> uuid \<Rightarrow> project_role \<Rightarrow> instant \<Rightarrow> access_db \<Rightarrow> access_db" where
  [op_defs]: "upsert_role project_id user_id role granted_at adb =
     (let here = (\<lambda>r. ro_project_id r = project_id \<and> ro_user_id r = user_id)
      in if exists_where here (roles adb)
         then adb\<lparr>roles := update_where here
                (\<lambda>r. r\<lparr>ro_role := role, ro_granted_at := granted_at, ro_source := DirectRole\<rparr>) (roles adb)\<rparr>
         else adb\<lparr>roles := roles adb @ [\<lparr>ro_project_id = project_id, ro_user_id = user_id, ro_role = role,
                ro_granted_at = granted_at, ro_source = DirectRole\<rparr>]\<rparr>)"

definition raise_role :: "project_role \<Rightarrow> instant \<Rightarrow> role_row \<Rightarrow> role_row" where
  "raise_role requested granted_at r =
     r\<lparr>ro_role := (if ro_role r = Owner then ro_role r
                   else if ro_role r = ReadWrite \<and> requested = ReadOnly then ro_role r else requested),
       ro_granted_at := (if ro_role r = Owner then ro_granted_at r
                   else if ro_role r = ReadWrite \<and> requested = ReadOnly then ro_granted_at r else granted_at),
       ro_source := (if ro_role r = Owner then ro_source r
                   else if ro_role r = ReadWrite \<and> requested \<in> {ReadWrite, ReadOnly} then ro_source r
                   else if ro_role r = ReadOnly \<and> requested = ReadOnly then ro_source r else ShareLinkInvite)\<rparr>"

definition grant_project_share_link_role_at_least ::
  "uuid \<Rightarrow> uuid \<Rightarrow> project_role \<Rightarrow> instant \<Rightarrow> access_db \<Rightarrow> access_db" where
  [op_defs]: "grant_project_share_link_role_at_least project_id user_id requested granted_at adb =
     (let here = (\<lambda>r. ro_project_id r = project_id \<and> ro_user_id r = user_id)
      in if exists_where here (roles adb)
         then adb\<lparr>roles := update_where here (raise_role requested granted_at) (roles adb)\<rparr>
         else adb\<lparr>roles := roles adb @ [\<lparr>ro_project_id = project_id, ro_user_id = user_id, ro_role = requested,
                ro_granted_at = granted_at, ro_source = ShareLinkInvite\<rparr>]\<rparr>)"

subsection \<open>The access epoch\<close>

datatype epoch_match = Current | Changed | ProjectNotFound

definition project_access_epoch :: "uuid \<Rightarrow> access_db \<Rightarrow> int option" where
  "project_access_epoch project_id adb = map_of (access_epochs adb) project_id"

definition lock_project_access_epoch :: "uuid \<Rightarrow> int \<Rightarrow> access_db \<Rightarrow> epoch_match" where
  "lock_project_access_epoch project_id expected adb =
     (case project_access_epoch project_id adb of
        Some epoch \<Rightarrow> if epoch = expected then Current else Changed
      | None \<Rightarrow> ProjectNotFound)"

text \<open>\<open>None\<close>: the project does not exist and the statement returns no row.\<close>

definition advance_project_access_epoch :: "uuid \<Rightarrow> access_db \<Rightarrow> (int \<times> access_db) option" where
  [op_defs]: "advance_project_access_epoch project_id adb =
     (case project_access_epoch project_id adb of
        None \<Rightarrow> None
      | Some epoch \<Rightarrow>
          Some (epoch + 1,
                adb\<lparr>access_epochs := update_where (\<lambda>(p, _). p = project_id) (\<lambda>(p, e). (p, e + 1)) (access_epochs adb)\<rparr>))"

section \<open>Facts\<close>

lemma role_rank_inj: "role_rank r = role_rank s \<Longrightarrow> r = s"
  by (cases r; cases s) auto

lemma effective_role_max:
  "effective_role c =
     max (case pc_direct_role c of None \<Rightarrow> ReadOnly | Some r \<Rightarrow> r)
         (case pc_organization_permission c of None \<Rightarrow> ReadOnly | Some p \<Rightarrow> permission_role p)"
  by (auto simp: effective_role_def Let_def max_def less_eq_project_role_def dest: role_rank_inj)

lemma raise_role_max: "ro_role (raise_role requested now r) = max (ro_role r) requested"
  by (cases "ro_role r"; cases requested; simp add: raise_role_def max_def less_eq_project_role_def)

lemma organization_permission_Some:
  assumes "organization_permission u p adb = Some perm"
  shows "\<exists>a \<in> set (organization_access adb). oa_project_id a = p \<and> (oa_organization_id a, u) \<in> set (memberships adb) \<and>
    oa_permission a = perm"
  using assms by (auto simp: organization_permission_def dest!: first_by_Some(1))

lemma organization_permission_best:
  assumes "a \<in> set (organization_access adb)" and "oa_project_id a = p"
    and "(oa_organization_id a, u) \<in> set (memberships adb)"
  shows "\<exists>perm. organization_permission u p adb = Some perm \<and> (can_write (oa_permission a) \<longrightarrow> can_write perm)"
proof -
  let ?rows = "filter (\<lambda>a. oa_project_id a = p \<and> exists_where (\<lambda>m. m = (oa_organization_id a, u)) (memberships adb))
     (organization_access adb)"
  have a: "a \<in> set ?rows" using assms by auto
  then have "?rows \<noteq> []" by (metis empty_iff list.set(1))
  then obtain b where b: "first_by (\<lambda>a. permission_order (oa_permission a)) ?rows = Some b"
    by (cases "first_by (\<lambda>a. permission_order (oa_permission a)) ?rows") (simp_all only: first_by_None)
  from first_by_Some(2) [OF b a] have "permission_order (oa_permission b) \<le> permission_order (oa_permission a)" .
  then have "can_write (oa_permission a) \<longrightarrow> can_write (oa_permission b)"
    by (cases "oa_permission a"; cases "oa_permission b") (auto simp: permission_order_def)
  with b show ?thesis by (auto simp: organization_permission_def)
qed

lemma direct_role_Some:
  "direct_role u p adb = Some r \<Longrightarrow> \<exists>x \<in> set (roles adb). ro_project_id x = p \<and> ro_user_id x = u \<and> ro_role x = r"
  by (auto simp: direct_role_def dest: find_Some_set)

lemma guest_session_access_Some:
  assumes "guest_session_access now p fp adb = Some g"
  shows "g \<in> set (guest_sessions adb)" and "gs_project_id g = p" and "gs_token_fingerprint g = fp"
    and "not_expired now (gs_expires_at g)"
    and "\<exists>l \<in> set (share_links adb). sl_id l = gs_share_link_id g \<and> sl_revoked_at l = None \<and> not_expired now (sl_expires_at l)"
  using find_Some_set [OF assms [unfolded guest_session_access_def]] by auto

lemma share_link_permission_Some:
  "share_link_permission now p token adb = Some perm \<Longrightarrow>
   \<exists>l \<in> set (share_links adb). sl_project_id l = p \<and> sl_token_value l = token \<and> sl_revoked_at l = None \<and>
     not_expired now (sl_expires_at l) \<and> sl_permission l = perm"
  by (auto simp: share_link_permission_def dest: find_Some_set)

end
