(* ===== verification/Processing_Finalization.thy ===== *)
theory Processing_Finalization
  imports Worker_Transfers Archive_Validation Project_Access
begin

text \<open>
  \<open>document_processing/finalization.rs\<close>: lifecycle maintenance (expiry of sessions, claims, queued
  jobs, transfers and requests; deletion of retained jobs and of unreferenced blobs) and
  finalization (a lease on a delivered job, the validation of what was delivered, its publication
  or rejection). Publishing an import also provisions a project: the operations of the Workspace
  component that it calls are the record \<open>workspace_ports\<close>, a parameter.
\<close>

section \<open>Values\<close>

definition maintenance_batch :: nat where "maintenance_batch = 16"
definition pdf_eof_scan_bytes :: nat where "pdf_eof_scan_bytes = 1024"

record finalization_lease =
  fl_job_id :: uuid
  fl_token :: uuid
  fl_operation :: processing_operation
  fl_requester_user_id :: uuid
  fl_project_id :: "uuid option"
  fl_cache_source_job_id :: "uuid option"
  fl_normalized_options :: json

record staged_artifact =
  sa_transfer_id :: "uuid option"
  sa_blob_id :: uuid
  sa_role :: string
  sa_media_type :: string
  sa_filename :: string
  sa_size_bytes :: int
  sa_sha256 :: bytes
  sa_content :: bytes

datatype validation_failure =
  AccessRevoked | ArtifactSet | PdfInvalid | PptxInvalid | DiagnosticInvalid | WorkspaceInvalid

datatype validated_finalization = Artifacts_validated | Workspace_validated validated_bundle string

datatype finalization_check_error = Rejected_check validation_failure | Unavailable_check

definition failure_class :: "validation_failure \<Rightarrow> string" where
  "failure_class f = (case f of AccessRevoked \<Rightarrow> ''authorization'' | _ \<Rightarrow> ''internal_contract_violation'')"

fun failure_code :: "validation_failure \<Rightarrow> string" where
  "failure_code AccessRevoked = ''project_access_revoked''"
| "failure_code ArtifactSet = ''artifact_set_invalid''"
| "failure_code PdfInvalid = ''pdf_invalid''"
| "failure_code PptxInvalid = ''pptx_invalid''"
| "failure_code DiagnosticInvalid = ''diagnostic_invalid''"
| "failure_code WorkspaceInvalid = ''workspace_bundle_invalid''"

fun failure_message :: "validation_failure \<Rightarrow> string" where
  "failure_message AccessRevoked = ''Project access was revoked before result publication''"
| "failure_message ArtifactSet = ''Processor output did not match the operation contract''"
| "failure_message PdfInvalid = ''Processor output was not a valid PDF artifact''"
| "failure_message PptxInvalid = ''Processor output was not a valid PPTX artifact''"
| "failure_message DiagnosticInvalid = ''Processor diagnostic output was invalid''"
| "failure_message WorkspaceInvalid = ''Processor output was not a valid Workspace bundle''"

section \<open>Lifecycle maintenance\<close>

text \<open>
  The statements of \<open>maintain_lifecycle\<close> in order. The first two run outside the transaction.
\<close>

definition expire_sessions :: "instant \<Rightarrow> processing_db \<Rightarrow> processing_db" where
  [op_defs]: "expire_sessions now db =
     db\<lparr>sessions := update_where (\<lambda>s. s_state s = Active_session \<and> s_expires_at s \<le> now)
          (\<lambda>s. s\<lparr>s_state := Expired_session, s_updated_at := now\<rparr>) (sessions db)\<rparr>"

definition expire_draining_sessions :: "instant \<Rightarrow> processing_db \<Rightarrow> processing_db" where
  [op_defs]: "expire_draining_sessions now db =
     db\<lparr>sessions := update_where
          (\<lambda>s. s_state s = Draining_session \<and>
               \<not> exists_where (\<lambda>a. a_worker_session_id a = s_id s \<and> a_state a = Running_attempt) (attempts db))
          (\<lambda>s. s\<lparr>s_state := Expired_session, s_updated_at := now\<rparr>) (sessions db)\<rparr>"

text \<open>The jobs whose claim expired: \<open>locked\<close> are the rows held elsewhere (\<open>SKIP LOCKED\<close>).\<close>

definition claim_expired :: "instant \<Rightarrow> job_row \<Rightarrow> bool" where
  "claim_expired now j \<longleftrightarrow> j_state j = Running \<and> null_le (j_claim_expires_at j) now"

definition expired_claims :: "(uuid \<Rightarrow> bool) \<Rightarrow> instant \<Rightarrow> processing_db \<Rightarrow> job_row list" where
  "expired_claims locked now db =
     take maintenance_batch
       (sort_key (\<lambda>j. case j_claim_expires_at j of None \<Rightarrow> 0 | Some t \<Rightarrow> t)
          (filter (\<lambda>j. claim_expired now j \<and> \<not> locked (j_id j)) (jobs db)))"

definition lose_attempt :: "instant \<Rightarrow> attempt_row \<Rightarrow> attempt_row" where
  "lose_attempt now a =
     a\<lparr>a_state := Lost_attempt, a_phase := Complete, a_failure_class := Some ''worker_interrupted'',
       a_failure_code := Some ''claim_expired'',
       a_failure_message := Some ''Worker claim expired before a closed outcome'',
       a_updated_at := now, a_completed_at := Some now\<rparr>"

definition recovery_state ::
  "instant \<Rightarrow> job_row \<Rightarrow> job_state \<times> string option \<times> string option \<times> string option" where
  "recovery_state now j =
     (if j_cancellation_requested j then (Cancelled, None, None, None)
      else if j_attempt_count j < j_max_attempts j \<and> now < j_queue_expires_at j then (Queued, None, None, None)
      else if j_queue_expires_at j \<le> now
      then (Expired, Some ''worker_interrupted'', Some ''queue_expired'',
            Some ''Processing capacity was unavailable before queue expiry'')
      else (Failed, Some ''worker_interrupted'', Some ''attempts_exhausted'',
            Some ''Processing worker attempts were exhausted''))"

definition recover_job :: "instant \<Rightarrow> job_row \<Rightarrow> job_row \<Rightarrow> job_row" where
  "recover_job now row x =
     (case recovery_state now row of
        (st, fc, fk, fm) \<Rightarrow>
          x\<lparr>j_state := st, j_phase := (if st = Queued then WaitingForWorker else Complete),
            j_current_claim_id := None, j_claim_expires_at := None,
            j_failure_class := fc, j_failure_code := fk, j_failure_message := fm,
            j_updated_at := now, j_completed_at := (if st = Queued then None else Some now),
            j_next_attempt_at := (if st = Queued then now + processing_retry_delay (j_attempt_count row)
                                  else j_next_attempt_at x)\<rparr>)"

definition recover_claim :: "instant \<Rightarrow> job_row \<Rightarrow> processing_db \<Rightarrow> processing_db" where
  [op_defs]: "recover_claim now row db =
     (let db1 = (case j_current_claim_id row of
                   None \<Rightarrow> db
                 | Some claim_id \<Rightarrow>
                     db\<lparr>attempts := update_where (\<lambda>a. a_claim_id a = claim_id \<and> a_state a = Running_attempt)
                          (lose_attempt now) (attempts db),
                        transfers := update_where (\<lambda>t. t_claim_id t = claim_id \<and> t_state t \<in> {Issued, Uploaded})
                          (\<lambda>t. t\<lparr>t_state := Expired_transfer, t_updated_at := now\<rparr>) (transfers db)\<rparr>)
      in db1\<lparr>jobs := update_where (\<lambda>x. j_id x = j_id row) (recover_job now row) (jobs db1)\<rparr>)"

definition recover_claims :: "(uuid \<Rightarrow> bool) \<Rightarrow> instant \<Rightarrow> processing_db \<Rightarrow> processing_db" where
  [op_defs]: "recover_claims locked now db = fold (recover_claim now) (expired_claims locked now db) db"

definition expire_waiting :: "instant \<Rightarrow> job_row \<Rightarrow> job_row" where
  "expire_waiting now j =
     j\<lparr>j_state := Expired, j_phase := Complete, j_failure_class := Some ''capacity'',
       j_failure_code := Some ''queue_expired'',
       j_failure_message := Some ''Processing capacity was unavailable before queue expiry'',
       j_updated_at := now, j_completed_at := Some now\<rparr>"

definition expire_waiting_jobs :: "instant \<Rightarrow> processing_db \<Rightarrow> processing_db" where
  [op_defs]: "expire_waiting_jobs now db =
     db\<lparr>jobs := update_where (\<lambda>j. j_state j \<in> {Preparing, Queued} \<and> j_queue_expires_at j \<le> now)
          (expire_waiting now) (jobs db)\<rparr>"

definition release_closed_pins :: "processing_db \<Rightarrow> processing_db" where
  [op_defs]: "release_closed_pins db =
     db\<lparr>pins := delete_where
          (\<lambda>p. exists_where (\<lambda>j. j_id j = pin_job_id p \<and> j_state j \<in> {Failed, Cancelled, Expired}) (jobs db)) (pins db)\<rparr>"

definition expire_transfers :: "instant \<Rightarrow> processing_db \<Rightarrow> processing_db" where
  [op_defs]: "expire_transfers now db =
     db\<lparr>transfers := update_where (\<lambda>t. t_state t \<in> {Issued, Uploaded} \<and> t_expires_at t \<le> now)
          (\<lambda>t. t\<lparr>t_state := Expired_transfer, t_updated_at := now\<rparr>) (transfers db)\<rparr>"

definition delete_expired_requests :: "instant \<Rightarrow> processing_db \<Rightarrow> processing_db" where
  [op_defs]: "delete_expired_requests now db = db\<lparr>requests := delete_where (\<lambda>q. q_expires_at q \<le> now) (requests db)\<rparr>"

definition deletable :: "instant \<Rightarrow> processing_db \<Rightarrow> job_row \<Rightarrow> bool" where
  "deletable now db j \<longleftrightarrow>
     j_retained_until j \<le> now \<and> j_completed_at j \<noteq> None \<and>
     \<not> exists_where (\<lambda>k. j_cache_source_job_id k = Some (j_id j)) (jobs db)"

definition delete_retained_jobs :: "instant \<Rightarrow> processing_db \<Rightarrow> processing_db" where
  [op_defs]: "delete_retained_jobs now db = delete_jobs (deletable now db) db"

definition blob_referenced :: "processing_db \<Rightarrow> uuid \<Rightarrow> bool" where
  "blob_referenced db b \<longleftrightarrow>
     exists_where (\<lambda>j. j_input_blob_id j = Some b) (jobs db) \<or>
     exists_where (\<lambda>t. t_blob_id t = Some b) (transfers db) \<or>
     exists_where (\<lambda>f. f_blob_id f = b) (artifacts db)"

definition delete_unreferenced_blobs :: "processing_db \<Rightarrow> processing_db" where
  [op_defs]: "delete_unreferenced_blobs db =
     db\<lparr>blobs := delete_where (\<lambda>b. \<not> blob_referenced db (b_id b)) (blobs db)\<rparr>"

definition maintenance_transaction :: "(uuid \<Rightarrow> bool) \<Rightarrow> instant \<Rightarrow> processing_db \<Rightarrow> processing_db" where
  [op_defs]: "maintenance_transaction locked now db =
     (delete_unreferenced_blobs \<circ> delete_retained_jobs now \<circ> delete_expired_requests now \<circ>
      expire_transfers now \<circ> release_closed_pins \<circ> expire_waiting_jobs now \<circ> recover_claims locked now) db"

definition maintain_lifecycle :: "(uuid \<Rightarrow> bool) \<Rightarrow> instant \<Rightarrow> processing_db \<Rightarrow> processing_db" where
  [op_defs]: "maintain_lifecycle locked now db =
     (maintenance_transaction locked now \<circ> expire_draining_sessions now \<circ> expire_sessions now) db"

section \<open>The finalization lease\<close>

definition finalizable :: "(uuid \<Rightarrow> bool) \<Rightarrow> instant \<Rightarrow> job_row \<Rightarrow> bool" where
  "finalizable locked now j \<longleftrightarrow>
     j_state j = Finalizing \<and> (j_finalization_token j = None \<or> null_le (j_finalization_expires_at j) now) \<and>
     \<not> locked (j_id j)"

definition lease_of :: "uuid \<Rightarrow> job_row \<Rightarrow> finalization_lease" where
  "lease_of token j =
     \<lparr>fl_job_id = j_id j, fl_token = token, fl_operation = j_operation j,
      fl_requester_user_id = j_requester_user_id j, fl_project_id = j_project_id j,
      fl_cache_source_job_id = j_cache_source_job_id j, fl_normalized_options = j_normalized_options j\<rparr>"

definition take_lease :: "uuid \<Rightarrow> instant \<Rightarrow> instant \<Rightarrow> job_row \<Rightarrow> job_row" where
  "take_lease token expires_at now j =
     j\<lparr>j_finalization_token := Some token, j_finalization_expires_at := Some expires_at,
       j_phase := ValidatingResult, j_updated_at := now\<rparr>"

definition acquire_finalization_lease ::
  "processing_config \<Rightarrow> (uuid \<Rightarrow> bool) \<Rightarrow> uuid \<Rightarrow> instant \<Rightarrow> processing_db \<Rightarrow> finalization_lease option \<times> processing_db" where
  [op_defs]: "acquire_finalization_lease config locked token now db =
     (case first_by j_updated_at (filter (finalizable locked now) (jobs db)) of
        None \<Rightarrow> (None, db)
      | Some j \<Rightarrow>
          (Some (lease_of token j),
           db\<lparr>jobs := update_where (\<lambda>x. j_id x = j_id j)
                (take_lease token (now + c_finalization_lease config) now) (jobs db)\<rparr>))"

definition holds_lease :: "finalization_lease \<Rightarrow> job_row \<Rightarrow> bool" where
  "holds_lease lease j \<longleftrightarrow>
     j_id j = fl_job_id lease \<and> j_state j = Finalizing \<and> j_finalization_token j = Some (fl_token lease)"

definition lock_finalization :: "finalization_lease \<Rightarrow> instant \<Rightarrow> processing_db \<Rightarrow> bool" where
  "lock_finalization lease now db \<longleftrightarrow>
     exists_where (\<lambda>j. holds_lease lease j \<and> null_gt (j_finalization_expires_at j) now) (jobs db)"

section \<open>What was delivered\<close>

text \<open>Rows are ordered by role. A null in a column that the code reads as a value is a failed query.\<close>

definition staged_from_artifact :: "artifact_row \<Rightarrow> blob_row \<Rightarrow> staged_artifact" where
  "staged_from_artifact f b =
     \<lparr>sa_transfer_id = None, sa_blob_id = f_blob_id f, sa_role = f_role f, sa_media_type = f_media_type f,
      sa_filename = f_filename f, sa_size_bytes = f_size_bytes f, sa_sha256 = f_sha256 f, sa_content = b_content b\<rparr>"

definition staged_from_transfer :: "transfer_row \<Rightarrow> blob_row \<Rightarrow> staged_artifact option" where
  "staged_from_transfer t b =
     (case (t_filename t, t_exact_size_bytes t, t_expected_sha256 t) of
        (Some filename, Some size_bytes, Some sha) \<Rightarrow>
          Some \<lparr>sa_transfer_id = Some (t_id t), sa_blob_id = b_id b, sa_role = t_role t,
                sa_media_type = t_media_type t, sa_filename = filename, sa_size_bytes = size_bytes,
                sa_sha256 = sha, sa_content = b_content b\<rparr>
      | _ \<Rightarrow> None)"

definition cached_artifacts :: "finalization_lease \<Rightarrow> uuid \<Rightarrow> processing_db \<Rightarrow> staged_artifact list" where
  "cached_artifacts lease source_job_id db =
     (if exists_where (\<lambda>j. holds_lease lease j \<and> j_cache_source_job_id j = Some source_job_id) (jobs db) \<and>
         exists_where (\<lambda>s. j_id s = source_job_id \<and> j_state s = Succeeded) (jobs db)
      then List.map_filter
             (\<lambda>f. map_option (staged_from_artifact f) (find (\<lambda>b. b_id b = f_blob_id f) (blobs db)))
             (sort_key f_role (filter (\<lambda>f. f_job_id f = source_job_id) (artifacts db)))
      else [])"

definition delivered_attempt :: "finalization_lease \<Rightarrow> processing_db \<Rightarrow> attempt_row option" where
  "delivered_attempt lease db =
     (case find (holds_lease lease) (jobs db) of
        None \<Rightarrow> None
      | Some j \<Rightarrow> find (\<lambda>a. a_job_id a = j_id j \<and> a_attempt_number a = j_attempt_count j \<and>
                         a_state a = Delivered_attempt) (attempts db))"

definition uploaded_artifacts :: "attempt_row \<Rightarrow> processing_db \<Rightarrow> staged_artifact option list" where
  "uploaded_artifacts a db =
     List.map_filter
       (\<lambda>t. map_option (staged_from_transfer t) (find (\<lambda>b. t_blob_id t = Some (b_id b)) (blobs db)))
       (sort_key t_role
          (filter (\<lambda>t. t_attempt_id t = a_id a \<and> t_direction t = Upload \<and> t_state t = Uploaded) (transfers db)))"

definition load_staged_artifacts :: "finalization_lease \<Rightarrow> processing_db \<Rightarrow> staged_artifact list option" where
  "load_staged_artifacts lease db =
     (case fl_cache_source_job_id lease of
        Some source_job_id \<Rightarrow> Some (cached_artifacts lease source_job_id db)
      | None \<Rightarrow>
          (case delivered_attempt lease db of
             None \<Rightarrow> Some []
           | Some a \<Rightarrow> those (uploaded_artifacts a db)))"

section \<open>Validation\<close>

definition valid_pdf :: "bytes \<Rightarrow> bool" where
  "valid_pdf content \<longleftrightarrow>
     starts_with ''%PDF-'' content \<and> 8 \<le> length content \<and>
     contains_sub ''%%EOF'' (drop (length content - pdf_eof_scan_bytes) content)"

text \<open>
  The functions of other crates that validation uses: SHA-256, ZIP reading, the JSON and manifest
  decoders, hexadecimal encoding and the essence of a media type.
\<close>

record finalization_env =
  fe_sha256 :: "bytes \<Rightarrow> bytes"
  fe_zip_open :: zip_reader
  fe_parse_manifest :: "bytes \<Rightarrow> bundle_manifest option"
  fe_parse_json :: "bytes \<Rightarrow> json option"
  fe_hex :: "bytes \<Rightarrow> string"
  fe_essence :: "string \<Rightarrow> string option"

definition staged_ok :: "finalization_env \<Rightarrow> processing_config \<Rightarrow> artifact_contract \<Rightarrow> staged_artifact \<Rightarrow> bool" where
  "staged_ok env config ac s \<longleftrightarrow>
     sa_size_bytes s = i64_len (sa_content s) \<and> sa_sha256 s = fe_sha256 env (sa_content s) \<and>
     0 < sa_size_bytes s \<and> sa_size_bytes s \<le> size_limit config (ac_size_class ac) \<and>
     sa_media_type s = ac_media_type ac \<and> ends_with (ac_filename_suffix ac) (sa_filename s)"

fun check_staged ::
  "finalization_env \<Rightarrow> processing_config \<Rightarrow> operation_contract \<Rightarrow> string list \<Rightarrow> staged_artifact list \<Rightarrow> string list option" where
  "check_staged env config contr seen [] = Some seen"
| "check_staged env config contr seen (s # ss) =
     (case contract_artifact contr (sa_role s) of
        None \<Rightarrow> None
      | Some ac \<Rightarrow>
          if \<not> staged_ok env config ac s \<or> sa_role s \<in> set seen then None
          else check_staged env config contr (sa_role s # seen) ss)"

definition staged_role :: "string \<Rightarrow> staged_artifact list \<Rightarrow> staged_artifact option" where
  "staged_role role staged = find (\<lambda>s. sa_role s = role) staged"

definition validate_report :: "finalization_env \<Rightarrow> staged_artifact list \<Rightarrow> string \<Rightarrow> bool" where
  "validate_report env staged expected_schema =
     (case staged_role ''report'' staged of
        None \<Rightarrow> False
      | Some s \<Rightarrow>
          (case fe_parse_json env (sa_content s) of
             None \<Rightarrow> False
           | Some report \<Rightarrow>
               (case json_get report ''schema'' of
                  None \<Rightarrow> False
                | Some v \<Rightarrow> json_as_str v = Some expected_schema)))"

definition output_expansion_limit :: "processing_config \<Rightarrow> int" where
  "output_expansion_limit config =
     min (4 * (if c_max_output_bytes config < 0 then u64_max else c_max_output_bytes config)) u64_max"

text \<open>The part of \<open>validate_finalization\<close> that depends on the kind of the operation.\<close>

definition validate_kind ::
  "finalization_env \<Rightarrow> processing_config \<Rightarrow> finalization_lease \<Rightarrow> staged_artifact list \<Rightarrow>
   validation_failure + validated_finalization" where
  "validate_kind env config lease staged =
     (case oc_finalization (contract (fl_operation lease)) of
        PdfArtifacts \<Rightarrow>
          if \<not> (case staged_role ''pdf'' staged of None \<Rightarrow> False | Some s \<Rightarrow> valid_pdf (sa_content s))
          then Inl PdfInvalid
          else if (case staged_role ''log'' staged of None \<Rightarrow> False | Some s \<Rightarrow> \<not> utf8_valid (sa_content s))
          then Inl DiagnosticInvalid
          else Inr Artifacts_validated
      | PptxArtifacts \<Rightarrow>
          if \<not> (case staged_role ''pptx'' staged of None \<Rightarrow> False
                | Some s \<Rightarrow> validate_pptx (fe_zip_open env) (sa_content s) (output_expansion_limit config) = Inr ())
          then Inl PptxInvalid
          else if \<not> validate_report env staged ''pptx-export-report/v1'' then Inl DiagnosticInvalid
          else Inr Artifacts_validated
      | TypstWorkspace \<Rightarrow>
          (case staged_role ''workspace'' staged of
             None \<Rightarrow> Inl WorkspaceInvalid
           | Some s \<Rightarrow>
               (case validate_workspace_bundle (fe_zip_open env) (fe_parse_manifest env) (fe_sha256 env)
                       (fe_hex env) (fe_essence env) (sa_content s) (output_expansion_limit config) of
                  Inl _ \<Rightarrow> Inl WorkspaceInvalid
                | Inr bundle \<Rightarrow>
                    if \<not> validate_report env staged ''pptx-import-report/v1'' then Inl DiagnosticInvalid
                    else (case json_get (fl_normalized_options lease) ''project_name'' of
                            None \<Rightarrow> Inl WorkspaceInvalid
                          | Some v \<Rightarrow>
                              (case json_as_str v of
                                 None \<Rightarrow> Inl WorkspaceInvalid
                               | Some name \<Rightarrow>
                                   (case parse_project_name name of
                                      None \<Rightarrow> Inl WorkspaceInvalid
                                    | Some project_name \<Rightarrow> Inr (Workspace_validated bundle project_name)))))))"

definition validate_finalization ::
  "finalization_env \<Rightarrow> processing_config \<Rightarrow> access_db \<Rightarrow> finalization_lease \<Rightarrow> staged_artifact list \<Rightarrow>
   finalization_check_error + validated_finalization" where
  "validate_finalization env config adb lease staged =
     (case (case fl_project_id lease of
              None \<Rightarrow> Inr ()
            | Some project_id \<Rightarrow> ensure_project_role_for_user (fl_requester_user_id lease) project_id Read adb) of
        Inl PermissionDenied \<Rightarrow> Inl (Rejected_check AccessRevoked)
      | Inl _ \<Rightarrow> Inl Unavailable_check
      | Inr () \<Rightarrow>
          (case check_staged env config (contract (fl_operation lease)) [] staged of
             None \<Rightarrow> Inl (Rejected_check ArtifactSet)
           | Some seen \<Rightarrow>
               if list_ex (\<lambda>ac. ac_required ac \<and> ac_role ac \<notin> set seen) (oc_artifacts (contract (fl_operation lease)))
               then Inl (Rejected_check ArtifactSet)
               else (case validate_kind env config lease staged of
                       Inl f \<Rightarrow> Inl (Rejected_check f) | Inr v \<Rightarrow> Inr v)))"

section \<open>Publication\<close>

definition artifact_checks :: "artifact_row \<Rightarrow> bool" where
  "artifact_checks f \<longleftrightarrow> 0 \<le> f_size_bytes f \<and> length (f_sha256 f) = 32"

definition artifact_of :: "uuid \<Rightarrow> uuid \<Rightarrow> instant \<Rightarrow> staged_artifact \<Rightarrow> artifact_row" where
  "artifact_of fresh job_id now s =
     \<lparr>f_id = fresh, f_job_id = job_id, f_blob_id = sa_blob_id s, f_role = sa_role s,
      f_media_type = sa_media_type s, f_filename = sa_filename s, f_size_bytes = sa_size_bytes s,
      f_sha256 = sa_sha256 s, f_created_at = now\<rparr>"

text \<open>
  \<open>INSERT ... ON CONFLICT (job_id, role) DO NOTHING\<close> with the primary key and the references to
  job and blob; \<open>None\<close> is a failed statement.
\<close>

definition insert_artifact :: "artifact_row \<Rightarrow> processing_db \<Rightarrow> processing_db option" where
  "insert_artifact row db =
     (if \<not> artifact_checks row then None
      else if exists_where (\<lambda>f. f_job_id f = f_job_id row \<and> f_role f = f_role row) (artifacts db) then Some db
      else if exists_where (\<lambda>f. f_id f = f_id row) (artifacts db) then None
      else if \<not> exists_where (\<lambda>j. j_id j = f_job_id row) (jobs db) then None
      else if \<not> exists_where (\<lambda>b. b_id b = f_blob_id row) (blobs db) then None
      else Some (db\<lparr>artifacts := artifacts db @ [row]\<rparr>))"

definition consume_transfer :: "uuid option \<Rightarrow> instant \<Rightarrow> processing_db \<Rightarrow> processing_db" where
  "consume_transfer transfer_id now db =
     (case transfer_id of
        None \<Rightarrow> db
      | Some i \<Rightarrow> db\<lparr>transfers := update_where (\<lambda>t. t_id t = i)
                        (\<lambda>t. t\<lparr>t_state := Consumed, t_updated_at := now\<rparr>) (transfers db)\<rparr>)"

text \<open>\<open>fresh i\<close> is the identifier drawn for the \<open>i\<close>-th artifact.\<close>

fun publish_staged_artifacts ::
  "(nat \<Rightarrow> uuid) \<Rightarrow> nat \<Rightarrow> uuid \<Rightarrow> instant \<Rightarrow> staged_artifact list \<Rightarrow> processing_db \<Rightarrow> processing_db option" where
  "publish_staged_artifacts fresh i job_id now [] db = Some db"
| "publish_staged_artifacts fresh i job_id now (s # ss) db =
     (case insert_artifact (artifact_of (fresh i) job_id now s) db of
        None \<Rightarrow> None
      | Some db' \<Rightarrow> publish_staged_artifacts fresh (Suc i) job_id now ss (consume_transfer (sa_transfer_id s) now db'))"

definition succeed_job :: "instant \<Rightarrow> job_row \<Rightarrow> job_row" where
  "succeed_job now j =
     j\<lparr>j_state := Succeeded, j_phase := Complete, j_finalization_token := None,
       j_finalization_expires_at := None, j_updated_at := now, j_completed_at := Some now\<rparr>"

text \<open>\<open>Inl ()\<close> is a failed statement; the transaction is then rolled back.\<close>

definition publish_artifacts ::
  "(nat \<Rightarrow> uuid) \<Rightarrow> finalization_lease \<Rightarrow> staged_artifact list \<Rightarrow> instant \<Rightarrow> processing_db \<Rightarrow>
   (unit + unit) \<times> processing_db" where
  [op_defs]: "publish_artifacts fresh lease staged now db =
     (if \<not> lock_finalization lease now db then (Inr (), db)
      else case publish_staged_artifacts fresh 0 (fl_job_id lease) now staged db of
             None \<Rightarrow> (Inl (), db)
           | Some db' \<Rightarrow>
               if rows_affected (holds_lease lease) (jobs db') = 1
               then (Inr (), db'\<lparr>jobs := update_where (holds_lease lease) (succeed_job now) (jobs db')\<rparr>)
               else (Inr (), db))"

definition reject_job :: "validation_failure \<Rightarrow> instant \<Rightarrow> job_row \<Rightarrow> job_row" where
  "reject_job failure now j =
     j\<lparr>j_state := Failed, j_phase := Complete, j_failure_class := Some (failure_class failure),
       j_failure_code := Some (failure_code failure), j_failure_message := Some (failure_message failure),
       j_finalization_token := None, j_finalization_expires_at := None,
       j_updated_at := now, j_completed_at := Some now\<rparr>"

definition reject_artifacts :: "finalization_lease \<Rightarrow> validation_failure \<Rightarrow> instant \<Rightarrow> processing_db \<Rightarrow> processing_db" where
  [op_defs]: "reject_artifacts lease failure now db =
     db\<lparr>jobs := update_where (\<lambda>j. holds_lease lease j \<and> null_gt (j_finalization_expires_at j) now)
          (reject_job failure now) (jobs db)\<rparr>"

subsection \<open>Publication of an imported project\<close>

record project_graph =
  pg_project_id :: uuid
  pg_owner_user_id :: uuid
  pg_name :: string
  pg_project_type :: project_type
  pg_entry_file_path :: string
  pg_directories :: "string list"
  pg_documents :: "workspace_document list"
  pg_created_at :: instant

text \<open>
  The operations of the Workspace component that publication calls, on its state \<open>'w\<close>:
  \<open>stage_workspace_import_assets\<close> (objects staged for the assets, \<open>None\<close> on failure), their
  \<open>cleanup\<close> and \<open>cleanup_if_unreferenced\<close>, \<open>provision_project\<close> and \<open>mark_project_dirty\<close>.
\<close>

record ('w, 's) workspace_ports =
  wp_stage :: "uuid \<Rightarrow> bundle_asset list \<Rightarrow> 'w \<Rightarrow> 's option \<times> 'w"
  wp_cleanup :: "'s \<Rightarrow> 'w \<Rightarrow> 'w"
  wp_cleanup_if_unreferenced :: "'s \<Rightarrow> 'w \<Rightarrow> 'w"
  wp_provision :: "project_graph \<Rightarrow> 's \<Rightarrow> 'w \<Rightarrow> 'w option"
  wp_mark_dirty :: "uuid \<Rightarrow> uuid option \<Rightarrow> 'w \<Rightarrow> 'w option"

text \<open>A commit may report an error although it took effect.\<close>

datatype commit_result = Committed | Ambiguous_committed | Ambiguous_lost

definition publish_workspace_transaction ::
  "('w, 's) workspace_ports \<Rightarrow> (nat \<Rightarrow> uuid) \<Rightarrow> finalization_lease \<Rightarrow> staged_artifact list \<Rightarrow> validated_bundle \<Rightarrow> string \<Rightarrow>
   's \<Rightarrow> uuid \<Rightarrow> instant \<Rightarrow> processing_db \<times> 'w \<Rightarrow> (unit + bool) \<times> (processing_db \<times> 'w)" where
  "publish_workspace_transaction ports fresh lease staged bundle project_name staged_assets project_id now s =
     (let (db, w) = s in
      if \<not> lock_finalization lease now db then (Inr False, s)
      else
        let project = \<lparr>pg_project_id = project_id, pg_owner_user_id = fl_requester_user_id lease,
                       pg_name = project_name, pg_project_type = Typst,
                       pg_entry_file_path = vb_entry_file_path bundle, pg_directories = vb_directories bundle,
                       pg_documents = vb_documents bundle, pg_created_at = now\<rparr>
        in case wp_provision ports project staged_assets w of
             None \<Rightarrow> (Inl (), s)
           | Some w1 \<Rightarrow>
               (case wp_mark_dirty ports project_id (Some (fl_requester_user_id lease)) w1 of
                  None \<Rightarrow> (Inl (), s)
                | Some w2 \<Rightarrow>
                    (case publish_staged_artifacts fresh 0 (fl_job_id lease) now staged db of
                       None \<Rightarrow> (Inl (), s)
                     | Some db' \<Rightarrow>
                         (Inr (rows_affected (holds_lease lease) (jobs db') = 1),
                          (db'\<lparr>jobs := update_where (holds_lease lease)
                                 (\<lambda>j. succeed_job now j\<lparr>j_result_project_id := Some project_id\<rparr>) (jobs db')\<rparr>, w2)))))"

definition publish_workspace ::
  "('w, 's) workspace_ports \<Rightarrow> commit_result \<Rightarrow> (nat \<Rightarrow> uuid) \<Rightarrow> finalization_lease \<Rightarrow> staged_artifact list \<Rightarrow>
   validated_bundle \<Rightarrow> string \<Rightarrow> uuid \<Rightarrow> instant \<Rightarrow> processing_db \<times> 'w \<Rightarrow> (unit + unit) \<times> (processing_db \<times> 'w)" where
  [op_defs]: "publish_workspace ports commit fresh lease staged bundle project_name project_id now s =
     (case wp_stage ports project_id (vb_assets bundle) (snd s) of
        (None, w1) \<Rightarrow> (Inl (), (fst s, w1))
      | (Some staged_assets, w1) \<Rightarrow>
          (case publish_workspace_transaction ports fresh lease staged bundle project_name staged_assets project_id now
                  (fst s, w1) of
             (Inl (), _) \<Rightarrow> (Inl (), (fst s, wp_cleanup ports staged_assets w1))
           | (Inr False, _) \<Rightarrow> (Inr (), (fst s, wp_cleanup ports staged_assets w1))
           | (Inr True, (db2, w2)) \<Rightarrow>
               (case commit of
                  Committed \<Rightarrow> (Inr (), (db2, w2))
                | Ambiguous_committed \<Rightarrow> (Inl (), (db2, wp_cleanup_if_unreferenced ports staged_assets w2))
                | Ambiguous_lost \<Rightarrow> (Inl (), (fst s, wp_cleanup_if_unreferenced ports staged_assets w1)))))"

section \<open>Finalizing one job\<close>

text \<open>The steps of \<open>finalize_one\<close> read the clock anew: \<open>t1\<close> for the lease, \<open>t2\<close> for the outcome.\<close>

definition finalize_one ::
  "('w, 's) workspace_ports \<Rightarrow> finalization_env \<Rightarrow> processing_config \<Rightarrow> access_db \<Rightarrow> commit_result \<Rightarrow> (nat \<Rightarrow> uuid) \<Rightarrow> uuid \<Rightarrow>
   (uuid \<Rightarrow> bool) \<Rightarrow> uuid \<Rightarrow> instant \<Rightarrow> instant \<Rightarrow> processing_db \<times> 'w \<Rightarrow> (unit + bool) \<times> (processing_db \<times> 'w)" where
  [op_defs]: "finalize_one ports env config adb commit fresh project_id locked token t1 t2 s =
     (case acquire_finalization_lease config locked token t1 (fst s) of
        (None, db1) \<Rightarrow> (Inr False, (db1, snd s))
      | (Some lease, db1) \<Rightarrow>
          (case load_staged_artifacts lease db1 of
             None \<Rightarrow> (Inl (), (db1, snd s))
           | Some staged \<Rightarrow>
               (case validate_finalization env config adb lease staged of
                  Inr Artifacts_validated \<Rightarrow>
                    (case publish_artifacts fresh lease staged t2 db1 of
                       (Inl (), db2) \<Rightarrow> (Inl (), (db2, snd s))
                     | (Inr (), db2) \<Rightarrow> (Inr True, (db2, snd s)))
                | Inr (Workspace_validated bundle project_name) \<Rightarrow>
                    (case publish_workspace ports commit fresh lease staged bundle project_name project_id t2 (db1, snd s) of
                       (Inl (), s2) \<Rightarrow> (Inl (), s2)
                     | (Inr (), s2) \<Rightarrow> (Inr True, s2))
                | Inl (Rejected_check failure) \<Rightarrow> (Inr True, (reject_artifacts lease failure t2 db1, snd s))
                | Inl Unavailable_check \<Rightarrow> (Inl (), (db1, snd s)))))"

end
