(* ===== verification/Worker_Http.thy ===== *)
theory Worker_Http
  imports Worker_Transfers
begin

text \<open>
  The authenticated edge of capability workers: replay records of worker mutations
  (\<open>document_processing/worker_idempotency.rs\<close>) and the handlers of
  \<open>document_processing/worker_http.rs\<close>. A handler gets the payload of its request also as the
  bytes that \<open>serde_json::to_vec\<close> gives for it.
\<close>

section \<open>Errors and responses\<close>

record api_error =
  ae_status :: int
  ae_code :: string
  ae_message :: string

datatype response = Response (rsp_status: int) (rsp_body: "json option")

definition invalid_request :: "string \<Rightarrow> api_error" where
  "invalid_request message = \<lparr>ae_status = 400, ae_code = ''worker_request_invalid'', ae_message = message\<rparr>"

definition service_unavailable :: api_error where
  "service_unavailable =
     \<lparr>ae_status = 503, ae_code = ''processing_service_unavailable'',
      ae_message = ''Document processing is temporarily unavailable''\<rparr>"

definition claim_lost :: api_error where
  "claim_lost = \<lparr>ae_status = 409, ae_code = ''claim_lost'', ae_message = ''The claim is no longer current''\<rparr>"

definition worker_request_in_progress :: api_error where
  "worker_request_in_progress =
     \<lparr>ae_status = 409, ae_code = ''worker_request_in_progress'',
      ae_message = ''The worker mutation is still being processed''\<rparr>"

definition transfer_auth_error :: api_error where
  "transfer_auth_error =
     \<lparr>ae_status = 401, ae_code = ''transfer_authorization_required'',
      ae_message = ''A valid transfer capability is required''\<rparr>"

definition transfer_rejected :: api_error where
  "transfer_rejected =
     \<lparr>ae_status = 410, ae_code = ''transfer_rejected'',
      ae_message = ''The transfer capability is invalid, expired, or no longer current''\<rparr>"

fun session_error :: "worker_session_error \<Rightarrow> api_error" where
  "session_error NotFound_session =
     \<lparr>ae_status = 404, ae_code = ''worker_session_not_found'', ae_message = ''Worker session was not found''\<rparr>"
| "session_error Expired_session_error =
     \<lparr>ae_status = 409, ae_code = ''worker_session_expired'', ae_message = ''Worker session has expired''\<rparr>"
| "session_error Draining_session_error =
     \<lparr>ae_status = 409, ae_code = ''worker_session_draining'', ae_message = ''Worker session is draining''\<rparr>"
| "session_error Invalid_session = invalid_request ''Worker session payload is invalid''"
| "session_error Persistence_session = service_unavailable"

fun claim_error_response :: "claim_error \<Rightarrow> api_error" where
  "claim_error_response SessionUnavailable =
     \<lparr>ae_status = 409, ae_code = ''worker_session_unavailable'', ae_message = ''Worker session is unavailable''\<rparr>"
| "claim_error_response Lost_claim = claim_lost"
| "claim_error_response Invalid_claim = invalid_request ''Worker claim payload is invalid''"
| "claim_error_response Persistence_claim = service_unavailable"

section \<open>Replay records\<close>

definition request_pending_status :: int where "request_pending_status = 102"
definition request_pending_ttl :: duration where "request_pending_ttl = seconds 600"
definition request_replay_ttl :: duration where "request_replay_ttl = seconds 86400"

record reservation =
  rv_worker_identity :: string
  rv_request_id :: uuid
  rv_route_key :: string
  rv_payload_digest :: bytes

datatype request_start = Execute reservation | Replay int "json option" | InProgress

datatype worker_request_error = Conflict_request | Persistence_request | Serialization_request

definition request_key :: "string \<Rightarrow> uuid \<Rightarrow> request_row \<Rightarrow> bool" where
  "request_key identity request_id q \<longleftrightarrow> q_worker_identity q = identity \<and> q_request_id q = request_id"

definition reserve_request :: "reservation \<Rightarrow> instant \<Rightarrow> processing_db \<Rightarrow> (worker_request_error + request_start) \<times> processing_db" where
  "reserve_request rv now db =
     (if length (rv_payload_digest rv) \<noteq> 32 then (Inl Persistence_request, db)
      else (Inr (Execute rv),
            db\<lparr>requests := delete_where (request_key (rv_worker_identity rv) (rv_request_id rv)) (requests db) @
                 [\<lparr>q_worker_identity = rv_worker_identity rv, q_request_id = rv_request_id rv,
                   q_route_key = rv_route_key rv, q_payload_digest = rv_payload_digest rv,
                   q_response_status = request_pending_status, q_response_body = None,
                   q_created_at = now, q_expires_at = now + request_pending_ttl\<rparr>]\<rparr>))"

definition begin_worker_request ::
  "(bytes \<Rightarrow> bytes) \<Rightarrow> string \<Rightarrow> uuid \<Rightarrow> string \<Rightarrow> bytes \<Rightarrow> instant \<Rightarrow> processing_db \<Rightarrow>
   (worker_request_error + request_start) \<times> processing_db" where
  [op_defs]: "begin_worker_request sha256 identity request_id route_key payload now db =
     (let rv = \<lparr>rv_worker_identity = identity, rv_request_id = request_id, rv_route_key = route_key,
                rv_payload_digest = sha256 payload\<rparr>
      in case find (request_key identity request_id) (requests db) of
           None \<Rightarrow> reserve_request rv now db
         | Some q \<Rightarrow>
             if q_expires_at q \<le> now then reserve_request rv now db
             else if q_route_key q \<noteq> route_key \<or> q_payload_digest q \<noteq> sha256 payload then (Inl Conflict_request, db)
             else if q_response_status q = request_pending_status then (Inr InProgress, db)
             else if q_response_status q < 0 \<or> 65535 < q_response_status q then (Inl Persistence_request, db)
             else (Inr (Replay (q_response_status q) (q_response_body q)), db))"

definition reserved_by :: "reservation \<Rightarrow> request_row \<Rightarrow> bool" where
  "reserved_by rv q \<longleftrightarrow>
     request_key (rv_worker_identity rv) (rv_request_id rv) q \<and> q_route_key q = rv_route_key rv \<and>
     q_payload_digest q = rv_payload_digest rv \<and> q_response_status q = request_pending_status"

definition finish_request ::
  "reservation \<Rightarrow> int \<Rightarrow> json option \<Rightarrow> instant \<Rightarrow> processing_db \<Rightarrow> (worker_request_error + unit) \<times> processing_db" where
  [op_defs]: "finish_request rv status body now db =
     ((if rows_affected (reserved_by rv) (requests db) \<noteq> 1 then Inl Persistence_request else Inr ()),
      db\<lparr>requests := update_where (reserved_by rv)
           (\<lambda>q. q\<lparr>q_response_status := status, q_response_body := body, q_expires_at := now + request_replay_ttl\<rparr>)
           (requests db)\<rparr>)"

definition abort_request :: "reservation \<Rightarrow> processing_db \<Rightarrow> (worker_request_error + unit) \<times> processing_db" where
  [op_defs]: "abort_request rv db =
     ((if rows_affected (reserved_by rv) (requests db) \<noteq> 1 then Inl Persistence_request else Inr ()),
      db\<lparr>requests := delete_where (reserved_by rv) (requests db)\<rparr>)"

section \<open>Running a mutation once\<close>

fun request_error_response :: "worker_request_error \<Rightarrow> api_error" where
  "request_error_response Conflict_request =
     \<lparr>ae_status = 409, ae_code = ''worker_request_id_conflict'',
      ae_message = ''The request identifier was already used for another worker mutation''\<rparr>"
| "request_error_response Persistence_request = service_unavailable"
| "request_error_response Serialization_request = service_unavailable"

definition error_body :: "api_error \<Rightarrow> json" where
  "error_body e = JObj [(''code'', JStr (ae_code e)), (''message'', JStr (ae_message e))]"

text \<open>\<open>StatusCode::from_u16\<close> accepts the codes from 100 to 999.\<close>

definition replay_response :: "int \<Rightarrow> json option \<Rightarrow> api_error + response" where
  "replay_response status body =
     (if status < 100 \<or> 999 < status then Inl service_unavailable else Inr (Response status body))"

definition is_server_error :: "api_error \<Rightarrow> bool" where
  "is_server_error e \<longleftrightarrow> 500 \<le> ae_status e \<and> ae_status e \<le> 599"

type_synonym mutation = "processing_db \<Rightarrow> (api_error + response) \<times> processing_db"

text \<open>\<open>t1\<close> is the time of the reservation and \<open>t2\<close> of its completion.\<close>

definition with_worker_request ::
  "(bytes \<Rightarrow> bytes) \<Rightarrow> authenticated_worker \<Rightarrow> uuid \<Rightarrow> string \<Rightarrow> bytes \<Rightarrow> instant \<Rightarrow> instant \<Rightarrow> mutation \<Rightarrow> mutation" where
  [op_defs]: "with_worker_request sha256 worker request_id route_key payload t1 t2 action db =
     (case begin_worker_request sha256 (aw_identity worker) request_id route_key payload t1 db of
        (Inl e, db1) \<Rightarrow> (Inl (request_error_response e), db1)
      | (Inr (Replay status body), db1) \<Rightarrow> (replay_response status body, db1)
      | (Inr InProgress, db1) \<Rightarrow> (Inl worker_request_in_progress, db1)
      | (Inr (Execute rv), db1) \<Rightarrow>
          (case action db1 of
             (Inr (Response status body), db2) \<Rightarrow>
               (case finish_request rv status body t2 db2 of
                  (Inl e, db3) \<Rightarrow> (Inl (request_error_response e), db3)
                | (Inr (), db3) \<Rightarrow> (Inr (Response status body), db3))
           | (Inl error, db2) \<Rightarrow>
               if is_server_error error
               then (case abort_request rv db2 of
                       (Inl e, db3) \<Rightarrow> (Inl (request_error_response e), db3)
                     | (Inr (), db3) \<Rightarrow> (Inl error, db3))
               else (case finish_request rv (ae_status error) (Some (error_body error)) t2 db2 of
                       (Inl e, db3) \<Rightarrow> (Inl (request_error_response e), db3)
                     | (Inr (), db3) \<Rightarrow> (Inl error, db3))))"

section \<open>Request validation\<close>

text \<open>The nil identifier is 0.\<close>

definition require_request_id :: "uuid \<Rightarrow> api_error + unit" where
  "require_request_id request_id =
     (if request_id = 0 then Inl (invalid_request ''request_id must not be nil'') else Inr ())"

definition max_offered_slots_per_request :: int where "max_offered_slots_per_request = 16"
definition max_processor_offers_per_request :: nat where "max_processor_offers_per_request = 16"
definition max_long_poll_seconds :: int where "max_long_poll_seconds = 20"
definition u32_max :: int where "u32_max = 4294967295"

text \<open>The loop over the offers, whose \<open>slots\<close> are a \<open>u32\<close>, with the pairs seen and the slots so far.\<close>

fun validate_offers ::
  "authenticated_worker \<Rightarrow> (processing_operation \<times> string) list \<Rightarrow> int \<Rightarrow> capacity_offer list \<Rightarrow>
   api_error + capacity_offer list" where
  "validate_offers worker unique slots [] = Inr []"
| "validate_offers worker unique slots (offer # rest) =
     (if u32_max < slots + of_slots offer
      then Inl (invalid_request ''offered slots exceed the supported range'')
      else if of_slots offer = 0 \<or> max_offered_slots_per_request < slots + of_slots offer
           \<or> \<not> approves worker (of_operation offer) (of_processor_contract offer)
           \<or> (of_operation offer, of_processor_contract offer) \<in> set unique
      then Inl (invalid_request ''processor offer is invalid'')
      else if i32_max < of_slots offer
      then Inl (invalid_request ''offered slots exceed the supported range'')
      else (case validate_offers worker ((of_operation offer, of_processor_contract offer) # unique)
                   (slots + of_slots offer) rest of
              Inl e \<Rightarrow> Inl e | Inr os \<Rightarrow> Inr (offer # os)))"

definition validate_capacity_offers ::
  "authenticated_worker \<Rightarrow> capacity_offer list \<Rightarrow> api_error + capacity_offer list" where
  "validate_capacity_offers worker offers =
     (if offers = [] \<or> max_processor_offers_per_request < length offers
      then Inl (invalid_request ''processor offers are outside the supported range'')
      else validate_offers worker [] 0 offers)"

definition validate_artifact_declaration :: "processing_config \<Rightarrow> string \<Rightarrow> int \<Rightarrow> api_error + unit" where
  "validate_artifact_declaration config filename size_bytes =
     (if filename = [] \<or> 160 < length filename \<or> filename = ''.'' \<or> filename = ''..''
         \<or> list_ex (\<lambda>b. b = CHR ''/'' \<or> b = CHR 92 \<or> b = CHR 0x00) filename
      then Inl (invalid_request ''filename is not a safe artifact basename'')
      else if size_bytes \<le> 0 \<or> max (c_max_output_bytes config) (c_max_diagnostic_bytes config) < size_bytes
      then Inl \<lparr>ae_status = 413, ae_code = ''artifact_too_large'',
                ae_message = ''Artifact size is outside the operation limit''\<rparr>
      else Inr ())"

definition validate_failure :: "processing_config \<Rightarrow> string \<Rightarrow> string \<Rightarrow> api_error + unit" where
  "validate_failure config code message =
     (if code = [] \<or> 96 < length code
         \<or> \<not> list_all (\<lambda>b. (CHR ''a'' \<le> b \<and> b \<le> CHR ''z'') \<or> ascii_digit b \<or> b = CHR ''_'') code
      then Inl (invalid_request ''failure code must be a lowercase identifier'')
      else if message = [] \<or> i64_max < int (length message) \<or> c_max_diagnostic_bytes config < int (length message)
      then Inl (invalid_request ''failure message is outside the diagnostic limit'')
      else Inr ())"

section \<open>Handlers\<close>

text \<open>
  What a handler takes from its environment: \<open>he_show\<close> and \<open>he_time\<close> are the JSON texts of a
  \<open>Uuid\<close> and of a time, \<open>he_unhex\<close> is \<open>hex::decode\<close>, \<open>he_reserved\<close> and \<open>he_finished\<close> the times at
  which the replay record is written, \<open>he_now\<close> the time the mutation reads and
  \<open>he_answered\<close> the time its response reports.
\<close>

record http_env =
  he_sha256 :: "bytes \<Rightarrow> bytes"
  he_show :: "uuid \<Rightarrow> string"
  he_time :: "instant \<Rightarrow> string"
  he_unhex :: "string \<Rightarrow> bytes option"
  he_reserved :: instant
  he_now :: instant
  he_answered :: instant
  he_finished :: instant

definition authentication_required :: api_error where
  "authentication_required =
     \<lparr>ae_status = 401, ae_code = ''worker_authentication_required'',
      ae_message = ''A valid worker credential is required''\<rparr>"

text \<open>The prefix of every mutation handler: the worker's credential and a request identifier.\<close>

definition authenticated ::
  "http_env \<Rightarrow> processing_config \<Rightarrow> string option \<Rightarrow> uuid \<Rightarrow> (authenticated_worker \<Rightarrow> mutation) \<Rightarrow> mutation" where
  "authenticated env config auth request_id body db =
     (case authenticate (he_sha256 env) config auth of
        None \<Rightarrow> (Inl authentication_required, db)
      | Some worker \<Rightarrow>
          (case require_request_id request_id of Inl e \<Rightarrow> (Inl e, db) | Inr () \<Rightarrow> body worker db))"

definition recorded ::
  "http_env \<Rightarrow> authenticated_worker \<Rightarrow> uuid \<Rightarrow> string \<Rightarrow> bytes \<Rightarrow> mutation \<Rightarrow> mutation" where
  "recorded env worker request_id route payload action =
     with_worker_request (he_sha256 env) worker request_id route payload (he_reserved env) (he_finished env) action"

definition create_worker_session ::
  "http_env \<Rightarrow> (processing_operation \<Rightarrow> bool) \<Rightarrow> processing_config \<Rightarrow> string option \<Rightarrow> bytes \<Rightarrow> uuid \<Rightarrow> string \<Rightarrow> int list \<Rightarrow>
   advertisement list \<Rightarrow> uuid \<Rightarrow> mutation" where
  "create_worker_session env supported config auth payload request_id worker_instance versions ads fresh =
     authenticated env config auth request_id (\<lambda>worker db.
       if 1 \<notin> set versions
       then (Inl \<lparr>ae_status = 400, ae_code = ''worker_protocol_unsupported'',
                  ae_message = ''No supported worker protocol version was offered''\<rparr>, db)
       else if list_ex (\<lambda>p. \<not> supported (ad_operation p)) ads
       then (Inl \<lparr>ae_status = 422, ae_code = ''processor_scope_mismatch'',
                  ae_message = ''A processor is disabled by this distribution''\<rparr>, db)
       else recorded env worker request_id ''POST /internal/v1/processing/worker-sessions'' payload
              (\<lambda>db. case register_session worker worker_instance ads config fresh (he_now env) db of
                 (Inl e, db') \<Rightarrow> (Inl (session_error e), db')
               | (Inr session_id, db') \<Rightarrow>
                   (Inr (Response 201 (Some (JObj
                      [(''session_id'', JStr (he_show env session_id)), (''protocol_version'', JNum 1),
                       (''server_time'', JStr (he_time env (he_answered env))),
                       (''heartbeat_interval_seconds'', JNum 15), (''max_long_poll_seconds'', JNum max_long_poll_seconds)]))), db')) db)"

definition heartbeat_worker_session ::
  "http_env \<Rightarrow> processing_config \<Rightarrow> string option \<Rightarrow> bytes \<Rightarrow> uuid \<Rightarrow> uuid \<Rightarrow>
   (processing_operation \<times> string \<times> bool) list \<Rightarrow> mutation" where
  "heartbeat_worker_session env config auth payload request_id session_id reported =
     authenticated env config auth request_id (\<lambda>worker.
       recorded env worker request_id
         (''POST /internal/v1/processing/worker-sessions/'' @ he_show env session_id @ ''/heartbeat'') payload
         (\<lambda>db. case heartbeat_session worker session_id reported config (he_now env) db of
            (Inl e, db') \<Rightarrow> (Inl (session_error e), db')
          | (Inr expires_at, db') \<Rightarrow>
              (Inr (Response 200 (Some (JObj [(''server_time'', JStr (he_time env (he_answered env))),
                 (''expires_at'', JStr (he_time env expires_at))]))), db')))"

definition drain_worker_session ::
  "http_env \<Rightarrow> processing_config \<Rightarrow> string option \<Rightarrow> bytes \<Rightarrow> uuid \<Rightarrow> uuid \<Rightarrow> mutation" where
  "drain_worker_session env config auth payload request_id session_id =
     authenticated env config auth request_id (\<lambda>worker.
       recorded env worker request_id
         (''DELETE /internal/v1/processing/worker-sessions/'' @ he_show env session_id) payload
         (\<lambda>db. case drain_session worker session_id (he_now env) db of
            (Inl e, db') \<Rightarrow> (Inl (session_error e), db')
          | (Inr (), db') \<Rightarrow> (Inr (Response 204 None), db')))"

definition claim_json :: "http_env \<Rightarrow> worker_claim \<Rightarrow> json" where
  "claim_json env c =
     JObj [(''job_id'', JStr (he_show env (wc_job_id c))), (''attempt'', JNum (wc_attempt c)),
           (''claim_id'', JStr (he_show env (wc_claim_id c))),
           (''lease_expires_at'', JStr (he_time env (wc_lease_expires_at c))),
           (''operation'', JStr (operation_as_ref (wc_operation c))),
           (''processor_contract'', JStr (wc_processor_contract c)), (''options'', wc_options c),
           (''input'', JObj [(''schema'', JStr (ci_schema (wc_input c))), (''size_bytes'', JNum (ci_size_bytes (wc_input c))),
              (''sha256'', JStr (ci_sha256 (wc_input c))), (''download_url'', JStr (ci_download_url (wc_input c))),
              (''download_token'', JStr (ci_download_token (wc_input c)))]),
           (''limits'', JObj [(''wall_seconds'', JNum (l_wall_seconds (wc_limits c))),
              (''output_bytes'', JNum (l_output_bytes (wc_limits c))),
              (''diagnostic_bytes'', JNum (l_diagnostic_bytes (wc_limits c)))])]"

text \<open>
  The long poll: each poll brings the identifiers and the two times of one \<open>try_claim\<close> and the
  monotonic clock read after it. The loop ends with the first claim, the first error, or the
  first clock at or after the deadline.
\<close>

fun poll_claims ::
  "authenticated_worker \<Rightarrow> uuid \<Rightarrow> capacity_offer list \<Rightarrow> processing_config \<Rightarrow> int \<Rightarrow>
   (claim_env \<times> instant \<times> instant \<times> int) list \<Rightarrow> processing_db \<Rightarrow> (claim_error + worker_claim option) \<times> processing_db" where
  "poll_claims worker session_id offers config deadline [] db = (Inr None, db)"
| "poll_claims worker session_id offers config deadline ((cenv, now, issued_at, clock) # polls) db =
     (case try_claim worker session_id offers config cenv now issued_at db of
        (Inl e, db') \<Rightarrow> (Inl e, db')
      | (Inr (Some claim), db') \<Rightarrow> (Inr (Some claim), db')
      | (Inr None, db') \<Rightarrow>
          if deadline \<le> clock then (Inr None, db')
          else poll_claims worker session_id offers config deadline polls db')"

definition acquire_worker_claims ::
  "http_env \<Rightarrow> processing_config \<Rightarrow> string option \<Rightarrow> bytes \<Rightarrow> uuid \<Rightarrow> uuid \<Rightarrow> capacity_offer list \<Rightarrow> int \<Rightarrow> int \<Rightarrow>
   (claim_env \<times> instant \<times> instant \<times> int) list \<Rightarrow> mutation" where
  "acquire_worker_claims env config auth payload request_id session_id input_offers wait_seconds start polls =
     authenticated env config auth request_id (\<lambda>worker db.
       case validate_capacity_offers worker input_offers of
         Inl e \<Rightarrow> (Inl e, db)
       | Inr offers \<Rightarrow>
           if max_long_poll_seconds < wait_seconds
           then (Inl (invalid_request ''wait_seconds exceeds the negotiated maximum''), db)
           else recorded env worker request_id ''POST /internal/v1/processing/claims:acquire'' payload
                  (\<lambda>db. case poll_claims worker session_id offers config (start + seconds wait_seconds) polls db of
                     (Inl e, db') \<Rightarrow> (Inl (claim_error_response e), db')
                   | (Inr None, db') \<Rightarrow> (Inr (Response 204 None), db')
                   | (Inr (Some claim), db') \<Rightarrow>
                       (Inr (Response 200 (Some (JObj [(''claims'', JArr [claim_json env claim])]))), db')) db)"

fun heartbeat_state_as_ref :: "claim_heartbeat_state \<Rightarrow> string" where
  "heartbeat_state_as_ref Active = ''active''"
| "heartbeat_state_as_ref CancellationRequested = ''cancellation_requested''"
| "heartbeat_state_as_ref ClaimLost = ''claim_lost''"
| "heartbeat_state_as_ref JobTerminal = ''job_terminal''"

definition heartbeat_worker_claim ::
  "http_env \<Rightarrow> processing_config \<Rightarrow> string option \<Rightarrow> bytes \<Rightarrow> uuid \<Rightarrow> uuid \<Rightarrow> uuid \<Rightarrow> processing_phase \<Rightarrow> mutation" where
  "heartbeat_worker_claim env config auth payload request_id session_id claim_id phase =
     authenticated env config auth request_id (\<lambda>worker.
       recorded env worker request_id
         (''POST /internal/v1/processing/claims/'' @ he_show env claim_id @ ''/heartbeat'') payload
         (\<lambda>db. case heartbeat_claim worker session_id claim_id phase config (he_now env) db of
            (Inl e, db') \<Rightarrow> (Inl (claim_error_response e), db')
          | (Inr r, db') \<Rightarrow>
              (let opt = (\<lambda>v. case v of None \<Rightarrow> JNull | Some t \<Rightarrow> JStr (he_time env t)) in
               (Inr (Response 200 (Some (JObj
                  [(''state'', JStr (heartbeat_state_as_ref (hb_state r))),
                   (''server_time'', JStr (he_time env (hb_server_time r))),
                   (''lease_expires_at'', opt (hb_lease_expires_at r)),
                   (''cancellation_deadline'', opt (hb_cancellation_deadline r))]))), db'))))"

definition create_worker_artifact_ticket ::
  "http_env \<Rightarrow> processing_config \<Rightarrow> string option \<Rightarrow> bytes \<Rightarrow> uuid \<Rightarrow> uuid \<Rightarrow> uuid \<Rightarrow> string \<Rightarrow> string \<Rightarrow> string \<Rightarrow> int \<Rightarrow> string \<Rightarrow>
   uuid \<Rightarrow> string \<Rightarrow> instant \<Rightarrow> mutation" where
  "create_worker_artifact_ticket env config auth payload request_id session_id claim_id role media_type filename
     size_bytes sha fresh rnd issued_at =
     authenticated env config auth request_id (\<lambda>worker db.
       case validate_artifact_declaration config filename size_bytes of
         Inl e \<Rightarrow> (Inl e, db)
       | Inr () \<Rightarrow>
           (case decode_sha256 (he_unhex env) sha of
              None \<Rightarrow> (Inl (invalid_request ''sha256 must be a 32-byte hexadecimal digest''), db)
            | Some digest \<Rightarrow>
                recorded env worker request_id
                  (''POST /internal/v1/processing/claims/'' @ he_show env claim_id @ ''/artifacts'') payload
                  (\<lambda>db. case create_artifact_transfer (he_sha256 env) worker
                              \<lparr>tr_session_id = session_id, tr_claim_id = claim_id, tr_role = role,
                               tr_media_type = media_type, tr_filename = filename, tr_size_bytes = size_bytes,
                               tr_expected_sha256 = digest\<rparr> config fresh rnd (he_now env) issued_at db of
                     (Inl e, db') \<Rightarrow> (Inl (claim_error_response e), db')
                   | (Inr (transfer_id, token, expires_at), db') \<Rightarrow>
                       (Inr (Response 201 (Some (JObj [(''transfer_id'', JStr (he_show env transfer_id)),
                          (''upload_url'', JStr (''/internal/v1/processing/transfers/'' @ he_show env transfer_id)),
                          (''upload_token'', JStr token), (''expires_at'', JStr (he_time env expires_at))]))), db')) db))"

text \<open>\<open>metadata_len\<close> is the length of the serialised metadata, \<open>None\<close> when that fails.\<close>

definition complete_worker_claim ::
  "http_env \<Rightarrow> processing_config \<Rightarrow> string option \<Rightarrow> bytes \<Rightarrow> uuid \<Rightarrow> uuid \<Rightarrow> uuid \<Rightarrow> completed_artifact list \<Rightarrow> nat option \<Rightarrow> mutation" where
  "complete_worker_claim env config auth payload request_id session_id claim_id arts metadata_len =
     authenticated env config auth request_id (\<lambda>worker db.
       if (case metadata_len of None \<Rightarrow> True | Some n \<Rightarrow> 16 * 1024 < n)
       then (Inl (invalid_request ''completion metadata is too large''), db)
       else recorded env worker request_id
              (''POST /internal/v1/processing/claims/'' @ he_show env claim_id @ ''/complete'') payload
              (\<lambda>db. case complete_claim (he_unhex env) worker session_id claim_id arts (he_now env) db of
                 (Accepted job_id, db') \<Rightarrow>
                   (Inr (Response 200 (Some (JObj [(''job_id'', JStr (he_show env job_id)), (''state'', JStr ''finalizing'')]))), db')
               | (Lost_delivery, db') \<Rightarrow> (Inl claim_lost, db')
               | (Cancelled_delivery, db') \<Rightarrow>
                   (Inl \<lparr>ae_status = 409, ae_code = ''cancellation_requested'',
                         ae_message = ''The job was cancelled before delivery was accepted''\<rparr>, db')
               | (Invalid_delivery, db') \<Rightarrow>
                   (Inl \<lparr>ae_status = 422, ae_code = ''artifact_rejected'',
                         ae_message = ''The staged artifact set does not match the operation contract''\<rparr>, db')) db)"

definition mutation_response :: "http_env \<Rightarrow> mutation_outcome \<Rightarrow> api_error + response" where
  "mutation_response env outcome =
     (case outcome of
        Updated job_id st \<Rightarrow>
          Inr (Response 200 (Some (JObj [(''job_id'', JStr (he_show env job_id)), (''state'', JStr (job_state_as_ref st))])))
      | Lost_mutation \<Rightarrow> Inl claim_lost)"

definition fail_worker_claim ::
  "http_env \<Rightarrow> processing_config \<Rightarrow> string option \<Rightarrow> bytes \<Rightarrow> uuid \<Rightarrow> uuid \<Rightarrow> uuid \<Rightarrow> worker_failure_class \<Rightarrow> string \<Rightarrow> string \<Rightarrow> mutation" where
  "fail_worker_claim env config auth payload request_id session_id claim_id cls code message =
     authenticated env config auth request_id (\<lambda>worker db.
       case validate_failure config code message of
         Inl e \<Rightarrow> (Inl e, db)
       | Inr () \<Rightarrow>
           recorded env worker request_id
             (''POST /internal/v1/processing/claims/'' @ he_show env claim_id @ ''/fail'') payload
             (\<lambda>db. case fail_claim worker session_id claim_id cls code message (he_now env) db of
                (outcome, db') \<Rightarrow> (mutation_response env outcome, db')) db)"

definition release_worker_claim ::
  "http_env \<Rightarrow> processing_config \<Rightarrow> string option \<Rightarrow> bytes \<Rightarrow> uuid \<Rightarrow> uuid \<Rightarrow> uuid \<Rightarrow> string option \<Rightarrow> mutation" where
  "release_worker_claim env config auth payload request_id session_id claim_id reason =
     authenticated env config auth request_id (\<lambda>worker db.
       if (case reason of None \<Rightarrow> False | Some r \<Rightarrow> 256 < length r)
       then (Inl (invalid_request ''release reason is too large''), db)
       else recorded env worker request_id
              (''POST /internal/v1/processing/claims/'' @ he_show env claim_id @ ''/release'') payload
              (\<lambda>db. case release_claim worker session_id claim_id (he_now env) db of
                 (outcome, db') \<Rightarrow> (mutation_response env outcome, db')) db)"

text \<open>Transfers are authorised by their own token. A response carries the content and its headers.\<close>

definition download_worker_transfer ::
  "http_env \<Rightarrow> string option \<Rightarrow> uuid \<Rightarrow> processing_db \<Rightarrow> (api_error + bytes \<times> string \<times> bytes) \<times> processing_db" where
  "download_worker_transfer env auth transfer_id db =
     (case transfer_token auth of
        None \<Rightarrow> (Inl transfer_auth_error, db)
      | Some token \<Rightarrow>
          (case download_transfer (he_sha256 env) transfer_id token (he_now env) db of
             (Inl (), db') \<Rightarrow> (Inl service_unavailable, db')
           | (Inr (Content content media_type sha), db') \<Rightarrow> (Inr (content, media_type, sha), db')
           | (Inr Rejected_download, db') \<Rightarrow> (Inl transfer_rejected, db')))"

definition upload_worker_transfer ::
  "http_env \<Rightarrow> string option \<Rightarrow> uuid \<Rightarrow> bytes \<Rightarrow> uuid \<Rightarrow> processing_db \<Rightarrow> (api_error + int \<times> bytes) \<times> processing_db" where
  "upload_worker_transfer env auth transfer_id content fresh db =
     (case transfer_token auth of
        None \<Rightarrow> (Inl transfer_auth_error, db)
      | Some token \<Rightarrow>
          (case upload_transfer (he_sha256 env) transfer_id token content fresh (he_now env) db of
             (Inl (), db') \<Rightarrow> (Inl service_unavailable, db')
           | (Inr (Stored size_bytes sha), db') \<Rightarrow> (Inr (size_bytes, sha), db')
           | (Inr Rejected_upload, db') \<Rightarrow> (Inl transfer_rejected, db')
           | (Inr TooLarge, db') \<Rightarrow>
               (Inl \<lparr>ae_status = 413, ae_code = ''transfer_size_mismatch'',
                     ae_message = ''Transfer content does not match the declared size''\<rparr>, db')
           | (Inr DigestMismatch, db') \<Rightarrow>
               (Inl \<lparr>ae_status = 422, ae_code = ''transfer_digest_mismatch'',
                     ae_message = ''Transfer content does not match the declared digest''\<rparr>, db')))"

end
