(* ===== verification/Lifecycle_Invariant.thy ===== *)
theory Lifecycle_Invariant
  imports Processing_Finalization Worker_Http
begin

text \<open>
  The invariant of the processing store and the ways in which a statement keeps it: a quiet
  update of jobs, which touches no claim; closing a claim; starting one; new rows; and deletions.
\<close>

section \<open>The invariant\<close>

text \<open>What holds of a job row on its own.\<close>

definition job_row_ok :: "job_row \<Rightarrow> bool" where
  "job_row_ok j \<longleftrightarrow>
     (j_current_claim_id j = None \<longleftrightarrow> j_state j \<noteq> Running) \<and>
     (j_claim_expires_at j = None \<longleftrightarrow> j_state j \<noteq> Running) \<and>
     (j_completed_at j = None \<longleftrightarrow> \<not> is_terminal (j_state j)) \<and>
     (j_state j \<noteq> Finalizing \<longrightarrow> j_finalization_token j = None) \<and>
     (j_finalization_expires_at j = None \<longleftrightarrow> j_finalization_token j = None) \<and>
     j_max_attempts j = 3 \<and> 0 \<le> j_attempt_count j \<and> j_attempt_count j \<le> 3 \<and>
     (j_state j = Queued \<longrightarrow> j_attempt_count j < 3) \<and> (j_state j = Preparing \<longrightarrow> j_attempt_count j = 0) \<and>
     (j_cancellation_requested j \<longrightarrow> j_state j = Running \<or> j_state j = Cancelled) \<and>
     (j_cache_source_job_id j \<noteq> None \<longrightarrow> j_state j \<in> {Finalizing, Succeeded, Failed}) \<and>
     (j_state j \<in> {Queued, Running, Finalizing, Succeeded} \<longrightarrow>
        j_input_schema j \<noteq> None \<and> j_input_blob_id j \<noteq> None \<and> j_input_digest j \<noteq> None)"

definition keys_ok :: "processing_db \<Rightarrow> bool" where
  "keys_ok db \<longleftrightarrow>
     distinct (map j_id (jobs db)) \<and>
     distinct (map (\<lambda>j. (j_requester_user_id j, j_idempotency_scope j, j_idempotency_key j)) (jobs db)) \<and>
     distinct (map a_id (attempts db)) \<and> distinct (map a_claim_id (attempts db)) \<and>
     distinct (map (\<lambda>a. (a_job_id a, a_attempt_number a)) (attempts db)) \<and>
     distinct (map t_id (transfers db)) \<and> distinct (map b_id (blobs db)) \<and>
     distinct (map f_id (artifacts db)) \<and> distinct (map (\<lambda>f. (f_job_id f, f_role f)) (artifacts db))"

text \<open>\<open>owns j a\<close>: the job names this attempt's claim, with its number and its lease.\<close>

definition owns :: "job_row \<Rightarrow> attempt_row \<Rightarrow> bool" where
  "owns j a \<longleftrightarrow>
     j_id j = a_job_id a \<and> j_state j = Running \<and> j_current_claim_id j = Some (a_claim_id a) \<and>
     j_claim_expires_at j = Some (a_lease_expires_at a) \<and> j_attempt_count j = a_attempt_number a"

definition claims_ok :: "processing_db \<Rightarrow> bool" where
  "claims_ok db \<longleftrightarrow>
     (\<forall>a \<in> set (attempts db). a_state a = Running_attempt \<longrightarrow> (\<exists>j \<in> set (jobs db). owns j a)) \<and>
     (\<forall>j \<in> set (jobs db). j_state j = Running \<longrightarrow>
        (\<exists>a \<in> set (attempts db). a_state a = Running_attempt \<and> owns j a)) \<and>
     (\<forall>a \<in> set (attempts db). \<exists>j \<in> set (jobs db).
        j_id j = a_job_id a \<and> 1 \<le> a_attempt_number a \<and> a_attempt_number a \<le> j_attempt_count j)"

definition refs_ok :: "processing_db \<Rightarrow> bool" where
  "refs_ok db \<longleftrightarrow>
     (\<forall>j \<in> set (jobs db). \<forall>b. j_input_blob_id j = Some b \<longrightarrow> b \<in> b_id ` set (blobs db)) \<and>
     (\<forall>t \<in> set (transfers db). \<forall>b. t_blob_id t = Some b \<longrightarrow> b \<in> b_id ` set (blobs db)) \<and>
     (\<forall>f \<in> set (artifacts db). f_blob_id f \<in> b_id ` set (blobs db)) \<and>
     (\<forall>t \<in> set (transfers db). \<exists>a \<in> set (attempts db).
        a_id a = t_attempt_id t \<and> a_job_id a = t_job_id t \<and> a_claim_id a = t_claim_id t) \<and>
     (\<forall>p \<in> set (pins db). pin_job_id p \<in> j_id ` set (jobs db))"

text \<open>Artifacts belong to succeeded jobs; a cache source is a succeeded job that still has artifacts.\<close>

definition results_ok :: "processing_db \<Rightarrow> bool" where
  "results_ok db \<longleftrightarrow>
     (\<forall>f \<in> set (artifacts db). \<exists>j \<in> set (jobs db). j_id j = f_job_id f \<and> j_state j = Succeeded) \<and>
     (\<forall>j \<in> set (jobs db). \<forall>s. j_cache_source_job_id j = Some s \<longrightarrow>
        (\<exists>f \<in> set (artifacts db). f_job_id f = s)) \<and>
     (\<forall>j \<in> set (jobs db). j_state j = Finalizing \<and> j_cache_source_job_id j = None \<longrightarrow>
        (\<exists>a \<in> set (attempts db). a_job_id a = j_id j \<and> a_attempt_number a = j_attempt_count j \<and>
           a_state a = Delivered_attempt))"

definition lifecycle_inv :: "processing_db \<Rightarrow> bool" where
  "lifecycle_inv db \<longleftrightarrow>
     (\<forall>j \<in> set (jobs db). job_row_ok j) \<and> keys_ok db \<and> claims_ok db \<and> refs_ok db \<and> results_ok db"

lemma lifecycle_inv_empty: "lifecycle_inv empty_db"
  by (simp add: lifecycle_inv_def empty_db_def keys_ok_def claims_ok_def refs_ok_def results_ok_def)

lemma lifecycle_invI:
  assumes "\<And>j. j \<in> set (jobs db) \<Longrightarrow> job_row_ok j" and "keys_ok db" and "claims_ok db" and "refs_ok db"
    and "results_ok db"
  shows "lifecycle_inv db"
  using assms by (simp add: lifecycle_inv_def)

lemma lifecycle_invD:
  assumes "lifecycle_inv db"
  shows "\<And>j. j \<in> set (jobs db) \<Longrightarrow> job_row_ok j" and "keys_ok db" and "claims_ok db" and "refs_ok db"
    and "results_ok db"
  using assms by (auto simp: lifecycle_inv_def)

lemma keys_okD:
  assumes "keys_ok db"
  shows "distinct (map j_id (jobs db))" and "distinct (map a_id (attempts db))"
    and "distinct (map a_claim_id (attempts db))" and "distinct (map t_id (transfers db))"
    and "distinct (map b_id (blobs db))"
    and "distinct (map (\<lambda>a. (a_job_id a, a_attempt_number a)) (attempts db))"
  using assms by (simp_all add: keys_ok_def)

lemma claims_okD:
  assumes "claims_ok db"
  shows "\<And>a. a \<in> set (attempts db) \<Longrightarrow> a_state a = Running_attempt \<Longrightarrow> \<exists>j \<in> set (jobs db). owns j a"
    and "\<And>j. j \<in> set (jobs db) \<Longrightarrow> j_state j = Running \<Longrightarrow> \<exists>a \<in> set (attempts db). a_state a = Running_attempt \<and> owns j a"
    and "\<And>a. a \<in> set (attempts db) \<Longrightarrow> \<exists>j \<in> set (jobs db).
        j_id j = a_job_id a \<and> 1 \<le> a_attempt_number a \<and> a_attempt_number a \<le> j_attempt_count j"
  using assms by (simp_all add: claims_ok_def)

section \<open>Tables the invariant does not read\<close>

lemma lifecycle_inv_frame [simp]:
  "lifecycle_inv (db\<lparr>sessions := x\<rparr>) = lifecycle_inv db"
  "lifecycle_inv (db\<lparr>processors := y\<rparr>) = lifecycle_inv db"
  "lifecycle_inv (db\<lparr>requests := z\<rparr>) = lifecycle_inv db"
  by (simp_all add: lifecycle_inv_def keys_ok_def claims_ok_def refs_ok_def results_ok_def)

lemma lifecycle_inv_pins:
  assumes "lifecycle_inv db" and "\<And>p. p \<in> set ps \<Longrightarrow> pin_job_id p \<in> j_id ` set (jobs db)"
  shows "lifecycle_inv (db\<lparr>pins := ps\<rparr>)"
  using assms by (simp add: lifecycle_inv_def keys_ok_def claims_ok_def refs_ok_def results_ok_def)

lemma lifecycle_inv_delete_pins: "lifecycle_inv db \<Longrightarrow> lifecycle_inv (db\<lparr>pins := delete_where P (pins db)\<rparr>)"
  by (rule lifecycle_inv_pins) (auto simp: lifecycle_inv_def refs_ok_def)

section \<open>Quiet updates of jobs\<close>

text \<open>
  A row change that keeps the claim of the job and everything that other rows rely on. The input
  blob and the cache source it may set must exist.
\<close>

definition quiet :: "processing_db \<Rightarrow> job_row \<Rightarrow> job_row \<Rightarrow> bool" where
  "quiet db j j' \<longleftrightarrow>
     j_id j' = j_id j \<and> j_requester_user_id j' = j_requester_user_id j \<and>
     j_idempotency_scope j' = j_idempotency_scope j \<and> j_idempotency_key j' = j_idempotency_key j \<and>
     j_attempt_count j' = j_attempt_count j \<and> j_current_claim_id j' = j_current_claim_id j \<and>
     j_claim_expires_at j' = j_claim_expires_at j \<and> (j_state j' = Running \<longleftrightarrow> j_state j = Running) \<and>
     (j_state j = Succeeded \<longrightarrow> j_state j' = Succeeded) \<and>
     (j_state j' = Finalizing \<and> j_cache_source_job_id j' = None \<longrightarrow>
        j_state j = Finalizing \<and> j_cache_source_job_id j = None) \<and>
     (\<forall>b. j_input_blob_id j' = Some b \<longrightarrow> j_input_blob_id j = Some b \<or> b \<in> b_id ` set (blobs db)) \<and>
     (\<forall>s. j_cache_source_job_id j' = Some s \<longrightarrow>
        j_cache_source_job_id j = Some s \<or> (\<exists>f \<in> set (artifacts db). f_job_id f = s)) \<and>
     (job_row_ok j \<longrightarrow> job_row_ok j')"

lemma quiet_owns: "quiet db j j' \<Longrightarrow> owns j' a \<longleftrightarrow> owns j a"
  by (auto simp: quiet_def owns_def)

lemma ball_update_where:
  assumes "\<forall>r \<in> set t. Q r" and "\<And>r. r \<in> set t \<Longrightarrow> P r \<Longrightarrow> Q r \<Longrightarrow> R (f r)" and "\<And>r. Q r \<Longrightarrow> R r"
  shows "\<forall>r \<in> set (update_where P f t). R r"
  using assms by (auto simp: in_update_where)

lemma bex_update_where:
  assumes "\<exists>r \<in> set t. Q r" and "\<And>r. r \<in> set t \<Longrightarrow> P r \<Longrightarrow> Q r \<Longrightarrow> R (f r)" and "\<And>r. \<not> P r \<Longrightarrow> Q r \<Longrightarrow> R r"
  shows "\<exists>r \<in> set (update_where P f t). R r"
  using assms by (metis in_update_where)

lemma image_update_where:
  assumes "\<And>r. r \<in> set t \<Longrightarrow> P r \<Longrightarrow> k (f r) = k r"
  shows "k ` set (update_where P f t) = k ` set t" and "map k (update_where P f t) = map k t"
proof -
  show "map k (update_where P f t) = map k t" using assms by (induction t) (auto simp: update_where_def)
  then show "k ` set (update_where P f t) = k ` set t" by (metis list.set_map)
qed

lemma quiet_refl: "quiet db j j"
  by (simp add: quiet_def)

lemma quietD:
  assumes "quiet db k j"
  shows "j_id j = j_id k" and "j_attempt_count j = j_attempt_count k"
    and "j_state j = Running \<longleftrightarrow> j_state k = Running" and "j_state k = Succeeded \<Longrightarrow> j_state j = Succeeded"
    and "j_state j = Finalizing \<Longrightarrow> j_cache_source_job_id j = None \<Longrightarrow> j_state k = Finalizing \<and> j_cache_source_job_id k = None"
    and "j_input_blob_id j = Some b \<Longrightarrow> j_input_blob_id k = Some b \<or> b \<in> b_id ` set (blobs db)"
    and "j_cache_source_job_id j = Some s \<Longrightarrow> j_cache_source_job_id k = Some s \<or> (\<exists>f \<in> set (artifacts db). f_job_id f = s)"
    and "job_row_ok k \<Longrightarrow> job_row_ok j"
  using assms by (simp_all add: quiet_def)

locale quiet_update =
  fixes db :: processing_db and P :: "job_row \<Rightarrow> bool" and f :: "job_row \<Rightarrow> job_row"
  assumes q: "\<And>j. j \<in> set (jobs db) \<Longrightarrow> P j \<Longrightarrow> quiet db j (f j)"
begin

lemma quiet_source:
  assumes "j \<in> set (update_where P f (jobs db))"
  obtains k where "k \<in> set (jobs db)" "quiet db k j"
  using assms q quiet_refl unfolding in_update_where by metis

lemma quiet_image:
  assumes "k \<in> set (jobs db)"
  obtains j where "j \<in> set (update_where P f (jobs db))" "quiet db k j"
proof -
  have "(if P k then f k else k) \<in> set (update_where P f (jobs db))" using assms by (auto simp: in_update_where)
  then show thesis using that q assms quiet_refl by metis
qed

lemma quiet_claims_ok:
  assumes ok: "claims_ok db"
  shows "claims_ok (db\<lparr>jobs := update_where P f (jobs db)\<rparr>)"
proof -
  let ?js = "update_where P f (jobs db)"
  have "\<exists>j \<in> set ?js. owns j a" if "\<exists>j \<in> set (jobs db). owns j a" for a
    using that quiet_image quiet_owns by metis
  moreover have "\<exists>a \<in> set (attempts db). a_state a = Running_attempt \<and> owns j a"
    if "j \<in> set ?js" "j_state j = Running" for j
  proof -
    from that(1) obtain k where k: "k \<in> set (jobs db)" "quiet db k j" by (rule quiet_source)
    then have "j_state k = Running" using that(2) quietD(3) by blast
    with ok k(1) obtain a where "a \<in> set (attempts db)" "a_state a = Running_attempt" "owns k a"
      unfolding claims_ok_def by blast
    with quiet_owns [OF k(2)] show ?thesis by blast
  qed
  moreover have "\<exists>j \<in> set ?js. j_id j = a_job_id a \<and> 1 \<le> a_attempt_number a \<and> a_attempt_number a \<le> j_attempt_count j"
    if "a \<in> set (attempts db)" for a
  proof -
    from that ok obtain k where k: "k \<in> set (jobs db)"
      "j_id k = a_job_id a \<and> 1 \<le> a_attempt_number a \<and> a_attempt_number a \<le> j_attempt_count k"
      unfolding claims_ok_def by blast
    from k(1) obtain j where "j \<in> set ?js" "quiet db k j" by (rule quiet_image)
    with k(2) quietD(1,2) show ?thesis by metis
  qed
  ultimately show ?thesis using ok by (simp add: claims_ok_def)
qed

lemma quiet_results_ok:
  assumes ok: "results_ok db"
  shows "results_ok (db\<lparr>jobs := update_where P f (jobs db)\<rparr>)"
proof -
  let ?js = "update_where P f (jobs db)"
  have "\<exists>j \<in> set ?js. j_id j = i \<and> j_state j = Succeeded"
    if "\<exists>j \<in> set (jobs db). j_id j = i \<and> j_state j = Succeeded" for i
    using that quiet_image quietD(1,4) by metis
  moreover have "\<exists>a \<in> set (artifacts db). f_job_id a = s"
    if "j \<in> set ?js" "j_cache_source_job_id j = Some s" for j s
  proof -
    from that(1) obtain k where k: "k \<in> set (jobs db)" "quiet db k j" by (rule quiet_source)
    from quietD(7) [OF k(2) that(2)] ok k(1) show ?thesis unfolding results_ok_def by blast
  qed
  moreover have "\<exists>a \<in> set (attempts db). a_job_id a = j_id j \<and> a_attempt_number a = j_attempt_count j \<and>
           a_state a = Delivered_attempt"
    if "j \<in> set ?js" "j_state j = Finalizing" "j_cache_source_job_id j = None" for j
  proof -
    from that(1) obtain k where k: "k \<in> set (jobs db)" "quiet db k j" by (rule quiet_source)
    from quietD(5) [OF k(2) that(2,3)] ok k(1) quietD(1,2) [OF k(2)] show ?thesis
      unfolding results_ok_def by metis
  qed
  ultimately show ?thesis using ok by (simp add: results_ok_def)
qed

lemma quiet_ids: "j_id ` set (update_where P f (jobs db)) = j_id ` set (jobs db)"
  "map j_id (update_where P f (jobs db)) = map j_id (jobs db)"
  by (rule image_update_where; use q quietD(1) in blast)+

lemma quiet_refs_ok:
  assumes ok: "refs_ok db"
  shows "refs_ok (db\<lparr>jobs := update_where P f (jobs db)\<rparr>)"
proof -
  have "b \<in> b_id ` set (blobs db)"
    if "j \<in> set (update_where P f (jobs db))" "j_input_blob_id j = Some b" for j b
  proof -
    from that(1) obtain k where k: "k \<in> set (jobs db)" "quiet db k j" by (rule quiet_source)
    from quietD(6) [OF k(2) that(2)] ok k(1) show ?thesis unfolding refs_ok_def by blast
  qed
  then show ?thesis using ok quiet_ids(1) by (simp add: refs_ok_def)
qed

lemma quiet_keys_ok:
  assumes ok: "keys_ok db"
  shows "keys_ok (db\<lparr>jobs := update_where P f (jobs db)\<rparr>)"
proof -
  let ?k = "\<lambda>j. (j_requester_user_id j, j_idempotency_scope j, j_idempotency_key j)"
  have "map ?k (update_where P f (jobs db)) = map ?k (jobs db)"
    by (rule image_update_where) (use q in \<open>auto simp: quiet_def\<close>)
  then show ?thesis using ok quiet_ids(2) by (simp add: keys_ok_def)
qed

lemma inv_quiet:
  assumes inv: "lifecycle_inv db"
  shows "lifecycle_inv (db\<lparr>jobs := update_where P f (jobs db)\<rparr>)"
proof (rule lifecycle_invI)
  show "job_row_ok j" if "j \<in> set (jobs (db\<lparr>jobs := update_where P f (jobs db)\<rparr>))" for j
  proof -
    from that have "j \<in> set (update_where P f (jobs db))" by simp
    then obtain k where "k \<in> set (jobs db)" "quiet db k j" by (rule quiet_source)
    with lifecycle_invD(1) [OF inv] quietD(8) show ?thesis by blast
  qed
qed (use lifecycle_invD [OF inv] quiet_keys_ok quiet_claims_ok quiet_refs_ok quiet_results_ok in blast)+

end

lemma lifecycle_inv_quiet:
  assumes "lifecycle_inv db" and "\<And>j. j \<in> set (jobs db) \<Longrightarrow> P j \<Longrightarrow> quiet db j (f j)"
  shows "lifecycle_inv (db\<lparr>jobs := update_where P f (jobs db)\<rparr>)"
  using assms(1) by (rule quiet_update.inv_quiet [OF quiet_update.intro, rotated]) (rule assms(2))

text \<open>The rows that maintenance, cancellation and preparation close, and the finalizer's own updates.\<close>

lemmas quiet_defs = quiet_def job_row_ok_def

lemma quiet_expire_waiting: "j_state j \<in> {Preparing, Queued} \<Longrightarrow> quiet db j (expire_waiting now j)"
  by (cases "j_state j") (simp_all add: quiet_defs expire_waiting_def)

lemma quiet_take_lease: "j_state j = Finalizing \<Longrightarrow> quiet db j (take_lease token e now j)"
  by (cases "j_state j") (simp_all add: quiet_defs take_lease_def)

lemma quiet_reject: "holds_lease lease j \<Longrightarrow> quiet db j (reject_job failure now j)"
  by (cases "j_state j") (simp_all add: quiet_defs reject_job_def holds_lease_def)

lemma quiet_succeed: "holds_lease lease j \<Longrightarrow> quiet db j (succeed_job now j)"
  by (cases "j_state j") (simp_all add: quiet_defs succeed_job_def holds_lease_def)

lemma quiet_succeed_project:
  "holds_lease lease j \<Longrightarrow> quiet db j (succeed_job now j\<lparr>j_result_project_id := p\<rparr>)"
  by (cases "j_state j") (simp_all add: quiet_defs succeed_job_def holds_lease_def)

lemma quiet_cancel_now: "j_state j \<in> {Preparing, Queued} \<Longrightarrow> quiet db j (cancel_now now j)"
  by (cases "j_state j") (simp_all add: quiet_defs cancel_now_def)

lemma quiet_request_cancellation: "j_state j = Running \<Longrightarrow> quiet db j (request_cancellation now j)"
  by (cases "j_state j") (simp_all add: quiet_defs request_cancellation_def)

lemma quiet_attach_input:
  "awaiting_input i j \<Longrightarrow> b \<in> b_id ` set (blobs db) \<Longrightarrow> quiet db j (attach_input input b j)"
  by (cases "j_state j") (simp_all add: quiet_defs attach_input_def awaiting_input_def)

lemma quiet_cache_hit:
  "j_state j = Queued \<Longrightarrow> \<not> j_cancellation_requested j \<Longrightarrow> \<exists>f \<in> set (artifacts db). f_job_id f = s \<Longrightarrow>
   quiet db j (mark_cache_hit contr s now j)"
  by (cases "j_state j") (simp_all add: quiet_defs mark_cache_hit_def)

interpretation waiting_jobs: quiet_update db
  "\<lambda>j. j_state j \<in> {Preparing, Queued} \<and> j_queue_expires_at j \<le> now" "expire_waiting now" for db now
  by unfold_locales (rule quiet_expire_waiting, simp)

interpretation rejected_jobs: quiet_update db
  "\<lambda>j. holds_lease lease j \<and> null_gt (j_finalization_expires_at j) now" "reject_job failure now" for db lease failure now
  by unfold_locales (rule quiet_reject [of lease], simp)

interpretation succeeded_jobs: quiet_update db "holds_lease lease" "succeed_job now" for db lease now
  by unfold_locales (rule quiet_succeed)

end
