(* ===== verification/Lifecycle_Steps.thy ===== *)
theory Lifecycle_Steps
  imports Lifecycle_Invariant
begin

text \<open>
  Every operation of Document Processing keeps the lifecycle invariant: first the shapes of change
  (a claim and its attempt change together, new rows, deletions), then the operations in the order
  of their theories.
\<close>

section \<open>A job and its attempt change together\<close>

lemma set_update_key:
  assumes "r \<in> set t" and "\<And>x. x \<in> set t \<Longrightarrow> P x \<longleftrightarrow> x = r"
  shows "set (update_where P f t) = insert (f r) (set t - {r})"
proof -
  have "set (update_where P f t) = (\<lambda>x. if x = r then f x else x) ` set t"
    using assms(2) by (auto simp: update_where_def)
  also have "\<dots> = insert (f r) (set t - {r})" using assms(1) by auto
  finally show ?thesis .
qed

lemma set_update_id:
  assumes "distinct (map k t)" and "r \<in> set t"
  shows "set (update_where (\<lambda>x. k x = k r) f t) = insert (f r) (set t - {r})"
  using assms by (intro set_update_key) (auto dest: key_unique)

text \<open>\<open>claim_change j a j' a'\<close>: the rows of a claim before and after a mutation by its holder.\<close>

definition claim_change :: "job_row \<Rightarrow> attempt_row \<Rightarrow> job_row \<Rightarrow> attempt_row \<Rightarrow> bool" where
  "claim_change j a j' a' \<longleftrightarrow>
     j_id j' = j_id j \<and> j_requester_user_id j' = j_requester_user_id j \<and>
     j_idempotency_scope j' = j_idempotency_scope j \<and> j_idempotency_key j' = j_idempotency_key j \<and>
     j_attempt_count j' = j_attempt_count j \<and> j_input_blob_id j' = j_input_blob_id j \<and>
     j_cache_source_job_id j' = j_cache_source_job_id j \<and> job_row_ok j' \<and>
     a_id a' = a_id a \<and> a_job_id a' = a_job_id a \<and> a_claim_id a' = a_claim_id a \<and>
     a_attempt_number a' = a_attempt_number a \<and>
     (a_state a' = Running_attempt \<longleftrightarrow> j_state j' = Running) \<and> (j_state j' = Running \<longrightarrow> owns j' a') \<and>
     (j_state j' = Finalizing \<longrightarrow> a_state a' = Delivered_attempt)"

text \<open>The two statements of such a mutation: on the attempts that \<open>C\<close> selects, and on the job.\<close>

definition claim_result ::
  "processing_db \<Rightarrow> job_row \<Rightarrow> (attempt_row \<Rightarrow> bool) \<Rightarrow> (job_row \<Rightarrow> job_row) \<Rightarrow> (attempt_row \<Rightarrow> attempt_row) \<Rightarrow> processing_db" where
  "claim_result db j C f g =
     db\<lparr>attempts := update_where C g (attempts db), jobs := update_where (\<lambda>x. j_id x = j_id j) f (jobs db)\<rparr>"

definition claim_mutation ::
  "processing_db \<Rightarrow> job_row \<Rightarrow> attempt_row \<Rightarrow> (attempt_row \<Rightarrow> bool) \<Rightarrow> (job_row \<Rightarrow> job_row) \<Rightarrow> (attempt_row \<Rightarrow> attempt_row) \<Rightarrow> bool" where
  "claim_mutation db j a C f g \<longleftrightarrow>
     lifecycle_inv db \<and> j \<in> set (jobs db) \<and> a \<in> set (attempts db) \<and> a_state a = Running_attempt \<and> owns j a \<and>
     (\<forall>x \<in> set (attempts db). C x \<longleftrightarrow> x = a) \<and> claim_change j a (f j) (g a)"

lemma claim_mutationD:
  assumes "claim_mutation db j a C f g"
  shows "lifecycle_inv db" and "j \<in> set (jobs db)" and "a \<in> set (attempts db)" and "a_state a = Running_attempt"
    and "owns j a" and "\<And>x. x \<in> set (attempts db) \<Longrightarrow> C x \<longleftrightarrow> x = a" and "claim_change j a (f j) (g a)"
    and "keys_ok db"
  using assms by (auto simp: claim_mutation_def lifecycle_inv_def)

lemma claim_result_other [simp]:
  "transfers (claim_result db j C f g) = transfers db" "artifacts (claim_result db j C f g) = artifacts db"
  "blobs (claim_result db j C f g) = blobs db" "pins (claim_result db j C f g) = pins db"
  by (simp_all add: claim_result_def)

lemma mutation_job_unique:
  assumes "claim_mutation db j a C f g" and "k \<in> set (jobs db)" and "j_id k = j_id j"
  shows "k = j"
  using key_unique [OF keys_okD(1) [OF claim_mutationD(8) [OF assms(1)]]] claim_mutationD(2) [OF assms(1)] assms(2,3)
  by blast

lemma mutation_sets:
  assumes m: "claim_mutation db j a C f g"
  shows "set (jobs (claim_result db j C f g)) = insert (f j) (set (jobs db) - {j})"
    and "set (attempts (claim_result db j C f g)) = insert (g a) (set (attempts db) - {a})"
  using set_update_id [OF keys_okD(1) [OF claim_mutationD(8) [OF m]] claim_mutationD(2) [OF m]]
    set_update_key [OF claim_mutationD(3) [OF m] claim_mutationD(6) [OF m]]
  by (simp_all add: claim_result_def)

lemma mutation_other_owner:
  assumes m: "claim_mutation db j a C f g" and "x \<in> set (attempts db)" and "x \<noteq> a" and "owns k x"
  shows "k \<noteq> j"
  using key_unique [OF keys_okD(3) [OF claim_mutationD(8) [OF m]] claim_mutationD(3) [OF m]]
    claim_mutationD(5) [OF m] assms(2-) unfolding owns_def by (metis option.inject)

lemma mutation_other_attempt:
  assumes m: "claim_mutation db j a C f g" and "k \<in> set (jobs db)" and "k \<noteq> j" and "owns k x"
  shows "x \<noteq> a"
  using mutation_job_unique [OF m] claim_mutationD(5) [OF m] assms(2-) by (auto simp: owns_def)

lemma mutation_claims:
  assumes m: "claim_mutation db j a C f g"
  shows "claims_ok (claim_result db j C f g)"
  unfolding claims_ok_def mutation_sets [OF m]
proof (intro conjI ballI impI)
  note ok = lifecycle_invD(3) [OF claim_mutationD(1) [OF m], unfolded claims_ok_def]
  fix x assume x: "x \<in> insert (g a) (set (attempts db) - {a})" and r: "a_state x = Running_attempt"
  show "\<exists>k \<in> insert (f j) (set (jobs db) - {j}). owns k x"
  proof (cases "x = g a")
    case True
    then show ?thesis using r claim_mutationD(7) [OF m] by (auto simp: claim_change_def)
  next
    case False
    with x have x': "x \<in> set (attempts db)" "x \<noteq> a" by auto
    with ok r obtain k where "k \<in> set (jobs db)" "owns k x" by blast
    with mutation_other_owner [OF m x'] show ?thesis by blast
  qed
next
  note ok = lifecycle_invD(3) [OF claim_mutationD(1) [OF m], unfolded claims_ok_def]
  fix k assume k: "k \<in> insert (f j) (set (jobs db) - {j})" and r: "j_state k = Running"
  show "\<exists>x \<in> insert (g a) (set (attempts db) - {a}). a_state x = Running_attempt \<and> owns k x"
  proof (cases "k = f j")
    case True
    then show ?thesis using r claim_mutationD(7) [OF m] by (auto simp: claim_change_def)
  next
    case False
    with k have k': "k \<in> set (jobs db)" "k \<noteq> j" by auto
    with ok r obtain x where "x \<in> set (attempts db)" "a_state x = Running_attempt" "owns k x" by blast
    with mutation_other_attempt [OF m k'] show ?thesis by blast
  qed
next
  note ok = lifecycle_invD(3) [OF claim_mutationD(1) [OF m], unfolded claims_ok_def]
  have keep: "\<exists>k \<in> insert (f j) (set (jobs db) - {j}). j_id k = i \<and> 1 \<le> n \<and> n \<le> j_attempt_count k"
    if "\<exists>k \<in> set (jobs db). j_id k = i \<and> 1 \<le> n \<and> n \<le> j_attempt_count k" for i n
    using that claim_mutationD(7) [OF m] by (auto simp: claim_change_def)
  fix x assume x: "x \<in> insert (g a) (set (attempts db) - {a})"
  show "\<exists>k \<in> insert (f j) (set (jobs db) - {j}).
          j_id k = a_job_id x \<and> 1 \<le> a_attempt_number x \<and> a_attempt_number x \<le> j_attempt_count k"
  proof (rule keep, cases "x = g a")
    case True
    then have "a_job_id x = a_job_id a" "a_attempt_number x = a_attempt_number a"
      using claim_mutationD(7) [OF m] by (simp_all add: claim_change_def)
    with ok claim_mutationD(3) [OF m] show "\<exists>k \<in> set (jobs db). j_id k = a_job_id x \<and> 1 \<le> a_attempt_number x \<and> a_attempt_number x \<le> j_attempt_count k"
      by metis
  next
    case False
    with x ok show "\<exists>k \<in> set (jobs db). j_id k = a_job_id x \<and> 1 \<le> a_attempt_number x \<and> a_attempt_number x \<le> j_attempt_count k"
      by blast
  qed
qed

lemma mutation_running:
  assumes m: "claim_mutation db j a C f g"
  shows "j_state j = Running" and "j_cache_source_job_id j = None"
  using claim_mutationD(5) [OF m] lifecycle_invD(1) [OF claim_mutationD(1) [OF m] claim_mutationD(2) [OF m]] by (auto simp: owns_def job_row_ok_def)

lemma mutation_results:
  assumes m: "claim_mutation db j a C f g"
  shows "results_ok (claim_result db j C f g)"
  unfolding results_ok_def mutation_sets [OF m]
proof (intro conjI ballI allI impI)
  note ok = lifecycle_invD(5) [OF claim_mutationD(1) [OF m], unfolded results_ok_def]
  fix r assume "r \<in> set (artifacts (claim_result db j C f g))"
  with ok obtain k where "k \<in> set (jobs db)" "j_id k = f_job_id r" "j_state k = Succeeded" by auto
  with mutation_running [OF m] show "\<exists>k \<in> insert (f j) (set (jobs db) - {j}). j_id k = f_job_id r \<and> j_state k = Succeeded"
    by force
next
  note ok = lifecycle_invD(5) [OF claim_mutationD(1) [OF m], unfolded results_ok_def]
  fix k s assume "k \<in> insert (f j) (set (jobs db) - {j})" "j_cache_source_job_id k = Some s"
  with ok mutation_running [OF m] claim_mutationD(7) [OF m] show "\<exists>r \<in> set (artifacts (claim_result db j C f g)). f_job_id r = s"
    by (auto simp: claim_change_def)
next
  note ok = lifecycle_invD(5) [OF claim_mutationD(1) [OF m], unfolded results_ok_def]
  fix k assume k: "k \<in> insert (f j) (set (jobs db) - {j})" and fin: "j_state k = Finalizing \<and> j_cache_source_job_id k = None"
  show "\<exists>x \<in> insert (g a) (set (attempts db) - {a}).
          a_job_id x = j_id k \<and> a_attempt_number x = j_attempt_count k \<and> a_state x = Delivered_attempt"
  proof (cases "k = f j")
    case True
    then show ?thesis using fin claim_mutationD(5,7) [OF m] by (auto simp: claim_change_def owns_def)
  next
    case False
    with k fin ok obtain x where "x \<in> set (attempts db)" "a_job_id x = j_id k"
      "a_attempt_number x = j_attempt_count k" "a_state x = Delivered_attempt" by blast
    moreover from this claim_mutationD(4) [OF m] have "x \<noteq> a" by auto
    ultimately show ?thesis by blast
  qed
qed

lemma mutation_refs:
  assumes m: "claim_mutation db j a C f g"
  shows "refs_ok (claim_result db j C f g)"
  unfolding refs_ok_def mutation_sets [OF m]
proof (intro conjI)
  note ok = lifecycle_invD(4) [OF claim_mutationD(1) [OF m], unfolded refs_ok_def]
  show "\<forall>k \<in> insert (f j) (set (jobs db) - {j}). \<forall>b. j_input_blob_id k = Some b \<longrightarrow> b \<in> b_id ` set (blobs (claim_result db j C f g))"
    using ok claim_mutationD(2,7) [OF m] by (auto simp: claim_change_def)
  show "\<forall>t \<in> set (transfers (claim_result db j C f g)). \<forall>b. t_blob_id t = Some b \<longrightarrow> b \<in> b_id ` set (blobs (claim_result db j C f g))"
    and "\<forall>r \<in> set (artifacts (claim_result db j C f g)). f_blob_id r \<in> b_id ` set (blobs (claim_result db j C f g))" using ok by simp_all
  have "j_id ` insert (f j) (set (jobs db) - {j}) = j_id ` set (jobs db)"
    using claim_mutationD(2,7) [OF m] by (auto simp: claim_change_def image_iff)
  then show "\<forall>p \<in> set (pins (claim_result db j C f g)). pin_job_id p \<in> j_id ` insert (f j) (set (jobs db) - {j})" using ok by simp
  show "\<forall>t \<in> set (transfers (claim_result db j C f g)). \<exists>x \<in> insert (g a) (set (attempts db) - {a}).
          a_id x = t_attempt_id t \<and> a_job_id x = t_job_id t \<and> a_claim_id x = t_claim_id t"
  proof
    fix t assume "t \<in> set (transfers (claim_result db j C f g))"
    with ok obtain x where x: "x \<in> set (attempts db)"
      "a_id x = t_attempt_id t \<and> a_job_id x = t_job_id t \<and> a_claim_id x = t_claim_id t" by auto
    show "\<exists>x \<in> insert (g a) (set (attempts db) - {a}).
          a_id x = t_attempt_id t \<and> a_job_id x = t_job_id t \<and> a_claim_id x = t_claim_id t"
      using x claim_mutationD(7) [OF m] by (cases "x = a") (auto simp: claim_change_def)
  qed
qed

lemma mutation_keys:
  assumes m: "claim_mutation db j a C f g"
  shows "keys_ok (claim_result db j C f g)"
proof -
  have j_frame: "map h (update_where (\<lambda>x. j_id x = j_id j) f (jobs db)) = map h (jobs db)" if "h (f j) = h j" for h :: "job_row \<Rightarrow> 'k"
    by (rule image_update_where) (use that mutation_job_unique [OF m] in metis)
  have a_frame: "map h (update_where C g (attempts db)) = map h (attempts db)" if "h (g a) = h a" for h :: "attempt_row \<Rightarrow> 'k"
    by (rule image_update_where) (use that claim_mutationD(6) [OF m] in metis)
  show ?thesis
    using claim_mutationD(7,8) [OF m] by (simp add: keys_ok_def claim_change_def claim_result_def j_frame a_frame)
qed

lemma mutation_inv:
  assumes m: "claim_mutation db j a C f g"
  shows "lifecycle_inv (claim_result db j C f g)"
proof (rule lifecycle_invI)
  show "job_row_ok k" if "k \<in> set (jobs (claim_result db j C f g))" for k
    using that claim_mutationD(7) [OF m] lifecycle_invD(1) [OF claim_mutationD(1) [OF m]] unfolding mutation_sets [OF m] by (auto simp: claim_change_def)
qed (rule mutation_keys [OF m] mutation_claims [OF m] mutation_refs [OF m] mutation_results [OF m])+


text \<open>
  The row functions of a claim mutation: applied to a well-formed job and the attempt it owns, and
  under the mutation's guard, they give a \<open>claim_change\<close>. The invariant then carries over.
\<close>

locale claim_transition =
  fixes guard :: "job_row \<Rightarrow> bool" and f :: "job_row \<Rightarrow> job_row" and g :: "attempt_row \<Rightarrow> attempt_row"
  assumes row_change: "job_row_ok j \<Longrightarrow> owns j a \<Longrightarrow> a_state a = Running_attempt \<Longrightarrow> guard j \<Longrightarrow> claim_change j a (f j) (g a)"
begin

lemma keeps_inv:
  assumes "lifecycle_inv db" and "j \<in> set (jobs db)" and "a \<in> set (attempts db)" and "a_state a = Running_attempt"
    and "owns j a" and "guard j" and "\<And>x. x \<in> set (attempts db) \<Longrightarrow> C x \<longleftrightarrow> x = a"
  shows "lifecycle_inv (db\<lparr>attempts := update_where C g (attempts db),
    jobs := update_where (\<lambda>x. j_id x = j_id j) f (jobs db)\<rparr>)"
proof -
  have "claim_mutation db j a C f g"
    using assms row_change [OF lifecycle_invD(1) [OF assms(1,2)]] by (simp add: claim_mutation_def)
  from mutation_inv [OF this] show ?thesis by (simp add: claim_result_def)
qed

lemma keeps_inv_id:
  assumes "lifecycle_inv db" and "j \<in> set (jobs db)" and "a \<in> set (attempts db)" and "a_state a = Running_attempt"
    and "owns j a" and "guard j"
  shows "lifecycle_inv (db\<lparr>attempts := update_where (\<lambda>x. a_id x = a_id a) g (attempts db),
    jobs := update_where (\<lambda>x. j_id x = j_id j) f (jobs db)\<rparr>)"
  using assms by (rule keeps_inv)
    (use key_unique [OF keys_okD(2) [OF lifecycle_invD(2) [OF assms(1)]]] assms(3) in blast)

end

lemmas claim_change_defs = claim_change_def owns_def job_row_ok_def

interpretation extend: claim_transition "\<lambda>j. True"
  "\<lambda>x. x\<lparr>j_phase := phase, j_claim_expires_at := Some lease, j_updated_at := now\<rparr>"
  "\<lambda>x. x\<lparr>a_phase := phase, a_lease_expires_at := lease, a_updated_at := now\<rparr>" for phase lease now
  by unfold_locales (simp add: claim_change_defs)

interpretation deliver: claim_transition "\<lambda>j. \<not> j_cancellation_requested j" "to_finalizing now" "delivered now" for now
  by unfold_locales (simp add: claim_change_defs to_finalizing_def delivered_def)

interpretation close: claim_transition "\<lambda>j. st = next_state_after_failure failure j"
  "after_failure failure st next_attempt_at now" "close_attempt failure now" for failure st next_attempt_at now
  by unfold_locales (auto simp: claim_change_defs after_failure_def close_attempt_def next_state_after_failure_def
      split: option.splits if_splits)

interpretation lose: claim_transition "\<lambda>j. j = row" "recover_job now row" "lose_attempt now" for row now
  by unfold_locales (auto simp: claim_change_defs recover_job_def lose_attempt_def recovery_state_def split: if_splits)

section \<open>Other tables\<close>

lemma lifecycle_inv_transfers:
  assumes "lifecycle_inv db" and "distinct (map t_id ts)"
    and "\<And>t b. t \<in> set ts \<Longrightarrow> t_blob_id t = Some b \<Longrightarrow> b \<in> b_id ` set (blobs db)"
    and "\<And>t. t \<in> set ts \<Longrightarrow> \<exists>a \<in> set (attempts db).
           a_id a = t_attempt_id t \<and> a_job_id a = t_job_id t \<and> a_claim_id a = t_claim_id t"
  shows "lifecycle_inv (db\<lparr>transfers := ts\<rparr>)"
  using assms by (simp add: lifecycle_inv_def keys_ok_def claims_ok_def refs_ok_def results_ok_def)

text \<open>A transfer keeps its identity; the blob it may get must exist.\<close>

definition transfer_kept :: "processing_db \<Rightarrow> transfer_row \<Rightarrow> transfer_row \<Rightarrow> bool" where
  "transfer_kept db t t' \<longleftrightarrow>
     t_id t' = t_id t \<and> t_attempt_id t' = t_attempt_id t \<and> t_job_id t' = t_job_id t \<and> t_claim_id t' = t_claim_id t \<and>
     (\<forall>b. t_blob_id t' = Some b \<longrightarrow> t_blob_id t = Some b \<or> b \<in> b_id ` set (blobs db))"

lemma lifecycle_inv_update_transfers:
  assumes inv: "lifecycle_inv db" and kept: "\<And>t. t \<in> set (transfers db) \<Longrightarrow> P t \<Longrightarrow> transfer_kept db t (f t)"
  shows "lifecycle_inv (db\<lparr>transfers := update_where P f (transfers db)\<rparr>)"
proof (rule lifecycle_inv_transfers [OF inv])
  note refs = lifecycle_invD(4) [OF inv, unfolded refs_ok_def]
  have "map t_id (update_where P f (transfers db)) = map t_id (transfers db)"
    by (rule image_update_where) (use kept in \<open>simp add: transfer_kept_def\<close>)
  then show "distinct (map t_id (update_where P f (transfers db)))"
    using keys_okD(4) [OF lifecycle_invD(2) [OF inv]] by simp
  fix t assume "t \<in> set (update_where P f (transfers db))"
  then obtain u where u: "u \<in> set (transfers db)" "transfer_kept db u t"
    using kept by (auto simp: in_update_where transfer_kept_def split: if_splits)
  show "b \<in> b_id ` set (blobs db)" if "t_blob_id t = Some b" for b
    using refs u that unfolding transfer_kept_def by blast
  show "\<exists>a \<in> set (attempts db). a_id a = t_attempt_id t \<and> a_job_id a = t_job_id t \<and> a_claim_id a = t_claim_id t"
    using refs u unfolding transfer_kept_def by metis
qed

lemma lifecycle_inv_blobs:
  assumes "lifecycle_inv db" and "distinct (map b_id bs)" and "b_id ` set (blobs db) \<subseteq> b_id ` set bs"
  shows "lifecycle_inv (db\<lparr>blobs := bs\<rparr>)"
proof -
  have "refs_ok (db\<lparr>blobs := bs\<rparr>)"
    using lifecycle_invD(4) [OF assms(1)] assms(3) unfolding refs_ok_def by (simp add: subset_iff)
  with assms show ?thesis by (simp add: lifecycle_inv_def keys_ok_def claims_ok_def results_ok_def)
qed

lemma store_blob_inv:
  assumes inv: "lifecycle_inv db" and st: "store_blob fresh dg media c now (blobs db) = Some (i, bs)"
  shows "lifecycle_inv (db\<lparr>blobs := bs\<rparr>)" and "i \<in> b_id ` set bs"
proof -
  have d: "distinct (map b_id (blobs db))" by (rule keys_okD(5) [OF lifecycle_invD(2) [OF inv]])
  have "distinct (map b_id bs) \<and> b_id ` set (blobs db) \<subseteq> b_id ` set bs \<and> i \<in> b_id ` set bs"
    using st by (cases rule: store_blob_cases) (use d in auto)
  with lifecycle_inv_blobs [OF inv] show "lifecycle_inv (db\<lparr>blobs := bs\<rparr>)" "i \<in> b_id ` set bs" by auto
qed

lemma lifecycle_inv_artifacts:
  assumes inv: "lifecycle_inv db"
    and "distinct (map f_id (artifacts db @ rows))"
    and "distinct (map (\<lambda>f. (f_job_id f, f_role f)) (artifacts db @ rows))"
    and "\<And>r. r \<in> set rows \<Longrightarrow> f_blob_id r \<in> b_id ` set (blobs db)"
    and "\<And>r. r \<in> set rows \<Longrightarrow> \<exists>j \<in> set (jobs db). j_id j = f_job_id r \<and> j_state j = Succeeded"
  shows "lifecycle_inv (db\<lparr>artifacts := artifacts db @ rows\<rparr>)"
proof -
  have "results_ok (db\<lparr>artifacts := artifacts db @ rows\<rparr>)"
    using lifecycle_invD(5) [OF inv] assms(5) unfolding results_ok_def by (simp add: ball_Un bex_Un)
  moreover have "refs_ok (db\<lparr>artifacts := artifacts db @ rows\<rparr>)"
    using lifecycle_invD(4) [OF inv] assms(4) unfolding refs_ok_def by (simp add: ball_Un)
  ultimately show ?thesis using inv assms(2,3)
    by (simp add: lifecycle_inv_def keys_ok_def claims_ok_def)
qed

lemma lifecycle_inv_new_job:
  assumes inv: "lifecycle_inv db" and ok: "job_row_ok r" and st: "j_state r = Preparing" "j_input_blob_id r = None"
    and new: "\<forall>k \<in> set (jobs db). \<not> job_conflict r k"
  shows "lifecycle_inv (db\<lparr>jobs := jobs db @ [r]\<rparr>)"
proof (rule lifecycle_invI)
  show "job_row_ok j" if "j \<in> set (jobs (db\<lparr>jobs := jobs db @ [r]\<rparr>))" for j
    using that ok lifecycle_invD(1) [OF inv] by auto
  show "keys_ok (db\<lparr>jobs := jobs db @ [r]\<rparr>)"
    using lifecycle_invD(2) [OF inv] new by (auto simp: keys_ok_def job_conflict_def)
  show "claims_ok (db\<lparr>jobs := jobs db @ [r]\<rparr>)"
    using lifecycle_invD(3) [OF inv] st unfolding claims_ok_def by (simp add: ball_Un bex_Un)
  show "refs_ok (db\<lparr>jobs := jobs db @ [r]\<rparr>)"
    using lifecycle_invD(4) [OF inv] st unfolding refs_ok_def by (simp add: ball_Un image_Un)
  have "j_cache_source_job_id r = None" using ok st by (simp add: job_row_ok_def)
  with lifecycle_invD(5) [OF inv] st show "results_ok (db\<lparr>jobs := jobs db @ [r]\<rparr>)"
    unfolding results_ok_def by (simp add: ball_Un bex_Un)
qed

section \<open>Jobs\<close>

lemma new_job_row_ok:
  "job_row_ok (new_job_row config command)" "j_state (new_job_row config command) = Preparing"
  "j_input_blob_id (new_job_row config command) = None"
  by (simp_all add: job_row_ok_def new_job_row_def)

lemma reserve_job_inv: "lifecycle_inv db \<Longrightarrow> lifecycle_inv (snd (reserve_job config command db))"
  by (auto simp: reserve_job_def new_job_row_ok
      intro!: lifecycle_inv_new_job split: option.splits if_splits)

lemma in_insert_pins:
  "p \<in> set (insert_pins i now keys t) \<Longrightarrow>
   p \<in> set t \<or> (pin_job_id p = i \<and> \<not> list_all is_inline_key keys)"
  by (induction i now keys t rule: insert_pins.induct) (auto split: if_splits)

lemma pin_project_assets_inv:
  assumes inv: "lifecycle_inv db"
  shows "lifecycle_inv (snd (pin_project_assets i keys now db))"
proof -
  have "lifecycle_inv (db\<lparr>pins := insert_pins i now keys (pins db)\<rparr>)"
    if "list_all is_inline_key keys \<or> (\<exists>j \<in> set (jobs db). j_id j = i)"
    by (rule lifecycle_inv_pins [OF inv])
      (use that lifecycle_invD(4) [OF inv] in \<open>auto simp: refs_ok_def dest!: in_insert_pins\<close>)
  with inv show ?thesis by (simp add: pin_project_assets_def)
qed

lemma release_pins_inv: "lifecycle_inv db \<Longrightarrow> lifecycle_inv (release_project_asset_pins i db)"
  by (simp add: release_project_asset_pins_def lifecycle_inv_delete_pins)

lemma store_prepared_input_inv:
  assumes inv: "lifecycle_inv db"
  shows "lifecycle_inv (snd (store_prepared_input fresh i input db))"
proof (cases "store_blob fresh (pi_digest input) (pi_media_type input) (pi_bytes input) (pi_now input) (blobs db)")
  case None
  with inv show ?thesis by (simp add: store_prepared_input_def)
next
  case (Some bb)
  obtain b bs where bb: "bb = (b, bs)" by fastforce
  note st = store_blob_inv [OF inv Some [unfolded bb]]
  have "lifecycle_inv (db\<lparr>blobs := bs, jobs := update_where (awaiting_input i) (attach_input input b) (jobs db),
      pins := delete_where P (pins db)\<rparr>)" for P
    using lifecycle_inv_delete_pins [OF lifecycle_inv_quiet [OF st(1),
        of "awaiting_input i" "attach_input input b", OF quiet_attach_input], where P = P] st(2) by simp
  with inv Some bb show ?thesis
    by (auto simp: store_prepared_input_def split: option.splits)
qed

lemma mark_preparation_failed_inv:
  assumes inv: "lifecycle_inv db"
  shows "lifecycle_inv (mark_preparation_failed i code message now db)"
proof -
  let ?f = "\<lambda>j. j\<lparr>j_state := Failed, j_phase := Complete, j_failure_class := Some ''internal'',
                         j_failure_code := Some code, j_failure_message := Some message,
                         j_updated_at := now, j_completed_at := Some now\<rparr>"
  have "quiet db j (?f j)" if "j_state j = Preparing" for j
    using that by (simp add: quiet_defs)
  then have "lifecycle_inv (db\<lparr>jobs := update_where (\<lambda>j. j_id j = i \<and> j_state j = Preparing) ?f (jobs db)\<rparr>)"
    by (intro lifecycle_inv_quiet [OF inv]) simp
  from lifecycle_inv_delete_pins [OF this] show ?thesis by (simp add: mark_preparation_failed_def)
qed

lemma cancel_job_inv:
  assumes inv: "lifecycle_inv db"
  shows "lifecycle_inv (snd (cancel_job user i now db))"
proof (cases "find (\<lambda>j. j_id j = i \<and> j_requester_user_id j = user) (jobs db)")
  case None
  with inv show ?thesis by (simp add: cancel_job_def)
next
  case (Some row)
  have uniq: "j = row" if "j \<in> set (jobs db)" "j_id j = i" for j
    using that key_unique [OF keys_okD(1) [OF lifecycle_invD(2) [OF inv]]] find_Some_set [OF Some] by blast
  have "lifecycle_inv (db\<lparr>jobs := update_where (\<lambda>j. j_id j = i) (cancel_now now) (jobs db)\<rparr>)"
    if "j_state row \<in> {Preparing, Queued}"
    using uniq that by (intro lifecycle_inv_quiet [OF inv] quiet_cancel_now) auto
  note now = lifecycle_inv_delete_pins [OF this]
  have "lifecycle_inv (db\<lparr>jobs := update_where (\<lambda>j. j_id j = i) (request_cancellation now) (jobs db)\<rparr>)"
    if "j_state row = Running"
    using uniq that by (intro lifecycle_inv_quiet [OF inv] quiet_request_cancellation) auto
  with now inv Some show ?thesis
    by (auto simp: cancel_job_def cancel_effect_def Let_def split: job_state.splits)
qed

section \<open>Starting an attempt\<close>

definition claim_start :: "job_row \<Rightarrow> job_row \<Rightarrow> attempt_row \<Rightarrow> bool" where
  "claim_start j j' a \<longleftrightarrow>
     j_state j = Queued \<and> j_id j' = j_id j \<and> j_requester_user_id j' = j_requester_user_id j \<and>
     j_idempotency_scope j' = j_idempotency_scope j \<and> j_idempotency_key j' = j_idempotency_key j \<and>
     j_input_blob_id j' = j_input_blob_id j \<and> j_cache_source_job_id j' = j_cache_source_job_id j \<and>
     job_row_ok j' \<and> j_attempt_count j' = j_attempt_count j + 1 \<and> a_state a = Running_attempt \<and> owns j' a"

lemma claim_start_claims:
  assumes ok: "claims_ok db" and s: "claim_start j j' a" and j: "j \<in> set (jobs db)" and row: "job_row_ok j"
    and as: "set (attempts db') = insert a (set (attempts db))" and js: "set (jobs db') = insert j' (set (jobs db) - {j})"
  shows "claims_ok db'"
  unfolding claims_ok_def as js
proof (intro conjI ballI impI)
  fix x assume x: "x \<in> insert a (set (attempts db))" and r: "a_state x = Running_attempt"
  show "\<exists>k \<in> insert j' (set (jobs db) - {j}). owns k x"
  proof (cases "x = a")
    case True
    with s show ?thesis by (simp add: claim_start_def)
  next
    case False
    with x r ok obtain k where k: "k \<in> set (jobs db)" "owns k x" unfolding claims_ok_def by blast
    from k(2) have "j_state k = Running" by (simp add: owns_def)
    moreover from s have "j_state j = Queued" by (simp add: claim_start_def)
    ultimately have "k \<noteq> j" by auto
    with k show ?thesis by blast
  qed
next
  fix k assume k: "k \<in> insert j' (set (jobs db) - {j})" and r: "j_state k = Running"
  show "\<exists>x \<in> insert a (set (attempts db)). a_state x = Running_attempt \<and> owns k x"
  proof (cases "k = j'")
    case True
    with s show ?thesis by (simp add: claim_start_def)
  next
    case False
    with k r ok show ?thesis unfolding claims_ok_def by blast
  qed
next
  fix x assume x: "x \<in> insert a (set (attempts db))"
  have "0 \<le> j_attempt_count j" using row by (simp add: job_row_ok_def)
  moreover have "j_attempt_count j' = j_attempt_count j + 1" "owns j' a" using s by (simp_all add: claim_start_def)
  ultimately have num: "j_id j' = a_job_id a" "1 \<le> a_attempt_number a" "a_attempt_number a \<le> j_attempt_count j'"
    unfolding owns_def by linarith+
  show "\<exists>k \<in> insert j' (set (jobs db) - {j}).
          j_id k = a_job_id x \<and> 1 \<le> a_attempt_number x \<and> a_attempt_number x \<le> j_attempt_count k"
  proof (cases "x = a")
    case True
    then show ?thesis by (intro bexI [of _ j']) (simp_all add: num)
  next
    case False
    with x have "x \<in> set (attempts db)" by simp
    from claims_okD(3) [OF ok this] obtain k where k: "k \<in> set (jobs db)"
      "j_id k = a_job_id x \<and> 1 \<le> a_attempt_number x \<and> a_attempt_number x \<le> j_attempt_count k" by blast
    show ?thesis
    proof (cases "k = j")
      case True
      have e: "j_id j' = j_id j" "j_attempt_count j' = j_attempt_count j + 1" using s by (simp_all add: claim_start_def)
      have "j_id j' = a_job_id x \<and> 1 \<le> a_attempt_number x \<and> a_attempt_number x \<le> j_attempt_count j'"
        using k(2) unfolding True e by linarith
      then show ?thesis by (rule bexI) simp
    next
      case False
      show ?thesis by (rule bexI [of _ k]) (use k False in simp_all)
    qed
  qed
qed

lemma lifecycle_inv_start:
  assumes inv: "lifecycle_inv db" and j: "j \<in> set (jobs db)" and s: "claim_start j (f j) a"
    and new: "\<forall>x \<in> set (attempts db). \<not> attempt_conflict a x"
  shows "lifecycle_inv (db\<lparr>attempts := attempts db @ [a], jobs := update_where (\<lambda>k. j_id k = j_id j) f (jobs db)\<rparr>)"
    (is "lifecycle_inv ?db")
proof -
  have row: "job_row_ok j" by (rule lifecycle_invD(1) [OF inv j])
  have uniq: "k = j" if "k \<in> set (jobs db)" "j_id k = j_id j" for k
    using that key_unique [OF keys_okD(1) [OF lifecycle_invD(2) [OF inv]]] j by blast
  have js: "set (jobs ?db) = insert (f j) (set (jobs db) - {j})"
    using set_update_id [OF keys_okD(1) [OF lifecycle_invD(2) [OF inv]] j] by simp
  have as: "set (attempts ?db) = insert a (set (attempts db))" by simp
  show ?thesis
  proof (rule lifecycle_invI)
    show "job_row_ok k" if "k \<in> set (jobs ?db)" for k
      using that lifecycle_invD(1) [OF inv] s unfolding js by (auto simp: claim_start_def)
    have frame: "map h (update_where (\<lambda>k. j_id k = j_id j) f (jobs db)) = map h (jobs db)" if "h (f j) = h j"
      for h :: "job_row \<Rightarrow> 'k"
      by (rule image_update_where) (use that uniq in metis)
    show "keys_ok ?db"
      using lifecycle_invD(2) [OF inv] new s
      by (auto simp: keys_ok_def claim_start_def attempt_conflict_def frame)
    show "claims_ok ?db" by (rule claim_start_claims [OF lifecycle_invD(3) [OF inv] s j row as js])
    have ids: "j_id ` set (jobs ?db) = j_id ` set (jobs db)"
    proof -
      have "j_id (f j) = j_id j" using s by (simp add: claim_start_def)
      with j show ?thesis unfolding js by (metis (no_types) image_insert insert_Diff insert_absorb)
    qed
    have "j_input_blob_id (f j) = j_input_blob_id j" using s by (simp add: claim_start_def)
    with lifecycle_invD(4) [OF inv] j show "refs_ok ?db"
      unfolding refs_ok_def ids as unfolding js by (simp add: ball_Un) blast
    have st: "j_cache_source_job_id (f j) = None" "j_state (f j) = Running" "j_state j = Queued"
      using row s by (auto simp: claim_start_def job_row_ok_def owns_def)
    show "results_ok ?db"
      unfolding results_ok_def as js
    proof (intro conjI ballI allI impI)
      note ok = lifecycle_invD(5) [OF inv, unfolded results_ok_def]
      fix r assume "r \<in> set (artifacts ?db)"
      with ok obtain k where k: "k \<in> set (jobs db)" "j_id k = f_job_id r" "j_state k = Succeeded" by auto
      with st(3) have "k \<noteq> j" by auto
      with k show "\<exists>k \<in> insert (f j) (set (jobs db) - {j}). j_id k = f_job_id r \<and> j_state k = Succeeded" by blast
    next
      fix k i assume "k \<in> insert (f j) (set (jobs db) - {j})" "j_cache_source_job_id k = Some i"
      with lifecycle_invD(5) [OF inv, unfolded results_ok_def] st(1) show "\<exists>r \<in> set (artifacts ?db). f_job_id r = i" by auto
    next
      fix k assume "k \<in> insert (f j) (set (jobs db) - {j})" "j_state k = Finalizing \<and> j_cache_source_job_id k = None"
      with lifecycle_invD(5) [OF inv, unfolded results_ok_def] st(2)
      show "\<exists>x \<in> insert a (set (attempts db)). a_job_id x = j_id k \<and> a_attempt_number x = j_attempt_count k \<and>
          a_state x = Delivered_attempt" by auto
    qed
  qed
qed

section \<open>Claims\<close>

lemma issue_transfer_Some:
  assumes "issue_transfer sha fresh rnd now j a c d role media fn ex mx sh b n e t = Some t'"
  obtains row where "t' = t @ [row]" and "\<forall>u \<in> set t. t_id u \<noteq> t_id row" and "t_job_id row = j" and "t_attempt_id row = a"
    and "t_claim_id row = c" and "t_blob_id row = b" and "t_state row = Issued" and "t_remaining_uses row = n"
    and "t_direction row = d" and "t_role row = role" and "t_expires_at row = e" and "t_id row = fresh"
  using assms unfolding issue_transfer_def Let_def
  by (auto simp: transfer_conflict_def split: if_splits)

lemma new_transfer_inv:
  assumes inv: "lifecycle_inv db"
    and iss: "issue_transfer sha fresh rnd now (a_job_id a) (a_id a) (a_claim_id a) d role media fn ex mx sh b n e (transfers db) = Some ts"
    and a: "a \<in> set (attempts db)" and b: "\<And>i. b = Some i \<Longrightarrow> i \<in> b_id ` set (blobs db)"
  shows "lifecycle_inv (db\<lparr>transfers := ts\<rparr>)"
  using iss
proof (rule issue_transfer_Some)
  fix row assume row: "ts = transfers db @ [row]" "\<forall>u \<in> set (transfers db). t_id u \<noteq> t_id row"
    "t_job_id row = a_job_id a" "t_attempt_id row = a_id a" "t_claim_id row = a_claim_id a" "t_blob_id row = b"
  note refs = lifecycle_invD(4) [OF inv, unfolded refs_ok_def]
  show ?thesis
  proof (rule lifecycle_inv_transfers [OF inv])
    show "distinct (map t_id ts)" using keys_okD(4) [OF lifecycle_invD(2) [OF inv]] row by auto
    show "i \<in> b_id ` set (blobs db)" if "t \<in> set ts" "t_blob_id t = Some i" for t i
      using that refs b row by auto
    show "\<exists>x \<in> set (attempts db). a_id x = t_attempt_id t \<and> a_job_id x = t_job_id t \<and> a_claim_id x = t_claim_id t"
      if "t \<in> set ts" for t
      using that refs a row by auto
  qed
qed

lemma start_claim_start:
  assumes "job_row_ok j" and "j_state j = Queued" and "\<not> j_cancellation_requested j"
  shows "claim_start j
    (start_running (a_attempt_number (new_attempt env config s j contr now)) (e_claim_id env)
       (now + c_claim_lease config) contr now j) (new_attempt env config s j contr now)"
proof -
  have "i32_saturate (j_attempt_count j + 1) = j_attempt_count j + 1"
    using assms by (intro i32_saturate_id) (auto simp: job_row_ok_def i32_min_def i32_max_def)
  with assms show ?thesis
    by (simp add: claim_start_def start_running_def new_attempt_def owns_def job_row_ok_def)
qed

lemma start_attempt_inv:
  assumes inv: "lifecycle_inv db" and j: "j \<in> set (jobs db)" and q: "j_state j = Queued" "\<not> j_cancellation_requested j"
    and blob: "blob \<in> set (blobs db)"
    and st: "start_attempt env config s opn j blob schema contr now issued_at db = Some (c, db')"
  shows "lifecycle_inv db'"
proof -
  let ?a = "new_attempt env config s j contr now"
  let ?f = "start_running (a_attempt_number ?a) (e_claim_id env) (now + c_claim_lease config) contr now"
  let ?db = "db\<lparr>attempts := attempts db @ [?a], jobs := update_where (\<lambda>k. j_id k = j_id j) ?f (jobs db)\<rparr>"
  from st obtain ts where new: "\<forall>x \<in> set (attempts db). \<not> attempt_conflict ?a x"
    and iss: "issue_transfer (e_sha256 env) (e_transfer_id env) (e_token env) issued_at (j_id j)
                     (e_attempt_id env) (e_claim_id env) Download ''input''
                     (oc_input_media_type (contract opn)) None (Some (b_size_bytes blob))
                     (b_size_bytes blob) (Some (b_sha256 blob)) (Some (b_id blob)) input_transfer_reads
                     (now + c_transfer_ttl config) (transfers db) = Some ts"
    and db': "db' = ?db\<lparr>transfers := ts\<rparr>"
    by (auto simp: start_attempt_def Let_def split: if_splits option.splits)
  have "lifecycle_inv ?db"
    by (rule lifecycle_inv_start [where f = ?f, OF inv j _ new])
      (rule start_claim_start [OF lifecycle_invD(1) [OF inv j] q])
  then show ?thesis
    unfolding db' by (rule new_transfer_inv [where a = ?a])
      (use iss blob in \<open>auto simp: new_attempt_def\<close>)
qed

lemma select_candidate_Some:
  assumes "select_candidate locked opn now db = Some j"
  shows "j \<in> set (jobs db)" and "claimable locked opn now db j"
    and "\<And>k. k \<in> set (jobs db) \<Longrightarrow> claimable locked opn now db k \<Longrightarrow> j_created_at j \<le> j_created_at k"
  using first_by_Some [OF assms [unfolded select_candidate_def]] by auto

lemma select_cache_source_Some:
  assumes "select_cache_source j dg contr opn now db = Some k"
  shows "k \<in> set (jobs db)" and "cache_matches j dg contr opn now db k"
  using first_by_Some(1) [OF assms [unfolded select_cache_source_def]] by auto

text \<open>What one turn of the offer loop can return.\<close>

lemma try_offer_return:
  assumes "try_offer worker s config env now issued offer db = Offer_return c db'"
  obtains (hit) j dg source where "c = None"
      "select_candidate (e_locked env) (of_operation offer) now db = Some j"
      "select_cache_source j dg (of_processor_contract offer) (of_operation offer) now db = Some source"
      "db' = db\<lparr>jobs := update_where (\<lambda>k. j_id k = j_id j \<and> j_state k = Queued)
               (mark_cache_hit (of_processor_contract offer) (j_id source) now) (jobs db)\<rparr>"
  | (start) j blob schema claim p where "c = Some claim" "blob \<in> set (blobs db)"
      "select_candidate (e_locked env) (of_operation offer) now db = Some j"
      "p \<in> set (processors db)" "p_session_id p = s" "p_operation p = of_operation offer"
      "p_processor_contract p = of_processor_contract offer" "p_healthy p"
      "active_on_processor s (of_operation offer) (of_processor_contract offer) now db < p_slots p"
      "start_attempt env config s (of_operation offer) j blob schema (of_processor_contract offer) now issued db = Some (claim, db')"
proof -
  from assms obtain p where p: "find (\<lambda>p. p_session_id p = s \<and> p_operation p = of_operation offer \<and>
                          p_processor_contract p = of_processor_contract offer) (processors db) = Some p"
    by (auto simp: try_offer_def split: if_splits option.splits)
  note pf = find_Some_set [OF p]
  from assms p pf obtain j dg where h: "p_healthy p"
    "active_on_processor s (of_operation offer) (of_processor_contract offer) now db < p_slots p"
    and j: "select_candidate (e_locked env) (of_operation offer) now db = Some j" and dg: "j_input_digest j = Some dg"
    by (auto simp: try_offer_def Let_def split: if_splits option.splits)
  show thesis
  proof (cases "select_cache_source j dg (of_processor_contract offer) (of_operation offer) now db")
    case (Some source)
    with assms p pf h j dg show thesis
      by (intro hit [of j dg source]) (auto simp: try_offer_def Let_def split: if_splits)
  next
    case None
    with assms p pf h j dg obtain schema blob claim where
      b: "find (\<lambda>b. j_input_blob_id j = Some (b_id b)) (blobs db) = Some blob" and c: "c = Some claim"
      and st: "start_attempt env config s (of_operation offer) j blob schema (of_processor_contract offer) now issued db = Some (claim, db')"
      by (auto simp: try_offer_def Let_def split: if_splits option.splits prod.splits)
    from find_Some_set [OF b] have "blob \<in> set (blobs db)" by simp
    from start [OF c this j _ _ _ _ h st] pf show thesis by simp
  qed
qed

lemma try_offer_inv:
  assumes inv: "lifecycle_inv db" and off: "try_offer worker s config env now issued offer db = Offer_return c db'"
  shows "lifecycle_inv db'"
  using off
proof (cases rule: try_offer_return)
  case (hit j dg source)
  have j: "j \<in> set (jobs db)" "j_state j = Queued" "\<not> j_cancellation_requested j"
    using select_candidate_Some [OF hit(2)] by (auto simp: claimable_def)
  have "\<exists>f \<in> set (artifacts db). f_job_id f = j_id source"
    using select_cache_source_Some(2) [OF hit(3)] by (auto simp: cache_matches_def)
  moreover have "k = j" if "k \<in> set (jobs db)" "j_id k = j_id j" for k
    using that key_unique [OF keys_okD(1) [OF lifecycle_invD(2) [OF inv]]] j(1) by blast
  ultimately show ?thesis
    unfolding hit(4) using j by (intro lifecycle_inv_quiet [OF inv] quiet_cache_hit) auto
next
  case (start j blob schema claim p)
  with select_candidate_Some [OF start(3)] show ?thesis
    by (intro start_attempt_inv [OF inv _ _ _ _ start(10)]) (auto simp: claimable_def)
qed

lemma try_offers_inv:
  "lifecycle_inv db \<Longrightarrow> lifecycle_inv (snd (try_offers worker s config env now issued offers db))"
  by (induction offers) (auto dest: try_offer_inv split: offer_result.splits)

lemma try_claim_inv:
  "lifecycle_inv db \<Longrightarrow> lifecycle_inv (snd (try_claim worker s offers config env now issued db))"
  by (auto simp: try_claim_def intro: try_offers_inv split: option.splits)

text \<open>The attempt that a running job names is running and owned by it.\<close>

lemma current_owns:
  assumes inv: "lifecycle_inv db" and j: "j \<in> set (jobs db)" and a: "a \<in> set (attempts db)"
    and r: "j_state j = Running" "j_current_claim_id j = Some (a_claim_id a)"
  shows "a_state a = Running_attempt" and "owns j a"
proof -
  from claims_okD(2) [OF lifecycle_invD(3) [OF inv] j r(1)] obtain x where
    x: "x \<in> set (attempts db)" "a_state x = Running_attempt" "owns j x" by blast
  then have "a_claim_id x = a_claim_id a" using r(2) by (simp add: owns_def)
  then have "x = a" using key_unique [OF keys_okD(3) [OF lifecycle_invD(2) [OF inv]]] x(1) a by blast
  with x show "a_state a = Running_attempt" "owns j a" by simp_all
qed

lemma claim_join_Some:
  assumes "claim_join worker s c db = Some (a, j)"
  shows "a \<in> set (attempts db)" and "j \<in> set (jobs db)" and "a_claim_id a = c" and "a_worker_session_id a = s"
    and "j_id j = a_job_id a" and "\<exists>x \<in> set (sessions db). s_id x = s \<and> s_worker_identity x = aw_identity worker"
proof -
  from assms obtain a' where a': "find (\<lambda>a. a_claim_id a = c \<and> a_worker_session_id a = s \<and>
      exists_where (\<lambda>x. s_id x = s \<and> s_worker_identity x = aw_identity worker) (sessions db)) (attempts db) = Some a'"
    and "a' = a" and j: "find (\<lambda>j. j_id j = a_job_id a) (jobs db) = Some j"
    by (auto simp: claim_join_def split: option.splits)
  with find_Some_set [OF a'] find_Some_set [OF j] show "a \<in> set (attempts db)" "j \<in> set (jobs db)" "a_claim_id a = c"
    "a_worker_session_id a = s" "j_id j = a_job_id a"
    "\<exists>x \<in> set (sessions db). s_id x = s \<and> s_worker_identity x = aw_identity worker" by auto
qed

lemma heartbeat_claim_inv:
  assumes inv: "lifecycle_inv db"
  shows "lifecycle_inv (snd (heartbeat_claim worker s c phase config now db))"
proof (cases "claim_join worker s c db")
  case None
  with inv show ?thesis by (simp add: heartbeat_claim_def)
next
  case (Some aj)
  obtain a j where aj: "aj = (a, j)" by fastforce
  note m = claim_join_Some [OF Some [unfolded aj]]
  have "lifecycle_inv (db\<lparr>attempts := update_where (\<lambda>x. a_id x = a_id a)
      (\<lambda>x. x\<lparr>a_phase := phase, a_lease_expires_at := lease, a_updated_at := now\<rparr>) (attempts db),
    jobs := update_where (\<lambda>x. j_id x = j_id j)
      (\<lambda>x. x\<lparr>j_phase := phase, j_claim_expires_at := Some lease, j_updated_at := now\<rparr>) (jobs db)\<rparr>)"
    if "j_state j = Running" "j_current_claim_id j = Some c" for lease
    using current_owns [OF inv m(2,1)] that m(3) by (intro extend.keeps_inv_id [OF inv m(2,1)]) simp_all
  with inv Some aj show ?thesis by (auto simp: heartbeat_claim_def Let_def)
qed

lemma complete_claim_inv:
  assumes inv: "lifecycle_inv db"
  shows "lifecycle_inv (snd (complete_claim hex worker s c arts now db))"
proof (cases "claim_join worker s c db")
  case None
  with inv show ?thesis by (simp add: complete_claim_def)
next
  case (Some aj)
  obtain a j where aj: "aj = (a, j)" by fastforce
  note m = claim_join_Some [OF Some [unfolded aj]]
  have "lifecycle_inv (db\<lparr>attempts := update_where (\<lambda>x. a_id x = a_id a) (delivered now) (attempts db),
                          jobs := update_where (\<lambda>x. j_id x = j_id j) (to_finalizing now) (jobs db)\<rparr>)"
    if "j_state j = Running" "j_current_claim_id j = Some c" "\<not> j_cancellation_requested j"
    using current_owns [OF inv m(2,1)] that m(3) by (intro deliver.keeps_inv_id [OF inv m(2,1)]) simp_all
  with inv Some aj show ?thesis by (auto simp: complete_claim_def Let_def split: option.splits)
qed

lemma mutate_failed_claim_inv:
  assumes inv: "lifecycle_inv db"
  shows "lifecycle_inv (snd (mutate_failed_claim worker s c failure now db))"
proof (cases "claim_join worker s c db")
  case None
  with inv show ?thesis by (simp add: mutate_failed_claim_def)
next
  case (Some aj)
  obtain a j where aj: "aj = (a, j)" by fastforce
  note m = claim_join_Some [OF Some [unfolded aj]]
  have "lifecycle_inv (db\<lparr>attempts := update_where (\<lambda>x. a_id x = a_id a) (close_attempt failure now) (attempts db),
      jobs := update_where (\<lambda>x. j_id x = j_id j) (after_failure failure (next_state_after_failure failure j) n now) (jobs db)\<rparr>)"
    if "j_state j = Running" "j_current_claim_id j = Some c" for n
    using current_owns [OF inv m(2,1)] that m(3) by (intro close.keeps_inv_id [OF inv m(2,1)]) simp_all
  with inv Some aj show ?thesis by (auto simp: mutate_failed_claim_def Let_def)
qed

section \<open>Transfers\<close>

lemma create_artifact_transfer_inv:
  assumes inv: "lifecycle_inv db"
  shows "lifecycle_inv (snd (create_artifact_transfer sha worker request config fresh rnd now issued db))"
proof (cases "claim_join worker (tr_session_id request) (tr_claim_id request) db")
  case None
  with inv show ?thesis by (simp add: create_artifact_transfer_def)
next
  case (Some aj)
  obtain a j where aj: "aj = (a, j)" by fastforce
  note m = claim_join_Some [OF Some [unfolded aj]]
  have e: "lifecycle_inv (db\<lparr>transfers := expire_ticket (a_id a) (tr_role request) now (transfers db)\<rparr>)"
    unfolding expire_ticket_def by (rule lifecycle_inv_update_transfers [OF inv]) (simp add: transfer_kept_def)
  have "lifecycle_inv (db\<lparr>transfers := ts\<rparr>)"
    if "issue_transfer sha fresh rnd issued (j_id j) (a_id a) (tr_claim_id request) Upload (tr_role request)
      (tr_media_type request) (Some (tr_filename request)) (Some (tr_size_bytes request)) (tr_size_bytes request)
      (Some (tr_expected_sha256 request)) None 1 (now + c_transfer_ttl config)
      (expire_ticket (a_id a) (tr_role request) now (transfers db)) = Some ts" for ts
    using new_transfer_inv [OF e, where a = a and b = None] m that by auto
  with inv Some aj show ?thesis by (auto simp: create_artifact_transfer_def Let_def split: option.splits)
qed

lemma download_transfer_inv:
  assumes inv: "lifecycle_inv db"
  shows "lifecycle_inv (snd (download_transfer sha i token now db))"
proof -
  have "lifecycle_inv (db\<lparr>transfers := update_where (\<lambda>x. t_id x = i)
     (\<lambda>x. x\<lparr>t_remaining_uses := n, t_state := (if b then Consumed else t_state x), t_updated_at := now\<rparr>) (transfers db)\<rparr>)" for n b
    by (rule lifecycle_inv_update_transfers [OF inv]) (simp add: transfer_kept_def)
  with inv show ?thesis by (auto simp: download_transfer_def Let_def split: option.splits)
qed

lemma upload_transfer_inv:
  assumes inv: "lifecycle_inv db"
  shows "lifecycle_inv (snd (upload_transfer sha i token content fresh now db))"
proof -
  have "lifecycle_inv (db\<lparr>blobs := bs, transfers := update_where (\<lambda>x. t_id x = i)
     (\<lambda>x. x\<lparr>t_blob_id := Some b, t_state := Uploaded, t_remaining_uses := 0, t_updated_at := now\<rparr>) (transfers db)\<rparr>)"
    if "store_blob fresh (sha content) media content now (blobs db) = Some (b, bs)" for b bs media
    using lifecycle_inv_update_transfers [OF store_blob_inv(1) [OF inv that], where P = "\<lambda>x. t_id x = i" and
        f = "\<lambda>x. x\<lparr>t_blob_id := Some b, t_state := Uploaded, t_remaining_uses := 0, t_updated_at := now\<rparr>"]
      store_blob_inv(2) [OF inv that] by (simp add: transfer_kept_def)
  with inv show ?thesis by (auto simp: upload_transfer_def Let_def split: option.splits)
qed

end
