(* ===== verification/Maintenance_Steps.thy ===== *)
theory Maintenance_Steps
  imports Lifecycle_Steps
begin

text \<open>Lifecycle maintenance and finalization keep the invariant.\<close>

section \<open>Recovery of expired claims\<close>

lemma recover_claim_inv:
  assumes inv: "lifecycle_inv db" and row: "row \<in> set (jobs db)" and r: "j_state row = Running"
  shows "lifecycle_inv (recover_claim now row db)"
proof -
  from claims_okD(2) [OF lifecycle_invD(3) [OF inv] row r] obtain a where
    a: "a \<in> set (attempts db)" "a_state a = Running_attempt" "owns row a" by blast
  then have c: "j_current_claim_id row = Some (a_claim_id a)" by (simp add: owns_def)
  let ?C = "\<lambda>x. a_claim_id x = a_claim_id a \<and> a_state x = Running_attempt"
  have "?C x \<longleftrightarrow> x = a" if "x \<in> set (attempts db)" for x
    using that a key_unique [OF keys_okD(3) [OF lifecycle_invD(2) [OF inv]]] by blast
  from lose.keeps_inv [OF inv row a refl this]
  have "lifecycle_inv (db\<lparr>attempts := update_where ?C (lose_attempt now) (attempts db),
    jobs := update_where (\<lambda>x. j_id x = j_id row) (recover_job now row) (jobs db)\<rparr>)" (is "lifecycle_inv ?db") .
  from lifecycle_inv_update_transfers [OF this, where
      P = "\<lambda>t. t_claim_id t = a_claim_id a \<and> t_state t \<in> {Issued, Uploaded}" and
      f = "\<lambda>t. t\<lparr>t_state := Expired_transfer, t_updated_at := now\<rparr>"]
  have "lifecycle_inv (?db\<lparr>transfers := update_where
      (\<lambda>t. t_claim_id t = a_claim_id a \<and> t_state t \<in> {Issued, Uploaded})
      (\<lambda>t. t\<lparr>t_state := Expired_transfer, t_updated_at := now\<rparr>) (transfers ?db)\<rparr>)" (is "lifecycle_inv ?db'")
    by (simp add: transfer_kept_def)
  moreover have "recover_claim now row db = ?db'"
    by (rule processing_db.equality) (simp_all add: recover_claim_def c)
  ultimately show ?thesis by simp
qed

lemma recover_claim_jobs:
  "jobs (recover_claim now row db) = update_where (\<lambda>x. j_id x = j_id row) (recover_job now row) (jobs db)"
  by (simp add: recover_claim_def Let_def split: option.splits)

lemma recover_claim_keeps:
  "k \<in> set (jobs db) \<Longrightarrow> j_id k \<noteq> j_id row \<Longrightarrow> k \<in> set (jobs (recover_claim now row db))"
  by (auto simp: recover_claim_jobs in_update_where intro!: bexI [of _ k])

lemma recover_fold_inv:
  assumes "lifecycle_inv db" and "distinct (map j_id rows)"
    and "\<forall>r \<in> set rows. r \<in> set (jobs db) \<and> j_state r = Running"
  shows "lifecycle_inv (fold (recover_claim now) rows db)"
  using assms
proof (induction rows arbitrary: db)
  case (Cons r rows)
  have "lifecycle_inv (recover_claim now r db)" using Cons.prems by (intro recover_claim_inv) auto
  moreover have "k \<in> set (jobs (recover_claim now r db)) \<and> j_state k = Running" if "k \<in> set rows" for k
  proof -
    from Cons.prems(2) that have "j_id k \<noteq> j_id r" by (metis distinct.simps(2) imageI list.set_map list.simps(9))
    with that Cons.prems(3) show ?thesis by (simp add: recover_claim_keeps)
  qed
  ultimately show ?case using Cons.IH Cons.prems(2) by simp
qed simp

lemma distinct_map_take: "distinct (map k t) \<Longrightarrow> distinct (map k (take n t))"
  by (simp add: take_map [symmetric])

lemma distinct_map_sort_key: "distinct (map k t) \<Longrightarrow> distinct (map k (sort_key h t))"
  by (simp add: distinct_map)

lemma expired_claims_rows:
  assumes "distinct (map j_id (jobs db))"
  shows "distinct (map j_id (expired_claims locked now db))"
    and "\<And>r. r \<in> set (expired_claims locked now db) \<Longrightarrow> r \<in> set (jobs db) \<and> claim_expired now r \<and> \<not> locked (j_id r)"
proof -
  have "distinct (map j_id (filter (\<lambda>j. claim_expired now j \<and> \<not> locked (j_id j)) (jobs db)))"
    using assms by (simp add: distinct_map_filter)
  then show "distinct (map j_id (expired_claims locked now db))"
    unfolding expired_claims_def by (intro distinct_map_take distinct_map_sort_key)
  show "r \<in> set (jobs db) \<and> claim_expired now r \<and> \<not> locked (j_id r)" if "r \<in> set (expired_claims locked now db)" for r
    using in_set_takeD [OF that [unfolded expired_claims_def]] by simp
qed

lemma recover_claims_inv:
  assumes inv: "lifecycle_inv db"
  shows "lifecycle_inv (recover_claims locked now db)"
  unfolding recover_claims_def
  using expired_claims_rows [OF keys_okD(1) [OF lifecycle_invD(2) [OF inv]]]
  by (intro recover_fold_inv [OF inv]) (auto simp: claim_expired_def)

section \<open>The other statements of maintenance\<close>

lemma expire_waiting_jobs_inv: "lifecycle_inv db \<Longrightarrow> lifecycle_inv (expire_waiting_jobs now db)"
  unfolding expire_waiting_jobs_def by (rule waiting_jobs.inv_quiet)

lemma release_closed_pins_inv: "lifecycle_inv db \<Longrightarrow> lifecycle_inv (release_closed_pins db)"
  unfolding release_closed_pins_def by (rule lifecycle_inv_delete_pins)

lemma expire_transfers_inv: "lifecycle_inv db \<Longrightarrow> lifecycle_inv (expire_transfers now db)"
  unfolding expire_transfers_def by (rule lifecycle_inv_update_transfers) (simp_all add: transfer_kept_def)

lemma delete_expired_requests_inv: "lifecycle_inv db \<Longrightarrow> lifecycle_inv (delete_expired_requests now db)"
  by (simp add: delete_expired_requests_def)

text \<open>No row that stays names a deleted job as its cache source.\<close>

definition unref :: "uuid set \<Rightarrow> uuid option \<Rightarrow> uuid option" where
  "unref gone r = (case r of None \<Rightarrow> None | Some i \<Rightarrow> if i \<in> gone then None else Some i)"

definition retained :: "uuid set \<Rightarrow> job_row \<Rightarrow> job_row" where
  "retained gone j = j\<lparr>j_retry_of_job_id := unref gone (j_retry_of_job_id j)\<rparr>"

lemma retained_simps [simp]:
  "j_id (retained g j) = j_id j" "j_state (retained g j) = j_state j" "owns (retained g j) a = owns j a"
  "j_attempt_count (retained g j) = j_attempt_count j" "j_input_blob_id (retained g j) = j_input_blob_id j"
  "j_cache_source_job_id (retained g j) = j_cache_source_job_id j" "job_row_ok (retained g j) = job_row_ok j"
  "j_requester_user_id (retained g j) = j_requester_user_id j" "j_idempotency_scope (retained g j) = j_idempotency_scope j"
  "j_idempotency_key (retained g j) = j_idempotency_key j" "j_completed_at (retained g j) = j_completed_at j"
  by (simp_all add: retained_def owns_def job_row_ok_def)

definition gone_ids :: "instant \<Rightarrow> processing_db \<Rightarrow> uuid set" where
  "gone_ids now db = j_id ` {j \<in> set (jobs db). deletable now db j}"

lemma delete_retained_jobs_tables:
  "jobs (delete_retained_jobs now db) =
     map (retained (gone_ids now db)) (delete_where (deletable now db) (jobs db))"
  "attempts (delete_retained_jobs now db) = delete_where (\<lambda>a. a_job_id a \<in> gone_ids now db) (attempts db)"
  "transfers (delete_retained_jobs now db) =
     delete_where (\<lambda>t. t_job_id t \<in> gone_ids now db \<or>
        t_attempt_id t \<in> a_id ` {a \<in> set (attempts db). a_job_id a \<in> gone_ids now db}) (transfers db)"
  "artifacts (delete_retained_jobs now db) = delete_where (\<lambda>f. f_job_id f \<in> gone_ids now db) (artifacts db)"
  "pins (delete_retained_jobs now db) = delete_where (\<lambda>p. pin_job_id p \<in> gone_ids now db) (pins db)"
  "blobs (delete_retained_jobs now db) = blobs db" "requests (delete_retained_jobs now db) = requests db"
  "sessions (delete_retained_jobs now db) = sessions db"
proof -
  have g: "set (map j_id (filter (deletable now db) (jobs db))) = gone_ids now db" by (simp add: gone_ids_def)
  have c: "(case j_cache_source_job_id j of None \<Rightarrow> None | Some i \<Rightarrow> if i \<in> gone_ids now db then None else Some i) =
      j_cache_source_job_id j" if "j \<in> set (delete_where (deletable now db) (jobs db))" for j
    using that by (auto simp: gone_ids_def deletable_def split: option.splits)
  show "jobs (delete_retained_jobs now db) =
     map (retained (gone_ids now db)) (delete_where (deletable now db) (jobs db))"
    unfolding delete_retained_jobs_def delete_jobs_def Let_def g
    by (simp, intro ballI job_row.equality) (simp_all add: retained_def unref_def c del: in_delete_where)
qed (simp_all add: delete_retained_jobs_def delete_jobs_def Let_def gone_ids_def)

lemma in_gone_ids:
  assumes "distinct (map j_id (jobs db))" and "j \<in> set (jobs db)"
  shows "j_id j \<in> gone_ids now db \<longleftrightarrow> deletable now db j"
  using assms key_unique [OF assms(1)] by (auto simp: gone_ids_def)

lemma deletable_terminal: "job_row_ok j \<Longrightarrow> deletable now db j \<Longrightarrow> is_terminal (j_state j)"
  by (auto simp: deletable_def job_row_ok_def)

lemma in_retained_jobs:
  "j \<in> set (jobs (delete_retained_jobs now db)) \<longleftrightarrow>
   (\<exists>k \<in> set (jobs db). \<not> deletable now db k \<and> j = retained (gone_ids now db) k)"
  by (auto simp: delete_retained_jobs_tables)

lemma delete_retained_claims:
  assumes inv: "lifecycle_inv db"
  shows "claims_ok (delete_retained_jobs now db)"
  unfolding claims_ok_def
proof (intro conjI ballI impI)
  let ?g = "gone_ids now db"
  note ids = in_gone_ids [OF keys_okD(1) [OF lifecycle_invD(2) [OF inv]]]
  note ok = claims_okD [OF lifecycle_invD(3) [OF inv]]
  fix a assume a: "a \<in> set (attempts (delete_retained_jobs now db))"
  then have a': "a \<in> set (attempts db)" "a_job_id a \<notin> ?g" by (auto simp: delete_retained_jobs_tables)
  show "\<exists>j \<in> set (jobs (delete_retained_jobs now db)). owns j a" if r: "a_state a = Running_attempt"
  proof -
    from ok(1) [OF a'(1) r] obtain j where j: "j \<in> set (jobs db)" "owns j a" by blast
    then have "\<not> deletable now db j" using ids a'(2) by (metis owns_def)
    with j show ?thesis by (intro bexI [of _ "retained ?g j"]) (auto simp: in_retained_jobs)
  qed
  from ok(3) [OF a'(1)] obtain j where j: "j \<in> set (jobs db)"
    "j_id j = a_job_id a \<and> 1 \<le> a_attempt_number a \<and> a_attempt_number a \<le> j_attempt_count j" by blast
  then have "\<not> deletable now db j" using ids a'(2) by metis
  with j show "\<exists>j \<in> set (jobs (delete_retained_jobs now db)).
      j_id j = a_job_id a \<and> 1 \<le> a_attempt_number a \<and> a_attempt_number a \<le> j_attempt_count j"
    by (intro bexI [of _ "retained ?g j"]) (auto simp: in_retained_jobs)
next
  let ?g = "gone_ids now db"
  fix j assume j: "j \<in> set (jobs (delete_retained_jobs now db))" and r: "j_state j = Running"
  then obtain k where k: "k \<in> set (jobs db)" "\<not> deletable now db k" "j = retained ?g k" by (auto simp: in_retained_jobs)
  then have "j_state k = Running" using r by simp
  from claims_okD(2) [OF lifecycle_invD(3) [OF inv] k(1) this] obtain a where
    a: "a \<in> set (attempts db)" "a_state a = Running_attempt" "owns k a" by blast
  have "j_id k \<notin> ?g" using in_gone_ids [OF keys_okD(1) [OF lifecycle_invD(2) [OF inv]] k(1)] k(2) by simp
  with a(3) have "a_job_id a \<notin> ?g" by (simp add: owns_def)
  with a k show "\<exists>a \<in> set (attempts (delete_retained_jobs now db)). a_state a = Running_attempt \<and> owns j a"
    by (auto simp: delete_retained_jobs_tables)
qed

lemma delete_retained_refs:
  assumes inv: "lifecycle_inv db"
  shows "refs_ok (delete_retained_jobs now db)"
  unfolding refs_ok_def
proof (intro conjI)
  let ?db = "delete_retained_jobs now db" let ?g = "gone_ids now db"
  note refs = lifecycle_invD(4) [OF inv, unfolded refs_ok_def]
  show "\<forall>j \<in> set (jobs ?db). \<forall>b. j_input_blob_id j = Some b \<longrightarrow> b \<in> b_id ` set (blobs ?db)"
    using refs by (auto simp: in_retained_jobs delete_retained_jobs_tables(6))
  show "\<forall>t \<in> set (transfers ?db). \<forall>b. t_blob_id t = Some b \<longrightarrow> b \<in> b_id ` set (blobs ?db)"
    "\<forall>f \<in> set (artifacts ?db). f_blob_id f \<in> b_id ` set (blobs ?db)"
    using refs by (auto simp: delete_retained_jobs_tables)
  show "\<forall>t \<in> set (transfers ?db). \<exists>a \<in> set (attempts ?db).
        a_id a = t_attempt_id t \<and> a_job_id a = t_job_id t \<and> a_claim_id a = t_claim_id t"
  proof
    fix t assume "t \<in> set (transfers ?db)"
    then have t: "t \<in> set (transfers db)" "t_job_id t \<notin> ?g" by (auto simp: delete_retained_jobs_tables)
    with refs obtain a where "a \<in> set (attempts db)"
      "a_id a = t_attempt_id t \<and> a_job_id a = t_job_id t \<and> a_claim_id a = t_claim_id t" by blast
    with t(2) show "\<exists>a \<in> set (attempts ?db). a_id a = t_attempt_id t \<and> a_job_id a = t_job_id t \<and> a_claim_id a = t_claim_id t"
      by (intro bexI [of _ a]) (simp_all add: delete_retained_jobs_tables)
  qed
  show "\<forall>p \<in> set (pins ?db). pin_job_id p \<in> j_id ` set (jobs ?db)"
  proof
    fix p assume "p \<in> set (pins ?db)"
    then have p: "p \<in> set (pins db)" "pin_job_id p \<notin> ?g" by (auto simp: delete_retained_jobs_tables)
    with refs obtain j where j: "j \<in> set (jobs db)" "j_id j = pin_job_id p" by fastforce
    with p(2) in_gone_ids [OF keys_okD(1) [OF lifecycle_invD(2) [OF inv]] j(1)] have "\<not> deletable now db j" by metis
    with j have "retained ?g j \<in> set (jobs ?db)" by (auto simp: in_retained_jobs)
    with j(2) show "pin_job_id p \<in> j_id ` set (jobs ?db)" by (metis imageI retained_simps(1))
  qed
qed

lemma delete_retained_results:
  assumes inv: "lifecycle_inv db"
  shows "results_ok (delete_retained_jobs now db)"
  unfolding results_ok_def
proof (intro conjI ballI allI impI)
  let ?g = "gone_ids now db"
  note ok = lifecycle_invD(5) [OF inv, unfolded results_ok_def]
  fix f assume "f \<in> set (artifacts (delete_retained_jobs now db))"
  then have f: "f \<in> set (artifacts db)" "f_job_id f \<notin> ?g" by (auto simp: delete_retained_jobs_tables)
  with ok obtain j where j: "j \<in> set (jobs db)" "j_id j = f_job_id f" "j_state j = Succeeded" by blast
  with f(2) in_gone_ids [OF keys_okD(1) [OF lifecycle_invD(2) [OF inv]] j(1)] have "\<not> deletable now db j" by metis
  with j show "\<exists>j \<in> set (jobs (delete_retained_jobs now db)). j_id j = f_job_id f \<and> j_state j = Succeeded"
    by (intro bexI [of _ "retained ?g j"]) (auto simp: in_retained_jobs)
next
  let ?g = "gone_ids now db"
  note ok = lifecycle_invD(5) [OF inv, unfolded results_ok_def]
  fix j s assume "j \<in> set (jobs (delete_retained_jobs now db))" and s: "j_cache_source_job_id j = Some s"
  then obtain k where k: "k \<in> set (jobs db)" "j_cache_source_job_id k = Some s" by (auto simp: in_retained_jobs)
  with ok obtain f where f: "f \<in> set (artifacts db)" "f_job_id f = s" by blast
  from k have "s \<notin> ?g" by (auto simp: gone_ids_def deletable_def)
  with f show "\<exists>f \<in> set (artifacts (delete_retained_jobs now db)). f_job_id f = s"
    by (auto simp: delete_retained_jobs_tables)
next
  let ?g = "gone_ids now db"
  note ok = lifecycle_invD(5) [OF inv, unfolded results_ok_def]
  fix j assume "j \<in> set (jobs (delete_retained_jobs now db))" and fin: "j_state j = Finalizing \<and> j_cache_source_job_id j = None"
  then obtain k where k: "k \<in> set (jobs db)" "\<not> deletable now db k" "j = retained ?g k" by (auto simp: in_retained_jobs)
  with fin ok obtain a where a: "a \<in> set (attempts db)" "a_job_id a = j_id k" "a_attempt_number a = j_attempt_count k"
    "a_state a = Delivered_attempt" by (metis retained_simps(2,6))
  have "j_id k \<notin> ?g" using in_gone_ids [OF keys_okD(1) [OF lifecycle_invD(2) [OF inv]] k(1)] k(2) by simp
  with a k(3) show "\<exists>a \<in> set (attempts (delete_retained_jobs now db)).
      a_job_id a = j_id j \<and> a_attempt_number a = j_attempt_count j \<and> a_state a = Delivered_attempt"
    by (auto simp: delete_retained_jobs_tables)
qed

lemma delete_retained_jobs_inv:
  assumes inv: "lifecycle_inv db"
  shows "lifecycle_inv (delete_retained_jobs now db)"
proof (rule lifecycle_invI)
  show "job_row_ok j" if "j \<in> set (jobs (delete_retained_jobs now db))" for j
    using that lifecycle_invD(1) [OF inv] by (auto simp: in_retained_jobs)
  have comp: "j_id \<circ> retained g = j_id" "(\<lambda>j. (j_requester_user_id j, j_idempotency_scope j, j_idempotency_key j)) \<circ> retained g =
      (\<lambda>j. (j_requester_user_id j, j_idempotency_scope j, j_idempotency_key j))" for g by auto
  show "keys_ok (delete_retained_jobs now db)"
    using lifecycle_invD(2) [OF inv] unfolding keys_ok_def delete_retained_jobs_tables
    by (simp only: map_map comp distinct_map_delete_where)
qed (rule delete_retained_claims [OF inv] delete_retained_refs [OF inv] delete_retained_results [OF inv])+

lemma delete_unreferenced_blobs_inv:
  assumes inv: "lifecycle_inv db"
  shows "lifecycle_inv (delete_unreferenced_blobs db)"
proof -
  have kept: "b \<in> b_id ` set (blobs (delete_unreferenced_blobs db))"
    if "blob_referenced db b" "b \<in> b_id ` set (blobs db)" for b
    using that by (auto simp: delete_unreferenced_blobs_def)
  note refs = lifecycle_invD(4) [OF inv, unfolded refs_ok_def]
  have "\<forall>j \<in> set (jobs db). \<forall>b. j_input_blob_id j = Some b \<longrightarrow> b \<in> b_id ` set (blobs (delete_unreferenced_blobs db))"
    using refs kept unfolding blob_referenced_def exists_where_iff by blast
  moreover have "\<forall>t \<in> set (transfers db). \<forall>b. t_blob_id t = Some b \<longrightarrow> b \<in> b_id ` set (blobs (delete_unreferenced_blobs db))"
    using refs kept unfolding blob_referenced_def exists_where_iff by blast
  moreover have "\<forall>f \<in> set (artifacts db). f_blob_id f \<in> b_id ` set (blobs (delete_unreferenced_blobs db))"
    using refs kept unfolding blob_referenced_def exists_where_iff by blast
  ultimately have "refs_ok (delete_unreferenced_blobs db)"
    using refs by (simp add: refs_ok_def delete_unreferenced_blobs_def)
  with inv show ?thesis
    by (simp add: lifecycle_inv_def keys_ok_def claims_ok_def results_ok_def delete_unreferenced_blobs_def
        distinct_map_delete_where)
qed

lemmas maintenance_invs = recover_claims_inv expire_waiting_jobs_inv release_closed_pins_inv expire_transfers_inv
  delete_expired_requests_inv delete_retained_jobs_inv delete_unreferenced_blobs_inv

lemma maintenance_transaction_inv: "lifecycle_inv db \<Longrightarrow> lifecycle_inv (maintenance_transaction locked now db)"
  by (simp add: maintenance_transaction_def maintenance_invs)

lemma maintain_lifecycle_inv: "lifecycle_inv db \<Longrightarrow> lifecycle_inv (maintain_lifecycle locked now db)"
  by (simp add: maintain_lifecycle_def maintenance_transaction_inv expire_sessions_def expire_draining_sessions_def)

section \<open>Finalization\<close>

lemma acquire_finalization_lease_inv:
  assumes inv: "lifecycle_inv db"
  shows "lifecycle_inv (snd (acquire_finalization_lease config locked token now db))"
proof (cases "first_by j_updated_at (filter (finalizable locked now) (jobs db))")
  case None
  then have "snd (acquire_finalization_lease config locked token now db) = db"
    unfolding acquire_finalization_lease_def by (simp only: option.case snd_conv)
  with inv show ?thesis by simp
next
  case (Some j)
  then have j: "j \<in> set (jobs db)" "j_state j = Finalizing"
    using first_by_Some(1) [OF Some] by (auto simp: finalizable_def)
  have "lifecycle_inv (db\<lparr>jobs := update_where (\<lambda>x. j_id x = j_id j)
      (take_lease token (now + c_finalization_lease config) now) (jobs db)\<rparr>)"
  proof (rule lifecycle_inv_quiet [OF inv])
    fix k assume "k \<in> set (jobs db)" "j_id k = j_id j"
    then have "k = j" using key_unique [OF keys_okD(1) [OF lifecycle_invD(2) [OF inv]]] j(1) by blast
    then show "quiet db k (take_lease token (now + c_finalization_lease config) now k)"
      using j(2) by (simp add: quiet_take_lease)
  qed
  with Some show ?thesis by (simp add: acquire_finalization_lease_def)
qed

lemma reject_artifacts_inv: "lifecycle_inv db \<Longrightarrow> lifecycle_inv (reject_artifacts lease failure now db)"
  unfolding reject_artifacts_def by (rule rejected_jobs.inv_quiet)

text \<open>What \<open>publish_staged_artifacts\<close> changes: new artifact rows of the job, and transfers it consumed.\<close>

definition transfer_key :: "transfer_row \<Rightarrow> uuid \<times> uuid \<times> uuid \<times> uuid \<times> uuid option" where
  "transfer_key t = (t_id t, t_attempt_id t, t_job_id t, t_claim_id t, t_blob_id t)"

lemma same_transfer_keys_inv:
  assumes inv: "lifecycle_inv db" and keys: "map transfer_key ts = map transfer_key (transfers db)"
  shows "lifecycle_inv (db\<lparr>transfers := ts\<rparr>)"
proof (rule lifecycle_inv_transfers [OF inv])
  have "map t_id ts = map fst (map transfer_key ts)" by (simp add: transfer_key_def)
  also have "\<dots> = map t_id (transfers db)" unfolding keys by (simp add: transfer_key_def)
  finally show "distinct (map t_id ts)" using keys_okD(4) [OF lifecycle_invD(2) [OF inv]] by simp
  fix t assume "t \<in> set ts"
  then have "transfer_key t \<in> set (map transfer_key ts)" by simp
  then obtain u where u: "u \<in> set (transfers db)" "transfer_key u = transfer_key t" unfolding keys by auto
  note refs = lifecycle_invD(4) [OF inv, unfolded refs_ok_def]
  show "b \<in> b_id ` set (blobs db)" if "t_blob_id t = Some b" for b
    using refs u that by (auto simp: transfer_key_def)
  show "\<exists>a \<in> set (attempts db). a_id a = t_attempt_id t \<and> a_job_id a = t_job_id t \<and> a_claim_id a = t_claim_id t"
    using refs u unfolding transfer_key_def by (metis prod.inject)
qed

definition published :: "uuid \<Rightarrow> instant \<Rightarrow> staged_artifact list \<Rightarrow> processing_db \<Rightarrow> artifact_row list \<Rightarrow> bool" where
  "published job_id now staged db rows \<longleftrightarrow>
     (\<forall>r \<in> set rows. f_job_id r = job_id \<and> f_blob_id r \<in> b_id ` set (blobs db) \<and>
        (\<exists>s \<in> set staged. \<exists>i. r = artifact_of i job_id now s)) \<and>
     (\<forall>s \<in> set staged. \<exists>r \<in> set (artifacts db @ rows). f_job_id r = job_id \<and> f_role r = sa_role s) \<and>
     (distinct (map f_id (artifacts db)) \<longrightarrow> distinct (map f_id (artifacts db @ rows))) \<and>
     (distinct (map (\<lambda>f. (f_job_id f, f_role f)) (artifacts db)) \<longrightarrow>
      distinct (map (\<lambda>f. (f_job_id f, f_role f)) (artifacts db @ rows)))"

lemma insert_artifact_cases:
  assumes "insert_artifact row db = Some db'"
  obtains (old) r where "db' = db" "r \<in> set (artifacts db)" "f_job_id r = f_job_id row" "f_role r = f_role row"
  | (new) "db' = db\<lparr>artifacts := artifacts db @ [row]\<rparr>" "\<forall>f \<in> set (artifacts db). f_id f \<noteq> f_id row"
      "\<forall>f \<in> set (artifacts db). \<not> (f_job_id f = f_job_id row \<and> f_role f = f_role row)"
      "f_blob_id row \<in> b_id ` set (blobs db)"
proof (cases "exists_where (\<lambda>f. f_job_id f = f_job_id row \<and> f_role f = f_role row) (artifacts db)")
  case True
  with assms show thesis by (auto simp: insert_artifact_def intro: old split: if_splits)
next
  case False
  with assms have "\<exists>b \<in> set (blobs db). b_id b = f_blob_id row" by (auto simp: insert_artifact_def split: if_splits)
  then have b: "f_blob_id row \<in> b_id ` set (blobs db)" by force
  show thesis
  proof (rule new)
    show "db' = db\<lparr>artifacts := artifacts db @ [row]\<rparr>" "\<forall>f \<in> set (artifacts db). f_id f \<noteq> f_id row"
      "\<forall>f \<in> set (artifacts db). \<not> (f_job_id f = f_job_id row \<and> f_role f = f_role row)"
      using False assms by (auto simp: insert_artifact_def split: if_splits)
  qed (rule b)
qed

lemma consume_transfer_frame:
  "jobs (consume_transfer i now db) = jobs db" "blobs (consume_transfer i now db) = blobs db"
  "artifacts (consume_transfer i now db) = artifacts db"
  "map transfer_key (transfers (consume_transfer i now db)) = map transfer_key (transfers db)"
  "\<exists>ts. consume_transfer i now db = db\<lparr>transfers := ts\<rparr>"
proof -
  show "map transfer_key (transfers (consume_transfer i now db)) = map transfer_key (transfers db)"
    by (auto simp: consume_transfer_def transfer_key_def map_update_where split: option.splits)
  show "\<exists>ts. consume_transfer i now db = db\<lparr>transfers := ts\<rparr>"
    by (cases i) (auto simp: consume_transfer_def intro: exI [of _ "transfers db"])
qed (auto simp: consume_transfer_def split: option.splits)

lemma publish_staged_shape:
  assumes "publish_staged_artifacts fresh i job_id now staged db = Some db'"
  shows "\<exists>rows ts. db' = db\<lparr>artifacts := artifacts db @ rows, transfers := ts\<rparr> \<and>
    map transfer_key ts = map transfer_key (transfers db) \<and> published job_id now staged db rows"
  using assms
proof (induction fresh i job_id now staged db rule: publish_staged_artifacts.induct)
  case (1 fresh i job_id now db)
  then show ?case
    by (intro exI [of _ "[]"] exI [of _ "transfers db"]) (simp add: published_def)
next
  case (2 fresh i job_id now s ss db)
  from "2.prems" obtain db1 where ins: "insert_artifact (artifact_of (fresh i) job_id now s) db = Some db1"
    and rest: "publish_staged_artifacts fresh (Suc i) job_id now ss (consume_transfer (sa_transfer_id s) now db1) = Some db'"
    by (auto split: option.splits)
  let ?c = "consume_transfer (sa_transfer_id s) now db1"
  from "2.IH" [OF ins rest] obtain rows ts where IH: "db' = ?c\<lparr>artifacts := artifacts ?c @ rows, transfers := ts\<rparr>"
    "map transfer_key ts = map transfer_key (transfers ?c)" "published job_id now ss ?c rows" by blast
  obtain tc where c: "?c = db1\<lparr>transfers := tc\<rparr>" using consume_transfer_frame(5) by blast
  have k: "map transfer_key (transfers ?c) = map transfer_key (transfers db1)" by (rule consume_transfer_frame(4))
  have ps: "published job_id now ss db1 rows" using IH(3) unfolding published_def consume_transfer_frame .
  show ?case
    using ins
  proof (cases rule: insert_artifact_cases)
    case (old r)
    have "published job_id now (s # ss) db rows"
      using ps old by (auto simp: published_def artifact_of_def)
    moreover have "db' = db\<lparr>artifacts := artifacts db @ rows, transfers := ts\<rparr>" using IH(1) c old(1) by simp
    moreover have "map transfer_key ts = map transfer_key (transfers db)" using IH(2) k old(1) by simp
    ultimately show ?thesis by blast
  next
    case new
    let ?r = "artifact_of (fresh i) job_id now s"
    have f: "f_job_id ?r = job_id" "f_role ?r = sa_role s" by (simp_all add: artifact_of_def)
    have a1: "artifacts db1 = artifacts db @ [?r]" "blobs db1 = blobs db" using new(1) by simp_all
    have p: "\<forall>r \<in> set rows. f_job_id r = job_id \<and> f_blob_id r \<in> b_id ` set (blobs db) \<and>
        (\<exists>s \<in> set ss. \<exists>i. r = artifact_of i job_id now s)"
      "\<forall>s \<in> set ss. \<exists>r \<in> set (artifacts db @ ?r # rows). f_job_id r = job_id \<and> f_role r = sa_role s"
      "distinct (map f_id (artifacts db @ [?r])) \<longrightarrow> distinct (map f_id (artifacts db @ ?r # rows))"
      "distinct (map (\<lambda>f. (f_job_id f, f_role f)) (artifacts db @ [?r])) \<longrightarrow>
       distinct (map (\<lambda>f. (f_job_id f, f_role f)) (artifacts db @ ?r # rows))"
      using ps unfolding published_def a1 append_assoc append.simps by argo+
    have "published job_id now (s # ss) db (?r # rows)"
      unfolding published_def
    proof (intro conjI impI)
      show "\<forall>r \<in> set (?r # rows). f_job_id r = job_id \<and> f_blob_id r \<in> b_id ` set (blobs db) \<and>
        (\<exists>s \<in> set (s # ss). \<exists>i. r = artifact_of i job_id now s)" using p(1) new(4) f by auto
      show "\<forall>s \<in> set (s # ss). \<exists>r \<in> set (artifacts db @ ?r # rows). f_job_id r = job_id \<and> f_role r = sa_role s"
        using p(2) f by auto
      show "distinct (map f_id (artifacts db @ ?r # rows))" if "distinct (map f_id (artifacts db))"
        using that new(2) by (intro p(3) [rule_format]) auto
      show "distinct (map (\<lambda>f. (f_job_id f, f_role f)) (artifacts db @ ?r # rows))"
        if "distinct (map (\<lambda>f. (f_job_id f, f_role f)) (artifacts db))"
        using that new(3) by (intro p(4) [rule_format]) auto
    qed
    moreover have "db' = db\<lparr>artifacts := artifacts db @ ?r # rows, transfers := ts\<rparr>" using IH(1) c new(1) by simp
    moreover have "map transfer_key ts = map transfer_key (transfers db)" using IH(2) k new(1) by simp
    ultimately show ?thesis by blast
  qed
qed

lemma lock_finalization_iff:
  "lock_finalization lease now db \<longleftrightarrow> (\<exists>j \<in> set (jobs db). holds_lease lease j \<and> null_gt (j_finalization_expires_at j) now)"
  by (simp add: lock_finalization_def)

lemma publish_inv:
  assumes inv: "lifecycle_inv db" and lock: "lock_finalization lease now db"
    and pub: "publish_staged_artifacts fresh 0 (fl_job_id lease) now staged db = Some db'"
    and q: "\<And>j. holds_lease lease j \<Longrightarrow> quiet db j (g j)" and g: "\<And>j. j_state (g j) = Succeeded"
  shows "lifecycle_inv (db'\<lparr>jobs := update_where (holds_lease lease) g (jobs db')\<rparr>)"
proof -
  from publish_staged_shape [OF pub] obtain rows ts where
    db': "db' = db\<lparr>artifacts := artifacts db @ rows, transfers := ts\<rparr>"
    and ts: "map transfer_key ts = map transfer_key (transfers db)" and rows: "published (fl_job_id lease) now staged db rows"
    by blast
  let ?db1 = "db\<lparr>jobs := update_where (holds_lease lease) g (jobs db)\<rparr>"
  have inv1: "lifecycle_inv ?db1" by (rule lifecycle_inv_quiet [OF inv q])
  have closed: "\<exists>j \<in> set (jobs ?db1). j_id j = fl_job_id lease \<and> j_state j = Succeeded"
  proof -
    from lock obtain j where j: "j \<in> set (jobs db)" "holds_lease lease j" by (auto simp: lock_finalization_iff)
    with q [OF j(2)] g show ?thesis
      by (intro bexI [of _ "g j"]) (auto simp: in_update_where holds_lease_def dest: quietD(1) intro!: bexI [of _ j])
  qed
  have "lifecycle_inv (?db1\<lparr>artifacts := artifacts ?db1 @ rows\<rparr>)"
  proof (rule lifecycle_inv_artifacts [OF inv1])
    have "artifacts ?db1 = artifacts db" by simp
    then show "distinct (map f_id (artifacts ?db1 @ rows))"
      "distinct (map (\<lambda>f. (f_job_id f, f_role f)) (artifacts ?db1 @ rows))"
      using rows lifecycle_invD(2) [OF inv] unfolding published_def keys_ok_def by (simp_all only: simp_thms)
    show "f_blob_id r \<in> b_id ` set (blobs ?db1)" if "r \<in> set rows" for r
      using rows that unfolding published_def by simp
    show "\<exists>j \<in> set (jobs ?db1). j_id j = f_job_id r \<and> j_state j = Succeeded" if "r \<in> set rows" for r
      using rows that closed unfolding published_def by simp
  qed
  from same_transfer_keys_inv [OF this, of ts] ts
  have "lifecycle_inv (?db1\<lparr>artifacts := artifacts ?db1 @ rows, transfers := ts\<rparr>)" by simp
  moreover have "?db1\<lparr>artifacts := artifacts ?db1 @ rows, transfers := ts\<rparr> =
      db'\<lparr>jobs := update_where (holds_lease lease) g (jobs db')\<rparr>"
    unfolding db' by (rule processing_db.equality) simp_all
  ultimately show ?thesis by simp
qed

lemma publish_artifacts_inv:
  assumes "lifecycle_inv db"
  shows "lifecycle_inv (snd (publish_artifacts fresh lease staged now db))"
  using assms publish_inv [OF assms, where g = "succeed_job now", OF _ _ quiet_succeed]
  by (auto simp: publish_artifacts_def succeed_job_def split: option.splits)

lemma publish_workspace_transaction_inv:
  assumes inv: "lifecycle_inv (fst s)"
  shows "lifecycle_inv (fst (snd (publish_workspace_transaction ports fresh lease staged bundle name sa pid now s)))"
proof -
  let ?g = "\<lambda>j. succeed_job now j\<lparr>j_result_project_id := Some pid\<rparr>"
  have "lifecycle_inv (db'\<lparr>jobs := update_where (holds_lease lease) ?g (jobs db')\<rparr>)"
    if "lock_finalization lease now (fst s)" "publish_staged_artifacts fresh 0 (fl_job_id lease) now staged (fst s) = Some db'" for db'
    using that by (intro publish_inv [OF inv]) (auto simp: succeed_job_def quiet_succeed_project [unfolded succeed_job_def])
  with inv show ?thesis
    by (auto simp: publish_workspace_transaction_def Let_def split: prod.splits option.splits)
qed

lemma publish_workspace_inv:
  assumes inv: "lifecycle_inv (fst s)"
  shows "lifecycle_inv (fst (snd (publish_workspace ports commit fresh lease staged bundle name pid now s)))"
proof (cases "wp_stage ports pid (vb_assets bundle) (snd s)")
  case (Pair so w1)
  show ?thesis
  proof (cases so)
    case None
    with Pair inv show ?thesis by (simp add: publish_workspace_def)
  next
    case (Some sa)
    have t: "lifecycle_inv (fst (snd (publish_workspace_transaction ports fresh lease staged bundle name sa pid now (fst s, w1))))"
      by (rule publish_workspace_transaction_inv) (simp add: inv)
    obtain r db2 w2 where
      e: "publish_workspace_transaction ports fresh lease staged bundle name sa pid now (fst s, w1) = (r, (db2, w2))"
      by (metis surj_pair)
    show ?thesis
    proof (cases r)
      case (Inl u)
      with Pair Some inv e show ?thesis by (simp add: publish_workspace_def split: unit.split)
    next
      case (Inr b)
      with Pair Some inv e t show ?thesis by (cases b; cases commit) (simp_all add: publish_workspace_def)
    qed
  qed
qed

end
