(* ===== verification/Job_Evolution.thy ===== *)
theory Job_Evolution
  imports Maintenance_Steps
begin

text \<open>
  How job rows change: the edges of the job state machine, and that every operation other than
  the reservation of a job moves each row along them and keeps its identity.
\<close>

section \<open>The state machine of a job\<close>

inductive job_edge :: "job_state \<Rightarrow> job_state \<Rightarrow> bool" where
  input_stored: "job_edge Preparing Queued"
| preparation_failed: "job_edge Preparing Failed"
| cancelled_preparing: "job_edge Preparing Cancelled"
| expired_preparing: "job_edge Preparing Expired"
| claimed: "job_edge Queued Running"
| cache_hit: "job_edge Queued Finalizing"
| cancelled_queued: "job_edge Queued Cancelled"
| expired_queued: "job_edge Queued Expired"
| requeued: "job_edge Running Queued"
| delivered_result: "job_edge Running Finalizing"
| attempts_failed: "job_edge Running Failed"
| cancelled_running: "job_edge Running Cancelled"
| expired_running: "job_edge Running Expired"
| published_result: "job_edge Finalizing Succeeded"
| rejected_result: "job_edge Finalizing Failed"

inductive_cases job_edge_elims:
  "job_edge Succeeded s" "job_edge Failed s" "job_edge Cancelled s" "job_edge Expired s" "job_edge s Succeeded"
  "job_edge s Finalizing" "job_edge s Running"

code_pred job_edge .

lemma terminal_no_edge: "is_terminal s \<Longrightarrow> \<not> job_edge s t"
  by (cases s) (auto elim: job_edge_elims)

lemma terminal_absorbing: "job_edge\<^sup>*\<^sup>* s t \<Longrightarrow> is_terminal s \<Longrightarrow> t = s"
  by (induction rule: converse_rtranclp_induct) (auto dest: terminal_no_edge)

lemma active_backwards: "job_edge\<^sup>*\<^sup>* s t \<Longrightarrow> active_state t \<Longrightarrow> active_state s"
  using terminal_absorbing by (auto simp: active_state_iff)

text \<open>Only a finalizing job succeeds, and only through a claim or a cache hit does it get there.\<close>

lemma succeeded_from: "job_edge s Succeeded \<longleftrightarrow> s = Finalizing"
  by (auto elim: job_edge_elims intro: job_edge.intros)

definition job_evolves :: "job_row \<Rightarrow> job_row \<Rightarrow> bool" where
  "job_evolves j j' \<longleftrightarrow>
     j_id j' = j_id j \<and> j_operation j' = j_operation j \<and> j_requester_user_id j' = j_requester_user_id j \<and>
     j_project_id j' = j_project_id j \<and> j_idempotency_scope j' = j_idempotency_scope j \<and>
     j_idempotency_key j' = j_idempotency_key j \<and> j_command_digest j' = j_command_digest j \<and>
     j_created_at j' = j_created_at j \<and> (j_cancellation_requested j \<longrightarrow> j_cancellation_requested j') \<and>
     j_attempt_count j \<le> j_attempt_count j' \<and> job_edge\<^sup>*\<^sup>* (j_state j) (j_state j')"

lemma job_evolves_refl [simp]: "job_evolves j j"
  by (simp add: job_evolves_def)

lemma job_evolves_trans: "job_evolves i j \<Longrightarrow> job_evolves j k \<Longrightarrow> job_evolves i k"
  by (auto simp: job_evolves_def)

definition jobs_evolve :: "job_row list \<Rightarrow> job_row list \<Rightarrow> bool" where
  "jobs_evolve t t' \<longleftrightarrow> (\<forall>j' \<in> set t'. \<exists>j \<in> set t. job_evolves j j')"

lemma jobs_evolve_refl [simp]: "jobs_evolve t t"
  unfolding jobs_evolve_def using job_evolves_refl by blast

lemma jobs_evolve_trans: "jobs_evolve t u \<Longrightarrow> jobs_evolve u v \<Longrightarrow> jobs_evolve t v"
  by (auto simp: jobs_evolve_def) (meson job_evolves_trans)

lemma jobs_evolve_update:
  "(\<And>j. j \<in> set t \<Longrightarrow> P j \<Longrightarrow> job_evolves j (f j)) \<Longrightarrow> jobs_evolve t (update_where P f t)"
  unfolding jobs_evolve_def Ball_def in_update_where using job_evolves_refl by metis

lemma evolve_edge:
  "j_id j' = j_id j \<Longrightarrow> j_operation j' = j_operation j \<Longrightarrow> j_requester_user_id j' = j_requester_user_id j \<Longrightarrow>
   j_project_id j' = j_project_id j \<Longrightarrow> j_idempotency_scope j' = j_idempotency_scope j \<Longrightarrow>
   j_idempotency_key j' = j_idempotency_key j \<Longrightarrow> j_command_digest j' = j_command_digest j \<Longrightarrow>
   j_created_at j' = j_created_at j \<Longrightarrow> (j_cancellation_requested j \<Longrightarrow> j_cancellation_requested j') \<Longrightarrow>
   j_attempt_count j \<le> j_attempt_count j' \<Longrightarrow>
   j_state j' = j_state j \<or> job_edge (j_state j) (j_state j') \<Longrightarrow> job_evolves j j'"
  by (auto simp: job_evolves_def)

section \<open>Operations on jobs\<close>

lemma store_prepared_input_evolves: "jobs_evolve (jobs db) (jobs (snd (store_prepared_input fresh i input db)))"
  by (auto simp: store_prepared_input_def awaiting_input_def attach_input_def job_edge.intros
      intro!: jobs_evolve_update evolve_edge split: option.splits)

lemma mark_preparation_failed_evolves: "jobs_evolve (jobs db) (jobs (mark_preparation_failed i c m now db))"
  by (auto simp: mark_preparation_failed_def job_edge.intros intro!: jobs_evolve_update evolve_edge)

lemma cancel_job_evolves:
  assumes "distinct (map j_id (jobs db))"
  shows "jobs_evolve (jobs db) (jobs (snd (cancel_job user i now db)))"
proof (cases "find (\<lambda>j. j_id j = i \<and> j_requester_user_id j = user) (jobs db)")
  case None
  then show ?thesis by (simp add: cancel_job_def)
next
  case (Some row)
  have "j_state j = j_state row" if "j \<in> set (jobs db)" "j_id j = i" for j
    using that key_unique [OF assms] find_Some_set [OF Some] by metis
  with Some show ?thesis
    by (cases "j_state row") (auto simp: cancel_job_def cancel_effect_def cancel_now_def request_cancellation_def
        Let_def job_edge.intros intro!: jobs_evolve_update evolve_edge)
qed

section \<open>Operations on claims\<close>

lemma try_offer_evolves:
  assumes inv: "lifecycle_inv db" and off: "try_offer worker s config env now issued offer db = Offer_return c db'"
  shows "jobs_evolve (jobs db) (jobs db')"
  using off
proof (cases rule: try_offer_return)
  case (hit j dg source)
  then show ?thesis by (auto simp: mark_cache_hit_def job_edge.intros intro!: jobs_evolve_update evolve_edge)
next
  case (start j blob schema claim p)
  have j: "j \<in> set (jobs db)" "j_state j = Queued"
    using select_candidate_Some [OF start(3)] by (auto simp: claimable_def)
  let ?n = "i32_saturate (j_attempt_count j + 1)"
  have n: "?n = j_attempt_count j + 1"
    using lifecycle_invD(1) [OF inv j(1)] by (intro i32_saturate_id) (auto simp: job_row_ok_def i32_min_def i32_max_def)
  have "jobs db' = update_where (\<lambda>k. j_id k = j_id j)
      (start_running ?n (e_claim_id env) (now + c_claim_lease config) (of_processor_contract offer) now) (jobs db)"
    using start(10) by (auto simp: start_attempt_def Let_def new_attempt_def split: if_splits option.splits)
  moreover have "job_evolves k (start_running ?n (e_claim_id env) (now + c_claim_lease config) (of_processor_contract offer) now k)"
    if "k \<in> set (jobs db)" "j_id k = j_id j" for k
  proof -
    have "k = j" using that key_unique [OF keys_okD(1) [OF lifecycle_invD(2) [OF inv]]] j(1) by blast
    with j(2) n show ?thesis by (intro evolve_edge) (auto simp: start_running_def job_edge.intros)
  qed
  ultimately show ?thesis by (simp add: jobs_evolve_update)
qed

lemma try_offers_evolves:
  "lifecycle_inv db \<Longrightarrow> jobs_evolve (jobs db) (jobs (snd (try_offers worker s config env now issued offers db)))"
  by (induction offers) (auto dest: try_offer_evolves split: offer_result.splits)

lemma try_claim_evolves:
  "lifecycle_inv db \<Longrightarrow> jobs_evolve (jobs db) (jobs (snd (try_claim worker s offers config env now issued db)))"
  by (auto simp: try_claim_def intro: try_offers_evolves split: option.splits)

text \<open>The claim mutations change the rows with the identifier of the joined job, which is that row.\<close>

lemma joined_evolve:
  assumes "distinct (map j_id (jobs db))" and "claim_join worker s c db = Some (a, j)" and "job_evolves j (f j)"
  shows "jobs_evolve (jobs db) (update_where (\<lambda>x. j_id x = j_id j) f (jobs db))"
proof (rule jobs_evolve_update)
  fix k assume "k \<in> set (jobs db)" "j_id k = j_id j"
  then have "k = j" using key_unique [OF assms(1)] claim_join_Some(2) [OF assms(2)] by blast
  with assms(3) show "job_evolves k (f k)" by simp
qed

lemma heartbeat_claim_evolves:
  assumes d: "distinct (map j_id (jobs db))"
  shows "jobs_evolve (jobs db) (jobs (snd (heartbeat_claim worker s c phase config now db)))"
proof (cases "claim_join worker s c db")
  case (Some aj)
  obtain a j where aj: "aj = (a, j)" by fastforce
  have "jobs_evolve (jobs db) (update_where (\<lambda>x. j_id x = j_id j)
      (\<lambda>x. x\<lparr>j_phase := phase, j_claim_expires_at := l, j_updated_at := now\<rparr>) (jobs db))" for l
    by (rule joined_evolve [OF d Some [unfolded aj]]) (simp add: job_evolves_def)
  with Some aj show ?thesis by (auto simp: heartbeat_claim_def Let_def)
qed (simp add: heartbeat_claim_def)

lemma complete_claim_evolves:
  assumes d: "distinct (map j_id (jobs db))"
  shows "jobs_evolve (jobs db) (jobs (snd (complete_claim hex worker s c arts now db)))"
proof (cases "claim_join worker s c db")
  case (Some aj)
  obtain a j where aj: "aj = (a, j)" by fastforce
  have "jobs_evolve (jobs db) (update_where (\<lambda>x. j_id x = j_id j) (to_finalizing now) (jobs db))" if "j_state j = Running"
    by (rule joined_evolve [OF d Some [unfolded aj]], rule evolve_edge)
      (use that in \<open>auto simp: to_finalizing_def job_edge.intros\<close>)
  with Some aj show ?thesis by (auto simp: complete_claim_def Let_def split: option.splits)
qed (simp add: complete_claim_def)

lemma mutate_failed_claim_evolves:
  assumes d: "distinct (map j_id (jobs db))"
  shows "jobs_evolve (jobs db) (jobs (snd (mutate_failed_claim worker s c failure now db)))"
proof (cases "claim_join worker s c db")
  case (Some aj)
  obtain a j where aj: "aj = (a, j)" by fastforce
  have "jobs_evolve (jobs db) (update_where (\<lambda>x. j_id x = j_id j)
      (after_failure failure (next_state_after_failure failure j) n now) (jobs db))" if "j_state j = Running" for n
    by (rule joined_evolve [OF d Some [unfolded aj]], rule evolve_edge)
      (use that in \<open>auto simp: after_failure_def next_state_after_failure_def job_edge.intros\<close>)
  with Some aj show ?thesis by (auto simp: mutate_failed_claim_def Let_def)
qed (simp add: mutate_failed_claim_def)

lemma transfer_jobs [simp]:
  "jobs (snd (create_artifact_transfer sha worker request config fresh rnd now issued db)) = jobs db"
  "jobs (snd (download_transfer sha i token now db)) = jobs db"
  "jobs (snd (upload_transfer sha i token content fresh now db)) = jobs db"
  by (auto simp: create_artifact_transfer_def download_transfer_def upload_transfer_def Let_def
      split: option.splits prod.splits)

section \<open>Maintenance and finalization\<close>

lemma recover_fold_evolves:
  assumes "distinct (map j_id rows)" and "distinct (map j_id (jobs db))"
    and "\<forall>r \<in> set rows. r \<in> set (jobs db) \<and> j_state r = Running"
  shows "jobs_evolve (jobs db) (jobs (fold (recover_claim now) rows db))"
  using assms
proof (induction rows arbitrary: db)
  case (Cons r rows)
  have "job_evolves k (recover_job now r k)" if "k \<in> set (jobs db)" "j_id k = j_id r" for k
  proof -
    have "k = r" using that key_unique [OF Cons.prems(2)] Cons.prems(3) by simp
    with Cons.prems(3) show ?thesis
      by (intro evolve_edge) (auto simp: recover_job_def recovery_state_def job_edge.intros)
  qed
  then have step: "jobs_evolve (jobs db) (jobs (recover_claim now r db))"
    by (simp add: recover_claim_jobs jobs_evolve_update)
  have "\<forall>k \<in> set rows. k \<in> set (jobs (recover_claim now r db)) \<and> j_state k = Running"
  proof
    fix k assume k: "k \<in> set rows"
    with Cons.prems(1) have "j_id k \<noteq> j_id r" by (metis distinct.simps(2) imageI list.set_map list.simps(9))
    with k Cons.prems(3) show "k \<in> set (jobs (recover_claim now r db)) \<and> j_state k = Running"
      by (simp add: recover_claim_keeps)
  qed
  moreover have "map j_id (jobs (recover_claim now r db)) = map j_id (jobs db)"
    by (simp add: recover_claim_jobs map_update_where recover_job_def split: prod.splits)
  ultimately have "jobs_evolve (jobs (recover_claim now r db)) (jobs (fold (recover_claim now) rows (recover_claim now r db)))"
    using Cons.IH Cons.prems by simp
  with step show ?case by (simp add: jobs_evolve_trans)
qed simp

lemma recover_claims_evolves:
  assumes "distinct (map j_id (jobs db))"
  shows "jobs_evolve (jobs db) (jobs (recover_claims locked now db))"
  unfolding recover_claims_def
  using expired_claims_rows [OF assms] assms by (intro recover_fold_evolves) (auto simp: claim_expired_def)

lemma retained_evolves: "job_evolves j (retained g j)"
  by (simp add: job_evolves_def retained_def)

lemma delete_retained_jobs_evolves: "jobs_evolve (jobs db) (jobs (delete_retained_jobs now db))"
  unfolding jobs_evolve_def Ball_def in_retained_jobs using retained_evolves by blast

lemma expire_waiting_jobs_evolves: "jobs_evolve (jobs db) (jobs (expire_waiting_jobs now db))"
  by (auto simp: expire_waiting_jobs_def expire_waiting_def job_edge.intros intro!: jobs_evolve_update evolve_edge)

lemma maintenance_transaction_evolves:
  assumes "lifecycle_inv db"
  shows "jobs_evolve (jobs db) (jobs (maintenance_transaction locked now db))"
proof -
  have "jobs (maintenance_transaction locked now db) =
      jobs (delete_retained_jobs now (delete_expired_requests now (expire_transfers now
        (release_closed_pins (expire_waiting_jobs now (recover_claims locked now db))))))" (is "_ = jobs (delete_retained_jobs now ?d)")
    by (simp add: maintenance_transaction_def delete_unreferenced_blobs_def)
  moreover have "jobs ?d = jobs (expire_waiting_jobs now (recover_claims locked now db))"
    by (simp add: delete_expired_requests_def expire_transfers_def release_closed_pins_def)
  ultimately show ?thesis
    using recover_claims_evolves [OF keys_okD(1) [OF lifecycle_invD(2) [OF assms]]]
      expire_waiting_jobs_evolves delete_retained_jobs_evolves jobs_evolve_trans by metis
qed

lemma acquire_finalization_lease_evolves:
  "jobs_evolve (jobs db) (jobs (snd (acquire_finalization_lease config locked token now db)))"
  by (auto simp: acquire_finalization_lease_def take_lease_def intro!: jobs_evolve_update evolve_edge
      split: option.splits simp del: first_by_None)

lemma reject_artifacts_evolves: "jobs_evolve (jobs db) (jobs (reject_artifacts lease failure now db))"
  by (auto simp: reject_artifacts_def reject_job_def holds_lease_def job_edge.intros intro!: jobs_evolve_update evolve_edge)

lemma publish_staged_jobs:
  "publish_staged_artifacts fresh i job_id now staged db = Some db' \<Longrightarrow> jobs db' = jobs db"
  by (drule publish_staged_shape) auto

lemma publish_artifacts_evolves: "jobs_evolve (jobs db) (jobs (snd (publish_artifacts fresh lease staged now db)))"
  by (auto simp: publish_artifacts_def succeed_job_def holds_lease_def job_edge.intros dest!: publish_staged_jobs
      intro!: jobs_evolve_update evolve_edge split: option.splits)

lemma publish_workspace_transaction_evolves:
  "jobs_evolve (jobs (fst s)) (jobs (fst (snd (publish_workspace_transaction ports fresh lease staged bundle name sa pid now s))))"
  by (auto simp: publish_workspace_transaction_def Let_def succeed_job_def holds_lease_def job_edge.intros
      dest!: publish_staged_jobs intro!: jobs_evolve_update evolve_edge split: option.splits prod.splits)

end
