(* ===== verification/Processing_Lifecycle.thy ===== *)
theory Processing_Lifecycle
  imports Job_Evolution
begin

text \<open>
  The transition system of Document Processing. An event is one transaction of the service with
  the values it reads from its environment (clock, identifiers, credentials); \<open>step\<close> is the store
  after it, whether it succeeded or was rejected. Transactions are atomic, so a run of the service
  with any number of clients, workers and finalizers is a sequence of events in any order: an
  operation that is several transactions (a mutation under a replay record, \<open>maintain_lifecycle\<close>,
  \<open>finalize_one\<close>) is several events, with others between them.
\<close>

datatype (plugins only: code) event =
    Reserve processing_config reserve_command
  | Pin_assets uuid "string list" instant
  | Release_assets uuid
  | Store_input uuid uuid prepared_input
  | Fail_preparation uuid string string instant
  | Cancel uuid uuid instant
  | Register authenticated_worker string "advertisement list" processing_config uuid instant
  | Session_heartbeat authenticated_worker uuid "(processing_operation \<times> string \<times> bool) list" processing_config instant
  | Drain authenticated_worker uuid instant
  | Claim authenticated_worker uuid "capacity_offer list" processing_config claim_env instant instant
  | Claim_heartbeat authenticated_worker uuid uuid processing_phase processing_config instant
  | Deliver "string \<Rightarrow> bytes option" authenticated_worker uuid uuid "completed_artifact list" instant
  | Fail_claim authenticated_worker uuid uuid worker_failure_class string string instant
  | Release_claim authenticated_worker uuid uuid instant
  | Ticket "bytes \<Rightarrow> bytes" authenticated_worker artifact_request processing_config uuid string instant instant
  | Download_input "bytes \<Rightarrow> bytes" uuid string instant
  | Upload_artifact "bytes \<Rightarrow> bytes" uuid string bytes uuid instant
  | Begin_request "bytes \<Rightarrow> bytes" string uuid string bytes instant
  | Finish_request reservation int "json option" instant
  | Abort_request reservation
  | Expire_sessions instant
  | Expire_draining instant
  | Maintain "uuid \<Rightarrow> bool" instant
  | Acquire_lease processing_config "uuid \<Rightarrow> bool" uuid instant
  | Publish "nat \<Rightarrow> uuid" finalization_lease "staged_artifact list" instant
  | Publish_project "nat \<Rightarrow> uuid" finalization_lease "staged_artifact list" validated_bundle string uuid instant
  | Reject finalization_lease validation_failure instant

text \<open>
  The effect of \<open>publish_workspace\<close> on the processing tables does not depend on the Workspace: a
  Workspace without state stands for it (lemma \<open>publish_workspace_effect\<close>).
\<close>

definition no_workspace :: "(unit, unit) workspace_ports" where
  "no_workspace = \<lparr>wp_stage = (\<lambda>_ _ w. (Some (), w)), wp_cleanup = (\<lambda>_ w. w), wp_cleanup_if_unreferenced = (\<lambda>_ w. w),
     wp_provision = (\<lambda>_ _ w. Some w), wp_mark_dirty = (\<lambda>_ _ w. Some w)\<rparr>"

primrec step :: "event \<Rightarrow> processing_db \<Rightarrow> processing_db" where
  "step (Reserve config command) db = snd (reserve_job config command db)"
| "step (Pin_assets job_id keys now) db = snd (pin_project_assets job_id keys now db)"
| "step (Release_assets job_id) db = release_project_asset_pins job_id db"
| "step (Store_input fresh job_id input) db = snd (store_prepared_input fresh job_id input db)"
| "step (Fail_preparation job_id code message now) db = mark_preparation_failed job_id code message now db"
| "step (Cancel user_id job_id now) db = snd (cancel_job user_id job_id now db)"
| "step (Register worker inst ads config fresh now) db = snd (register_session worker inst ads config fresh now db)"
| "step (Session_heartbeat worker session_id reported config now) db = snd (heartbeat_session worker session_id reported config now db)"
| "step (Drain worker session_id now) db = snd (drain_session worker session_id now db)"
| "step (Claim worker session_id offers config env now issued_at) db = snd (try_claim worker session_id offers config env now issued_at db)"
| "step (Claim_heartbeat worker session_id claim_id phase config now) db = snd (heartbeat_claim worker session_id claim_id phase config now db)"
| "step (Deliver hex worker session_id claim_id arts now) db = snd (complete_claim hex worker session_id claim_id arts now db)"
| "step (Fail_claim worker session_id claim_id cls code message now) db = snd (fail_claim worker session_id claim_id cls code message now db)"
| "step (Release_claim worker session_id claim_id now) db = snd (release_claim worker session_id claim_id now db)"
| "step (Ticket sha256 worker request config fresh rnd now issued_at) db = snd (create_artifact_transfer sha256 worker request config fresh rnd now issued_at db)"
| "step (Download_input sha256 transfer_id token now) db = snd (download_transfer sha256 transfer_id token now db)"
| "step (Upload_artifact sha256 transfer_id token content fresh now) db = snd (upload_transfer sha256 transfer_id token content fresh now db)"
| "step (Begin_request sha256 identity request_id route payload now) db = snd (begin_worker_request sha256 identity request_id route payload now db)"
| "step (Finish_request rv status body now) db = snd (finish_request rv status body now db)"
| "step (Abort_request rv) db = snd (abort_request rv db)"
| "step (Expire_sessions now) db = expire_sessions now db"
| "step (Expire_draining now) db = expire_draining_sessions now db"
| "step (Maintain locked now) db = maintenance_transaction locked now db"
| "step (Acquire_lease config locked token now) db = snd (acquire_finalization_lease config locked token now db)"
| "step (Publish fresh lease staged now) db = snd (publish_artifacts fresh lease staged now db)"
| "step (Publish_project fresh lease staged bundle name project_id now) db =
     fst (snd (publish_workspace no_workspace Committed fresh lease staged bundle name project_id now (db, ())))"
| "step (Reject lease failure now) db = reject_artifacts lease failure now db"

abbreviation run :: "event list \<Rightarrow> processing_db \<Rightarrow> processing_db" where
  "run \<equiv> run_events step"

section \<open>The invariant along runs\<close>

lemma session_frames:
  "lifecycle_inv (snd (register_session worker inst ads config fresh now db)) = lifecycle_inv db"
  "lifecycle_inv (snd (heartbeat_session worker s reported config now db)) = lifecycle_inv db"
  "lifecycle_inv (snd (drain_session worker s now db)) = lifecycle_inv db"
  "lifecycle_inv (expire_sessions now db) = lifecycle_inv db"
  "lifecycle_inv (expire_draining_sessions now db) = lifecycle_inv db"
  by (simp_all add: register_session_def heartbeat_session_def drain_session_def expire_sessions_def
      expire_draining_sessions_def Let_def split: option.splits)

lemma request_frames:
  "lifecycle_inv (snd (begin_worker_request sha identity r route payload now db)) = lifecycle_inv db"
  "lifecycle_inv (snd (finish_request rv status body now db)) = lifecycle_inv db"
  "lifecycle_inv (snd (abort_request rv db)) = lifecycle_inv db"
  by (simp_all add: begin_worker_request_def reserve_request_def finish_request_def abort_request_def Let_def
      split: option.splits)

lemmas step_invs = reserve_job_inv pin_project_assets_inv release_pins_inv store_prepared_input_inv
  mark_preparation_failed_inv cancel_job_inv session_frames try_claim_inv heartbeat_claim_inv complete_claim_inv
  mutate_failed_claim_inv create_artifact_transfer_inv download_transfer_inv upload_transfer_inv request_frames
  maintenance_transaction_inv acquire_finalization_lease_inv publish_artifacts_inv publish_workspace_inv reject_artifacts_inv

lemma step_inv: "lifecycle_inv db \<Longrightarrow> lifecycle_inv (step e db)"
  by (cases e) (simp_all add: step_invs fail_claim_def release_claim_def)

interpretation service: transition_system step empty_db lifecycle_inv
  by unfold_locales (rule lifecycle_inv_empty, rule step_inv)

section \<open>Evolution along runs\<close>

lemma no_workspace_publication:
  "fst (snd (publish_workspace no_workspace Committed fresh lease staged bundle name pid now (db, ()))) =
     (case publish_workspace_transaction no_workspace fresh lease staged bundle name () pid now (db, ()) of
        (Inr True, s) \<Rightarrow> fst s | _ \<Rightarrow> db)"
  by (simp add: publish_workspace_def no_workspace_def split: prod.splits sum.splits bool.splits unit.splits)

lemma publish_project_evolves:
  "jobs_evolve (jobs db) (jobs (step (Publish_project fresh lease staged bundle name pid now) db))"
proof -
  obtain r s where e: "publish_workspace_transaction no_workspace fresh lease staged bundle name () pid now (db, ()) = (r, s)"
    by (metis surj_pair)
  have "jobs_evolve (jobs db) (jobs (fst s))"
    using publish_workspace_transaction_evolves [of "(db, ())" no_workspace fresh lease staged "bundle" name "()" pid now] e by simp
  then show ?thesis
    by (simp add: no_workspace_publication e split: sum.splits bool.splits)
qed

lemma session_jobs [simp]:
  "jobs (snd (register_session worker inst ads config fresh now db)) = jobs db"
  "jobs (snd (heartbeat_session worker s reported config now db)) = jobs db"
  "jobs (snd (drain_session worker s now db)) = jobs db" "jobs (expire_sessions now db) = jobs db"
  "jobs (expire_draining_sessions now db) = jobs db" "jobs (snd (pin_project_assets i keys now db)) = jobs db"
  "jobs (release_project_asset_pins i db) = jobs db"
  by (simp_all add: register_session_def heartbeat_session_def drain_session_def expire_sessions_def
      expire_draining_sessions_def pin_project_assets_def release_project_asset_pins_def Let_def split: option.splits)

lemma request_jobs [simp]:
  "jobs (snd (begin_worker_request sha identity r route payload now db)) = jobs db"
  "jobs (snd (finish_request rv status body now db)) = jobs db" "jobs (snd (abort_request rv db)) = jobs db"
  by (simp_all add: begin_worker_request_def reserve_request_def finish_request_def abort_request_def Let_def
      split: option.splits)

lemmas step_evolves = store_prepared_input_evolves mark_preparation_failed_evolves cancel_job_evolves try_claim_evolves
  heartbeat_claim_evolves complete_claim_evolves mutate_failed_claim_evolves maintenance_transaction_evolves
  acquire_finalization_lease_evolves publish_artifacts_evolves reject_artifacts_evolves

lemma jobs_evolve_step:
  assumes inv: "lifecycle_inv db" and "\<And>config command. e \<noteq> Reserve config command"
  shows "jobs_evolve (jobs db) (jobs (step e db))"
proof (cases "\<exists>fresh lease staged bundle name pid now. e = Publish_project fresh lease staged bundle name pid now")
  case True
  then show ?thesis using publish_project_evolves by blast
next
  case False
  then show ?thesis
    using assms(2) keys_okD(1) [OF lifecycle_invD(2) [OF inv]] inv
    by (cases e) (blast | simp add: step_evolves fail_claim_def release_claim_def)+
qed

text \<open>A row after any event comes from the same row, or is the one that \<open>reserve_job\<close> appended.\<close>

lemma step_row:
  assumes inv: "lifecycle_inv db" and j': "j' \<in> set (jobs (step e db))"
  shows "(\<exists>j \<in> set (jobs db). job_evolves j j') \<or>
    (\<exists>config command. e = Reserve config command \<and> j' = new_job_row config command \<and>
       (\<forall>j \<in> set (jobs db). j_id j \<noteq> j_id j'))"
proof (cases "\<exists>config command. e = Reserve config command")
  case True
  then obtain config command where e: "e = Reserve config command" by blast
  show ?thesis
  proof (cases rule: reserve_job_cases [of config command db])
    case unchanged
    with e j' have "j' \<in> set (jobs db)" by simp
    then show ?thesis using job_evolves_refl by blast
  next
    case inserted
    then have "jobs (step e db) = jobs db @ [new_job_row config command]" by (simp add: e)
    with j' consider "j' \<in> set (jobs db)" | "j' = new_job_row config command" by auto
    then show ?thesis
    proof cases
      case 1
      then show ?thesis using job_evolves_refl by blast
    next
      case 2
      with inserted(2) have "\<forall>j \<in> set (jobs db). j_id j \<noteq> j_id j'" by (auto simp: job_conflict_def)
      with e 2 show ?thesis by blast
    qed
  qed
next
  case False
  with jobs_evolve_step [OF inv] j' show ?thesis by (metis jobs_evolve_def)
qed

section \<open>Publication into any Workspace\<close>

text \<open>Publication is all or nothing: \<open>published_db\<close> is the store it leaves when it takes effect.\<close>

definition published_db ::
  "(nat \<Rightarrow> uuid) \<Rightarrow> finalization_lease \<Rightarrow> staged_artifact list \<Rightarrow> uuid \<Rightarrow> instant \<Rightarrow> processing_db \<Rightarrow> processing_db option" where
  "published_db fresh lease staged pid now db =
     (if \<not> lock_finalization lease now db then None
      else case publish_staged_artifacts fresh 0 (fl_job_id lease) now staged db of
             None \<Rightarrow> None
           | Some db' \<Rightarrow>
               if rows_affected (holds_lease lease) (jobs db') = 1
               then Some (db'\<lparr>jobs := update_where (holds_lease lease)
                      (\<lambda>j. succeed_job now j\<lparr>j_result_project_id := Some pid\<rparr>) (jobs db')\<rparr>)
               else None)"

lemma publish_workspace_transaction_db:
  assumes "publish_workspace_transaction ports fresh lease staged bndl name sa pid now (db, w) = (Inr True, (db', w'))"
  shows "published_db fresh lease staged pid now db = Some db'"
    and "\<exists>graph w1. wp_provision ports graph sa w = Some w1 \<and>
      wp_mark_dirty ports pid (Some (fl_requester_user_id lease)) w1 = Some w'"
  using assms by (auto simp: publish_workspace_transaction_def published_db_def Let_def split: if_splits option.splits)

lemma publish_workspace_cases:
  obtains (kept) "fst (snd (publish_workspace ports commit fresh lease staged bndl name pid now s)) = fst s"
  | (done_) db' sa w1 w2 where "published_db fresh lease staged pid now (fst s) = Some db'" "commit \<noteq> Ambiguous_lost"
      "wp_stage ports pid (vb_assets bndl) (snd s) = (Some sa, w1)"
      "publish_workspace_transaction ports fresh lease staged bndl name sa pid now (fst s, w1) = (Inr True, (db', w2))"
      "fst (snd (publish_workspace ports commit fresh lease staged bndl name pid now s)) = db'"
proof (cases "wp_stage ports pid (vb_assets bndl) (snd s)")
  case (Pair so w1)
  show thesis
  proof (cases so)
    case None
    with Pair show thesis by (intro kept) (simp add: publish_workspace_def)
  next
    case (Some sa)
    obtain r db2 w2 where
      e: "publish_workspace_transaction ports fresh lease staged bndl name sa pid now (fst s, w1) = (r, (db2, w2))"
      by (metis surj_pair)
    show thesis
    proof (cases "r = Inr True \<and> commit \<noteq> Ambiguous_lost")
      case True
      with Pair Some e publish_workspace_transaction_db(1) [of ports fresh lease staged bndl name sa pid now "fst s" w1 db2 w2]
      show thesis by (intro done_ [of db2 sa w1 w2]) (cases commit; simp add: publish_workspace_def)+
    next
      case False
      with Pair Some e show thesis
        by (intro kept) (cases r; cases commit; simp add: publish_workspace_def split: bool.split unit.split)
    qed
  qed
qed

lemma publish_project_step:
  "step (Publish_project fresh lease staged bndl name pid now) db =
     (case published_db fresh lease staged pid now db of None \<Rightarrow> db | Some db' \<Rightarrow> db')"
proof (cases "lock_finalization lease now db")
  case False
  then show ?thesis
    by (simp add: publish_workspace_def publish_workspace_transaction_def no_workspace_def published_db_def)
next
  case True
  then show ?thesis
  proof (cases "publish_staged_artifacts fresh 0 (fl_job_id lease) now staged db")
    case None
    with True show ?thesis
      by (simp add: publish_workspace_def publish_workspace_transaction_def no_workspace_def published_db_def split: unit.split)
  next
    case (Some db')
    with True show ?thesis
      by (cases "rows_affected (holds_lease lease) (jobs db') = 1")
        (simp_all add: publish_workspace_def publish_workspace_transaction_def no_workspace_def published_db_def)
  qed
qed

section \<open>The finalization lease as a fence\<close>

definition finalization_holder :: "uuid \<Rightarrow> processing_db \<Rightarrow> uuid option" where
  "finalization_holder i db =
     (case find (\<lambda>j. j_id j = i) (jobs db) of None \<Rightarrow> None | Some j \<Rightarrow> j_finalization_token j)"

definition acquire_for ::
  "uuid \<Rightarrow> processing_config \<Rightarrow> (uuid \<Rightarrow> bool) \<Rightarrow> uuid \<Rightarrow> instant \<Rightarrow> processing_db \<Rightarrow> processing_db option" where
  "acquire_for i config locked token now db =
     (case acquire_finalization_lease config locked token now db of
        (Some lease, db') \<Rightarrow> if fl_job_id lease = i then Some db' else None
      | (None, _) \<Rightarrow> None)"

lemma find_job:
  assumes "lifecycle_inv db" and "j \<in> set (jobs db)"
  shows "find (\<lambda>k. j_id k = j_id j) (jobs db) = Some j"
  using find_key [OF keys_okD(1) [OF lifecycle_invD(2) [OF assms(1)]] assms(2)] by simp

lemma holder_iff:
  assumes inv: "lifecycle_inv db"
  shows "finalization_holder i db = Some t \<longleftrightarrow>
    (\<exists>j \<in> set (jobs db). j_id j = i \<and> j_finalization_token j = Some t)"
proof
  assume "finalization_holder i db = Some t"
  then show "\<exists>j \<in> set (jobs db). j_id j = i \<and> j_finalization_token j = Some t"
    by (auto simp: finalization_holder_def split: option.splits dest: find_Some_set)
next
  assume "\<exists>j \<in> set (jobs db). j_id j = i \<and> j_finalization_token j = Some t"
  then show "finalization_holder i db = Some t"
    using find_job [OF inv] by (auto simp: finalization_holder_def)
qed

lemma acquire_for_Some:
  assumes "acquire_for i config locked token now db = Some db'"
  obtains j where "j \<in> set (jobs db)" "finalizable locked now j" "j_id j = i"
    "db' = snd (acquire_finalization_lease config locked token now db)"
    "jobs db' = update_where (\<lambda>x. j_id x = i) (take_lease token (now + c_finalization_lease config) now) (jobs db)"
proof (cases "first_by j_updated_at (filter (finalizable locked now) (jobs db))")
  case None
  then have "acquire_finalization_lease config locked token now db = (None, db)"
    unfolding acquire_finalization_lease_def by (simp only: option.case)
  with assms show thesis by (simp add: acquire_for_def)
next
  case (Some j)
  with assms have "j_id j = i" "db' = snd (acquire_finalization_lease config locked token now db)"
    by (auto simp: acquire_for_def acquire_finalization_lease_def lease_of_def split: if_splits)
  with Some first_by_Some(1) [OF Some] show thesis
    by (intro that [of j]) (auto simp: acquire_finalization_lease_def)
qed

lemma acquire_for_holder:
  assumes inv: "lifecycle_inv db" and acq: "acquire_for i config locked token now db = Some db'"
  shows "lifecycle_inv db'" and "finalization_holder i db' = Some token"
proof -
  from acq obtain j where j: "j \<in> set (jobs db)" "j_id j = i"
    and db': "db' = snd (acquire_finalization_lease config locked token now db)"
    and js: "jobs db' = update_where (\<lambda>x. j_id x = i) (take_lease token (now + c_finalization_lease config) now) (jobs db)"
    by (rule acquire_for_Some)
  show inv': "lifecycle_inv db'" unfolding db' by (rule acquire_finalization_lease_inv [OF inv])
  have "take_lease token (now + c_finalization_lease config) now j \<in> set (jobs db')"
    unfolding js in_update_where using j by auto
  then show "finalization_holder i db' = Some token"
    unfolding holder_iff [OF inv'] using j(2) by (intro bexI [of _ "take_lease token (now + c_finalization_lease config) now j"])
      (simp_all add: take_lease_def)
qed

lemma not_holder_unlocked:
  assumes "lifecycle_inv db" and "finalization_holder (fl_job_id lease) db \<noteq> Some (fl_token lease)"
  shows "\<not> lock_finalization lease now db" and "\<And>j. j \<in> set (jobs db) \<Longrightarrow> \<not> holds_lease lease j"
  using assms(2) unfolding holder_iff [OF assms(1)] by (auto simp: lock_finalization_iff holds_lease_def)

lemma holder_released:
  assumes inv: "lifecycle_inv db" and "j \<in> set (jobs db)" and "j_id j = i" and "j_state j \<noteq> Finalizing"
  shows "finalization_holder i db = None"
  using assms find_job [OF inv assms(2)] lifecycle_invD(1) [OF inv assms(2)]
  by (auto simp: finalization_holder_def job_row_ok_def)

lemma closed_releases:
  assumes inv': "lifecycle_inv db'" and js: "jobs db' = update_where P g (jobs db)"
    and ex: "j \<in> set (jobs db)" "P j" "j_id (g j) = i" "j_state (g j) \<noteq> Finalizing"
  shows "finalization_holder i db' = None"
proof (rule holder_released [OF inv', of "g j"])
  show "g j \<in> set (jobs db')" unfolding js in_update_where using ex by auto
qed (use ex in simp_all)

text \<open>The publication and the rejection of a result by the finalizer that took the lease with token \<open>t\<close>.\<close>

interpretation publication: fenced_lease lifecycle_inv "finalization_holder (fl_job_id lease)"
  "acquire_for (fl_job_id lease) config locked"
  "\<lambda>t now db. snd (publish_artifacts fresh (lease\<lparr>fl_token := t\<rparr>) staged now db)" for lease config locked fresh staged
proof (unfold_locales, goal_cases)
  case (1 s t now s')
  then show ?case by (rule acquire_for_holder(1))
next
  case (2 s t now s')
  then show ?case by (rule acquire_for_holder(2))
next
  case (3 s t now)
  then show ?case by (rule publish_artifacts_inv)
next
  case (4 s t now)
  then show ?case using not_holder_unlocked(1) [of s "lease\<lparr>fl_token := t\<rparr>" now] by (simp add: publish_artifacts_def)
next
  case (5 s t now)
  let ?l = "lease\<lparr>fl_token := t\<rparr>" and ?db = "snd (publish_artifacts fresh (lease\<lparr>fl_token := t\<rparr>) staged now s)"
  from 5(2) obtain db1 where lock: "lock_finalization ?l now s"
    and pub: "publish_staged_artifacts fresh 0 (fl_job_id ?l) now staged s = Some db1"
    and db: "?db = db1\<lparr>jobs := update_where (holds_lease ?l) (succeed_job now) (jobs db1)\<rparr>"
    by (auto simp: publish_artifacts_def split: if_splits option.splits)
  from lock obtain j where j: "j \<in> set (jobs s)" "holds_lease ?l j" by (auto simp: lock_finalization_iff)
  have "jobs ?db = update_where (holds_lease ?l) (succeed_job now) (jobs s)"
    unfolding db by (simp add: publish_staged_jobs [OF pub])
  from closed_releases [OF publish_artifacts_inv [OF 5(1)] this j] j(2) show ?case
    by (simp add: succeed_job_def holds_lease_def)
qed

interpretation rejection: fenced_lease lifecycle_inv "finalization_holder (fl_job_id lease)"
  "acquire_for (fl_job_id lease) config locked"
  "\<lambda>t now db. reject_artifacts (lease\<lparr>fl_token := t\<rparr>) failure now db" for lease config locked failure
proof (unfold_locales, goal_cases)
  case (1 s t now s')
  then show ?case by (rule acquire_for_holder(1))
next
  case (2 s t now s')
  then show ?case by (rule acquire_for_holder(2))
next
  case (3 s t now)
  then show ?case by (rule reject_artifacts_inv)
next
  case (4 s t now)
  then show ?case using not_holder_unlocked(2) [of s "lease\<lparr>fl_token := t\<rparr>"]
    by (simp add: reject_artifacts_def update_where_none)
next
  case (5 s t now)
  let ?P = "\<lambda>j. holds_lease (lease\<lparr>fl_token := t\<rparr>) j \<and> null_gt (j_finalization_expires_at j) now"
  have "\<exists>j \<in> set (jobs s). ?P j"
  proof (rule ccontr)
    assume "\<not> ?thesis"
    then have "update_where ?P (reject_job failure now) (jobs s) = jobs s" by (intro update_where_none) auto
    then have "reject_artifacts (lease\<lparr>fl_token := t\<rparr>) failure now s = s" by (simp add: reject_artifacts_def)
    with 5(2) show False by simp
  qed
  then obtain j where j: "j \<in> set (jobs s)" "?P j" by blast
  show ?case
    by (rule closed_releases [OF reject_artifacts_inv [OF 5(1)], where P = ?P and g = "reject_job failure now" and db = s and j = j])
      (use j in \<open>auto simp: reject_artifacts_def reject_job_def holds_lease_def\<close>)
qed

end
