(* ===== verification/Example_Run.thy ===== *)
theory Example_Run
  imports Processing_Lifecycle "HOL-Library.Code_Target_Numeral"
begin

text \<open>
  A small run of the service on which the properties are instantiated: one worker, a LaTeX job
  that is reserved, prepared, claimed, delivered and published, and a second job like it. The
  digest is a constant function of length 32 and times are in microseconds.
\<close>

definition ex_sha :: "bytes \<Rightarrow> bytes" where "ex_sha c = replicate 32 (CHR ''h'')"
definition ex_unhex :: "string \<Rightarrow> bytes option" where "ex_unhex s = Some (ex_sha s)"

definition ex_worker :: authenticated_worker where
  "ex_worker = \<lparr>aw_identity = ''tex-1'', aw_operations = [(LatexCompilePdfV1, [''tex/v1''])]\<rparr>"

definition ex_config :: processing_config where
  "ex_config = \<lparr>c_identities = [], c_max_queued_jobs = 3, c_max_active_jobs_per_user = 2,
     c_max_active_jobs_per_project = 2, c_max_input_bytes = 1000, c_max_output_bytes = 1000,
     c_max_diagnostic_bytes = 100, c_job_wall_seconds = 300, c_queue_wait = 5000, c_retention = 10000,
     c_claim_lease = 100, c_session_lease = 200, c_transfer_ttl = 300, c_finalization_lease = 60\<rparr>"

definition ex_command :: "uuid \<Rightarrow> string \<Rightarrow> instant \<Rightarrow> reserve_command" where
  "ex_command i key now = \<lparr>rc_id = i, rc_operation = LatexCompilePdfV1, rc_requester_user_id = 7, rc_project_id = Some 5,
     rc_idempotency_scope = ''project:5'', rc_idempotency_key = key, rc_command_digest = ex_sha key,
     rc_normalized_options = JNull, rc_options_digest = ex_sha [], rc_now = now\<rparr>"

definition ex_input :: "instant \<Rightarrow> prepared_input" where
  "ex_input now = \<lparr>pi_schema = ''project-bundle/v1'', pi_media_type = project_bundle_media_type, pi_bytes = ''zip'',
     pi_digest = ex_sha ''zip'', pi_normalized_options = JNull, pi_options_digest = ex_sha [],
     pi_workspace_version = Some 1, pi_content_epoch = Some 1, pi_source_epoch = Some 1, pi_now = now\<rparr>"

definition ex_env :: "uuid \<Rightarrow> claim_env" where
  "ex_env n = \<lparr>e_sha256 = ex_sha, e_attempt_id = n, e_claim_id = n + 1, e_transfer_id = n + 2, e_token = ''t'',
     e_hex = (\<lambda>b. b), e_show = (\<lambda>_. ''id''), e_locked = (\<lambda>_. False)\<rparr>"

definition ex_offer :: capacity_offer where
  "ex_offer = \<lparr>of_operation = LatexCompilePdfV1, of_processor_contract = ''tex/v1'', of_slots = 1\<rparr>"

definition ex_claim :: "uuid \<Rightarrow> instant \<Rightarrow> event" where
  "ex_claim n now = Claim ex_worker 30 [ex_offer] ex_config (ex_env n) now now"

definition ex_request :: "uuid \<Rightarrow> artifact_request" where
  "ex_request c = \<lparr>tr_session_id = 30, tr_claim_id = c, tr_role = ''pdf'', tr_media_type = ''application/pdf'',
     tr_filename = ''out.pdf'', tr_size_bytes = 11, tr_expected_sha256 = ex_sha ''pdf''\<rparr>"

definition ex_artifact :: "uuid \<Rightarrow> completed_artifact" where
  "ex_artifact t = \<lparr>ca_transfer_id = t, ca_role = ''pdf'', ca_size_bytes = 11, ca_sha256 = ''hh''\<rparr>"

text \<open>A job that is claimed: the state that the claim properties are about.\<close>

definition ex_started :: "event list" where
  "ex_started =
     [Reserve ex_config (ex_command 1 ''k1'' 0), Store_input 20 1 (ex_input 1),
      Register ex_worker ''host'' [\<lparr>ad_operation = LatexCompilePdfV1, ad_processor_contract = ''tex/v1'',
        ad_runtime_version = ''1'', ad_slots = 2\<rparr>] ex_config 30 2,
      ex_claim 40 3]"

text \<open>Its artifact is uploaded and delivered, and a finalizer takes the lease.\<close>

definition ex_delivered :: "event list" where
  "ex_delivered = ex_started @
     [Ticket ex_sha ex_worker (ex_request 41) ex_config 50 ''u'' 4 4,
      Upload_artifact ex_sha 50 ''ptx_u'' ''%PDF- %%EOF'' 51 5,
      Deliver ex_unhex ex_worker 30 41 [ex_artifact 50] 6,
      Acquire_lease ex_config (\<lambda>_. False) 60 7]"

definition ex_lease :: finalization_lease where
  "ex_lease = \<lparr>fl_job_id = 1, fl_token = 60, fl_operation = LatexCompilePdfV1, fl_requester_user_id = 7,
     fl_project_id = Some 5, fl_cache_source_job_id = None, fl_normalized_options = JNull\<rparr>"

definition ex_staged :: "staged_artifact list" where
  "ex_staged = [\<lparr>sa_transfer_id = Some 50, sa_blob_id = 51, sa_role = ''pdf'', sa_media_type = ''application/pdf'',
     sa_filename = ''out.pdf'', sa_size_bytes = 11, sa_sha256 = ex_sha ''pdf'', sa_content = ''%PDF- %%EOF''\<rparr>]"

text \<open>The result is published; a second job with the same input hits the cache.\<close>

definition ex_published :: "event list" where
  "ex_published = ex_delivered @ [Publish (\<lambda>i. 70 + i) ex_lease ex_staged 8]"

definition ex_completion :: "event list" where
  "ex_completion =
     [Ticket ex_sha ex_worker (ex_request 41) ex_config 50 ''u'' 4 4,
      Upload_artifact ex_sha 50 ''ptx_u'' ''%PDF- %%EOF'' 51 5,
      Deliver ex_unhex ex_worker 30 41 [ex_artifact 50] 6,
      Acquire_lease ex_config (\<lambda>_. False) 60 7, Publish (\<lambda>i. 70 + i) ex_lease ex_staged 8]"

lemma ex_published_split: "ex_published = ex_started @ ex_completion"
  by (simp add: ex_published_def ex_delivered_def ex_completion_def)

text \<open>The requester cancels the running job, and its worker then gives up.\<close>

definition ex_cancelled :: "event list" where
  "ex_cancelled = ex_started @ [Cancel 7 1 5]"

definition ex_failure :: event where
  "ex_failure = Fail_claim ex_worker 30 41 TransientInfrastructure ''stopped'' ''worker stopped'' 6"

definition ex_cached :: "event list" where
  "ex_cached = ex_published @
     [Reserve ex_config (ex_command 2 ''k2'' 9), Store_input 21 2 (ex_input 10), ex_claim 80 11,
      Acquire_lease ex_config (\<lambda>_. False) 61 12]"

abbreviation ex_db :: "event list \<Rightarrow> processing_db" where
  "ex_db es \<equiv> run es empty_db"

lemma hd_of_map: "map f xs = y # ys \<Longrightarrow> hd xs \<in> set xs \<and> f (hd xs) = y"
  by (cases xs) auto

abbreviation ex_job :: "event list \<Rightarrow> job_row" where
  "ex_job es \<equiv> hd (jobs (ex_db es))"

lemma ex_started_states:
  "map (\<lambda>j. (j_id j, j_state j, j_current_claim_id j, j_claim_expires_at j, j_attempt_count j)) (jobs (ex_db ex_started)) =
     [(1, Running, Some 41, Some 103, 1)]"
  by code_simp

lemma ex_started_job:
  "ex_job ex_started \<in> set (jobs (ex_db ex_started))" "j_id (ex_job ex_started) = 1"
  "j_state (ex_job ex_started) = Running" "j_current_claim_id (ex_job ex_started) = Some 41"
  "j_claim_expires_at (ex_job ex_started) = Some 103" "j_attempt_count (ex_job ex_started) = 1"
  using hd_of_map [OF ex_started_states] by simp_all

lemma ex_published_states:
  "map (\<lambda>j. (j_id j, j_state j)) (jobs (ex_db ex_published)) = [(1, Succeeded)]"
  "map (\<lambda>f. (f_id f, f_job_id f, f_blob_id f, f_role f)) (artifacts (ex_db ex_published)) = [(70, 1, 51, ''pdf'')]"
  by code_simp+

lemma ex_published_job:
  "ex_job ex_published \<in> set (jobs (ex_db ex_published))" "j_id (ex_job ex_published) = 1"
  "j_state (ex_job ex_published) = Succeeded"
  using hd_of_map [OF ex_published_states(1)] by simp_all

lemma ex_published_claims:
  "map j_current_claim_id (jobs (ex_db ex_published)) = [None]"
  "map (\<lambda>t. (t_id t, t_claim_id t)) (transfers (ex_db ex_published)) = [(42, 41), (50, 41)]"
  by code_simp+

lemma ex_cancelled_states:
  "map (\<lambda>j. (j_id j, j_cancellation_requested j)) (jobs (ex_db ex_cancelled)) = [(1, True)]"
  "map (\<lambda>j. (j_id j, j_state j)) (jobs (ex_db (ex_cancelled @ [ex_failure]))) = [(1, Cancelled)]"
  by code_simp+

lemma ex_cancelled_job:
  "ex_job ex_cancelled \<in> set (jobs (ex_db ex_cancelled))" "j_id (ex_job ex_cancelled) = 1"
  "j_cancellation_requested (ex_job ex_cancelled)"
  "ex_job (ex_cancelled @ [ex_failure]) \<in> set (jobs (ex_db (ex_cancelled @ [ex_failure])))"
  "j_id (ex_job (ex_cancelled @ [ex_failure])) = 1" "j_state (ex_job (ex_cancelled @ [ex_failure])) = Cancelled"
  using hd_of_map [OF ex_cancelled_states(1)] hd_of_map [OF ex_cancelled_states(2)] by simp_all

lemma ex_cached_states:
  "map (\<lambda>j. (j_id j, j_state j, j_cache_source_job_id j)) (jobs (ex_db ex_cached)) =
     [(1, Succeeded, None), (2, Finalizing, Some 1)]"
  by code_simp

lemma ex_cached_lease:
  "map (\<lambda>j. (j_id j, j_state j, j_finalization_token j, j_cache_source_job_id j)) (tl (jobs (ex_db ex_cached))) =
     [(2, Finalizing, Some 61, Some 1)]"
  by code_simp

end
