(* ===== verification/Run_Properties.thy ===== *)
theory Run_Properties
  imports Example_Run
begin

text \<open>
  Properties of every run of the service: what holds of the jobs, attempts and results in the
  states that any sequence of transactions reaches from the empty store.
\<close>

section \<open>Shared facts\<close>

lemma reachable_inv: "lifecycle_inv (run es empty_db)"
  by (rule service.inv_run)

lemmas reachable_row = lifecycle_invD(1) [OF reachable_inv]
lemmas reachable_keys = keys_okD [OF lifecycle_invD(2) [OF reachable_inv]]
lemmas reachable_claims = claims_okD [OF lifecycle_invD(3) [OF reachable_inv]]

lemma filter_unique:
  assumes "distinct t" and "a \<in> set t" and "\<And>x. x \<in> set t \<Longrightarrow> P x \<longleftrightarrow> x = a"
  shows "filter P t = [a]"
proof -
  have "filter P t = filter (\<lambda>x. x = a) t" using assms(3) by (rule filter_cong [OF refl])
  also have "\<dots> = [a]" using assms(1,2)
    by (induction t) (auto simp: filter_empty_conv)
  finally show ?thesis .
qed

lemma find_by_key:
  assumes "distinct (map k t)" and "r \<in> set t" and "P r" and "\<And>x. P x \<Longrightarrow> k x = k r"
  shows "find P t = Some r"
proof (cases "find P t")
  case None
  with assms(2,3) show ?thesis by (simp add: find_None_set)
next
  case (Some x)
  with find_Some_set [OF Some] key_unique [OF assms(1) _ assms(2)] assms(4) show ?thesis by blast
qed

text \<open>The running attempts of a job, by the invariant.\<close>

lemma running_attempts:
  assumes inv: "lifecycle_inv db" and j: "j \<in> set (jobs db)"
  shows "j_state j = Running \<Longrightarrow> \<exists>a. owns j a \<and>
      filter (\<lambda>a. a_state a = Running_attempt \<and> a_job_id a = j_id j) (attempts db) = [a]"
    and "j_state j \<noteq> Running \<Longrightarrow> filter (\<lambda>a. a_state a = Running_attempt \<and> a_job_id a = j_id j) (attempts db) = []"
proof -
  note claims = claims_okD [OF lifecycle_invD(3) [OF inv]] and keys = keys_okD [OF lifecycle_invD(2) [OF inv]]
  have own: "owns j x" if "x \<in> set (attempts db)" "a_state x = Running_attempt" "a_job_id x = j_id j" for x
  proof -
    from claims(1) [OF that(1,2)] obtain k where k: "k \<in> set (jobs db)" "owns k x" by blast
    then have "j_id k = j_id j" using that(3) by (simp add: owns_def)
    then have "k = j" using key_unique [OF keys(1) k(1) j] by simp
    with k show ?thesis by simp
  qed
  show "filter (\<lambda>a. a_state a = Running_attempt \<and> a_job_id a = j_id j) (attempts db) = []" if "j_state j \<noteq> Running"
    using own that by (auto simp: filter_empty_conv owns_def)
  show "\<exists>a. owns j a \<and> filter (\<lambda>a. a_state a = Running_attempt \<and> a_job_id a = j_id j) (attempts db) = [a]"
    if "j_state j = Running"
  proof -
    from claims(2) [OF j that] obtain a where a: "a \<in> set (attempts db)" "a_state a = Running_attempt" "owns j a" by blast
    have "(a_state x = Running_attempt \<and> a_job_id x = j_id j) \<longleftrightarrow> x = a" if x: "x \<in> set (attempts db)" for x
    proof
      assume "a_state x = Running_attempt \<and> a_job_id x = j_id j"
      with own [OF x] a(3) have "a_claim_id x = a_claim_id a" by (simp add: owns_def)
      then show "x = a" using key_unique [OF keys(3) x a(1)] by simp
    qed (use a in \<open>simp add: owns_def\<close>)
    then have "filter (\<lambda>a. a_state a = Running_attempt \<and> a_job_id a = j_id j) (attempts db) = [a]"
      using keys(2) a(1) by (intro filter_unique) (auto simp: distinct_map)
    with a(3) show ?thesis by blast
  qed
qed

text \<open>Evolution along a run in which the identifier is not reserved again (identifiers are random).\<close>

lemma run_evolves:
  assumes "lifecycle_inv db" and "j' \<in> set (jobs (run fs db))"
    and "\<And>config command. Reserve config command \<in> set fs \<Longrightarrow> rc_id command \<noteq> j_id j'"
  shows "\<exists>j \<in> set (jobs db). job_evolves j j'"
  using assms
proof (induction fs arbitrary: db)
  case Nil
  then have "j' \<in> set (jobs db)" by simp
  then show ?case by (rule bexI [rotated]) simp
next
  case (Cons e fs)
  have "\<exists>k \<in> set (jobs (step e db)). job_evolves k j'"
    using Cons.prems step_inv by (intro Cons.IH) auto
  then obtain k where k: "k \<in> set (jobs (step e db))" "job_evolves k j'" by blast
  from step_row [OF Cons.prems(1) k(1)] show ?case
  proof (elim disjE exE conjE)
    assume "\<exists>j \<in> set (jobs db). job_evolves j k"
    with k(2) job_evolves_trans show ?thesis by blast
  next
    fix config command assume e: "e = Reserve config command" "k = new_job_row config command"
    then have "j_id j' = rc_id command" using k(2) by (simp add: job_evolves_def new_job_row_def)
    with Cons.prems(3) [of config command] e show ?thesis by simp
  qed
qed

lemma run_evolves_from:
  assumes "j \<in> set (jobs (run es empty_db))" and "j' \<in> set (jobs (run (es @ fs) empty_db))" and "j_id j' = j_id j"
    and "\<And>config command. Reserve config command \<in> set fs \<Longrightarrow> rc_id command \<noteq> j_id j"
  shows "job_evolves j j'"
proof -
  have "j' \<in> set (jobs (run fs (run es empty_db)))" using assms(2) by (simp add: run_events_append)
  from run_evolves [OF reachable_inv this] assms(3,4) obtain k where
    k: "k \<in> set (jobs (run es empty_db))" "job_evolves k j'" by auto
  then have "j_id k = j_id j" using assms(3) by (simp add: job_evolves_def)
  then have "k = j" using key_unique [OF reachable_keys(1) k(1) assms(1)] by simp
  with k(2) show ?thesis by simp
qed

section \<open>Claims\<close>

text \<open>
  C1. Exclusive claims: in every reachable state a job has exactly one running attempt when it is
  running, the one whose claim identifier, lease and number the job row carries, and none
  otherwise; so no two workers ever work on a job under claims that the service accepts.
\<close>

theorem claim_exclusive:
  assumes "j \<in> set (jobs (run es empty_db))"
  shows "map (\<lambda>a. (Some (a_claim_id a), Some (a_lease_expires_at a), a_attempt_number a))
      (filter (\<lambda>a. a_state a = Running_attempt \<and> a_job_id a = j_id j) (attempts (run es empty_db))) =
    (if j_state j = Running then [(j_current_claim_id j, j_claim_expires_at j, j_attempt_count j)] else [])"
  using running_attempts [OF reachable_inv assms] by (cases "j_state j = Running") (auto simp: owns_def)

theorem claim_exclusive_witness:
  "map (\<lambda>a. (Some (a_claim_id a), Some (a_lease_expires_at a), a_attempt_number a))
      (filter (\<lambda>a. a_state a = Running_attempt \<and> a_job_id a = 1) (attempts (ex_db ex_started))) = [(Some 41, Some 103, 1)]"
  using claim_exclusive [OF ex_started_job(1)] by (simp add: ex_started_job)

text \<open>C2. A job is attempted at most three times, however often its claims fail, are released or expire.\<close>

theorem attempts_bounded:
  "length (filter (\<lambda>a. a_job_id a = i) (attempts (run es empty_db))) \<le> 3"
proof -
  let ?as = "filter (\<lambda>a. a_job_id a = i) (attempts (run es empty_db))"
  have n: "a_attempt_number a \<in> {1..3}" if "a \<in> set ?as" for a
  proof -
    from that reachable_claims(3) obtain j where j: "j \<in> set (jobs (run es empty_db))"
      "1 \<le> a_attempt_number a" "a_attempt_number a \<le> j_attempt_count j" by fastforce
    from reachable_row [OF j(1)] have "j_attempt_count j \<le> 3" by (simp add: job_row_ok_def)
    with j show ?thesis by simp
  qed
  have "distinct (map a_attempt_number ?as)"
    using reachable_keys(6) [of es] by (auto simp: distinct_map inj_on_def)
  then have "length ?as = card (a_attempt_number ` set ?as)"
    by (metis distinct_card length_map list.set_map)
  also have "\<dots> \<le> card {1..3::int}" using n by (intro card_mono) auto
  finally show ?thesis by simp
qed

section \<open>The life of a job\<close>

text \<open>
  C3. The job state machine: along any run a job keeps its identity (operation, requester, project,
  idempotency key, command digest), its attempt count and its cancellation flag never go back,
  and its state moves only along \<open>job_edge\<close>; a terminal state is final. Identifiers are random,
  so the run does not reserve the identifier again.
\<close>

theorem job_lifecycle:
  assumes "j \<in> set (jobs (run es empty_db))" and "j' \<in> set (jobs (run (es @ fs) empty_db))" and "j_id j' = j_id j"
    and "\<And>config command. Reserve config command \<in> set fs \<Longrightarrow> rc_id command \<noteq> j_id j"
  shows "job_edge\<^sup>*\<^sup>* (j_state j) (j_state j') \<and> (is_terminal (j_state j) \<longrightarrow> j_state j' = j_state j) \<and>
    j_attempt_count j \<le> j_attempt_count j' \<and> (j_cancellation_requested j \<longrightarrow> j_cancellation_requested j') \<and>
    (j_operation j', j_requester_user_id j', j_project_id j', j_idempotency_key j', j_command_digest j') =
      (j_operation j, j_requester_user_id j, j_project_id j, j_idempotency_key j, j_command_digest j)"
  using run_evolves_from [OF assms] terminal_absorbing by (auto simp: job_evolves_def)

theorem job_lifecycle_witness:
  "j_state (ex_job ex_started) = Running \<and> j_state (ex_job ex_published) = Succeeded \<and> job_edge\<^sup>*\<^sup>* Running Succeeded"
  using job_lifecycle [of "ex_job ex_started" ex_started "ex_job ex_published" ex_completion] ex_started_job
    ex_published_job by (simp add: ex_published_split ex_completion_def)

text \<open>
  C4. A cancellation that was requested is never lost: from then on the job is running, until its
  worker stops or its lease ends, or cancelled; it is never queued again and never publishes a result.
\<close>

theorem cancellation_final:
  assumes "j \<in> set (jobs (run es empty_db))" and "j' \<in> set (jobs (run (es @ fs) empty_db))" and "j_id j' = j_id j"
    and "\<And>config command. Reserve config command \<in> set fs \<Longrightarrow> rc_id command \<noteq> j_id j"
    and "j_cancellation_requested j"
  shows "j_state j' = Running \<or> j_state j' = Cancelled"
proof -
  have "j_cancellation_requested j'" using run_evolves_from [OF assms(1-4)] assms(5) by (simp add: job_evolves_def)
  with reachable_row [OF assms(2)] show ?thesis by (simp add: job_row_ok_def)
qed

theorem cancellation_final_witness:
  "j_cancellation_requested (ex_job ex_cancelled) \<and> j_state (ex_job (ex_cancelled @ [ex_failure])) = Cancelled"
  using cancellation_final [of "ex_job ex_cancelled" ex_cancelled "ex_job (ex_cancelled @ [ex_failure])" "[ex_failure]"]
    ex_cancelled_job by (simp add: ex_failure_def)

section \<open>Fencing\<close>

text \<open>Nothing that a claim mutation does acts without the claim being the job's current, unexpired one.\<close>

lemma stale_join:
  assumes inv: "lifecycle_inv db" and stale: "\<And>a j. a \<in> set (attempts db) \<Longrightarrow> j \<in> set (jobs db) \<Longrightarrow> a_claim_id a = c \<Longrightarrow>
      j_current_claim_id j = Some c \<Longrightarrow> a_lease_expires_at a \<le> now"
    and "claim_join worker s c db = Some (a, j)" and "j_current_claim_id j = Some c"
  shows "a_lease_expires_at a \<le> now"
  using claim_join_Some [OF assms(3)] stale assms(4) by blast

lemma stale_transfer:
  assumes inv: "lifecycle_inv db" and stale: "\<And>a j. a \<in> set (attempts db) \<Longrightarrow> j \<in> set (jobs db) \<Longrightarrow> a_claim_id a = c \<Longrightarrow>
      j_current_claim_id j = Some c \<Longrightarrow> a_lease_expires_at a \<le> now"
    and t: "t \<in> set (transfers db)" "t_claim_id t = c"
  shows "\<not> transfer_current now db t"
proof
  assume cur: "transfer_current now db t"
  then obtain a j where a: "a \<in> set (attempts db)" "a_id a = t_attempt_id t" "now < a_lease_expires_at a"
    and j: "j \<in> set (jobs db)" "j_current_claim_id j = Some c" using t(2) by (auto simp: transfer_current_def)
  from lifecycle_invD(4) [OF inv] t(1) obtain x where
    x: "x \<in> set (attempts db)" "a_id x = t_attempt_id t" "a_claim_id x = t_claim_id t" unfolding refs_ok_def by blast
  have "x = a" using key_unique [OF keys_okD(2) [OF lifecycle_invD(2) [OF inv]] x(1) a(1)] x(2) a(2) by simp
  with stale [OF a(1) j(1) _ j(2)] x(3) t(2) a(3) show False by simp
qed

text \<open>
  C5. Stale claims are fenced: once no job names a claim, or its lease has run out, its heartbeat,
  delivery, failure, release and artifact tickets leave the store as it is, whichever worker and
  session present it, and so do the downloads and uploads of its transfers.
\<close>

theorem stale_claim_fenced:
  assumes db: "db = run es empty_db"
    and stale: "\<And>a j. a \<in> set (attempts db) \<Longrightarrow> j \<in> set (jobs db) \<Longrightarrow> a_claim_id a = c \<Longrightarrow>
      j_current_claim_id j = Some c \<Longrightarrow> a_lease_expires_at a \<le> now"
    and t: "\<And>t. t \<in> set (transfers db) \<Longrightarrow> t_id t = i \<Longrightarrow> t_claim_id t = c"
  shows "snd (heartbeat_claim worker s c phase config now db) = db \<and>
    snd (complete_claim hex worker s c arts now db) = db \<and>
    snd (fail_claim worker s c cls code message now db) = db \<and> snd (release_claim worker s c now db) = db \<and>
    snd (create_artifact_transfer sha worker (request\<lparr>tr_claim_id := c\<rparr>) config fresh rnd now issued db) = db \<and>
    snd (download_transfer sha i token now db) = db \<and> snd (upload_transfer sha i token content fresh now db) = db"
proof -
  have inv: "lifecycle_inv db" unfolding db by (rule reachable_inv)
  note join = stale_join [OF inv stale]
  have "\<not> transfer_current now db t" if "t \<in> set (transfers db)" "t_id t = i" for t
    using stale_transfer [OF inv stale that(1) t [OF that]] .
  then have none: "find (\<lambda>t. t_id t = i \<and> transfer_current now db t) (transfers db) = None"
    by (auto simp: find_None_set)
  have mutate: "snd (mutate_failed_claim worker s c failure now db) = db" for failure
    using join by (fastforce simp: mutate_failed_claim_def split: option.splits)
  show ?thesis
  proof (intro conjI)
    show "snd (heartbeat_claim worker s c phase config now db) = db"
      using join by (fastforce simp: heartbeat_claim_def split: option.splits)
    show "snd (complete_claim hex worker s c arts now db) = db"
      using join by (fastforce simp: complete_claim_def Let_def split: option.splits)
    show "snd (create_artifact_transfer sha worker (request\<lparr>tr_claim_id := c\<rparr>) config fresh rnd now issued db) = db"
      using join by (fastforce simp: create_artifact_transfer_def current_claim_def split: option.splits)
  qed (simp_all add: fail_claim_def release_claim_def mutate download_transfer_def upload_transfer_def none)
qed

lemma map_single_all: "map f xs = [y] \<Longrightarrow> x \<in> set xs \<Longrightarrow> f x = y"
  by (cases xs) auto

lemma ex_published_stale:
  "j \<in> set (jobs (ex_db ex_published)) \<Longrightarrow> j_current_claim_id j = None"
  "t \<in> set (transfers (ex_db ex_published)) \<Longrightarrow> t_claim_id t = 41"
proof -
  show "j \<in> set (jobs (ex_db ex_published)) \<Longrightarrow> j_current_claim_id j = None"
    by (rule map_single_all [OF ex_published_claims(1)])
  assume "t \<in> set (transfers (ex_db ex_published))"
  then have "(t_id t, t_claim_id t) \<in> set (map (\<lambda>t. (t_id t, t_claim_id t)) (transfers (ex_db ex_published)))"
    by (auto intro: rev_image_eqI)
  then show "t_claim_id t = 41" unfolding ex_published_claims by auto
qed

theorem stale_claim_fenced_witness:
  "snd (complete_claim ex_unhex ex_worker 30 41 [ex_artifact 50] 9 (ex_db ex_published)) = ex_db ex_published \<and>
   snd (fail_claim ex_worker 30 41 ResourceLimit ''oom'' ''m'' 9 (ex_db ex_published)) = ex_db ex_published \<and>
   snd (upload_transfer ex_sha 50 ''ptx_u'' ''other'' 90 9 (ex_db ex_published)) = ex_db ex_published"
  using stale_claim_fenced [of "ex_db ex_published" ex_published 41 9 50 ex_worker 30 Processing ex_config ex_unhex
      "[ex_artifact 50]" ResourceLimit "''oom''" "''m''" ex_sha "ex_request 41" 90 "''u''" 9 "''ptx_u''" "''other''"]
    ex_published_stale by auto

text \<open>
  C6. A superseded finalizer is fenced: after another finalizer took the lease of a job with its own
  token, a finalizer that still holds the earlier lease of that job can neither publish its result
  (as artifacts or as a project) nor reject it, at any later time.
\<close>

theorem superseded_finalizer_fenced:
  assumes acq: "acquire_finalization_lease config locked token now (run es empty_db) = (Some lease, db)"
    and "fl_job_id old = fl_job_id lease" and "fl_token old \<noteq> token"
  shows "snd (publish_artifacts fresh old staged later db) = db \<and> reject_artifacts old failure later db = db \<and>
    fst (snd (publish_workspace ports commit fresh old staged bndl name pid later (db, w))) = db"
proof -
  have a: "acquire_for (fl_job_id old) config locked token now (run es empty_db) = Some db"
    using acq assms(2) by (simp add: acquire_for_def)
  from publication.superseded_is_fenced [OF reachable_inv a assms(3)]
  have "snd (publish_artifacts fresh old staged later db) = db" by simp
  moreover from rejection.superseded_is_fenced [OF reachable_inv a assms(3)]
  have "reject_artifacts old failure later db = db" by simp
  moreover have "published_db fresh old staged pid later db = None"
    using acquire_for_holder [OF reachable_inv a] assms(3)
    by (simp add: published_db_def not_holder_unlocked(1))
  then have "fst (snd (publish_workspace ports commit fresh old staged bndl name pid later (db, w))) = db"
    by (cases rule: publish_workspace_cases [of ports commit fresh old staged bndl name pid later "(db, w)"]) simp_all
  ultimately show ?thesis by simp
qed

text \<open>The first finalizer's lease (token 60) ends at 67; a second one takes the job at 70.\<close>

theorem superseded_finalizer_fenced_witness:
  "let db = snd (acquire_finalization_lease ex_config (\<lambda>_. False) 61 70 (ex_db ex_delivered)) in
   fl_token ex_lease = 60 \<and> snd (publish_artifacts (\<lambda>i. 70 + i) ex_lease ex_staged 71 db) = db"
proof -
  let ?acq = "acquire_finalization_lease ex_config (\<lambda>_. False) 61 70 (ex_db ex_delivered)"
  have "map_option fl_job_id (fst ?acq) = Some 1" by code_simp
  then obtain lease db where acq: "?acq = (Some lease, db)" "fl_job_id lease = 1" by (cases ?acq) auto
  have lease: "fl_job_id ex_lease = 1" "fl_token ex_lease = 60" by (simp_all add: ex_lease_def)
  from superseded_finalizer_fenced [OF acq(1), of ex_lease "\<lambda>i. 70 + i" ex_staged 71 PdfInvalid no_workspace] acq lease
  have "snd (publish_artifacts (\<lambda>i. 70 + i) ex_lease ex_staged 71 db) = db" by simp
  with lease acq show ?thesis by simp
qed

section \<open>Results\<close>



lemma map_filter_total: "(\<And>x. x \<in> set xs \<Longrightarrow> f x = Some (g x)) \<Longrightarrow> List.map_filter f xs = map g xs"
  by (induction xs) (simp_all add: List.map_filter_simps)



section \<open>Admission\<close>

lemma count_evolves:
  assumes d: "distinct (map j_id t)" "distinct (map j_id t')" and e: "jobs_evolve t t'"
    and Q: "\<And>j j'. job_evolves j j' \<Longrightarrow> Q j' \<Longrightarrow> Q j"
  shows "count_where Q t' \<le> count_where Q t"
proof -
  have len: "length (filter Q x) = card (j_id ` set (filter Q x))" if "distinct (map j_id x)" for x
    using that by (metis distinct_card distinct_map_filter length_map list.set_map)
  have "j_id ` set (filter Q t') \<subseteq> j_id ` set (filter Q t)"
  proof
    fix i assume "i \<in> j_id ` set (filter Q t')"
    then obtain j' where j': "j' \<in> set t'" "Q j'" "i = j_id j'" by auto
    with e obtain j where "j \<in> set t" "job_evolves j j'" unfolding jobs_evolve_def by blast
    with Q j' show "i \<in> j_id ` set (filter Q t)" by (auto simp: job_evolves_def intro!: rev_image_eqI)
  qed
  then have "length (filter Q t') \<le> length (filter Q t)" using len d by (simp add: card_mono)
  then show ?thesis by (simp add: count_where_def)
qed

lemma active_evolves: "job_evolves j j' \<Longrightarrow> active_state (j_state j') \<Longrightarrow> active_state (j_state j)"
  using active_backwards by (auto simp: job_evolves_def)

lemma active_counts_evolve:
  assumes "lifecycle_inv db" and "lifecycle_inv db'" and "jobs_evolve (jobs db) (jobs db')"
  shows "global_active db' \<le> global_active db" and "requester_active u db' \<le> requester_active u db"
    and "project_active p db' \<le> project_active p db"
  unfolding global_active_def requester_active_def project_active_def
  using assms active_evolves keys_okD(1) [OF lifecycle_invD(2)]
  by (intro count_evolves; fastforce simp: job_evolves_def)+

lemma reserve_counts:
  assumes "jobs db' = jobs db @ [new_job_row config command]"
  shows "global_active db' = global_active db + 1"
    and "requester_active u db' = requester_active u db + (if rc_requester_user_id command = u then 1 else 0)"
    and "project_active p db' = project_active p db + (if rc_project_id command = Some p then 1 else 0)"
  using assms by (simp_all add: global_active_def requester_active_def project_active_def new_job_row_def active_state_def)

definition within_limits :: "int \<Rightarrow> int \<Rightarrow> int \<Rightarrow> processing_db \<Rightarrow> bool" where
  "within_limits g u p db \<longleftrightarrow> global_active db \<le> g \<and> (\<forall>i. requester_active i db \<le> u) \<and> (\<forall>i. project_active i db \<le> p)"

lemma within_limits_step:
  assumes inv: "lifecycle_inv db" and w: "within_limits g u p db"
    and c: "\<And>config command. e = Reserve config command \<Longrightarrow> c_max_queued_jobs config \<le> g \<and>
      c_max_active_jobs_per_user config \<le> u \<and> c_max_active_jobs_per_project config \<le> p"
  shows "within_limits g u p (step e db)"
proof (cases "\<exists>config command. e = Reserve config command")
  case False
  from active_counts_evolve [OF inv step_inv [OF inv] jobs_evolve_step [OF inv]] False w show ?thesis
    unfolding within_limits_def by (meson order_trans)
next
  case True
  then obtain config command where e: "e = Reserve config command" by blast
  show ?thesis
  proof (cases rule: reserve_job_cases [of config command db])
    case unchanged
    with e w show ?thesis by simp
  next
    case inserted
    then have "jobs (step e db) = jobs db @ [new_job_row config command]" by (simp add: e)
    from reserve_counts [OF this] inserted(3-5) c [OF e] w show ?thesis
      by (fastforce simp: within_limits_def)
  qed
qed

lemma within_limits_run:
  assumes "lifecycle_inv db" and "within_limits g u p db"
    and "\<And>config command. Reserve config command \<in> set es \<Longrightarrow> c_max_queued_jobs config \<le> g \<and>
      c_max_active_jobs_per_user config \<le> u \<and> c_max_active_jobs_per_project config \<le> p"
  shows "within_limits g u p (run es db)"
  using assms
proof (induction es arbitrary: db)
  case (Cons e es)
  have "within_limits g u p (step e db)" using Cons.prems by (intro within_limits_step) auto
  then have "within_limits g u p (run es (step e db))"
    by (rule Cons.IH [OF step_inv [OF Cons.prems(1)]]) (metis Cons.prems(3) list.set_intros(2))
  then show ?case by simp
qed simp

text \<open>
  C26. Admission control: if every reservation of a run was made under a configuration whose limits
  are at most \<open>g\<close>, \<open>u\<close> and \<open>p\<close>, then at every moment at most \<open>g\<close> jobs are active, at most \<open>u\<close> of
  any requester and at most \<open>p\<close> of any project, whatever workers, finalizers and maintenance do.
\<close>

theorem admission_limits:
  assumes "\<And>config command. Reserve config command \<in> set es \<Longrightarrow> c_max_queued_jobs config \<le> g \<and>
      c_max_active_jobs_per_user config \<le> u \<and> c_max_active_jobs_per_project config \<le> p"
    and "0 \<le> g" and "0 \<le> u" and "0 \<le> p"
  shows "global_active (run es empty_db) \<le> g \<and> requester_active user (run es empty_db) \<le> u \<and>
    project_active project (run es empty_db) \<le> p"
proof -
  have "within_limits g u p empty_db"
    using assms(2-4) by (simp add: within_limits_def global_active_def requester_active_def project_active_def empty_db_def count_where_def)
  from within_limits_run [OF lifecycle_inv_empty this assms(1)] show ?thesis by (simp add: within_limits_def)
qed

theorem admission_limits_witness:
  "global_active (ex_db ex_cached) \<le> 3 \<and> requester_active 7 (ex_db ex_cached) \<le> 2 \<and> project_active 5 (ex_db ex_cached) \<le> 2"
  by (rule admission_limits)
    (auto simp: ex_cached_def ex_published_def ex_delivered_def ex_started_def ex_claim_def ex_config_def)

end
