(* ===== verification/Operation_Properties.thy ===== *)
theory Operation_Properties
  imports Run_Properties
begin

text \<open>
  Properties of single operations of the service in the states it reaches: claiming a job,
  idempotent retries of the requests of clients and workers, and the progress that maintenance
  and a free worker make.
\<close>

section \<open>Claiming\<close>

lemma try_offers_claim:
  assumes "try_offers worker s config env now issued offers db = (Inr (Some claim), db')"
  shows "\<exists>offer \<in> set offers. try_offer worker s config env now issued offer db = Offer_return (Some claim) db'"
  using assms by (induction offers) (auto split: offer_result.splits)

lemma start_attempt_Some:
  assumes "start_attempt env config s opn j blob schema contr now issued db = Some (claim, db')"
  shows "wc_job_id claim = j_id j" "wc_attempt claim = i32_saturate (j_attempt_count j + 1)"
    "wc_claim_id claim = e_claim_id env" "wc_operation claim = opn" "wc_processor_contract claim = contr"
    "attempts db' = attempts db @ [new_attempt env config s j contr now]"
    "jobs db' = update_where (\<lambda>k. j_id k = j_id j) (start_running (i32_saturate (j_attempt_count j + 1))
       (e_claim_id env) (now + c_claim_lease config) contr now) (jobs db)"
  using assms by (auto simp: start_attempt_def Let_def new_attempt_def split: if_splits option.splits)

lemma active_after_start:
  assumes "start_attempt env config s opn j blob schema contr now issued db = Some (claim, db')"
  shows "active_on_processor s opn contr now db' \<le> active_on_processor s opn contr now db + 1"
proof -
  let ?k = "\<lambda>k. (j_id k, j_operation k)"
  have img: "?k ` set (jobs db') = ?k ` set (jobs db)"
    unfolding start_attempt_Some(7) [OF assms] by (rule image_update_where) (simp add: start_running_def)
  have mem: "(\<exists>k \<in> set t. j_id k = i \<and> j_operation k = opn) \<longleftrightarrow> (i, opn) \<in> ?k ` set t" for t i by auto
  have "(\<exists>k \<in> set (jobs db'). j_id k = i \<and> j_operation k = opn) \<longleftrightarrow>
      (\<exists>k \<in> set (jobs db). j_id k = i \<and> j_operation k = opn)" for i
    by (simp only: mem img)
  then show ?thesis
    by (simp add: active_on_processor_def start_attempt_Some(6) [OF assms])
qed

text \<open>
  C27. What a claim is given for: the worker's session is active, the worker is approved for the
  operation and contract it offered, its processor is healthy and had a free slot (and has no more
  attempts than slots afterwards), and the job is the oldest of the claimable jobs of that
  operation: queued, not cancelled, not expired, with its retry delay over and its input stored.
\<close>

theorem try_claim_sound:
  assumes "try_claim worker s offers config env now issued (run es empty_db) = (Inr (Some claim), db')"
  shows "\<exists>se \<in> set (sessions (run es empty_db)). \<exists>p \<in> set (processors (run es empty_db)). \<exists>j \<in> set (jobs (run es empty_db)).
    s_id se = s \<and> s_worker_identity se = aw_identity worker \<and> s_state se = Active_session \<and> now < s_expires_at se \<and>
    p_session_id p = s \<and> p_healthy p \<and> approves worker (p_operation p) (p_processor_contract p) \<and>
    active_on_processor s (p_operation p) (p_processor_contract p) now db' \<le> p_slots p \<and>
    claimable (e_locked env) (p_operation p) now (run es empty_db) j \<and>
    (\<forall>k \<in> set (jobs (run es empty_db)). claimable (e_locked env) (p_operation p) now (run es empty_db) k \<longrightarrow>
       j_created_at j \<le> j_created_at k) \<and>
    wc_job_id claim = j_id j \<and> wc_operation claim = p_operation p \<and> wc_attempt claim = j_attempt_count j + 1 \<and>
    wc_attempt claim \<le> 3"
proof -
  let ?db = "run es empty_db"
  from assms obtain se where se: "se \<in> set (sessions ?db)" "s_id se = s" "s_worker_identity se = aw_identity worker"
      "s_state se = Active_session" "now < s_expires_at se"
    and "try_offers worker s config env now issued offers ?db = (Inr (Some claim), db')"
    by (auto simp: try_claim_def split: option.splits if_splits dest!: find_Some_set)
  from try_offers_claim [OF this(6)] obtain offer where
    off: "try_offer worker s config env now issued offer ?db = Offer_return (Some claim) db'" by blast
  have appr: "approves worker (of_operation offer) (of_processor_contract offer)"
    using off by (auto simp: try_offer_def split: if_splits)
  from off show ?thesis
  proof (cases rule: try_offer_return)
    case (start j blob schema claim' p)
    note st = start_attempt_Some [OF start(10)]
    have j: "j \<in> set (jobs ?db)" "claimable (e_locked env) (of_operation offer) now ?db j"
      and oldest: "\<forall>k \<in> set (jobs ?db). claimable (e_locked env) (of_operation offer) now ?db k \<longrightarrow> j_created_at j \<le> j_created_at k"
      using first_by_Some [OF start(3) [unfolded select_candidate_def]] by auto
    have n: "0 \<le> j_attempt_count j" "j_attempt_count j < 3"
      using reachable_row [OF j(1)] j(2) by (auto simp: job_row_ok_def claimable_def)
    then have "i32_saturate (j_attempt_count j + 1) = j_attempt_count j + 1"
      by (intro i32_saturate_id) (simp_all add: i32_min_def i32_max_def)
    with st start(1) n have c: "wc_job_id claim = j_id j" "wc_operation claim = of_operation offer"
      "wc_attempt claim = j_attempt_count j + 1" "wc_attempt claim \<le> 3" by simp_all
    have slots: "active_on_processor s (of_operation offer) (of_processor_contract offer) now db' \<le> p_slots p"
      using active_after_start [OF start(10)] start(9) by simp
    show ?thesis
      using se appr start(4-8) slots j oldest c by (intro bexI [OF _ se(1)] bexI [OF _ start(4)] bexI [OF _ j(1)]) simp
  qed simp
qed

lemma ex_claim_result:
  "case try_claim ex_worker 30 [ex_offer] ex_config (ex_env 40) 3 3 (ex_db (take 3 ex_started)) of
     (Inr (Some c), db) \<Rightarrow> wc_job_id c = 1 | _ \<Rightarrow> False"
  by code_simp

theorem try_claim_sound_witness:
  "\<exists>claim db'. try_claim ex_worker 30 [ex_offer] ex_config (ex_env 40) 3 3 (ex_db (take 3 ex_started)) = (Inr (Some claim), db') \<and>
    (\<exists>j \<in> set (jobs (ex_db (take 3 ex_started))). j_id j = 1 \<and> wc_attempt claim = j_attempt_count j + 1)"
proof -
  from ex_claim_result obtain claim db' where
    c: "try_claim ex_worker 30 [ex_offer] ex_config (ex_env 40) 3 3 (ex_db (take 3 ex_started)) = (Inr (Some claim), db')"
    "wc_job_id claim = 1" by (auto split: prod.splits sum.splits option.splits)
  from try_claim_sound [OF c(1)] c show ?thesis by fastforce
qed

section \<open>Idempotent retries\<close>

text \<open>
  C28. A reservation is idempotent: whatever happened after a job was reserved, and as long as the
  job is retained, repeating the request with the same requester, scope and key (under any
  configuration, limits included) returns that job in its present state if the command is the
  same and a conflict if it is another one, and changes nothing.
\<close>

theorem reserve_idempotent:
  assumes res: "reserve_job config command (run es empty_db) = (Inr Reserved, db)"
    and j: "j \<in> set (jobs (run fs db))" "j_id j = rc_id command"
    and fresh: "\<And>config' command'. Reserve config' command' \<in> set fs \<Longrightarrow> rc_id command' \<noteq> rc_id command"
    and retry: "rc_requester_user_id retry = rc_requester_user_id command"
      "rc_idempotency_scope retry = rc_idempotency_scope command" "rc_idempotency_key retry = rc_idempotency_key command"
  shows "reserve_job config' retry (run fs db) =
    ((if rc_command_digest retry = rc_command_digest command then Inr (Existing (job_from_row j))
      else Inl IdempotencyConflict), run fs db)"
proof -
  let ?es = "es @ [Reserve config command]"
  have db: "db = run ?es empty_db" using res by (simp add: run_events_append)
  then have dbf: "run fs db = run (?es @ fs) empty_db" by (simp add: run_events_append)
  have "jobs db = jobs (run es empty_db) @ [new_job_row config command]"
    using res by (auto simp: reserve_job_def split: option.splits if_splits)
  then have n: "new_job_row config command \<in> set (jobs (run ?es empty_db))" using db by simp
  have "job_evolves (new_job_row config command) j"
    using j fresh unfolding dbf by (intro run_evolves_from [OF n]) (simp_all add: new_job_row_def)
  then have k: "j_requester_user_id j = rc_requester_user_id retry" "j_idempotency_scope j = rc_idempotency_scope retry"
    "j_idempotency_key j = rc_idempotency_key retry" "j_command_digest j = rc_command_digest command"
    using retry by (simp_all add: job_evolves_def new_job_row_def)
  have "distinct (map (\<lambda>j. (j_requester_user_id j, j_idempotency_scope j, j_idempotency_key j)) (jobs (run fs db)))"
    using lifecycle_invD(2) [OF reachable_inv] unfolding dbf by (simp add: keys_ok_def)
  then have "find_idempotent_job (rc_requester_user_id retry) (rc_idempotency_scope retry)
    (rc_idempotency_key retry) (run fs db) = Some j"
    unfolding find_idempotent_job_def by (rule find_by_key [OF _ j(1)]) (simp_all add: k)
  from reserve_job_found [OF this] k(4) show ?thesis by (auto simp: eq_commute)
qed

theorem reserve_idempotent_witness:
  "reserve_job ex_config (ex_command 9 ''k1'' 99) (ex_db ex_started) =
     (Inr (Existing (job_from_row (ex_job ex_started))), ex_db ex_started)"
proof -
  let ?db = "snd (reserve_job ex_config (ex_command 1 ''k1'' 0) (run [] empty_db))"
  have r: "reserve_job ex_config (ex_command 1 ''k1'' 0) (run [] empty_db) = (Inr Reserved, ?db)" by code_simp
  have e: "run (tl ex_started) ?db = ex_db ex_started" by (simp add: ex_started_def)
  have f: "rc_id c' \<noteq> rc_id (ex_command 1 ''k1'' 0)" if "Reserve f' c' \<in> set (tl ex_started)" for f' c'
    using that by (simp add: ex_started_def ex_claim_def)
  show ?thesis
    using reserve_idempotent [OF r, of "ex_job ex_started" "tl ex_started" "ex_command 9 ''k1'' 99" ex_config] ex_started_job f
    unfolding e by (simp add: ex_command_def)
qed

lemma claim_join_update:
  assumes inv: "lifecycle_inv db" and aj: "claim_join worker s c db = Some (a, j)"
    and f: "\<And>x. a_id (f x) = a_id x" "\<And>x. a_claim_id (f x) = a_claim_id x" "\<And>x. a_worker_session_id (f x) = a_worker_session_id x"
      "\<And>x. a_job_id (f x) = a_job_id x" and g: "\<And>x. j_id (g x) = j_id x"
  shows "claim_join worker s c (db\<lparr>attempts := update_where (\<lambda>x. a_id x = a_id a) f (attempts db),
    jobs := update_where (\<lambda>x. j_id x = j_id j) g (jobs db)\<rparr>) = Some (f a, g j)"
proof -
  note j = claim_join_Some [OF aj] and keys = keys_okD [OF lifecycle_invD(2) [OF inv]]
  let ?as = "update_where (\<lambda>x. a_id x = a_id a) f (attempts db)" and ?js = "update_where (\<lambda>x. j_id x = j_id j) g (jobs db)"
  have "map a_claim_id ?as = map a_claim_id (attempts db)" "map j_id ?js = map j_id (jobs db)"
    using f g by (auto intro!: map_update_where)
  then have d: "distinct (map a_claim_id ?as)" "distinct (map j_id ?js)" using keys by simp_all
  have m: "f a \<in> set ?as" "g j \<in> set ?js" using j(1,2) by (auto simp: in_update_where)
  have "find (\<lambda>x. a_claim_id x = c \<and> a_worker_session_id x = s \<and>
      exists_where (\<lambda>y. s_id y = s \<and> s_worker_identity y = aw_identity worker) (sessions db)) ?as = Some (f a)"
    using j f by (intro find_by_key [OF d(1) m(1)]) auto
  moreover have "find (\<lambda>x. j_id x = a_job_id (f a)) ?js = Some (g j)"
    using j f g by (intro find_by_key [OF d(2) m(2)]) auto
  ultimately show ?thesis by (simp add: claim_join_def)
qed

text \<open>
  A delivery is idempotent: repeating an accepted delivery, also after the lease has ended,
  is accepted again and changes nothing.
\<close>

lemma delivery_replay:
  assumes acc: "complete_claim hex worker s c arts now (run es empty_db) = (Accepted i, db)"
  shows "complete_claim hex worker s c arts later db = (Accepted i, db)"
proof -
  let ?db = "run es empty_db"
  from acc obtain a j where aj: "claim_join worker s c ?db = Some (a, j)"
    by (auto simp: complete_claim_def split: if_splits option.splits)
  show ?thesis
  proof (cases "a_state a = Delivered_attempt \<and> j_state j \<in> {Finalizing, Succeeded, Failed}")
    case True
    with acc aj have "db = ?db" by (auto simp: complete_claim_def Let_def split: if_splits option.splits)
    with acc aj True show ?thesis by (auto simp: complete_claim_def Let_def split: if_splits option.splits)
  next
    case False
    with acc aj have db: "db = ?db\<lparr>attempts := update_where (\<lambda>x. a_id x = a_id a) (delivered now) (attempts ?db),
        jobs := update_where (\<lambda>x. j_id x = j_id j) (to_finalizing now) (jobs ?db)\<rparr>" and i: "i = j_id j"
      by (auto simp: complete_claim_def Let_def split: if_splits option.splits)
    have aj': "claim_join worker s c db = Some (delivered now a, to_finalizing now j)"
      unfolding db by (rule claim_join_update [OF reachable_inv aj]) (simp_all add: delivered_def to_finalizing_def)
    have st: "artifact_staged hex (delivered now a) c art db = artifact_staged hex a c art ?db" for art
      by (simp add: artifact_staged_def delivered_def db split: option.split)
    have "artifacts_declared hex contr (delivered now a) c db roles arts = artifacts_declared hex contr a c ?db roles arts"
      for contr roles
      by (induction arts arbitrary: roles) (simp_all add: st)
    with acc aj aj' False show ?thesis
      by (auto simp: complete_claim_def Let_def to_finalizing_def delivered_def split: if_splits option.splits)
  qed
qed

lemma delivery_replay_witness:
  "\<exists>db. complete_claim ex_unhex ex_worker 30 41 [ex_artifact 50] 6 (ex_db (take 6 ex_delivered)) = (Accepted 1, db) \<and>
     complete_claim ex_unhex ex_worker 30 41 [ex_artifact 50] 1000 db = (Accepted 1, db)"
proof -
  let ?r = "complete_claim ex_unhex ex_worker 30 41 [ex_artifact 50] 6 (ex_db (take 6 ex_delivered))"
  have "fst ?r = Accepted 1" by code_simp
  then obtain db where r: "?r = (Accepted 1, db)" by (cases ?r) auto
  from r delivery_replay [OF r, of 1000] show ?thesis by blast
qed

section \<open>Requests of workers\<close>

text \<open>What the client sees of an outcome: an error is rendered as its status and body.\<close>

definition rendered :: "api_error + response \<Rightarrow> response" where
  "rendered r = (case r of Inr rsp \<Rightarrow> rsp | Inl e \<Rightarrow> Response (ae_status e) (Some (error_body e)))"

definition server_error :: "api_error + response \<Rightarrow> bool" where
  "server_error r \<longleftrightarrow> (case r of Inr _ \<Rightarrow> False | Inl e \<Rightarrow> is_server_error e)"

lemma find_where_append: "find P (delete_where P t @ [r]) = (if P r then Some r else None)"
  by (induction t) (auto simp: delete_where_def)

lemma begin_execute:
  assumes "begin_worker_request sha ident r route payload t1 db = (Inr (Execute rv), db1)"
  shows "rv = \<lparr>rv_worker_identity = ident, rv_request_id = r, rv_route_key = route, rv_payload_digest = sha payload\<rparr>"
    and "requests db1 = delete_where (request_key ident r) (requests db) @
      [\<lparr>q_worker_identity = ident, q_request_id = r, q_route_key = route, q_payload_digest = sha payload,
        q_response_status = request_pending_status, q_response_body = None, q_created_at = t1,
        q_expires_at = t1 + request_pending_ttl\<rparr>]"
  using assms by (auto simp: begin_worker_request_def reserve_request_def Let_def split: option.splits if_splits)

lemma reserved_only:
  assumes "begin_worker_request sha ident r route payload t1 db = (Inr (Execute rv), db1)" and "requests db2 = requests db1"
  shows "rows_affected (reserved_by rv) (requests db2) = 1"
    and "find (request_key ident r) (update_where (reserved_by rv) f (requests db2)) =
      find (request_key ident r) [f \<lparr>q_worker_identity = ident, q_request_id = r, q_route_key = route,
        q_payload_digest = sha payload, q_response_status = request_pending_status, q_response_body = None,
        q_created_at = t1, q_expires_at = t1 + request_pending_ttl\<rparr>]"
proof -
  note b = begin_execute [OF assms(1)]
  have old: "\<not> reserved_by rv q" "\<not> request_key ident r q" if "q \<in> set (delete_where (request_key ident r) (requests db))" for q
    using that by (auto simp: b(1) reserved_by_def)
  have none: "filter (reserved_by rv) (delete_where (request_key ident r) (requests db)) = []"
    using old by (auto simp: filter_empty_conv)
  show "rows_affected (reserved_by rv) (requests db2) = 1"
    unfolding assms(2) b(2) rows_affected_def
    by (simp add: none) (simp add: b(1) reserved_by_def request_key_def)
  have u: "update_where (reserved_by rv) f (delete_where (request_key ident r) (requests db)) =
      delete_where (request_key ident r) (requests db)"
    using old by (intro update_where_none) auto
  have n: "find (request_key ident r) (delete_where (request_key ident r) (requests db)) = None"
    by (auto simp: find_None_set)
  let ?row = "\<lparr>q_worker_identity = ident, q_request_id = r, q_route_key = route, q_payload_digest = sha payload,
        q_response_status = request_pending_status, q_response_body = None, q_created_at = t1,
        q_expires_at = t1 + request_pending_ttl\<rparr>"
  have "reserved_by rv ?row" by (simp add: b(1) reserved_by_def request_key_def)
  then have "update_where (reserved_by rv) f (requests db2) = delete_where (request_key ident r) (requests db) @ [f ?row]"
    unfolding assms(2) b(2) using u by (simp add: update_where_def)
  then show "find (request_key ident r) (update_where (reserved_by rv) f (requests db2)) = find (request_key ident r) [f ?row]"
    by (simp add: find_blob_append n)
qed

lemma with_request_executed:
  assumes b: "begin_worker_request sha (aw_identity worker) r route payload t1 db = (Inr (Execute rv), db1)"
    and a: "action db1 = (res, db2)" "requests db2 = requests db1" "\<not> server_error res"
  shows "with_worker_request sha worker r route payload t1 t2 action db =
    (res, snd (finish_request rv (rsp_status (rendered res)) (rsp_body (rendered res)) t2 db2))"
proof -
  have fin: "finish_request rv st body t2 db2 = (Inr (), db2\<lparr>requests := update_where (reserved_by rv)
      (\<lambda>q. q\<lparr>q_response_status := st, q_response_body := body, q_expires_at := t2 + request_replay_ttl\<rparr>) (requests db2)\<rparr>)" for st body
    using reserved_only(1) [OF b a(2)] by (simp add: finish_request_def)
  show ?thesis
  proof (cases res)
    case (Inl e)
    with a have "action db1 = (Inl e, db2)" "\<not> is_server_error e" by (simp_all add: server_error_def)
    then show ?thesis by (simp add: with_worker_request_def b fin rendered_def Inl split: unit.split)
  next
    case (Inr rsp)
    obtain st body where rsp: "rsp = Response st body" by (cases rsp)
    with Inr a have "action db1 = (Inr (Response st body), db2)" by simp
    then show ?thesis by (simp add: with_worker_request_def b fin rendered_def Inr rsp split: unit.split)
  qed
qed

text \<open>
  C29. Worker mutations run once: after a request was executed and answered (with a response or an
  error that is not a server error), repeating it with the same identifier, route and payload
  before the record expires gives the recorded answer and runs nothing, whatever the second call
  would do; another payload under the same identifier is refused.
\<close>

theorem request_runs_once:
  assumes first: "begin_worker_request sha (aw_identity worker) r route payload t1 db = (Inr (Execute rv), db1)"
    and act: "action db1 = (res, db2)" "requests db2 = requests db1" "\<not> server_error res"
    and st: "100 \<le> rsp_status (rendered res)" "rsp_status (rendered res) \<le> 999" "rsp_status (rendered res) \<noteq> 102"
    and done_: "with_worker_request sha worker r route payload t1 t2 action db = (out, db3)"
    and t: "t1' < t2 + request_replay_ttl"
  shows "out = res \<and> with_worker_request sha worker r route payload t1' t2' action' db3 = (Inr (rendered res), db3) \<and>
    (sha payload' \<noteq> sha payload \<longrightarrow>
       with_worker_request sha worker r route payload' t1' t2' action' db3 = (Inl (request_error_response Conflict_request), db3))"
proof -
  let ?st = "rsp_status (rendered res)" and ?body = "rsp_body (rendered res)"
  from with_request_executed [OF first, of action res db2 t2, OF act] done_ have out: "out = res"
    and db3: "db3 = snd (finish_request rv ?st ?body t2 db2)" by simp_all
  let ?q = "\<lparr>q_worker_identity = aw_identity worker, q_request_id = r, q_route_key = route, q_payload_digest = sha payload,
      q_response_status = ?st, q_response_body = ?body, q_created_at = t1, q_expires_at = t2 + request_replay_ttl\<rparr>"
  have q: "find (request_key (aw_identity worker) r) (requests db3) = Some ?q"
    using reserved_only(2) [OF first act(2)] unfolding db3 by (simp add: finish_request_def request_key_def)
  have "begin_worker_request sha (aw_identity worker) r route payload t1' db3 = (Inr (Replay ?st ?body), db3)"
    using q t st by (simp add: begin_worker_request_def request_pending_status_def)
  then have "with_worker_request sha worker r route payload t1' t2' action' db3 = (Inr (rendered res), db3)"
    using st by (simp add: with_worker_request_def replay_response_def)
  moreover have "with_worker_request sha worker r route payload' t1' t2' action' db3 = (Inl (request_error_response Conflict_request), db3)"
    if "sha payload' \<noteq> sha payload"
    using q t that by (auto simp: with_worker_request_def begin_worker_request_def)
  ultimately show ?thesis using out by simp
qed

theorem request_runs_once_witness:
  "\<exists>db3. with_worker_request ex_sha ex_worker 5 ''POST /r'' ''p'' 0 1 (\<lambda>db. (Inr (Response 201 None), db)) empty_db =
       (Inr (Response 201 None), db3) \<and>
     with_worker_request ex_sha ex_worker 5 ''POST /r'' ''p'' 2 3 (\<lambda>db. (Inl claim_lost, empty_db)) db3 = (Inr (Response 201 None), db3)"
proof -
  let ?a = "\<lambda>db. (Inr (Response 201 None) :: api_error + response, db :: processing_db)"
  let ?b = "begin_worker_request ex_sha (aw_identity ex_worker) 5 ''POST /r'' ''p'' 0 empty_db"
  have "\<exists>rv. fst ?b = Inr (Execute rv)"
    by (simp add: begin_worker_request_def reserve_request_def ex_sha_def empty_db_def)
  then obtain rv db1 where b: "?b = (Inr (Execute rv), db1)" by (cases ?b) auto
  let ?w = "with_worker_request ex_sha ex_worker 5 ''POST /r'' ''p'' 0 1 ?a empty_db"
  obtain out db3 where w: "?w = (out, db3)" by (cases ?w) auto
  from request_runs_once [OF b, of ?a "Inr (Response 201 None)" db1, OF _ _ _ _ _ _ w, of 2]
  show ?thesis using w by (auto simp: server_error_def rendered_def request_replay_ttl_def seconds_def)
qed

section \<open>Transfers\<close>

text \<open>The row of a transfer whose upload was accepted.\<close>

lemma uploaded_row:
  assumes inv: "lifecycle_inv db" and up: "upload_transfer sha i token content fresh now db = (Inr (Stored n d), db')"
    and t: "t \<in> set (transfers db')" "t_id t = i"
  shows "\<exists>b \<in> set (blobs db'). t_blob_id t = Some (b_id b) \<and> b_size_bytes b = n \<and> b_sha256 b = d \<and> n = i64_len content \<and>
    d = sha content \<and> t_state t = Uploaded \<and> t_token_fingerprint t = sha token \<and> t_direction t = Upload \<and>
    n \<le> t_max_size_bytes t \<and> (\<forall>e \<in> set_option (t_exact_size_bytes t). e = n) \<and> (\<forall>e \<in> set_option (t_expected_sha256 t). e = d)"
proof -
  from up obtain x where x: "find (\<lambda>t. t_id t = i \<and> transfer_current now db t) (transfers db) = Some x"
    and ok: "t_token_fingerprint x = sha token" "t_direction x = Upload" "n \<le> t_max_size_bytes x"
      "\<forall>e \<in> set_option (t_exact_size_bytes x). e = n" "\<forall>e \<in> set_option (t_expected_sha256 x). e = d"
      "n = i64_len content" "d = sha content"
    by (auto simp: upload_transfer_def Let_def split: option.splits if_splits prod.splits)
  note xs = find_Some_set [OF x]
  have uniq: "y = x" if "y \<in> set (transfers db)" "t_id y = i" for y
    using that xs key_unique [OF keys_okD(4) [OF lifecycle_invD(2) [OF inv]]] by blast
  show ?thesis
  proof (cases "t_state x = Uploaded")
    case True
    with up x have db: "db' = db" by (auto simp: upload_transfer_def Let_def split: option.splits if_splits prod.splits)
    from True up x obtain b where "find (\<lambda>b. t_blob_id x = Some (b_id b)) (blobs db) = Some b"
      "b_size_bytes b = n" "b_sha256 b = d"
      by (auto simp: upload_transfer_def Let_def split: option.splits if_splits prod.splits)
    with find_Some_set [OF this(1)] ok True uniq t db show ?thesis by auto
  next
    case False
    with up x ok(6,7) obtain bid bs where st: "store_blob fresh d (t_media_type x) content now (blobs db) = Some (bid, bs)"
      and db: "db' = db\<lparr>blobs := bs, transfers := update_where (\<lambda>x. t_id x = i)
          (\<lambda>x. x\<lparr>t_blob_id := Some bid, t_state := Uploaded, t_remaining_uses := 0, t_updated_at := now\<rparr>) (transfers db)\<rparr>"
      by (auto simp: upload_transfer_def Let_def split: option.splits if_splits prod.splits)
    from t db uniq have "t = x\<lparr>t_blob_id := Some bid, t_state := Uploaded, t_remaining_uses := 0, t_updated_at := now\<rparr>"
      by (auto simp: in_update_where split: if_splits)
    moreover have "\<exists>b \<in> set bs. b_id b = bid \<and> b_sha256 b = d \<and> b_size_bytes b = i64_len content"
      using st by (cases rule: store_blob_cases) auto
    ultimately show ?thesis using ok db by auto
  qed
qed

text \<open>
  An upload is idempotent: repeating an accepted upload of the same content, as long as its
  claim and its ticket are current, is accepted with the same receipt and changes nothing.
\<close>

lemma upload_idempotent:
  assumes up: "upload_transfer sha i token content fresh now (run es empty_db) = (Inr (Stored n d), db)"
    and t: "t \<in> set (transfers db)" "t_id t = i" "transfer_current later db t" "later < t_expires_at t"
  shows "upload_transfer sha i token content fresh' later db = (Inr (Stored n d), db)"
proof -
  let ?db = "run es empty_db"
  have u: "upload_transfer sha i token content fresh now ?db = (Inr (Stored n d), db)" by (rule up)
  have inv: "lifecycle_inv db" using upload_transfer_inv [OF reachable_inv [of es], of sha i token content fresh now] up by simp
  have f: "find (\<lambda>x. t_id x = i \<and> transfer_current later db x) (transfers db) = Some t"
    using t by (intro find_by_key [OF keys_okD(4) [OF lifecycle_invD(2) [OF inv]]]) auto
  from uploaded_row [OF reachable_inv up t(1,2)] obtain b where
    b: "b \<in> set (blobs db)" "t_blob_id t = Some (b_id b)" "b_size_bytes b = n" "b_sha256 b = d" and
    r: "n = i64_len content" "d = sha content" "t_state t = Uploaded" "t_token_fingerprint t = sha token" "t_direction t = Upload"
      "n \<le> t_max_size_bytes t" "\<forall>e \<in> set_option (t_exact_size_bytes t). e = n" "\<forall>e \<in> set_option (t_expected_sha256 t). e = d"
    by blast
  have "find (\<lambda>x. t_blob_id t = Some (b_id x)) (blobs db) = Some b"
    using b by (intro find_by_key [OF keys_okD(5) [OF lifecycle_invD(2) [OF inv]]]) auto
  with f r b t(4) show ?thesis by (auto simp: upload_transfer_def Let_def)
qed

lemma ex_upload:
  "fst (upload_transfer ex_sha 50 ''ptx_u'' ''%PDF- %%EOF'' 51 5 (ex_db (take 5 ex_delivered))) = Inr (Stored 11 (ex_sha []))"
  "map (\<lambda>t. (t_id t, t_expires_at t, transfer_current 9 (ex_db (take 6 ex_delivered)) t)) (tl (transfers (ex_db (take 6 ex_delivered)))) =
     [(50, 304, True)]"
  by code_simp+

lemma upload_idempotent_witness:
  "upload_transfer ex_sha 50 ''ptx_u'' ''%PDF- %%EOF'' 52 9 (ex_db (take 6 ex_delivered)) =
     (Inr (Stored 11 (ex_sha [])), ex_db (take 6 ex_delivered))"
proof -
  let ?db = "ex_db (take 6 ex_delivered)" and ?t = "hd (tl (transfers (ex_db (take 6 ex_delivered))))"
  have "?db = snd (upload_transfer ex_sha 50 ''ptx_u'' ''%PDF- %%EOF'' 51 5 (ex_db (take 5 ex_delivered)))"
    by (simp add: ex_delivered_def ex_started_def)
  with ex_upload(1) have u: "upload_transfer ex_sha 50 ''ptx_u'' ''%PDF- %%EOF'' 51 5 (ex_db (take 5 ex_delivered)) =
      (Inr (Stored 11 (ex_sha [])), ?db)" by (metis prod.collapse)
  have t: "?t \<in> set (tl (transfers ?db))" "t_id ?t = 50" "transfer_current 9 ?db ?t" "9 < t_expires_at ?t"
    using hd_of_map [OF ex_upload(2)] by simp_all
  from t(1) have "?t \<in> set (transfers ?db)" by (metis list.sel(2) list.set_sel(2))
  from upload_idempotent [OF u this t(2-4)] show ?thesis .
qed

text \<open>The outcomes of a sequence of downloads of one transfer, each with a token and a time.\<close>

fun downloads :: "(bytes \<Rightarrow> bytes) \<Rightarrow> uuid \<Rightarrow> (string \<times> instant) list \<Rightarrow> processing_db \<Rightarrow> (unit + download_outcome) list" where
  "downloads sha i [] db = []"
| "downloads sha i ((token, now) # rs) db =
     fst (download_transfer sha i token now db) # downloads sha i rs (snd (download_transfer sha i token now db))"

definition served :: "unit + download_outcome \<Rightarrow> bool" where
  "served r \<longleftrightarrow> (case r of Inr (Content _ _ _) \<Rightarrow> True | _ \<Rightarrow> False)"

lemma download_cases:
  obtains (refused) "snd (download_transfer sha i token now db) = db" "\<not> served (fst (download_transfer sha i token now db))"
  | (content) x where "find (\<lambda>x. t_id x = i \<and> transfer_current now db x) (transfers db) = Some x"
      "0 < t_remaining_uses x" "served (fst (download_transfer sha i token now db))"
      "transfers (snd (download_transfer sha i token now db)) = update_where (\<lambda>y. t_id y = i)
         (\<lambda>y. y\<lparr>t_remaining_uses := t_remaining_uses x - 1, t_state := (if t_remaining_uses x - 1 = 0 then Consumed else t_state y),
            t_updated_at := now\<rparr>) (transfers db)"
proof (cases "served (fst (download_transfer sha i token now db))")
  case True
  then obtain x where x: "find (\<lambda>x. t_id x = i \<and> transfer_current now db x) (transfers db) = Some x"
    by (auto simp: served_def download_transfer_def split: option.splits)
  with True show thesis
    by (intro content [OF x]) (auto simp: served_def download_transfer_def Let_def split: option.splits if_splits)
next
  case False
  then show thesis
    by (intro refused) (auto simp: served_def download_transfer_def Let_def split: option.splits if_splits)
qed

lemma download_step:
  assumes inv: "lifecycle_inv db" and t: "t \<in> set (transfers db)"
  shows "\<exists>t' \<in> set (transfers (snd (download_transfer sha (t_id t) token now db))). t_id t' = t_id t \<and>
    (if served (fst (download_transfer sha (t_id t) token now db))
     then 0 < t_remaining_uses t \<and> t_remaining_uses t' = t_remaining_uses t - 1 else t_remaining_uses t' = t_remaining_uses t)"
proof (cases rule: download_cases [of sha "t_id t" token now db])
  case refused
  with t show ?thesis by auto
next
  case (content x)
  have "x = t" using find_Some_set [OF content(1)] t key_unique [OF keys_okD(4) [OF lifecycle_invD(2) [OF inv]]] by blast
  let ?t = "t\<lparr>t_remaining_uses := t_remaining_uses t - 1, t_state := (if t_remaining_uses t - 1 = 0 then Consumed else t_state t),
            t_updated_at := now\<rparr>"
  have "?t \<in> set (transfers (snd (download_transfer sha (t_id t) token now db)))"
    unfolding content(4) in_update_where \<open>x = t\<close> using t by (intro bexI [of _ t]) simp_all
  with content(2,3) \<open>x = t\<close> show ?thesis by (intro bexI [of _ ?t]) simp_all
qed

text \<open>
  A download capability is bounded: however often a transfer's content is requested, with
  whatever tokens and times, it is served at most as often as its remaining uses say.
\<close>

lemma downloads_bounded:
  assumes "t \<in> set (transfers (run es empty_db))"
  shows "int (length (filter served (downloads sha (t_id t) rs (run es empty_db)))) \<le> max 0 (t_remaining_uses t)"
proof -
  have "int (length (filter served (downloads sha (t_id t) rs db))) \<le> max 0 (t_remaining_uses t)"
    if "lifecycle_inv db" "t \<in> set (transfers db)" for db t
    using that
  proof (induction rs arbitrary: db t)
    case (Cons r rs)
    obtain token now where r: "r = (token, now)" by (cases r)
    let ?d = "download_transfer sha (t_id t) token now db"
    from download_step [OF Cons.prems] obtain t' where t': "t' \<in> set (transfers (snd ?d))" "t_id t' = t_id t"
      and u: "if served (fst ?d) then 0 < t_remaining_uses t \<and> t_remaining_uses t' = t_remaining_uses t - 1
          else t_remaining_uses t' = t_remaining_uses t" by blast
    have "lifecycle_inv (snd ?d)" using Cons.prems(1) by (rule download_transfer_inv)
    from Cons.IH [OF this t'(1)] t'(2) u show ?case by (simp add: r split: if_splits)
  qed simp
  from this [OF reachable_inv assms] show ?thesis .
qed

lemma downloads_bounded_witness:
  "\<exists>t \<in> set (transfers (ex_db ex_started)). t_id t = 42 \<and> t_remaining_uses t = 3 \<and>
     length (filter served (downloads ex_sha 42 (replicate 5 (''ptx_t'', 9)) (ex_db ex_started))) \<le> 3"
proof -
  have e: "map (\<lambda>t. (t_id t, t_remaining_uses t)) (transfers (ex_db ex_started)) = [(42, 3)]" by code_simp
  from hd_of_map [OF e] have t: "hd (transfers (ex_db ex_started)) \<in> set (transfers (ex_db ex_started))"
    "t_id (hd (transfers (ex_db ex_started))) = 42" "t_remaining_uses (hd (transfers (ex_db ex_started))) = 3" by simp_all
  from downloads_bounded [OF t(1), of ex_sha "replicate 5 (''ptx_t'', 9)"] t show ?thesis
    by (intro bexI [OF _ t(1)]) simp
qed

section \<open>Progress\<close>

text \<open>Starting an attempt cannot fail on fresh identifiers and a stored, non-empty input.\<close>

lemma start_attempt_succeeds:
  assumes inv: "lifecycle_inv db" and j: "j \<in> set (jobs db)" "j_state j = Queued"
    and fresh: "\<And>a. a \<in> set (attempts db) \<Longrightarrow> a_id a \<noteq> e_attempt_id env \<and> a_claim_id a \<noteq> e_claim_id env"
      "\<And>t. t \<in> set (transfers db) \<Longrightarrow> t_id t \<noteq> e_transfer_id env"
    and sha: "\<And>c. length (e_sha256 env c) = 32" and blob: "0 < b_size_bytes blob" "length (b_sha256 blob) = 32"
  shows "start_attempt env config s opn j blob schema contr now issued db \<noteq> None"
proof -
  let ?a = "new_attempt env config s j contr now"
  have "0 \<le> j_attempt_count j" "j_attempt_count j \<le> 3"
    using lifecycle_invD(1) [OF inv j(1)] by (simp_all add: job_row_ok_def)
  then have n: "i32_saturate (j_attempt_count j + 1) = j_attempt_count j + 1" "0 \<le> j_attempt_count j"
    by (simp_all add: i32_saturate_id i32_min_def i32_max_def)
  then have chk: "attempt_checks ?a" by (simp add: attempt_checks_def new_attempt_def)
  have "\<not> attempt_conflict ?a b" if b: "b \<in> set (attempts db)" for b
  proof -
    from claims_okD(3) [OF lifecycle_invD(3) [OF inv] b] obtain k where
      k: "k \<in> set (jobs db)" "j_id k = a_job_id b" "a_attempt_number b \<le> j_attempt_count k" by blast
    have "k = j" if "j_id k = j_id j" using key_unique [OF keys_okD(1) [OF lifecycle_invD(2) [OF inv]] k(1) j(1)] that by simp
    with k n fresh(1) [OF b] show ?thesis by (auto simp: attempt_conflict_def new_attempt_def)
  qed
  then have ins: "insert_row attempt_conflict ?a (attempts db) = Some (attempts db @ [?a])" by simp
  have "issue_transfer (e_sha256 env) (e_transfer_id env) (e_token env) issued (j_id j) (e_attempt_id env)
      (e_claim_id env) Download ''input'' (oc_input_media_type (contract opn)) None (Some (b_size_bytes blob))
      (b_size_bytes blob) (Some (b_sha256 blob)) (Some (b_id blob)) input_transfer_reads (now + c_transfer_ttl config) (transfers db) \<noteq> None"
    using sha blob fresh(2) by (auto simp: issue_transfer_def Let_def transfer_checks_def input_transfer_reads_def transfer_conflict_def dest!: sym [of "e_transfer_id env"])
  with chk show ?thesis unfolding start_attempt_def Let_def ins by auto
qed

text \<open>
  C34. A free worker makes progress: when an active session offers a healthy processor that it is
  approved for and that has a free slot, and some job of its operation is claimable, then (with
  fresh identifiers and stored inputs that are not empty) the poll succeeds, and either it returns
  a claim or a job that was queued is finalizing with a cached result.
\<close>

theorem claim_progress:
  assumes db: "db = run es empty_db"
    and se: "find (\<lambda>x. s_id x = s \<and> s_worker_identity x = aw_identity worker) (sessions db) = Some se"
      "s_state se = Active_session" "now < s_expires_at se"
    and p: "find (\<lambda>p. p_session_id p = s \<and> p_operation p = of_operation offer \<and> p_processor_contract p = of_processor_contract offer)
      (processors db) = Some p" "p_healthy p" "0 < of_slots offer" "of_slots offer \<le> p_slots p"
      "active_on_processor s (of_operation offer) (of_processor_contract offer) now db < p_slots p"
    and appr: "approves worker (of_operation offer) (of_processor_contract offer)"
    and job: "k \<in> set (jobs db)" "claimable (e_locked env) (of_operation offer) now db k"
    and fresh: "\<And>a. a \<in> set (attempts db) \<Longrightarrow> a_id a \<noteq> e_attempt_id env \<and> a_claim_id a \<noteq> e_claim_id env"
      "\<And>t. t \<in> set (transfers db) \<Longrightarrow> t_id t \<noteq> e_transfer_id env"
    and sha: "\<And>c. length (e_sha256 env c) = 32"
    and blob: "\<And>b. b \<in> set (blobs db) \<Longrightarrow> 0 < b_size_bytes b \<and> length (b_sha256 b) = 32"
  shows "\<exists>c db'. try_claim worker s [offer] config env now issued db = (Inr c, db') \<and>
    (c \<noteq> None \<or> (\<exists>j \<in> set (jobs db). \<exists>j' \<in> set (jobs db'). j_id j' = j_id j \<and> j_state j = Queued \<and> j_state j' = Finalizing \<and>
       j_cache_hit j'))"
proof -
  have inv: "lifecycle_inv db" unfolding db by (rule reachable_inv)
  have "filter (claimable (e_locked env) (of_operation offer) now db) (jobs db) \<noteq> []" using job by (auto simp: filter_empty_conv)
  then obtain j where sel: "select_candidate (e_locked env) (of_operation offer) now db = Some j"
    unfolding select_candidate_def by (metis first_by_None not_None_eq)
  have j: "j \<in> set (jobs db)" "j_state j = Queued" and cl: "claimable (e_locked env) (of_operation offer) now db j"
    using select_candidate_Some [OF sel] by (auto simp: claimable_def)
  from lifecycle_invD(1) [OF inv j(1)] j(2) obtain dg schema where dg: "j_input_digest j = Some dg" "j_input_schema j = Some schema"
    by (auto simp: job_row_ok_def)
  from cl obtain b where b: "find (\<lambda>b. j_input_blob_id j = Some (b_id b)) (blobs db) = Some b"
    by (cases "find (\<lambda>b. j_input_blob_id j = Some (b_id b)) (blobs db)") (auto simp: claimable_def find_None_set)
  note bs = blob [OF conjunct1 [OF find_Some_set [OF b]]]
  note pf = find_Some_set [OF p(1)]
  have "\<exists>c db'. try_offer worker s config env now issued offer db = Offer_return c db' \<and>
    (c \<noteq> None \<or> (\<exists>j \<in> set (jobs db). \<exists>j' \<in> set (jobs db'). j_id j' = j_id j \<and> j_state j = Queued \<and> j_state j' = Finalizing \<and>
       j_cache_hit j'))"
  proof (cases "select_cache_source j dg (of_processor_contract offer) (of_operation offer) now db")
    case (Some src)
    let ?db = "db\<lparr>jobs := update_where (\<lambda>k. j_id k = j_id j \<and> j_state k = Queued)
        (mark_cache_hit (of_processor_contract offer) (j_id src) now) (jobs db)\<rparr>"
    have "try_offer worker s config env now issued offer db = Offer_return None ?db"
      using p pf appr sel dg Some by (simp add: try_offer_def)
    moreover have "mark_cache_hit (of_processor_contract offer) (j_id src) now j \<in> set (jobs ?db)"
      using j by (auto simp: in_update_where)
    then have "\<exists>j \<in> set (jobs db). \<exists>j' \<in> set (jobs ?db). j_id j' = j_id j \<and> j_state j = Queued \<and> j_state j' = Finalizing \<and> j_cache_hit j'"
      using j by (intro bexI [OF _ j(1)]) (rule bexI, simp_all add: mark_cache_hit_def)
    ultimately show ?thesis by blast
  next
    case None
    from start_attempt_succeeds [OF inv j fresh sha] bs obtain claim db' where
      "start_attempt env config s (of_operation offer) j b schema (of_processor_contract offer) now issued db = Some (claim, db')"
      by (metis not_None_eq surj_pair)
    with p pf appr sel dg None b have "try_offer worker s config env now issued offer db = Offer_return (Some claim) db'"
      by (simp add: try_offer_def)
    then show ?thesis by blast
  qed
  with se show ?thesis by (auto simp: try_claim_def)
qed

theorem claim_progress_witness:
  "\<exists>c db'. try_claim ex_worker 30 [ex_offer] ex_config (ex_env 40) 3 3 (ex_db (take 3 ex_started)) = (Inr c, db') \<and>
     (c \<noteq> None \<or> (\<exists>j' \<in> set (jobs db'). j_state j' = Finalizing \<and> j_cache_hit j'))"
proof -
  let ?db = "ex_db (take 3 ex_started)"
  have se: "map_option (\<lambda>x. (s_state x, s_expires_at x)) (find (\<lambda>x. s_id x = 30 \<and> s_worker_identity x = aw_identity ex_worker) (sessions ?db)) =
      Some (Active_session, 202)" by code_simp
  have pr: "map_option (\<lambda>x. (p_healthy x, p_slots x)) (find (\<lambda>p. p_session_id p = 30 \<and> p_operation p = of_operation ex_offer \<and>
      p_processor_contract p = of_processor_contract ex_offer) (processors ?db)) = Some (True, 2)" by code_simp
  have jb: "map (claimable (e_locked (ex_env 40)) (of_operation ex_offer) 3 ?db) (jobs ?db) = [True]" by code_simp
  have rest: "active_on_processor 30 (of_operation ex_offer) (of_processor_contract ex_offer) 3 ?db = 0"
    "attempts ?db = []" "transfers ?db = []" "map (\<lambda>b. (b_size_bytes b, length (b_sha256 b))) (blobs ?db) = [(3, 32)]" by code_simp+
  from se obtain x where x: "find (\<lambda>x. s_id x = 30 \<and> s_worker_identity x = aw_identity ex_worker) (sessions ?db) = Some x"
    "s_state x = Active_session" "s_expires_at x = 202" by auto
  from pr obtain p where p: "find (\<lambda>p. p_session_id p = 30 \<and> p_operation p = of_operation ex_offer \<and>
      p_processor_contract p = of_processor_contract ex_offer) (processors ?db) = Some p" "p_healthy p" "p_slots p = 2" by auto
  have k: "hd (jobs ?db) \<in> set (jobs ?db)" "claimable (e_locked (ex_env 40)) (of_operation ex_offer) 3 ?db (hd (jobs ?db))"
    using hd_of_map [OF jb] by simp_all
  have b: "0 < b_size_bytes y \<and> length (b_sha256 y) = 32" if "y \<in> set (blobs ?db)" for y
    using map_single_all [OF rest(4) that] by simp
  have "approves ex_worker (of_operation ex_offer) (of_processor_contract ex_offer)" by code_simp
  from claim_progress [OF refl x(1,2) _ p(1,2) _ _ _ this k _ _ _ b, where config = ex_config and issued = 3] x p rest
  show ?thesis by (auto simp: ex_offer_def ex_env_def ex_sha_def)
qed

end
