(* ===== verification/Finalization_Properties.thy ===== *)
theory Finalization_Properties
  imports Run_Properties
begin

text \<open>
  Properties of finalization and maintenance: what is published satisfies the contract of its
  operation, publication into the Workspace is all or nothing, and expired claims and queued jobs
  do not stay.
\<close>

section \<open>What is published\<close>

lemma check_staged_ok:
  assumes "check_staged env config contr seen staged = Some out"
  shows "\<And>s. s \<in> set staged \<Longrightarrow> \<exists>ac. contract_artifact contr (sa_role s) = Some ac \<and> staged_ok env config ac s"
    and "set out = set seen \<union> sa_role ` set staged"
  using assms by (induction staged arbitrary: seen) (fastforce split: option.splits if_splits)+

lemma validated_staged:
  assumes "validate_finalization env config adb lease staged = Inr v"
  shows "\<And>s. s \<in> set staged \<Longrightarrow>
      \<exists>ac. contract_artifact (contract (fl_operation lease)) (sa_role s) = Some ac \<and> staged_ok env config ac s"
    and "\<And>ac. ac \<in> set (oc_artifacts (contract (fl_operation lease))) \<Longrightarrow> ac_required ac \<Longrightarrow> ac_role ac \<in> sa_role ` set staged"
    and "\<And>p. fl_project_id lease = Some p \<Longrightarrow> ensure_project_role_for_user (fl_requester_user_id lease) p Read adb = Inr ()"
proof -
  from assms obtain seen where c: "check_staged env config (contract (fl_operation lease)) [] staged = Some seen"
    and r: "\<not> list_ex (\<lambda>ac. ac_required ac \<and> ac_role ac \<notin> set seen) (oc_artifacts (contract (fl_operation lease)))"
    by (auto simp: validate_finalization_def split: sum.splits option.splits if_splits authorization_error.splits unit.splits)
  show "\<exists>ac. contract_artifact (contract (fl_operation lease)) (sa_role s) = Some ac \<and> staged_ok env config ac s"
    if "s \<in> set staged" for s using check_staged_ok(1) [OF c that] .
  show "ac_role ac \<in> sa_role ` set staged" if "ac \<in> set (oc_artifacts (contract (fl_operation lease)))" "ac_required ac" for ac
    using r that check_staged_ok(2) [OF c] by (auto simp: list_ex_iff)
  show "ensure_project_role_for_user (fl_requester_user_id lease) p Read adb = Inr ()" if "fl_project_id lease = Some p" for p
    using assms that by (auto simp: validate_finalization_def split: sum.splits authorization_error.splits)
qed

lemma in_map_filter: "y \<in> set (List.map_filter f xs) \<longleftrightarrow> (\<exists>x \<in> set xs. f x = Some y)"
  by (induction xs) (auto simp: List.map_filter_simps split: option.splits)

lemma those_in: "those xs = Some ys \<Longrightarrow> y \<in> set ys \<Longrightarrow> Some y \<in> set xs"
  by (induction xs arbitrary: ys) (auto split: option.splits)

lemma loaded_content:
  assumes "load_staged_artifacts lease db = Some staged" and "s \<in> set staged"
  shows "\<exists>b \<in> set (blobs db). b_id b = sa_blob_id s \<and> b_content b = sa_content s"
proof (cases "fl_cache_source_job_id lease")
  case (Some src)
  with assms show ?thesis
    by (auto simp: load_staged_artifacts_def cached_artifacts_def in_map_filter staged_from_artifact_def
        split: if_splits dest!: find_Some_set) blast
next
  case None
  with assms obtain a where "those (uploaded_artifacts a db) = Some staged"
    by (auto simp: load_staged_artifacts_def split: option.splits)
  from those_in [OF this assms(2)] obtain t b where
    "find (\<lambda>b. t_blob_id t = Some (b_id b)) (blobs db) = Some b" "staged_from_transfer t b = Some s"
    by (auto simp: uploaded_artifacts_def in_map_filter)
  then show ?thesis
    by (auto simp: staged_from_transfer_def split: option.splits dest!: find_Some_set)
qed

text \<open>How \<open>finalize_one\<close> can add an artifact.\<close>

lemma finalize_one_publishes:
  assumes fin: "finalize_one ports env config adb commit fresh pid locked token t1 t2 (db, w) = (r, (db', w'))"
    and f: "f \<in> set (artifacts db')" "f \<notin> set (artifacts db)"
  obtains lease db1 staged v dbp g where
    "acquire_finalization_lease config locked token t1 db = (Some lease, db1)"
    "load_staged_artifacts lease db1 = Some staged" "validate_finalization env config adb lease staged = Inr v"
    "lock_finalization lease t2 db1" "publish_staged_artifacts fresh 0 (fl_job_id lease) t2 staged db1 = Some dbp"
    "db' = dbp\<lparr>jobs := update_where (holds_lease lease) g (jobs dbp)\<rparr>"
    "\<And>j. j_id (g j) = j_id j \<and> j_operation (g j) = j_operation j \<and> j_state (g j) = Succeeded \<and>
      j_project_id (g j) = j_project_id j \<and> j_requester_user_id (g j) = j_requester_user_id j"
proof -
  have acq: "artifacts (snd (acquire_finalization_lease config locked token t1 db)) = artifacts db"
    by (simp add: acquire_finalization_lease_def split: option.splits)
  from fin f acq obtain lease db1 where a: "acquire_finalization_lease config locked token t1 db = (Some lease, db1)"
    by (auto simp: finalize_one_def split: prod.splits option.splits)
  with acq f have f1: "f \<notin> set (artifacts db1)" by simp
  from fin a f(1) f1 obtain staged v where st: "load_staged_artifacts lease db1 = Some staged"
    and v: "validate_finalization env config adb lease staged = Inr v"
    by (auto simp: finalize_one_def reject_artifacts_def split: option.splits sum.splits finalization_check_error.splits)
  show thesis
  proof (cases v)
    case Artifacts_validated
    with fin a st v have "db' = snd (publish_artifacts fresh lease staged t2 db1)"
      by (auto simp: finalize_one_def split: prod.splits sum.splits unit.splits)
    with f(1) f1 that [OF a st v, where g = "succeed_job t2"] show thesis
      by (auto simp: publish_artifacts_def succeed_job_def split: if_splits option.splits)
  next
    case (Workspace_validated bndl name)
    with fin a st v have db': "db' = fst (snd (publish_workspace ports commit fresh lease staged bndl name pid t2 (db1, w)))"
      by (auto simp: finalize_one_def split: prod.splits sum.splits unit.splits)
    show thesis
    proof (cases rule: publish_workspace_cases [of ports commit fresh lease staged bndl name pid t2 "(db1, w)"])
      case kept
      with db' f(1) f1 show thesis by simp
    next
      case (done_ db2 sa w1 w2)
      with db' have "published_db fresh lease staged pid t2 db1 = Some db'" by simp
      then show thesis using that [OF a st v, where g = "\<lambda>j. succeed_job t2 j\<lparr>j_result_project_id := Some pid\<rparr>"]
        by (auto simp: published_db_def succeed_job_def split: if_splits option.splits)
    qed
  qed
qed

lemma leased_job:
  assumes "acquire_finalization_lease config locked token t1 (run es empty_db) = (Some lease, db1)"
    and "j \<in> set (jobs db1)" and "holds_lease lease j"
  shows "j_operation j = fl_operation lease \<and> j_project_id j = fl_project_id lease \<and>
    j_requester_user_id j = fl_requester_user_id lease"
proof -
  let ?db = "run es empty_db"
  from assms(1) obtain k where k: "first_by j_updated_at (filter (finalizable locked t1) (jobs ?db)) = Some k"
    and lease: "lease = lease_of token k" and db1: "jobs db1 = update_where (\<lambda>x. j_id x = j_id k)
      (take_lease token (t1 + c_finalization_lease config) t1) (jobs ?db)"
    by (auto simp: acquire_finalization_lease_def split: option.splits simp del: first_by_None)
  have k': "k \<in> set (jobs ?db)" using first_by_Some(1) [OF k] by simp
  have id: "j_id j = j_id k" using assms(3) lease by (simp add: holds_lease_def lease_of_def)
  from assms(2) [unfolded db1 in_update_where] id obtain x where x: "x \<in> set (jobs ?db)" "j_id x = j_id k"
    "j = take_lease token (t1 + c_finalization_lease config) t1 x"
    by (auto simp: take_lease_def split: if_splits)
  have "x = k" using key_unique [OF reachable_keys(1) x(1) k'] x(2) by simp
  with x(3) lease show ?thesis by (simp add: take_lease_def lease_of_def)
qed

text \<open>
  C30. Only validated results are published: an artifact that \<open>finalize_one\<close> adds belongs to a job that
  has succeeded; its role is one of the job's operation contract, with the contract's media type and file
  suffix, a size within the limit of its class, and the digest and size of the stored content; every
  required role of the contract is published; and the requester could still read the project.
\<close>

theorem published_contract:
  assumes fin: "finalize_one ports env config adb commit fresh pid locked token t1 t2 (run es empty_db, w) = (r, (db', w'))"
    and f: "f \<in> set (artifacts db')" "f \<notin> set (artifacts (run es empty_db))"
  shows "\<exists>j \<in> set (jobs db'). \<exists>b \<in> set (blobs db'). \<exists>ac. j_id j = f_job_id f \<and> j_state j = Succeeded \<and>
    contract_artifact (contract (j_operation j)) (f_role f) = Some ac \<and> f_media_type f = ac_media_type ac \<and>
    ends_with (ac_filename_suffix ac) (f_filename f) \<and> 0 < f_size_bytes f \<and> f_size_bytes f \<le> size_limit config (ac_size_class ac) \<and>
    b_id b = f_blob_id f \<and> f_sha256 f = fe_sha256 env (b_content b) \<and> f_size_bytes f = i64_len (b_content b) \<and>
    (\<forall>rc \<in> set (oc_artifacts (contract (j_operation j))). ac_required rc \<longrightarrow>
       (\<exists>g \<in> set (artifacts db'). f_job_id g = f_job_id f \<and> f_role g = ac_role rc)) \<and>
    (\<forall>p. j_project_id j = Some p \<longrightarrow> ensure_project_role_for_user (j_requester_user_id j) p Read adb = Inr ())"
proof -
  let ?db = "run es empty_db"
  from finalize_one_publishes [OF fin f] obtain lease db1 staged v dbp g where
    a: "acquire_finalization_lease config locked token t1 ?db = (Some lease, db1)"
    and ld: "load_staged_artifacts lease db1 = Some staged" and v: "validate_finalization env config adb lease staged = Inr v"
    and lock: "lock_finalization lease t2 db1" and pub: "publish_staged_artifacts fresh 0 (fl_job_id lease) t2 staged db1 = Some dbp"
    and db': "db' = dbp\<lparr>jobs := update_where (holds_lease lease) g (jobs dbp)\<rparr>"
    and g: "\<And>j. j_id (g j) = j_id j \<and> j_operation (g j) = j_operation j \<and> j_state (g j) = Succeeded \<and>
      j_project_id (g j) = j_project_id j \<and> j_requester_user_id (g j) = j_requester_user_id j" by metis
  from publish_staged_shape [OF pub] obtain rows ts where
    dbp: "dbp = db1\<lparr>artifacts := artifacts db1 @ rows, transfers := ts\<rparr>"
    and rows: "published (fl_job_id lease) t2 staged db1 rows" by blast
  have "artifacts db1 = artifacts ?db"
    using a by (auto simp: acquire_finalization_lease_def split: option.splits)
  with f db' dbp have "f \<in> set rows" by auto
  with rows obtain s i where s: "s \<in> set staged" "f = artifact_of i (fl_job_id lease) t2 s" unfolding published_def by blast
  from validated_staged(1) [OF v s(1)] obtain ac where
    ac: "contract_artifact (contract (fl_operation lease)) (sa_role s) = Some ac" "staged_ok env config ac s" by blast
  from loaded_content [OF ld s(1)] obtain b where b: "b \<in> set (blobs db1)" "b_id b = sa_blob_id s" "b_content b = sa_content s"
    by blast
  from lock obtain j where j: "j \<in> set (jobs db1)" "holds_lease lease j" by (auto simp: lock_finalization_iff)
  from leased_job [OF a j] have op: "j_operation j = fl_operation lease" "j_project_id j = fl_project_id lease"
    "j_requester_user_id j = fl_requester_user_id lease" by simp_all
  have "g j \<in> set (jobs db')" using j unfolding db' dbp by (auto simp: in_update_where)
  moreover have "\<exists>h \<in> set (artifacts db'). f_job_id h = f_job_id f \<and> f_role h = ac_role rc"
    if "rc \<in> set (oc_artifacts (contract (fl_operation lease)))" "ac_required rc" for rc
  proof -
    from validated_staged(2) [OF v that] obtain u where "u \<in> set staged" "sa_role u = ac_role rc" by auto
    moreover from this(1) rows obtain h where "h \<in> set (artifacts db1 @ rows)" "f_job_id h = fl_job_id lease" "f_role h = sa_role u"
      unfolding published_def by blast
    ultimately show ?thesis unfolding db' dbp using s(2) by (intro bexI [of _ h]) (simp_all add: artifact_of_def)
  qed
  ultimately show ?thesis
    using b ac s(2) j(2) g [of j] op validated_staged(3) [OF v]
    by (intro bexI [of _ "g j"] bexI [of _ b] exI [of _ ac])
      (auto simp: staged_ok_def artifact_of_def holds_lease_def db' dbp)
qed

definition ex_access :: access_db where
  "ex_access = \<lparr>roles = [\<lparr>ro_project_id = 5, ro_user_id = 7, ro_role = ReadOnly, ro_granted_at = 0, ro_source = DirectRole\<rparr>],
     organization_access = [], memberships = [], template_access = [], share_links = [], guest_sessions = [],
     auth_sessions = [], anonymous_setting = None, access_epochs = []\<rparr>"

definition ex_validation :: finalization_env where
  "ex_validation = \<lparr>fe_sha256 = ex_sha, fe_zip_open = (\<lambda>_. None), fe_parse_manifest = (\<lambda>_. None),
     fe_parse_json = (\<lambda>_. None), fe_hex = (\<lambda>b. b), fe_essence = (\<lambda>_. None)\<rparr>"

definition ex_finalized :: "(unit + bool) \<times> (processing_db \<times> unit)" where
  "ex_finalized = finalize_one no_workspace ex_validation ex_config ex_access Committed (\<lambda>i. 70 + i) 90
     (\<lambda>_. False) 60 7 8 (ex_db (take 7 ex_delivered), ())"

lemma ex_finalized_artifacts:
  "artifacts (ex_db (take 7 ex_delivered)) = []"
  "map (\<lambda>f. (f_id f, f_job_id f, f_role f)) (artifacts (fst (snd ex_finalized))) = [(70, 1, ''pdf'')]"
  by code_simp+

theorem published_contract_witness:
  "\<exists>f \<in> set (artifacts (fst (snd ex_finalized))). \<exists>j \<in> set (jobs (fst (snd ex_finalized))). \<exists>ac.
     f_id f = 70 \<and> j_state j = Succeeded \<and> contract_artifact (contract (j_operation j)) ''pdf'' = Some ac \<and>
     f_media_type f = ac_media_type ac"
proof -
  obtain r db' w' where e: "ex_finalized = (r, (db', w'))" by (metis surj_pair)
  note fin = e [unfolded ex_finalized_def]
  have f: "hd (artifacts db') \<in> set (artifacts db')" "f_id (hd (artifacts db')) = 70" "f_role (hd (artifacts db')) = ''pdf''"
    using hd_of_map [OF ex_finalized_artifacts(2)] unfolding e by simp_all
  have "hd (artifacts db') \<notin> set (artifacts (ex_db (take 7 ex_delivered)))" by (simp add: ex_finalized_artifacts(1))
  from published_contract [OF fin f(1) this] obtain j ac where "j \<in> set (jobs db')" "j_state j = Succeeded"
    "contract_artifact (contract (j_operation j)) ''pdf'' = Some ac" "f_media_type (hd (artifacts db')) = ac_media_type ac"
    unfolding f(3) by blast
  with f show ?thesis unfolding e by auto
qed

section \<open>Publication into the Workspace\<close>

lemma publish_transaction_effects:
  assumes "publish_workspace_transaction ports fresh lease staged bndl name sa pid now (db, w) = (Inr True, (db', w'))"
  shows "published_db fresh lease staged pid now db = Some db'"
    and "\<exists>graph w1. pg_project_id graph = pid \<and> pg_owner_user_id graph = fl_requester_user_id lease \<and>
      wp_provision ports graph sa w = Some w1 \<and> wp_mark_dirty ports pid (Some (fl_requester_user_id lease)) w1 = Some w'"
proof -
  show "published_db fresh lease staged pid now db = Some db'" by (rule publish_workspace_transaction_db [OF assms])
  let ?g = "\<lparr>pg_project_id = pid, pg_owner_user_id = fl_requester_user_id lease, pg_name = name, pg_project_type = Typst,
      pg_entry_file_path = vb_entry_file_path bndl, pg_directories = vb_directories bndl,
      pg_documents = vb_documents bndl, pg_created_at = now\<rparr>"
  from assms obtain w1 where "wp_provision ports ?g sa w = Some w1"
    "wp_mark_dirty ports pid (Some (fl_requester_user_id lease)) w1 = Some w'"
    by (auto simp: publish_workspace_transaction_def Let_def split: if_splits option.splits)
  then show "\<exists>graph w1. pg_project_id graph = pid \<and> pg_owner_user_id graph = fl_requester_user_id lease \<and>
      wp_provision ports graph sa w = Some w1 \<and> wp_mark_dirty ports pid (Some (fl_requester_user_id lease)) w1 = Some w'"
    by (intro exI [of _ ?g] exI [of _ w1]) simp
qed

text \<open>
  C31. Publishing an imported project is all or nothing, for every implementation of the Workspace's
  operations: either the processing store is as before and the staged objects were handed to a
  cleanup (or nothing could be staged), or the artifacts and the success of the job are in the
  store together with the provisioned and marked project, and nothing that was provisioned is
  cleaned up unless it is unreferenced.
\<close>

theorem publish_workspace_atomic:
  "\<exists>so w1. wp_stage ports pid (vb_assets bndl) w = (so, w1) \<and>
    (case so of
       None \<Rightarrow> publish_workspace ports commit fresh lease staged bndl name pid now (db, w) = (Inl (), (db, w1))
     | Some sa \<Rightarrow> \<exists>r db' w'. publish_workspace ports commit fresh lease staged bndl name pid now (db, w) = (r, (db', w')) \<and>
         ((db' = db \<and> w' \<in> {wp_cleanup ports sa w1, wp_cleanup_if_unreferenced ports sa w1}) \<or>
          (published_db fresh lease staged pid now db = Some db' \<and>
           (\<exists>graph w2 w3. pg_project_id graph = pid \<and> pg_owner_user_id graph = fl_requester_user_id lease \<and>
              wp_provision ports graph sa w1 = Some w2 \<and> wp_mark_dirty ports pid (Some (fl_requester_user_id lease)) w2 = Some w3 \<and>
              w' \<in> {w3, wp_cleanup_if_unreferenced ports sa w3} \<and> (commit = Committed \<longrightarrow> w' = w3 \<and> r = Inr ())))))"
proof -
  obtain so w1 where st: "wp_stage ports pid (vb_assets bndl) w = (so, w1)" by (metis surj_pair)
  show ?thesis
  proof (cases so)
    case None
    with st show ?thesis by (auto simp: publish_workspace_def)
  next
    case (Some sa)
    obtain r db2 w2 where t: "publish_workspace_transaction ports fresh lease staged bndl name sa pid now (db, w1) = (r, (db2, w2))"
      by (metis surj_pair)
    show ?thesis
    proof (cases "r = Inr True")
      case True
      note tr = publish_transaction_effects [OF t [unfolded True]]
      from tr obtain graph w3 where "pg_project_id graph = pid" "pg_owner_user_id graph = fl_requester_user_id lease"
        "wp_provision ports graph sa w1 = Some w3" "wp_mark_dirty ports pid (Some (fl_requester_user_id lease)) w3 = Some w2" by blast
      with tr(1) True t st Some show ?thesis
        by (cases commit) (auto simp: publish_workspace_def)
    next
      case False
      then have "r = Inl () \<or> r = Inr False" by (cases r) auto
      then show ?thesis
      proof
        assume "r = Inl ()"
        with t st Some show ?thesis by (auto simp: publish_workspace_def split: unit.split)
      next
        assume "r = Inr False"
        with t st Some show ?thesis by (auto simp: publish_workspace_def)
      qed
    qed
  qed
qed

definition ex_import :: validated_bundle where
  "ex_import = \<lparr>vb_entry_file_path = ''main.typ'', vb_directories = [], vb_documents = [], vb_assets = []\<rparr>"

theorem publish_workspace_atomic_witness:
  "\<exists>db'. publish_workspace no_workspace Committed (\<lambda>i. 70 + i) ex_lease ex_staged ex_import ''Talk'' 90 8 (ex_db ex_delivered, ()) =
      (Inr (), (db', ())) \<and> published_db (\<lambda>i. 70 + i) ex_lease ex_staged 90 8 (ex_db ex_delivered) = Some db'"
proof -
  let ?p = "publish_workspace no_workspace Committed (\<lambda>i. 70 + i) ex_lease ex_staged ex_import ''Talk'' 90 8 (ex_db ex_delivered, ())"
  have "map j_state (jobs (fst (snd ?p))) = [Succeeded]" "map j_state (jobs (ex_db ex_delivered)) = [Finalizing]" by code_simp+
  then have changed: "fst (snd ?p) \<noteq> ex_db ex_delivered" by auto
  from publish_workspace_atomic [of no_workspace 90 ex_import "()" Committed "\<lambda>i. 70 + i" ex_lease ex_staged "''Talk''" 8
      "ex_db ex_delivered"] changed
  show ?thesis by (auto simp: no_workspace_def)
qed

section \<open>Maintenance\<close>

lemma recover_fold_row:
  assumes "j \<in> set (jobs (fold (recover_claim now) rows db))" and "j_state j = Running"
  shows "j \<in> set (jobs db) \<and> j_id j \<notin> j_id ` set rows"
  using assms(1)
proof (induction rows arbitrary: db)
  case (Cons r rows)
  then have k: "j \<in> set (jobs (recover_claim now r db))" "j_id j \<notin> j_id ` set rows" by auto
  from k(1) [unfolded recover_claim_jobs in_update_where] obtain x where
    x: "x \<in> set (jobs db)" "j = (if j_id x = j_id r then recover_job now r x else x)" by blast
  have "j_state (recover_job now r x) \<noteq> Running" by (simp add: recover_job_def recovery_state_def)
  with x assms(2) have "j = x" "j_id x \<noteq> j_id r" by (auto split: if_splits)
  with x k(2) show ?case by auto
qed simp

lemma maintained_row:
  assumes "j \<in> set (jobs (maintenance_transaction locked now db))"
  shows "\<exists>k \<in> set (jobs (recover_claims locked now db)). j_id j = j_id k \<and> j_queue_expires_at j = j_queue_expires_at k \<and>
    j_claim_expires_at j = j_claim_expires_at k \<and>
    j_state j = (if j_state k \<in> {Preparing, Queued} \<and> j_queue_expires_at k \<le> now then Expired else j_state k)"
proof -
  let ?d = "delete_expired_requests now (expire_transfers now (release_closed_pins (expire_waiting_jobs now (recover_claims locked now db))))"
  have "jobs (maintenance_transaction locked now db) = jobs (delete_retained_jobs now ?d)"
    by (simp add: maintenance_transaction_def delete_unreferenced_blobs_def)
  with assms obtain x where x: "x \<in> set (jobs ?d)" "j = retained (gone_ids now ?d) x" by (auto simp: in_retained_jobs)
  have "jobs ?d = jobs (expire_waiting_jobs now (recover_claims locked now db))"
    by (simp add: delete_expired_requests_def expire_transfers_def release_closed_pins_def)
  with x(1) obtain k where "k \<in> set (jobs (recover_claims locked now db))"
    "x = (if j_state k \<in> {Preparing, Queued} \<and> j_queue_expires_at k \<le> now then expire_waiting now k else k)"
    by (auto simp: expire_waiting_jobs_def in_update_where)
  with x(2) show ?thesis by (intro bexI [of _ k]) (auto simp: retained_def expire_waiting_def)
qed

text \<open>
  C32. No job waits for ever: after lifecycle maintenance at a time, every job that still waits for
  its input or for a worker has a queue deadline after that time.
\<close>

theorem queue_deadline:
  assumes "j \<in> set (jobs (maintain_lifecycle locked now db))" and "j_state j \<in> {Preparing, Queued}"
  shows "now < j_queue_expires_at j"
proof -
  let ?db = "expire_draining_sessions now (expire_sessions now db)"
  have "j \<in> set (jobs (maintenance_transaction locked now ?db))" using assms(1) by (simp add: maintain_lifecycle_def)
  from maintained_row [OF this] assms(2) show ?thesis by (auto split: if_splits)
qed

theorem queue_deadline_witness:
  "\<exists>j \<in> set (jobs (maintain_lifecycle (\<lambda>_. False) 10 (ex_db (take 3 ex_started)))). j_state j = Queued \<and> 10 < j_queue_expires_at j"
proof -
  let ?db = "maintain_lifecycle (\<lambda>_. False) 10 (ex_db (take 3 ex_started))"
  have e: "map j_state (jobs ?db) = [Queued]" by code_simp
  from hd_of_map [OF e] have j: "hd (jobs ?db) \<in> set (jobs ?db)" "j_state (hd (jobs ?db)) = Queued" by simp_all
  with queue_deadline [OF j(1)] show ?thesis by blast
qed

text \<open>The number of expired claims, and what one pass leaves of them.\<close>

definition expired_count :: "instant \<Rightarrow> processing_db \<Rightarrow> nat" where
  "expired_count now db = length (filter (claim_expired now) (jobs db))"

lemma expired_after:
  assumes inv: "lifecycle_inv db"
  shows "expired_count now (maintenance_transaction (\<lambda>_. False) now db) \<le> expired_count now db - maintenance_batch"
proof -
  let ?m = "maintenance_transaction (\<lambda>_. False) now db" and ?rows = "expired_claims (\<lambda>_. False) now db"
  let ?E = "\<lambda>d. j_id ` set (filter (claim_expired now) (jobs d))"
  note rows = expired_claims_rows [OF keys_okD(1) [OF lifecycle_invD(2) [OF inv]], where locked = "\<lambda>_. False" and now = now]
  have card: "expired_count now d = card (?E d)" if "lifecycle_inv d" for d
    using distinct_map_filter [OF keys_okD(1) [OF lifecycle_invD(2) [OF that]]]
    by (metis distinct_card expired_count_def length_map list.set_map)
  have sub: "j_id ` set ?rows \<subseteq> ?E db" using rows(2) by auto
  have "?E ?m \<subseteq> ?E db - j_id ` set ?rows"
  proof
    fix i assume "i \<in> ?E ?m"
    then obtain j where j: "j \<in> set (jobs ?m)" "claim_expired now j" "i = j_id j" by auto
    from maintained_row [OF j(1)] obtain k where k: "k \<in> set (jobs (recover_claims (\<lambda>_. False) now db))"
      "j_id j = j_id k" "j_claim_expires_at j = j_claim_expires_at k" "j_state j = j_state k"
      using j(2) by (auto simp: claim_expired_def split: if_splits)
    with j(2) recover_fold_row [OF k(1) [unfolded recover_claims_def]] have "k \<in> set (jobs db)" "j_id k \<notin> j_id ` set ?rows"
      by (simp_all add: claim_expired_def)
    with k j show "i \<in> ?E db - j_id ` set ?rows" by (auto simp: claim_expired_def)
  qed
  then have "card (?E ?m) \<le> card (?E db) - card (j_id ` set ?rows)"
    using sub by (metis card_Diff_subset card_mono finite_Diff finite_imageI finite_set)
  moreover have "card (j_id ` set ?rows) = length ?rows" using rows(1) by (metis distinct_card length_map list.set_map)
  moreover have "length ?rows = min maintenance_batch (expired_count now db)"
    by (simp add: expired_claims_def expired_count_def)
  ultimately show ?thesis
    using card [OF inv] card [OF maintenance_transaction_inv [OF inv]] by simp
qed



end
