(* ===== verification/Component_Properties.thy ===== *)
theory Component_Properties
  imports Operation_Properties Finalization_Properties
begin

text \<open>
  Properties of the components that the lifecycle relies on: project access, worker credentials
  and configuration, project paths, archives, offers, and stored blobs.
\<close>

section \<open>Project access\<close>


definition ex_guest_access :: access_db where
  "ex_guest_access = ex_access\<lparr>share_links := [\<lparr>sl_id = 3, sl_project_id = 5, sl_permission = Write_permission,
       sl_token_value = ''s'', sl_expires_at = None, sl_revoked_at = None\<rparr>],
     guest_sessions := [\<lparr>gs_id = 4, gs_project_id = 5, gs_share_link_id = 3, gs_token_fingerprint = ex_sha ''g'',
       gs_display_name = ''guest'', gs_permission = Write_permission, gs_expires_at = None, gs_last_used_at = None\<rparr>],
     anonymous_setting := Some ReadWriteNamed\<rparr>"

definition ex_request_env :: request_env where
  "ex_request_env = \<lparr>re_sha256 = ex_sha, re_dev_header = False, re_parse_uuid = (\<lambda>_. None), re_now = 10\<rparr>"

definition ex_guest_headers :: headers where
  "ex_guest_headers name = (if name = ''x-guest-session'' then Some ''g'' else None)"


text \<open>
  C37. A signed-in user is allowed exactly what the grants say: a need is granted if and only if
  the user has a role on the project that allows it, or belongs to an organisation whose access to
  the project allows it (roles are unique per project and user).
\<close>

theorem user_access_exact:
  assumes uniq: "distinct (map (\<lambda>r. (ro_project_id r, ro_user_id r)) (roles adb))"
  shows "ensure_project_role_for_user u p need adb = Inr () \<longleftrightarrow>
    (\<exists>r \<in> set (roles adb). ro_project_id r = p \<and> ro_user_id r = u \<and> allows_role need (ro_role r)) \<or>
    (\<exists>a \<in> set (organization_access adb). oa_project_id a = p \<and> (oa_organization_id a, u) \<in> set (memberships adb) \<and>
       allows_organization_permission need (oa_permission a))"
proof -
  have role: "(case direct_role u p adb of None \<Rightarrow> False | Some r \<Rightarrow> allows_role need r) \<longleftrightarrow>
    (\<exists>r \<in> set (roles adb). ro_project_id r = p \<and> ro_user_id r = u \<and> allows_role need (ro_role r))" (is "?L \<longleftrightarrow> ?R")
  proof
    assume ?L
    then show ?R using direct_role_Some by (fastforce split: option.splits)
  next
    assume ?R
    then obtain r where r: "r \<in> set (roles adb)" "ro_project_id r = p" "ro_user_id r = u" "allows_role need (ro_role r)" by blast
    have "find (\<lambda>r. ro_project_id r = p \<and> ro_user_id r = u) (roles adb) = Some r"
      using r by (intro find_by_key [OF uniq]) auto
    with r show ?L by (simp add: direct_role_def)
  qed
  have org: "(case organization_permission u p adb of None \<Rightarrow> False | Some q \<Rightarrow> allows_organization_permission need q) \<longleftrightarrow>
    (\<exists>a \<in> set (organization_access adb). oa_project_id a = p \<and> (oa_organization_id a, u) \<in> set (memberships adb) \<and>
       allows_organization_permission need (oa_permission a))" (is "?L \<longleftrightarrow> ?R")
  proof
    assume ?L
    then obtain q where q: "organization_permission u p adb = Some q" "allows_organization_permission need q"
      by (auto split: option.splits)
    from organization_permission_Some [OF q(1)] q(2) show ?R by blast
  next
    assume ?R
    then obtain a where a: "a \<in> set (organization_access adb)" "oa_project_id a = p" "(oa_organization_id a, u) \<in> set (memberships adb)"
      "allows_organization_permission need (oa_permission a)" by blast
    from organization_permission_best [OF a(1-3)] obtain q where q: "organization_permission u p adb = Some q"
      "can_write (oa_permission a) \<longrightarrow> can_write q" by blast
    have "allows_organization_permission need q" using a(4) q(2) by (cases need) auto
    with q show ?L by simp
  qed
  show ?thesis unfolding ensure_project_role_for_user_def project_user_access_def project_user_access_allows_def prod.case role org by simp
qed

theorem user_access_exact_witness:
  "ensure_project_role_for_user 7 5 Read ex_access = Inr () \<and> ensure_project_role_for_user 7 5 Write ex_access \<noteq> Inr ()"
  using user_access_exact [of ex_access 7 5] by (simp add: ex_access_def)

text \<open>
  C38. The project catalog agrees with the access checks: a user's catalog lists a project that may
  be shown (as a template or not) exactly when the single-project query says that the user has
  catalog access to it.
\<close>

theorem catalog_agrees:
  "(\<exists>c \<in> set (list_project_catalog_access u adb). pc_project_id c = p \<and> permits_catalog_entry c is_template) \<longleftrightarrow>
     project_user_has_catalog_access u p is_template adb"
proof -
  let ?role = "\<exists>r \<in> set (roles adb). ro_project_id r = p \<and> ro_user_id r = u"
  let ?org = "\<exists>a \<in> set (organization_access adb). oa_project_id a = p \<and> (oa_organization_id a, u) \<in> set (memberships adb)"
  have r: "direct_role u p adb \<noteq> None \<longleftrightarrow> ?role" by (auto simp: direct_role_def find_None_set)
  have o: "organization_permission u p adb \<noteq> None \<longleftrightarrow> ?org"
    using organization_permission_best [of _ adb p u] organization_permission_Some [of u p adb] by (auto; blast)
  have v: "p \<in> set (visible_projects u adb) \<longleftrightarrow> ?role \<or> ?org \<or> template_member u p adb"
    by (auto simp: visible_projects_def template_member_def image_iff Bex_def)
  have "(\<exists>c \<in> set (list_project_catalog_access u adb). pc_project_id c = p \<and> permits_catalog_entry c is_template) \<longleftrightarrow>
      p \<in> set (visible_projects u adb) \<and> (?role \<or> ?org \<or> (is_template \<and> template_member u p adb))"
    unfolding r [symmetric] o [symmetric]
    by (auto simp: list_project_catalog_access_def permits_catalog_entry_def catalog_can_read_def)
  also have "\<dots> \<longleftrightarrow> ?role \<or> ?org \<or> (is_template \<and> template_member u p adb)" unfolding v by blast
  also have "\<dots> \<longleftrightarrow> project_user_has_catalog_access u p is_template adb"
    by (auto simp: project_user_has_catalog_access_def)
  finally show ?thesis .
qed

lemma direct_role_append:
  "direct_role u p (adb\<lparr>roles := roles adb @ [r]\<rparr>) =
     (case direct_role u p adb of Some x \<Rightarrow> Some x
      | None \<Rightarrow> if ro_project_id r = p \<and> ro_user_id r = u then Some (ro_role r) else None)"
  by (auto simp: direct_role_def find_blob_append split: option.splits)

text \<open>
  Accepting a share link never lowers a role: afterwards the user's role on the project is the
  maximum of the earlier role (if any) and the requested one, and nobody else's role has changed.
\<close>

lemma share_link_grant_max:
  "direct_role v q (grant_project_share_link_role_at_least p u requested now adb) =
     (if v = u \<and> q = p
      then Some (case direct_role u p adb of None \<Rightarrow> requested | Some r \<Rightarrow> max r requested)
      else direct_role v q adb)"
proof -
  let ?here = "\<lambda>r. ro_project_id r = p \<and> ro_user_id r = u"
  have key: "ro_project_id (raise_role requested now r) = ro_project_id r" "ro_user_id (raise_role requested now r) = ro_user_id r" for r
    by (simp_all add: raise_role_def)
  show ?thesis
  proof (cases "\<exists>r \<in> set (roles adb). ?here r")
    case True
    then have d: "direct_role u p adb \<noteq> None" by (auto simp: direct_role_def find_None_set)
    have eq: "direct_role v q (grant_project_share_link_role_at_least p u requested now adb) =
        map_option (\<lambda>x. ro_role (if ?here x then raise_role requested now x else x))
          (find (\<lambda>r. ro_project_id r = q \<and> ro_user_id r = v) (roles adb))"
      using True by (simp add: grant_project_share_link_role_at_least_def direct_role_def find_update_where key option.map_comp comp_def)
    show ?thesis
    proof (cases "find (\<lambda>r. ro_project_id r = q \<and> ro_user_id r = v) (roles adb)")
      case None
      with d have "\<not> (v = u \<and> q = p)" by (auto simp: direct_role_def)
      then show ?thesis unfolding eq by (simp add: None direct_role_def)
    next
      case (Some x)
      with find_Some_set [OF Some] show ?thesis unfolding eq by (auto simp: direct_role_def raise_role_max)
    qed
  next
    case False
    then have "direct_role u p adb = None" by (auto simp: direct_role_def find_None_set)
    with False show ?thesis
      by (auto simp: grant_project_share_link_role_at_least_def Let_def direct_role_append split: option.splits)
  qed
qed

section \<open>Configuration and credentials\<close>

text \<open>
  C39. A configuration that is accepted is sound: every limit and duration is positive, worker
  identities have well-formed, unique names and unique token fingerprints, and each lists at least one
  operation, each operation once, with a non-empty list of distinct, well-formed processor contracts.
\<close>

theorem config_sound:
  assumes "from_config sha256 read_file f = Inr c"
  shows "config_ok c \<and> map wi_id (c_identities c) = map ii_id (cf_worker_identities f)"
  using from_config_ok [OF assms] parse_identities_ok(4) [OF from_config_identities [OF assms]] by simp

definition ex_token :: string where "ex_token = replicate 40 (CHR ''t'')"

definition ex_contract :: string where "ex_contract = ''sha256:'' @ replicate 64 (CHR ''a'')"

definition ex_config_file :: processing_config_file where
  "ex_config_file = default_config_file\<lparr>cf_worker_identities := [\<lparr>ii_id = ''tex-1'', ii_token_file = ''token'',
     ii_operations = [\<lparr>oi_id = ''latex.compile.pdf/v1'', oi_processor_contracts = [ex_contract]\<rparr>]\<rparr>]\<rparr>"

lemma ex_config_accepted: "\<exists>c. from_config (\<lambda>b. b) (\<lambda>_. Some ex_token) ex_config_file = Inr c"
proof -
  have "(case from_config (\<lambda>b. b) (\<lambda>_. Some ex_token) ex_config_file of Inr _ \<Rightarrow> True | Inl _ \<Rightarrow> False)" by code_simp
  then show ?thesis by (auto split: sum.splits)
qed

theorem config_sound_witness:
  "\<exists>c. from_config (\<lambda>b. b) (\<lambda>_. Some ex_token) ex_config_file = Inr c \<and> config_ok c"
  using ex_config_accepted config_sound by blast

text \<open>
  Worker authentication is exact: under an accepted configuration, and if no other text has the
  digest of the presented token, a bearer token is accepted as the identity \<open>i\<close> exactly when it is
  (up to surrounding white space) the content of the token file configured for \<open>i\<close>.
\<close>

lemma authenticate_exact:
  assumes cfg: "from_config sha256 read_file f = Inr c"
    and coll: "\<And>x. sha256 x = sha256 (trim t) \<Longrightarrow> x = trim t"
  shows "(\<exists>w. authenticate sha256 c (Some (''Bearer '' @ t)) = Some w \<and> aw_identity w = i) \<longleftrightarrow>
    (\<exists>input \<in> set (cf_worker_identities f). ii_id input = i \<and>
       (\<exists>content. read_file (ii_token_file input) = Some content \<and> trim content = trim t))"
proof -
  note ids = from_config_identities [OF cfg]
  note ok = parse_identities_ok [OF ids]
  have tok: "\<exists>x \<in> set (c_identities c). \<exists>content. wi_id x = ii_id input \<and> read_file (ii_token_file input) = Some content \<and>
      wi_token_fingerprint x = sha256 (trim content)" if "input \<in> set (cf_worker_identities f)" for input
    using parse_identities_loop_token [OF ids [unfolded parse_identities_def] that] .
  have auth: "authenticate sha256 c (Some (''Bearer '' @ t)) =
      map_option (\<lambda>i. \<lparr>aw_identity = wi_id i, aw_operations = wi_operations i\<rparr>)
        (find (\<lambda>i. wi_token_fingerprint i = sha256 (trim t)) (c_identities c))"
    unfolding authenticate_def option.case strip_prefix_append Let_def by simp
  show ?thesis
  proof
    assume "\<exists>w. authenticate sha256 c (Some (''Bearer '' @ t)) = Some w \<and> aw_identity w = i"
    then obtain x where x: "x \<in> set (c_identities c)" "wi_token_fingerprint x = sha256 (trim t)" "wi_id x = i"
      unfolding auth by (auto dest: find_Some_set)
    from x(1) ok(4) have "wi_id x \<in> set (map ii_id (cf_worker_identities f))" by (metis imageI list.set_map)
    then obtain input where input: "input \<in> set (cf_worker_identities f)" "ii_id input = i" using x(3) by auto
    from tok [OF input(1)] obtain y content where y: "y \<in> set (c_identities c)" "wi_id y = i"
      "read_file (ii_token_file input) = Some content" "wi_token_fingerprint y = sha256 (trim content)" using input(2) by blast
    have "y = x" using key_unique [OF ok(2) y(1) x(1)] y(2) x(3) by simp
    with y x have "trim content = trim t" by (intro coll) simp
    with input y show "\<exists>input \<in> set (cf_worker_identities f). ii_id input = i \<and>
       (\<exists>content. read_file (ii_token_file input) = Some content \<and> trim content = trim t)" by blast
  next
    assume "\<exists>input \<in> set (cf_worker_identities f). ii_id input = i \<and>
       (\<exists>content. read_file (ii_token_file input) = Some content \<and> trim content = trim t)"
    then obtain input content where input: "input \<in> set (cf_worker_identities f)" "ii_id input = i"
      "read_file (ii_token_file input) = Some content" "trim content = trim t" by blast
    from tok [OF input(1)] input obtain y where y: "y \<in> set (c_identities c)" "wi_id y = i" "wi_token_fingerprint y = sha256 (trim t)"
      by auto
    have "find (\<lambda>i. wi_token_fingerprint i = sha256 (trim t)) (c_identities c) = Some y"
      using y by (intro find_by_key [OF ok(3)]) auto
    with y(2) show "\<exists>w. authenticate sha256 c (Some (''Bearer '' @ t)) = Some w \<and> aw_identity w = i" unfolding auth by simp
  qed
qed

lemma authenticate_exact_witness:
  "\<exists>c w. from_config (\<lambda>b. b) (\<lambda>_. Some ex_token) ex_config_file = Inr c \<and>
     authenticate (\<lambda>b. b) c (Some (''Bearer '' @ ex_token)) = Some w \<and> aw_identity w = ''tex-1''"
proof -
  from ex_config_accepted obtain c where c: "from_config (\<lambda>b. b) (\<lambda>_. Some ex_token) ex_config_file = Inr c" by blast
  from authenticate_exact [OF c, of ex_token "''tex-1''"] c show ?thesis by (auto simp: ex_config_file_def)
qed

text \<open>
  The retry delay doubles with every attempt, from one second to thirty seconds at most, for every
  stored attempt count.
\<close>

lemma retry_delay:
  assumes "1 \<le> m" and "m \<le> n" and "n \<le> i32_max"
  shows "processing_retry_delay m = seconds (min (2 ^ min (nat (m - 1)) 5) 30) \<and>
    processing_retry_delay m \<le> processing_retry_delay n \<and> seconds 1 \<le> processing_retry_delay m \<and>
    processing_retry_delay n \<le> seconds 30"
  using retry_delay_mono [OF assms] retry_delay_bounds retry_shift_eq [of m] assms by (simp add: retry_delay_shift)

lemma retry_delay_example:
  "processing_retry_delay 2 = seconds 2 \<and> processing_retry_delay 2 \<le> processing_retry_delay 9"
  using retry_delay [of 2 9] by (simp add: i32_max_def)

section \<open>Paths\<close>

text \<open>
  C40. Accepted project paths are safe: a sanitised path is relative, has no backslash, and none of its
  segments is empty, a dot, two dots, a Git directory in any letter case, or contains a null character.
\<close>

theorem sanitized_path_safe:
  assumes "sanitize_project_path raw = Some path"
  shows "path \<noteq> [] \<and> \<not> starts_with ''/'' path \<and> CHR 92 \<notin> set path \<and>
    list_all (\<lambda>seg. seg \<notin> {[], ''.'', ''..''} \<and> to_ascii_lowercase seg \<noteq> ''.git'' \<and> CHR 0x00 \<notin> set seg) (split_on (CHR ''/'') path)"
proof -
  from assms obtain parts where parts: "parts \<noteq> []" "path = join_with (CHR ''/'') parts" "split_on (CHR ''/'') path = parts"
    "\<forall>p \<in> set parts. \<not> bad_segment p" "CHR 92 \<notin> set path" by (rule sanitize_project_path_parts)
  have git: "to_ascii_lowercase ''.git'' = ''.git''" by code_simp
  have segs: "list_all (\<lambda>seg. seg \<notin> {[], ''.'', ''..''} \<and> to_ascii_lowercase seg \<noteq> ''.git'' \<and> CHR 0x00 \<notin> set seg) parts"
    using parts(4) git by (auto simp: list_all_iff bad_segment_def eq_ignore_ascii_case_def)
  have "\<not> starts_with ''/'' path \<and> path \<noteq> []"
  proof -
    have "hd (split_on (CHR ''/'') path) \<noteq> []" using segs parts(1,3) by (cases parts) auto
    then show ?thesis by (cases path) (auto simp: starts_with_iff)
  qed
  with segs parts show ?thesis by simp
qed

theorem sanitized_path_safe_witness:
  "sanitize_project_path '' chapters/intro.typ'' = Some ''chapters/intro.typ'' \<and> \<not> starts_with ''/'' ''chapters/intro.typ''"
proof -
  have e: "sanitize_project_path '' chapters/intro.typ'' = Some ''chapters/intro.typ''" by code_simp
  from sanitized_path_safe [OF e] e show ?thesis by blast
qed

text \<open>
  Moving a path with its subtree is invertible: what moved from one directory to another is below
  the other and moves back to where it was; a path that is not below the source does not move.
\<close>

lemma move_path_roundtrip:
  "case move_path_with_subtree path from to of
     Some q \<Rightarrow> path_is_in_subtree path from \<and> path_is_in_subtree q to \<and> move_path_with_subtree q to from = Some path
   | None \<Rightarrow> \<not> path_is_in_subtree path from"
  by (auto simp: move_path_iff subtree_iff split: option.splits)

section \<open>Archives\<close>

text \<open>
  An accepted PPTX package is structurally safe: it has at most 16384 entries with distinct, safe
  names; every entry was read completely with its declared size, and together they do not exceed the
  expansion limit; and every required part is a file with content.
\<close>

lemma pptx_safe:
  assumes "validate_pptx zip_open content mx = Inr ()" and "0 \<le> mx"
  shows "\<exists>entries. zip_open content = Some (map Some entries) \<and> entries \<noteq> [] \<and> length entries \<le> max_archive_entries \<and>
    list_all part_ok entries \<and> distinct (map (strip_slash \<circ> ze_name) entries) \<and> sum_list (map ze_size entries) \<le> mx \<and>
    list_all (\<lambda>part. list_ex (\<lambda>z. strip_slash (ze_name z) = part \<and> \<not> ze_is_dir z \<and> ze_data z \<noteq> []) entries) required_parts"
proof -
  from assms obtain archive req where z: "zip_open content = Some archive" "archive \<noteq> []" "length archive \<le> max_archive_entries"
    and v: "validate_parts mx [] [] 0 archive = Inr req" and r: "\<forall>part \<in> set required_parts. part \<in> set req"
    by (auto simp: validate_pptx_def list_ex_iff split: option.splits if_splits sum.splits)
  let ?es = "map the archive"
  have all: "list_all (\<lambda>x. \<exists>z. x = Some z \<and> part_ok z) archive" by (rule validate_parts_entries [OF v])
  then have m: "map Some ?es = archive" by (induction archive) auto
  have ok: "list_all part_ok ?es" using all by (auto simp: list_all_iff)
  have "\<exists>z \<in> set ?es. strip_slash (ze_name z) = part \<and> \<not> ze_is_dir z \<and> ze_data z \<noteq> []" if "part \<in> set required_parts" for part
  proof -
    from validate_parts_required [OF v, of part] r that obtain z where "Some z \<in> set archive" "strip_slash (ze_name z) = part"
      "\<not> ze_is_dir z" "ze_data z \<noteq> []" by auto
    then show ?thesis by (intro bexI [of _ z]) (auto intro: rev_image_eqI)
  qed
  then show ?thesis
    using z m ok validate_parts_names [OF v] validate_parts_size [OF v assms(2)]
    by (intro exI [of _ ?es]) (auto simp: list_all_iff list_ex_iff comp_def)
qed

definition ex_part :: "string \<Rightarrow> zip_entry" where
  "ex_part n = \<lparr>ze_name = n, ze_is_dir = False, ze_unix_mode = None, ze_size = 2, ze_data = ''ab'', ze_broken = False\<rparr>"

lemma pptx_safe_witness:
  "validate_pptx (\<lambda>_. Some (map (Some \<circ> ex_part) required_parts)) ''zip'' 100 = Inr () \<and>
   (\<exists>entries. map Some entries = map (Some \<circ> ex_part) required_parts \<and> list_all part_ok entries)"
proof -
  have v: "validate_pptx (\<lambda>_. Some (map (Some \<circ> ex_part) required_parts)) ''zip'' 100 = Inr ()" by code_simp
  from pptx_safe [OF v] obtain entries where "map Some entries = map (Some \<circ> ex_part) required_parts" "list_all part_ok entries"
    by (auto simp: eq_commute)
  with v show ?thesis by blast
qed

text \<open>What holds of the documents and assets collected so far, of the archive's \<open>files\<close> and the manifest's \<open>records\<close>.\<close>

definition listed :: "(bytes \<Rightarrow> bytes) \<Rightarrow> (bytes \<Rightarrow> string) \<Rightarrow> bundle_file list \<Rightarrow> (string \<times> bytes) list \<Rightarrow> string \<Rightarrow> bytes \<Rightarrow> bool" where
  "listed sha256 hex records files path content \<longleftrightarrow>
     sanitize_project_path path = Some path \<and> (path, content) \<in> set files \<and>
     (\<exists>r \<in> set records. bf_path r = path \<and> bf_size_bytes r = int (length content) \<and> bf_sha256 r = hex (sha256 content))"

definition build_ok ::
  "(bytes \<Rightarrow> bytes) \<Rightarrow> (bytes \<Rightarrow> string) \<Rightarrow> string \<Rightarrow> bundle_file list \<Rightarrow> (string \<times> bytes) list \<Rightarrow> bundle_build \<Rightarrow> bool" where
  "build_ok sha256 hex entry records files st \<longleftrightarrow>
     set (bb_files st) \<subseteq> set files \<and>
     set (bb_paths st) = wd_path ` set (bb_documents st) \<union> ba_path ` set (bb_assets st) \<and>
     distinct (map wd_path (bb_documents st) @ map ba_path (bb_assets st)) \<and>
     (\<forall>d \<in> set (bb_documents st). listed sha256 hex records files (wd_path d) (wd_content d) \<and>
        is_document_text_path (wd_path d) \<and> utf8_valid (wd_content d)) \<and>
     (\<forall>a \<in> set (bb_assets st). listed sha256 hex records files (ba_path a) (ba_bytes a)) \<and>
     (bb_entry_seen st \<longrightarrow> entry \<in> wd_path ` set (bb_documents st))"

lemma build_record_ok:
  assumes b: "build_record sha256 hex essence entry st r = Inr st'" and ok: "build_ok sha256 hex entry records files st"
    and r: "r \<in> set records"
  shows "build_ok sha256 hex entry records files st'"
proof -
  from b obtain path content where p: "sanitize_project_path (bf_path r) = Some path" "path = bf_path r" "path \<notin> set (bb_paths st)"
    and c: "map_of (bb_files st) path = Some content" "int (length content) = bf_size_bytes r" "hex (sha256 content) = bf_sha256 r"
    by (auto simp: build_record_def Let_def split: option.splits if_splits)
  have "(path, content) \<in> set files" using map_of_SomeD [OF c(1)] ok by (auto simp: build_ok_def)
  then have l: "listed sha256 hex records files path content" using p c r by (auto simp: listed_def)
  from b p c have "st' = st\<lparr>bb_paths := path # bb_paths st, bb_files := filter (\<lambda>(p, _). p \<noteq> path) (bb_files st),
        bb_directories := remdups (parent_directories path @ bb_directories st), bb_entry_seen := (bb_entry_seen st \<or> path = entry),
        bb_documents := bb_documents st @ [\<lparr>wd_path = path, wd_content = content\<rparr>]\<rparr> \<and> is_document_text_path path \<and> utf8_valid content
      \<or> (\<exists>m. st' = st\<lparr>bb_paths := path # bb_paths st, bb_files := filter (\<lambda>(p, _). p \<noteq> path) (bb_files st),
        bb_directories := remdups (parent_directories path @ bb_directories st),
        bb_assets := bb_assets st @ [\<lparr>ba_path = path, ba_media_type = m, ba_bytes = content\<rparr>]\<rparr>)"
    by (auto simp: build_record_def Let_def split: option.splits if_splits)
  then show ?thesis
    using ok l p(3) by (elim disjE exE conjE) (auto simp: build_ok_def)
qed

lemma build_records_ok:
  assumes "build_records sha256 hex essence entry st rs = Inr st'" and "build_ok sha256 hex entry records files st"
    and "set rs \<subseteq> set records"
  shows "build_ok sha256 hex entry records files st'"
  using assms
proof (induction rs arbitrary: st)
  case (Cons r rs)
  then obtain st1 where r: "build_record sha256 hex essence entry st r = Inr st1"
    and rest: "build_records sha256 hex essence entry st1 rs = Inr st'" by (auto split: sum.splits)
  from build_record_ok [OF r Cons.prems(2)] Cons.prems(3) have "build_ok sha256 hex entry records files st1" by simp
  from Cons.IH [OF rest this] Cons.prems(3) show ?case by simp
qed simp

text \<open>
  An accepted Workspace bundle is consistent with its manifest: the entry file is one of its
  documents and of the project's type; documents and assets have distinct, sanitised paths, none of
  which is also a directory; each is a file of the archive with the size and digest that the manifest
  lists for it; documents are text files in valid UTF-8.
\<close>

theorem bundle_consistent:
  assumes "materialize_manifest sha256 hex essence m files = Inr v"
  shows "vb_entry_file_path v \<in> wd_path ` set (vb_documents v) \<and> accepts_entry_file_path Typst (vb_entry_file_path v) \<and>
    distinct (map wd_path (vb_documents v) @ map ba_path (vb_assets v)) \<and>
    set (map wd_path (vb_documents v) @ map ba_path (vb_assets v)) \<inter> set (vb_directories v) = {} \<and>
    list_all (\<lambda>d. listed sha256 hex (bm_files m) files (wd_path d) (wd_content d) \<and> utf8_valid (wd_content d)) (vb_documents v) \<and>
    list_all (\<lambda>a. listed sha256 hex (bm_files m) files (ba_path a) (ba_bytes a)) (vb_assets v) \<and>
    bm_files m \<noteq> [] \<and> length (bm_files m) \<le> max_files"
proof -
  let ?st0 = "\<lparr>bb_paths = [], bb_files = files, bb_documents = [], bb_assets = [], bb_directories = [], bb_entry_seen = False\<rparr>"
  from assms obtain entry st where e: "accepts_entry_file_path Typst entry" "bm_files m \<noteq> []" "length (bm_files m) \<le> max_files"
    and b: "build_records sha256 hex essence entry ?st0 (bm_files m) = Inr st"
    and s: "bb_entry_seen st" "\<forall>path \<in> set (bb_paths st). path \<notin> set (bb_directories st)"
    and v: "v = \<lparr>vb_entry_file_path = entry, vb_directories = sort (bb_directories st),
        vb_documents = sort_key wd_path (bb_documents st), vb_assets = sort_key ba_path (bb_assets st)\<rparr>"
    by (auto simp: materialize_manifest_def list_ex_iff split: option.splits if_splits sum.splits)
  have "build_ok sha256 hex entry (bm_files m) files st"
    by (rule build_records_ok [OF b]) (simp_all add: build_ok_def)
  then have ok: "set (bb_paths st) = wd_path ` set (bb_documents st) \<union> ba_path ` set (bb_assets st)"
    "distinct (map wd_path (bb_documents st) @ map ba_path (bb_assets st))"
    "\<forall>d \<in> set (bb_documents st). listed sha256 hex (bm_files m) files (wd_path d) (wd_content d) \<and>
        is_document_text_path (wd_path d) \<and> utf8_valid (wd_content d)"
    "\<forall>a \<in> set (bb_assets st). listed sha256 hex (bm_files m) files (ba_path a) (ba_bytes a)"
    "bb_entry_seen st \<longrightarrow> entry \<in> wd_path ` set (bb_documents st)" by (simp_all add: build_ok_def)
  have "distinct (map wd_path (sort_key wd_path (bb_documents st)) @ map ba_path (sort_key ba_path (bb_assets st)))"
    using ok(2) by (simp add: distinct_map)
  then show ?thesis using e s ok unfolding v by (auto simp: list_all_iff)
qed

definition ex_bundle_file :: bundle_file where
  "ex_bundle_file = \<lparr>bf_path = ''main.typ'', bf_kind = ''document'', bf_media_type = None, bf_size_bytes = 2,
     bf_sha256 = replicate 64 (CHR ''0'')\<rparr>"

definition ex_manifest :: bundle_manifest where
  "ex_manifest = \<lparr>bm_schema = ''workspace-bundle/v1'', bm_project_type = Typst, bm_entry_file_path = ''main.typ'',
     bm_files = [ex_bundle_file]\<rparr>"

theorem bundle_consistent_witness:
  "\<exists>v. materialize_manifest ex_sha (\<lambda>_. replicate 64 (CHR ''0'')) (\<lambda>_. None) ex_manifest [(''main.typ'', ''hi'')] = Inr v \<and>
     vb_entry_file_path v \<in> wd_path ` set (vb_documents v)"
proof -
  let ?r = "materialize_manifest ex_sha (\<lambda>_. replicate 64 (CHR ''0'')) (\<lambda>_. None) ex_manifest [(''main.typ'', ''hi'')]"
  have "(case ?r of Inr _ \<Rightarrow> True | Inl _ \<Rightarrow> False)" by code_simp
  then obtain v where v: "?r = Inr v" by (auto split: sum.splits)
  with bundle_consistent [OF v] show ?thesis by blast
qed

section \<open>Offers\<close>

lemma validate_offers_Inr:
  assumes "validate_offers worker unique slots offers = Inr out" and "0 \<le> slots" and "\<forall>o' \<in> set offers. 0 \<le> of_slots o'"
    and "slots \<le> 16"
  shows "out = offers \<and> distinct (map (\<lambda>o'. (of_operation o', of_processor_contract o')) offers) \<and>
    set (map (\<lambda>o'. (of_operation o', of_processor_contract o')) offers) \<inter> set unique = {} \<and>
    slots + sum_list (map of_slots offers) \<le> 16 \<and>
    list_all (\<lambda>o'. 0 < of_slots o' \<and> approves worker (of_operation o') (of_processor_contract o')) offers"
  using assms
proof (induction offers arbitrary: unique slots out)
  case (Cons o1 offers)
  from Cons.prems obtain rest where c: "validate_offers worker ((of_operation o1, of_processor_contract o1) # unique) (slots + of_slots o1) offers = Inr rest"
    "out = o1 # rest" "of_slots o1 \<noteq> 0" "slots + of_slots o1 \<le> 16" "approves worker (of_operation o1) (of_processor_contract o1)"
    "(of_operation o1, of_processor_contract o1) \<notin> set unique"
    by (auto simp: max_offered_slots_per_request_def split: if_splits sum.splits)
  from Cons.IH [OF c(1)] Cons.prems c show ?case by auto
qed simp

text \<open>
  Accepted capacity offers are bounded: there are between one and sixteen of them, for different
  processors that the worker is approved for, each with at least one slot and sixteen slots in all;
  they are passed on unchanged. Slots are unsigned.
\<close>

lemma offers_bounded:
  assumes "validate_capacity_offers worker offers = Inr out" and "\<forall>o' \<in> set offers. 0 \<le> of_slots o'"
  shows "out = offers \<and> offers \<noteq> [] \<and> length offers \<le> 16 \<and> sum_list (map of_slots offers) \<le> 16 \<and>
    distinct (map (\<lambda>o'. (of_operation o', of_processor_contract o')) offers) \<and>
    list_all (\<lambda>o'. 0 < of_slots o' \<and> approves worker (of_operation o') (of_processor_contract o')) offers"
proof -
  from assms(1) have v: "validate_offers worker [] 0 offers = Inr out" "offers \<noteq> []" "length offers \<le> 16"
    by (auto simp: validate_capacity_offers_def max_processor_offers_per_request_def split: if_splits)
  from validate_offers_Inr [OF v(1) _ assms(2)] v show ?thesis by simp
qed

lemma offers_bounded_example:
  "validate_capacity_offers ex_worker [ex_offer] = Inr [ex_offer] \<and> sum_list (map of_slots [ex_offer]) \<le> 16"
proof -
  have v: "validate_capacity_offers ex_worker [ex_offer] = Inr [ex_offer]" by code_simp
  from offers_bounded [OF v] v show ?thesis by (simp add: ex_offer_def)
qed

section \<open>Blobs\<close>

text \<open>
  The blob table is a content store: in a table whose rows have the digests of their contents, storing
  a content gives an identifier under which it is read back (for a digest without collisions), later
  writes included, and the table keeps that property.
\<close>

lemma blob_roundtrip:
  assumes "inj sha256" and "blobs_ok sha256 t" and put: "store_blob fresh (sha256 c) media c now t = Some (i, t')"
    and later: "store_blob fresh' (sha256 d) media' d now' t' = Some (k, t'')"
  shows "blob_content i t' = Some c \<and> blob_content i t'' = Some c \<and> blobs_ok sha256 t''"
  using blob_table.put_get_exact [OF assms(1-3)] blob_table.put_get_later [OF assms]
    store_blob_ok [OF store_blob_ok [OF assms(2) put] later] by simp

definition ex_digest :: "bytes \<Rightarrow> bytes" where "ex_digest c = c"

lemma blob_roundtrip_example:
  "\<exists>i t' k t''. store_blob 1 (ex_digest (replicate 32 (CHR ''a''))) ''m'' (replicate 32 (CHR ''a'')) 0 [] = Some (i, t') \<and>
     store_blob 2 (ex_digest (replicate 32 (CHR ''b''))) ''m'' (replicate 32 (CHR ''b'')) 1 t' = Some (k, t'') \<and>
     blob_content i t'' = Some (replicate 32 (CHR ''a''))"
proof -
  let ?a = "replicate 32 (CHR ''a'')" and ?b = "replicate 32 (CHR ''b'')"
  have "store_blob 1 (ex_digest ?a) ''m'' ?a 0 [] \<noteq> None" by code_simp
  then obtain i t' where 1: "store_blob 1 (ex_digest ?a) ''m'' ?a 0 [] = Some (i, t')" by (metis not_None_eq surj_pair)
  have "store_blob 2 (ex_digest ?b) ''m'' ?b 1 (snd (the (store_blob 1 (ex_digest ?a) ''m'' ?a 0 []))) \<noteq> None" by code_simp
  with 1 obtain k t'' where 2: "store_blob 2 (ex_digest ?b) ''m'' ?b 1 t' = Some (k, t'')" by (auto simp: not_None_eq)
  have "inj ex_digest" by (simp add: inj_def ex_digest_def)
  from blob_roundtrip [OF this _ 1 2] 1 2 show ?thesis by (simp add: blobs_ok_def)
qed

section \<open>Wire names\<close>

text \<open>
  The wire names of operations and job states are exact: parsing a text gives a value if and only if
  the text is the name of that value.
\<close>

lemma wire_names_exact:
  "(operation_from_str s = Some opn \<longleftrightarrow> s = operation_as_ref opn) \<and>
   (job_state_from_str s = Some st \<longleftrightarrow> s = job_state_as_ref st)"
  using operation_from_as_ref operation_from_str_Some job_state_from_as_ref job_state_from_str_Some by blast

end
