(* ===== verification/Workspace_Store.thy ===== *)
theory Workspace_Store
  imports Workspace_Paths
begin

text \<open>
  The tables of the Workspace and the statements on them: \<open>workspace/persistence.rs\<close>,
  \<open>settings_persistence.rs\<close>, \<open>files_persistence.rs\<close>, \<open>documents_persistence.rs\<close>,
  \<open>assets_persistence.rs\<close>, \<open>content_generation.rs\<close>, \<open>activity.rs\<close> and \<open>project_entry_point.rs\<close>.

  A statement that violates a constraint of the schema is \<open>None\<close> (or an error of its caller); other
  database errors are outages and not modelled. Paths are UTF-8 texts, on which the SQL tests with
  \<open>char_length\<close>, \<open>left\<close> and \<open>substring\<close> are tests of byte prefixes. Values that a failed statement
  takes from a sequence are gaps and not modelled. Versioning and the external repositories are
  told about a change; what they are told is the list \<open>w_activity\<close>.
\<close>

section \<open>Tables\<close>

record project_row =
  pr_id :: uuid
  pr_owner_user_id :: "uuid option"
  pr_name :: string
  pr_created_at :: instant
  pr_project_type :: project_type
  pr_workspace_version :: int
  pr_content_epoch :: int

record settings_row =
  se_project_id :: uuid
  se_entry_file_path :: string
  se_latex_engine :: "latex_engine option"
  se_settings_revision :: int
  se_updated_at :: instant

record directory_row =
  dr_project_id :: uuid
  dr_path :: string
  dr_created_at :: instant

record document_row =
  dc_id :: uuid
  dc_project_id :: uuid
  dc_path :: string
  dc_content :: string
  dc_updated_at :: instant
  dc_path_revision :: int
  dc_collaboration_revision :: int
  dc_change_sequence :: int

record asset_row =
  as_id :: uuid
  as_project_id :: uuid
  as_path :: string
  as_content_revision :: uuid
  as_object_key :: string
  as_content_type :: string
  as_size_bytes :: int
  as_uploaded_by :: "uuid option"
  as_created_at :: instant
  as_inline_data :: "bytes option"

datatype contributor = User uuid | Guest string | System

record workspace_db =
  w_projects :: "project_row list"
  w_settings :: "settings_row list"
  w_directories :: "directory_row list"
  w_documents :: "document_row list"
  w_assets :: "asset_row list"
  w_next_sequence :: int
  w_activity :: "(uuid \<times> contributor) list"

text \<open>The unique constraints: primary keys, paths within a project, object keys.\<close>

definition document_conflict :: "document_row \<Rightarrow> document_row \<Rightarrow> bool" where
  "document_conflict d e \<longleftrightarrow> dc_id d = dc_id e \<or> (dc_project_id d = dc_project_id e \<and> dc_path d = dc_path e)"

definition directory_conflict :: "directory_row \<Rightarrow> directory_row \<Rightarrow> bool" where
  "directory_conflict d e \<longleftrightarrow> dr_project_id d = dr_project_id e \<and> dr_path d = dr_path e"

definition asset_conflict :: "asset_row \<Rightarrow> asset_row \<Rightarrow> bool" where
  "asset_conflict a b \<longleftrightarrow>
     as_id a = as_id b \<or> as_object_key a = as_object_key b \<or> (as_project_id a = as_project_id b \<and> as_path a = as_path b)"

definition project_exists :: "uuid \<Rightarrow> workspace_db \<Rightarrow> bool" where
  "project_exists pid w \<longleftrightarrow> exists_where (\<lambda>p. pr_id p = pid) (w_projects w)"

text \<open>
  An \<open>UPDATE\<close> that changes a unique key: each row is checked against the others when it is written,
  the earlier ones already updated.
\<close>

fun update_unique :: "('r \<Rightarrow> bool) \<Rightarrow> ('r \<Rightarrow> 'r) \<Rightarrow> ('r \<Rightarrow> 'r \<Rightarrow> bool) \<Rightarrow> 'r list \<Rightarrow> 'r list \<Rightarrow> 'r list option" where
  "update_unique P f conflict seen [] = Some seen"
| "update_unique P f conflict seen (r # rs) =
     (if P r
      then (if list_ex (conflict (f r)) (seen @ rs) then None
            else update_unique P f conflict (seen @ [f r]) rs)
      else update_unique P f conflict (seen @ [r]) rs)"

text \<open>An \<open>UPDATE\<close> with \<open>nextval\<close>: every updated row takes the next value of the sequence.\<close>

fun update_numbered :: "('r \<Rightarrow> bool) \<Rightarrow> (int \<Rightarrow> 'r \<Rightarrow> 'r) \<Rightarrow> int \<Rightarrow> 'r list \<Rightarrow> 'r list \<times> int" where
  "update_numbered P f n [] = ([], n)"
| "update_numbered P f n (r # rs) =
     (if P r then (let (ts, m) = update_numbered P f (n + 1) rs in (f n r # ts, m))
      else (let (ts, m) = update_numbered P f n rs in (r # ts, m)))"

section \<open>Versions, epochs and activity\<close>

definition find_project :: "uuid \<Rightarrow> workspace_db \<Rightarrow> project_row option" where
  "find_project pid w = find (\<lambda>p. pr_id p = pid) (w_projects w)"

definition advance_workspace_version :: "uuid \<Rightarrow> workspace_db \<Rightarrow> workspace_db" where
  "advance_workspace_version pid w =
     w\<lparr>w_projects := update_where (\<lambda>p. pr_id p = pid)
         (\<lambda>p. p\<lparr>pr_workspace_version := pr_workspace_version p + 1\<rparr>) (w_projects w)\<rparr>"

definition project_workspace_version :: "uuid \<Rightarrow> workspace_db \<Rightarrow> int option" where
  "project_workspace_version pid w = map_option pr_workspace_version (find_project pid w)"

definition project_content_epoch :: "uuid \<Rightarrow> workspace_db \<Rightarrow> int option" where
  "project_content_epoch pid w = map_option pr_content_epoch (find_project pid w)"

datatype content_epoch_match = Current_epoch | Changed_epoch | ProjectNotFound_epoch

definition lock_project_content_epoch :: "uuid \<Rightarrow> int \<Rightarrow> workspace_db \<Rightarrow> content_epoch_match" where
  "lock_project_content_epoch pid expected_epoch w =
     (case project_content_epoch pid w of
        Some current_epoch \<Rightarrow> if current_epoch = expected_epoch then Current_epoch else Changed_epoch
      | None \<Rightarrow> ProjectNotFound_epoch)"

definition contributor_of :: "uuid option \<Rightarrow> string option \<Rightarrow> contributor" where
  "contributor_of actor guest =
     (case actor of Some u \<Rightarrow> User u | None \<Rightarrow> (case guest of Some g \<Rightarrow> Guest g | None \<Rightarrow> System))"

definition mark_project_dirty :: "uuid \<Rightarrow> uuid option \<Rightarrow> string option \<Rightarrow> workspace_db \<Rightarrow> workspace_db" where
  "mark_project_dirty pid actor guest w =
     (let w1 = advance_workspace_version pid w
      in w1\<lparr>w_activity := w_activity w1 @ [(pid, contributor_of actor guest)]\<rparr>)"

section \<open>Settings and the entry point\<close>

record entry_point =
  ep_project_type :: project_type
  ep_entry_file_path :: string

definition find_settings :: "uuid \<Rightarrow> workspace_db \<Rightarrow> settings_row option" where
  "find_settings pid w = find (\<lambda>s. se_project_id s = pid) (w_settings w)"

definition find_project_entry_point :: "uuid \<Rightarrow> workspace_db \<Rightarrow> entry_point option" where
  "find_project_entry_point pid w =
     map_option (\<lambda>p. \<lparr>ep_project_type = pr_project_type p,
         ep_entry_file_path = (case find_settings pid w of
            None \<Rightarrow> default_entry_file_path (pr_project_type p) | Some s \<Rightarrow> se_entry_file_path s)\<rparr>)
       (find_project pid w)"

definition settings_insert :: "uuid \<Rightarrow> string \<Rightarrow> latex_engine option \<Rightarrow> instant \<Rightarrow> workspace_db \<Rightarrow> workspace_db option" where
  "settings_insert pid entry engine now w =
     (if \<not> project_exists pid w \<or> find_settings pid w \<noteq> None then None
      else Some (w\<lparr>w_settings := w_settings w @
        [\<lparr>se_project_id = pid, se_entry_file_path = entry, se_latex_engine = engine, se_settings_revision = 0,
          se_updated_at = now\<rparr>]\<rparr>))"

text \<open>\<open>ensure\<close>: insert the defaults unless there are settings.\<close>

definition settings_ensure :: "uuid \<Rightarrow> string \<Rightarrow> latex_engine option \<Rightarrow> instant \<Rightarrow> workspace_db \<Rightarrow> workspace_db option" where
  "settings_ensure pid entry engine now w =
     (case find_settings pid w of Some _ \<Rightarrow> Some w | None \<Rightarrow> settings_insert pid entry engine now w)"

text \<open>The updates return the row; without one the statement fails.\<close>

definition update_entry_file_path :: "uuid \<Rightarrow> string \<Rightarrow> instant \<Rightarrow> workspace_db \<Rightarrow> workspace_db option" where
  "update_entry_file_path pid entry now w =
     (if find_settings pid w = None then None
      else Some (w\<lparr>w_settings := update_where (\<lambda>s. se_project_id s = pid)
         (\<lambda>s. s\<lparr>se_entry_file_path := entry, se_settings_revision := se_settings_revision s + 1, se_updated_at := now\<rparr>)
         (w_settings w)\<rparr>))"

definition update_latex_engine :: "uuid \<Rightarrow> latex_engine \<Rightarrow> instant \<Rightarrow> workspace_db \<Rightarrow> workspace_db option" where
  "update_latex_engine pid engine now w =
     (if find_settings pid w = None then None
      else Some (w\<lparr>w_settings := update_where (\<lambda>s. se_project_id s = pid)
         (\<lambda>s. s\<lparr>se_latex_engine := Some engine, se_settings_revision := se_settings_revision s + 1, se_updated_at := now\<rparr>)
         (w_settings w)\<rparr>))"

definition document_exists :: "uuid \<Rightarrow> string \<Rightarrow> workspace_db \<Rightarrow> bool" where
  "document_exists pid path w \<longleftrightarrow> exists_where (\<lambda>d. dc_project_id d = pid \<and> dc_path d = path) (w_documents w)"

section \<open>Documents\<close>

definition new_document :: "uuid \<Rightarrow> uuid \<Rightarrow> string \<Rightarrow> string \<Rightarrow> instant \<Rightarrow> int \<Rightarrow> document_row" where
  "new_document i pid path content now n =
     \<lparr>dc_id = i, dc_project_id = pid, dc_path = path, dc_content = content, dc_updated_at = now,
      dc_path_revision = 0, dc_collaboration_revision = 0, dc_change_sequence = n\<rparr>"

definition document_insert :: "uuid \<Rightarrow> uuid \<Rightarrow> string \<Rightarrow> string \<Rightarrow> instant \<Rightarrow> workspace_db \<Rightarrow> (document_row \<times> workspace_db) option" where
  "document_insert i pid path content now w =
     (let d = new_document i pid path content now (w_next_sequence w) in
      if \<not> project_exists pid w then None
      else case insert_row document_conflict d (w_documents w) of
             None \<Rightarrow> None
           | Some t \<Rightarrow> Some (d, w\<lparr>w_documents := t, w_next_sequence := w_next_sequence w + 1\<rparr>))"

definition overwrite_document :: "string \<Rightarrow> instant \<Rightarrow> int \<Rightarrow> document_row \<Rightarrow> document_row" where
  "overwrite_document content now n d =
     d\<lparr>dc_content := content, dc_updated_at := now, dc_collaboration_revision := dc_collaboration_revision d + 1,
       dc_change_sequence := n\<rparr>"

text \<open>
  \<open>upsert_by_path\<close> (and \<open>upsert_document\<close>): the default of the new row takes a value of the sequence
  before the conflict is found, and the update takes another.
\<close>

definition document_upsert :: "uuid \<Rightarrow> uuid \<Rightarrow> string \<Rightarrow> string \<Rightarrow> instant \<Rightarrow> workspace_db \<Rightarrow> (document_row \<times> workspace_db) option" where
  "document_upsert i pid path content now w =
     (case find (\<lambda>d. dc_project_id d = pid \<and> dc_path d = path) (w_documents w) of
        Some d \<Rightarrow>
          Some (overwrite_document content now (w_next_sequence w + 1) d,
                w\<lparr>w_documents := update_where (\<lambda>e. dc_project_id e = pid \<and> dc_path e = path)
                     (overwrite_document content now (w_next_sequence w + 1)) (w_documents w),
                  w_next_sequence := w_next_sequence w + 2\<rparr>)
      | None \<Rightarrow> document_insert i pid path content now w)"

definition update_content ::
  "uuid \<Rightarrow> uuid \<Rightarrow> int \<Rightarrow> int \<Rightarrow> string \<Rightarrow> instant \<Rightarrow> workspace_db \<Rightarrow> (document_row \<times> workspace_db) option" where
  "update_content pid document_id path_revision collaboration_revision content now w =
     (let P = (\<lambda>d. dc_project_id d = pid \<and> dc_id d = document_id \<and> dc_path_revision d = path_revision \<and>
                   dc_collaboration_revision d = collaboration_revision) in
      case find P (w_documents w) of
        None \<Rightarrow> None
      | Some d \<Rightarrow> Some (overwrite_document content now (w_next_sequence w) d,
          w\<lparr>w_documents := update_where P (overwrite_document content now (w_next_sequence w)) (w_documents w),
            w_next_sequence := w_next_sequence w + 1\<rparr>))"

text \<open>\<open>update_projected_content\<close>, the write of a collaboration room: the revision stays.\<close>

definition update_projected_content ::
  "uuid \<Rightarrow> uuid \<Rightarrow> int \<Rightarrow> string \<Rightarrow> instant \<Rightarrow> workspace_db \<Rightarrow> (document_row \<times> workspace_db) option" where
  "update_projected_content pid document_id collaboration_revision content now w =
     (let P = (\<lambda>d. dc_project_id d = pid \<and> dc_id d = document_id \<and> dc_collaboration_revision d = collaboration_revision);
          f = (\<lambda>d. d\<lparr>dc_content := content, dc_updated_at := now, dc_change_sequence := w_next_sequence w\<rparr>) in
      case find P (w_documents w) of
        None \<Rightarrow> None
      | Some d \<Rightarrow> Some (f d, w\<lparr>w_documents := update_where P f (w_documents w), w_next_sequence := w_next_sequence w + 1\<rparr>))"

definition delete_document_by_id :: "uuid \<Rightarrow> uuid \<Rightarrow> workspace_db \<Rightarrow> nat \<times> workspace_db" where
  "delete_document_by_id pid document_id w =
     (let P = (\<lambda>d. dc_project_id d = pid \<and> dc_id d = document_id) in
      (rows_affected P (w_documents w), w\<lparr>w_documents := delete_where P (w_documents w)\<rparr>))"

definition delete_document_at_path :: "uuid \<Rightarrow> string \<Rightarrow> workspace_db \<Rightarrow> workspace_db" where
  "delete_document_at_path pid path w =
     w\<lparr>w_documents := delete_where (\<lambda>d. dc_project_id d = pid \<and> dc_path d = path) (w_documents w)\<rparr>"

definition list_after_change_sequence :: "uuid \<Rightarrow> int option \<Rightarrow> nat \<Rightarrow> workspace_db \<Rightarrow> document_row list" where
  "list_after_change_sequence pid cursor limit w =
     take limit (sort_key dc_change_sequence
       (filter (\<lambda>d. dc_project_id d = pid \<and> (case cursor of None \<Rightarrow> 0 | Some c \<Rightarrow> c) < dc_change_sequence d) (w_documents w)))"

definition list_by_path :: "uuid \<Rightarrow> string \<Rightarrow> workspace_db \<Rightarrow> document_row list" where
  "list_by_path pid path w =
     sort_key (\<lambda>d. - dc_updated_at d) (filter (\<lambda>d. dc_project_id d = pid \<and> dc_path d = path) (w_documents w))"

section \<open>Assets and directories\<close>

definition asset_keys_at :: "uuid \<Rightarrow> string \<Rightarrow> workspace_db \<Rightarrow> string list" where
  "asset_keys_at pid path w = map as_object_key (filter (\<lambda>a. as_project_id a = pid \<and> as_path a = path) (w_assets w))"

definition asset_upsert :: "asset_row \<Rightarrow> workspace_db \<Rightarrow> (asset_row \<times> workspace_db) option" where
  "asset_upsert a w =
     (let same = (\<lambda>b. as_project_id b = as_project_id a \<and> as_path b = as_path a);
          f = (\<lambda>b. b\<lparr>as_content_revision := as_content_revision a, as_object_key := as_object_key a,
                 as_content_type := as_content_type a, as_size_bytes := as_size_bytes a, as_uploaded_by := as_uploaded_by a,
                 as_created_at := as_created_at a, as_inline_data := as_inline_data a\<rparr>) in
      if \<not> project_exists (as_project_id a) w then None
      else case find same (w_assets w) of
             Some b \<Rightarrow> (if list_ex (\<lambda>c. \<not> same c \<and> as_object_key c = as_object_key a) (w_assets w) then None
                        else Some (f b, w\<lparr>w_assets := update_where same f (w_assets w)\<rparr>))
           | None \<Rightarrow> (case insert_row asset_conflict a (w_assets w) of
                        None \<Rightarrow> None | Some t \<Rightarrow> Some (a, w\<lparr>w_assets := t\<rparr>)))"

definition delete_asset_at_path :: "uuid \<Rightarrow> string \<Rightarrow> workspace_db \<Rightarrow> workspace_db" where
  "delete_asset_at_path pid path w =
     w\<lparr>w_assets := delete_where (\<lambda>a. as_project_id a = pid \<and> as_path a = path) (w_assets w)\<rparr>"

definition delete_asset_by_id :: "uuid \<Rightarrow> uuid \<Rightarrow> workspace_db \<Rightarrow> nat \<times> workspace_db" where
  "delete_asset_by_id pid asset_id w =
     (let P = (\<lambda>a. as_project_id a = pid \<and> as_id a = asset_id) in
      (rows_affected P (w_assets w), w\<lparr>w_assets := delete_where P (w_assets w)\<rparr>))"

definition insert_directory :: "uuid \<Rightarrow> string \<Rightarrow> instant \<Rightarrow> workspace_db \<Rightarrow> (bool \<times> workspace_db) option" where
  "insert_directory pid path now w =
     (let d = \<lparr>dr_project_id = pid, dr_path = path, dr_created_at = now\<rparr> in
      if \<not> project_exists pid w then None
      else case insert_row directory_conflict d (w_directories w) of
             None \<Rightarrow> Some (False, w)
           | Some t \<Rightarrow> Some (True, w\<lparr>w_directories := t\<rparr>))"

section \<open>Subtrees\<close>

text \<open>The SQL test and the SQL renaming of \<open>move_subtree\<close> and \<open>delete_subtree\<close>.\<close>

definition sql_in_subtree :: "string \<Rightarrow> string \<Rightarrow> bool" where
  "sql_in_subtree path root \<longleftrightarrow> path = root \<or> take (length root + 1) path = root @ ''/''"

definition sql_moved :: "string \<Rightarrow> string \<Rightarrow> string \<Rightarrow> string" where
  "sql_moved from to path = (if path = from then to else to @ drop (length from) path)"

record file_counts =
  fc_directories :: nat
  fc_documents :: nat
  fc_assets :: nat

definition counts_changed :: "file_counts \<Rightarrow> bool" where
  "counts_changed c \<longleftrightarrow> 0 < fc_directories c \<or> 0 < fc_documents c \<or> 0 < fc_assets c"

definition move_subtree :: "uuid \<Rightarrow> string \<Rightarrow> string \<Rightarrow> instant \<Rightarrow> workspace_db \<Rightarrow> (file_counts \<times> workspace_db) option" where
  "move_subtree pid from to now w =
     (let P = (\<lambda>d. dr_project_id d = pid \<and> sql_in_subtree (dr_path d) from);
          Q = (\<lambda>d. dc_project_id d = pid \<and> sql_in_subtree (dc_path d) from);
          R = (\<lambda>a. as_project_id a = pid \<and> sql_in_subtree (as_path a) from) in
      case update_unique P (\<lambda>d. d\<lparr>dr_path := sql_moved from to (dr_path d)\<rparr>) directory_conflict [] (w_directories w) of
        None \<Rightarrow> None
      | Some ds \<Rightarrow>
          (case update_unique Q (\<lambda>d. d\<lparr>dc_path := sql_moved from to (dc_path d)\<rparr>) document_conflict [] (w_documents w) of
             None \<Rightarrow> None
           | Some _ \<Rightarrow>
               (case update_unique R (\<lambda>a. a\<lparr>as_path := sql_moved from to (as_path a)\<rparr>) asset_conflict [] (w_assets w) of
                  None \<Rightarrow> None
                | Some as \<Rightarrow>
                    let (docs, n) = update_numbered Q
                          (\<lambda>n d. d\<lparr>dc_path := sql_moved from to (dc_path d), dc_path_revision := dc_path_revision d + 1,
                                  dc_change_sequence := n, dc_updated_at := now\<rparr>) (w_next_sequence w) (w_documents w)
                    in Some (\<lparr>fc_directories = rows_affected P (w_directories w), fc_documents = rows_affected Q (w_documents w),
                              fc_assets = rows_affected R (w_assets w)\<rparr>,
                             w\<lparr>w_directories := ds, w_documents := docs, w_assets := as, w_next_sequence := n\<rparr>))))"

definition delete_subtree :: "uuid \<Rightarrow> string \<Rightarrow> workspace_db \<Rightarrow> file_counts \<times> string list \<times> workspace_db" where
  "delete_subtree pid root w =
     (let P = (\<lambda>d. dr_project_id d = pid \<and> sql_in_subtree (dr_path d) root);
          Q = (\<lambda>d. dc_project_id d = pid \<and> sql_in_subtree (dc_path d) root);
          R = (\<lambda>a. as_project_id a = pid \<and> sql_in_subtree (as_path a) root) in
      (\<lparr>fc_directories = rows_affected P (w_directories w), fc_documents = rows_affected Q (w_documents w),
        fc_assets = rows_affected R (w_assets w)\<rparr>,
       map as_object_key (filter R (w_assets w)),
       w\<lparr>w_directories := delete_where P (w_directories w), w_documents := delete_where Q (w_documents w),
         w_assets := delete_where R (w_assets w)\<rparr>))"

end
