(* ===== verification/Workspace_Content.thy ===== *)
theory Workspace_Content
  imports Workspace_Store Archive_Validation
begin

text \<open>
  Whole-project operations of the Workspace: creation of a project graph, replacement of its content
  and the coherent snapshot (\<open>workspace/persistence.rs\<close>, \<open>workspace/content.rs\<close>), each inside one
  transaction. Identifiers of new documents come from \<open>fresh\<close>.
\<close>

record workspace_asset =
  wa_id :: uuid
  wa_path :: string
  wa_object_key :: string
  wa_content_type :: string
  wa_size_bytes :: int
  wa_inline_data :: "bytes option"

record create_graph =
  cg_project_id :: uuid
  cg_owner_user_id :: uuid
  cg_name :: string
  cg_project_type :: project_type
  cg_entry_file_path :: string
  cg_latex_engine :: "latex_engine option"
  cg_directories :: "string list"
  cg_documents :: "workspace_document list"
  cg_assets :: "workspace_asset list"
  cg_created_at :: instant

fun insert_directories :: "uuid \<Rightarrow> instant \<Rightarrow> string list \<Rightarrow> workspace_db \<Rightarrow> workspace_db option" where
  "insert_directories pid now [] w = Some w"
| "insert_directories pid now (path # paths) w =
     (case insert_row directory_conflict \<lparr>dr_project_id = pid, dr_path = path, dr_created_at = now\<rparr> (w_directories w) of
        None \<Rightarrow> None
      | Some t \<Rightarrow> insert_directories pid now paths (w\<lparr>w_directories := t\<rparr>))"

fun insert_documents :: "(nat \<Rightarrow> uuid) \<Rightarrow> nat \<Rightarrow> uuid \<Rightarrow> instant \<Rightarrow> workspace_document list \<Rightarrow> workspace_db \<Rightarrow> workspace_db option" where
  "insert_documents fresh k pid now [] w = Some w"
| "insert_documents fresh k pid now (d # ds) w =
     (case document_insert (fresh k) pid (wd_path d) (wd_content d) now w of
        None \<Rightarrow> None
      | Some (_, w1) \<Rightarrow> insert_documents fresh (k + 1) pid now ds w1)"

definition asset_of :: "uuid \<Rightarrow> uuid option \<Rightarrow> instant \<Rightarrow> workspace_asset \<Rightarrow> asset_row" where
  "asset_of pid uploaded_by now a =
     \<lparr>as_id = wa_id a, as_project_id = pid, as_path = wa_path a, as_content_revision = wa_id a,
      as_object_key = wa_object_key a, as_content_type = wa_content_type a, as_size_bytes = wa_size_bytes a,
      as_uploaded_by = uploaded_by, as_created_at = now, as_inline_data = wa_inline_data a\<rparr>"

fun insert_assets :: "uuid \<Rightarrow> uuid option \<Rightarrow> instant \<Rightarrow> workspace_asset list \<Rightarrow> workspace_db \<Rightarrow> workspace_db option" where
  "insert_assets pid uploaded_by now [] w = Some w"
| "insert_assets pid uploaded_by now (a # as) w =
     (case insert_row asset_conflict (asset_of pid uploaded_by now a) (w_assets w) of
        None \<Rightarrow> None
      | Some t \<Rightarrow> insert_assets pid uploaded_by now as (w\<lparr>w_assets := t\<rparr>))"

definition create_project_graph :: "(nat \<Rightarrow> uuid) \<Rightarrow> create_graph \<Rightarrow> workspace_db \<Rightarrow> workspace_db option" where
  "create_project_graph fresh g w =
     (let pid = cg_project_id g; now = cg_created_at g;
          p = \<lparr>pr_id = pid, pr_owner_user_id = Some (cg_owner_user_id g), pr_name = cg_name g, pr_created_at = now,
               pr_project_type = cg_project_type g, pr_workspace_version = 0, pr_content_epoch = 0\<rparr> in
      case insert_row (\<lambda>a b. pr_id a = pr_id b) p (w_projects w) of
        None \<Rightarrow> None
      | Some t \<Rightarrow>
          (case settings_insert pid (cg_entry_file_path g) (cg_latex_engine g) now (w\<lparr>w_projects := t\<rparr>) of
             None \<Rightarrow> None
           | Some w1 \<Rightarrow>
               (case insert_directories pid now (cg_directories g) w1 of
                  None \<Rightarrow> None
                | Some w2 \<Rightarrow>
                    (case insert_documents fresh 0 pid now (cg_documents g) w2 of
                       None \<Rightarrow> None
                     | Some w3 \<Rightarrow> insert_assets pid (Some (cg_owner_user_id g)) now (cg_assets g) w3))))"

section \<open>Replacement\<close>

record replace_content =
  rp_project_id :: uuid
  rp_expected_workspace_version :: "int option"
  rp_documents :: "workspace_document list"
  rp_assets :: "workspace_asset list"
  rp_directories :: "string list"
  rp_entry_file_path :: string
  rp_asset_uploaded_by :: "uuid option"
  rp_updated_at :: instant

datatype replace_result =
    Replaced (old_object_keys: "string list") (new_workspace_version: int) (new_content_epoch: int)
  | NotFound_replace | WorkspaceVersionChanged | InvalidEntryFile

definition delete_content :: "uuid \<Rightarrow> workspace_db \<Rightarrow> workspace_db" where
  "delete_content pid w =
     w\<lparr>w_documents := delete_where (\<lambda>d. dc_project_id d = pid) (w_documents w),
       w_assets := delete_where (\<lambda>a. as_project_id a = pid) (w_assets w),
       w_directories := delete_where (\<lambda>d. dr_project_id d = pid) (w_directories w)\<rparr>"

definition insert_content :: "(nat \<Rightarrow> uuid) \<Rightarrow> replace_content \<Rightarrow> workspace_db \<Rightarrow> workspace_db option" where
  "insert_content fresh c w =
     (case insert_documents fresh 0 (rp_project_id c) (rp_updated_at c) (rp_documents c) w of
        None \<Rightarrow> None
      | Some w1 \<Rightarrow>
          (case insert_assets (rp_project_id c) (rp_asset_uploaded_by c) (rp_updated_at c) (rp_assets c) w1 of
             None \<Rightarrow> None
           | Some w2 \<Rightarrow> insert_directories (rp_project_id c) (rp_updated_at c) (rp_directories c) w2))"

definition advance_generation :: "uuid \<Rightarrow> workspace_db \<Rightarrow> workspace_db" where
  "advance_generation pid w =
     w\<lparr>w_projects := update_where (\<lambda>p. pr_id p = pid)
         (\<lambda>p. p\<lparr>pr_workspace_version := pr_workspace_version p + 1, pr_content_epoch := pr_content_epoch p + 1\<rparr>)
         (w_projects w)\<rparr>"

definition replace_project_content ::
  "(nat \<Rightarrow> uuid) \<Rightarrow> replace_content \<Rightarrow> workspace_db \<Rightarrow> (replace_result \<times> workspace_db) option" where
  "replace_project_content fresh c w =
     (let pid = rp_project_id c; now = rp_updated_at c in
      case find_project pid w of
        None \<Rightarrow> Some (NotFound_replace, w)
      | Some p \<Rightarrow>
          if (case rp_expected_workspace_version c of None \<Rightarrow> False | Some v \<Rightarrow> v \<noteq> pr_workspace_version p)
          then Some (WorkspaceVersionChanged, w)
          else if \<not> accepts_entry_file_path (pr_project_type p) (rp_entry_file_path c)
                  \<or> \<not> list_ex (\<lambda>d. wd_path d = rp_entry_file_path c) (rp_documents c)
          then Some (InvalidEntryFile, w)
          else case settings_ensure pid (default_entry_file_path (pr_project_type p)) (default_latex_engine (pr_project_type p)) now w of
            None \<Rightarrow> None
          | Some w1 \<Rightarrow>
              let old = filter (\<lambda>k. \<not> starts_with ''inline://'' k)
                          (map as_object_key (filter (\<lambda>a. as_project_id a = pid) (w_assets w1))) in
              (case insert_content fresh c (delete_content pid w1) of
                 None \<Rightarrow> None
               | Some w2 \<Rightarrow>
                   (case update_entry_file_path pid (rp_entry_file_path c) now w2 of
                      None \<Rightarrow> None
                    | Some w3 \<Rightarrow>
                        Some (Replaced old (pr_workspace_version p + 1) (pr_content_epoch p + 1), advance_generation pid w3))))"

section \<open>Snapshots\<close>

record content_asset =
  ca_object_key :: string
  ca_content_type :: string
  ca_inline_data :: "bytes option"

record content_snapshot =
  sn_workspace_version :: int
  sn_content_epoch :: int
  sn_project_type :: project_type
  sn_entry_file_path :: string
  sn_latex_engine :: "latex_engine option"
  sn_source_epoch :: int
  sn_documents :: "(string \<times> string) list"
  sn_assets :: "(string \<times> content_asset) list"
  sn_directories :: "string list"

text \<open>\<open>extract(epoch from t)::bigint\<close> rounds to the nearest second, halves away from zero.\<close>

definition epoch_seconds :: "instant \<Rightarrow> int" where
  "epoch_seconds t = (if 0 \<le> t then (t + 500000) div 1000000 else - ((500000 - t) div 1000000))"

definition source_epoch :: "uuid \<Rightarrow> project_row \<Rightarrow> workspace_db \<Rightarrow> int" where
  "source_epoch pid p w =
     epoch_seconds (foldl max (pr_created_at p)
       ((case find_settings pid w of None \<Rightarrow> [] | Some s \<Rightarrow> [se_updated_at s]) @
        map dc_updated_at (filter (\<lambda>d. dc_project_id d = pid) (w_documents w)) @
        map as_created_at (filter (\<lambda>a. as_project_id a = pid) (w_assets w))))"

definition snapshot_asset :: "asset_row \<Rightarrow> string \<times> content_asset" where
  "snapshot_asset a =
     (as_path a, \<lparr>ca_object_key = as_object_key a, ca_content_type = as_content_type a, ca_inline_data = as_inline_data a\<rparr>)"

definition lock_project_content_snapshot :: "uuid \<Rightarrow> workspace_db \<Rightarrow> content_snapshot option" where
  "lock_project_content_snapshot pid w =
     map_option (\<lambda>p.
       \<lparr>sn_workspace_version = pr_workspace_version p, sn_content_epoch = pr_content_epoch p,
        sn_project_type = pr_project_type p,
        sn_entry_file_path = (case find_settings pid w of
           None \<Rightarrow> default_entry_file_path (pr_project_type p) | Some s \<Rightarrow> se_entry_file_path s),
        sn_latex_engine = (if pr_project_type p = Latex
           then Some (case find_settings pid w of None \<Rightarrow> Xetex
                      | Some s \<Rightarrow> (case se_latex_engine s of None \<Rightarrow> Xetex | Some e \<Rightarrow> e))
           else None),
        sn_source_epoch = source_epoch pid p w,
        sn_documents = map (\<lambda>d. (dc_path d, dc_content d)) (filter (\<lambda>d. dc_project_id d = pid) (w_documents w)),
        sn_assets = map snapshot_asset (filter (\<lambda>a. as_project_id a = pid) (w_assets w)),
        sn_directories = sort (map dr_path (filter (\<lambda>d. dr_project_id d = pid) (w_directories w)))\<rparr>)
     (find_project pid w)"

end
