(* ===== verification/Workspace_Files.thy ===== *)
theory Workspace_Files
  imports Workspace_Content
begin

text \<open>
  The file operations of the Workspace, each one transaction with its guards, and the deletion of
  stored objects: \<open>workspace/document_mutations.rs\<close>, \<open>documents.rs\<close>, \<open>project_file_creation.rs\<close>,
  \<open>project_file_deletion.rs\<close>, \<open>project_file_move.rs\<close>, \<open>project_asset_upload.rs\<close>,
  \<open>project_asset_deletion.rs\<close>, \<open>project_settings.rs\<close> and \<open>object_cleanup.rs\<close>.

  The object storage is a map from keys to contents; \<open>sv_put_ok\<close> and \<open>sv_delete_ok\<close> say which of its
  requests succeed and \<open>sv_pinned\<close> which keys the processing component has pinned. New identifiers
  and the clock are part of the environment.
\<close>

section \<open>Stored objects and their deletion queue\<close>

record deletion_row =
  dq_object_key :: string
  dq_next_attempt_at :: instant
  dq_attempt_count :: int
  dq_locked_at :: "instant option"
  dq_last_error :: "string option"
  dq_created_at :: instant
  dq_updated_at :: instant

record workspace_world =
  ww_db :: workspace_db
  ww_objects :: "string \<rightharpoonup> bytes"
  ww_queue :: "deletion_row list"

record service_env =
  sv_storage :: bool
  sv_put_ok :: "string \<Rightarrow> bool"
  sv_delete_ok :: "string \<Rightarrow> bool"
  sv_pinned :: "string \<Rightarrow> bool"
  sv_now :: instant
  sv_id :: uuid
  sv_revision :: uuid
  sv_show :: "uuid \<Rightarrow> string"

definition external_object_keys :: "string list \<Rightarrow> string list" where
  "external_object_keys keys = filter (\<lambda>k. trim k \<noteq> [] \<and> \<not> starts_with ''inline://'' k) keys"

definition enqueue_key :: "instant \<Rightarrow> bool \<Rightarrow> string \<Rightarrow> deletion_row list \<Rightarrow> deletion_row list" where
  "enqueue_key now clear_error key q =
     (if exists_where (\<lambda>r. dq_object_key r = key) q
      then update_where (\<lambda>r. dq_object_key r = key)
             (\<lambda>r. r\<lparr>dq_next_attempt_at := min (dq_next_attempt_at r) now, dq_locked_at := None,
                    dq_last_error := (if clear_error then None else dq_last_error r), dq_updated_at := now\<rparr>) q
      else q @ [\<lparr>dq_object_key = key, dq_next_attempt_at = now, dq_attempt_count = 0, dq_locked_at = None,
                 dq_last_error = None, dq_created_at = now, dq_updated_at = now\<rparr>])"

definition enqueue_object_deletions :: "instant \<Rightarrow> string list \<Rightarrow> deletion_row list \<Rightarrow> deletion_row list" where
  "enqueue_object_deletions now keys q = fold (enqueue_key now True) (external_object_keys keys) q"

definition put_object :: "service_env \<Rightarrow> string \<Rightarrow> bytes \<Rightarrow> workspace_world \<Rightarrow> workspace_world option" where
  "put_object env key content s =
     (if sv_put_ok env key then Some (s\<lparr>ww_objects := (ww_objects s)(key \<mapsto> content)\<rparr>) else None)"

definition cleanup_uncommitted_object :: "service_env \<Rightarrow> string \<Rightarrow> workspace_world \<Rightarrow> workspace_world" where
  "cleanup_uncommitted_object env key s =
     (if starts_with ''inline://'' key \<or> \<not> sv_storage env then s
      else if sv_delete_ok env key then s\<lparr>ww_objects := (ww_objects s)(key := None)\<rparr>
      else s\<lparr>ww_queue := enqueue_key (sv_now env) False key (ww_queue s)\<rparr>)"

definition delete_queued_object :: "service_env \<Rightarrow> string \<Rightarrow> workspace_world \<Rightarrow> workspace_world" where
  "delete_queued_object env key s =
     (if sv_pinned env key \<or> \<not> sv_delete_ok env key then s
      else s\<lparr>ww_objects := (ww_objects s)(key := None), ww_queue := delete_where (\<lambda>r. dq_object_key r = key) (ww_queue s)\<rparr>)"

definition delete_queued_objects_now :: "service_env \<Rightarrow> string list \<Rightarrow> workspace_world \<Rightarrow> workspace_world" where
  "delete_queued_objects_now env keys s =
     (if \<not> sv_storage env then s else fold (delete_queued_object env) (external_object_keys keys) s)"

text \<open>One turn of \<open>spawn_object_cleanup_worker\<close>.\<close>

definition retry_delay_seconds :: "int \<Rightarrow> int" where
  "retry_delay_seconds attempt_count = min 900 (5 * 2 ^ nat (max 0 (min 8 attempt_count)))"

definition due_object :: "(string \<Rightarrow> bool) \<Rightarrow> (string \<Rightarrow> bool) \<Rightarrow> instant \<Rightarrow> deletion_row \<Rightarrow> bool" where
  "due_object pinned locked now r \<longleftrightarrow>
     dq_next_attempt_at r \<le> now \<and> (dq_locked_at r = None \<or> null_le (dq_locked_at r) (now - seconds 900)) \<and>
     \<not> pinned (dq_object_key r) \<and> \<not> locked (dq_object_key r)"

definition claim_due_object ::
  "(string \<Rightarrow> bool) \<Rightarrow> (string \<Rightarrow> bool) \<Rightarrow> instant \<Rightarrow> deletion_row list \<Rightarrow> (string \<times> int) option \<times> deletion_row list" where
  "claim_due_object pinned locked now q =
     (case first_by (\<lambda>r. (dq_next_attempt_at r, dq_created_at r)) (filter (due_object pinned locked now) q) of
        None \<Rightarrow> (None, q)
      | Some r \<Rightarrow>
          (Some (dq_object_key r, dq_attempt_count r + 1),
           update_where (\<lambda>x. dq_object_key x = dq_object_key r)
             (\<lambda>x. x\<lparr>dq_locked_at := Some now, dq_attempt_count := dq_attempt_count x + 1, dq_updated_at := now\<rparr>) q))"

definition defer_object_deletion :: "string \<Rightarrow> int \<Rightarrow> instant \<Rightarrow> deletion_row list \<Rightarrow> deletion_row list" where
  "defer_object_deletion key attempt_count now q =
     update_where (\<lambda>r. dq_object_key r = key)
       (\<lambda>r. r\<lparr>dq_next_attempt_at := now + seconds (retry_delay_seconds attempt_count), dq_locked_at := None,
              dq_last_error := Some ''object_store_delete_failed'', dq_updated_at := now\<rparr>) q"

definition cleanup_turn :: "service_env \<Rightarrow> (string \<Rightarrow> bool) \<Rightarrow> instant \<Rightarrow> workspace_world \<Rightarrow> workspace_world" where
  "cleanup_turn env locked later s =
     (case claim_due_object (sv_pinned env) locked (sv_now env) (ww_queue s) of
        (None, q) \<Rightarrow> s\<lparr>ww_queue := q\<rparr>
      | (Some (key, attempt_count), q) \<Rightarrow>
          if sv_delete_ok env key
          then s\<lparr>ww_objects := (ww_objects s)(key := None), ww_queue := delete_where (\<lambda>r. dq_object_key r = key) q\<rparr>
          else s\<lparr>ww_queue := defer_object_deletion key attempt_count later q\<rparr>)"

section \<open>Documents\<close>

datatype document_error =
    PathConflict | ContentEpochChanged | ProjectNotFound_document | DocumentNotFound | DocumentRevisionChanged
  | EntryFileDeletion | Persistence_document

abbreviation committed :: "workspace_world \<Rightarrow> workspace_db \<Rightarrow> workspace_world" where
  "committed s w \<equiv> s\<lparr>ww_db := w\<rparr>"

definition create_document ::
  "service_env \<Rightarrow> uuid \<Rightarrow> string \<Rightarrow> string \<Rightarrow> uuid option \<Rightarrow> string option \<Rightarrow> workspace_world \<Rightarrow>
   (document_error + document_row) \<times> workspace_world" where
  [op_defs]: "create_document env pid path content actor guest s =
     (case document_insert (sv_id env) pid path content (sv_now env) (ww_db s) of
        None \<Rightarrow> (Inl (if document_exists pid path (ww_db s) then PathConflict else Persistence_document), s)
      | Some (d, w) \<Rightarrow> (Inr d, committed s (mark_project_dirty pid actor guest w)))"

definition upsert_document_by_path ::
  "service_env \<Rightarrow> uuid \<Rightarrow> string \<Rightarrow> string \<Rightarrow> int \<Rightarrow> uuid option \<Rightarrow> string option \<Rightarrow> workspace_world \<Rightarrow>
   (document_error + document_row) \<times> workspace_world" where
  [op_defs]: "upsert_document_by_path env pid path content expected_content_epoch actor guest s =
     (case lock_project_content_epoch pid expected_content_epoch (ww_db s) of
        Changed_epoch \<Rightarrow> (Inl ContentEpochChanged, s)
      | ProjectNotFound_epoch \<Rightarrow> (Inl ProjectNotFound_document, s)
      | Current_epoch \<Rightarrow>
          (case document_upsert (sv_id env) pid path content (sv_now env) (ww_db s) of
             None \<Rightarrow> (Inl Persistence_document, s)
           | Some (d, w) \<Rightarrow> (Inr d, committed s (mark_project_dirty pid actor guest w))))"

definition update_document ::
  "service_env \<Rightarrow> uuid \<Rightarrow> uuid \<Rightarrow> int \<Rightarrow> int \<Rightarrow> int \<Rightarrow> string \<Rightarrow> uuid option \<Rightarrow> string option \<Rightarrow> workspace_world \<Rightarrow>
   (document_error + document_row) \<times> workspace_world" where
  [op_defs]: "update_document env pid document_id expected_content_epoch path_revision collaboration_revision content actor guest s =
     (case lock_project_content_epoch pid expected_content_epoch (ww_db s) of
        Changed_epoch \<Rightarrow> (Inl ContentEpochChanged, s)
      | ProjectNotFound_epoch \<Rightarrow> (Inl ProjectNotFound_document, s)
      | Current_epoch \<Rightarrow>
          (case update_content pid document_id path_revision collaboration_revision content (sv_now env) (ww_db s) of
             None \<Rightarrow> (Inl (if exists_where (\<lambda>d. dc_project_id d = pid \<and> dc_id d = document_id) (w_documents (ww_db s))
                         then DocumentRevisionChanged else DocumentNotFound), s)
           | Some (d, w) \<Rightarrow> (Inr d, committed s (mark_project_dirty pid actor guest w))))"

definition delete_document ::
  "uuid \<Rightarrow> uuid \<Rightarrow> uuid option \<Rightarrow> string option \<Rightarrow> workspace_world \<Rightarrow> (document_error + unit) \<times> workspace_world" where
  [op_defs]: "delete_document pid document_id actor guest s =
     (case find (\<lambda>d. dc_project_id d = pid \<and> dc_id d = document_id) (w_documents (ww_db s)) of
        None \<Rightarrow> (Inl DocumentNotFound, s)
      | Some d \<Rightarrow>
          if (case find_project_entry_point pid (ww_db s) of None \<Rightarrow> False | Some e \<Rightarrow> ep_entry_file_path e = dc_path d)
          then (Inl EntryFileDeletion, s)
          else (case delete_document_by_id pid document_id (ww_db s) of
                  (n, w) \<Rightarrow> if n = 0 then (Inl DocumentNotFound, s)
                            else (Inr (), committed s (mark_project_dirty pid actor guest w))))"

text \<open>\<open>list_documents\<close> after a cursor: a page, the cursor of its last row and whether there is more.\<close>

definition document_page_size :: nat where "document_page_size = 500"

record document_page =
  dp_documents :: "document_row list"
  dp_cursor :: "int option"
  dp_has_more :: bool

definition list_documents_after :: "uuid \<Rightarrow> int option \<Rightarrow> workspace_db \<Rightarrow> document_page" where
  "list_documents_after pid cursor w =
     (let records = list_after_change_sequence pid cursor (document_page_size + 1) w;
          has_more = document_page_size < length records;
          page = (if has_more then take document_page_size records else records)
      in \<lparr>dp_documents = page, dp_cursor = (if page = [] then None else Some (dc_change_sequence (last page))),
          dp_has_more = has_more\<rparr>)"

section \<open>Project files\<close>

datatype file_kind = Directory_kind | File_kind

datatype file_error =
    PathConflict_file | Storage_file | Persistence_file | EntryFileDeletion_file | EntryFileTypeMismatch
  | AssetNotFound | PayloadTooLarge

datatype prepared_file = Directory_prepared | Text_prepared string | Asset_prepared (prepared_asset: asset_row)

definition asset_object_key :: "service_env \<Rightarrow> uuid \<Rightarrow> uuid \<Rightarrow> string" where
  "asset_object_key env pid i = ''projects/'' @ sv_show env pid @ ''/assets/'' @ sv_show env i"

definition prepare_empty_asset ::
  "service_env \<Rightarrow> uuid \<Rightarrow> string \<Rightarrow> string \<Rightarrow> uuid option \<Rightarrow> workspace_world \<Rightarrow> (file_error + prepared_file) \<times> workspace_world" where
  "prepare_empty_asset env pid path content_type actor s =
     (let key = (if sv_storage env then asset_object_key env pid (sv_id env) else ''inline://'' @ sv_show env (sv_id env));
          a = \<lparr>as_id = sv_id env, as_project_id = pid, as_path = path, as_content_revision = sv_id env, as_object_key = key,
               as_content_type = content_type, as_size_bytes = 0, as_uploaded_by = actor, as_created_at = sv_now env,
               as_inline_data = (if sv_storage env then None else Some [])\<rparr>
      in if sv_storage env
         then (case put_object env key [] s of
                 None \<Rightarrow> (Inl Storage_file, cleanup_uncommitted_object env key s)
               | Some s1 \<Rightarrow> (Inr (Asset_prepared a), s1))
         else (Inr (Asset_prepared a), s))"

text \<open>The statements of the transaction: whether it changed anything, the replaced objects, the store.\<close>

fun persist_prepared :: "service_env \<Rightarrow> uuid \<Rightarrow> string \<Rightarrow> prepared_file \<Rightarrow> workspace_db \<Rightarrow> (bool \<times> string list \<times> workspace_db) option" where
  "persist_prepared env pid path Directory_prepared w =
     map_option (\<lambda>(changed, w1). (changed, [], w1)) (insert_directory pid path (sv_now env) w)"
| "persist_prepared env pid path (Text_prepared content) w =
     (case document_upsert (sv_id env) pid path content (sv_now env) w of
        None \<Rightarrow> None
      | Some (_, w1) \<Rightarrow> Some (True, asset_keys_at pid path w, delete_asset_at_path pid path w1))"
| "persist_prepared env pid path (Asset_prepared a) w =
     (case asset_upsert a w of
        None \<Rightarrow> None
      | Some (_, w1) \<Rightarrow> Some (True, asset_keys_at pid path w, delete_document_at_path pid path w1))"

definition cleanup_prepared :: "service_env \<Rightarrow> prepared_file \<Rightarrow> workspace_world \<Rightarrow> workspace_world" where
  "cleanup_prepared env f s = (case f of Asset_prepared a \<Rightarrow> cleanup_uncommitted_object env (as_object_key a) s | _ \<Rightarrow> s)"

definition prepare_file ::
  "service_env \<Rightarrow> uuid \<Rightarrow> string \<Rightarrow> file_kind \<Rightarrow> string \<Rightarrow> string \<Rightarrow> bool \<Rightarrow> uuid option \<Rightarrow> workspace_world \<Rightarrow>
   (file_error + prepared_file) \<times> workspace_world" where
  "prepare_file env pid path kind content content_type is_text actor s =
     (if kind = Directory_kind then (Inr Directory_prepared, s)
      else if is_text then (Inr (Text_prepared content), s)
      else prepare_empty_asset env pid path content_type actor s)"

definition create_project_file ::
  "service_env \<Rightarrow> uuid \<Rightarrow> string \<Rightarrow> file_kind \<Rightarrow> string \<Rightarrow> string \<Rightarrow> bool \<Rightarrow> uuid option \<Rightarrow> string option \<Rightarrow> workspace_world \<Rightarrow>
   (file_error + unit) \<times> workspace_world" where
  [op_defs]: "create_project_file env pid path kind content content_type is_text actor guest s =
     (case prepare_file env pid path kind content content_type is_text actor s of
        (Inl e, s1) \<Rightarrow> (Inl e, s1)
      | (Inr prepared, s1) \<Rightarrow>
          (case persist_prepared env pid path prepared (ww_db s1) of
             None \<Rightarrow> (Inl Persistence_file, cleanup_prepared env prepared s1)
           | Some (changed, replaced, w) \<Rightarrow>
               let s2 = (if changed
                         then s1\<lparr>ww_db := mark_project_dirty pid actor guest w,
                                 ww_queue := enqueue_object_deletions (sv_now env) replaced (ww_queue s1)\<rparr>
                         else committed s1 w)
               in (Inr (), delete_queued_objects_now env replaced s2)))"

definition delete_project_file ::
  "service_env \<Rightarrow> uuid \<Rightarrow> string \<Rightarrow> uuid option \<Rightarrow> string option \<Rightarrow> workspace_world \<Rightarrow> (file_error + unit) \<times> workspace_world" where
  [op_defs]: "delete_project_file env pid path actor guest s =
     (if (case find_project_entry_point pid (ww_db s) of None \<Rightarrow> False
          | Some e \<Rightarrow> path_is_in_subtree (ep_entry_file_path e) path)
      then (Inl EntryFileDeletion_file, s)
      else case delete_subtree pid path (ww_db s) of
        (counts, keys, w) \<Rightarrow>
          let s1 = (if counts_changed counts
                    then s\<lparr>ww_db := mark_project_dirty pid actor guest w,
                           ww_queue := enqueue_object_deletions (sv_now env) keys (ww_queue s)\<rparr>
                    else committed s w)
          in (Inr (), delete_queued_objects_now env keys s1))"

definition follow_entry :: "uuid \<Rightarrow> project_type \<Rightarrow> string \<Rightarrow> instant \<Rightarrow> workspace_db \<Rightarrow> workspace_db option" where
  "follow_entry pid pt moved_entry now w =
     (case settings_ensure pid (default_entry_file_path pt) (default_latex_engine pt) now w of
        None \<Rightarrow> None
      | Some w1 \<Rightarrow> update_entry_file_path pid moved_entry now w1)"

definition move_project_file ::
  "service_env \<Rightarrow> uuid \<Rightarrow> string \<Rightarrow> string \<Rightarrow> uuid option \<Rightarrow> string option \<Rightarrow> workspace_world \<Rightarrow> (file_error + unit) \<times> workspace_world" where
  [op_defs]: "move_project_file env pid from_path to_path actor guest s =
     (let entry = find_project_entry_point pid (ww_db s);
          moved = (case entry of None \<Rightarrow> None
                   | Some e \<Rightarrow> map_option (Pair (ep_project_type e)) (move_path_with_subtree (ep_entry_file_path e) from_path to_path))
      in if (case moved of None \<Rightarrow> False | Some (pt, m) \<Rightarrow> \<not> accepts_entry_file_path pt m)
         then (Inl EntryFileTypeMismatch, s)
         else case move_subtree pid from_path to_path (sv_now env) (ww_db s) of
           None \<Rightarrow> (Inl PathConflict_file, s)
         | Some (counts, w) \<Rightarrow>
             if \<not> counts_changed counts then (Inr (), committed s w)
             else (case (case moved of None \<Rightarrow> Some w | Some (pt, m) \<Rightarrow> follow_entry pid pt m (sv_now env) w) of
                     None \<Rightarrow> (Inl Persistence_file, s)
                   | Some w1 \<Rightarrow> (Inr (), committed s (mark_project_dirty pid actor guest w1))))"

section \<open>Assets\<close>

definition uploaded_asset ::
  "service_env \<Rightarrow> uuid \<Rightarrow> string \<Rightarrow> string \<Rightarrow> bytes \<Rightarrow> uuid option \<Rightarrow> asset_row" where
  "uploaded_asset env pid path content_type content actor =
     \<lparr>as_id = sv_id env, as_project_id = pid, as_path = path, as_content_revision = sv_revision env,
      as_object_key = (if sv_storage env then asset_object_key env pid (sv_revision env) else ''inline://'' @ sv_show env (sv_id env)),
      as_content_type = content_type, as_size_bytes = int (length content), as_uploaded_by = actor,
      as_created_at = sv_now env, as_inline_data = (if sv_storage env then None else Some content)\<rparr>"

definition upload_project_asset ::
  "service_env \<Rightarrow> uuid \<Rightarrow> string \<Rightarrow> string \<Rightarrow> bytes \<Rightarrow> uuid option \<Rightarrow> string option \<Rightarrow> workspace_world \<Rightarrow>
   (file_error + asset_row) \<times> workspace_world" where
  [op_defs]: "upload_project_asset env pid path content_type content actor guest s =
     (let a = uploaded_asset env pid path content_type content actor; key = as_object_key a in
      if i64_max < int (length content) then (Inl PayloadTooLarge, s)
      else case (if sv_storage env then put_object env key content s else Some s) of
        None \<Rightarrow> (Inl Storage_file, cleanup_uncommitted_object env key s)
      | Some s1 \<Rightarrow>
          (case asset_upsert a (ww_db s1) of
             None \<Rightarrow> (Inl Persistence_file, cleanup_uncommitted_object env key s1)
           | Some (r, w) \<Rightarrow>
               let replaced = filter (\<lambda>k. k \<noteq> key) (asset_keys_at pid path (ww_db s1));
                   s2 = s1\<lparr>ww_db := mark_project_dirty pid actor guest w,
                           ww_queue := enqueue_object_deletions (sv_now env) replaced (ww_queue s1)\<rparr>
               in (Inr r, delete_queued_objects_now env replaced s2)))"

definition delete_project_asset ::
  "service_env \<Rightarrow> uuid \<Rightarrow> uuid \<Rightarrow> uuid option \<Rightarrow> string option \<Rightarrow> workspace_world \<Rightarrow> (file_error + unit) \<times> workspace_world" where
  [op_defs]: "delete_project_asset env pid asset_id actor guest s =
     (case find (\<lambda>a. as_project_id a = pid \<and> as_id a = asset_id) (w_assets (ww_db s)) of
        None \<Rightarrow> (Inl AssetNotFound, s)
      | Some a \<Rightarrow>
          (case delete_asset_by_id pid asset_id (ww_db s) of
             (n, w) \<Rightarrow>
               if n = 0 then (Inl AssetNotFound, s)
               else (Inr (), delete_queued_objects_now env [as_object_key a]
                       (s\<lparr>ww_db := mark_project_dirty pid actor guest w,
                          ww_queue := enqueue_object_deletions (sv_now env) [as_object_key a] (ww_queue s)\<rparr>))))"

section \<open>Settings\<close>

datatype setting_change = EntryFilePath string | LatexEngine latex_engine

datatype setting_error =
    ProjectNotFound_setting | LatexEngineNotApplicable | EntryFileTypeMismatch_setting | EntryFileNotFound_setting
  | Persistence_setting

definition get_or_create_project_settings :: "uuid \<Rightarrow> instant \<Rightarrow> workspace_world \<Rightarrow> (setting_error + settings_row) \<times> workspace_world" where
  [op_defs]: "get_or_create_project_settings pid now s =
     (case find_project pid (ww_db s) of
        None \<Rightarrow> (Inl ProjectNotFound_setting, s)
      | Some p \<Rightarrow>
          (case settings_ensure pid (default_entry_file_path (pr_project_type p)) (default_latex_engine (pr_project_type p)) now (ww_db s) of
             None \<Rightarrow> (Inl Persistence_setting, s)
           | Some w \<Rightarrow> (case find_settings pid w of
                          None \<Rightarrow> (Inl Persistence_setting, s) | Some r \<Rightarrow> (Inr r, committed s w))))"

definition change_project_setting ::
  "uuid \<Rightarrow> setting_change \<Rightarrow> uuid \<Rightarrow> instant \<Rightarrow> workspace_world \<Rightarrow> (setting_error + settings_row) \<times> workspace_world" where
  [op_defs]: "change_project_setting pid change actor now s =
     (case find_project pid (ww_db s) of
        None \<Rightarrow> (Inl ProjectNotFound_setting, s)
      | Some p \<Rightarrow>
          let pt = pr_project_type p in
          if (case change of LatexEngine _ \<Rightarrow> pt \<noteq> Latex | _ \<Rightarrow> False) then (Inl LatexEngineNotApplicable, s)
          else if (case change of EntryFilePath e \<Rightarrow> \<not> accepts_entry_file_path pt e | _ \<Rightarrow> False)
          then (Inl EntryFileTypeMismatch_setting, s)
          else case settings_ensure pid (default_entry_file_path pt) (default_latex_engine pt) now (ww_db s) of
            None \<Rightarrow> (Inl Persistence_setting, s)
          | Some w \<Rightarrow>
              if (case change of EntryFilePath e \<Rightarrow> \<not> document_exists pid e w | _ \<Rightarrow> False)
              then (Inl EntryFileNotFound_setting, s)
              else (case (case change of EntryFilePath e \<Rightarrow> update_entry_file_path pid e now w
                          | LatexEngine e \<Rightarrow> update_latex_engine pid e now w) of
                      None \<Rightarrow> (Inl Persistence_setting, s)
                    | Some w1 \<Rightarrow>
                        (case find_settings pid w1 of
                           None \<Rightarrow> (Inl Persistence_setting, s)
                         | Some r \<Rightarrow> (Inr r, committed s (mark_project_dirty pid (Some actor) None w1)))))"

end
