(* ===== verification/Workspace_Invariant.thy ===== *)
theory Workspace_Invariant
  imports Workspace_Files
begin

text \<open>
  The invariant of the Workspace tables, that every operation keeps it, and the relation between the
  documents before and after an operation on which the incremental listing rests: a row whose
  change sequence is old is an old row.
\<close>

section \<open>Updates of tables with keys\<close>

lemma update_unique_Some:
  "update_unique P f c before t = Some t' \<Longrightarrow> t' = before @ update_where P f t"
  by (induction P f c before t rule: update_unique.induct) (auto simp: update_where_def split: if_splits)

text \<open>A key that the conflict relation protects stays unique.\<close>

lemma update_unique_distinct:
  assumes "update_unique P f c before t = Some t'" and "distinct (map k (before @ t))"
    and "\<And>a b. k a = k b \<Longrightarrow> c a b"
  shows "distinct (map k t')"
  using assms(1,2)
proof (induction t arbitrary: before)
  case Nil
  then show ?case by simp
next
  case (Cons r rs)
  show ?case
  proof (cases "P r")
    case True
    with Cons.prems(1) have nc: "\<not> list_ex (c (f r)) (before @ rs)"
      and go: "update_unique P f c (before @ [f r]) rs = Some t'" by (auto split: if_splits)
    have "k (f r) \<notin> k ` set (before @ rs)" using nc assms(3) by (auto simp: list_ex_iff)
    with Cons.prems(2) have "distinct (map k ((before @ [f r]) @ rs))" by auto
    from Cons.IH [OF go this] show ?thesis .
  next
    case False
    with Cons show ?thesis by simp
  qed
qed

lemma update_where_one:
  assumes "distinct (map k t)" and "\<And>r. P r \<Longrightarrow> k r = v" and "r \<in> set t" and "P r"
  shows "\<exists>xs ys. t = xs @ r # ys \<and> update_where P f t = xs @ f r # ys"
proof -
  obtain xs ys where t: "t = xs @ r # ys" using split_list [OF assms(3)] by blast
  have "k r \<notin> k ` (set xs \<union> set ys)" using assms(1) t by auto
  then have "\<not> P x" if "x \<in> set xs \<union> set ys" for x
    using that assms(2) [of x] assms(2) [OF assms(4)] by (metis imageI)
  then have "update_where P f xs = xs" "update_where P f ys = ys" by (auto intro: update_where_none)
  with t assms(4) show ?thesis by (auto simp: update_where_def)
qed

lemma update_numbered_count: "update_numbered P f n t = (t', m) \<Longrightarrow> m = n + int (rows_affected P t)"
  by (induction t arbitrary: n t') (fastforce simp: rows_affected_def split: if_splits prod.splits)+

lemma update_numbered_row:
  assumes "update_numbered P f n t = (t', m)" and "x \<in> set t'"
  shows "(x \<in> set t \<and> \<not> P x) \<or> (\<exists>r i. r \<in> set t \<and> P r \<and> n \<le> i \<and> i < m \<and> x = f i r)"
  using assms
proof (induction t arbitrary: n t')
  case Nil
  then show ?case by simp
next
  case (Cons r rs)
  show ?case
  proof (cases "P r")
    case True
    then obtain ts where go: "update_numbered P f (n + 1) rs = (ts, m)" and t': "t' = f n r # ts"
      using Cons.prems by (auto split: prod.splits)
    have "n < m" using update_numbered_count [OF go] by simp
    show ?thesis
    proof (cases "x = f n r")
      case True
      with \<open>P r\<close> \<open>n < m\<close> show ?thesis by auto
    next
      case False
      with t' Cons.prems(2) have "x \<in> set ts" by simp
      from Cons.IH [OF go this] show ?thesis by (metis add1_zle_eq less_imp_le list.set_intros(2))
    qed
  next
    case False
    then obtain ts where go: "update_numbered P f n rs = (ts, m)" and t': "t' = r # ts"
      using Cons.prems by (auto split: prod.splits)
    then show ?thesis using Cons.IH [OF go] Cons.prems(2) False by (metis list.set_intros(1,2) set_ConsD)
  qed
qed

lemma update_numbered_map:
  "update_numbered P f n t = (t', m) \<Longrightarrow> (\<And>i r. k (f i r) = k (g r)) \<Longrightarrow> map k t' = map k (update_where P g t)"
  by (induction t arbitrary: n t') (auto simp: update_where_def split: if_splits prod.splits)

lemma update_numbered_distinct:
  assumes "update_numbered P f n t = (t', m)" and "distinct (map q t)" and "\<And>r. r \<in> set t \<Longrightarrow> q r < n"
    and "\<And>i r. q (f i r) = i"
  shows "distinct (map q t')"
  using assms(1-3)
proof (induction t arbitrary: n t')
  case Nil
  then show ?case by simp
next
  case (Cons r rs)
  show ?case
  proof (cases "P r")
    case True
    then obtain ts where go: "update_numbered P f (n + 1) rs = (ts, m)" and t': "t' = f n r # ts"
      using Cons.prems(1) by (auto split: prod.splits)
    have "distinct (map q ts)" using Cons.prems by (intro Cons.IH [OF go]) (auto simp: less_imp_le less_le_trans intro: less_trans)
    moreover have "q x \<noteq> n" if "x \<in> set ts" for x
      using update_numbered_row [OF go that] Cons.prems(3) assms(4) by fastforce
    ultimately show ?thesis using t' assms(4) by force
  next
    case False
    then obtain ts where go: "update_numbered P f n rs = (ts, m)" and t': "t' = r # ts"
      using Cons.prems(1) by (auto split: prod.splits)
    have "distinct (map q ts)" using Cons.prems by (intro Cons.IH [OF go]) auto
    moreover have "q x \<noteq> q r" if "x \<in> set ts" for x
      using update_numbered_row [OF go that]
    proof
      assume "x \<in> set rs \<and> \<not> P x"
      moreover have "q r \<notin> q ` set rs" using Cons.prems(2) by simp
      ultimately show ?thesis by (metis imageI)
    next
      assume "\<exists>r i. r \<in> set rs \<and> P r \<and> n \<le> i \<and> i < m \<and> x = f i r"
      then obtain i where "n \<le> i" "q x = i" using assms(4) by blast
      with Cons.prems(3) [of r] show ?thesis by simp
    qed
    ultimately show ?thesis using t' by force
  qed
qed


section \<open>The invariant\<close>

text \<open>Unique keys, references to projects, and change sequences that were drawn and are not shared.\<close>

definition project_ids :: "workspace_db \<Rightarrow> uuid set" where
  "project_ids w = pr_id ` set (w_projects w)"

definition directories_ok :: "uuid set \<Rightarrow> directory_row list \<Rightarrow> bool" where
  "directories_ok ids ds \<longleftrightarrow> distinct (map (\<lambda>d. (dr_project_id d, dr_path d)) ds) \<and> dr_project_id ` set ds \<subseteq> ids"

definition documents_ok :: "uuid set \<Rightarrow> int \<Rightarrow> document_row list \<Rightarrow> bool" where
  "documents_ok ids n ds \<longleftrightarrow>
     distinct (map dc_id ds) \<and> distinct (map (\<lambda>d. (dc_project_id d, dc_path d)) ds) \<and> dc_project_id ` set ds \<subseteq> ids \<and>
     distinct (map dc_change_sequence ds) \<and> (\<forall>d \<in> set ds. 0 < dc_change_sequence d \<and> dc_change_sequence d < n)"

definition assets_ok :: "uuid set \<Rightarrow> asset_row list \<Rightarrow> bool" where
  "assets_ok ids as \<longleftrightarrow>
     distinct (map as_id as) \<and> distinct (map as_object_key as) \<and> distinct (map (\<lambda>a. (as_project_id a, as_path a)) as) \<and>
     as_project_id ` set as \<subseteq> ids"

definition settings_ok :: "uuid set \<Rightarrow> settings_row list \<Rightarrow> bool" where
  "settings_ok ids ss \<longleftrightarrow> distinct (map se_project_id ss) \<and> se_project_id ` set ss \<subseteq> ids"

definition workspace_inv :: "workspace_db \<Rightarrow> bool" where
  "workspace_inv w \<longleftrightarrow>
     distinct (map pr_id (w_projects w)) \<and> settings_ok (project_ids w) (w_settings w) \<and>
     directories_ok (project_ids w) (w_directories w) \<and> documents_ok (project_ids w) (w_next_sequence w) (w_documents w) \<and>
     assets_ok (project_ids w) (w_assets w) \<and> 0 < w_next_sequence w"

definition empty_workspace :: workspace_db where
  "empty_workspace = \<lparr>w_projects = [], w_settings = [], w_directories = [], w_documents = [], w_assets = [],
     w_next_sequence = 1, w_activity = []\<rparr>"

lemma empty_workspace_inv: "workspace_inv empty_workspace"
  by (simp add: workspace_inv_def empty_workspace_def settings_ok_def directories_ok_def documents_ok_def assets_ok_def)

text \<open>
  What a change keeps: projects stay, the sequence goes forward, and a document whose change
  sequence had been drawn before the change is as it was before the change.
\<close>

definition evolves :: "workspace_db \<Rightarrow> workspace_db \<Rightarrow> bool" where
  "evolves w w' \<longleftrightarrow>
     project_ids w \<subseteq> project_ids w' \<and> w_next_sequence w \<le> w_next_sequence w' \<and>
     (\<forall>d \<in> set (w_documents w'). dc_change_sequence d < w_next_sequence w \<longrightarrow> d \<in> set (w_documents w))"

definition sound_step :: "workspace_db \<Rightarrow> workspace_db \<Rightarrow> bool" where
  "sound_step w w' \<longleftrightarrow> (workspace_inv w \<longrightarrow> workspace_inv w' \<and> evolves w w')"

lemma evolves_refl [simp]: "evolves w w"
  by (simp add: evolves_def)

lemma evolves_trans: "evolves a b \<Longrightarrow> evolves b c \<Longrightarrow> evolves a c"
  by (fastforce simp: evolves_def)

lemma sound_refl [simp]: "sound_step w w"
  by (simp add: sound_step_def)

lemma sound_trans [trans]: "sound_step a b \<Longrightarrow> sound_step b c \<Longrightarrow> sound_step a c"
  unfolding sound_step_def using evolves_trans by blast

lemmas table_ok_defs = directories_ok_def documents_ok_def assets_ok_def settings_ok_def

text \<open>Changes of one table.\<close>

lemma sound_documents:
  assumes "documents_ok (project_ids w) (w_next_sequence w) (w_documents w) \<Longrightarrow> 0 < w_next_sequence w \<Longrightarrow>
      documents_ok (project_ids w) n t"
    and "w_next_sequence w \<le> n"
    and "\<And>d. d \<in> set t \<Longrightarrow> dc_change_sequence d < w_next_sequence w \<Longrightarrow> d \<in> set (w_documents w)"
  shows "sound_step w (w\<lparr>w_documents := t, w_next_sequence := n\<rparr>)"
  using assms by (auto simp: sound_step_def workspace_inv_def evolves_def project_ids_def)

lemma sound_delete_documents: "sound_step w (w\<lparr>w_documents := delete_where P (w_documents w)\<rparr>)"
proof -
  have "sound_step w (w\<lparr>w_documents := delete_where P (w_documents w), w_next_sequence := w_next_sequence w\<rparr>)"
    by (rule sound_documents) (auto simp: documents_ok_def intro: distinct_map_delete_where)
  then show ?thesis by simp
qed

lemma sound_assets:
  assumes "assets_ok (project_ids w) (w_assets w) \<Longrightarrow> assets_ok (project_ids w) t"
  shows "sound_step w (w\<lparr>w_assets := t\<rparr>)"
  using assms by (auto simp: sound_step_def workspace_inv_def evolves_def project_ids_def)

lemma sound_directories:
  assumes "directories_ok (project_ids w) (w_directories w) \<Longrightarrow> directories_ok (project_ids w) t"
  shows "sound_step w (w\<lparr>w_directories := t\<rparr>)"
  using assms by (auto simp: sound_step_def workspace_inv_def evolves_def project_ids_def)

lemma sound_settings:
  assumes "settings_ok (project_ids w) (w_settings w) \<Longrightarrow> settings_ok (project_ids w) t"
  shows "sound_step w (w\<lparr>w_settings := t\<rparr>)"
  using assms by (auto simp: sound_step_def workspace_inv_def evolves_def project_ids_def)

lemma sound_activity: "sound_step w (w\<lparr>w_activity := t\<rparr>)"
  by (simp add: sound_step_def workspace_inv_def evolves_def project_ids_def)

lemma sound_projects_update:
  assumes "\<And>p. pr_id (f p) = pr_id p"
  shows "sound_step w (w\<lparr>w_projects := update_where P f (w_projects w)\<rparr>)"
proof -
  have m: "map pr_id (update_where P f (w_projects w)) = map pr_id (w_projects w)"
    by (rule map_update_where) (simp add: assms)
  have "pr_id ` set (update_where P f (w_projects w)) = pr_id ` set (w_projects w)"
    by (metis m list.set_map)
  with m show ?thesis by (simp add: sound_step_def workspace_inv_def evolves_def project_ids_def)
qed

lemma sound_delete_assets: "sound_step w (w\<lparr>w_assets := delete_where P (w_assets w)\<rparr>)"
  by (rule sound_assets) (auto simp: assets_ok_def intro: distinct_map_delete_where)

lemma sound_delete_directories: "sound_step w (w\<lparr>w_directories := delete_where P (w_directories w)\<rparr>)"
  by (rule sound_directories) (auto simp: directories_ok_def intro: distinct_map_delete_where)

section \<open>The statements keep the invariant\<close>

lemma project_exists_ids: "project_exists pid w \<longleftrightarrow> pid \<in> project_ids w"
  by (auto simp: project_exists_def project_ids_def)

lemma find_project_id: "find_project pid w = Some p \<Longrightarrow> pid \<in> project_ids w"
  by (auto simp: find_project_def project_ids_def image_iff dest!: find_Some_set)

lemma sound_advance_workspace_version: "sound_step w (advance_workspace_version pid w)"
  unfolding advance_workspace_version_def by (rule sound_projects_update) simp

lemma sound_advance_generation: "sound_step w (advance_generation pid w)"
  unfolding advance_generation_def by (rule sound_projects_update) simp

lemma sound_mark_project_dirty: "sound_step w (mark_project_dirty pid actor guest w)"
  unfolding mark_project_dirty_def Let_def
  by (rule sound_trans [OF sound_advance_workspace_version sound_activity])

lemma settings_update_ok:
  assumes "\<And>s. se_project_id (f s) = se_project_id s" and "settings_ok ids ss"
  shows "settings_ok ids (update_where P f ss)"
proof -
  have m: "map se_project_id (update_where P f ss) = map se_project_id ss"
    by (rule map_update_where) (simp add: assms)
  then have "se_project_id ` set (update_where P f ss) = se_project_id ` set ss" by (metis list.set_map)
  with m assms(2) show ?thesis by (simp add: settings_ok_def)
qed

lemma sound_settings_insert: "settings_insert pid entry engine now w = Some w' \<Longrightarrow> sound_step w w'"
  by (auto simp: settings_insert_def project_exists_ids find_settings_def find_None_set settings_ok_def
      split: if_splits intro!: sound_settings)

lemma sound_settings_ensure: "settings_ensure pid entry engine now w = Some w' \<Longrightarrow> sound_step w w'"
  by (auto simp: settings_ensure_def split: option.splits intro: sound_settings_insert)

lemma sound_update_entry_file_path: "update_entry_file_path pid entry now w = Some w' \<Longrightarrow> sound_step w w'"
  by (auto simp: update_entry_file_path_def split: if_splits intro!: sound_settings settings_update_ok)

lemma sound_update_latex_engine: "update_latex_engine pid engine now w = Some w' \<Longrightarrow> sound_step w w'"
  by (auto simp: update_latex_engine_def split: if_splits intro!: sound_settings settings_update_ok)

lemma sound_document_insert:
  assumes "document_insert i pid path content now w = Some (d, w')"
  shows "sound_step w w'"
proof -
  let ?d = "new_document i pid path content now (w_next_sequence w)"
  from assms have fresh: "\<forall>e \<in> set (w_documents w). \<not> document_conflict ?d e" and pid: "pid \<in> project_ids w"
    and w': "w' = w\<lparr>w_documents := w_documents w @ [?d], w_next_sequence := w_next_sequence w + 1\<rparr>"
    by (auto simp: document_insert_def project_exists_ids Let_def split: if_splits option.splits)
  have nd: "\<forall>e \<in> set (w_documents w). dc_id e \<noteq> i \<and> (dc_project_id e, dc_path e) \<noteq> (pid, path)"
    using fresh by (auto simp: document_conflict_def new_document_def)
  show ?thesis
    unfolding w' using nd pid
    by (intro sound_documents) (auto simp: documents_ok_def new_document_def less_le_trans)
qed

text \<open>An update of one document that takes a new change sequence.\<close>

lemma renumbered_documents_ok:
  assumes ok: "documents_ok ids n ds" and "distinct (map k ds)" and "\<And>d. P d \<Longrightarrow> k d = v"
    and same: "\<And>d. dc_id (f d) = dc_id d" "\<And>d. dc_project_id (f d) = dc_project_id d" "\<And>d. dc_path (f d) = dc_path d"
    and q: "\<And>d. dc_change_sequence (f d) = q" and "0 < n" "n \<le> q" "q < m"
  shows "documents_ok ids m (update_where P f ds)"
proof (cases "\<exists>d \<in> set ds. P d")
  case True
  then obtain d where d: "d \<in> set ds" "P d" by blast
  then obtain xs ys where ds: "ds = xs @ d # ys" and up: "update_where P f ds = xs @ f d # ys"
    using update_where_one [of k ds P v d f, OF assms(2,3) d] by blast
  have below: "\<forall>e \<in> set xs \<union> set ys. 0 < dc_change_sequence e \<and> dc_change_sequence e < n"
    using ok unfolding ds by (auto simp: documents_ok_def)
  then have "q \<notin> dc_change_sequence ` (set xs \<union> set ys)" using \<open>n \<le> q\<close> by force
  moreover have "\<forall>e \<in> set xs \<union> set ys. 0 < dc_change_sequence e \<and> dc_change_sequence e < m"
    using below \<open>n \<le> q\<close> \<open>q < m\<close> by force
  moreover have "0 < q" using \<open>0 < n\<close> \<open>n \<le> q\<close> by simp
  ultimately have "documents_ok ids m (xs @ f d # ys)" using ok \<open>q < m\<close> unfolding ds by (auto simp: documents_ok_def same q)
  then show ?thesis by (simp only: up)
next
  case False
  then have "update_where P f ds = ds" by (auto intro: update_where_none)
  with ok assms(8-10) show ?thesis by (fastforce simp: documents_ok_def)
qed

lemma sound_renumber:
  assumes key: "(\<forall>d. P d \<longrightarrow> dc_id d = i) \<or> (\<forall>d. P d \<longrightarrow> (dc_project_id d, dc_path d) = v)"
    and "\<And>d. dc_id (f d) = dc_id d" "\<And>d. dc_project_id (f d) = dc_project_id d" "\<And>d. dc_path (f d) = dc_path d"
    and "\<And>d. dc_change_sequence (f d) = q" and "w_next_sequence w \<le> q" "q < m"
  shows "sound_step w (w\<lparr>w_documents := update_where P f (w_documents w), w_next_sequence := m\<rparr>)"
proof (rule sound_documents)
  assume ok: "documents_ok (project_ids w) (w_next_sequence w) (w_documents w)" and pos: "0 < w_next_sequence w"
  then have d: "distinct (map dc_id (w_documents w))" "distinct (map (\<lambda>d. (dc_project_id d, dc_path d)) (w_documents w))"
    by (simp_all add: documents_ok_def)
  from key show "documents_ok (project_ids w) m (update_where P f (w_documents w))"
  proof
    assume "\<forall>d. P d \<longrightarrow> dc_id d = i"
    then show ?thesis by (intro renumbered_documents_ok [OF ok d(1) _ assms(2-5) pos assms(6,7)]) auto
  next
    assume "\<forall>d. P d \<longrightarrow> (dc_project_id d, dc_path d) = v"
    then show ?thesis by (intro renumbered_documents_ok [OF ok d(2) _ assms(2-5) pos assms(6,7)]) auto
  qed
qed (use assms in \<open>auto simp: in_update_where split: if_splits\<close>)

lemma overwrite_document_simps [simp]:
  "dc_id (overwrite_document content now n d) = dc_id d"
  "dc_project_id (overwrite_document content now n d) = dc_project_id d"
  "dc_path (overwrite_document content now n d) = dc_path d"
  "dc_path_revision (overwrite_document content now n d) = dc_path_revision d"
  "dc_content (overwrite_document content now n d) = content"
  "dc_collaboration_revision (overwrite_document content now n d) = dc_collaboration_revision d + 1"
  "dc_change_sequence (overwrite_document content now n d) = n"
  by (simp_all add: overwrite_document_def)

lemma sound_document_upsert:
  assumes "document_upsert i pid path content now w = Some (d, w')"
  shows "sound_step w w'"
proof (cases "find (\<lambda>d. dc_project_id d = pid \<and> dc_path d = path) (w_documents w)")
  case None
  with assms show ?thesis by (auto simp: document_upsert_def intro: sound_document_insert)
next
  case (Some e)
  with assms show ?thesis
    by (auto simp: document_upsert_def intro!: sound_renumber [where v = "(pid, path)" and q = "w_next_sequence w + 1"])
qed

lemma sound_update_content:
  "update_content pid document_id pr cr content now w = Some (d, w') \<Longrightarrow> sound_step w w'"
  by (auto simp: update_content_def Let_def split: option.splits
      intro!: sound_renumber [where i = document_id and q = "w_next_sequence w"])

lemma sound_update_projected_content:
  "update_projected_content pid document_id cr content now w = Some (d, w') \<Longrightarrow> sound_step w w'"
  by (auto simp: update_projected_content_def Let_def split: option.splits
      intro!: sound_renumber [where i = document_id and q = "w_next_sequence w"])

lemma sound_insert_directory: "insert_directory pid path now w = Some (b, w') \<Longrightarrow> sound_step w w'"
  by (auto simp: insert_directory_def Let_def project_exists_ids directory_conflict_def directories_ok_def
      split: if_splits option.splits intro!: sound_directories)

lemma asset_row_added_ok:
  "assets_ok ids t \<Longrightarrow> \<forall>b \<in> set t. \<not> asset_conflict a b \<Longrightarrow> as_project_id a \<in> ids \<Longrightarrow> assets_ok ids (t @ [a])"
  by (auto simp: assets_ok_def asset_conflict_def)

lemma sound_asset_upsert:
  assumes "asset_upsert a w = Some (r, w')"
  shows "sound_step w w'"
proof -
  let ?same = "\<lambda>b. as_project_id b = as_project_id a \<and> as_path b = as_path a"
  let ?f = "\<lambda>b. b\<lparr>as_content_revision := as_content_revision a, as_object_key := as_object_key a,
                 as_content_type := as_content_type a, as_size_bytes := as_size_bytes a, as_uploaded_by := as_uploaded_by a,
                 as_created_at := as_created_at a, as_inline_data := as_inline_data a\<rparr>"
  have pid: "as_project_id a \<in> project_ids w"
    using assms by (auto simp: asset_upsert_def Let_def project_exists_ids split: if_splits)
  show ?thesis
  proof (cases "find ?same (w_assets w)")
    case None
    with assms pid show ?thesis
      by (auto simp: asset_upsert_def Let_def split: if_splits option.splits intro!: sound_assets asset_row_added_ok)
  next
    case (Some b)
    then have b: "b \<in> set (w_assets w)" "?same b" by (auto dest: find_Some_set)
    from Some assms have free: "\<forall>c \<in> set (w_assets w). \<not> ?same c \<longrightarrow> as_object_key c \<noteq> as_object_key a"
      and w': "w' = w\<lparr>w_assets := update_where ?same ?f (w_assets w)\<rparr>"
      by (auto simp: asset_upsert_def Let_def list_ex_iff split: if_splits)
    show ?thesis unfolding w'
    proof (rule sound_assets)
      assume ok: "assets_ok (project_ids w) (w_assets w)"
      then have keyed: "distinct (map (\<lambda>a. (as_project_id a, as_path a)) (w_assets w))" by (simp add: assets_ok_def)
      have one: "\<And>c. ?same c \<Longrightarrow> (as_project_id c, as_path c) = (as_project_id a, as_path a)" by simp
      obtain xs ys where t: "w_assets w = xs @ b # ys" and up: "update_where ?same ?f (w_assets w) = xs @ ?f b # ys"
        using update_where_one [of _ _ ?same, OF keyed one b, where f = ?f] by blast
      have "\<forall>c \<in> set xs \<union> set ys. \<not> ?same c" using keyed b(2) unfolding t by (auto simp: image_iff)
      with free t have "\<forall>c \<in> set xs \<union> set ys. as_object_key c \<noteq> as_object_key a" by auto
      with ok have "assets_ok (project_ids w) (xs @ ?f b # ys)" unfolding t assets_ok_def by auto
      then show "assets_ok (project_ids w) (update_where ?same ?f (w_assets w))" by (simp only: up)
    qed
  qed
qed

subsection \<open>Subtrees\<close>

lemma moved_directories_ok:
  assumes "directories_ok ids ds" and "update_unique P f directory_conflict [] ds = Some ds'"
    and "\<And>d. dr_project_id (f d) = dr_project_id d"
  shows "directories_ok ids ds'"
proof -
  have "distinct (map (\<lambda>d. (dr_project_id d, dr_path d)) ds')"
    using assms(1,2) by (intro update_unique_distinct [OF assms(2)]) (auto simp: directories_ok_def directory_conflict_def)
  moreover have "dr_project_id ` set ds' \<subseteq> ids"
    using assms(1,3) update_unique_Some [OF assms(2)] by (auto simp: directories_ok_def in_update_where image_subset_iff)
  ultimately show ?thesis by (simp add: directories_ok_def)
qed

lemma moved_assets_ok:
  assumes "assets_ok ids as" and "update_unique P f asset_conflict [] as = Some as'"
    and "\<And>a. as_project_id (f a) = as_project_id a"
  shows "assets_ok ids as'"
proof -
  have "distinct (map as_id as')" "distinct (map as_object_key as')" "distinct (map (\<lambda>a. (as_project_id a, as_path a)) as')"
    using assms(1) by (auto intro!: update_unique_distinct [OF assms(2)] simp: assets_ok_def asset_conflict_def)
  moreover have "as_project_id ` set as' \<subseteq> ids"
    using assms(1,3) update_unique_Some [OF assms(2)] by (auto simp: assets_ok_def in_update_where image_subset_iff)
  ultimately show ?thesis by (simp add: assets_ok_def)
qed

lemma moved_documents_ok:
  assumes ok: "documents_ok ids n ds" and "update_unique P g document_conflict [] ds = Some ds0"
    and "update_numbered P f n ds = (ds', m)" and "0 < n"
    and "\<And>i d. (dc_project_id (f i d), dc_path (f i d)) = (dc_project_id (g d), dc_path (g d))"
    and "\<And>i d. dc_id (f i d) = dc_id d" "\<And>d. dc_id (g d) = dc_id d"
    and "\<And>i d. dc_project_id (f i d) = dc_project_id d" "\<And>i d. dc_change_sequence (f i d) = i"
  shows "documents_ok ids m ds'"
proof -
  have ds0: "ds0 = update_where P g ds" using update_unique_Some [OF assms(2)] by simp
  have "distinct (map (\<lambda>d. (dc_project_id d, dc_path d)) ds0)" "distinct (map dc_id ds0)"
    using ok by (auto intro!: update_unique_distinct [OF assms(2)] simp: documents_ok_def document_conflict_def)
  then have "distinct (map (\<lambda>d. (dc_project_id d, dc_path d)) ds')" "distinct (map dc_id ds')"
    using update_numbered_map [OF assms(3), of "\<lambda>d. (dc_project_id d, dc_path d)" g]
      update_numbered_map [OF assms(3), of dc_id g] assms(5-7) ds0 by simp_all
  moreover have "distinct (map dc_change_sequence ds')"
    using ok by (intro update_numbered_distinct [OF assms(3)]) (auto simp: documents_ok_def assms(9))
  moreover have "n \<le> m" using update_numbered_count [OF assms(3)] by simp
  moreover have "dc_project_id d \<in> ids \<and> 0 < dc_change_sequence d \<and> dc_change_sequence d < m" if "d \<in> set ds'" for d
    using update_numbered_row [OF assms(3) that] ok \<open>n \<le> m\<close> \<open>0 < n\<close>
    by (auto simp: documents_ok_def assms(8,9) image_subset_iff; fastforce)
  ultimately show ?thesis by (auto simp: documents_ok_def)
qed

lemma sound_move_subtree:
  assumes "move_subtree pid from to now w = Some (counts, w')"
  shows "sound_step w w'"
proof -
  let ?Q = "\<lambda>d. dc_project_id d = pid \<and> sql_in_subtree (dc_path d) from"
  let ?f = "\<lambda>n d. d\<lparr>dc_path := sql_moved from to (dc_path d), dc_path_revision := dc_path_revision d + 1,
                      dc_change_sequence := n, dc_updated_at := now\<rparr>"
  obtain ds dt as docs n where
    ds: "update_unique (\<lambda>d. dr_project_id d = pid \<and> sql_in_subtree (dr_path d) from)
      (\<lambda>d. d\<lparr>dr_path := sql_moved from to (dr_path d)\<rparr>) directory_conflict [] (w_directories w) = Some ds"
    and dt: "update_unique ?Q (\<lambda>d. d\<lparr>dc_path := sql_moved from to (dc_path d)\<rparr>) document_conflict [] (w_documents w) = Some dt"
    and as: "update_unique (\<lambda>a. as_project_id a = pid \<and> sql_in_subtree (as_path a) from)
      (\<lambda>a. a\<lparr>as_path := sql_moved from to (as_path a)\<rparr>) asset_conflict [] (w_assets w) = Some as"
    and docs: "update_numbered ?Q ?f (w_next_sequence w) (w_documents w) = (docs, n)"
    and w': "w' = w\<lparr>w_directories := ds, w_documents := docs, w_assets := as, w_next_sequence := n\<rparr>"
    using assms by (auto simp: move_subtree_def Let_def split: option.splits prod.splits)
  have n: "w_next_sequence w \<le> n" using update_numbered_count [OF docs] by simp
  have old: "d \<in> set (w_documents w)" if "d \<in> set docs" "dc_change_sequence d < w_next_sequence w" for d
    using update_numbered_row [OF docs that(1)] that(2) by auto
  let ?w1 = "w\<lparr>w_documents := docs, w_next_sequence := n\<rparr>"
  have "sound_step w ?w1"
    by (rule sound_documents) (use moved_documents_ok [OF _ dt docs] n old in auto)
  also have "sound_step ?w1 (?w1\<lparr>w_directories := ds\<rparr>)"
    by (rule sound_directories) (auto intro: moved_directories_ok [OF _ ds] simp: project_ids_def)
  also have "sound_step (?w1\<lparr>w_directories := ds\<rparr>) (?w1\<lparr>w_directories := ds, w_assets := as\<rparr>)"
    by (rule sound_assets) (auto intro: moved_assets_ok [OF _ as] simp: project_ids_def)
  finally have "sound_step w (?w1\<lparr>w_directories := ds, w_assets := as\<rparr>)" .
  moreover have "?w1\<lparr>w_directories := ds, w_assets := as\<rparr> = w'" unfolding w' by (cases w) simp
  ultimately show ?thesis by simp
qed

lemma sound_delete_subtree:
  assumes "delete_subtree pid root w = (counts, keys, w')"
  shows "sound_step w w'"
proof -
  let ?P = "\<lambda>d. dr_project_id d = pid \<and> sql_in_subtree (dr_path d) root"
  let ?Q = "\<lambda>d. dc_project_id d = pid \<and> sql_in_subtree (dc_path d) root"
  let ?R = "\<lambda>a. as_project_id a = pid \<and> sql_in_subtree (as_path a) root"
  let ?w1 = "w\<lparr>w_directories := delete_where ?P (w_directories w)\<rparr>"
  let ?w2 = "?w1\<lparr>w_documents := delete_where ?Q (w_documents ?w1)\<rparr>"
  have "sound_step w (?w2\<lparr>w_assets := delete_where ?R (w_assets ?w2)\<rparr>)"
    by (rule sound_trans [OF sound_delete_directories sound_trans [OF sound_delete_documents sound_delete_assets]])
  with assms show ?thesis by (simp add: delete_subtree_def Let_def)
qed

section \<open>Whole projects\<close>

lemma sound_insert_directories:
  "insert_directories pid now paths w = Some w' \<Longrightarrow> pid \<in> project_ids w \<Longrightarrow> sound_step w w'"
proof (induction paths arbitrary: w)
  case Nil
  then show ?case by simp
next
  case (Cons path paths)
  let ?w1 = "w\<lparr>w_directories := w_directories w @ [\<lparr>dr_project_id = pid, dr_path = path, dr_created_at = now\<rparr>]\<rparr>"
  from Cons.prems have free: "\<forall>d \<in> set (w_directories w). \<not> directory_conflict \<lparr>dr_project_id = pid, dr_path = path, dr_created_at = now\<rparr> d"
    and go: "insert_directories pid now paths ?w1 = Some w'" by (auto split: option.splits)
  have "sound_step w ?w1"
    using free Cons.prems(2) by (intro sound_directories) (auto simp: directories_ok_def directory_conflict_def)
  moreover have "sound_step ?w1 w'" using Cons.prems(2) by (intro Cons.IH [OF go]) (simp add: project_ids_def)
  ultimately show ?case by (rule sound_trans)
qed

lemma insert_directories_projects: "insert_directories pid now paths w = Some w' \<Longrightarrow> w_projects w' = w_projects w"
  by (induction paths arbitrary: w) (fastforce split: option.splits if_splits)+

lemma insert_documents_sound:
  "insert_documents fresh k pid now ds w = Some w' \<Longrightarrow> sound_step w w' \<and> w_projects w' = w_projects w"
proof (induction ds arbitrary: k w)
  case Nil
  then show ?case by simp
next
  case (Cons d ds)
  then obtain e w1 where ins: "document_insert (fresh k) pid (wd_path d) (wd_content d) now w = Some (e, w1)"
    and go: "insert_documents fresh (k + 1) pid now ds w1 = Some w'" by (auto split: option.splits)
  from ins have "w_projects w1 = w_projects w"
    by (auto simp: document_insert_def Let_def split: if_splits option.splits)
  with Cons.IH [OF go] sound_trans [OF sound_document_insert [OF ins]] show ?case by auto
qed

lemma insert_assets_sound:
  "insert_assets pid by now as w = Some w' \<Longrightarrow> pid \<in> project_ids w \<Longrightarrow> sound_step w w' \<and> w_projects w' = w_projects w"
proof (induction as arbitrary: w)
  case Nil
  then show ?case by simp
next
  case (Cons a as)
  let ?w1 = "w\<lparr>w_assets := w_assets w @ [asset_of pid by now a]\<rparr>"
  from Cons.prems have free: "\<forall>b \<in> set (w_assets w). \<not> asset_conflict (asset_of pid by now a) b"
    and go: "insert_assets pid by now as ?w1 = Some w'" by (auto split: option.splits)
  have "sound_step w ?w1"
    using free Cons.prems(2) by (intro sound_assets asset_row_added_ok) (auto simp: asset_of_def)
  moreover have "sound_step ?w1 w' \<and> w_projects w' = w_projects ?w1"
    using Cons.prems(2) by (intro Cons.IH [OF go]) (simp add: project_ids_def)
  ultimately show ?case using sound_trans by auto
qed

lemma sound_create_project_graph:
  assumes "create_project_graph fresh g w = Some w'"
  shows "sound_step w w'"
proof -
  let ?p = "\<lparr>pr_id = cg_project_id g, pr_owner_user_id = Some (cg_owner_user_id g), pr_name = cg_name g,
    pr_created_at = cg_created_at g, pr_project_type = cg_project_type g, pr_workspace_version = 0, pr_content_epoch = 0\<rparr>"
  let ?w0 = "w\<lparr>w_projects := w_projects w @ [?p]\<rparr>"
  obtain w1 w2 w3 where new: "\<forall>p \<in> set (w_projects w). cg_project_id g \<noteq> pr_id p"
    and w1: "settings_insert (cg_project_id g) (cg_entry_file_path g) (cg_latex_engine g) (cg_created_at g) ?w0 = Some w1"
    and w2: "insert_directories (cg_project_id g) (cg_created_at g) (cg_directories g) w1 = Some w2"
    and w3: "insert_documents fresh 0 (cg_project_id g) (cg_created_at g) (cg_documents g) w2 = Some w3"
    and w': "insert_assets (cg_project_id g) (Some (cg_owner_user_id g)) (cg_created_at g) (cg_assets g) w3 = Some w'"
    using assms by (auto simp: create_project_graph_def Let_def split: option.splits)
  have w0: "sound_step w ?w0"
    using new by (auto simp: sound_step_def workspace_inv_def evolves_def project_ids_def table_ok_defs)
  have p1: "w_projects w1 = w_projects ?w0" using w1 by (auto simp: settings_insert_def split: if_splits)
  have p2: "w_projects w2 = w_projects w1"
    by (rule insert_directories_projects [OF w2])
  have i1: "cg_project_id g \<in> project_ids w1" by (simp add: project_ids_def p1)
  have "w_projects w3 = w_projects w1" using insert_documents_sound [OF w3] p2 by simp
  then have i3: "cg_project_id g \<in> project_ids w3" by (simp add: project_ids_def p1)
  have "sound_step w w1" by (rule sound_trans [OF w0 sound_settings_insert [OF w1]])
  also have "sound_step w1 w2" by (rule sound_insert_directories [OF w2 i1])
  also have "sound_step w2 w3" using insert_documents_sound [OF w3] by simp
  also have "sound_step w3 w'" using insert_assets_sound [OF w' i3] by simp
  finally show ?thesis .
qed

lemma settings_statement_projects:
  "settings_insert pid entry engine now w = Some w' \<Longrightarrow> w_projects w' = w_projects w"
  "settings_ensure pid entry engine now w = Some w' \<Longrightarrow> w_projects w' = w_projects w"
  "update_entry_file_path pid entry now w = Some w' \<Longrightarrow> w_projects w' = w_projects w"
  by (auto simp: settings_insert_def settings_ensure_def update_entry_file_path_def split: if_splits option.splits)

lemma sound_delete_content: "sound_step w (delete_content pid w)"
proof -
  let ?w1 = "w\<lparr>w_documents := delete_where (\<lambda>d. dc_project_id d = pid) (w_documents w)\<rparr>"
  let ?w2 = "?w1\<lparr>w_assets := delete_where (\<lambda>a. as_project_id a = pid) (w_assets ?w1)\<rparr>"
  have "sound_step w (?w2\<lparr>w_directories := delete_where (\<lambda>d. dr_project_id d = pid) (w_directories ?w2)\<rparr>)"
    by (rule sound_trans [OF sound_delete_documents sound_trans [OF sound_delete_assets sound_delete_directories]])
  then show ?thesis by (simp add: delete_content_def)
qed

lemma sound_insert_content:
  assumes "insert_content fresh c w = Some w'" and "rp_project_id c \<in> project_ids w"
  shows "sound_step w w'"
proof -
  obtain w1 w2 where w1: "insert_documents fresh 0 (rp_project_id c) (rp_updated_at c) (rp_documents c) w = Some w1"
    and w2: "insert_assets (rp_project_id c) (rp_asset_uploaded_by c) (rp_updated_at c) (rp_assets c) w1 = Some w2"
    and w': "insert_directories (rp_project_id c) (rp_updated_at c) (rp_directories c) w2 = Some w'"
    using assms(1) by (auto simp: insert_content_def split: option.splits)
  have s1: "sound_step w w1" "w_projects w1 = w_projects w" using insert_documents_sound [OF w1] by auto
  then have i1: "rp_project_id c \<in> project_ids w1" using assms(2) by (simp add: project_ids_def)
  have s2: "sound_step w1 w2" "w_projects w2 = w_projects w1" using insert_assets_sound [OF w2 i1] by auto
  then have i2: "rp_project_id c \<in> project_ids w2" using i1 by (simp add: project_ids_def)
  show ?thesis by (rule sound_trans [OF s1(1) sound_trans [OF s2(1) sound_insert_directories [OF w' i2]]])
qed

text \<open>The steps of a replacement that is not refused.\<close>

lemma replace_project_content_parts:
  assumes "replace_project_content fresh c w = Some (r, w')"
  obtains (refused) "w' = w" "\<And>ks v e. r \<noteq> Replaced ks v e"
  | (replaced) p w1 w2 w3 where "find_project (rp_project_id c) w = Some p"
    "case rp_expected_workspace_version c of None \<Rightarrow> True | Some v \<Rightarrow> v = pr_workspace_version p"
    "settings_ensure (rp_project_id c) (default_entry_file_path (pr_project_type p)) (default_latex_engine (pr_project_type p)) (rp_updated_at c) w = Some w1"
    "insert_content fresh c (delete_content (rp_project_id c) w1) = Some w2"
    "update_entry_file_path (rp_project_id c) (rp_entry_file_path c) (rp_updated_at c) w2 = Some w3"
    "w' = advance_generation (rp_project_id c) w3"
    "accepts_entry_file_path (pr_project_type p) (rp_entry_file_path c)"
    "list_ex (\<lambda>d. wd_path d = rp_entry_file_path c) (rp_documents c)"
    "r = Replaced (filter (\<lambda>k. \<not> starts_with ''inline://'' k)
       (map as_object_key (filter (\<lambda>a. as_project_id a = rp_project_id c) (w_assets w1))))
       (pr_workspace_version p + 1) (pr_content_epoch p + 1)"
proof (cases "find_project (rp_project_id c) w")
  case None
  with assms show ?thesis by (intro refused) (auto simp: replace_project_content_def)
next
  case (Some p)
  let ?stale = "case rp_expected_workspace_version c of None \<Rightarrow> False | Some v \<Rightarrow> v \<noteq> pr_workspace_version p"
  let ?bad = "\<not> accepts_entry_file_path (pr_project_type p) (rp_entry_file_path c)
                  \<or> \<not> list_ex (\<lambda>d. wd_path d = rp_entry_file_path c) (rp_documents c)"
  show ?thesis
  proof (cases "?stale \<or> ?bad")
    case True
    with assms Some show ?thesis by (intro refused) (auto simp: replace_project_content_def Let_def split: if_splits)
  next
    case False
    then have stale: "\<not> ?stale" and bad: "\<not> ?bad" by blast+
    have current: "case rp_expected_workspace_version c of None \<Rightarrow> True | Some v \<Rightarrow> v = pr_workspace_version p"
      using stale by (simp split: option.splits)
    show ?thesis
      using assms Some stale bad
      by (auto simp: replace_project_content_def Let_def simp del: not_None_eq split: option.split_asm
          intro: replaced [OF Some current])
  qed
qed

lemma sound_replace_project_content:
  assumes "replace_project_content fresh c w = Some (r, w')"
  shows "sound_step w w'"
  using assms
proof (cases rule: replace_project_content_parts)
  case (replaced p w1 w2 w3)
  have "rp_project_id c \<in> project_ids w" by (rule find_project_id [OF replaced(1)])
  then have "rp_project_id c \<in> project_ids (delete_content (rp_project_id c) w1)"
    using settings_statement_projects(2) [OF replaced(3)] by (simp add: project_ids_def delete_content_def)
  from sound_insert_content [OF replaced(4) this] show ?thesis
    using sound_settings_ensure [OF replaced(3)] sound_delete_content [of w1 "rp_project_id c"]
      sound_update_entry_file_path [OF replaced(5)] sound_advance_generation [of w3 "rp_project_id c"] sound_trans replaced(6) by metis
qed simp

section \<open>The operations\<close>

text \<open>Objects and their deletion queue are outside the database.\<close>

lemma cleanup_uncommitted_object_db [simp]: "ww_db (cleanup_uncommitted_object env key s) = ww_db s"
  by (simp add: cleanup_uncommitted_object_def)

lemma delete_queued_object_db [simp]: "ww_db (delete_queued_object env key s) = ww_db s"
  by (simp add: delete_queued_object_def)

lemma fold_delete_queued_db [simp]: "ww_db (fold (delete_queued_object env) keys s) = ww_db s"
  by (induction keys arbitrary: s) auto

lemma delete_queued_objects_now_db [simp]: "ww_db (delete_queued_objects_now env keys s) = ww_db s"
  by (simp add: delete_queued_objects_now_def)

lemma put_object_db: "put_object env key content s = Some s' \<Longrightarrow> ww_db s' = ww_db s"
  by (auto simp: put_object_def split: if_splits)

lemma cleanup_prepared_db [simp]: "ww_db (cleanup_prepared env f s) = ww_db s"
  by (simp add: cleanup_prepared_def split: prepared_file.split)

lemma prepare_file_db: "prepare_file env pid path kind content ct is_text actor s = (r, s') \<Longrightarrow> ww_db s' = ww_db s"
  by (auto simp: prepare_file_def prepare_empty_asset_def Let_def split: if_splits option.splits dest: put_object_db)

lemma cleanup_turn_db [simp]: "ww_db (cleanup_turn env locked later s) = ww_db s"
  by (simp add: cleanup_turn_def split: prod.split option.split)

lemma sound_dirty: "sound_step w w' \<Longrightarrow> sound_step w (mark_project_dirty pid actor guest w')"
  by (rule sound_trans [OF _ sound_mark_project_dirty])

lemma sound_delete_document_by_id: "delete_document_by_id pid i w = (n, w') \<Longrightarrow> sound_step w w'"
  by (auto simp: delete_document_by_id_def Let_def intro: sound_delete_documents)

lemma sound_delete_asset_by_id: "delete_asset_by_id pid i w = (n, w') \<Longrightarrow> sound_step w w'"
  by (auto simp: delete_asset_by_id_def Let_def intro: sound_delete_assets)

lemma sound_persist_prepared:
  assumes "persist_prepared env pid path f w = Some (changed, replaced, w')"
  shows "sound_step w w'"
proof (cases f)
  case Directory_prepared
  with assms show ?thesis by (auto intro: sound_insert_directory)
next
  case (Text_prepared content)
  then obtain d w1 where up: "document_upsert (sv_id env) pid path content (sv_now env) w = Some (d, w1)"
    and w': "w' = delete_asset_at_path pid path w1" using assms by (auto split: option.splits)
  show ?thesis
    unfolding w' delete_asset_at_path_def by (rule sound_trans [OF sound_document_upsert [OF up] sound_delete_assets])
next
  case (Asset_prepared a)
  then obtain d w1 where up: "asset_upsert a w = Some (d, w1)"
    and w': "w' = delete_document_at_path pid path w1" using assms by (auto split: option.splits)
  show ?thesis
    unfolding w' delete_document_at_path_def by (rule sound_trans [OF sound_asset_upsert [OF up] sound_delete_documents])
qed

lemma sound_follow_entry: "follow_entry pid pt m now w = Some w' \<Longrightarrow> sound_step w w'"
  unfolding follow_entry_def
  by (auto split: option.splits dest!: sound_settings_ensure sound_update_entry_file_path intro: sound_trans)

lemmas sound_statements =
  sound_document_insert sound_document_upsert sound_update_content sound_update_projected_content
  sound_delete_document_by_id sound_delete_asset_by_id sound_delete_subtree sound_move_subtree sound_asset_upsert
  sound_settings_ensure sound_update_entry_file_path sound_update_latex_engine sound_follow_entry
  sound_create_project_graph sound_replace_project_content sound_persist_prepared

datatype workspace_event =
    CreateProject "nat \<Rightarrow> uuid" create_graph
  | ReplaceContent "nat \<Rightarrow> uuid" replace_content
  | CreateDocument service_env uuid string string "uuid option" "string option"
  | UpsertDocument service_env uuid string string int "uuid option" "string option"
  | UpdateDocument service_env uuid uuid int int int string "uuid option" "string option"
  | ProjectContent uuid uuid int string instant
  | DeleteDocument uuid uuid "uuid option" "string option"
  | CreateFile service_env uuid string file_kind string string bool "uuid option" "string option"
  | DeleteFile service_env uuid string "uuid option" "string option"
  | MoveFile service_env uuid string string "uuid option" "string option"
  | UploadAsset service_env uuid string string bytes "uuid option" "string option"
  | DeleteAsset service_env uuid uuid "uuid option" "string option"
  | EnsureSettings uuid instant
  | ChangeSetting uuid setting_change uuid instant
  | CleanupTurn service_env "string \<Rightarrow> bool" instant

definition in_transaction :: "('a \<times> workspace_db) option \<Rightarrow> workspace_world \<Rightarrow> workspace_world" where
  "in_transaction r s = (case r of None \<Rightarrow> s | Some (_, w) \<Rightarrow> committed s w)"

fun workspace_step :: "workspace_event \<Rightarrow> workspace_world \<Rightarrow> workspace_world" where
  "workspace_step (CreateProject fresh g) s = in_transaction (map_option (Pair ()) (create_project_graph fresh g (ww_db s))) s"
| "workspace_step (ReplaceContent fresh c) s = in_transaction (replace_project_content fresh c (ww_db s)) s"
| "workspace_step (CreateDocument env pid path content actor guest) s = snd (create_document env pid path content actor guest s)"
| "workspace_step (UpsertDocument env pid path content epoch actor guest) s =
     snd (upsert_document_by_path env pid path content epoch actor guest s)"
| "workspace_step (UpdateDocument env pid i epoch pr cr content actor guest) s =
     snd (update_document env pid i epoch pr cr content actor guest s)"
| "workspace_step (ProjectContent pid i cr content now) s =
     in_transaction (update_projected_content pid i cr content now (ww_db s)) s"
| "workspace_step (DeleteDocument pid i actor guest) s = snd (delete_document pid i actor guest s)"
| "workspace_step (CreateFile env pid path kind content ct is_text actor guest) s =
     snd (create_project_file env pid path kind content ct is_text actor guest s)"
| "workspace_step (DeleteFile env pid path actor guest) s = snd (delete_project_file env pid path actor guest s)"
| "workspace_step (MoveFile env pid from to actor guest) s = snd (move_project_file env pid from to actor guest s)"
| "workspace_step (UploadAsset env pid path ct content actor guest) s =
     snd (upload_project_asset env pid path ct content actor guest s)"
| "workspace_step (DeleteAsset env pid i actor guest) s = snd (delete_project_asset env pid i actor guest s)"
| "workspace_step (EnsureSettings pid now) s = snd (get_or_create_project_settings pid now s)"
| "workspace_step (ChangeSetting pid change actor now) s = snd (change_project_setting pid change actor now s)"
| "workspace_step (CleanupTurn env locked later) s = cleanup_turn env locked later s"

lemma create_project_file_sound:
  "sound_step (ww_db s) (ww_db (snd (create_project_file env pid path kind content ct is_text actor guest s)))"
proof (cases "prepare_file env pid path kind content ct is_text actor s")
  case (Pair r s1)
  have db: "ww_db s1 = ww_db s" by (rule prepare_file_db [OF Pair])
  show ?thesis
  proof (cases r)
    case (Inl e)
    with Pair db show ?thesis by (simp add: create_project_file_def)
  next
    case (Inr f)
    with Pair db show ?thesis
      by (auto simp: create_project_file_def Let_def split: option.split dest!: sound_persist_prepared intro: sound_dirty)
  qed
qed

lemma move_project_file_sound: "sound_step (ww_db s) (ww_db (snd (move_project_file env pid from to actor guest s)))"
  by (auto simp: move_project_file_def Let_def split: option.split
      dest!: sound_move_subtree sound_follow_entry intro: sound_dirty sound_trans)

lemma change_project_setting_sound: "sound_step (ww_db s) (ww_db (snd (change_project_setting pid change actor now s)))"
proof (cases change)
  case (EntryFilePath e)
  then show ?thesis
    by (auto simp: change_project_setting_def Let_def split: option.split
      dest!: sound_settings_ensure sound_update_entry_file_path intro!: sound_dirty intro: sound_trans)
next
  case (LatexEngine e)
  then show ?thesis
    by (auto simp: change_project_setting_def Let_def split: option.split
      dest!: sound_settings_ensure sound_update_latex_engine intro!: sound_dirty intro: sound_trans)
qed

text \<open>The states of an upload: refused, stored and cleaned up, or committed.\<close>

lemma upload_project_asset_cases:
  fixes env pid path ct content actor guest s
  defines "a \<equiv> uploaded_asset env pid path ct content actor"
  obtains (large) "i64_max < int (length content)" "upload_project_asset env pid path ct content actor guest s = (Inl PayloadTooLarge, s)"
  | (unstored) "upload_project_asset env pid path ct content actor guest s =
      (Inl Storage_file, cleanup_uncommitted_object env (as_object_key a) s)"
  | (rejected) s1 where "(if sv_storage env then put_object env (as_object_key a) content s else Some s) = Some s1" "ww_db s1 = ww_db s"
      "upload_project_asset env pid path ct content actor guest s =
        (Inl Persistence_file, cleanup_uncommitted_object env (as_object_key a) s1)"
  | (committed) s1 r w where "(if sv_storage env then put_object env (as_object_key a) content s else Some s) = Some s1" "ww_db s1 = ww_db s"
      "asset_upsert a (ww_db s) = Some (r, w)"
      "upload_project_asset env pid path ct content actor guest s =
        (Inr r, delete_queued_objects_now env (filter (\<lambda>k. k \<noteq> as_object_key a) (asset_keys_at pid path (ww_db s)))
          (s1\<lparr>ww_db := mark_project_dirty pid actor guest w,
              ww_queue := enqueue_object_deletions (sv_now env)
                (filter (\<lambda>k. k \<noteq> as_object_key a) (asset_keys_at pid path (ww_db s))) (ww_queue s1)\<rparr>))"
proof (cases "i64_max < int (length content)")
  case True
  then show ?thesis by (intro large) (simp_all add: upload_project_asset_def Let_def)
next
  case small: False
  show ?thesis
  proof (cases "if sv_storage env then put_object env (as_object_key a) content s else Some s")
    case None
    with small show ?thesis
      unfolding a_def by (intro unstored [unfolded a_def]) (simp add: upload_project_asset_def Let_def split del: if_split)
  next
    case (Some s1)
    have db: "ww_db s1 = ww_db s" using Some by (auto split: if_splits dest: put_object_db)
    show ?thesis
    proof (cases "asset_upsert a (ww_db s)")
      case None
      with small Some db show ?thesis
        unfolding a_def by (intro rejected [unfolded a_def]) (simp_all add: upload_project_asset_def Let_def split del: if_split)
    next
      case up: (Some rw)
      with small Some db show ?thesis
        unfolding a_def
        by (intro committed [unfolded a_def, of s1 "fst rw" "snd rw"])
          (simp_all add: upload_project_asset_def Let_def split_beta split del: if_split)
    qed
  qed
qed

lemma upload_project_asset_sound:
  "sound_step (ww_db s) (ww_db (snd (upload_project_asset env pid path ct content actor guest s)))"
  by (cases rule: upload_project_asset_cases [of content env pid path ct actor guest s])
    (auto intro: sound_dirty sound_asset_upsert)

lemma workspace_step_sound: "sound_step (ww_db s) (ww_db (workspace_step e s))"
proof (cases e)
  case (CreateFile env pid path kind content ct is_text actor guest)
  then show ?thesis by (simp add: create_project_file_sound)
next
  case (MoveFile env pid source target actor guest)
  then show ?thesis by (simp add: move_project_file_sound)
next
  case (ChangeSetting pid change actor now)
  then show ?thesis by (simp add: change_project_setting_sound)
next
  case (UploadAsset env pid path ct content actor guest)
  then show ?thesis by (simp add: upload_project_asset_sound)
qed (auto simp: in_transaction_def op_defs Let_def split: option.split content_epoch_match.split prod.split
      dest: sound_statements intro!: sound_dirty)

definition empty_world :: workspace_world where
  "empty_world = \<lparr>ww_db = empty_workspace, ww_objects = Map.empty, ww_queue = []\<rparr>"

interpretation ws: transition_system workspace_step empty_world "\<lambda>s. workspace_inv (ww_db s)"
proof
  show "workspace_inv (ww_db empty_world)" by (simp add: empty_world_def empty_workspace_inv)
  show "workspace_inv (ww_db s) \<Longrightarrow> workspace_inv (ww_db (workspace_step e s))" for s e
    using workspace_step_sound [of s e] by (simp add: sound_step_def)
qed

text \<open>Along every run, a document with an old change sequence is an old document.\<close>

lemma workspace_run_evolves:
  "workspace_inv (ww_db s) \<Longrightarrow> evolves (ww_db s) (ww_db (run_events workspace_step es s))"
  by (rule ws.run_relation [of "\<lambda>a b. evolves (ww_db a) (ww_db b)"])
    (use workspace_step_sound in \<open>auto simp: sound_step_def intro: evolves_trans\<close>)

end
