(* ===== verification/Workspace_Tree.thy ===== *)
theory Workspace_Tree
  imports Workspace_Invariant
begin

text \<open>
  The file tree of a project as the user sees it: which document or asset is at which path and which
  directories there are. The operations on subtrees, written in SQL, implement renaming and removal
  in this tree, and the renaming of the entry file, written in Rust, is the one of the SQL.
\<close>

section \<open>The SQL tests are the Rust tests\<close>

lemma in_subtree_iff: "path_is_in_subtree path root \<longleftrightarrow> path = root \<or> (\<exists>r. path = root @ ''/'' @ r)"
  by (auto simp: path_is_in_subtree_def starts_with_iff split: option.split)

lemma sql_in_subtree_iff: "sql_in_subtree path root \<longleftrightarrow> path_is_in_subtree path root"
proof
  assume "sql_in_subtree path root"
  then consider "path = root" | "take (length root + 1) path = root @ ''/''" by (auto simp: sql_in_subtree_def)
  then show "path_is_in_subtree path root"
  proof cases
    case 2
    then have "path = (root @ ''/'') @ drop (length root + 1) path" by (metis append_take_drop_id)
    then obtain r where "path = root @ ''/'' @ r" by (metis append.assoc)
    then show ?thesis by (simp add: path_is_in_subtree_def starts_with_iff)
  qed (simp add: path_is_in_subtree_def)
next
  assume "path_is_in_subtree path root"
  then consider "path = root" | r where "path = root @ ''/'' @ r"
    by (auto simp: path_is_in_subtree_def starts_with_iff split: option.splits)
  then show "sql_in_subtree path root" by cases (auto simp: sql_in_subtree_def)
qed

lemma sql_moved_iff:
  "move_path_with_subtree path source target =
     (if sql_in_subtree path source then Some (sql_moved source target path) else None)"
proof -
  consider "path = source" | r where "path = source @ ''/'' @ r" "path \<noteq> source" | "\<not> path_is_in_subtree path source"
    by (auto simp: in_subtree_iff)
  then show ?thesis
  proof cases
    case 3
    then show ?thesis
      unfolding sql_in_subtree_iff
      by (auto simp: move_path_with_subtree_def path_is_in_subtree_def split: option.splits)
  qed (auto simp: move_path_with_subtree_def sql_in_subtree_iff path_is_in_subtree_def sql_moved_def starts_with_iff)
qed

lemma sql_moved_subtree:
  assumes "path_is_in_subtree path source"
  shows "path_is_in_subtree (sql_moved source target path) target"
    and "source @ drop (length target) (sql_moved source target path) = path"
proof -
  from assms consider "path = source" | r where "path = source @ ''/'' @ r" "path \<noteq> source"
    by (auto simp: path_is_in_subtree_def starts_with_iff split: option.splits)
  then show "path_is_in_subtree (sql_moved source target path) target"
    and "source @ drop (length target) (sql_moved source target path) = path"
    by (cases; auto simp: sql_moved_def path_is_in_subtree_def starts_with_iff)+
qed

lemma sql_moved_back:
  assumes "path_is_in_subtree p target"
  shows "path_is_in_subtree (source @ drop (length target) p) source"
    and "sql_moved source target (source @ drop (length target) p) = p"
proof -
  from assms consider "p = target" | r where "p = target @ ''/'' @ r"
    by (auto simp: path_is_in_subtree_def starts_with_iff split: option.splits)
  then show "path_is_in_subtree (source @ drop (length target) p) source"
    and "sql_moved source target (source @ drop (length target) p) = p"
    by (cases; auto simp: sql_moved_def path_is_in_subtree_def starts_with_iff)+
qed

section \<open>Trees\<close>

text \<open>What a table with the key (project, path) holds for a project.\<close>

definition rows_at :: "('r \<Rightarrow> uuid) \<Rightarrow> ('r \<Rightarrow> string) \<Rightarrow> ('r \<Rightarrow> 'v) \<Rightarrow> uuid \<Rightarrow> 'r list \<Rightarrow> string \<rightharpoonup> 'v" where
  "rows_at proj path val pid t = (\<lambda>p. map_option val (find (\<lambda>r. proj r = pid \<and> path r = p) t))"

record project_tree =
  tr_documents :: "string \<rightharpoonup> uuid \<times> string"
  tr_assets :: "string \<rightharpoonup> uuid \<times> string"
  tr_directories :: "string \<rightharpoonup> unit"

definition project_tree :: "uuid \<Rightarrow> workspace_db \<Rightarrow> project_tree" where
  "project_tree pid w =
     \<lparr>tr_documents = rows_at dc_project_id dc_path (\<lambda>d. (dc_id d, dc_content d)) pid (w_documents w),
      tr_assets = rows_at as_project_id as_path (\<lambda>a. (as_id a, as_object_key a)) pid (w_assets w),
      tr_directories = rows_at dr_project_id dr_path (\<lambda>_. ()) pid (w_directories w)\<rparr>"

definition rename_in :: "string \<Rightarrow> string \<Rightarrow> (string \<rightharpoonup> 'v) \<Rightarrow> string \<rightharpoonup> 'v" where
  "rename_in source target t =
     (\<lambda>p. case (if path_is_in_subtree p target then t (source @ drop (length target) p) else None) of
            Some v \<Rightarrow> Some v
          | None \<Rightarrow> if path_is_in_subtree p source then None else t p)"

definition remove_in :: "string \<Rightarrow> (string \<rightharpoonup> 'v) \<Rightarrow> string \<rightharpoonup> 'v" where
  "remove_in root t = (\<lambda>p. if path_is_in_subtree p root then None else t p)"

definition rename_tree :: "string \<Rightarrow> string \<Rightarrow> project_tree \<Rightarrow> project_tree" where
  "rename_tree source target t =
     \<lparr>tr_documents = rename_in source target (tr_documents t), tr_assets = rename_in source target (tr_assets t),
      tr_directories = rename_in source target (tr_directories t)\<rparr>"

definition remove_tree :: "string \<Rightarrow> project_tree \<Rightarrow> project_tree" where
  "remove_tree root t =
     \<lparr>tr_documents = remove_in root (tr_documents t), tr_assets = remove_in root (tr_assets t),
      tr_directories = remove_in root (tr_directories t)\<rparr>"

lemma rows_at_Some:
  assumes "distinct (map (\<lambda>r. (proj r, path r)) t)"
  shows "rows_at proj path val pid t p = Some v \<longleftrightarrow> (\<exists>r \<in> set t. proj r = pid \<and> path r = p \<and> val r = v)"
proof
  assume "rows_at proj path val pid t p = Some v"
  then show "\<exists>r \<in> set t. proj r = pid \<and> path r = p \<and> val r = v"
    by (auto simp: rows_at_def dest!: find_Some_set)
next
  assume "\<exists>r \<in> set t. proj r = pid \<and> path r = p \<and> val r = v"
  then obtain r where r: "r \<in> set t" "proj r = pid" "path r = p" "val r = v" by blast
  have "find (\<lambda>x. (proj x, path x) = (proj r, path r)) t = Some r" by (rule find_key [OF assms r(1)])
  with r show "rows_at proj path val pid t p = Some v" by (simp add: rows_at_def)
qed

lemma rows_at_ext:
  assumes "distinct (map (\<lambda>r. (proj r, path r)) t)"
    and "\<And>p v. m p = Some v \<longleftrightarrow> (\<exists>r \<in> set t. proj r = pid \<and> path r = p \<and> val r = v)"
  shows "rows_at proj path val pid t = m"
proof
  fix p
  show "rows_at proj path val pid t p = m p"
    using rows_at_Some [OF assms(1), where val = val and pid = pid and p = p] assms(2) [of p] by (metis option.exhaust)
qed

lemma rows_at_delete:
  assumes "distinct (map (\<lambda>r. (proj r, path r)) t)"
  shows "rows_at proj path val pid (delete_where (\<lambda>r. proj r = pid \<and> sql_in_subtree (path r) root) t) =
         remove_in root (rows_at proj path val pid t)"
  by (rule rows_at_ext)
    (use assms in \<open>auto simp: remove_in_def rows_at_Some sql_in_subtree_iff intro: distinct_map_delete_where\<close>)

lemma rows_at_other:
  assumes "\<And>r. proj (f r) = proj r" and "pid \<noteq> pid'"
  shows "rows_at proj path val pid' (update_where (\<lambda>r. proj r = pid \<and> Q r) f t) = rows_at proj path val pid' t"
proof
  fix p
  show "rows_at proj path val pid' (update_where (\<lambda>r. proj r = pid \<and> Q r) f t) p = rows_at proj path val pid' t p"
    using assms by (induction t) (auto simp: rows_at_def update_where_def)
qed

lemma rows_at_delete_other:
  assumes "pid' \<noteq> pid"
  shows "rows_at proj path val pid' (delete_where (\<lambda>r. proj r = pid \<and> Q r) t) = rows_at proj path val pid' t"
proof
  fix p
  show "rows_at proj path val pid' (delete_where (\<lambda>r. proj r = pid \<and> Q r) t) p = rows_at proj path val pid' t p"
    using assms by (induction t) (auto simp: rows_at_def delete_where_def)
qed

lemma bex_updated_rows: "(\<exists>x \<in> set (update_where P f t). Q x) \<longleftrightarrow> (\<exists>x \<in> set t. if P x then Q (f x) else Q x)"
  unfolding update_where_def by (induction t) auto

lemma rows_at_move:
  assumes keys: "distinct (map (\<lambda>r. (proj r, path r)) t)" "distinct (map (\<lambda>r. (proj r, path r)) t')"
    and t': "t' = update_where (\<lambda>r. proj r = pid \<and> sql_in_subtree (path r) source) f t"
    and f: "\<And>r. proj (f r) = proj r" "\<And>r. path (f r) = sql_moved source target (path r)" "\<And>r. val (f r) = val r"
  shows "rows_at proj path val pid t' = rename_in source target (rows_at proj path val pid t)"
proof (rule rows_at_ext [OF keys(2)])
  fix p v
  let ?old = "rows_at proj path val pid t"
  have new: "(\<exists>r \<in> set t'. proj r = pid \<and> path r = p \<and> val r = v) \<longleftrightarrow>
      (\<exists>r \<in> set t. proj r = pid \<and> val r = v \<and>
         (if path_is_in_subtree (path r) source then sql_moved source target (path r) = p else path r = p))"
    unfolding t' sql_in_subtree_iff bex_updated_rows by (rule bex_cong) (auto simp: f)
  have moved: "(path_is_in_subtree p target \<and> ?old (source @ drop (length target) p) = Some v) \<longleftrightarrow>
      (\<exists>r \<in> set t. proj r = pid \<and> val r = v \<and> path_is_in_subtree (path r) source \<and> sql_moved source target (path r) = p)"
    unfolding rows_at_Some [OF keys(1)] using sql_moved_subtree sql_moved_back by metis
  have stay: "(\<not> path_is_in_subtree p source \<and> ?old p = Some v) \<longleftrightarrow>
      (\<exists>r \<in> set t. proj r = pid \<and> val r = v \<and> \<not> path_is_in_subtree (path r) source \<and> path r = p)"
    unfolding rows_at_Some [OF keys(1)] by auto
  show "rename_in source target ?old p = Some v \<longleftrightarrow> (\<exists>r \<in> set t'. proj r = pid \<and> path r = p \<and> val r = v)"
  proof (cases "\<exists>u. path_is_in_subtree p target \<and> ?old (source @ drop (length target) p) = Some u")
    case True
    then obtain u where u: "path_is_in_subtree p target" "?old (source @ drop (length target) p) = Some u" by blast
    then obtain r where r: "r \<in> set t" "proj r = pid" "path_is_in_subtree (path r) source" "sql_moved source target (path r) = p"
      unfolding rows_at_Some [OF keys(1)] using sql_moved_back by metis
    let ?g = "\<lambda>r. if proj r = pid \<and> sql_in_subtree (path r) source then f r else r"
    have inj: "distinct (map (\<lambda>r. (proj (?g r), path (?g r))) t)"
      using keys(2) unfolding t' by (simp add: update_where_def comp_def)
    have alone: "False" if "x \<in> set t" "proj x = pid" "\<not> path_is_in_subtree (path x) source" "path x = p" for x
      using key_unique [OF inj that(1) r(1)] that r by (simp add: sql_in_subtree_iff f)
    then have "(\<exists>r \<in> set t'. proj r = pid \<and> path r = p \<and> val r = v) \<longleftrightarrow>
        path_is_in_subtree p target \<and> ?old (source @ drop (length target) p) = Some v"
      unfolding new moved by (metis (full_types))
    then show ?thesis using u by (simp add: rename_in_def)
  next
    case False
    then show ?thesis unfolding new using moved stay by (auto simp: rename_in_def split: option.split)
  qed
qed

text \<open>The rows at a path depend only on the key and the value of the rows.\<close>

lemma rows_at_map:
  "map (\<lambda>r. (proj r, path r, val r)) t = map (\<lambda>r. (proj r, path r, val r)) t' \<Longrightarrow>
   rows_at proj path val pid t = rows_at proj path val pid t'"
proof (induction t arbitrary: t')
  case Nil
  then show ?case by simp
next
  case (Cons r t)
  then obtain r' s where t': "t' = r' # s" by (cases t') auto
  with Cons.prems Cons.IH [of s] have "rows_at proj path val pid t = rows_at proj path val pid s" by simp
  then have "\<And>p. rows_at proj path val pid t p = rows_at proj path val pid s p" by simp
  with Cons.prems show ?case by (auto simp: t' rows_at_def)
qed

section \<open>Refinement\<close>

lemma move_subtree_refines:
  assumes inv: "workspace_inv w" and "move_subtree pid source target now w = Some (counts, w')"
  shows "project_tree pid w' = rename_tree source target (project_tree pid w)"
    and "pid' \<noteq> pid \<Longrightarrow> project_tree pid' w' = project_tree pid' w"
proof -
  let ?P = "\<lambda>d. dr_project_id d = pid \<and> sql_in_subtree (dr_path d) source"
  let ?Q = "\<lambda>d. dc_project_id d = pid \<and> sql_in_subtree (dc_path d) source"
  let ?R = "\<lambda>a. as_project_id a = pid \<and> sql_in_subtree (as_path a) source"
  let ?f = "\<lambda>n d. d\<lparr>dc_path := sql_moved source target (dc_path d), dc_path_revision := dc_path_revision d + 1,
                      dc_change_sequence := n, dc_updated_at := now\<rparr>"
  obtain ds dt as docs n where
    ds: "update_unique ?P (\<lambda>d. d\<lparr>dr_path := sql_moved source target (dr_path d)\<rparr>) directory_conflict [] (w_directories w) = Some ds"
    and dt: "update_unique ?Q (\<lambda>d. d\<lparr>dc_path := sql_moved source target (dc_path d)\<rparr>) document_conflict [] (w_documents w) = Some dt"
    and as: "update_unique ?R (\<lambda>a. a\<lparr>as_path := sql_moved source target (as_path a)\<rparr>) asset_conflict [] (w_assets w) = Some as"
    and docs: "update_numbered ?Q ?f (w_next_sequence w) (w_documents w) = (docs, n)"
    and w': "w' = w\<lparr>w_directories := ds, w_documents := docs, w_assets := as, w_next_sequence := n\<rparr>"
    using assms(2) by (auto simp: move_subtree_def Let_def split: option.splits prod.splits)
  have inv': "workspace_inv w'" using sound_move_subtree [OF assms(2)] inv by (simp add: sound_step_def)
  have old: "distinct (map (\<lambda>d. (dr_project_id d, dr_path d)) (w_directories w))"
    "distinct (map (\<lambda>d. (dc_project_id d, dc_path d)) (w_documents w))"
    "distinct (map (\<lambda>a. (as_project_id a, as_path a)) (w_assets w))"
    using inv by (simp_all add: workspace_inv_def table_ok_defs)
  have new: "distinct (map (\<lambda>d. (dr_project_id d, dr_path d)) ds)" "distinct (map (\<lambda>a. (as_project_id a, as_path a)) as)"
    using inv' by (simp_all add: w' workspace_inv_def table_ok_defs)
  have dt': "dt = update_where ?Q (\<lambda>d. d\<lparr>dc_path := sql_moved source target (dc_path d)\<rparr>) (w_documents w)"
    using update_unique_Some [OF dt] by simp
  have newd: "distinct (map (\<lambda>d. (dc_project_id d, dc_path d)) dt)"
    using old(2) by (intro update_unique_distinct [OF dt]) (auto simp: document_conflict_def)
  have docs_dt: "rows_at dc_project_id dc_path (\<lambda>d. (dc_id d, dc_content d)) q docs =
      rows_at dc_project_id dc_path (\<lambda>d. (dc_id d, dc_content d)) q dt" for q
    unfolding dt' by (intro rows_at_map update_numbered_map [OF docs]) simp
  show "project_tree pid w' = rename_tree source target (project_tree pid w)"
    using rows_at_move [OF old(1) new(1), of pid source, OF _ _ _, where val = "\<lambda>_. ()" and target = target]
      rows_at_move [OF old(2) newd dt', where val = "\<lambda>d. (dc_id d, dc_content d)" and target = target]
      rows_at_move [OF old(3) new(2), of pid source, where val = "\<lambda>a. (as_id a, as_object_key a)" and target = target]
      update_unique_Some [OF ds] update_unique_Some [OF as]
    by (simp add: project_tree_def rename_tree_def w' docs_dt)
  show "project_tree pid' w' = project_tree pid' w" if "pid' \<noteq> pid"
    using that update_unique_Some [OF ds] update_unique_Some [OF as]
    by (simp add: project_tree_def w' docs_dt dt' rows_at_other)
qed

lemma delete_subtree_refines:
  assumes "workspace_inv w" and "delete_subtree pid root w = (counts, keys, w')"
  shows "project_tree pid w' = remove_tree root (project_tree pid w)"
    and "pid' \<noteq> pid \<Longrightarrow> project_tree pid' w' = project_tree pid' w"
proof -
  have old: "distinct (map (\<lambda>d. (dr_project_id d, dr_path d)) (w_directories w))"
    "distinct (map (\<lambda>d. (dc_project_id d, dc_path d)) (w_documents w))"
    "distinct (map (\<lambda>a. (as_project_id a, as_path a)) (w_assets w))"
    using assms(1) by (simp_all add: workspace_inv_def table_ok_defs)
  show "project_tree pid w' = remove_tree root (project_tree pid w)"
    using assms(2) rows_at_delete [OF old(1)] rows_at_delete [OF old(2)] rows_at_delete [OF old(3)]
    by (auto simp: delete_subtree_def Let_def project_tree_def remove_tree_def)
  show "project_tree pid' w' = project_tree pid' w" if "pid' \<noteq> pid"
    using assms(2) that by (auto simp: delete_subtree_def Let_def project_tree_def rows_at_delete_other)
qed

end
