(* ===== verification/Workspace_Entry.thy ===== *)
theory Workspace_Entry
  imports Workspace_Tree
begin

text \<open>
  The entry file of a project: what each statement does to the entry point and to the set of document
  paths, and that no operation leaves a project whose entry file is not one of its documents.
\<close>

definition doc_paths :: "uuid \<Rightarrow> workspace_db \<Rightarrow> string set" where
  "doc_paths pid w = dc_path ` {d \<in> set (w_documents w). dc_project_id d = pid}"

definition entry_ok :: "uuid \<Rightarrow> workspace_db \<Rightarrow> bool" where
  "entry_ok pid w \<longleftrightarrow>
     (case find_project_entry_point pid w of
        None \<Rightarrow> False
      | Some e \<Rightarrow> accepts_entry_file_path (ep_project_type e) (ep_entry_file_path e) \<and>
                  document_exists pid (ep_entry_file_path e) w)"

lemma document_exists_paths: "document_exists pid path w \<longleftrightarrow> path \<in> doc_paths pid w"
  by (auto simp: document_exists_def doc_paths_def)

text \<open>A change that keeps the entry point and loses no document path, or not the one of the entry.\<close>

lemma entry_ok_kept:
  assumes "entry_ok pid w" and "find_project_entry_point pid w' = find_project_entry_point pid w"
    and "\<And>e. find_project_entry_point pid w = Some e \<Longrightarrow> ep_entry_file_path e \<in> doc_paths pid w \<Longrightarrow>
      accepts_entry_file_path (ep_project_type e) (ep_entry_file_path e) \<Longrightarrow> ep_entry_file_path e \<in> doc_paths pid w'"
  shows "entry_ok pid w'"
  using assms by (auto simp: entry_ok_def document_exists_paths split: option.splits)

section \<open>The entry point\<close>

lemma find_update_same:
  "(\<And>r. P (f r) = P r) \<Longrightarrow> find P (update_where Q f t) = map_option (\<lambda>r. if Q r then f r else r) (find P t)"
  by (induction t) (auto simp: update_where_def)

lemma entry_point_tables:
  "w_projects w' = w_projects w \<Longrightarrow> w_settings w' = w_settings w \<Longrightarrow>
   find_project_entry_point pid w' = find_project_entry_point pid w"
  by (simp add: find_project_entry_point_def find_project_def find_settings_def)

lemma entry_point_projects:
  assumes "\<And>p. pr_id (f p) = pr_id p" and "\<And>p. pr_project_type (f p) = pr_project_type p"
  shows "find_project_entry_point pid (w\<lparr>w_projects := update_where Q f (w_projects w)\<rparr>) = find_project_entry_point pid w"
proof -
  have "find (\<lambda>p. pr_id p = pid) (update_where Q f (w_projects w)) =
      map_option (\<lambda>p. if Q p then f p else p) (find (\<lambda>p. pr_id p = pid) (w_projects w))"
    by (rule find_update_same) (simp add: assms)
  then show ?thesis
    by (cases "find (\<lambda>p. pr_id p = pid) (w_projects w)")
      (auto simp: find_project_entry_point_def find_project_def find_settings_def assms split: option.split)
qed

lemma entry_point_dirty [simp]: "find_project_entry_point pid' (mark_project_dirty pid a g w) = find_project_entry_point pid' w"
proof -
  have "find_project_entry_point pid' (mark_project_dirty pid a g w) = find_project_entry_point pid' (advance_workspace_version pid w)"
    by (rule entry_point_tables) (simp_all add: mark_project_dirty_def Let_def)
  then show ?thesis by (simp add: advance_workspace_version_def entry_point_projects)
qed

lemma entry_point_generation [simp]: "find_project_entry_point pid' (advance_generation pid w) = find_project_entry_point pid' w"
  by (simp add: advance_generation_def entry_point_projects)

lemma doc_paths_tables: "w_documents w' = w_documents w \<Longrightarrow> doc_paths pid w' = doc_paths pid w"
  by (simp add: doc_paths_def)

lemma doc_paths_dirty [simp]: "doc_paths pid' (mark_project_dirty pid a g w) = doc_paths pid' w"
  by (simp add: doc_paths_def mark_project_dirty_def advance_workspace_version_def Let_def)

lemma doc_paths_generation [simp]: "doc_paths pid' (advance_generation pid w) = doc_paths pid' w"
  by (simp add: doc_paths_def advance_generation_def)

subsection \<open>Settings\<close>

lemma settings_statement_documents:
  "settings_insert pid entry engine now w = Some w' \<Longrightarrow> w_documents w' = w_documents w"
  "settings_ensure pid entry engine now w = Some w' \<Longrightarrow> w_documents w' = w_documents w"
  "update_entry_file_path pid entry now w = Some w' \<Longrightarrow> w_documents w' = w_documents w"
  "update_latex_engine pid tex now w = Some w' \<Longrightarrow> w_documents w' = w_documents w"
  by (auto simp: settings_insert_def settings_ensure_def update_entry_file_path_def update_latex_engine_def
      split: if_splits option.splits)

lemma find_settings_insert:
  "settings_insert pid entry engine now w = Some w' \<Longrightarrow> pid' \<noteq> pid \<Longrightarrow> find_settings pid' w' = find_settings pid' w"
proof -
  assume "settings_insert pid entry engine now w = Some w'" and n: "pid' \<noteq> pid"
  then have "w_settings w' = w_settings w @ [\<lparr>se_project_id = pid, se_entry_file_path = entry, se_latex_engine = engine, se_settings_revision = 0,
          se_updated_at = now\<rparr>]" by (auto simp: settings_insert_def split: if_splits)
  moreover have "find P (t @ [r]) = find P t" if "\<not> P r" for P t and r :: settings_row
    using that by (induction t) auto
  ultimately show ?thesis using n by (simp add: find_settings_def)
qed

lemma find_settings_inserted:
  "settings_insert pid entry engine now w = Some w' \<Longrightarrow>
   find_settings pid w' = Some \<lparr>se_project_id = pid, se_entry_file_path = entry, se_latex_engine = engine,
     se_settings_revision = 0, se_updated_at = now\<rparr>"
proof -
  assume "settings_insert pid entry engine now w = Some w'"
  then have none: "find_settings pid w = None" and w': "w' = w\<lparr>w_settings := w_settings w @ [\<lparr>se_project_id = pid,
      se_entry_file_path = entry, se_latex_engine = engine, se_settings_revision = 0, se_updated_at = now\<rparr>]\<rparr>"
    by (auto simp: settings_insert_def split: if_splits)
  moreover have "find P t = None \<Longrightarrow> P r \<Longrightarrow> find P (t @ [r]) = Some r" for P t and r :: settings_row
    by (induction t) auto
  ultimately show ?thesis by (simp add: find_settings_def)
qed

text \<open>The defaults that \<open>ensure\<close> inserts are the ones that hold without settings.\<close>

lemma entry_point_ensure:
  assumes "settings_ensure pid (default_entry_file_path (pr_project_type p)) engine now w = Some w'"
    and "find_project pid w = Some p"
  shows "find_project_entry_point pid' w' = find_project_entry_point pid' w"
proof (cases "find_settings pid w")
  case None
  then have ins: "settings_insert pid (default_entry_file_path (pr_project_type p)) engine now w = Some w'"
    using assms(1) by (simp add: settings_ensure_def)
  have projects: "find_project q w' = find_project q w" for q
    using settings_statement_projects(1) [OF ins] by (simp add: find_project_def)
  show ?thesis
  proof (cases "pid' = pid")
    case True
    then show ?thesis
      using None assms(2) find_settings_inserted [OF ins] by (simp add: find_project_entry_point_def projects)
  next
    case False
    then show ?thesis using find_settings_insert [OF ins False] by (simp add: find_project_entry_point_def projects)
  qed
next
  case (Some s)
  with assms(1) show ?thesis by (simp add: settings_ensure_def)
qed

lemma find_settings_update:
  assumes "\<And>s. se_project_id (f s) = se_project_id s"
  shows "find_settings pid' (w\<lparr>w_settings := update_where (\<lambda>s. se_project_id s = pid) f (w_settings w)\<rparr>) =
     (if pid' = pid then map_option f (find_settings pid' w) else find_settings pid' w)"
proof -
  have "find (\<lambda>s. se_project_id s = pid') (update_where (\<lambda>s. se_project_id s = pid) f (w_settings w)) =
      map_option (\<lambda>s. if se_project_id s = pid then f s else s) (find (\<lambda>s. se_project_id s = pid') (w_settings w))"
    by (rule find_update_same) (simp add: assms)
  then show ?thesis
    by (cases "find (\<lambda>s. se_project_id s = pid') (w_settings w)") (auto simp: find_settings_def dest: find_Some_set)
qed

lemma entry_point_update_entry:
  assumes "update_entry_file_path pid entry now w = Some w'"
  shows "find_project_entry_point pid w' = map_option (\<lambda>e. e\<lparr>ep_entry_file_path := entry\<rparr>) (find_project_entry_point pid w)"
    and "pid' \<noteq> pid \<Longrightarrow> find_project_entry_point pid' w' = find_project_entry_point pid' w"
proof -
  let ?f = "\<lambda>s. s\<lparr>se_entry_file_path := entry, se_settings_revision := se_settings_revision s + 1, se_updated_at := now\<rparr>"
  from assms obtain s where s: "find_settings pid w = Some s"
    and w': "w' = w\<lparr>w_settings := update_where (\<lambda>s. se_project_id s = pid) ?f (w_settings w)\<rparr>"
    by (auto simp: update_entry_file_path_def split: if_splits)
  have settings: "find_settings q w' = (if q = pid then map_option ?f (find_settings q w) else find_settings q w)" for q
    unfolding w' by (rule find_settings_update) simp
  have projects: "find_project q w' = find_project q w" for q by (simp add: w' find_project_def)
  show "find_project_entry_point pid w' = map_option (\<lambda>e. e\<lparr>ep_entry_file_path := entry\<rparr>) (find_project_entry_point pid w)"
    by (cases "find_project pid w") (simp_all add: find_project_entry_point_def settings projects s)
  show "find_project_entry_point pid' w' = find_project_entry_point pid' w" if "pid' \<noteq> pid"
    using that by (simp add: find_project_entry_point_def settings projects)
qed

lemma entry_point_update_engine:
  assumes "update_latex_engine pid tex now w = Some w'"
  shows "find_project_entry_point pid' w' = find_project_entry_point pid' w"
proof -
  let ?f = "\<lambda>s. s\<lparr>se_latex_engine := Some tex, se_settings_revision := se_settings_revision s + 1, se_updated_at := now\<rparr>"
  from assms have w': "w' = w\<lparr>w_settings := update_where (\<lambda>s. se_project_id s = pid) ?f (w_settings w)\<rparr>"
    by (auto simp: update_latex_engine_def split: if_splits)
  have "find_settings q w' = (if q = pid then map_option ?f (find_settings q w) else find_settings q w)" for q
    unfolding w' by (rule find_settings_update) simp
  moreover have "find_project q w' = find_project q w" for q by (simp add: w' find_project_def)
  ultimately show ?thesis
    by (cases "pid' = pid"; cases "find_settings pid w") (simp_all add: find_project_entry_point_def)
qed

section \<open>Statements on documents\<close>

text \<open>Statements that leave projects and settings alone and lose no path.\<close>

lemma document_insert_paths:
  "document_insert i pid path content now w = Some (d, w') \<Longrightarrow>
   w_projects w' = w_projects w \<and> w_settings w' = w_settings w \<and> doc_paths q w \<subseteq> doc_paths q w'"
  by (auto simp: document_insert_def Let_def doc_paths_def split: if_splits option.splits)

lemma update_where_paths:
  assumes "\<And>d. dc_project_id (f d) = dc_project_id d" "\<And>d. dc_path (f d) = dc_path d"
  shows "doc_paths q (w\<lparr>w_documents := update_where P f (w_documents w), w_next_sequence := n\<rparr>) = doc_paths q w"
proof -
  have "map (\<lambda>d. (dc_project_id d, dc_path d)) (update_where P f (w_documents w)) = map (\<lambda>d. (dc_project_id d, dc_path d)) (w_documents w)"
    by (rule map_update_where) (simp add: assms)
  then have "(\<lambda>d. (dc_project_id d, dc_path d)) ` set (update_where P f (w_documents w)) = (\<lambda>d. (dc_project_id d, dc_path d)) ` set (w_documents w)"
    by (metis list.set_map)
  moreover have "doc_paths q v = {p. (q, p) \<in> (\<lambda>d. (dc_project_id d, dc_path d)) ` set (w_documents v)}" for v
    by (auto simp: doc_paths_def)
  ultimately show ?thesis by simp
qed

lemma document_upsert_paths:
  "document_upsert i pid path content now w = Some (d, w') \<Longrightarrow>
   w_projects w' = w_projects w \<and> w_settings w' = w_settings w \<and> doc_paths q w \<subseteq> doc_paths q w'"
  by (auto simp: document_upsert_def update_where_paths split: option.splits dest: document_insert_paths [where q = q])

lemma update_content_paths:
  "update_content pid i pr cr content now w = Some (d, w') \<Longrightarrow>
   w_projects w' = w_projects w \<and> w_settings w' = w_settings w \<and> doc_paths q w \<subseteq> doc_paths q w'"
  by (auto simp: update_content_def Let_def update_where_paths split: option.splits)

lemma update_projected_content_paths:
  "update_projected_content pid i cr content now w = Some (d, w') \<Longrightarrow>
   w_projects w' = w_projects w \<and> w_settings w' = w_settings w \<and> doc_paths q w \<subseteq> doc_paths q w'"
  by (auto simp: update_projected_content_def Let_def update_where_paths split: option.splits)

lemma asset_upsert_tables:
  "asset_upsert a w = Some (r, w') \<Longrightarrow> w_projects w' = w_projects w \<and> w_settings w' = w_settings w \<and> w_documents w' = w_documents w"
  by (auto simp: asset_upsert_def Let_def split: if_splits option.splits)

lemma insert_directory_tables:
  "insert_directory pid path now w = Some (b, w') \<Longrightarrow>
   w_projects w' = w_projects w \<and> w_settings w' = w_settings w \<and> w_documents w' = w_documents w"
  by (auto simp: insert_directory_def Let_def split: if_splits option.splits)

lemma move_subtree_tables:
  "move_subtree pid source target now w = Some (c, w') \<Longrightarrow> w_projects w' = w_projects w \<and> w_settings w' = w_settings w"
  by (auto simp: move_subtree_def Let_def split: option.splits prod.splits)

text \<open>A change that keeps projects, settings and document paths keeps every entry file.\<close>

lemma entry_ok_paths:
  assumes "w_projects w' = w_projects w \<and> w_settings w' = w_settings w \<and> doc_paths q w \<subseteq> doc_paths q w'" and "entry_ok q w"
  shows "entry_ok q w'"
  by (rule entry_ok_kept [OF assms(2)]) (use assms(1) in \<open>auto intro: entry_point_tables\<close>)

lemma entry_ok_dirty [simp]: "entry_ok q (mark_project_dirty pid a g w) = entry_ok q w"
  by (simp add: entry_ok_def document_exists_paths split: option.split)

lemma entry_is_text: "accepts_entry_file_path pt path \<Longrightarrow> is_document_text_path path"
  by (cases pt) (auto simp: accepts_entry_file_path_def is_document_text_path_def document_text_extensions_def Let_def)

section \<open>The operations keep the entry file\<close>

lemma entry_ok_delete_document:
  assumes "workspace_inv (ww_db s)" and ok: "entry_ok q (ww_db s)"
  shows "entry_ok q (ww_db (snd (delete_document pid i actor guest s)))"
proof (cases "find (\<lambda>d. dc_project_id d = pid \<and> dc_id d = i) (w_documents (ww_db s))")
  case None
  with ok show ?thesis by (simp add: delete_document_def)
next
  case (Some d)
  then have d: "d \<in> set (w_documents (ww_db s))" "dc_project_id d = pid" "dc_id d = i" by (auto dest: find_Some_set)
  have ids: "distinct (map dc_id (w_documents (ww_db s)))" using assms(1) by (simp add: workspace_inv_def documents_ok_def)
  let ?w' = "(ww_db s)\<lparr>w_documents := delete_where (\<lambda>d. dc_project_id d = pid \<and> dc_id d = i) (w_documents (ww_db s))\<rparr>"
  show ?thesis
  proof (cases "\<exists>e. find_project_entry_point pid (ww_db s) = Some e \<and> ep_entry_file_path e = dc_path d")
    case True
    with Some ok show ?thesis by (auto simp: delete_document_def)
  next
    case False
    have "entry_ok q ?w'"
    proof (rule entry_ok_kept [OF ok])
      show "find_project_entry_point q ?w' = find_project_entry_point q (ww_db s)" by (rule entry_point_tables) simp_all
    next
      fix e assume e: "find_project_entry_point q (ww_db s) = Some e" and "ep_entry_file_path e \<in> doc_paths q (ww_db s)"
      then obtain x where x: "x \<in> set (w_documents (ww_db s))" "dc_project_id x = q" "dc_path x = ep_entry_file_path e"
        by (auto simp: doc_paths_def)
      have "\<not> (dc_project_id x = pid \<and> dc_id x = i)"
        using False e x d key_unique [OF ids x(1) d(1)] by auto
      with x show "ep_entry_file_path e \<in> doc_paths q ?w'" by (force simp: doc_paths_def)
    qed
    with ok Some show ?thesis by (auto simp: delete_document_def delete_document_by_id_def Let_def split: option.split)
  qed
qed

lemma entry_ok_delete_file:
  assumes ok: "entry_ok q (ww_db s)"
  shows "entry_ok q (ww_db (snd (delete_project_file env pid path actor guest s)))"
proof -
  obtain counts keys w' where del: "delete_subtree pid path (ww_db s) = (counts, keys, w')" by (cases "delete_subtree pid path (ww_db s)")
  let ?P = "\<lambda>d. dc_project_id d = pid \<and> sql_in_subtree (dc_path d) path"
  have tables: "w_projects w' = w_projects (ww_db s)" "w_settings w' = w_settings (ww_db s)"
    and docs: "w_documents w' = delete_where ?P (w_documents (ww_db s))"
    using del by (auto simp: delete_subtree_def Let_def)
  show ?thesis
  proof (cases "case find_project_entry_point pid (ww_db s) of None \<Rightarrow> False | Some e \<Rightarrow> path_is_in_subtree (ep_entry_file_path e) path")
    case True
    with ok show ?thesis by (simp add: delete_project_file_def)
  next
    case False
    have "entry_ok q w'"
    proof (rule entry_ok_kept [OF ok entry_point_tables [OF tables]])
      fix e assume e: "find_project_entry_point q (ww_db s) = Some e" and "ep_entry_file_path e \<in> doc_paths q (ww_db s)"
      then obtain x where x: "x \<in> set (w_documents (ww_db s))" "dc_project_id x = q" "dc_path x = ep_entry_file_path e"
        by (auto simp: doc_paths_def)
      have "\<not> ?P x" using False e x by (auto simp: sql_in_subtree_iff)
      with x docs show "ep_entry_file_path e \<in> doc_paths q w'" by (force simp: doc_paths_def)
    qed
    with False del show ?thesis by (simp add: delete_project_file_def Let_def)
  qed
qed

text \<open>The documents after a move: those of the subtree at the moved paths.\<close>

lemma move_subtree_paths:
  assumes "move_subtree pid source target now w = Some (counts, w')" and "p \<in> doc_paths q w"
  shows "(if q = pid \<and> path_is_in_subtree p source then sql_moved source target p else p) \<in> doc_paths q w'"
    and "q = pid \<Longrightarrow> path_is_in_subtree p source \<Longrightarrow> counts_changed counts"
proof -
  let ?Q = "\<lambda>d. dc_project_id d = pid \<and> sql_in_subtree (dc_path d) source"
  let ?f = "\<lambda>n d. d\<lparr>dc_path := sql_moved source target (dc_path d), dc_path_revision := dc_path_revision d + 1,
                      dc_change_sequence := n, dc_updated_at := now\<rparr>"
  let ?g = "\<lambda>d. d\<lparr>dc_path := sql_moved source target (dc_path d)\<rparr>"
  obtain docs n where docs: "update_numbered ?Q ?f (w_next_sequence w) (w_documents w) = (docs, n)" and w': "w_documents w' = docs"
    and c: "fc_documents counts = rows_affected ?Q (w_documents w)"
    using assms(1) by (auto simp: move_subtree_def Let_def split: option.splits prod.splits)
  obtain x where x: "x \<in> set (w_documents w)" "dc_project_id x = q" "dc_path x = p" using assms(2) by (auto simp: doc_paths_def)
  have "map (\<lambda>d. (dc_project_id d, dc_path d)) docs = map (\<lambda>d. (dc_project_id d, dc_path d)) (update_where ?Q ?g (w_documents w))"
    by (rule update_numbered_map [OF docs]) simp
  from arg_cong [OF this, of set]
  have keys: "(\<lambda>d. (dc_project_id d, dc_path d)) ` set docs = (\<lambda>d. (dc_project_id d, dc_path d)) ` set (update_where ?Q ?g (w_documents w))"
    by (simp only: set_map)
  have z: "(if ?Q x then ?g x else x) \<in> set (update_where ?Q ?g (w_documents w))" using x(1) unfolding in_update_where by blast
  have "(\<lambda>d. (dc_project_id d, dc_path d)) (if ?Q x then ?g x else x) \<in> (\<lambda>d. (dc_project_id d, dc_path d)) ` set docs"
    unfolding keys by (rule imageI [OF z])
  then obtain y where y: "y \<in> set docs" and k: "(dc_project_id (if ?Q x then ?g x else x), dc_path (if ?Q x then ?g x else x)) =
      (dc_project_id y, dc_path y)" by (rule imageE)
  have Qx: "?Q x \<longleftrightarrow> q = pid \<and> path_is_in_subtree p source" using x(2,3) by (simp add: sql_in_subtree_iff)
  from k have "dc_project_id y = dc_project_id (if ?Q x then ?g x else x)" "dc_path y = dc_path (if ?Q x then ?g x else x)"
    by (simp_all only: prod.inject)
  then have "dc_project_id y = q" "dc_path y = (if q = pid \<and> path_is_in_subtree p source then sql_moved source target p else p)"
    unfolding Qx using x(2,3) by simp_all
  with y show "(if q = pid \<and> path_is_in_subtree p source then sql_moved source target p else p) \<in> doc_paths q w'"
    unfolding doc_paths_def w' by (intro image_eqI [of _ _ y]) simp_all
  show "counts_changed counts" if "q = pid" "path_is_in_subtree p source"
    using x that c rows_affected_zero [of ?Q "w_documents w"] by (auto simp: counts_changed_def sql_in_subtree_iff)
qed

lemma entry_ok_move:
  assumes ok: "entry_ok q (ww_db s)"
  shows "entry_ok q (ww_db (snd (move_project_file env pid source target actor guest s)))"
proof -
  let ?w = "ww_db s"
  from ok obtain e where e: "find_project_entry_point q ?w = Some e" "accepts_entry_file_path (ep_project_type e) (ep_entry_file_path e)"
    and doc: "ep_entry_file_path e \<in> doc_paths q ?w"
    by (auto simp: entry_ok_def document_exists_paths split: option.splits)
  let ?moved = "case find_project_entry_point pid ?w of None \<Rightarrow> None
    | Some e \<Rightarrow> map_option (Pair (ep_project_type e)) (move_path_with_subtree (ep_entry_file_path e) source target)"
  show ?thesis
  proof (cases "move_subtree pid source target (sv_now env) ?w")
    case None
    with ok show ?thesis by (simp add: move_project_file_def Let_def)
  next
    case (Some r)
    then obtain counts w1 where mv: "move_subtree pid source target (sv_now env) ?w = Some (counts, w1)" by (cases r) auto
    have tables: "w_projects w1 = w_projects ?w" "w_settings w1 = w_settings ?w" using move_subtree_tables [OF mv] by auto
    have e1: "find_project_entry_point q' w1 = find_project_entry_point q' ?w" for q' by (rule entry_point_tables [OF tables])
    note there = move_subtree_paths(1) [OF mv doc] and changed = move_subtree_paths(2) [OF mv doc]
    have stays: "entry_ok q w1" if "\<not> (q = pid \<and> path_is_in_subtree (ep_entry_file_path e) source)"
      using that there e by (auto simp: entry_ok_def document_exists_paths e1 split: if_splits)
    have follows: "entry_ok q w2" if "follow_entry pid pt m (sv_now env) w1 = Some w2"
      and m: "find_project_entry_point pid ?w = Some e'" "pt = ep_project_type e'" "accepts_entry_file_path pt m"
        "move_path_with_subtree (ep_entry_file_path e') source target = Some m" for pt m w2 e'
    proof -
      from that(1) obtain w3 where w3: "settings_ensure pid (default_entry_file_path pt) (default_latex_engine pt) (sv_now env) w1 = Some w3"
        and w2: "update_entry_file_path pid m (sv_now env) w3 = Some w2" by (auto simp: follow_entry_def split: option.splits)
      from m e1 [of pid] obtain p where p: "find_project pid w1 = Some p" "pt = pr_project_type p"
        by (auto simp: find_project_entry_point_def)
      have e3: "find_project_entry_point q' w3 = find_project_entry_point q' ?w" for q'
        using entry_point_ensure [of pid p _ _ w1 w3 q'] w3 p e1 by simp
      have docs: "doc_paths q w2 = doc_paths q w1"
        using settings_statement_documents(2) [OF w3] settings_statement_documents(3) [OF w2] by (simp add: doc_paths_def)
      show ?thesis
      proof (cases "q = pid")
        case True
        then have "e' = e" using m e by simp
        then have "path_is_in_subtree (ep_entry_file_path e) source" "m = sql_moved source target (ep_entry_file_path e)"
          using m(4) by (auto simp: sql_moved_iff sql_in_subtree_iff split: if_splits)
        with there True docs have "m \<in> doc_paths q w2" by simp
        then show ?thesis
          using entry_point_update_entry(1) [OF w2] e3 e True m \<open>e' = e\<close> by (simp add: entry_ok_def document_exists_paths)
      next
        case False
        then show ?thesis
          using entry_point_update_entry(2) [OF w2 False] e3 e there by (simp add: entry_ok_def document_exists_paths docs)
      qed
    qed
    consider "?moved = None" | e' m where "find_project_entry_point pid ?w = Some e'"
      "move_path_with_subtree (ep_entry_file_path e') source target = Some m"
      by (cases "find_project_entry_point pid ?w"; cases "move_path_with_subtree (ep_entry_file_path (the (find_project_entry_point pid ?w))) source target")
        auto
    then show ?thesis
    proof cases
      case 1
      then have "\<not> (q = pid \<and> path_is_in_subtree (ep_entry_file_path e) source)"
        using e by (auto simp: sql_moved_iff sql_in_subtree_iff split: option.splits if_splits)
      with 1 mv stays show ?thesis by (simp add: move_project_file_def Let_def)
    next
      case (2 e' m)
      show ?thesis
      proof (cases "counts_changed counts")
        case False
        then have "entry_ok q w1" using stays changed by blast
        with 2 False mv ok show ?thesis by (simp add: move_project_file_def Let_def)
      next
        case True
        with 2 mv ok follows [of "ep_project_type e'" m _ e'] show ?thesis
          by (auto simp: move_project_file_def Let_def split: option.split)
      qed
    qed
  qed
qed

lemma entry_ok_persist:
  assumes "persist_prepared env pid path f w = Some (changed, replaced, w')" and ok: "entry_ok q w"
    and "\<And>a. f = Asset_prepared a \<Longrightarrow> \<not> is_document_text_path path"
  shows "entry_ok q w'"
proof (cases f)
  case Directory_prepared
  then obtain b where ins: "insert_directory pid path (sv_now env) w = Some (b, w')" using assms(1) by auto
  show ?thesis
    by (rule entry_ok_paths [OF _ ok]) (use insert_directory_tables [OF ins] doc_paths_tables [of w' w q] in simp)
next
  case (Text_prepared content)
  then obtain d w1 where up: "document_upsert (sv_id env) pid path content (sv_now env) w = Some (d, w1)"
    and w': "w' = delete_asset_at_path pid path w1" using assms(1) by (auto split: option.splits)
  have "doc_paths q w' = doc_paths q w1" by (simp add: w' delete_asset_at_path_def doc_paths_def)
  then show ?thesis
    by (intro entry_ok_paths [OF _ ok]) (use document_upsert_paths [OF up, of q] in \<open>simp add: w' delete_asset_at_path_def\<close>)
next
  case (Asset_prepared a)
  then obtain d w1 where up: "asset_upsert a w = Some (d, w1)"
    and w': "w' = delete_document_at_path pid path w1" using assms(1) by (auto split: option.splits)
  have tables: "w_projects w' = w_projects w" "w_settings w' = w_settings w" "w_documents w1 = w_documents w"
    using asset_upsert_tables [OF up] by (simp_all add: w' delete_document_at_path_def)
  show ?thesis
  proof (rule entry_ok_kept [OF ok entry_point_tables [OF tables(1,2)]])
    fix e assume "ep_entry_file_path e \<in> doc_paths q w" "accepts_entry_file_path (ep_project_type e) (ep_entry_file_path e)"
    moreover from this have "ep_entry_file_path e \<noteq> path" using entry_is_text assms(3) [OF Asset_prepared] by blast
    ultimately show "ep_entry_file_path e \<in> doc_paths q w'"
      by (force simp: doc_paths_def w' delete_document_at_path_def tables(3))
  qed
qed

lemma entry_ok_create_file:
  assumes ok: "entry_ok q (ww_db s)"
  shows "entry_ok q (ww_db (snd (create_project_file env pid path kind content ct (is_document_text_path path) actor guest s)))"
proof (cases "prepare_file env pid path kind content ct (is_document_text_path path) actor s")
  case (Pair r s1)
  have db: "ww_db s1 = ww_db s" by (rule prepare_file_db [OF Pair])
  show ?thesis
  proof (cases r)
    case (Inl e)
    with Pair db ok show ?thesis by (simp add: create_project_file_def)
  next
    case (Inr f)
    have "\<not> is_document_text_path path" if "f = Asset_prepared a" for a
      using Pair Inr that by (auto simp: prepare_file_def split: if_splits)
    with Pair Inr db ok show ?thesis
      by (auto simp: create_project_file_def Let_def split: option.split dest!: entry_ok_persist)
  qed
qed

lemma entry_ok_change_setting:
  assumes ok: "entry_ok q (ww_db s)"
  shows "entry_ok q (ww_db (snd (change_project_setting pid change actor now s)))"
proof (cases "ww_db (snd (change_project_setting pid change actor now s)) = ww_db s")
  case True
  with ok show ?thesis by simp
next
  case False
  then obtain p w w1 where p: "find_project pid (ww_db s) = Some p"
    and w: "settings_ensure pid (default_entry_file_path (pr_project_type p)) (default_latex_engine (pr_project_type p)) now (ww_db s) = Some w"
    and w1: "(case change of EntryFilePath e \<Rightarrow> update_entry_file_path pid e now w | LatexEngine e \<Rightarrow> update_latex_engine pid e now w) = Some w1"
    and guard: "\<And>e. change = EntryFilePath e \<Longrightarrow> accepts_entry_file_path (pr_project_type p) e \<and> document_exists pid e w"
    and s': "ww_db (snd (change_project_setting pid change actor now s)) = mark_project_dirty pid (Some actor) None w1"
    by (auto simp: change_project_setting_def Let_def split: option.splits if_splits setting_change.splits)
  have ew: "find_project_entry_point q w = find_project_entry_point q (ww_db s)" for q by (rule entry_point_ensure [OF w p])
  have dw: "doc_paths q w = doc_paths q (ww_db s)" by (rule doc_paths_tables) (rule settings_statement_documents(2) [OF w])
  have okw: "entry_ok q w" by (rule entry_ok_kept [OF ok ew]) (simp add: dw)
  have "entry_ok q w1"
  proof (cases change)
    case (EntryFilePath e)
    then have up: "update_entry_file_path pid e now w = Some w1" using w1 by simp
    have d1: "doc_paths q w1 = doc_paths q w" by (rule doc_paths_tables) (rule settings_statement_documents(3) [OF up])
    show ?thesis
    proof (cases "q = pid")
      case True
      obtain ep where "find_project_entry_point pid w = Some ep" "ep_project_type ep = pr_project_type p"
        using p ew [of pid] by (auto simp: find_project_entry_point_def)
      then show ?thesis
        using guard [OF EntryFilePath] entry_point_update_entry(1) [OF up] True d1
        by (simp add: entry_ok_def document_exists_paths)
    next
      case False
      show ?thesis by (rule entry_ok_kept [OF okw entry_point_update_entry(2) [OF up False]]) (simp add: d1)
    qed
  next
    case (LatexEngine e)
    then have up: "update_latex_engine pid e now w = Some w1" using w1 by simp
    have "doc_paths q w1 = doc_paths q w" by (rule doc_paths_tables) (rule settings_statement_documents(4) [OF up])
    then show ?thesis by (intro entry_ok_kept [OF okw entry_point_update_engine [OF up]]) simp
  qed
  then show ?thesis by (simp add: s')
qed

lemma entry_ok_ensure_settings:
  assumes "entry_ok q (ww_db s)"
  shows "entry_ok q (ww_db (snd (get_or_create_project_settings pid now s)))"
proof (cases "find_project pid (ww_db s)")
  case None
  with assms show ?thesis by (simp add: get_or_create_project_settings_def)
next
  case (Some p)
  have "entry_ok q w" if w: "settings_ensure pid (default_entry_file_path (pr_project_type p)) (default_latex_engine (pr_project_type p)) now (ww_db s) = Some w" for w
    by (rule entry_ok_kept [OF assms entry_point_ensure [OF w Some]])
      (use settings_statement_documents(2) [OF w] in \<open>simp add: doc_paths_def\<close>)
  with Some assms show ?thesis by (auto simp: get_or_create_project_settings_def split: option.split)
qed

section \<open>Whole projects\<close>

lemma insert_documents_paths:
  "insert_documents fresh k pid now ds w = Some w' \<Longrightarrow>
   w_projects w' = w_projects w \<and> w_settings w' = w_settings w \<and> doc_paths q w \<subseteq> doc_paths q w' \<and>
   wd_path ` set ds \<subseteq> doc_paths pid w'"
proof (induction ds arbitrary: k w)
  case Nil
  then show ?case by simp
next
  case (Cons d ds)
  then obtain e w1 where ins: "document_insert (fresh k) pid (wd_path d) (wd_content d) now w = Some (e, w1)"
    and go: "insert_documents fresh (k + 1) pid now ds w1 = Some w'" by (auto split: option.splits)
  have "wd_path d \<in> doc_paths pid w1"
    using ins by (auto simp: document_insert_def Let_def doc_paths_def new_document_def image_iff split: if_splits option.splits)
  moreover have "doc_paths pid w1 \<subseteq> doc_paths pid w'"
    using go
  proof (induction ds arbitrary: k w1)
    case (Cons d ds)
    then show ?case by (fastforce split: option.splits dest: document_insert_paths [where q = pid])
  qed simp
  ultimately show ?case using document_insert_paths [OF ins, of q] Cons.IH [OF go] by auto
qed

lemma insert_assets_tables:
  "insert_assets pid by now as w = Some w' \<Longrightarrow>
   w_projects w' = w_projects w \<and> w_settings w' = w_settings w \<and> w_documents w' = w_documents w"
  by (induction as arbitrary: w) (fastforce split: option.splits if_splits)+

lemma insert_directories_tables:
  "insert_directories pid now ds w = Some w' \<Longrightarrow>
   w_projects w' = w_projects w \<and> w_settings w' = w_settings w \<and> w_documents w' = w_documents w \<and> w_assets w' = w_assets w"
  by (induction ds arbitrary: w) (fastforce split: option.splits if_splits)+

lemma insert_content_paths:
  assumes "insert_content fresh c w = Some w'"
  shows "w_projects w' = w_projects w \<and> w_settings w' = w_settings w \<and> doc_paths q w \<subseteq> doc_paths q w' \<and>
    wd_path ` set (rp_documents c) \<subseteq> doc_paths (rp_project_id c) w'"
proof -
  obtain w1 w2 where w1: "insert_documents fresh 0 (rp_project_id c) (rp_updated_at c) (rp_documents c) w = Some w1"
    and w2: "insert_assets (rp_project_id c) (rp_asset_uploaded_by c) (rp_updated_at c) (rp_assets c) w1 = Some w2"
    and w': "insert_directories (rp_project_id c) (rp_updated_at c) (rp_directories c) w2 = Some w'"
    using assms by (auto simp: insert_content_def split: option.splits)
  have "doc_paths z w' = doc_paths z w1" for z
    by (rule doc_paths_tables) (use insert_assets_tables [OF w2] insert_directories_tables [OF w'] in simp)
  with insert_documents_paths [OF w1, of q] insert_assets_tables [OF w2] insert_directories_tables [OF w'] show ?thesis by simp
qed

lemma entry_ok_replace:
  assumes ok: "entry_ok q w" and rep: "replace_project_content fresh c w = Some (r, w')"
  shows "entry_ok q w'"
  using rep
proof (cases rule: replace_project_content_parts)
  case refused
  with ok show ?thesis by simp
next
  case (replaced p w1 w2 w3)
  let ?pid = "rp_project_id c"
  note p = replaced(1) and w1 = replaced(3) and w2 = replaced(4) and w3 = replaced(5) and w' = replaced(6) and acc = replaced(7)
  from replaced(8) have mem: "rp_entry_file_path c \<in> wd_path ` set (rp_documents c)" by (metis (mono_tags, lifting) list_ex_iff image_iff)
  have del: "w_projects (delete_content ?pid w1) = w_projects w1" "w_settings (delete_content ?pid w1) = w_settings w1"
    "q \<noteq> ?pid \<Longrightarrow> doc_paths q (delete_content ?pid w1) = doc_paths q w1" by (auto simp: delete_content_def doc_paths_def)
  note ins = insert_content_paths [OF w2, of q]
  have d1: "doc_paths q w1 = doc_paths q w" by (rule doc_paths_tables) (rule settings_statement_documents(2) [OF w1])
  have d3: "doc_paths z w3 = doc_paths z w2" for z by (rule doc_paths_tables) (rule settings_statement_documents(3) [OF w3])
  have e2: "find_project_entry_point z w2 = find_project_entry_point z w" for z
  proof -
    have "find_project_entry_point z w2 = find_project_entry_point z w1"
      by (rule entry_point_tables) (use ins del in simp_all)
    also have "\<dots> = find_project_entry_point z w" by (rule entry_point_ensure [OF w1 p])
    finally show ?thesis .
  qed
  show ?thesis
  proof (cases "q = ?pid")
    case True
    obtain e where "find_project_entry_point ?pid w2 = Some e" "ep_project_type e = pr_project_type p"
      using p e2 [of ?pid] by (auto simp: find_project_entry_point_def)
    moreover have "rp_entry_file_path c \<in> doc_paths ?pid w2" using ins mem by blast
    ultimately show ?thesis
      using entry_point_update_entry(1) [OF w3] acc True by (simp add: w' entry_ok_def document_exists_paths d3)
  next
    case q: False
    show ?thesis
      by (rule entry_ok_kept [OF ok])
        (use entry_point_update_entry(2) [OF w3 q] e2 ins d1 d3 del(3) [OF q] in \<open>auto simp: w'\<close>)
  qed
qed

lemma find_append: "find P (t @ [r]) = (case find P t of Some x \<Rightarrow> Some x | None \<Rightarrow> if P r then Some r else None)"
  by (induction t) auto

lemma create_project_graph_parts:
  assumes "create_project_graph fresh g w = Some w'"
  obtains w1 w2 where
    "\<forall>p \<in> set (w_projects w). pr_id p \<noteq> cg_project_id g"
    "settings_insert (cg_project_id g) (cg_entry_file_path g) (cg_latex_engine g) (cg_created_at g)
      (w\<lparr>w_projects := w_projects w @ [\<lparr>pr_id = cg_project_id g, pr_owner_user_id = Some (cg_owner_user_id g), pr_name = cg_name g,
        pr_created_at = cg_created_at g, pr_project_type = cg_project_type g, pr_workspace_version = 0, pr_content_epoch = 0\<rparr>]\<rparr>) = Some w1"
    "w_projects w2 = w_projects w1" "w_settings w2 = w_settings w1" "w_documents w2 = w_documents w1"
    "w_projects w' = w_projects w1" "w_settings w' = w_settings w1"
    "\<And>q. doc_paths q w2 \<subseteq> doc_paths q w'" "wd_path ` set (cg_documents g) \<subseteq> doc_paths (cg_project_id g) w'"
proof -
  let ?w0 = "w\<lparr>w_projects := w_projects w @ [\<lparr>pr_id = cg_project_id g, pr_owner_user_id = Some (cg_owner_user_id g), pr_name = cg_name g,
        pr_created_at = cg_created_at g, pr_project_type = cg_project_type g, pr_workspace_version = 0, pr_content_epoch = 0\<rparr>]\<rparr>"
  obtain w1 w2 w3 where new: "\<forall>p \<in> set (w_projects w). cg_project_id g \<noteq> pr_id p"
    and w1: "settings_insert (cg_project_id g) (cg_entry_file_path g) (cg_latex_engine g) (cg_created_at g) ?w0 = Some w1"
    and w2: "insert_directories (cg_project_id g) (cg_created_at g) (cg_directories g) w1 = Some w2"
    and w3: "insert_documents fresh 0 (cg_project_id g) (cg_created_at g) (cg_documents g) w2 = Some w3"
    and w': "insert_assets (cg_project_id g) (Some (cg_owner_user_id g)) (cg_created_at g) (cg_assets g) w3 = Some w'"
    using assms by (auto simp: create_project_graph_def Let_def split: option.splits)
  have d: "doc_paths q w' = doc_paths q w3" for q by (rule doc_paths_tables) (use insert_assets_tables [OF w'] in simp)
  show thesis
    by (rule that [OF _ w1, of w2])
      (use new insert_directories_tables [OF w2] insert_documents_paths [OF w3] insert_assets_tables [OF w'] d in auto)
qed

lemma entry_ok_create_other:
  assumes create: "create_project_graph fresh g w = Some w'" and ok: "entry_ok q w"
  shows "entry_ok q w'"
proof (rule create_project_graph_parts [OF create])
  fix w1 w2
  assume new: "\<forall>p \<in> set (w_projects w). pr_id p \<noteq> cg_project_id g"
    and ins: "settings_insert (cg_project_id g) (cg_entry_file_path g) (cg_latex_engine g) (cg_created_at g)
      (w\<lparr>w_projects := w_projects w @ [\<lparr>pr_id = cg_project_id g, pr_owner_user_id = Some (cg_owner_user_id g), pr_name = cg_name g,
        pr_created_at = cg_created_at g, pr_project_type = cg_project_type g, pr_workspace_version = 0, pr_content_epoch = 0\<rparr>]\<rparr>) = Some w1"
    and t: "w_projects w' = w_projects w1" "w_settings w' = w_settings w1" "w_documents w2 = w_documents w1"
    and sub: "\<And>q. doc_paths q w2 \<subseteq> doc_paths q w'"
  from ok obtain p where p: "find_project q w = Some p"
    by (auto simp: entry_ok_def find_project_entry_point_def split: option.splits)
  then have q: "q \<noteq> cg_project_id g" using new by (auto simp: find_project_def dest!: find_Some_set)
  have s: "find_settings q w' = find_settings q w"
    using find_settings_insert [OF ins q] t by (simp add: find_settings_def)
  have "find_project q w' = find_project q w"
    using settings_statement_projects(1) [OF ins] t p by (simp add: find_project_def find_append)
  moreover have "doc_paths q w \<subseteq> doc_paths q w'"
    using sub [of q] settings_statement_documents(1) [OF ins] t by (simp add: doc_paths_def)
  ultimately show "entry_ok q w'"
    by (intro entry_ok_kept [OF ok]) (auto simp: find_project_entry_point_def s)
qed

lemma entry_ok_created:
  assumes create: "create_project_graph fresh g w = Some w'"
    and "accepts_entry_file_path (cg_project_type g) (cg_entry_file_path g)" and "cg_entry_file_path g \<in> wd_path ` set (cg_documents g)"
  shows "entry_ok (cg_project_id g) w'"
proof (rule create_project_graph_parts [OF create])
  fix w1 w2
  assume new: "\<forall>p \<in> set (w_projects w). pr_id p \<noteq> cg_project_id g"
    and ins: "settings_insert (cg_project_id g) (cg_entry_file_path g) (cg_latex_engine g) (cg_created_at g)
      (w\<lparr>w_projects := w_projects w @ [\<lparr>pr_id = cg_project_id g, pr_owner_user_id = Some (cg_owner_user_id g), pr_name = cg_name g,
        pr_created_at = cg_created_at g, pr_project_type = cg_project_type g, pr_workspace_version = 0, pr_content_epoch = 0\<rparr>]\<rparr>) = Some w1"
    and t: "w_projects w' = w_projects w1" "w_settings w' = w_settings w1"
    and sub: "wd_path ` set (cg_documents g) \<subseteq> doc_paths (cg_project_id g) w'"
  have none: "find (\<lambda>p. pr_id p = cg_project_id g) (w_projects w) = None" using new by (simp add: find_None_set)
  have "find_settings (cg_project_id g) w' = find_settings (cg_project_id g) w1" using t by (simp add: find_settings_def)
  moreover have "\<exists>p. find_project (cg_project_id g) w' = Some p \<and> pr_project_type p = cg_project_type g"
    using settings_statement_projects(1) [OF ins] t none by (simp add: find_project_def find_append)
  ultimately show "entry_ok (cg_project_id g) w'"
    using find_settings_inserted [OF ins] assms(2,3) sub by (auto simp: entry_ok_def find_project_entry_point_def document_exists_paths)
qed

section \<open>Runs\<close>

text \<open>The caller of \<open>create_project_file\<close> decides by the name whether a file is a text.\<close>

fun checked_event :: "workspace_event \<Rightarrow> bool" where
  "checked_event (CreateFile env pid path kind content ct is_text actor guest) = (is_text = is_document_text_path path)"
| "checked_event _ = True"

lemma entry_ok_step:
  assumes "workspace_inv (ww_db s)" and ok: "entry_ok q (ww_db s)" and "checked_event e"
  shows "entry_ok q (ww_db (workspace_step e s))"
proof (cases e)
  case (CreateProject fresh g)
  with ok show ?thesis by (auto simp: in_transaction_def split: option.split dest: entry_ok_create_other)
next
  case (ReplaceContent fresh c)
  with ok show ?thesis by (auto simp: in_transaction_def split: option.split dest: entry_ok_replace)
next
  case (DeleteDocument pid i actor guest)
  with assms show ?thesis by (simp add: entry_ok_delete_document)
next
  case (CreateFile env pid path kind content ct is_text actor guest)
  with assms show ?thesis by (simp add: entry_ok_create_file)
next
  case (DeleteFile env pid path actor guest)
  with ok show ?thesis by (simp add: entry_ok_delete_file)
next
  case (MoveFile env pid source target actor guest)
  with ok show ?thesis by (simp add: entry_ok_move)
next
  case (EnsureSettings pid now)
  with ok show ?thesis by (simp add: entry_ok_ensure_settings)
next
  case (ChangeSetting pid change actor now)
  with ok show ?thesis by (simp add: entry_ok_change_setting)
next
  case (UploadAsset env pid path ct content actor guest)
  have kept: "entry_ok q (mark_project_dirty pid actor guest w)" if "asset_upsert a (ww_db s) = Some (r, w)" for a r w
    using asset_upsert_tables [OF that] by (simp add: entry_ok_paths [OF _ ok] doc_paths_def)
  show ?thesis
    by (cases rule: upload_project_asset_cases [of content env pid path ct actor guest s])
      (use UploadAsset ok kept in auto)
next
  case (DeleteAsset env pid i actor guest)
  with ok show ?thesis
    by (auto simp: delete_project_asset_def delete_asset_by_id_def Let_def split: option.split
        intro!: entry_ok_paths [of _ "ww_db s"] simp: doc_paths_def)
qed (use ok in \<open>auto simp: in_transaction_def op_defs Let_def split: option.split content_epoch_match.split
      dest: document_insert_paths [where q = q] document_upsert_paths [where q = q] update_content_paths [where q = q]
        update_projected_content_paths [where q = q] intro: entry_ok_paths\<close>)

lemma entry_ok_run:
  assumes "workspace_inv (ww_db s)" and "entry_ok q (ww_db s)" and "list_all checked_event es"
  shows "entry_ok q (ww_db (run_events workspace_step es s))"
  using assms
proof (induction es arbitrary: s)
  case (Cons e es)
  then show ?case by (simp add: entry_ok_step ws.inv_step)
qed simp

end
