(* ===== verification/Workspace_Storage.thy ===== *)
theory Workspace_Storage
  imports Workspace_Entry
begin

text \<open>
  The objects of live assets: an asset that is not stored inline has its object in the object storage,
  and that object is not queued for deletion, whatever the operations and the cleanup worker do.
\<close>

definition live_keys :: "workspace_db \<Rightarrow> string set" where
  "live_keys w = as_object_key ` set (w_assets w)"

definition queued_keys :: "deletion_row list \<Rightarrow> string set" where
  "queued_keys q = dq_object_key ` set q"

definition safe_key :: "string \<Rightarrow> workspace_world \<Rightarrow> bool" where
  "safe_key k s \<longleftrightarrow> starts_with ''inline://'' k \<or> (k \<in> dom (ww_objects s) \<and> k \<notin> queued_keys (ww_queue s))"

definition storage_inv :: "workspace_world \<Rightarrow> bool" where
  "storage_inv s \<longleftrightarrow> (\<forall>k \<in> live_keys (ww_db s). safe_key k s)"

section \<open>The queue and the object storage\<close>

lemma enqueue_key_keys: "queued_keys (enqueue_key now c key q) \<subseteq> insert key (queued_keys q)"
  by (auto simp: enqueue_key_def queued_keys_def in_update_where split: if_splits)

lemma fold_enqueue_keys: "queued_keys (fold (enqueue_key now c) keys q) \<subseteq> set keys \<union> queued_keys q"
proof (induction keys arbitrary: q)
  case (Cons k keys)
  then show ?case using Cons.IH [of "enqueue_key now c k q"] enqueue_key_keys [of now c k q] by auto
qed simp

lemma enqueue_object_deletions_keys: "queued_keys (enqueue_object_deletions now keys q) \<subseteq> set keys \<union> queued_keys q"
  using fold_enqueue_keys [of now True "external_object_keys keys" q]
  by (auto simp: enqueue_object_deletions_def external_object_keys_def)

lemma fold_delete_queued:
  "k \<notin> set keys \<Longrightarrow> safe_key k s \<Longrightarrow> safe_key k (fold (delete_queued_object env) keys s)"
proof (induction keys arbitrary: s)
  case (Cons x keys)
  have "safe_key k (delete_queued_object env x s)"
    using Cons.prems by (auto simp: safe_key_def delete_queued_object_def queued_keys_def)
  with Cons show ?case by simp
qed simp

lemma delete_queued_objects_now_safe:
  "k \<notin> set keys \<Longrightarrow> safe_key k s \<Longrightarrow> safe_key k (delete_queued_objects_now env keys s)"
  using fold_delete_queued [of k "external_object_keys keys" s env]
  by (simp add: delete_queued_objects_now_def external_object_keys_def)

lemma cleanup_uncommitted_safe: "k \<noteq> key \<Longrightarrow> safe_key k s \<Longrightarrow> safe_key k (cleanup_uncommitted_object env key s)"
proof -
  assume k: "k \<noteq> key" and safe: "safe_key k s"
  have "k \<notin> queued_keys (enqueue_key (sv_now env) False key (ww_queue s))" if "k \<notin> queued_keys (ww_queue s)"
    using enqueue_key_keys k that by blast
  with k safe show ?thesis unfolding cleanup_uncommitted_object_def safe_key_def by (auto simp del: starts_with_iff)
qed

lemma put_object_safe:
  "put_object env key content s = Some s' \<Longrightarrow> safe_key k s \<Longrightarrow> safe_key k s'"
proof -
  assume put: "put_object env key content s = Some s'" and "safe_key k s"
  have "s' = s\<lparr>ww_objects := (ww_objects s)(key \<mapsto> content)\<rparr>"
    using put unfolding put_object_def by (metis option.distinct(1) option.inject)
  with \<open>safe_key k s\<close> show ?thesis by (simp add: safe_key_def) blast
qed

lemma safe_key_db [simp]: "safe_key k (s\<lparr>ww_db := w\<rparr>) = safe_key k s"
  by (simp add: safe_key_def)

lemma queue_deletions_safe:
  assumes "k \<notin> set keys" and "safe_key k s"
  shows "safe_key k (delete_queued_objects_now env keys (s\<lparr>ww_db := w, ww_queue := enqueue_object_deletions now keys (ww_queue s)\<rparr>))"
  by (rule delete_queued_objects_now_safe [OF assms(1)])
    (use assms enqueue_object_deletions_keys [of now keys "ww_queue s"] in \<open>auto simp: safe_key_def\<close>)

text \<open>The worker deletes only what is queued.\<close>

lemma claim_due_object_keys:
  assumes "claim_due_object pinned locked now q = (r, q')"
  shows "queued_keys q' = queued_keys q" and "r = Some (key, n) \<Longrightarrow> key \<in> queued_keys q \<and> \<not> pinned key"
proof -
  have m: "map dq_object_key (update_where P (\<lambda>x. x\<lparr>dq_locked_at := Some now, dq_attempt_count := dq_attempt_count x + 1, dq_updated_at := now\<rparr>) q) =
      map dq_object_key q" for P by (rule map_update_where) simp
  have "set (map dq_object_key q') = set (map dq_object_key q)"
    using assms m by (auto simp: claim_due_object_def split: option.splits simp del: set_map)
  then show "queued_keys q' = queued_keys q" by (simp add: queued_keys_def)
  show "key \<in> queued_keys q \<and> \<not> pinned key" if "r = Some (key, n)"
    using assms that
    by (auto simp: claim_due_object_def queued_keys_def due_object_def split: option.splits dest!: first_by_Some(1))
qed

lemma cleanup_turn_safe:
  assumes "safe_key k s"
  shows "safe_key k (cleanup_turn env locked later s)"
proof (cases "claim_due_object (sv_pinned env) locked (sv_now env) (ww_queue s)")
  case (Pair r q)
  note facts = claim_due_object_keys [OF Pair]
  show ?thesis
  proof (cases r)
    case None
    with Pair assms facts(1) show ?thesis by (simp add: cleanup_turn_def safe_key_def)
  next
    case (Some kn)
    obtain key n where kn: "kn = (key, n)" by (cases kn)
    have "queued_keys (defer_object_deletion key n later q) = queued_keys q"
    proof -
      have "map dq_object_key (defer_object_deletion key n later q) = map dq_object_key q"
        unfolding defer_object_deletion_def by (rule map_update_where) simp
      from arg_cong [OF this, of set] show ?thesis by (simp add: queued_keys_def)
    qed
    moreover have "queued_keys (delete_where P q) \<subseteq> queued_keys q" for P by (auto simp: queued_keys_def)
    ultimately show ?thesis
      using Pair Some kn assms facts(1) facts(2) [of key n] by (auto simp: cleanup_turn_def safe_key_def)
  qed
qed

section \<open>Statements on assets\<close>

lemma live_delete_where:
  assumes "distinct (map as_object_key as)"
  shows "as_object_key ` set (delete_where P as) = as_object_key ` set as - as_object_key ` {a \<in> set as. P a}"
proof -
  have "set (delete_where P as) = set as - {a \<in> set as. P a}" by auto
  then show ?thesis
    using assms by (simp add: inj_on_image_set_diff [of as_object_key "set as"] distinct_map)
qed

lemma set_update_where: "set (update_where P f t) = f ` {x \<in> set t. P x} \<union> {x \<in> set t. \<not> P x}"
  by (auto simp: update_where_def)

lemma live_update_same:
  assumes "\<And>a. as_object_key (f a) = as_object_key a"
  shows "as_object_key ` set (update_where P f as) = as_object_key ` set as"
proof -
  have "map as_object_key (update_where P f as) = map as_object_key as" by (rule map_update_where) (simp add: assms)
  from arg_cong [OF this, of set] show ?thesis by simp
qed

text \<open>An upsert replaces the key at the path.\<close>

lemma asset_upsert_live:
  assumes inv: "workspace_inv w" and "asset_upsert a w = Some (r, w')"
  shows "live_keys w' = insert (as_object_key a) (live_keys w - set (asset_keys_at (as_project_id a) (as_path a) w))"
proof -
  let ?same = "\<lambda>b. as_project_id b = as_project_id a \<and> as_path b = as_path a"
  let ?f = "\<lambda>b. b\<lparr>as_content_revision := as_content_revision a, as_object_key := as_object_key a,
                 as_content_type := as_content_type a, as_size_bytes := as_size_bytes a, as_uploaded_by := as_uploaded_by a,
                 as_created_at := as_created_at a, as_inline_data := as_inline_data a\<rparr>"
  have keys: "set (asset_keys_at (as_project_id a) (as_path a) w) = as_object_key ` {b \<in> set (w_assets w). ?same b}"
    by (auto simp: asset_keys_at_def)
  show ?thesis
  proof (cases "find ?same (w_assets w)")
    case None
    then have none: "{b \<in> set (w_assets w). ?same b} = {}" by (auto simp: find_None_set)
    have "w' = w\<lparr>w_assets := w_assets w @ [a]\<rparr>"
      using None assms(2) by (auto simp: asset_upsert_def Let_def split: if_splits option.splits)
    then show ?thesis unfolding keys none by (simp add: live_keys_def)
  next
    case (Some b)
    then have b: "b \<in> set (w_assets w)" "?same b" by (auto dest: find_Some_set)
    have w': "w' = w\<lparr>w_assets := update_where ?same ?f (w_assets w)\<rparr>"
      using Some assms(2) by (auto simp: asset_upsert_def Let_def split: if_splits)
    have "distinct (map as_object_key (w_assets w))" using inv by (simp add: workspace_inv_def assets_ok_def)
    then have "as_object_key ` {c \<in> set (w_assets w). \<not> ?same c} = live_keys w - as_object_key ` {b \<in> set (w_assets w). ?same b}"
      using live_delete_where [of "w_assets w" ?same] by (simp add: live_keys_def delete_where_def)
    moreover have "as_object_key ` set (update_where ?same ?f (w_assets w)) =
        insert (as_object_key a) (as_object_key ` {c \<in> set (w_assets w). \<not> ?same c})"
    proof -
      have "as_object_key ` ?f ` {c \<in> set (w_assets w). ?same c} = (\<lambda>_. as_object_key a) ` {c \<in> set (w_assets w). ?same c}"
        unfolding image_image by simp
      also have "\<dots> = {as_object_key a}" using b by blast
      finally show ?thesis unfolding set_update_where image_Un by (simp only: insert_is_Un [symmetric])
    qed
    ultimately show ?thesis unfolding keys by (simp add: w' live_keys_def)
  qed
qed

section \<open>The operations\<close>

text \<open>
  The keys an operation brings in: a new object key is not in use and not queued (it is made from a
  new UUID), and the assets of a whole project were stored beforehand.
\<close>

fun fresh_keys :: "workspace_event \<Rightarrow> workspace_world \<Rightarrow> bool" where
  "fresh_keys (CreateProject fresh g) s = list_all (\<lambda>a. safe_key (wa_object_key a) s) (cg_assets g)"
| "fresh_keys (ReplaceContent fresh c) s = list_all (\<lambda>a. safe_key (wa_object_key a) s) (rp_assets c)"
| "fresh_keys (CreateFile env pid path kind content ct is_text actor guest) s =
     (asset_object_key env pid (sv_id env) \<notin> live_keys (ww_db s) \<union> queued_keys (ww_queue s))"
| "fresh_keys (UploadAsset env pid path ct content actor guest) s =
     (asset_object_key env pid (sv_revision env) \<notin> live_keys (ww_db s) \<union> queued_keys (ww_queue s))"
| "fresh_keys _ s = True"

lemma storage_inv_same:
  assumes "storage_inv s" and "w_assets w = w_assets (ww_db s)"
  shows "storage_inv (s\<lparr>ww_db := w\<rparr>)"
  using assms by (simp add: storage_inv_def live_keys_def)

lemma mark_project_dirty_assets [simp]: "w_assets (mark_project_dirty pid a g w) = w_assets w"
  by (simp add: mark_project_dirty_def advance_workspace_version_def Let_def)

lemma live_keys_dirty [simp]: "live_keys (mark_project_dirty pid a g w) = live_keys w"
  by (simp add: live_keys_def)

lemma document_statement_assets:
  "document_insert i pid path content now w = Some (d, w') \<Longrightarrow> w_assets w' = w_assets w"
  "document_upsert i pid path content now w = Some (d, w') \<Longrightarrow> w_assets w' = w_assets w"
  "update_content pid i pr cr content now w = Some (d, w') \<Longrightarrow> w_assets w' = w_assets w"
  "update_projected_content pid i cr content now w = Some (d, w') \<Longrightarrow> w_assets w' = w_assets w"
  "delete_document_by_id pid i w = (n, w') \<Longrightarrow> w_assets w' = w_assets w"
  "insert_directory pid path now w = Some (b, w') \<Longrightarrow> w_assets w' = w_assets w"
  by (auto simp: document_insert_def document_upsert_def update_content_def update_projected_content_def
      delete_document_by_id_def insert_directory_def Let_def split: if_splits option.splits)

lemma settings_statement_assets:
  "settings_insert pid entry engine now w = Some w' \<Longrightarrow> w_assets w' = w_assets w"
  "settings_ensure pid entry engine now w = Some w' \<Longrightarrow> w_assets w' = w_assets w"
  "update_entry_file_path pid entry now w = Some w' \<Longrightarrow> w_assets w' = w_assets w"
  "update_latex_engine pid tex now w = Some w' \<Longrightarrow> w_assets w' = w_assets w"
  "follow_entry pid pt m now w = Some w' \<Longrightarrow> w_assets w' = w_assets w"
  by (auto simp: settings_insert_def settings_ensure_def update_entry_file_path_def update_latex_engine_def follow_entry_def
      split: if_splits option.splits)

lemma live_move_subtree:
  assumes "move_subtree pid source target now w = Some (c, w')"
  shows "live_keys w' = live_keys w"
proof -
  obtain as where "update_unique (\<lambda>a. as_project_id a = pid \<and> sql_in_subtree (as_path a) source)
      (\<lambda>a. a\<lparr>as_path := sql_moved source target (as_path a)\<rparr>) asset_conflict [] (w_assets w) = Some as"
    and w': "w_assets w' = as"
    using assms by (auto simp: move_subtree_def Let_def split: option.splits prod.splits)
  from update_unique_Some [OF this(1)] show ?thesis by (simp add: live_keys_def w' live_update_same)
qed

lemma live_delete_subtree:
  assumes "workspace_inv w" and "delete_subtree pid root w = (c, keys, w')"
  shows "live_keys w' = live_keys w - set keys"
proof -
  let ?R = "\<lambda>a. as_project_id a = pid \<and> sql_in_subtree (as_path a) root"
  have "distinct (map as_object_key (w_assets w))" using assms(1) by (simp add: workspace_inv_def assets_ok_def)
  moreover have "w_assets w' = delete_where ?R (w_assets w)" "set keys = as_object_key ` {a \<in> set (w_assets w). ?R a}"
    using assms(2) by (auto simp: delete_subtree_def Let_def)
  ultimately show ?thesis by (simp only: live_keys_def live_delete_where)
qed

lemma insert_assets_live:
  "insert_assets pid by now as w = Some w' \<Longrightarrow> live_keys w' = live_keys w \<union> wa_object_key ` set as"
  by (induction as arbitrary: w) (fastforce simp: live_keys_def asset_of_def split: option.splits if_splits)+

lemma insert_documents_assets: "insert_documents fresh k pid now ds w = Some w' \<Longrightarrow> w_assets w' = w_assets w"
  by (induction ds arbitrary: k w) (fastforce split: option.splits dest: document_statement_assets(1))+

lemma insert_directories_assets: "insert_directories pid now ds w = Some w' \<Longrightarrow> w_assets w' = w_assets w"
  by (simp add: insert_directories_tables)

lemma create_project_graph_live:
  assumes "create_project_graph fresh g w = Some w'"
  shows "live_keys w' = live_keys w \<union> wa_object_key ` set (cg_assets g)"
proof -
  obtain p w1 w2 w3 where
    w1: "settings_insert (cg_project_id g) (cg_entry_file_path g) (cg_latex_engine g) (cg_created_at g) (w\<lparr>w_projects := p\<rparr>) = Some w1"
    and w2: "insert_directories (cg_project_id g) (cg_created_at g) (cg_directories g) w1 = Some w2"
    and w3: "insert_documents fresh 0 (cg_project_id g) (cg_created_at g) (cg_documents g) w2 = Some w3"
    and w': "insert_assets (cg_project_id g) (Some (cg_owner_user_id g)) (cg_created_at g) (cg_assets g) w3 = Some w'"
    using assms by (auto simp: create_project_graph_def Let_def split: option.splits)
  have "w_assets w3 = w_assets w"
    using settings_statement_assets(1) [OF w1] insert_directories_assets [OF w2] insert_documents_assets [OF w3] by simp
  then have "live_keys w3 = live_keys w" by (simp add: live_keys_def)
  with insert_assets_live [OF w'] show ?thesis by simp
qed

lemma replace_project_content_live:
  assumes "replace_project_content fresh c w = Some (r, w')"
  shows "live_keys w' \<subseteq> live_keys w \<union> wa_object_key ` set (rp_assets c)"
  using assms
proof (cases rule: replace_project_content_parts)
  case (replaced p w1 w2 w3)
  let ?pid = "rp_project_id c"
  note w1 = replaced(3) and w2 = replaced(4) and w3 = replaced(5) and w' = replaced(6)
  obtain v1 v2 where v1: "insert_documents fresh 0 ?pid (rp_updated_at c) (rp_documents c) (delete_content ?pid w1) = Some v1"
    and v2: "insert_assets ?pid (rp_asset_uploaded_by c) (rp_updated_at c) (rp_assets c) v1 = Some v2"
    and v3: "insert_directories ?pid (rp_updated_at c) (rp_directories c) v2 = Some w2"
    using w2 by (auto simp: insert_content_def split: option.splits)
  have "w_assets w' = w_assets v2"
    using settings_statement_assets(3) [OF w3] insert_directories_assets [OF v3] by (simp add: w' advance_generation_def)
  then have "live_keys w' = live_keys v1 \<union> wa_object_key ` set (rp_assets c)"
    using insert_assets_live [OF v2] by (simp add: live_keys_def)
  moreover have "live_keys v1 \<subseteq> live_keys w"
    using settings_statement_assets(2) [OF w1] insert_documents_assets [OF v1] by (auto simp: live_keys_def delete_content_def)
  ultimately show ?thesis by blast
qed auto

lemma storage_inv_deletion:
  assumes inv: "storage_inv s" and live: "live_keys w = live_keys (ww_db s) - set keys"
  shows "storage_inv (delete_queued_objects_now env keys
           (s\<lparr>ww_db := w, ww_queue := enqueue_object_deletions now keys (ww_queue s)\<rparr>))"
  using inv by (auto simp: storage_inv_def live intro: queue_deletions_safe)

lemma delete_file_storage:
  assumes "workspace_inv (ww_db s)" and "storage_inv s"
  shows "storage_inv (snd (delete_project_file env pid path actor guest s))"
proof -
  obtain counts keys w where del: "delete_subtree pid path (ww_db s) = (counts, keys, w)" by (cases "delete_subtree pid path (ww_db s)")
  have live: "live_keys w = live_keys (ww_db s) - set keys" by (rule live_delete_subtree [OF assms(1) del])
  have "storage_inv (delete_queued_objects_now env keys (s\<lparr>ww_db := w\<rparr>))"
    using assms(2) by (auto simp: storage_inv_def live intro: delete_queued_objects_now_safe)
  then show ?thesis
    using del assms(2) storage_inv_deletion [OF assms(2), of "mark_project_dirty pid actor guest w" keys] live
    by (simp add: delete_project_file_def Let_def)
qed

lemma delete_asset_storage:
  assumes "workspace_inv (ww_db s)" and "storage_inv s"
  shows "storage_inv (snd (delete_project_asset env pid i actor guest s))"
proof (cases "find (\<lambda>a. as_project_id a = pid \<and> as_id a = i) (w_assets (ww_db s))")
  case None
  with assms show ?thesis by (simp add: delete_project_asset_def)
next
  case (Some a)
  let ?P = "\<lambda>a. as_project_id a = pid \<and> as_id a = i"
  let ?w = "(ww_db s)\<lparr>w_assets := delete_where ?P (w_assets (ww_db s))\<rparr>"
  have a: "a \<in> set (w_assets (ww_db s))" "?P a" using Some by (auto dest: find_Some_set)
  have d: "distinct (map as_object_key (w_assets (ww_db s)))" "distinct (map as_id (w_assets (ww_db s)))"
    using assms(1) by (simp_all add: workspace_inv_def assets_ok_def)
  have "b = a" if "b \<in> set (w_assets (ww_db s))" "?P b" for b
    by (rule key_unique [OF d(2) that(1) a(1)]) (use that a in simp)
  then have "{b \<in> set (w_assets (ww_db s)). ?P b} = {a}" using a by blast
  then have live: "live_keys ?w = live_keys (ww_db s) - set [as_object_key a]"
    using live_delete_where [OF d(1), of ?P] by (simp add: live_keys_def)
  show ?thesis
    using Some assms(2) storage_inv_deletion [OF assms(2), of "mark_project_dirty pid actor guest ?w" "[as_object_key a]"] live
    by (simp add: delete_project_asset_def delete_asset_by_id_def Let_def)
qed

lemma asset_object_key_external: "\<not> starts_with ''inline://'' (asset_object_key env pid i)"
  by (simp add: asset_object_key_def starts_with_def)

text \<open>A new object at a fresh key, and the replacement of what was at the path.\<close>

lemma put_fresh:
  assumes "put_object env key content s = Some s1" and "key \<notin> queued_keys (ww_queue s)"
  shows "safe_key key s1"
  using assms by (auto simp: put_object_def safe_key_def split: if_splits)

lemma upload_storage:
  assumes inv: "workspace_inv (ww_db s)" and sinv: "storage_inv s"
    and fresh: "fresh_keys (UploadAsset env pid path ct content actor guest) s"
  shows "storage_inv (snd (upload_project_asset env pid path ct content actor guest s))"
proof -
  let ?a = "uploaded_asset env pid path ct content actor"
  let ?key = "as_object_key ?a"
  have key: "?key \<notin> live_keys (ww_db s)" "?key \<notin> queued_keys (ww_queue s)" if "sv_storage env"
    using fresh that by (auto simp: uploaded_asset_def)
  have inline: "starts_with ''inline://'' ?key" if "\<not> sv_storage env" using that by (simp add: uploaded_asset_def starts_with_iff)
  have cleanup: "storage_inv (cleanup_uncommitted_object env ?key s')" if "ww_db s' = ww_db s" "\<forall>k \<in> live_keys (ww_db s). safe_key k s'" for s'
  proof (cases "sv_storage env")
    case True
    with that key show ?thesis by (auto simp: storage_inv_def intro!: cleanup_uncommitted_safe)
  next
    case False
    with that show ?thesis by (simp add: cleanup_uncommitted_object_def storage_inv_def)
  qed
  have stored: "\<forall>k \<in> live_keys (ww_db s). safe_key k s1" and new: "safe_key ?key s1"
    if "(if sv_storage env then put_object env ?key content s else Some s) = Some s1" for s1
  proof -
    show "\<forall>k \<in> live_keys (ww_db s). safe_key k s1"
      using that sinv by (auto simp: storage_inv_def split: if_splits intro: put_object_safe)
    show "safe_key ?key s1"
    proof (cases "sv_storage env")
      case True
      with that have "put_object env ?key content s = Some s1" by simp
      from put_fresh [OF this key(2) [OF True]] show ?thesis .
    next
      case False
      from inline [OF this] show ?thesis by (simp add: safe_key_def)
    qed
  qed
  show ?thesis
  proof (cases rule: upload_project_asset_cases [of content env pid path ct actor guest s])
    case large
    with sinv show ?thesis by simp
  next
    case unstored
    with sinv cleanup [of s] show ?thesis by (simp add: storage_inv_def)
  next
    case (rejected s1)
    with stored [OF rejected(1)] cleanup [of s1] show ?thesis by simp
  next
    case (committed s1 r w)
    let ?old = "filter (\<lambda>k. k \<noteq> ?key) (asset_keys_at pid path (ww_db s))"
    have live: "live_keys w = insert ?key (live_keys (ww_db s) - set (asset_keys_at pid path (ww_db s)))"
      using asset_upsert_live [OF inv committed(3)] by (simp add: uploaded_asset_def)
    have "storage_inv (delete_queued_objects_now env ?old
        (s1\<lparr>ww_db := mark_project_dirty pid actor guest w, ww_queue := enqueue_object_deletions (sv_now env) ?old (ww_queue s1)\<rparr>))"
      unfolding storage_inv_def using new [OF committed(1)] stored [OF committed(1)] by (auto simp: live intro!: queue_deletions_safe)
    with committed show ?thesis by simp
  qed
qed

lemma asset_keys_live: "set (asset_keys_at pid path w) \<subseteq> live_keys w"
  by (auto simp: asset_keys_at_def live_keys_def)

lemma delete_asset_at_path_live:
  assumes "workspace_inv w"
  shows "live_keys (delete_asset_at_path pid path w) = live_keys w - set (asset_keys_at pid path w)"
proof -
  have "distinct (map as_object_key (w_assets w))" using assms by (simp add: workspace_inv_def assets_ok_def)
  from live_delete_where [OF this, of "\<lambda>a. as_project_id a = pid \<and> as_path a = path"] show ?thesis
    by (simp add: delete_asset_at_path_def live_keys_def asset_keys_at_def)
qed

text \<open>What preparing a file does to the storage: the key of a prepared asset is new and stored.\<close>

lemma prepare_file_storage:
  assumes "prepare_file env pid path kind content ct is_text actor s = (r, s1)" and sinv: "storage_inv s"
    and fresh: "asset_object_key env pid (sv_id env) \<notin> live_keys (ww_db s) \<union> queued_keys (ww_queue s)"
  shows "storage_inv s1"
    and "r = Inr (Asset_prepared a) \<Longrightarrow> as_project_id a = pid \<and> as_path a = path \<and> safe_key (as_object_key a) s1 \<and>
           (starts_with ''inline://'' (as_object_key a) \<or> as_object_key a \<notin> live_keys (ww_db s))"
proof -
  let ?key = "asset_object_key env pid (sv_id env)"
  have put: "storage_inv s2 \<and> safe_key ?key s2" if "put_object env ?key [] s = Some s2" for s2
    using that fresh sinv put_fresh [OF that] put_object_safe [OF that] put_object_db [OF that] by (auto simp: storage_inv_def)
  have clean: "storage_inv (cleanup_uncommitted_object env ?key s)"
    using sinv fresh by (auto simp: storage_inv_def intro!: cleanup_uncommitted_safe)
  show "storage_inv s1"
    using assms(1) put clean sinv
    by (auto simp: prepare_file_def prepare_empty_asset_def Let_def split: if_splits option.splits)
  show "as_project_id a = pid \<and> as_path a = path \<and> safe_key (as_object_key a) s1 \<and>
      (starts_with ''inline://'' (as_object_key a) \<or> as_object_key a \<notin> live_keys (ww_db s))"
    if "r = Inr (Asset_prepared a)"
  proof (cases "sv_storage env")
    case True
    with assms(1) that put fresh show ?thesis
      by (auto simp: prepare_file_def prepare_empty_asset_def Let_def split: if_splits option.splits)
  next
    case False
    have "starts_with ''inline://'' (''inline://'' @ sv_show env (sv_id env))" by (simp only: starts_with_def strip_prefix_append) simp
    with False assms(1) that show ?thesis
      by (auto simp: prepare_file_def prepare_empty_asset_def safe_key_def Let_def split: if_splits option.splits)
  qed
qed

text \<open>The keys after the statements of a file creation.\<close>

lemma persist_prepared_live:
  assumes inv: "workspace_inv w" and "persist_prepared env pid path f w = Some (changed, replaced, w')"
    and "\<And>a. f = Asset_prepared a \<Longrightarrow> as_project_id a = pid \<and> as_path a = path"
  shows "live_keys w' = (case f of Asset_prepared a \<Rightarrow> insert (as_object_key a) (live_keys w - set replaced)
           | _ \<Rightarrow> live_keys w - set replaced)"
proof (cases f)
  case Directory_prepared
  with assms(2) obtain b where "insert_directory pid path (sv_now env) w = Some (b, w')" "replaced = []" by auto
  with document_statement_assets(6) Directory_prepared show ?thesis by (auto simp: live_keys_def)
next
  case (Text_prepared content)
  then obtain d w1 where up: "document_upsert (sv_id env) pid path content (sv_now env) w = Some (d, w1)"
    and w': "w' = delete_asset_at_path pid path w1" and r: "replaced = asset_keys_at pid path w"
    using assms(2) by (auto split: option.splits)
  have inv1: "workspace_inv w1" using sound_document_upsert [OF up] inv by (simp add: sound_step_def)
  have "w_assets w1 = w_assets w" by (rule document_statement_assets(2) [OF up])
  then have "live_keys w1 = live_keys w" "asset_keys_at pid path w1 = asset_keys_at pid path w"
    by (simp_all add: live_keys_def asset_keys_at_def)
  with delete_asset_at_path_live [OF inv1, of pid path] Text_prepared r show ?thesis by (simp add: w')
next
  case (Asset_prepared a)
  then obtain d w1 where up: "asset_upsert a w = Some (d, w1)"
    and w': "w' = delete_document_at_path pid path w1" and r: "replaced = asset_keys_at pid path w"
    using assms(2) by (auto split: option.splits)
  have "live_keys w' = live_keys w1" by (simp add: w' delete_document_at_path_def live_keys_def)
  with asset_upsert_live [OF inv up] assms(3) [OF Asset_prepared] Asset_prepared r show ?thesis by simp
qed

lemma create_file_storage:
  assumes inv: "workspace_inv (ww_db s)" and sinv: "storage_inv s"
    and fresh: "asset_object_key env pid (sv_id env) \<notin> live_keys (ww_db s) \<union> queued_keys (ww_queue s)"
  shows "storage_inv (snd (create_project_file env pid path kind content ct is_text actor guest s))"
proof (cases "prepare_file env pid path kind content ct is_text actor s")
  case (Pair r s1)
  note prep = prepare_file_storage [OF Pair sinv fresh]
  have db: "ww_db s1 = ww_db s" by (rule prepare_file_db [OF Pair])
  have safe1: "\<forall>k \<in> live_keys (ww_db s). safe_key k s1" using prep(1) by (simp add: storage_inv_def db)
  show ?thesis
  proof (cases r)
    case (Inl e)
    with Pair prep(1) show ?thesis by (simp add: create_project_file_def)
  next
    case (Inr f)
    have new: "as_project_id a = pid \<and> as_path a = path" "safe_key (as_object_key a) s1"
      "starts_with ''inline://'' (as_object_key a) \<or> as_object_key a \<notin> live_keys (ww_db s)" if "f = Asset_prepared a" for a
      using prep(2) Inr that by auto
    show ?thesis
    proof (cases "persist_prepared env pid path f (ww_db s)")
      case None
      have "storage_inv (cleanup_prepared env f s1)"
      proof (cases f)
        case (Asset_prepared a)
        have "safe_key k (cleanup_uncommitted_object env (as_object_key a) s1)" if k: "k \<in> live_keys (ww_db s)" for k
        proof (cases "k = as_object_key a")
          case True
          then have "starts_with ''inline://'' (as_object_key a)" using new(3) [OF Asset_prepared] k by blast
          with True show ?thesis by (simp add: safe_key_def)
        next
          case False
          then show ?thesis using safe1 k by (simp add: cleanup_uncommitted_safe)
        qed
        then show ?thesis by (simp add: storage_inv_def cleanup_prepared_def Asset_prepared db)
      qed (use prep(1) in \<open>simp_all add: cleanup_prepared_def\<close>)
      with Pair Inr None db show ?thesis by (simp add: create_project_file_def)
    next
      case (Some cw)
      obtain changed replaced w where cw: "cw = (changed, replaced, w)" by (cases cw)
      have per: "persist_prepared env pid path f (ww_db s) = Some (changed, replaced, w)" using Some cw by simp
      note live = persist_prepared_live [OF inv per new(1)]
      have old: "set replaced \<subseteq> live_keys (ww_db s)"
        using per by (cases f) (auto split: option.splits dest: asset_keys_live [THEN subsetD])
      have key: "safe_key k (delete_queued_objects_now env replaced s2)"
        if k: "k \<in> live_keys w" and s2: "\<And>k. k \<notin> set replaced \<Longrightarrow> safe_key k s1 \<Longrightarrow> safe_key k s2" for k s2
      proof (cases "k \<in> live_keys (ww_db s) - set replaced")
        case True
        with safe1 s2 show ?thesis by (auto intro: delete_queued_objects_now_safe)
      next
        case False
        with k live obtain a where f: "f = Asset_prepared a" and ka: "k = as_object_key a" by (cases f) auto
        from new(3) [OF f] old consider "starts_with ''inline://'' k" | "k \<notin> set replaced" unfolding ka by blast
        then show ?thesis
        proof cases
          case 1
          then show ?thesis by (simp add: safe_key_def)
        next
          case 2
          with new(2) [OF f] s2 show ?thesis unfolding ka by (auto intro: delete_queued_objects_now_safe)
        qed
      qed
      have queued: "safe_key k (s1\<lparr>ww_db := v, ww_queue := enqueue_object_deletions n replaced (ww_queue s1)\<rparr>)"
        if "k \<notin> set replaced" "safe_key k s1" for k v n
        using that enqueue_object_deletions_keys [of n replaced "ww_queue s1"] by (auto simp: safe_key_def)
      show ?thesis
        using Pair Inr per db key queued by (auto simp: create_project_file_def Let_def storage_inv_def)
    qed
  qed
qed

lemma storage_step:
  assumes inv: "workspace_inv (ww_db s)" and sinv: "storage_inv s" and fresh: "fresh_keys e s"
  shows "storage_inv (workspace_step e s)"
proof (cases e)
  case (CreateProject fresh g)
  with sinv assms(3) show ?thesis
    by (auto simp: in_transaction_def storage_inv_def list_all_iff split: option.split dest!: create_project_graph_live)
next
  case (ReplaceContent fresh c)
  with sinv assms(3) show ?thesis
    by (auto simp: in_transaction_def storage_inv_def list_all_iff split: option.split dest!: replace_project_content_live)
next
  case (CreateFile env pid path kind content ct is_text actor guest)
  with assms show ?thesis by (simp add: create_file_storage)
next
  case (UploadAsset env pid path ct content actor guest)
  with assms show ?thesis by (simp add: upload_storage)
next
  case (DeleteFile env pid path actor guest)
  with assms show ?thesis by (simp add: delete_file_storage)
next
  case (DeleteAsset env pid i actor guest)
  with assms show ?thesis by (simp add: delete_asset_storage)
next
  case (CleanupTurn env locked later)
  with sinv show ?thesis by (auto simp: storage_inv_def intro: cleanup_turn_safe)
next
  case (MoveFile env pid source target actor guest)
  have "live_keys (ww_db (workspace_step e s)) = live_keys (ww_db s) \<and> ww_objects (workspace_step e s) = ww_objects s \<and>
      ww_queue (workspace_step e s) = ww_queue s"
    unfolding MoveFile
    by (auto simp: move_project_file_def Let_def split: option.split dest!: live_move_subtree settings_statement_assets(5)
        simp: live_keys_def)
  with sinv show ?thesis by (simp add: storage_inv_def safe_key_def)
next
  case (ChangeSetting pid change actor now)
  have "w_assets (ww_db (workspace_step e s)) = w_assets (ww_db s) \<and> ww_objects (workspace_step e s) = ww_objects s \<and>
      ww_queue (workspace_step e s) = ww_queue s"
    unfolding ChangeSetting
    by (auto simp: change_project_setting_def Let_def split: option.split setting_change.split
        dest!: settings_statement_assets(2) settings_statement_assets(3) settings_statement_assets(4))
  with sinv show ?thesis by (simp add: storage_inv_def safe_key_def live_keys_def)
qed (use sinv in \<open>auto simp: in_transaction_def op_defs Let_def split: option.split content_epoch_match.split prod.split
      dest: document_statement_assets settings_statement_assets intro!: storage_inv_same\<close>)

end
