(* ===== verification/Workspace_Sync.thy ===== *)
theory Workspace_Sync
  imports Workspace_Storage
begin

text \<open>
  What clients rely on when they synchronise documents: following the cursor of the incremental
  listing ends and misses no change, the revision of a document never goes back, and a replaced
  content is what the next snapshot reads.
\<close>

section \<open>Incremental listing\<close>

text \<open>All documents of a project that changed after a cursor, in the order of the changes.\<close>

definition changed_after :: "uuid \<Rightarrow> int option \<Rightarrow> workspace_db \<Rightarrow> document_row list" where
  "changed_after pid cursor w =
     sort_key dc_change_sequence (filter (\<lambda>d. dc_project_id d = pid \<and> (case cursor of None \<Rightarrow> 0 | Some c \<Rightarrow> c) < dc_change_sequence d) (w_documents w))"

text \<open>A client that asks for pages until there are no more.\<close>

fun fetch_changes :: "nat \<Rightarrow> uuid \<Rightarrow> int option \<Rightarrow> workspace_db \<Rightarrow> document_row list option" where
  "fetch_changes 0 pid cursor w = None"
| "fetch_changes (Suc n) pid cursor w =
     (let page = list_documents_after pid cursor w in
      if dp_has_more page then map_option (append (dp_documents page)) (fetch_changes n pid (dp_cursor page) w)
      else Some (dp_documents page))"

lemma filter_greater_sorted:
  "sorted_wrt (<) (map q xs) \<Longrightarrow> n < length xs \<Longrightarrow> filter (\<lambda>x. (q (xs ! n) :: int) < q x) xs = drop (Suc n) xs"
proof (induction xs arbitrary: n)
  case (Cons x xs)
  show ?case
  proof (cases n)
    case 0
    with Cons.prems show ?thesis by (auto simp: filter_id_conv)
  next
    case (Suc m)
    then have "m < length xs" using Cons.prems by simp
    then have "q x < q (xs ! m)" using Cons.prems by simp
    moreover have "filter (\<lambda>x. q (xs ! m) < q x) xs = drop (Suc m) xs" using Cons \<open>m < length xs\<close> by simp
    ultimately show ?thesis using Suc by simp
  qed
qed simp

lemma changed_after_sorted:
  assumes "workspace_inv w"
  shows "sorted_wrt (<) (map dc_change_sequence (changed_after pid cursor w))"
proof -
  have "distinct (map dc_change_sequence (w_documents w))" using assms by (simp add: workspace_inv_def documents_ok_def)
  then have "distinct (map dc_change_sequence (filter P (w_documents w)))" for P by (simp add: distinct_map_filter)
  then have "distinct (map dc_change_sequence (changed_after pid cursor w))"
    by (simp add: changed_after_def distinct_map)
  moreover have "sorted (map dc_change_sequence (changed_after pid cursor w))" by (simp add: changed_after_def)
  ultimately show ?thesis by (simp add: strict_sorted_iff)
qed

lemma changed_after_next:
  assumes "workspace_inv w" and "n < length (changed_after pid cursor w)"
  shows "changed_after pid (Some (dc_change_sequence (changed_after pid cursor w ! n))) w = drop (Suc n) (changed_after pid cursor w)"
proof -
  let ?L = "changed_after pid cursor w" and ?c = "dc_change_sequence (changed_after pid cursor w ! n)"
  let ?start = "case cursor of None \<Rightarrow> 0 | Some c \<Rightarrow> c"
  have "\<forall>d \<in> set ?L. ?start < dc_change_sequence d" by (simp add: changed_after_def)
  with nth_mem [OF assms(2)] have "?start < ?c" by blast
  then have "filter (\<lambda>d. dc_project_id d = pid \<and> ?c < dc_change_sequence d) (w_documents w) =
      filter (\<lambda>d. ?c < dc_change_sequence d) (filter (\<lambda>d. dc_project_id d = pid \<and> ?start < dc_change_sequence d) (w_documents w))"
    by (auto intro: filter_cong)
  then have "changed_after pid (Some ?c) w = filter (\<lambda>d. ?c < dc_change_sequence d) ?L"
    by (simp add: changed_after_def filter_sort)
  also have "\<dots> = drop (Suc n) ?L" by (rule filter_greater_sorted [OF changed_after_sorted [OF assms(1)] assms(2)])
  finally show ?thesis .
qed

lemma list_documents_after_changed:
  "list_documents_after pid cursor w =
     (let L = changed_after pid cursor w; page = take document_page_size L in
      \<lparr>dp_documents = page, dp_cursor = (if page = [] then None else Some (dc_change_sequence (last page))),
       dp_has_more = document_page_size < length L\<rparr>)"
  by (auto simp: list_documents_after_def list_after_change_sequence_def changed_after_def Let_def min_def)

lemma fetch_changes_complete:
  assumes inv: "workspace_inv w"
  shows "length (changed_after pid cursor w) \<le> n * document_page_size \<Longrightarrow>
    fetch_changes (Suc n) pid cursor w = Some (changed_after pid cursor w)"
proof (induction n arbitrary: cursor)
  case 0
  then show ?case by (simp add: list_documents_after_changed Let_def document_page_size_def)
next
  case (Suc n)
  let ?L = "changed_after pid cursor w"
  show ?case
  proof (cases "document_page_size < length ?L")
    case False
    then show ?thesis by (simp add: list_documents_after_changed Let_def)
  next
    case True
    have pos: "document_page_size = Suc 499" by (simp add: document_page_size_def)
    have len: "499 < length ?L" using True pos by simp
    let ?page = "list_documents_after pid cursor w"
    have ne: "take document_page_size ?L \<noteq> []" using True pos by (cases ?L) auto
    have last: "last (take document_page_size ?L) = ?L ! 499" using len ne unfolding pos by (simp add: last_conv_nth)
    have page: "dp_documents ?page = take document_page_size ?L" "dp_has_more ?page"
      "dp_cursor ?page = Some (dc_change_sequence (?L ! 499))"
      using True ne last by (simp_all add: list_documents_after_changed Let_def)
    have rest: "changed_after pid (Some (dc_change_sequence (?L ! 499))) w = drop document_page_size ?L"
      unfolding pos by (rule changed_after_next [OF inv len])
    have "fetch_changes (Suc n) pid (Some (dc_change_sequence (?L ! 499))) w = Some (drop document_page_size ?L)"
      unfolding rest [symmetric] using Suc.prems by (intro Suc.IH) (simp add: rest)
    then show ?thesis
      unfolding fetch_changes.simps(2) [of "Suc n"] Let_def page(1,3) using page(2) by (simp del: fetch_changes.simps)
  qed
qed

section \<open>The history of a document\<close>

text \<open>A document that is there afterwards was there before, and the two rows are related.\<close>

definition keeps_rows :: "(document_row \<Rightarrow> document_row \<Rightarrow> bool) \<Rightarrow> uuid \<Rightarrow> workspace_db \<Rightarrow> workspace_db \<Rightarrow> bool" where
  "keeps_rows R i w w' \<longleftrightarrow>
     (\<forall>d' \<in> set (w_documents w'). dc_id d' = i \<longrightarrow> (\<exists>d \<in> set (w_documents w). dc_id d = i \<and> R d d'))"

definition live :: "uuid \<Rightarrow> workspace_db \<Rightarrow> bool" where
  "live i w \<longleftrightarrow> i \<in> dc_id ` set (w_documents w)"

text \<open>The identifiers an operation may give to new documents.\<close>

fun new_ids :: "workspace_event \<Rightarrow> uuid set" where
  "new_ids (CreateProject fresh g) = range fresh"
| "new_ids (ReplaceContent fresh c) = range fresh"
| "new_ids (CreateDocument env pid path content actor guest) = {sv_id env}"
| "new_ids (UpsertDocument env pid path content epoch actor guest) = {sv_id env}"
| "new_ids (CreateFile env pid path kind content ct is_text actor guest) = {sv_id env}"
| "new_ids _ = {}"

fun is_replacement :: "workspace_event \<Rightarrow> bool" where
  "is_replacement (ReplaceContent fresh r) = True"
| "is_replacement _ = False"

fun is_projection :: "workspace_event \<Rightarrow> bool" where
  "is_projection (ProjectContent pid i cr content now) = True"
| "is_projection _ = False"

lemma mark_project_dirty_documents [simp]: "w_documents (mark_project_dirty pid a g w) = w_documents w"
  by (simp add: mark_project_dirty_def advance_workspace_version_def Let_def)

text \<open>A relation that the two writes of a document, an overwrite and a move, respect.\<close>

locale document_history =
  fixes R :: "document_row \<Rightarrow> document_row \<Rightarrow> bool"
  assumes R_refl: "R d d"
    and R_trans: "R a b \<Longrightarrow> R b c \<Longrightarrow> R a c"
    and R_overwrite: "R d (overwrite_document content now n d)"
    and R_move: "R d (d\<lparr>dc_path := path, dc_path_revision := pr, dc_change_sequence := n, dc_updated_at := now\<rparr>)"
begin

lemma keeps_refl [simp]: "keeps_rows R i w w"
  by (auto simp: keeps_rows_def intro: R_refl)

lemma keeps_trans: "keeps_rows R i a b \<Longrightarrow> keeps_rows R i b c \<Longrightarrow> keeps_rows R i a c"
  unfolding keeps_rows_def by (meson R_trans)

lemma keeps_same: "w_documents w' = w_documents w \<Longrightarrow> keeps_rows R i w w'"
  by (auto simp: keeps_rows_def intro: R_refl)

lemma keeps_then_same: "keeps_rows R i w w1 \<Longrightarrow> w_documents w' = w_documents w1 \<Longrightarrow> keeps_rows R i w w'"
  by (simp add: keeps_rows_def)

lemma keeps_update:
  assumes "w_documents w' = update_where P f (w_documents w)"
    and "\<And>d. dc_id (f d) = dc_id d" "\<And>d. R d (f d)"
  shows "keeps_rows R i w w'"
  using assms(2,3) R_refl by (fastforce simp: keeps_rows_def assms(1) in_update_where split: if_splits)

lemma keeps_overwrite: "w_documents w' = update_where P (overwrite_document content now n) (w_documents w) \<Longrightarrow> keeps_rows R i w w'"
  by (erule keeps_update) (simp_all add: R_overwrite)

lemma keeps_delete: "w_documents w' = delete_where P (w_documents w) \<Longrightarrow> keeps_rows R i w w'"
  by (auto simp: keeps_rows_def intro: R_refl)

text \<open>A new row never takes the identifier of a row that is there.\<close>

lemma keeps_insert:
  "document_insert j pid path content now w = Some (d, w') \<Longrightarrow> i \<noteq> j \<or> live i w \<Longrightarrow> keeps_rows R i w w' \<and> (live i w \<longrightarrow> live i w')"
  by (auto simp: keeps_rows_def live_def document_insert_def new_document_def document_conflict_def Let_def
      split: if_splits option.splits intro!: bexI R_refl)

lemma keeps_upsert:
  "document_upsert j pid path content now w = Some (d, w') \<Longrightarrow> i \<noteq> j \<or> live i w \<Longrightarrow> keeps_rows R i w w'"
  by (auto simp: document_upsert_def split: option.splits dest: keeps_insert intro: keeps_overwrite)

lemma keeps_update_content: "update_content pid j pr cr content now w = Some (d, w') \<Longrightarrow> keeps_rows R i w w'"
  by (auto simp: update_content_def Let_def split: option.splits intro: keeps_overwrite)

lemma keeps_move: "move_subtree pid source target now w = Some (c, w') \<Longrightarrow> keeps_rows R i w w'"
proof -
  assume "move_subtree pid source target now w = Some (c, w')"
  then obtain docs n where docs: "update_numbered (\<lambda>d. dc_project_id d = pid \<and> sql_in_subtree (dc_path d) source)
      (\<lambda>n d. d\<lparr>dc_path := sql_moved source target (dc_path d), dc_path_revision := dc_path_revision d + 1,
                      dc_change_sequence := n, dc_updated_at := now\<rparr>) (w_next_sequence w) (w_documents w) = (docs, n)"
    and w': "w_documents w' = docs"
    by (auto simp: move_subtree_def Let_def split: option.splits prod.splits)
  show ?thesis
    unfolding keeps_rows_def w' using update_numbered_row [OF docs] R_refl R_move by fastforce
qed

lemma keeps_insert_documents:
  "insert_documents fresh k pid now ds w = Some w' \<Longrightarrow> (\<forall>j. fresh j \<noteq> i) \<or> live i w \<Longrightarrow> keeps_rows R i w w'"
proof (induction ds arbitrary: k w)
  case Nil
  then show ?case by simp
next
  case (Cons d ds)
  then obtain e w1 where ins: "document_insert (fresh k) pid (wd_path d) (wd_content d) now w = Some (e, w1)"
    and go: "insert_documents fresh (k + 1) pid now ds w1 = Some w'" by (auto split: option.splits)
  have "i \<noteq> fresh k \<or> live i w" using Cons.prems(2) by auto
  note one = keeps_insert [OF ins this]
  have "(\<forall>j. fresh j \<noteq> i) \<or> live i w1" using one Cons.prems(2) by auto
  from keeps_trans [OF conjunct1 [OF one] Cons.IH [OF go this]] show ?case .
qed

lemma keeps_dirty [simp]: "keeps_rows R i w (mark_project_dirty pid a g w') = keeps_rows R i w w'"
  by (simp add: keeps_rows_def)

lemma keeps_create_project:
  assumes "create_project_graph fresh g w = Some w'" and "(\<forall>j. fresh j \<noteq> i) \<or> live i w"
  shows "keeps_rows R i w w'"
proof -
  obtain p w1 w2 w3 where
    w1: "settings_insert (cg_project_id g) (cg_entry_file_path g) (cg_latex_engine g) (cg_created_at g) (w\<lparr>w_projects := p\<rparr>) = Some w1"
    and w2: "insert_directories (cg_project_id g) (cg_created_at g) (cg_directories g) w1 = Some w2"
    and w3: "insert_documents fresh 0 (cg_project_id g) (cg_created_at g) (cg_documents g) w2 = Some w3"
    and w': "insert_assets (cg_project_id g) (Some (cg_owner_user_id g)) (cg_created_at g) (cg_assets g) w3 = Some w'"
    using assms(1) by (auto simp: create_project_graph_def Let_def split: option.splits)
  have "w_documents w2 = w_documents w"
    using settings_statement_documents(1) [OF w1] insert_directories_tables [OF w2] by simp
  then have "keeps_rows R i w w2" and "live i w2 = live i w" by (simp_all add: keeps_same live_def)
  then have "keeps_rows R i w w3" using keeps_trans keeps_insert_documents [OF w3] assms(2) by metis
  then show ?thesis by (rule keeps_then_same) (use insert_assets_tables [OF w'] in simp)
qed

lemma keeps_replace:
  assumes "replace_project_content fresh c w = Some (r, w')" and "\<forall>j. fresh j \<noteq> i"
  shows "keeps_rows R i w w'"
  using assms(1)
proof (cases rule: replace_project_content_parts)
  case (replaced p w1 w2 w3)
  obtain v1 v2 where v1: "insert_documents fresh 0 (rp_project_id c) (rp_updated_at c) (rp_documents c) (delete_content (rp_project_id c) w1) = Some v1"
    and v2: "insert_assets (rp_project_id c) (rp_asset_uploaded_by c) (rp_updated_at c) (rp_assets c) v1 = Some v2"
    and v3: "insert_directories (rp_project_id c) (rp_updated_at c) (rp_directories c) v2 = Some w2"
    using replaced(4) by (auto simp: insert_content_def split: option.splits)
  have "keeps_rows R i w (delete_content (rp_project_id c) w1)"
    using settings_statement_documents(2) [OF replaced(3)]
    by (intro keeps_delete [where P = "\<lambda>d. dc_project_id d = rp_project_id c"]) (simp add: delete_content_def)
  then have "keeps_rows R i w v1" by (rule keeps_trans) (rule keeps_insert_documents [OF v1 disjI1 [OF assms(2)]])
  then show ?thesis
    by (rule keeps_then_same)
      (use insert_assets_tables [OF v2] insert_directories_tables [OF v3] settings_statement_documents(3) [OF replaced(5)] replaced(6)
       in \<open>simp add: advance_generation_def\<close>)
qed simp

lemma keeps_persist:
  assumes "persist_prepared env pid path f w = Some (changed, replaced, w')" and "sv_id env \<noteq> i \<or> live i w"
  shows "keeps_rows R i w w'"
proof (cases f)
  case Directory_prepared
  then obtain b where "insert_directory pid path (sv_now env) w = Some (b, w')" using assms(1) by auto
  then show ?thesis by (intro keeps_same) (simp add: insert_directory_tables)
next
  case (Text_prepared content)
  then obtain d w1 where up: "document_upsert (sv_id env) pid path content (sv_now env) w = Some (d, w1)"
    and w': "w' = delete_asset_at_path pid path w1" using assms(1) by (auto split: option.splits)
  show ?thesis
    by (rule keeps_then_same [OF keeps_upsert [OF up]]) (use assms(2) in \<open>auto simp: w' delete_asset_at_path_def\<close>)
next
  case (Asset_prepared a)
  then obtain d w1 where up: "asset_upsert a w = Some (d, w1)"
    and w': "w' = delete_document_at_path pid path w1" using assms(1) by (auto split: option.splits)
  show ?thesis
    by (rule keeps_delete [where P = "\<lambda>d. dc_project_id d = pid \<and> dc_path d = path"])
      (use asset_upsert_tables [OF up] in \<open>simp add: w' delete_document_at_path_def\<close>)
qed

lemma keeps_step:
  assumes "i \<notin> new_ids e \<or> (live i (ww_db s) \<and> \<not> is_replacement e)" and "\<not> is_projection e"
  shows "keeps_rows R i (ww_db s) (ww_db (workspace_step e s))"
proof (cases e)
  case (CreateProject fresh g)
  with assms have "(\<forall>j. fresh j \<noteq> i) \<or> live i (ww_db s)" by auto
  with CreateProject keeps_create_project [of fresh g "ww_db s" _ i] show ?thesis
    by (auto simp: in_transaction_def split: option.split)
next
  case (ReplaceContent fresh c)
  with assms have "\<forall>j. fresh j \<noteq> i" by auto
  with ReplaceContent keeps_replace [of fresh c "ww_db s" _ _ i] show ?thesis by (auto simp: in_transaction_def split: option.split)
next
  case (CreateFile env pid path kind content ct is_text actor guest)
  obtain r s1 where prep: "prepare_file env pid path kind content ct is_text actor s = (r, s1)"
    by (cases "prepare_file env pid path kind content ct is_text actor s")
  with CreateFile assms keeps_persist [of env pid path _ "ww_db s" _ _ _ i] prepare_file_db [OF prep] show ?thesis
    by (auto simp: create_project_file_def Let_def split: sum.split option.split)
next
  case (MoveFile env pid source target actor guest)
  then show ?thesis
    by (auto simp: move_project_file_def Let_def follow_entry_def split: option.split
        dest!: keeps_move [where i = i] settings_statement_documents(2,3) intro: keeps_then_same)
next
  case (ChangeSetting pid change actor now)
  then show ?thesis
    by (auto simp: change_project_setting_def Let_def split: option.split setting_change.split
        dest!: settings_statement_documents(2-4) intro: keeps_same)
next
  case (UploadAsset env pid path ct content actor guest)
  then show ?thesis
    by (cases rule: upload_project_asset_cases [of content env pid path ct actor guest s])
      (auto dest: asset_upsert_tables intro: keeps_same)
next
  case (DeleteFile env pid path actor guest)
  then show ?thesis
    by (auto simp: delete_project_file_def delete_subtree_def Let_def split: option.split intro: keeps_delete)
next
  case (DeleteDocument pid j actor guest)
  then show ?thesis
    by (auto simp: delete_document_def delete_document_by_id_def Let_def split: option.split intro: keeps_delete)
qed (use assms in \<open>auto simp: in_transaction_def op_defs delete_asset_by_id_def Let_def split: option.split content_epoch_match.split prod.split
      dest: keeps_insert [where i = i] keeps_upsert [where i = i] keeps_update_content [where i = i]
        settings_statement_documents intro: keeps_same\<close>)

end

text \<open>A relation that the projection of a collaboration room respects too holds along every run.\<close>

locale projected_history = document_history +
  assumes R_projected: "R d (d\<lparr>dc_content := content, dc_updated_at := now, dc_change_sequence := n\<rparr>)"
begin

lemma keeps_projected: "update_projected_content pid j cr content now w = Some (d, w') \<Longrightarrow> keeps_rows R i w w'"
  by (auto simp: update_projected_content_def Let_def split: option.splits
      intro!: keeps_update [where f = "\<lambda>d. d\<lparr>dc_content := content, dc_updated_at := now, dc_change_sequence := w_next_sequence w\<rparr>"]
        R_projected)

lemma keeps_any_step: "i \<notin> new_ids e \<Longrightarrow> keeps_rows R i (ww_db s) (ww_db (workspace_step e s))"
  by (cases "is_projection e", cases e) (auto simp: in_transaction_def keeps_step split: option.split dest: keeps_projected [where i = i])

lemma keeps_run: "list_all (\<lambda>e. i \<notin> new_ids e) es \<Longrightarrow> keeps_rows R i (ww_db s) (ww_db (run_events workspace_step es s))"
  by (induction es arbitrary: s) (auto intro: keeps_trans keeps_any_step)

end

text \<open>The collaboration revision never goes back; as long as it stays, so do the project and, projections apart, the text.\<close>

definition later_revision :: "document_row \<Rightarrow> document_row \<Rightarrow> bool" where
  "later_revision d d' \<longleftrightarrow> dc_collaboration_revision d \<le> dc_collaboration_revision d'"

definition same_text :: "document_row \<Rightarrow> document_row \<Rightarrow> bool" where
  "same_text d d' \<longleftrightarrow> dc_project_id d' = dc_project_id d \<and>
     (dc_collaboration_revision d < dc_collaboration_revision d' \<or>
      (dc_collaboration_revision d' = dc_collaboration_revision d \<and> dc_content d' = dc_content d))"

interpretation rev: projected_history later_revision
  by unfold_locales (simp_all add: later_revision_def overwrite_document_def)

interpretation same: document_history same_text
  by unfold_locales (auto simp: same_text_def overwrite_document_def)

section \<open>Replacement and snapshot\<close>

text \<open>What the rows of a project are after an insertion.\<close>

lemma insert_documents_rows:
  "insert_documents fresh k pid now ds w = Some w' \<Longrightarrow>
   map (\<lambda>d. (dc_path d, dc_content d)) (filter (\<lambda>d. dc_project_id d = q) (w_documents w')) =
   map (\<lambda>d. (dc_path d, dc_content d)) (filter (\<lambda>d. dc_project_id d = q) (w_documents w)) @
   (if q = pid then map (\<lambda>d. (wd_path d, wd_content d)) ds else []) \<and> w_assets w' = w_assets w \<and> w_directories w' = w_directories w"
proof (induction ds arbitrary: k w)
  case Nil
  then show ?case by simp
next
  case (Cons d ds)
  then obtain e w1 where ins: "document_insert (fresh k) pid (wd_path d) (wd_content d) now w = Some (e, w1)"
    and go: "insert_documents fresh (k + 1) pid now ds w1 = Some w'" by (auto split: option.splits)
  have "w_documents w1 = w_documents w @ [new_document (fresh k) pid (wd_path d) (wd_content d) now (w_next_sequence w)]"
    "w_assets w1 = w_assets w" "w_directories w1 = w_directories w"
    using ins by (auto simp: document_insert_def Let_def split: if_splits option.splits)
  with Cons.IH [OF go] show ?case by (auto simp: new_document_def)
qed

lemma insert_assets_rows:
  "insert_assets pid by now as w = Some w' \<Longrightarrow>
   filter (\<lambda>a. as_project_id a = q) (w_assets w') =
   filter (\<lambda>a. as_project_id a = q) (w_assets w) @ (if q = pid then map (asset_of pid by now) as else []) \<and>
   w_documents w' = w_documents w \<and> w_directories w' = w_directories w"
proof (induction as arbitrary: w)
  case Nil
  then show ?case by simp
next
  case (Cons a as)
  then have "insert_assets pid by now as (w\<lparr>w_assets := w_assets w @ [asset_of pid by now a]\<rparr>) = Some w'"
    by (auto split: option.splits)
  from Cons.IH [OF this] show ?case by (auto simp: asset_of_def)
qed

lemma insert_directories_rows:
  "insert_directories pid now ps w = Some w' \<Longrightarrow>
   map dr_path (filter (\<lambda>d. dr_project_id d = q) (w_directories w')) =
   map dr_path (filter (\<lambda>d. dr_project_id d = q) (w_directories w)) @ (if q = pid then ps else [])"
proof (induction ps arbitrary: w)
  case Nil
  then show ?case by simp
next
  case (Cons p ps)
  then have "insert_directories pid now ps (w\<lparr>w_directories := w_directories w @ [\<lparr>dr_project_id = pid, dr_path = p, dr_created_at = now\<rparr>]\<rparr>) = Some w'"
    by (auto split: option.splits)
  from Cons.IH [OF this] show ?case by auto
qed

lemma insert_content_rows:
  assumes "insert_content fresh c w = Some w'"
  defines "pid \<equiv> rp_project_id c"
  shows "map (\<lambda>d. (dc_path d, dc_content d)) (filter (\<lambda>d. dc_project_id d = q) (w_documents w')) =
     map (\<lambda>d. (dc_path d, dc_content d)) (filter (\<lambda>d. dc_project_id d = q) (w_documents w)) @
     (if q = pid then map (\<lambda>d. (wd_path d, wd_content d)) (rp_documents c) else [])" (is ?docs)
    and "filter (\<lambda>a. as_project_id a = q) (w_assets w') = filter (\<lambda>a. as_project_id a = q) (w_assets w) @
     (if q = pid then map (asset_of pid (rp_asset_uploaded_by c) (rp_updated_at c)) (rp_assets c) else [])" (is ?assets)
    and "map dr_path (filter (\<lambda>d. dr_project_id d = q) (w_directories w')) =
     map dr_path (filter (\<lambda>d. dr_project_id d = q) (w_directories w)) @ (if q = pid then rp_directories c else [])" (is ?dirs)
proof -
  obtain v1 v2 where v1: "insert_documents fresh 0 pid (rp_updated_at c) (rp_documents c) w = Some v1"
    and v2: "insert_assets pid (rp_asset_uploaded_by c) (rp_updated_at c) (rp_assets c) v1 = Some v2"
    and v3: "insert_directories pid (rp_updated_at c) (rp_directories c) v2 = Some w'"
    using assms by (auto simp: insert_content_def split: option.splits)
  note rows = insert_documents_rows [OF v1, of q] insert_assets_rows [OF v2, of q] insert_directories_rows [OF v3, of q]
    insert_directories_tables [OF v3]
  show ?docs ?assets ?dirs using rows by auto
qed

lemma find_project_update:
  assumes "find_project pid w = Some p" and "\<And>p. pr_id (f p) = pr_id p"
  shows "find_project pid (w\<lparr>w_projects := update_where (\<lambda>p. pr_id p = pid) f (w_projects w)\<rparr>) = Some (f p)"
proof -
  have "find (\<lambda>p. pr_id p = pid) (update_where (\<lambda>p. pr_id p = pid) f (w_projects w)) =
      map_option (\<lambda>p. if pr_id p = pid then f p else p) (find (\<lambda>p. pr_id p = pid) (w_projects w))"
    by (rule find_update_same) (simp add: assms)
  with assms(1) show ?thesis by (auto simp: find_project_def dest: find_Some_set)
qed

lemma snapshot_of_tables:
  assumes "find_project pid w = Some p"
  shows "\<exists>sn. lock_project_content_snapshot pid w = Some sn \<and>
     sn_workspace_version sn = pr_workspace_version p \<and> sn_content_epoch sn = pr_content_epoch p \<and>
     sn_project_type sn = pr_project_type p \<and>
     Some (sn_entry_file_path sn) = map_option ep_entry_file_path (find_project_entry_point pid w) \<and>
     sn_documents sn = map (\<lambda>d. (dc_path d, dc_content d)) (filter (\<lambda>d. dc_project_id d = pid) (w_documents w)) \<and>
     sn_assets sn = map snapshot_asset (filter (\<lambda>a. as_project_id a = pid) (w_assets w)) \<and>
     sn_directories sn = sort (map dr_path (filter (\<lambda>d. dr_project_id d = pid) (w_directories w)))"
  using assms by (simp add: lock_project_content_snapshot_def find_project_entry_point_def)

end
