(* ===== verification/Workspace_Properties.thy ===== *)
theory Workspace_Properties
  imports Workspace_Sync "HOL-Library.Code_Target_Numeral"
begin

text \<open>
  The properties of the Workspace, on every run of its operations from the empty database, with
  witnesses on a small run: a project with a main file, an uploaded image that is replaced, a move.
\<close>

section \<open>An example run\<close>

definition ex_service :: "uuid \<Rightarrow> service_env" where
  "ex_service n = \<lparr>sv_storage = True, sv_put_ok = (\<lambda>_. True), sv_delete_ok = (\<lambda>_. True), sv_pinned = (\<lambda>_. False),
     sv_now = 1000000, sv_id = n, sv_revision = n, sv_show = (\<lambda>i. replicate i (CHR ''u''))\<rparr>"

definition ex_graph :: create_graph where
  "ex_graph = \<lparr>cg_project_id = 1, cg_owner_user_id = 2, cg_name = ''slides'', cg_project_type = Typst,
     cg_entry_file_path = ''src/main.typ'', cg_latex_engine = None, cg_directories = [''src''],
     cg_documents = [\<lparr>wd_path = ''src/main.typ'', wd_content = ''= Hi''\<rparr>], cg_assets = [], cg_created_at = 0\<rparr>"

definition ex_create :: workspace_event where "ex_create = CreateProject (\<lambda>k. 10 + k) ex_graph"

definition ex_files :: "workspace_event list" where
  "ex_files =
     [UploadAsset (ex_service 3) 1 ''src/logo.png'' ''image/png'' ''png'' None None,
      UploadAsset (ex_service 4) 1 ''src/logo.png'' ''image/png'' ''new'' None None,
      MoveFile (ex_service 5) 1 ''src'' ''deck'' None None,
      DeleteDocument 1 10 None None,
      CleanupTurn (ex_service 6) (\<lambda>_. False) 2000000]"

fun admissible :: "workspace_event list \<Rightarrow> workspace_world \<Rightarrow> bool" where
  "admissible [] s = True"
| "admissible (e # es) s = (fresh_keys e s \<and> admissible es (workspace_step e s))"

lemma storage_run:
  "workspace_inv (ww_db s) \<Longrightarrow> storage_inv s \<Longrightarrow> admissible es s \<Longrightarrow> storage_inv (run_events workspace_step es s)"
  by (induction es arbitrary: s) (auto intro: storage_step ws.inv_step)

lemma storage_start: "storage_inv empty_world"
  by (simp add: storage_inv_def live_keys_def empty_world_def empty_workspace_def)

section \<open>Properties\<close>

text \<open>
  C9. A project never loses its main file: once a project was created with an entry file that is one of
  its documents and fits its type, then after any sequence of operations of anybody (documents written,
  files created, moved and deleted, settings changed, contents replaced, also concurrently in other
  projects) its entry point still names a document of the project with a name of the right type. The
  condition on the events is what the HTTP handler of file creation computes.
\<close>

theorem entry_file_kept:
  assumes "accepts_entry_file_path (cg_project_type g) (cg_entry_file_path g)"
    and "cg_entry_file_path g \<in> wd_path ` set (cg_documents g)"
    and "create_project_graph fresh g (ww_db (run_events workspace_step before empty_world)) = Some w"
    and "list_all checked_event after"
  shows "\<exists>e. find_project_entry_point (cg_project_id g)
            (ww_db (run_events workspace_step (before @ CreateProject fresh g # after) empty_world)) = Some e \<and>
         accepts_entry_file_path (ep_project_type e) (ep_entry_file_path e) \<and>
         document_exists (cg_project_id g) (ep_entry_file_path e)
            (ww_db (run_events workspace_step (before @ CreateProject fresh g # after) empty_world))"
proof -
  let ?s = "run_events workspace_step before empty_world"
  let ?s1 = "workspace_step (CreateProject fresh g) ?s"
  have db: "ww_db ?s1 = w" using assms(3) by (simp add: in_transaction_def)
  have "entry_ok (cg_project_id g) (ww_db ?s1)" unfolding db by (rule entry_ok_created [OF assms(3,1,2)])
  moreover have "workspace_inv (ww_db ?s1)" by (rule ws.inv_step [OF ws.inv_run])
  ultimately have "entry_ok (cg_project_id g) (ww_db (run_events workspace_step after ?s1))"
    by (intro entry_ok_run assms(4))
  then show ?thesis by (auto simp: entry_ok_def run_events_append split: option.splits)
qed

theorem entry_file_kept_witness:
  "\<exists>e. find_project_entry_point 1 (ww_db (run_events workspace_step ([] @ ex_create # ex_files) empty_world)) = Some e \<and>
     accepts_entry_file_path (ep_project_type e) (ep_entry_file_path e) \<and>
     document_exists 1 (ep_entry_file_path e) (ww_db (run_events workspace_step ([] @ ex_create # ex_files) empty_world))"
proof -
  have pid: "cg_project_id ex_graph = 1" by (simp add: ex_graph_def)
  have acc: "accepts_entry_file_path (cg_project_type ex_graph) (cg_entry_file_path ex_graph)" by code_simp
  have doc: "cg_entry_file_path ex_graph \<in> wd_path ` set (cg_documents ex_graph)" by (simp add: ex_graph_def)
  have "create_project_graph (\<lambda>k. 10 + k) ex_graph (ww_db (run_events workspace_step [] empty_world)) \<noteq> None" by code_simp
  then obtain w where w: "create_project_graph (\<lambda>k. 10 + k) ex_graph (ww_db (run_events workspace_step [] empty_world)) = Some w" by blast
  have "list_all checked_event ex_files" by (simp add: ex_files_def)
  from entry_file_kept [OF acc doc w this] show ?thesis by (simp only: pid ex_create_def)
qed



text \<open>The tables of a move that succeeded.\<close>

lemma move_project_file_Inr:
  assumes "move_project_file env pid source target actor guest s = (Inr u, s')"
  obtains counts w where "move_subtree pid source target (sv_now env) (ww_db s) = Some (counts, w)"
    "w_documents (ww_db s') = w_documents w" "w_assets (ww_db s') = w_assets w" "w_directories (ww_db s') = w_directories w"
proof -
  have follow: "w_documents w' = w_documents w \<and> w_assets w' = w_assets w \<and> w_directories w' = w_directories w"
    if "follow_entry pid pt m now w = Some w'" for pt m now w w'
    using that by (auto simp: follow_entry_def settings_ensure_def settings_insert_def update_entry_file_path_def split: option.splits if_splits)
  show thesis
    using assms that
    by (fastforce simp: move_project_file_def mark_project_dirty_def advance_workspace_version_def Let_def
        split: if_splits option.splits dest: follow)
qed

lemma project_tree_tables:
  "w_documents w' = w_documents w \<Longrightarrow> w_assets w' = w_assets w \<Longrightarrow> w_directories w' = w_directories w \<Longrightarrow>
   project_tree pid w' = project_tree pid w"
  by (simp add: project_tree_def)

text \<open>
  C24. Moving a file or directory implements renaming in the file tree: in every reachable state, a move
  that succeeds gives the project exactly the tree in which every document (with its identity and
  content), asset and directory under the source is found under the target instead and everything
  else is where it was, and leaves the trees of all other projects as they are. The operation works
  by SQL updates of paths by prefix in three tables, each row checked against the unique keys.
\<close>

theorem move_refines_rename:
  assumes "move_project_file env pid source target actor guest (run_events workspace_step es empty_world) = (Inr u, s')"
  shows "project_tree q (ww_db s') =
    (if q = pid then rename_tree source target (project_tree q (ww_db (run_events workspace_step es empty_world)))
     else project_tree q (ww_db (run_events workspace_step es empty_world)))"
proof (rule move_project_file_Inr [OF assms])
  fix counts w
  assume mv: "move_subtree pid source target (sv_now env) (ww_db (run_events workspace_step es empty_world)) = Some (counts, w)"
    and "w_documents (ww_db s') = w_documents w" "w_assets (ww_db s') = w_assets w" "w_directories (ww_db s') = w_directories w"
  then have "project_tree q (ww_db s') = project_tree q w" by (intro project_tree_tables)
  then show ?thesis using move_subtree_refines [OF ws.inv_run mv] by simp
qed

theorem move_refines_rename_witness:
  "project_tree 1 (ww_db (snd (move_project_file (ex_service 5) 1 ''src'' ''deck'' None None (run_events workspace_step [ex_create] empty_world)))) =
   rename_tree ''src'' ''deck'' (project_tree 1 (ww_db (run_events workspace_step [ex_create] empty_world)))"
proof -
  let ?r = "move_project_file (ex_service 5) 1 ''src'' ''deck'' None None (run_events workspace_step [ex_create] empty_world)"
  have "(case fst ?r of Inr _ \<Rightarrow> True | Inl _ \<Rightarrow> False)" by code_simp
  then have "?r = (Inr (), snd ?r)" by (cases ?r) (auto split: sum.splits)
  from move_refines_rename [OF this, of 1] show ?thesis by simp
qed

text \<open>
  Deleting a file or directory: in every reachable state the deletion of a path is refused, with
  nothing changed, if and only if the entry file of the project is at or under the path; otherwise the
  tree of the project is exactly the old tree without what is at or under the path, and the
  trees of all other projects are as they were.
\<close>

theorem delete_refines_removal:
  "let s = run_events workspace_step es empty_world;
       blocked = (case find_project_entry_point pid (ww_db s) of None \<Rightarrow> False
                  | Some e \<Rightarrow> path_is_in_subtree (ep_entry_file_path e) path);
       r = delete_project_file env pid path actor guest s
   in r = (if blocked then (Inl EntryFileDeletion_file, s) else (Inr (), snd r)) \<and>
      project_tree q (ww_db (snd r)) =
        (if q = pid \<and> \<not> blocked then remove_tree path (project_tree q (ww_db s)) else project_tree q (ww_db s))"
proof -
  let ?s = "run_events workspace_step es empty_world"
  obtain counts keys w where del: "delete_subtree pid path (ww_db ?s) = (counts, keys, w)" by (cases "delete_subtree pid path (ww_db ?s)")
  note trees = delete_subtree_refines [OF ws.inv_run del]
  have "project_tree q (ww_db (snd (delete_project_file env pid path actor guest ?s))) = project_tree q w"
    if "\<not> (case find_project_entry_point pid (ww_db ?s) of None \<Rightarrow> False | Some e \<Rightarrow> path_is_in_subtree (ep_entry_file_path e) path)"
    using that del by (auto simp: delete_project_file_def Let_def project_tree_def mark_project_dirty_def advance_workspace_version_def)
  with trees show ?thesis by (simp add: Let_def) (auto simp: delete_project_file_def Let_def split: prod.split)
qed



text \<open>
  No lost updates: when an update of a document's content succeeds, an update that was prepared
  against the same collaboration revision is refused ever after and changes nothing, however many other
  operations come in between (as long as none of them gives the same UUID to a new document).
\<close>

lemma stale_update_refused:
  assumes "update_document env pid i epoch pr cr content actor guest (run_events workspace_step es empty_world) = (Inr d, s1)"
    and "list_all (\<lambda>e. i \<notin> new_ids e) es'"
  shows "\<exists>e. update_document env' pid i epoch' pr' cr content' actor' guest' (run_events workspace_step es' s1) =
      (Inl e, run_events workspace_step es' s1)"
proof -
  let ?s = "run_events workspace_step es empty_world" and ?s2 = "run_events workspace_step es' s1"
  let ?P = "\<lambda>d. dc_project_id d = pid \<and> dc_id d = i \<and> dc_path_revision d = pr \<and> dc_collaboration_revision d = cr"
  have inv: "workspace_inv (ww_db ?s)" by (rule ws.inv_run)
  then have ids: "distinct (map dc_id (w_documents (ww_db ?s)))" by (simp add: workspace_inv_def documents_ok_def)
  obtain w where up: "update_content pid i pr cr content (sv_now env) (ww_db ?s) = Some (d, w)"
    and s1: "ww_db s1 = mark_project_dirty pid actor guest w"
    using assms(1) by (auto simp: update_document_def split: content_epoch_match.splits option.splits)
  then obtain x where x: "x \<in> set (w_documents (ww_db ?s))" "?P x"
    and w: "w_documents w = update_where ?P (overwrite_document content (sv_now env) (w_next_sequence (ww_db ?s))) (w_documents (ww_db ?s))"
    by (auto simp: update_content_def Let_def split: option.splits dest!: find_Some_set)
  have above: "cr < dc_collaboration_revision y" if "y \<in> set (w_documents (ww_db s1))" "dc_id y = i" for y
  proof -
    from that s1 w obtain z where z: "z \<in> set (w_documents (ww_db ?s))"
      "y = (if ?P z then overwrite_document content (sv_now env) (w_next_sequence (ww_db ?s)) z else z)"
      by (auto simp: in_update_where)
    have "z = x" by (rule key_unique [OF ids z(1) x(1)]) (use z(2) that(2) x(2) in \<open>auto split: if_splits\<close>)
    with z x show ?thesis by simp
  qed
  have "keeps_rows later_revision i (ww_db s1) (ww_db ?s2)" by (rule rev.keeps_run [OF assms(2)])
  then have "cr < dc_collaboration_revision y" if "y \<in> set (w_documents (ww_db ?s2))" "dc_id y = i" for y
    using that above by (fastforce simp: keeps_rows_def later_revision_def)
  then have none: "update_content pid i pr' cr content' now' (ww_db ?s2) = None" for now'
    by (auto simp: update_content_def Let_def find_None_set split: option.split dest!: find_Some_set)
  show ?thesis by (auto simp: update_document_def none split: content_epoch_match.split)
qed

lemma stale_update_refused_witness:
  "\<exists>e. update_document (ex_service 8) 1 10 0 0 0 ''b'' None None
        (run_events workspace_step ex_files
          (snd (update_document (ex_service 7) 1 10 0 0 0 ''a'' None None (run_events workspace_step [ex_create] empty_world)))) =
      (Inl e, run_events workspace_step ex_files
          (snd (update_document (ex_service 7) 1 10 0 0 0 ''a'' None None (run_events workspace_step [ex_create] empty_world))))"
proof -
  let ?r = "update_document (ex_service 7) 1 10 0 0 0 ''a'' None None (run_events workspace_step [ex_create] empty_world)"
  have "(case fst ?r of Inr _ \<Rightarrow> True | Inl _ \<Rightarrow> False)" by code_simp
  then obtain d where "?r = (Inr d, snd ?r)" by (cases ?r) (auto split: sum.splits)
  moreover have "list_all (\<lambda>e. 10 \<notin> new_ids e) ex_files" by (simp add: ex_files_def)
  ultimately show ?thesis by (rule stale_update_refused)
qed

text \<open>
  C35. What is written is what is read: after the content of a project was replaced (by a restored
  revision, an import or an external repository), the snapshot that processing jobs, archives and
  revisions read holds exactly the new documents, assets, directories and entry file, with the version
  and epoch that the replacement reported.
\<close>

theorem replace_snapshot_roundtrip:
  assumes "replace_project_content fresh c w = Some (Replaced old v ep, w')"
  shows "\<exists>sn. lock_project_content_snapshot (rp_project_id c) w' = Some sn \<and>
     sn_workspace_version sn = v \<and> sn_content_epoch sn = ep \<and> sn_entry_file_path sn = rp_entry_file_path c \<and>
     sn_documents sn = map (\<lambda>d. (wd_path d, wd_content d)) (rp_documents c) \<and>
     sn_assets sn = map (\<lambda>a. (wa_path a, \<lparr>ca_object_key = wa_object_key a, ca_content_type = wa_content_type a,
       ca_inline_data = wa_inline_data a\<rparr>)) (rp_assets c) \<and>
     sn_directories sn = sort (rp_directories c)"
  using assms
proof (cases rule: replace_project_content_parts)
  case refused
  then show ?thesis by blast
next
  case (replaced p w1 w2 w3)
  let ?pid = "rp_project_id c"
  let ?w0 = "delete_content ?pid w1"
  have none: "filter (\<lambda>d. dc_project_id d = ?pid) (w_documents ?w0) = []" "filter (\<lambda>a. as_project_id a = ?pid) (w_assets ?w0) = []"
    "filter (\<lambda>d. dr_project_id d = ?pid) (w_directories ?w0) = []"
    by (simp_all add: delete_content_def delete_where_def)
  have same: "w_documents w' = w_documents w2" "w_assets w' = w_assets w2" "w_directories w' = w_directories w2"
    using replaced(5) by (auto simp: replaced(6) advance_generation_def update_entry_file_path_def split: if_splits)
  have "w_projects w3 = w_projects w"
    using settings_statement_projects(2) [OF replaced(3)] settings_statement_projects(3) [OF replaced(5)]
      insert_content_paths [OF replaced(4)] by (simp add: delete_content_def)
  then have p3: "find_project ?pid w3 = Some p" using replaced(1) by (simp add: find_project_def)
  have p': "find_project ?pid w' = Some (p\<lparr>pr_workspace_version := pr_workspace_version p + 1, pr_content_epoch := pr_content_epoch p + 1\<rparr>)"
    unfolding replaced(6) advance_generation_def by (rule find_project_update [OF p3]) simp
  have "find_project ?pid w2 = Some p" using p3 settings_statement_projects(3) [OF replaced(5)] by (simp add: find_project_def)
  then have "map_option ep_entry_file_path (find_project_entry_point ?pid w') = Some (rp_entry_file_path c)"
    using entry_point_update_entry(1) [OF replaced(5)] by (simp add: replaced(6) find_project_entry_point_def [of _ w2])
  moreover have "snapshot_asset (asset_of ?pid u t a) = (wa_path a, \<lparr>ca_object_key = wa_object_key a,
      ca_content_type = wa_content_type a, ca_inline_data = wa_inline_data a\<rparr>)" for u t a
    by (simp add: snapshot_asset_def asset_of_def)
  ultimately show ?thesis
    using snapshot_of_tables [OF p'] insert_content_rows [OF replaced(4), of ?pid] none same replaced(9)
    by (auto simp: comp_def)
qed

definition ex_replacement :: replace_content where
  "ex_replacement = \<lparr>rp_project_id = 1, rp_expected_workspace_version = Some 0,
     rp_documents = [\<lparr>wd_path = ''b.typ'', wd_content = ''B''\<rparr>, \<lparr>wd_path = ''a.typ'', wd_content = ''A''\<rparr>], rp_assets = [],
     rp_directories = [''z'', ''y''], rp_entry_file_path = ''b.typ'', rp_asset_uploaded_by = None, rp_updated_at = 5\<rparr>"

theorem replace_snapshot_roundtrip_witness:
  "\<exists>sn. lock_project_content_snapshot 1 (snd (the (replace_project_content (\<lambda>k. 20 + k) ex_replacement
          (ww_db (run_events workspace_step [ex_create] empty_world))))) = Some sn \<and>
     sn_workspace_version sn = 1 \<and> sn_content_epoch sn = 1 \<and> sn_entry_file_path sn = ''b.typ'' \<and>
     sn_documents sn = [(''b.typ'', ''B''), (''a.typ'', ''A'')] \<and> sn_assets sn = [] \<and> sn_directories sn = [''y'', ''z'']"
proof -
  let ?r = "replace_project_content (\<lambda>k. 20 + k) ex_replacement (ww_db (run_events workspace_step [ex_create] empty_world))"
  have "?r \<noteq> None \<and> fst (the ?r) = Replaced [] 1 1" by code_simp
  then have r: "?r = Some (Replaced [] 1 1, snd (the ?r))" by (metis option.collapse prod.collapse)
  have dirs: "sort [''z'', ''y''] = [''y'', ''z'' :: string]" by code_simp
  from replace_snapshot_roundtrip [OF r] show ?thesis by (simp add: ex_replacement_def dirs)
qed

end
