(* ===== verification/Worker_Input.thy ===== *)
theory Worker_Input
  imports Archive_Validation Worker_Claims "HOL-Library.Sublist"
begin

text \<open>
  What a worker does with a downloaded input: \<open>workers/processing-sdk/src/input.rs\<close>. The bytes are
  compared with the size and digest of the claim; a project bundle is unpacked into a fresh
  temporary directory, with every name, size and file type checked, and the result is compared
  with the manifest of the bundle.

  The temporary directory is a tree of files and directories. The ZIP reader, \<open>serde_json\<close>,
  SHA-256 and the hexadecimal codec are parameters, and so is \<open>in_refuses\<close>, the paths that the
  operating system refuses to create (a name that is too long, a full disk).
\<close>

section \<open>The materialisation directory\<close>

datatype fs_node = FS_dir | FS_file bytes

text \<open>
  Paths are lists of names below the project directory, which exists. The first entry of a path
  counts.
\<close>

type_synonym fs_tree = "(string list \<times> fs_node) list"

datatype input_error =
    SizeMismatch | DigestMismatch_input | Schema | Archive_input | UnsafePath_input | UnsupportedFileType
  | Limit_input | Manifest_input | ManifestMismatch_input | Io

definition path_prefixes :: "'a list \<Rightarrow> 'a list list" where
  "path_prefixes p = map (\<lambda>n. take n p) [1 ..< Suc (length p)]"

text \<open>\<open>fs::create_dir_all\<close>, from the outermost directory inwards.\<close>

fun make_dirs :: "(string list \<Rightarrow> bool) \<Rightarrow> string list list \<Rightarrow> fs_tree \<Rightarrow> input_error + fs_tree" where
  "make_dirs refuses [] t = Inr t"
| "make_dirs refuses (q # qs) t =
     (case map_of t q of
        Some FS_dir \<Rightarrow> make_dirs refuses qs t
      | Some (FS_file _) \<Rightarrow> Inl Io
      | None \<Rightarrow> if refuses q then Inl Io else make_dirs refuses qs ((q, FS_dir) # t))"

definition create_dir_all :: "(string list \<Rightarrow> bool) \<Rightarrow> string list \<Rightarrow> fs_tree \<Rightarrow> input_error + fs_tree" where
  "create_dir_all refuses p t = make_dirs refuses (path_prefixes p) t"

text \<open>\<open>File::create\<close>: a new, empty file, or an existing file truncated; its directory exists here.\<close>

definition create_file :: "(string list \<Rightarrow> bool) \<Rightarrow> string list \<Rightarrow> fs_tree \<Rightarrow> input_error + fs_tree" where
  "create_file refuses p t =
     (if map_of t p = Some FS_dir \<or> refuses p then Inl Io else Inr ((p, FS_file []) # t))"

definition read_file :: "fs_tree \<Rightarrow> string list \<Rightarrow> input_error + bytes" where
  "read_file t p = (case map_of t p of Some (FS_file d) \<Rightarrow> Inr d | _ \<Rightarrow> Inl Io)"

section \<open>Names and bounded reads\<close>

definition max_bundle_files :: nat where "max_bundle_files = 4096"
definition max_expanded_bytes :: int where "max_expanded_bytes = 256 * 1024 * 1024"
definition max_manifest_bytes_input :: int where "max_manifest_bytes_input = 4 * 1024 * 1024"
definition max_source_epoch :: int where "max_source_epoch = 253402300799"

definition safe_relative_path :: "string \<Rightarrow> bool" where
  "safe_relative_path value \<longleftrightarrow>
     value \<noteq> [] \<and> length value \<le> 1024 \<and> \<not> starts_with ''/'' value \<and> CHR 92 \<notin> set value \<and>
     \<not> chars_any char_is_control value \<and>
     list_all (\<lambda>component. component \<noteq> [] \<and> component \<noteq> ''.'' \<and> component \<noteq> ''..'') (split_on (CHR ''/'') value)"

definition safe_archive_name_input :: "string \<Rightarrow> bool" where
  "safe_archive_name_input name =
     (if name = [] \<or> starts_with ''/'' name \<or> CHR 92 \<in> set name \<or> CHR 0x00 \<in> set name \<or> contains_sub ''//'' name
      then False else safe_relative_path (strip_slash name))"

definition read_bounded_input :: "zip_entry \<Rightarrow> int \<Rightarrow> input_error + bytes" where
  "read_bounded_input e limit =
     (let n = min (limit + 1) u64_max in
      if int (length (ze_data e)) < n \<and> ze_broken e then Inl Io
      else let got = take (nat n) (ze_data e) in
           if limit < int (length got) then Inl Limit_input else Inr got)"

text \<open>
  \<open>copy_bounded\<close>: the loop over a buffer of 8192 bytes. It returns the number of bytes and what was
  written. A broken stream delivers its data and then fails.
\<close>

function copy_loop :: "int \<Rightarrow> bool \<Rightarrow> int \<Rightarrow> bytes \<Rightarrow> bytes \<Rightarrow> input_error + int \<times> bytes" where
  "copy_loop limit broken copied written data =
     (let chunk = take 8192 data in
      if chunk = [] then (if broken then Inl Io else Inr (copied, written))
      else case u64_checked_add copied (int (length chunk)) of
             None \<Rightarrow> Inl Limit_input
           | Some c \<Rightarrow> if limit < c then Inl Limit_input
                       else copy_loop limit broken c (written @ chunk) (drop 8192 data))"
  by pat_completeness auto
termination
  by (relation "measure (\<lambda>(_, _, _, _, data). length data)") auto

declare copy_loop.simps [simp del]

definition copy_bounded :: "zip_entry \<Rightarrow> int \<Rightarrow> input_error + int \<times> bytes" where
  "copy_bounded e limit = copy_loop limit (ze_broken e) 0 [] (ze_data e)"

section \<open>Unpacking\<close>

record project_bundle_file =
  pf_path :: string
  pf_kind :: string
  pf_size_bytes :: int
  pf_sha256 :: string

record project_manifest =
  pm_schema :: string
  pm_project_type :: string
  pm_entry_file_path :: string
  pm_latex_engine :: "string option"
  pm_workspace_version :: int
  pm_content_generation :: int
  pm_source_epoch :: int
  pm_files :: "project_bundle_file list"

record input_env =
  in_zip_open :: zip_reader
  in_parse_manifest :: "bytes \<Rightarrow> project_manifest option"
  in_sha256 :: "bytes \<Rightarrow> bytes"
  in_hex :: "bytes \<Rightarrow> string"
  in_unhex :: "string \<Rightarrow> bytes option"
  in_refuses :: "string list \<Rightarrow> bool"

record extraction =
  x_names :: "string list"
  x_declared :: int
  x_actual :: int
  x_manifest :: "bytes option"
  x_files :: "string list"
  x_tree :: fs_tree

definition empty_extraction :: extraction where
  "empty_extraction = \<lparr>x_names = [], x_declared = 0, x_actual = 0, x_manifest = None, x_files = [], x_tree = []\<rparr>"

text \<open>A file entry: its directories, the file, its content, and the books.\<close>

definition extract_file :: "input_env \<Rightarrow> string \<Rightarrow> zip_entry \<Rightarrow> extraction \<Rightarrow> input_error + extraction" where
  "extract_file env relative e st =
     (let p = split_on (CHR ''/'') relative in
      case create_dir_all (in_refuses env) (butlast p) (x_tree st) of
        Inl x \<Rightarrow> Inl x
      | Inr t1 \<Rightarrow>
          (case (if ends_with ''/'' relative then Inl Io else create_file (in_refuses env) p t1) of
             Inl x \<Rightarrow> Inl x
           | Inr t2 \<Rightarrow>
               (case copy_bounded e (max_expanded_bytes - x_actual st) of
                  Inl x \<Rightarrow> Inl x
                | Inr (written, data) \<Rightarrow>
                    (case u64_checked_add (x_actual st) written of
                       None \<Rightarrow> Inl Limit_input
                     | Some actual \<Rightarrow>
                         Inr (st\<lparr>x_actual := actual, x_files := (''project/'' @ relative) # x_files st,
                                 x_tree := (p, FS_file data) # t2\<rparr>)))))"

definition extract_manifest :: "zip_entry \<Rightarrow> extraction \<Rightarrow> input_error + extraction" where
  "extract_manifest e st =
     (if ze_is_dir e \<or> max_manifest_bytes_input < ze_size e then Inl Manifest_input
      else case read_bounded_input e (min (max_expanded_bytes - x_actual st) max_manifest_bytes_input) of
             Inl x \<Rightarrow> Inl x
           | Inr bytes \<Rightarrow>
               (case u64_checked_add (x_actual st) (int (length bytes)) of
                  None \<Rightarrow> Inl Limit_input
                | Some actual \<Rightarrow> Inr (st\<lparr>x_actual := actual, x_manifest := Some bytes\<rparr>)))"

definition extract_entry :: "input_env \<Rightarrow> extraction \<Rightarrow> zip_entry \<Rightarrow> input_error + extraction" where
  "extract_entry env st e =
     (let name = ze_name e; normalized = strip_slash name in
      if \<not> safe_archive_name_input name \<or> normalized \<in> set (x_names st) then Inl UnsafePath_input
      else if file_type e \<notin> {0, 0x4000, 0x8000} then Inl UnsupportedFileType
      else (case u64_checked_add (x_declared st) (ze_size e) of
              None \<Rightarrow> Inl Limit_input
            | Some declared \<Rightarrow>
                if max_expanded_bytes < declared then Inl Limit_input
                else
                  let st1 = st\<lparr>x_names := normalized # x_names st, x_declared := declared\<rparr> in
                  if name = ''manifest.json'' then extract_manifest e st1
                  else (case strip_prefix ''project/'' name of
                          None \<Rightarrow> Inl UnsafePath_input
                        | Some relative \<Rightarrow>
                            if relative = [] then Inr st1
                            else if ze_is_dir e
                            then (if ze_size e \<noteq> 0 then Inl Archive_input
                                  else case create_dir_all (in_refuses env) (split_on (CHR ''/'') (strip_slash relative))
                                              (x_tree st1) of
                                         Inl x \<Rightarrow> Inl x
                                       | Inr t \<Rightarrow> Inr (st1\<lparr>x_tree := t\<rparr>))
                            else extract_file env relative e st1)))"

fun extract_entries :: "input_env \<Rightarrow> extraction \<Rightarrow> zip_entry option list \<Rightarrow> input_error + extraction" where
  "extract_entries env st [] = Inr st"
| "extract_entries env st (None # es) = Inl Archive_input"
| "extract_entries env st (Some e # es) =
     (case extract_entry env st e of Inl x \<Rightarrow> Inl x | Inr st' \<Rightarrow> extract_entries env st' es)"

section \<open>The manifest\<close>

definition record_ok :: "string list \<Rightarrow> string list \<Rightarrow> project_bundle_file \<Rightarrow> bool" where
  "record_ok files paths r \<longleftrightarrow>
     safe_relative_path (pf_path r) \<and> pf_path r \<notin> set paths \<and> ''project/'' @ pf_path r \<in> set files \<and>
     pf_kind r \<in> {''document'', ''asset''} \<and> 0 \<le> pf_size_bytes r \<and> length (pf_sha256 r) = 64"

fun check_records ::
  "input_env \<Rightarrow> fs_tree \<Rightarrow> string list \<Rightarrow> string list \<Rightarrow> project_bundle_file list \<Rightarrow> input_error + string list" where
  "check_records env t files paths [] = Inr paths"
| "check_records env t files paths (r # rs) =
     (if \<not> record_ok files paths r then Inl ManifestMismatch_input
      else case read_file t (split_on (CHR ''/'') (pf_path r)) of
             Inl x \<Rightarrow> Inl x
           | Inr bytes \<Rightarrow>
               if \<not> (int (length bytes) \<le> i64_max \<and> int (length bytes) = pf_size_bytes r)
                  \<or> in_hex env (in_sha256 env bytes) \<noteq> pf_sha256 r
               then Inl ManifestMismatch_input
               else check_records env t files (pf_path r # paths) rs)"

definition project_schemas :: "string list" where
  "project_schemas = [''project-bundle/v1'', ''typst-project-bundle/v1'']"

definition validate_manifest ::
  "input_env \<Rightarrow> project_manifest \<Rightarrow> string \<Rightarrow> fs_tree \<Rightarrow> string list \<Rightarrow> input_error + unit" where
  "validate_manifest env m input_schema t files =
     (if pm_schema m \<noteq> input_schema \<or> pm_schema m \<notin> set project_schemas \<or> length (pm_files m) \<noteq> card (set files)
         \<or> \<not> safe_relative_path (pm_entry_file_path m) \<or> pm_workspace_version m < 0 \<or> pm_content_generation m < 0
         \<or> \<not> (0 \<le> pm_source_epoch m \<and> pm_source_epoch m \<le> max_source_epoch)
      then Inl ManifestMismatch_input
      else case check_records env t files [] (pm_files m) of
             Inl x \<Rightarrow> Inl x
           | Inr paths \<Rightarrow>
               if (\<lambda>p. ''project/'' @ p) ` set paths \<noteq> set files
                  \<or> \<not> list_ex (\<lambda>r. pf_path r = pm_entry_file_path m \<and> pf_kind r = ''document'') (pm_files m)
                  \<or> \<not> (case map_of t (split_on (CHR ''/'') (pm_entry_file_path m)) of Some (FS_file _) \<Rightarrow> True | _ \<Rightarrow> False)
               then Inl ManifestMismatch_input else Inr ())"

datatype processor_input = Project fs_tree project_manifest | Binary string bytes

definition verify_and_extract_project :: "input_env \<Rightarrow> bytes \<Rightarrow> string \<Rightarrow> input_error + fs_tree \<times> project_manifest" where
  "verify_and_extract_project env content input_schema =
     (if in_refuses env [] then Inl Io
      else case in_zip_open env content of
        None \<Rightarrow> Inl Archive_input
      | Some archive \<Rightarrow>
          if archive = [] \<or> max_bundle_files + 1 < length archive then Inl Limit_input
          else (case extract_entries env empty_extraction archive of
                  Inl x \<Rightarrow> Inl x
                | Inr st \<Rightarrow>
                    (case x_manifest st of
                       None \<Rightarrow> Inl Manifest_input
                     | Some bytes \<Rightarrow>
                         (case in_parse_manifest env bytes of
                            None \<Rightarrow> Inl Manifest_input
                          | Some m \<Rightarrow>
                              (case validate_manifest env m input_schema (x_tree st) (x_files st) of
                                 Inl x \<Rightarrow> Inl x
                               | Inr () \<Rightarrow> Inr (x_tree st, m))))))"

definition verify_input :: "input_env \<Rightarrow> bytes \<Rightarrow> claim_input \<Rightarrow> input_error + processor_input" where
  "verify_input env content input =
     (if \<not> (int (length content) \<le> i64_max \<and> int (length content) = ci_size_bytes input) then Inl SizeMismatch
      else case in_unhex env (ci_sha256 input) of
        None \<Rightarrow> Inl DigestMismatch_input
      | Some expected \<Rightarrow>
          if expected \<noteq> in_sha256 env content then Inl DigestMismatch_input
          else if ci_schema input \<in> set project_schemas
          then (case verify_and_extract_project env content (ci_schema input) of
                  Inl x \<Rightarrow> Inl x | Inr (t, m) \<Rightarrow> Inr (Project t m))
          else if ci_schema input = ''pptx-input/v1'' then Inr (Binary (ci_schema input) content)
          else Inl Schema)"

section \<open>The copy loop\<close>

text \<open>The loop computes the obvious: the data, or an error when it is too long or the stream breaks.\<close>

lemma copy_loop_closed:
  assumes "0 \<le> copied" and "limit \<le> u64_max"
  shows "copy_loop limit broken copied written data =
    (if data \<noteq> [] \<and> limit < copied + int (length data) then Inl Limit_input
     else if broken then Inl Io else Inr (copied + int (length data), written @ data))"
  using assms(1)
proof (induction "length data" arbitrary: copied written data rule: less_induct)
  case less
  show ?case
  proof (cases "data = []")
    case True
    then show ?thesis by (simp add: copy_loop.simps [of limit broken copied written])
  next
    case False
    let ?c = "copied + int (length (take 8192 data))"
    have eq: "copied + int (length data) = ?c + int (length (drop 8192 data))" by simp
    have "length (drop 8192 data) < length data" using False by simp
    note hyp = less.hyps [OF this, of ?c "written @ take 8192 data"]
    have "0 \<le> ?c" using less.prems by simp
    then have IH: "copy_loop limit broken ?c (written @ take 8192 data) (drop 8192 data) =
      (if drop 8192 data \<noteq> [] \<and> limit < copied + int (length data) then Inl Limit_input
       else if broken then Inl Io else Inr (copied + int (length data), written @ data))"
      by (rule hyp [unfolded eq [symmetric] append.assoc append_take_drop_id])
    have le: "?c \<le> copied + int (length data)" by simp
    show ?thesis
    proof (cases "limit < ?c")
      case True
      then have "copy_loop limit broken copied written data = Inl Limit_input"
        using False unfolding copy_loop.simps [of limit broken copied written data] Let_def u64_checked_add_def
        by (simp del: length_take)
      moreover have "limit < copied + int (length data)" using True le by linarith
      ultimately show ?thesis using False by simp
    next
      case small: False
      with assms(2) have "u64_checked_add copied (int (length (take 8192 data))) = Some ?c"
        by (simp add: u64_checked_add_def)
      with small False have "copy_loop limit broken copied written data =
          copy_loop limit broken ?c (written @ take 8192 data) (drop 8192 data)"
        by (simp add: copy_loop.simps [of limit broken copied written] Let_def)
      moreover have "limit < copied + int (length data) \<Longrightarrow> drop 8192 data \<noteq> []"
        using small eq by (cases "drop 8192 data = []") auto
      ultimately show ?thesis using IH False by auto
    qed
  qed
qed

lemma copy_bounded_closed:
  "limit \<le> u64_max \<Longrightarrow> copy_bounded e limit =
     (if ze_data e \<noteq> [] \<and> limit < int (length (ze_data e)) then Inl Limit_input
      else if ze_broken e then Inl Io else Inr (int (length (ze_data e)), ze_data e))"
  by (simp add: copy_bounded_def copy_loop_closed)

section \<open>Safe names\<close>

lemma split_on_contains: "contains_sub [c, c] s \<Longrightarrow> [] \<in> set (tl (split_on c s))"
proof (induction s)
  case Nil
  then show ?case by simp
next
  case (Cons x s)
  show ?case
  proof (cases "contains_sub [c, c] s")
    case True
    with Cons.IH show ?thesis by (cases "split_on c s") auto
  next
    case False
    with Cons.prems obtain r where "x = c" "s = c # r" by (auto simp: starts_with_iff)
    then show ?thesis by simp
  qed
qed

lemma split_on_ends: "[] \<in> set (tl (split_on c (r @ [c])))"
  by (induction r) (auto split: list.splits dest: list.set_sel(2))

definition good_segment :: "string \<Rightarrow> bool" where
  "good_segment seg \<longleftrightarrow> seg \<noteq> [] \<and> seg \<noteq> ''.'' \<and> seg \<noteq> ''..'' \<and> CHR ''/'' \<notin> set seg"

lemma safe_relative_segments:
  "safe_relative_path v \<Longrightarrow> seg \<in> set (split_on (CHR ''/'') v) \<Longrightarrow> good_segment seg"
  using split_on_no_sep [of seg "CHR ''/''" v] by (auto simp: safe_relative_path_def good_segment_def list_all_iff)

lemma split_project: "split_on (CHR ''/'') (''project/'' @ path) = ''project'' # split_on (CHR ''/'') path"
  using split_on_append [of "CHR ''/''" "''project''" path] by simp

lemma chars_any_project: "chars_any P (''project/'' @ path) \<longleftrightarrow> list_ex P [''p'', ''r'', ''o'', ''j'', ''e'', ''c'', ''t'', ''/''] \<or> chars_any P path"
  by (simp add: chars_any_def)

text \<open>What a safe name of a project file means.\<close>

lemma safe_project_name:
  assumes "safe_archive_name_input (''project/'' @ path)" and "path \<noteq> []" and "\<not> ends_with ''/'' path"
  shows "safe_relative_path path" and "\<And>seg. seg \<in> set (split_on (CHR ''/'') path) \<Longrightarrow> good_segment seg"
proof -
  have "strip_slash (''project/'' @ path) = ''project/'' @ path"
    using assms(2,3) by (auto simp: strip_slash_def ends_with_iff append_eq_append_conv2 Cons_eq_append_conv)
  with assms(1) have safe: "safe_relative_path (''project/'' @ path)"
    by (simp add: safe_archive_name_input_def split: if_splits)
  have segs: "list_all (\<lambda>c. c \<noteq> [] \<and> c \<noteq> ''.'' \<and> c \<noteq> ''..'') (split_on (CHR ''/'') path)"
    using safe unfolding safe_relative_path_def split_project by simp
  have "\<not> starts_with ''/'' path"
  proof
    assume "starts_with ''/'' path"
    then have "[] \<in> set (split_on (CHR ''/'') path)" by (auto simp: starts_with_iff)
    with segs show False by (auto simp: list_all_iff)
  qed
  with safe segs assms(2) show sp: "safe_relative_path path"
    unfolding safe_relative_path_def chars_any_project by simp
  show "\<And>seg. seg \<in> set (split_on (CHR ''/'') path) \<Longrightarrow> good_segment seg" using safe_relative_segments [OF sp] .
qed

section \<open>What an extraction leaves\<close>

definition tree_files :: "fs_tree \<Rightarrow> string list set" where
  "tree_files t = {p. \<exists>d. map_of t p = Some (FS_file d)}"

definition file_size :: "fs_tree \<Rightarrow> string list \<Rightarrow> int" where
  "file_size t p = (case map_of t p of Some (FS_file d) \<Rightarrow> int (length d) | _ \<Rightarrow> 0)"

definition tree_bytes :: "fs_tree \<Rightarrow> int" where
  "tree_bytes t = (\<Sum>p \<in> tree_files t. file_size t p)"

lemma finite_tree_files [simp]: "finite (tree_files t)"
  by (rule finite_subset [of _ "fst ` set t"]) (auto simp: tree_files_def dest: map_of_SomeD intro: rev_image_eqI)

lemma file_size_nonneg [simp]: "0 \<le> file_size t p"
  by (auto simp: file_size_def split: option.split fs_node.split)

lemma tree_bytes_add_file: "tree_bytes ((p, FS_file d) # t) \<le> tree_bytes t + int (length d)"
proof -
  let ?t = "(p, FS_file d) # t"
  have files: "tree_files ?t = insert p (tree_files t - {p})" by (auto simp: tree_files_def)
  have "tree_bytes ?t = file_size ?t p + (\<Sum>q \<in> tree_files t - {p}. file_size ?t q)"
    unfolding tree_bytes_def files by (subst sum.insert) auto
  also have "(\<Sum>q \<in> tree_files t - {p}. file_size ?t q) = (\<Sum>q \<in> tree_files t - {p}. file_size t q)"
    by (rule sum.cong) (auto simp: file_size_def)
  also have "\<dots> \<le> tree_bytes t" unfolding tree_bytes_def by (rule sum_mono2) auto
  finally show ?thesis by (simp add: file_size_def)
qed

lemma make_dirs_kept:
  assumes "make_dirs refuses qs t = Inr t'"
  shows "map_of t' p = (if map_of t p = None \<and> p \<in> set qs then Some FS_dir else map_of t p)"
    and "fst ` set t' \<subseteq> fst ` set t \<union> set qs"
  using assms
  by (induction refuses qs t rule: make_dirs.induct) (auto split: option.splits fs_node.splits if_splits)

lemma tree_files_same: "(\<And>p d. map_of t' p = Some (FS_file d) \<longleftrightarrow> map_of t p = Some (FS_file d)) \<Longrightarrow>
    tree_files t' = tree_files t \<and> tree_bytes t' = tree_bytes t"
proof -
  assume eq: "\<And>p d. map_of t' p = Some (FS_file d) \<longleftrightarrow> map_of t p = Some (FS_file d)"
  then have files: "tree_files t' = tree_files t" by (simp add: tree_files_def)
  have "file_size t' p = file_size t p" if "p \<in> tree_files t" for p
  proof -
    from that obtain d where "map_of t p = Some (FS_file d)" by (auto simp: tree_files_def)
    with eq [of p d] show ?thesis by (simp add: file_size_def)
  qed
  with files show ?thesis by (simp add: tree_bytes_def)
qed

lemma make_dirs_files:
  "make_dirs refuses qs t = Inr t' \<Longrightarrow> tree_files t' = tree_files t \<and> tree_bytes t' = tree_bytes t"
  by (rule tree_files_same) (auto simp: make_dirs_kept(1))

lemma path_prefixes_segments: "q \<in> set (path_prefixes p) \<Longrightarrow> set q \<subseteq> set p"
  by (auto simp: path_prefixes_def dest: in_set_takeD)

definition extraction_inv :: "extraction \<Rightarrow> bool" where
  "extraction_inv st \<longleftrightarrow>
     tree_bytes (x_tree st) \<le> x_actual st \<and> x_actual st \<le> max_expanded_bytes \<and> 0 \<le> x_actual st \<and>
     (\<forall>p \<in> tree_files (x_tree st). ''project/'' @ join_with (CHR ''/'') p \<in> set (x_files st)) \<and>
     (\<forall>p \<in> fst ` set (x_tree st). \<forall>seg \<in> set p. good_segment seg)"

lemma u64_checked_add_Some: "u64_checked_add a b = Some c \<Longrightarrow> c = a + b"
  by (auto simp: u64_checked_add_def split: if_splits)

lemma max_expanded_u64: "max_expanded_bytes \<le> u64_max"
  by (simp add: max_expanded_bytes_def u64_max_def)

lemma extract_file_inv:
  assumes "extract_file env rel e st = Inr st'" and "extraction_inv st"
    and segs: "\<And>seg. seg \<in> set (split_on (CHR ''/'') rel) \<Longrightarrow> good_segment seg"
  shows "extraction_inv st'"
proof -
  let ?p = "split_on (CHR ''/'') rel"
  from assms(1) obtain t1 n d a where t1: "create_dir_all (in_refuses env) (butlast ?p) (x_tree st) = Inr t1"
    and cp: "copy_bounded e (max_expanded_bytes - x_actual st) = Inr (n, d)"
    and a: "u64_checked_add (x_actual st) n = Some a"
    and st': "st' = st\<lparr>x_actual := a, x_files := (''project/'' @ rel) # x_files st,
        x_tree := (?p, FS_file d) # (?p, FS_file []) # t1\<rparr>"
    by (auto simp: extract_file_def create_file_def Let_def split: sum.splits option.splits if_splits)
  from cp assms(2) max_expanded_u64 have n: "n = int (length d)" "d = [] \<or> x_actual st + n \<le> max_expanded_bytes"
    by (auto simp: copy_bounded_closed extraction_inv_def split: if_splits)
  have dirs: "tree_files t1 = tree_files (x_tree st)" "tree_bytes t1 = tree_bytes (x_tree st)"
    using make_dirs_files [OF t1 [unfolded create_dir_all_def]] by simp_all
  have keys: "fst ` set t1 \<subseteq> fst ` set (x_tree st) \<union> set (path_prefixes (butlast ?p))"
    using make_dirs_kept(2) [OF t1 [unfolded create_dir_all_def]] .
  have bytes: "tree_bytes ((?p, FS_file d) # (?p, FS_file []) # t1) \<le> tree_bytes (x_tree st) + int (length d)"
    using tree_bytes_add_file [of ?p d "(?p, FS_file []) # t1"] tree_bytes_add_file [of ?p "[]" t1] dirs by simp
  have files: "tree_files ((?p, FS_file d) # (?p, FS_file []) # t1) \<subseteq> insert ?p (tree_files (x_tree st))"
    unfolding dirs(1) [symmetric] by (auto simp: tree_files_def split: if_splits)
  have good: "\<forall>seg \<in> set q. good_segment seg" if "q \<in> set (path_prefixes (butlast ?p))" for q
    using path_prefixes_segments [OF that] segs by (auto dest: in_set_butlastD)
  show ?thesis unfolding extraction_inv_def
  proof (intro conjI)
    show "tree_bytes (x_tree st') \<le> x_actual st'"
      using bytes assms(2) n u64_checked_add_Some [OF a] st' by (simp add: extraction_inv_def)
    show "x_actual st' \<le> max_expanded_bytes" "0 \<le> x_actual st'"
      using assms(2) n u64_checked_add_Some [OF a] st' by (auto simp: extraction_inv_def)
    show "\<forall>p \<in> tree_files (x_tree st'). ''project/'' @ join_with (CHR ''/'') p \<in> set (x_files st')"
      using files assms(2) st' by (auto simp: extraction_inv_def join_split)
    show "\<forall>p \<in> fst ` set (x_tree st'). \<forall>seg \<in> set p. good_segment seg"
      using keys assms(2) st' segs good by (auto simp: extraction_inv_def)
  qed
qed

lemma strip_slash_append: "r \<noteq> [] \<Longrightarrow> strip_slash (p @ r) = p @ strip_slash r"
  by (auto simp: strip_slash_def ends_with_iff butlast_append append_eq_append_conv2 Cons_eq_append_conv append_eq_Cons_conv)

lemma safe_name_segments:
  assumes "safe_archive_name_input (''project/'' @ rel)" and "rel \<noteq> []" and "seg \<in> set (split_on (CHR ''/'') (strip_slash rel))"
  shows "good_segment seg"
proof -
  from assms(1,2) have "safe_relative_path (''project/'' @ strip_slash rel)"
    by (auto simp: safe_archive_name_input_def strip_slash_append simp del: append.simps split: if_splits)
  from safe_relative_segments [OF this, of seg] assms(3) show ?thesis unfolding split_project by simp
qed

lemma extract_manifest_inv:
  assumes "extract_manifest e st = Inr st'" and "extraction_inv st"
  shows "extraction_inv st'"
proof -
  from assms(1) obtain b a where
    rd: "read_bounded_input e (min (max_expanded_bytes - x_actual st) max_manifest_bytes_input) = Inr b"
    and a: "u64_checked_add (x_actual st) (int (length b)) = Some a"
    and st': "st' = st\<lparr>x_actual := a, x_manifest := Some b\<rparr>"
    by (auto simp: extract_manifest_def split: if_splits sum.splits option.splits)
  from rd have "int (length b) \<le> max_expanded_bytes - x_actual st"
    by (auto simp: read_bounded_input_def Let_def split: if_splits)
  with u64_checked_add_Some [OF a] assms(2) st' show ?thesis by (auto simp: extraction_inv_def)
qed

lemma extract_entry_inv:
  assumes "extract_entry env st e = Inr st'" and "extraction_inv st"
  shows "extraction_inv st'"
proof -
  let ?n = "ze_name e"
  obtain d where safe: "safe_archive_name_input ?n"
    and d: "u64_checked_add (x_declared st) (ze_size e) = Some d"
    using assms(1) by (auto simp: extract_entry_def Let_def split: if_splits option.splits)
  let ?st = "st\<lparr>x_names := strip_slash ?n # x_names st, x_declared := d\<rparr>"
  have inv: "extraction_inv ?st" using assms(2) by (simp add: extraction_inv_def)
  consider (manifest) "extract_manifest e ?st = Inr st'"
    | (root) "st' = ?st"
    | (dir) rel t where "?n = ''project/'' @ rel" "rel \<noteq> []"
        "create_dir_all (in_refuses env) (split_on (CHR ''/'') (strip_slash rel)) (x_tree st) = Inr t" "st' = ?st\<lparr>x_tree := t\<rparr>"
    | (plain) rel where "?n = ''project/'' @ rel" "rel \<noteq> []" "extract_file env rel e ?st = Inr st'"
    using assms(1) d
    by (auto simp: extract_entry_def Let_def split: if_splits option.splits sum.splits)
  then show ?thesis
  proof cases
    case manifest
    with inv show ?thesis by (rule extract_manifest_inv [rotated])
  next
    case root
    with inv show ?thesis by simp
  next
    case (dir rel t)
    note made = dir(3) [unfolded create_dir_all_def]
    have "\<forall>seg \<in> set q. good_segment seg" if "q \<in> set (path_prefixes (split_on (CHR ''/'') (strip_slash rel)))" for q
      using path_prefixes_segments [OF that] safe_name_segments [OF safe [unfolded dir(1)] dir(2)] by blast
    with make_dirs_kept(2) [OF made] make_dirs_files [OF made] inv dir(4) show ?thesis
      by (fastforce simp: extraction_inv_def)
  next
    case (plain rel)
    have "\<not> ends_with ''/'' rel" using plain(3) by (auto simp: extract_file_def Let_def split: sum.splits if_splits)
    then have "strip_slash rel = rel" by (simp add: strip_slash_def)
    with safe_name_segments [OF safe [unfolded plain(1)] plain(2)] extract_file_inv [OF plain(3) inv] show ?thesis by simp
  qed
qed

lemma extract_entries_inv:
  "extract_entries env st es = Inr st' \<Longrightarrow> extraction_inv st \<Longrightarrow> extraction_inv st'"
  by (induction env st es rule: extract_entries.induct) (auto split: sum.splits dest: extract_entry_inv)

lemma empty_extraction_inv: "extraction_inv empty_extraction"
  by (simp add: extraction_inv_def empty_extraction_def tree_bytes_def tree_files_def max_expanded_bytes_def)

section \<open>What the manifest check establishes\<close>

definition file_matches :: "input_env \<Rightarrow> fs_tree \<Rightarrow> project_bundle_file \<Rightarrow> bool" where
  "file_matches env t r \<longleftrightarrow>
     (case map_of t (split_on (CHR ''/'') (pf_path r)) of
        Some (FS_file d) \<Rightarrow> int (length d) = pf_size_bytes r \<and> in_hex env (in_sha256 env d) = pf_sha256 r
      | _ \<Rightarrow> False)"

lemma check_records_Inr:
  assumes "check_records env t files paths rs = Inr out"
  shows "set out = pf_path ` set rs \<union> set paths" and "distinct (map pf_path rs)"
    and "\<And>r. r \<in> set rs \<Longrightarrow> file_matches env t r \<and> safe_relative_path (pf_path r) \<and> pf_path r \<notin> set paths"
proof -
  have "set out = pf_path ` set rs \<union> set paths \<and> distinct (map pf_path rs) \<and>
    (\<forall>r \<in> set rs. file_matches env t r \<and> safe_relative_path (pf_path r) \<and> pf_path r \<notin> set paths)"
    using assms
  proof (induction env t files paths rs rule: check_records.induct)
    case (1 env t files paths)
    then show ?case by simp
  next
    case (2 env t files paths r rs)
    from "2.prems" obtain d where ok: "record_ok files paths r"
      and rd: "map_of t (split_on (CHR ''/'') (pf_path r)) = Some (FS_file d)"
      and len: "int (length d) = pf_size_bytes r" and sha: "in_hex env (in_sha256 env d) = pf_sha256 r"
      and rest: "check_records env t files (pf_path r # paths) rs = Inr out"
      by (auto simp: read_file_def split: if_splits sum.splits option.splits fs_node.splits)
    have rf: "read_file t (split_on (CHR ''/'') (pf_path r)) = Inr d" by (simp add: read_file_def rd)
    from "2.prems" ok rf have "\<not> (\<not> (int (length d) \<le> i64_max \<and> int (length d) = pf_size_bytes r) \<or> in_hex env (in_sha256 env d) \<noteq> pf_sha256 r)"
      by (simp split: if_splits)
    with "2.IH" [OF _ rf _ rest] ok have "set out = pf_path ` set rs \<union> set (pf_path r # paths) \<and> distinct (map pf_path rs) \<and>
      (\<forall>x \<in> set rs. file_matches env t x \<and> safe_relative_path (pf_path x) \<and> pf_path x \<notin> set (pf_path r # paths))"
      by blast
    with ok rd len sha show ?case by (auto simp: file_matches_def record_ok_def)
  qed
  then show "set out = pf_path ` set rs \<union> set paths" and "distinct (map pf_path rs)"
    and "\<And>r. r \<in> set rs \<Longrightarrow> file_matches env t r \<and> safe_relative_path (pf_path r) \<and> pf_path r \<notin> set paths"
    by simp_all
qed

lemma validated_manifest:
  assumes "validate_manifest env m schema t files = Inr ()"
  shows "(\<lambda>r. ''project/'' @ pf_path r) ` set (pm_files m) = set files" and "distinct (map pf_path (pm_files m))"
    and "\<And>r. r \<in> set (pm_files m) \<Longrightarrow> file_matches env t r \<and> safe_relative_path (pf_path r)"
    and "\<exists>r \<in> set (pm_files m). pf_path r = pm_entry_file_path m \<and> pf_kind r = ''document''"
    and "pm_schema m = schema"
proof -
  from assms obtain paths where c: "check_records env t files [] (pm_files m) = Inr paths"
    and im: "(\<lambda>p. ''project/'' @ p) ` set paths = set files"
    and e: "\<exists>r \<in> set (pm_files m). pf_path r = pm_entry_file_path m \<and> pf_kind r = ''document''" "pm_schema m = schema"
    by (auto simp: validate_manifest_def list_ex_iff split: if_splits sum.splits)
  note facts = check_records_Inr [OF c]
  show "(\<lambda>r. ''project/'' @ pf_path r) ` set (pm_files m) = set files"
    using im facts(1) by (simp add: image_image)
  show "distinct (map pf_path (pm_files m))" by (rule facts(2))
  show "\<And>r. r \<in> set (pm_files m) \<Longrightarrow> file_matches env t r \<and> safe_relative_path (pf_path r)" using facts(3) by blast
  show "\<exists>r \<in> set (pm_files m). pf_path r = pm_entry_file_path m \<and> pf_kind r = ''document''" by (rule e(1))
  show "pm_schema m = schema" by (rule e(2))
qed

section \<open>Unpacking an archive of plain files\<close>

text \<open>The entry that \<open>ZipWriter\<close> with the permissions \<open>0o644\<close> leaves for a name and its content.\<close>

definition plain_entry :: "string \<times> bytes \<Rightarrow> zip_entry" where
  "plain_entry f =
     \<lparr>ze_name = fst f, ze_is_dir = False, ze_unix_mode = Some 0x81A4, ze_size = int (length (snd f)),
      ze_data = snd f, ze_broken = False\<rparr>"

text \<open>The paths that a worker accepts below the project directory.\<close>

definition worker_path :: "string \<Rightarrow> bool" where
  "worker_path path \<longleftrightarrow> safe_relative_path (''project/'' @ path) \<and> CHR 0x00 \<notin> set path"

abbreviation segments :: "string \<Rightarrow> string list" where
  "segments path \<equiv> split_on (CHR ''/'') path"

lemma segments_inj [simp]: "segments p = segments q \<longleftrightarrow> p = q"
  by (metis join_split)

lemma worker_path_nonempty: "worker_path p \<Longrightarrow> p \<noteq> []"
  by (auto simp: worker_path_def safe_relative_path_def)

lemma worker_path_no_slash:
  assumes "worker_path p"
  shows "\<not> ends_with ''/'' p" and "strip_slash (''project/'' @ p) = ''project/'' @ p"
proof -
  show "\<not> ends_with ''/'' p"
  proof
    assume "ends_with ''/'' p"
    then obtain r where "p = r @ [CHR ''/'']" by (auto simp: ends_with_iff)
    then have "[] \<in> set (segments p)" using split_on_ends [of "CHR ''/''" r] by (auto dest: list.set_sel(2) [rotated])
    with assms show False unfolding worker_path_def safe_relative_path_def split_project by (auto simp: list_all_iff)
  qed
  then have "strip_slash p = p" by (simp add: strip_slash_def)
  with strip_slash_append [OF worker_path_nonempty [OF assms], of "''project/''"]
  show "strip_slash (''project/'' @ p) = ''project/'' @ p" by metis
qed

lemma worker_path_name: "worker_path p \<Longrightarrow> safe_archive_name_input (''project/'' @ p)"
proof -
  assume wp: "worker_path p"
  then have safe: "safe_relative_path (''project/'' @ p)" and z: "CHR 0x00 \<notin> set p" by (simp_all add: worker_path_def)
  have "\<not> contains_sub ''//'' (''project/'' @ p)"
  proof
    assume "contains_sub ''//'' (''project/'' @ p)"
    then have "[] \<in> set (tl (segments (''project/'' @ p)))" by (rule split_on_contains)
    then have "[] \<in> set (segments (''project/'' @ p))" by (rule list.set_sel(2) [OF split_on_nonempty])
    with safe show False unfolding safe_relative_path_def by (auto simp: list_all_iff)
  qed
  with safe z worker_path_no_slash(2) [OF wp] show ?thesis
    by (auto simp: safe_archive_name_input_def safe_relative_path_def)
qed

lemma worker_path_relative: "worker_path p \<Longrightarrow> safe_relative_path p"
  using safe_project_name(1) worker_path_name worker_path_nonempty worker_path_no_slash(1) by blast

lemma make_dirs_succeeds:
  assumes "\<forall>q \<in> set qs. \<not> refuses q \<and> (\<forall>d. map_of t q \<noteq> Some (FS_file d))"
  shows "\<exists>t'. make_dirs refuses qs t = Inr t'"
  using assms
proof (induction qs arbitrary: t)
  case Nil
  then show ?case by simp
next
  case (Cons q qs)
  then show ?case by (cases "map_of t q") (auto split: fs_node.split intro!: Cons.IH)
qed

lemma prefixes_strict: "q \<in> set (path_prefixes (butlast p)) \<Longrightarrow> strict_prefix q p"
proof -
  assume "q \<in> set (path_prefixes (butlast p))"
  then obtain n where n: "q = take n (butlast p)" "1 \<le> n" "n < Suc (length (butlast p))" by (auto simp: path_prefixes_def)
  then have "n < length p" by (cases p rule: rev_cases) auto
  then have "q = take n p" using n(1) by (cases p rule: rev_cases) auto
  with \<open>n < length p\<close> show ?thesis by (auto simp: strict_prefix_def take_is_prefix)
qed

text \<open>The tree that holds exactly some files and the directories above them.\<close>

definition tree_holds :: "(string \<times> bytes) list \<Rightarrow> fs_tree \<Rightarrow> bool" where
  "tree_holds fs t \<longleftrightarrow>
     (\<forall>(p, d) \<in> set fs. map_of t (segments p) = Some (FS_file d)) \<and>
     (\<forall>q n. map_of t q = Some n \<longrightarrow>
        (\<exists>(p, d) \<in> set fs. (q = segments p \<and> n = FS_file d) \<or> (strict_prefix q (segments p) \<and> n = FS_dir)))"

definition separate :: "string \<Rightarrow> string \<Rightarrow> bool" where
  "separate p q \<longleftrightarrow> p \<noteq> q \<and> \<not> strict_prefix (segments p) (segments q) \<and> \<not> strict_prefix (segments q) (segments p)"

lemma extract_file_plain:
  assumes tree: "tree_holds fs (x_tree st)" and sep: "\<forall>f \<in> set fs. separate p (fst f)" and wp: "worker_path p"
    and size: "0 \<le> x_actual st" "x_actual st + int (length d) \<le> max_expanded_bytes"
    and os: "\<forall>q. prefix q (segments p) \<longrightarrow> \<not> in_refuses env q"
  shows "\<exists>t. extract_file env p (plain_entry (''project/'' @ p, d)) st =
    Inr (st\<lparr>x_actual := x_actual st + int (length d), x_files := (''project/'' @ p) # x_files st, x_tree := t\<rparr>)
    \<and> tree_holds (fs @ [(p, d)]) t"
proof -
  let ?q = "segments p" and ?qs = "path_prefixes (butlast (segments p))"
  have "\<forall>q \<in> set ?qs. \<not> in_refuses env q \<and> (\<forall>c. map_of (x_tree st) q \<noteq> Some (FS_file c))"
  proof
    fix q assume "q \<in> set ?qs"
    then have "strict_prefix q ?q" by (rule prefixes_strict)
    with tree sep os show "\<not> in_refuses env q \<and> (\<forall>c. map_of (x_tree st) q \<noteq> Some (FS_file c))"
      by (fastforce simp: tree_holds_def separate_def)
  qed
  then obtain t1 where t1: "make_dirs (in_refuses env) ?qs (x_tree st) = Inr t1" using make_dirs_succeeds by blast
  note kept = make_dirs_kept(1) [OF t1]
  have "map_of (x_tree st) ?q \<noteq> Some FS_dir" using tree sep by (fastforce simp: tree_holds_def separate_def)
  moreover have "?q \<notin> set ?qs" using prefixes_strict by blast
  ultimately have made: "create_file (in_refuses env) ?q t1 = Inr ((?q, FS_file []) # t1)"
    using os kept [of ?q] by (simp add: create_file_def)
  let ?t = "(?q, FS_file d) # (?q, FS_file []) # t1"
  have limit: "max_expanded_bytes - x_actual st \<le> u64_max" using size(1) max_expanded_u64 by linarith
  have copy: "copy_bounded (plain_entry (''project/'' @ p, d)) (max_expanded_bytes - x_actual st) = Inr (int (length d), d)"
    using size by (simp add: copy_bounded_closed [OF limit] plain_entry_def)
  have add: "u64_checked_add (x_actual st) (int (length d)) = Some (x_actual st + int (length d))"
    using size max_expanded_u64 by (simp add: u64_checked_add_def)
  have "tree_holds (fs @ [(p, d)]) ?t"
    unfolding tree_holds_def
  proof (intro conjI allI impI ballI, safe)
    fix x c assume "(x, c) \<in> set (fs @ [(p, d)])"
    then show "map_of ?t (segments x) = Some (FS_file c)"
      using tree sep kept [of "segments x"] by (fastforce simp: tree_holds_def separate_def)
  next
    fix q n assume q: "map_of ?t q = Some n"
    show "\<exists>(x, c) \<in> set (fs @ [(p, d)]). (q = segments x \<and> n = FS_file c) \<or> (strict_prefix q (segments x) \<and> n = FS_dir)"
    proof (cases "q = ?q")
      case True
      with q show ?thesis by auto
    next
      case False
      with q kept [of q] have "map_of (x_tree st) q = Some n \<or> (q \<in> set ?qs \<and> n = FS_dir)" by (auto split: if_splits)
      then show ?thesis
      proof
        assume "map_of (x_tree st) q = Some n"
        with tree show ?thesis unfolding tree_holds_def by fastforce
      qed (use prefixes_strict in auto)
    qed
  qed
  with t1 made copy add worker_path_no_slash(1) [OF wp] show ?thesis
    by (auto simp: extract_file_def create_dir_all_def Let_def)
qed

definition content_bytes :: "(string \<times> bytes) list \<Rightarrow> int" where
  "content_bytes fs = sum_list (map (\<lambda>f. int (length (snd f))) fs)"

lemma content_bytes_simps [simp]:
  "content_bytes [] = 0" "content_bytes (f # fs) = int (length (snd f)) + content_bytes fs"
  "content_bytes (fs @ gs) = content_bytes fs + content_bytes gs" "0 \<le> content_bytes fs"
  by (simp_all add: content_bytes_def) (induction fs; simp)

definition extracted :: "bytes \<Rightarrow> (string \<times> bytes) list \<Rightarrow> extraction \<Rightarrow> bool" where
  "extracted mb fs st \<longleftrightarrow>
     set (x_names st) \<subseteq> insert ''manifest.json'' ((\<lambda>f. ''project/'' @ fst f) ` set fs) \<and>
     x_declared st = int (length mb) + content_bytes fs \<and> x_actual st = int (length mb) + content_bytes fs \<and>
     x_manifest st = Some mb \<and> x_files st = rev (map (\<lambda>f. ''project/'' @ fst f) fs) \<and> tree_holds fs (x_tree st)"

definition worker_accepts :: "input_env \<Rightarrow> (string \<times> bytes) list \<Rightarrow> bool" where
  "worker_accepts env fs \<longleftrightarrow>
     (\<forall>f \<in> set fs. worker_path (fst f) \<and> (\<forall>q. prefix q (segments (fst f)) \<longrightarrow> \<not> in_refuses env q)) \<and>
     pairwise (\<lambda>f g. separate (fst f) (fst g)) (set fs) \<and> distinct (map fst fs)"

lemma plain_file_type [simp]: "file_type (plain_entry f) = 0x8000"
  by (simp add: file_type_def plain_entry_def)

lemma extract_entry_plain:
  assumes st: "extracted mb fs st" and sep: "\<forall>f \<in> set fs. separate p (fst f)" and wp: "worker_path p"
    and size: "int (length mb) + content_bytes fs + int (length d) \<le> max_expanded_bytes"
    and os: "\<forall>q. prefix q (segments p) \<longrightarrow> \<not> in_refuses env q"
  shows "\<exists>st'. extract_entry env st (plain_entry (''project/'' @ p, d)) = Inr st' \<and> extracted mb (fs @ [(p, d)]) st'"
proof -
  let ?e = "plain_entry (''project/'' @ p, d)"
  let ?st = "st\<lparr>x_names := (''project/'' @ p) # x_names st, x_declared := x_declared st + int (length d)\<rparr>"
  have new: "''project/'' @ p \<notin> set (x_names st)" using st sep by (auto simp: extracted_def separate_def)
  have add: "u64_checked_add (x_declared st) (int (length d)) = Some (x_declared st + int (length d))"
    using st size max_expanded_u64 by (simp add: u64_checked_add_def extracted_def)
  have "tree_holds fs (x_tree ?st)" "0 \<le> x_actual ?st" "x_actual ?st + int (length d) \<le> max_expanded_bytes"
    using st size by (simp_all add: extracted_def)
  from extract_file_plain [OF this(1) sep wp this(2,3) os] obtain t where
    f: "extract_file env p ?e ?st = Inr (?st\<lparr>x_actual := x_actual ?st + int (length d),
        x_files := (''project/'' @ p) # x_files ?st, x_tree := t\<rparr>)" and t: "tree_holds (fs @ [(p, d)]) t" by blast
  have "extract_entry env st ?e = extract_file env p ?e ?st"
    using worker_path_name [OF wp] worker_path_no_slash(2) [OF wp] new add worker_path_nonempty [OF wp] st size
    by (simp add: extract_entry_def Let_def plain_entry_def [of "(_, _)"] file_type_def extracted_def)
  with f t st show ?thesis by (auto simp: extracted_def)
qed

lemma extract_entries_plain:
  assumes "extracted mb gs st" and "worker_accepts env (gs @ fs)"
    and "int (length mb) + content_bytes (gs @ fs) \<le> max_expanded_bytes"
  shows "\<exists>st'. extract_entries env st (map (\<lambda>f. Some (plain_entry (''project/'' @ fst f, snd f))) fs) = Inr st' \<and>
    extracted mb (gs @ fs) st'"
  using assms
proof (induction fs arbitrary: gs st)
  case Nil
  then show ?case by simp
next
  case (Cons f fs)
  obtain p d where f: "f = (p, d)" by fastforce
  have "content_bytes (gs @ f # fs) = content_bytes gs + int (length d) + content_bytes fs" by (simp add: f)
  with Cons.prems(3) have size: "int (length mb) + content_bytes gs + int (length d) \<le> max_expanded_bytes"
    using content_bytes_simps(4) [of fs] by linarith
  have sep: "\<forall>g \<in> set gs. separate p (fst g)"
  proof
    fix g assume g: "g \<in> set gs"
    with Cons.prems(2) have "f \<noteq> g" unfolding worker_accepts_def by auto
    moreover have "pairwise (\<lambda>f g. separate (fst f) (fst g)) (set (gs @ f # fs))"
      using Cons.prems(2) by (simp only: worker_accepts_def)
    ultimately show "separate p (fst g)" using g f unfolding pairwise_def by force
  qed
  have wp: "worker_path p" "\<forall>q. prefix q (segments p) \<longrightarrow> \<not> in_refuses env q"
    using Cons.prems(2) unfolding worker_accepts_def f by auto
  from extract_entry_plain [OF Cons.prems(1) sep wp(1) size wp(2)] obtain st1 where
    st1: "extract_entry env st (plain_entry (''project/'' @ p, d)) = Inr st1" "extracted mb (gs @ [(p, d)]) st1" by blast
  have "(gs @ [(p, d)]) @ fs = gs @ f # fs" by (simp add: f)
  from Cons.IH [OF st1(2), unfolded this, OF Cons.prems(2,3)] st1(1) f show ?case by simp
qed

lemma extract_archive_plain:
  assumes "worker_accepts env fs" and "int (length mb) \<le> max_manifest_bytes_input"
    and "int (length mb) + content_bytes fs \<le> max_expanded_bytes"
  shows "\<exists>st. extract_entries env empty_extraction
      (map (Some \<circ> plain_entry) ((''manifest.json'', mb) # map (\<lambda>f. (''project/'' @ fst f, snd f)) fs)) = Inr st \<and> extracted mb fs st"
proof -
  let ?st = "empty_extraction\<lparr>x_names := [''manifest.json''], x_declared := int (length mb), x_actual := int (length mb), x_manifest := Some mb\<rparr>"
  have safe: "safe_archive_name_input ''manifest.json''" by code_simp
  have m: "int (length mb) \<le> max_expanded_bytes" using assms(3) content_bytes_simps(4) [of fs] by linarith
  have "extract_entry env empty_extraction (plain_entry (''manifest.json'', mb)) = Inr ?st"
    using safe m assms(2) max_expanded_u64
    by (simp add: extract_entry_def extract_manifest_def read_bounded_input_def Let_def u64_checked_add_def
        plain_entry_def file_type_def empty_extraction_def strip_slash_def ends_with_def starts_with_def)
  moreover have "extracted mb [] ?st"
    by (simp add: extracted_def empty_extraction_def tree_holds_def)
  ultimately show ?thesis using extract_entries_plain [of mb "[]" ?st env fs] assms
    by (simp add: comp_def)
qed

text \<open>A manifest record that describes a file.\<close>

definition record_for :: "input_env \<Rightarrow> string \<times> bytes \<Rightarrow> project_bundle_file \<Rightarrow> bool" where
  "record_for env f r \<longleftrightarrow>
     pf_path r = fst f \<and> pf_kind r \<in> {''document'', ''asset''} \<and> pf_size_bytes r = int (length (snd f)) \<and>
     pf_sha256 r = in_hex env (in_sha256 env (snd f))"

lemma check_records_succeeds:
  assumes "list_all2 (record_for env) fs rs" and "\<forall>f \<in> set fs. map_of t (segments (fst f)) = Some (FS_file (snd f))"
    and "\<forall>f \<in> set fs. ''project/'' @ fst f \<in> set files \<and> worker_path (fst f) \<and> int (length (snd f)) \<le> i64_max \<and> fst f \<notin> set paths"
    and "distinct (map fst fs)" and hexlen: "\<And>b. length (in_hex env (in_sha256 env b)) = 64"
  shows "\<exists>out. check_records env t files paths rs = Inr out \<and> set out = fst ` set fs \<union> set paths"
  using assms(1-4)
proof (induction fs rs arbitrary: paths rule: list_all2_induct)
  case Nil
  then show ?case by simp
next
  case (Cons f fs r rs)
  let ?go = "check_records env t files (pf_path r # paths) rs"
  have new: "\<forall>g \<in> set fs. fst g \<noteq> fst f" using Cons.prems(3) by (auto simp: image_iff)
  have path: "pf_path r = fst f" using Cons.hyps(1) by (simp add: record_for_def)
  have "\<exists>out. ?go = Inr out \<and> set out = fst ` set fs \<union> set (pf_path r # paths)"
    using Cons.prems new path by (intro Cons.IH) simp_all
  then obtain out where out: "?go = Inr out" "set out = fst ` set fs \<union> set (pf_path r # paths)" by blast
  have "record_ok files paths r" using Cons.prems Cons.hyps(1) hexlen worker_path_relative
    by (auto simp: record_ok_def record_for_def)
  moreover have "read_file t (segments (pf_path r)) = Inr (snd f)"
    using Cons.prems(1) Cons.hyps(1) by (simp add: read_file_def record_for_def)
  ultimately have "check_records env t files paths (r # rs) = ?go"
    using Cons.prems(2) Cons.hyps(1) by (auto simp: record_for_def)
  with out Cons.hyps(1) show ?case by (auto simp: record_for_def)
qed

lemma verify_plain_archive:
  assumes files: "worker_accepts env fs" "length fs \<le> max_bundle_files" "list_all2 (record_for env) fs (pm_files m)"
    and size: "int (length mb) \<le> max_manifest_bytes_input" "int (length mb) + content_bytes fs \<le> max_expanded_bytes"
    and zip: "in_zip_open env content =
      Some (map (Some \<circ> plain_entry) ((''manifest.json'', mb) # map (\<lambda>f. (''project/'' @ fst f, snd f)) fs))"
    and parse: "in_parse_manifest env mb = Some m" and hexlen: "\<And>b. length (in_hex env (in_sha256 env b)) = 64"
    and m: "pm_schema m = schema" "schema \<in> set project_schemas" "0 \<le> pm_workspace_version m" "0 \<le> pm_content_generation m"
      "0 \<le> pm_source_epoch m" "pm_source_epoch m \<le> max_source_epoch"
    and entry: "\<exists>r \<in> set (pm_files m). pf_path r = pm_entry_file_path m \<and> pf_kind r = ''document''"
    and os: "\<not> in_refuses env []"
  shows "\<exists>t. verify_and_extract_project env content schema = Inr (t, m) \<and> tree_holds fs t"
proof -
  let ?proj = "\<lambda>f. ''project/'' @ fst f"
  from extract_archive_plain [OF files(1) size] obtain st where
    st: "extract_entries env empty_extraction (map (Some \<circ> plain_entry) ((''manifest.json'', mb) # map (\<lambda>f. (?proj f, snd f)) fs)) = Inr st"
    and ex: "extracted mb fs st" by blast
  have tree: "tree_holds fs (x_tree st)" and xf: "set (x_files st) = ?proj ` set fs" and mf: "x_manifest st = Some mb"
    using ex by (auto simp: extracted_def)
  have wp: "worker_path (fst f)" if "f \<in> set fs" for f using files(1) that by (simp add: worker_accepts_def)
  have dist: "distinct (map fst fs)" using files(1) by (simp add: worker_accepts_def)
  have small: "int (length (snd f)) \<le> i64_max" if f: "f \<in> set fs" for f
  proof -
    obtain xs ys where "fs = xs @ f # ys" using split_list [OF f] by blast
    then have "content_bytes fs = content_bytes xs + int (length (snd f)) + content_bytes ys" by simp
    then have "int (length (snd f)) \<le> max_expanded_bytes"
      using size(2) content_bytes_simps(4) [of xs] content_bytes_simps(4) [of ys] by linarith
    then show ?thesis by (simp add: max_expanded_bytes_def i64_max_def)
  qed
  have at: "\<forall>f \<in> set fs. map_of (x_tree st) (segments (fst f)) = Some (FS_file (snd f))"
    using tree by (auto simp: tree_holds_def)
  have rec: "\<forall>f \<in> set fs. ?proj f \<in> set (x_files st) \<and> worker_path (fst f) \<and> int (length (snd f)) \<le> i64_max \<and> fst f \<notin> set []"
    using xf wp small by simp
  from check_records_succeeds [OF files(3) at rec dist hexlen] obtain out where
    out: "check_records env (x_tree st) (x_files st) [] (pm_files m) = Inr out" "set out = fst ` set fs" by auto
  have inj: "inj_on ?proj (set fs)" using dist by (auto simp: distinct_map inj_on_def)
  have "card (set (x_files st)) = length fs"
    unfolding xf card_image [OF inj] using dist by (metis distinct_card distinct_map)
  then have len: "length (pm_files m) = card (set (x_files st))" using list_all2_lengthD [OF files(3)] by simp
  from entry obtain r where r: "r \<in> set (pm_files m)" "pf_path r = pm_entry_file_path m" "pf_kind r = ''document''" by blast
  from r(1) files(3) obtain f where f: "f \<in> set fs" "record_for env f r"
    by (metis in_set_conv_nth list_all2_conv_all_nth)
  then have ep: "pm_entry_file_path m = fst f" using r(2) by (simp add: record_for_def)
  have im: "(\<lambda>p. ''project/'' @ p) ` set out = set (x_files st)" using out(2) xf by (simp add: image_image)
  have ex: "list_ex (\<lambda>r. pf_path r = pm_entry_file_path m \<and> pf_kind r = ''document'') (pm_files m)"
    using r by (auto simp: list_ex_iff)
  have sm: "safe_relative_path (pm_entry_file_path m)" using worker_path_relative [OF wp [OF f(1)]] ep by simp
  have em: "map_of (x_tree st) (segments (pm_entry_file_path m)) = Some (FS_file (snd f))" using at f(1) ep by simp
  have "validate_manifest env m schema (x_tree st) (x_files st) = Inr ()"
    unfolding validate_manifest_def using m len sm out(1) im ex em by simp
  with zip st mf parse os files(2) have "verify_and_extract_project env content schema = Inr (x_tree st, m)"
    by (simp add: verify_and_extract_project_def split: unit.split)
  with tree show ?thesis by blast
qed

end
