(* ===== verification/Collaboration_Store.thy ===== *)
theory Collaboration_Store
  imports Workspace_Sync Project_Access
begin

text \<open>
  The durable state of a collaboration room: the log of Yjs updates and the latest snapshot of a
  document, and the statements on them (\<open>collaboration/persistence.rs\<close>), with the merge of a snapshot
  and updates (\<open>collaboration/yjs_state.rs\<close>).

  Yjs itself (the crate \<open>yrs\<close>) is the parameter \<open>Y\<close>: documents, decoded updates, the application of an
  update, the text of a document and its encoding. The rows refer to documents and projects; the rows
  of a deleted document go with it (\<open>ON DELETE CASCADE\<close>).
\<close>

section \<open>Tables\<close>

datatype update_kind = Update_kind | Sync_kind

fun kind_str :: "update_kind \<Rightarrow> string" where
  "kind_str Update_kind = ''yjs.update''"
| "kind_str Sync_kind = ''yjs.sync''"

record collaboration_document =
  cd_project_id :: uuid
  cd_document_id :: uuid
  cd_collaboration_revision :: int
  cd_content_epoch :: int

record update_row =
  ur_id :: int
  ur_project_id :: uuid
  ur_document_id :: uuid
  ur_collaboration_revision :: int
  ur_user_id :: "uuid option"
  ur_kind :: string
  ur_payload :: bytes
  ur_created_at :: instant
  ur_content_epoch :: int
  ur_guest_display_name :: "string option"

record snapshot_row =
  sr_project_id :: uuid
  sr_document_id :: uuid
  sr_collaboration_revision :: int
  sr_upto_update_id :: int
  sr_state_update :: bytes
  sr_updated_at :: instant
  sr_content_epoch :: int

record collab_world =
  cw_workspace :: workspace_world
  cw_access :: access_db
  cw_updates :: "update_row list"
  cw_snapshots :: "snapshot_row list"
  cw_next_id :: int

abbreviation cw_db :: "collab_world \<Rightarrow> workspace_db" where
  "cw_db c \<equiv> ww_db (cw_workspace c)"

definition set_db :: "workspace_db \<Rightarrow> collab_world \<Rightarrow> collab_world" where
  "set_db w c = c\<lparr>cw_workspace := (cw_workspace c)\<lparr>ww_db := w\<rparr>\<rparr>"

datatype persisted_contributor = PersistedUser uuid | PersistedGuest string

record bootstrap_state =
  bs_upto_update_id :: int
  bs_snapshot_payload :: "bytes option"
  bs_updates :: "(update_kind \<times> bytes) list"
  bs_contributors :: "persisted_contributor list"

text \<open>The conditions of the statements: the document with its revision, in any epoch or in one.\<close>

definition update_of_revision :: "collaboration_document \<Rightarrow> update_row \<Rightarrow> bool" where
  "update_of_revision D u \<longleftrightarrow> ur_project_id u = cd_project_id D \<and> ur_document_id u = cd_document_id D \<and>
     ur_collaboration_revision u = cd_collaboration_revision D"

definition snapshot_of_revision :: "collaboration_document \<Rightarrow> snapshot_row \<Rightarrow> bool" where
  "snapshot_of_revision D s \<longleftrightarrow> sr_project_id s = cd_project_id D \<and> sr_document_id s = cd_document_id D \<and>
     sr_collaboration_revision s = cd_collaboration_revision D"

definition update_of :: "collaboration_document \<Rightarrow> update_row \<Rightarrow> bool" where
  "update_of D u \<longleftrightarrow> update_of_revision D u \<and> ur_content_epoch u = cd_content_epoch D"

definition snapshot_of :: "collaboration_document \<Rightarrow> snapshot_row \<Rightarrow> bool" where
  "snapshot_of D s \<longleftrightarrow> snapshot_of_revision D s \<and> sr_content_epoch s = cd_content_epoch D"

section \<open>Statements\<close>

definition clear_project :: "uuid \<Rightarrow> collab_world \<Rightarrow> collab_world" where
  "clear_project pid c =
     c\<lparr>cw_updates := delete_where (\<lambda>u. ur_project_id u = pid) (cw_updates c),
       cw_snapshots := delete_where (\<lambda>s. sr_project_id s = pid) (cw_snapshots c)\<rparr>"

definition clear_superseded_document_revisions :: "collaboration_document \<Rightarrow> collab_world \<Rightarrow> collab_world" where
  "clear_superseded_document_revisions D c =
     c\<lparr>cw_updates := delete_where (\<lambda>u. ur_project_id u = cd_project_id D \<and> ur_document_id u = cd_document_id D \<and>
         ur_collaboration_revision u \<noteq> cd_collaboration_revision D) (cw_updates c),
       cw_snapshots := delete_where (\<lambda>s. sr_project_id s = cd_project_id D \<and> sr_document_id s = cd_document_id D \<and>
         sr_collaboration_revision s \<noteq> cd_collaboration_revision D) (cw_snapshots c)\<rparr>"

definition clear_document_revision :: "collaboration_document \<Rightarrow> collab_world \<Rightarrow> collab_world" where
  "clear_document_revision D c =
     c\<lparr>cw_updates := delete_where (update_of_revision D) (cw_updates c),
       cw_snapshots := delete_where (snapshot_of_revision D) (cw_snapshots c)\<rparr>"

record update_write =
  uw_document :: collaboration_document
  uw_user_id :: "uuid option"
  uw_kind :: update_kind
  uw_payload :: bytes
  uw_guest_display_name :: "string option"

text \<open>
  The insertion takes the next identifier. It fails when the update names both a user and a guest
  (\<open>collab_doc_updates_actor_check\<close>), has a negative revision or no document.
\<close>

definition insert_update :: "update_write \<Rightarrow> instant \<Rightarrow> collab_world \<Rightarrow> (int \<times> collab_world) option" where
  "insert_update u now c =
     (let D = uw_document u in
      if (uw_user_id u \<noteq> None \<and> uw_guest_display_name u \<noteq> None) \<or> cd_collaboration_revision D < 0 \<or>
         \<not> exists_where (\<lambda>d. dc_id d = cd_document_id D) (w_documents (cw_db c)) \<or> \<not> project_exists (cd_project_id D) (cw_db c)
      then None
      else Some (cw_next_id c,
        c\<lparr>cw_updates := cw_updates c @
            [\<lparr>ur_id = cw_next_id c, ur_project_id = cd_project_id D, ur_document_id = cd_document_id D,
              ur_collaboration_revision = cd_collaboration_revision D, ur_user_id = uw_user_id u,
              ur_kind = kind_str (uw_kind u), ur_payload = uw_payload u, ur_created_at = now,
              ur_content_epoch = cd_content_epoch D, ur_guest_display_name = uw_guest_display_name u\<rparr>],
          cw_next_id := cw_next_id c + 1\<rparr>))"

definition upsert_snapshot :: "collaboration_document \<Rightarrow> int \<Rightarrow> bytes \<Rightarrow> instant \<Rightarrow> collab_world \<Rightarrow> collab_world" where
  "upsert_snapshot D upto_id state_update now c =
     (if exists_where (snapshot_of_revision D) (cw_snapshots c)
      then c\<lparr>cw_snapshots := update_where
               (\<lambda>s. snapshot_of_revision D s \<and>
                    (sr_content_epoch s < cd_content_epoch D \<or>
                     (sr_content_epoch s = cd_content_epoch D \<and> sr_upto_update_id s \<le> upto_id)))
               (\<lambda>s. s\<lparr>sr_upto_update_id := upto_id, sr_state_update := state_update, sr_updated_at := now,
                      sr_content_epoch := cd_content_epoch D\<rparr>) (cw_snapshots c)\<rparr>
      else c\<lparr>cw_snapshots := cw_snapshots c @
               [\<lparr>sr_project_id = cd_project_id D, sr_document_id = cd_document_id D,
                 sr_collaboration_revision = cd_collaboration_revision D, sr_upto_update_id = upto_id,
                 sr_state_update = state_update, sr_updated_at = now, sr_content_epoch = cd_content_epoch D\<rparr>]\<rparr>)"

text \<open>\<open>i64::saturating_sub\<close>: the subtrahend, the retention, is at least 100.\<close>

definition i64_saturating_sub :: "int \<Rightarrow> int \<Rightarrow> int" where
  "i64_saturating_sub a b = max (- i64_max - 1) (min i64_max (a - b))"

definition prune_updates :: "int \<Rightarrow> collaboration_document \<Rightarrow> int \<Rightarrow> collab_world \<Rightarrow> collab_world" where
  "prune_updates retention D latest c =
     (let cutoff = i64_saturating_sub latest retention in
      if cutoff \<le> 0 then c
      else c\<lparr>cw_updates := delete_where
               (\<lambda>u. update_of D u \<and> ur_id u < cutoff \<and>
                    exists_where (\<lambda>s. snapshot_of D s \<and> cutoff \<le> sr_upto_update_id s) (cw_snapshots c))
               (cw_updates c)\<rparr>)"

definition parse_kind :: "string \<Rightarrow> update_kind option" where
  "parse_kind k = (if k = ''yjs.sync'' then Some Sync_kind else if k = ''yjs.update'' then Some Update_kind else None)"

definition row_contributor :: "update_row \<Rightarrow> persisted_contributor option" where
  "row_contributor u =
     (case ur_user_id u of Some i \<Rightarrow> Some (PersistedUser i)
      | None \<Rightarrow> map_option PersistedGuest (ur_guest_display_name u))"

text \<open>The loop over the rows: each one moves the bound on, also one of a kind that is ignored.\<close>

fun load_rows :: "update_row list \<Rightarrow> bootstrap_state \<Rightarrow> bootstrap_state" where
  "load_rows [] b = b"
| "load_rows (u # us) b =
     (let b1 = b\<lparr>bs_upto_update_id := ur_id u\<rparr> in
      case parse_kind (ur_kind u) of
        None \<Rightarrow> load_rows us b1
      | Some k \<Rightarrow>
          let cs = (case row_contributor u of
                      Some x \<Rightarrow> if x \<in> set (bs_contributors b1) then bs_contributors b1 else bs_contributors b1 @ [x]
                    | None \<Rightarrow> bs_contributors b1)
          in load_rows us (b1\<lparr>bs_contributors := cs, bs_updates := bs_updates b1 @ [(k, ur_payload u)]\<rparr>))"

definition pending_rows :: "collaboration_document \<Rightarrow> int \<Rightarrow> collab_world \<Rightarrow> update_row list" where
  "pending_rows D after c = sort_key ur_id (filter (\<lambda>u. update_of D u \<and> after < ur_id u) (cw_updates c))"

definition load_state :: "collaboration_document \<Rightarrow> collab_world \<Rightarrow> bootstrap_state" where
  "load_state D c =
     (let snapshot = find (snapshot_of D) (cw_snapshots c);
          upto_id = (case snapshot of None \<Rightarrow> 0 | Some s \<Rightarrow> sr_upto_update_id s)
      in load_rows (pending_rows D upto_id c)
           \<lparr>bs_upto_update_id = upto_id, bs_snapshot_payload = map_option sr_state_update snapshot, bs_updates = [],
            bs_contributors = []\<rparr>)"

definition latest_project_update_id :: "uuid \<Rightarrow> collab_world \<Rightarrow> int option" where
  "latest_project_update_id pid c =
     (case map ur_id (filter (\<lambda>u. ur_project_id u = pid) (cw_updates c)) of
        [] \<Rightarrow> None | i # is \<Rightarrow> Some (foldl max i is))"

text \<open>
  An update is pending when the snapshot of its document, revision and epoch does not cover it; the
  query has one row per document, in the order of the first pending update.
\<close>

definition document_of :: "update_row \<Rightarrow> collaboration_document" where
  "document_of u = \<lparr>cd_project_id = ur_project_id u, cd_document_id = ur_document_id u,
     cd_collaboration_revision = ur_collaboration_revision u, cd_content_epoch = ur_content_epoch u\<rparr>"

definition update_pending :: "collab_world \<Rightarrow> update_row \<Rightarrow> bool" where
  "update_pending c u \<longleftrightarrow>
     (case find (snapshot_of (document_of u)) (cw_snapshots c) of
        None \<Rightarrow> 0 < ur_id u | Some s \<Rightarrow> sr_upto_update_id s < ur_id u)"

fun first_documents :: "collaboration_document list \<Rightarrow> collaboration_document list" where
  "first_documents [] = []"
| "first_documents (D # Ds) = D # filter (\<lambda>E. E \<noteq> D) (first_documents Ds)"

definition pending_project_documents :: "uuid \<Rightarrow> int \<Rightarrow> collab_world \<Rightarrow> collaboration_document list" where
  "pending_project_documents pid upto_id c =
     first_documents (map document_of (sort_key ur_id
       (filter (\<lambda>u. ur_project_id u = pid \<and> ur_id u \<le> upto_id \<and> update_pending c u) (cw_updates c))))"

definition next_pending_document :: "collab_world \<Rightarrow> collaboration_document option" where
  "next_pending_document c =
     (case sort_key ur_id (filter (update_pending c) (cw_updates c)) of [] \<Rightarrow> None | u # _ \<Rightarrow> Some (document_of u))"

text \<open>\<open>str::parse::<i64>\<close>: an optional sign, at least one digit, a value in range.\<close>

definition parse_i64 :: "string \<Rightarrow> int option" where
  "parse_i64 s =
     (let (sign, ds) = (case s of [] \<Rightarrow> (1, [])
            | x # xs \<Rightarrow> if x = CHR ''-'' then (-1, xs) else if x = CHR ''+'' then (1, xs) else (1, s));
          n = sign * foldl (\<lambda>v d. 10 * v + (int (of_char d) - 48)) 0 ds
      in if ds = [] \<or> \<not> list_all ascii_digit ds \<or> n < - i64_max - 1 \<or> i64_max < n then None else Some n)"

definition parse_limit :: "string option \<Rightarrow> int \<Rightarrow> int \<Rightarrow> int" where
  "parse_limit v minimum dflt =
     (case Option.bind v parse_i64 of
        Some n \<Rightarrow> if minimum \<le> n then n else dflt
      | None \<Rightarrow> dflt)"

text \<open>The retention that \<open>CollaborationPersistence::new\<close> configures, from \<open>COLLAB_DOC_UPDATE_RETAIN\<close>.\<close>

definition update_retention :: "string option \<Rightarrow> int" where
  "update_retention v = parse_limit v 100 4000"

text \<open>The rows of deleted documents are deleted.\<close>

definition cascade :: "collab_world \<Rightarrow> collab_world" where
  "cascade c =
     (let ids = map dc_id (w_documents (cw_db c)) in
      c\<lparr>cw_updates := filter (\<lambda>u. ur_document_id u \<in> set ids) (cw_updates c),
        cw_snapshots := filter (\<lambda>s. sr_document_id s \<in> set ids) (cw_snapshots c)\<rparr>)"

section \<open>Yjs\<close>

record ('d, 'u) yjs =
  yj_new :: 'd
  yj_with_client_id :: "nat \<Rightarrow> 'd"
  yj_decode_v1 :: "bytes \<Rightarrow> 'u option"
  yj_apply_update :: "'u \<Rightarrow> 'd \<Rightarrow> 'd option"
  yj_insert_text :: "string \<Rightarrow> 'd \<Rightarrow> 'd"
  yj_get_text :: "'d \<Rightarrow> string"
  yj_encode_state :: "'d \<Rightarrow> bytes"

datatype yjs_error = Decode_failed | Apply_failed

record merged_state =
  ms_update :: bytes
  ms_text :: string

definition seed_text :: "('d, 'u) yjs \<Rightarrow> string \<Rightarrow> bytes" where
  "seed_text Y content =
     (let d = yj_with_client_id Y 1 in
      yj_encode_state Y (if content \<noteq> [] then yj_insert_text Y content d else d))"

definition apply_payload :: "('d, 'u) yjs \<Rightarrow> bytes \<Rightarrow> 'd \<Rightarrow> yjs_error + 'd" where
  "apply_payload Y payload d =
     (case yj_decode_v1 Y payload of
        None \<Rightarrow> Inl Decode_failed
      | Some u \<Rightarrow> (case yj_apply_update Y u d of None \<Rightarrow> Inl Apply_failed | Some d' \<Rightarrow> Inr d'))"

fun apply_payloads :: "('d, 'u) yjs \<Rightarrow> bytes list \<Rightarrow> 'd \<Rightarrow> yjs_error + 'd" where
  "apply_payloads Y [] d = Inr d"
| "apply_payloads Y (p # ps) d = (case apply_payload Y p d of Inl e \<Rightarrow> Inl e | Inr d' \<Rightarrow> apply_payloads Y ps d')"

definition validate_update :: "('d, 'u) yjs \<Rightarrow> bytes \<Rightarrow> yjs_error + unit" where
  "validate_update Y payload = (case apply_payload Y payload (yj_new Y) of Inl e \<Rightarrow> Inl e | Inr _ \<Rightarrow> Inr ())"

definition merge_updates :: "('d, 'u) yjs \<Rightarrow> bytes option \<Rightarrow> bytes list \<Rightarrow> yjs_error + merged_state" where
  "merge_updates Y snapshot updates =
     (case apply_payloads Y ((case snapshot of None \<Rightarrow> [] | Some s \<Rightarrow> [s]) @ updates) (yj_new Y) of
        Inl e \<Rightarrow> Inl e
      | Inr d \<Rightarrow> Inr \<lparr>ms_update = yj_encode_state Y d, ms_text = yj_get_text Y d\<rparr>)"

end
