(* ===== verification/Collaboration.thy ===== *)
theory Collaboration
  imports Collaboration_Store
begin

text \<open>
  The operations on the durable collaboration state: \<open>workspace/collaboration_projection.rs\<close>,
  \<open>collaboration/projection.rs\<close>, \<open>collaboration/bootstrap.rs\<close> and \<open>collaboration/updates.rs\<close>.

  Each operation is one transaction under the locks it takes (the content epoch, the access epoch, the
  updates of the document), so its statements run on one state; a transaction that does not commit
  leaves the state as it was. The clock is read once per transaction. Notifications to the rooms are
  part of the result; database outages are not modelled.
\<close>

section \<open>Projection into the Workspace\<close>

datatype collaboration_contributor = ContributorUser uuid | ContributorGuest string

datatype projection_outcome =
    Projected string uuid int int
  | Unchanged
  | ContentEpochChanged_projection
  | DocumentChanged_projection

definition lock_by_collaboration_identity :: "uuid \<Rightarrow> uuid \<Rightarrow> int \<Rightarrow> workspace_db \<Rightarrow> document_row option" where
  "lock_by_collaboration_identity pid document_id revision w =
     find (\<lambda>d. dc_project_id d = pid \<and> dc_id d = document_id \<and> dc_collaboration_revision d = revision) (w_documents w)"

definition lock_project_collaboration_document :: "uuid \<Rightarrow> uuid \<Rightarrow> int \<Rightarrow> workspace_db \<Rightarrow> bool" where
  "lock_project_collaboration_document pid document_id revision w \<longleftrightarrow>
     lock_by_collaboration_identity pid document_id revision w \<noteq> None"

fun activity_contributor :: "collaboration_contributor \<Rightarrow> contributor" where
  "activity_contributor (ContributorUser u) = User u"
| "activity_contributor (ContributorGuest g) = Guest g"

definition record_collaborative_document_activity ::
  "uuid \<Rightarrow> collaboration_contributor list \<Rightarrow> workspace_db \<Rightarrow> workspace_db" where
  "record_collaborative_document_activity pid cs w =
     (let w1 = advance_workspace_version pid w in
      if cs = [] then w1\<lparr>w_activity := w_activity w1 @ [(pid, System)]\<rparr>
      else w1\<lparr>w_activity := w_activity w1 @ map (\<lambda>x. (pid, activity_contributor x)) cs\<rparr>)"

definition project_collaboration_document ::
  "collaboration_document \<Rightarrow> string \<Rightarrow> collaboration_contributor list \<Rightarrow> instant \<Rightarrow> workspace_db \<Rightarrow>
   projection_outcome \<times> workspace_db" where
  "project_collaboration_document D content cs now w =
     (if lock_project_content_epoch (cd_project_id D) (cd_content_epoch D) w \<noteq> Current_epoch
      then (ContentEpochChanged_projection, w)
      else case lock_by_collaboration_identity (cd_project_id D) (cd_document_id D) (cd_collaboration_revision D) w of
        None \<Rightarrow> (DocumentChanged_projection, w)
      | Some current \<Rightarrow>
          if dc_content current = content then (Unchanged, w)
          else case update_projected_content (cd_project_id D) (cd_document_id D) (cd_collaboration_revision D) content now w of
            None \<Rightarrow> (DocumentChanged_projection, w)
          | Some (d, w1) \<Rightarrow>
              (Projected (dc_path d) (dc_id d) (dc_collaboration_revision d) (dc_change_sequence d),
               record_collaborative_document_activity (cd_project_id D) cs w1))"

section \<open>Reconciliation\<close>

datatype workspace_change =
    Document_change string uuid int int
  | Tree_change "string option"
  | Settings_change
  | Assets_change "string option"

record reconciled =
  rc_snapshot_payload :: bytes
  rc_upto_update_id :: int
  rc_workspace_change :: "workspace_change option"

datatype reconcile_outcome =
    Current_reconciled reconciled
  | ContentEpochChanged_reconcile
  | DocumentChanged_reconcile

fun collaboration_contributor_of :: "persisted_contributor \<Rightarrow> collaboration_contributor" where
  "collaboration_contributor_of (PersistedUser u) = ContributorUser u"
| "collaboration_contributor_of (PersistedGuest g) = ContributorGuest g"

definition contributors :: "bootstrap_state \<Rightarrow> collaboration_contributor list" where
  "contributors b = map collaboration_contributor_of (bs_contributors b)"

text \<open>
  \<open>reconcile_collaboration_document\<close>: the merged text goes to the Workspace, the merged state becomes
  the snapshot, and the updates it has covered for long are dropped. On an error the transaction of the
  caller is not committed.
\<close>

definition reconcile_collaboration_document ::
  "('d, 'u) yjs \<Rightarrow> int \<Rightarrow> instant \<Rightarrow> collaboration_document \<Rightarrow> bootstrap_state \<Rightarrow> bytes option \<Rightarrow> collab_world \<Rightarrow>
   yjs_error + (reconcile_outcome \<times> collab_world)" where
  "reconcile_collaboration_document Y retention now D st canonical_seed c =
     (case merge_updates Y (case bs_snapshot_payload st of Some s \<Rightarrow> Some s | None \<Rightarrow> canonical_seed) (map snd (bs_updates st)) of
        Inl e \<Rightarrow> Inl e
      | Inr m \<Rightarrow>
          let (projection, w) = project_collaboration_document D (ms_text m) (contributors st) now (cw_db c);
              c1 = set_db w c;
              finish = (\<lambda>change.
                let c2 = upsert_snapshot D (bs_upto_update_id st) (ms_update m) now c1;
                    c3 = prune_updates retention D (bs_upto_update_id st) c2
                in Inr (Current_reconciled \<lparr>rc_snapshot_payload = ms_update m, rc_upto_update_id = bs_upto_update_id st,
                          rc_workspace_change = change\<rparr>, c3))
          in case projection of
               Projected path i revision sequence \<Rightarrow> finish (Some (Document_change path i revision sequence))
             | Unchanged \<Rightarrow> finish None
             | ContentEpochChanged_projection \<Rightarrow> Inr (ContentEpochChanged_reconcile, c1)
             | DocumentChanged_projection \<Rightarrow> Inr (DocumentChanged_reconcile, clear_document_revision D c1))"

definition reconcile_pending_document ::
  "('d, 'u) yjs \<Rightarrow> int \<Rightarrow> instant \<Rightarrow> collaboration_document \<Rightarrow> collab_world \<Rightarrow>
   yjs_error + (reconcile_outcome \<times> collab_world)" where
  "reconcile_pending_document Y retention now D c =
     (if lock_project_content_epoch (cd_project_id D) (cd_content_epoch D) (cw_db c) \<noteq> Current_epoch
      then Inr (ContentEpochChanged_reconcile, c)
      else reconcile_collaboration_document Y retention now D (load_state D c) None c)"

definition change_of :: "reconcile_outcome \<Rightarrow> workspace_change list" where
  "change_of r = (case r of Current_reconciled x \<Rightarrow> (case rc_workspace_change x of None \<Rightarrow> [] | Some ch \<Rightarrow> [ch]) | _ \<Rightarrow> [])"

text \<open>
  The loop of \<open>flush_project_collaboration\<close>, one transaction per document: an error ends it, and what
  was committed before stays.
\<close>

fun flush_documents ::
  "('d, 'u) yjs \<Rightarrow> int \<Rightarrow> instant \<Rightarrow> collaboration_document list \<Rightarrow> collab_world \<Rightarrow>
   (yjs_error option \<times> workspace_change list) \<times> collab_world" where
  "flush_documents Y retention now [] c = ((None, []), c)"
| "flush_documents Y retention now (D # Ds) c =
     (case reconcile_pending_document Y retention now D c of
        Inl e \<Rightarrow> ((Some e, []), c)
      | Inr (r, c1) \<Rightarrow>
          let ((e, changes), c2) = flush_documents Y retention now Ds c1 in ((e, change_of r @ changes), c2))"

definition flush_project_collaboration ::
  "('d, 'u) yjs \<Rightarrow> int \<Rightarrow> instant \<Rightarrow> uuid \<Rightarrow> collab_world \<Rightarrow> (yjs_error option \<times> workspace_change list) \<times> collab_world" where
  "flush_project_collaboration Y retention now pid c =
     (case latest_project_update_id pid c of
        None \<Rightarrow> ((None, []), c)
      | Some target \<Rightarrow> flush_documents Y retention now (pending_project_documents pid target c) c)"

text \<open>
  The loop of \<open>flush_project_collaboration_for_capture\<close> runs in the transaction of the capture, which
  has locked the content epoch: an error discards everything.
\<close>

fun capture_documents ::
  "('d, 'u) yjs \<Rightarrow> int \<Rightarrow> instant \<Rightarrow> collaboration_document list \<Rightarrow> collab_world \<Rightarrow>
   yjs_error + (workspace_change list \<times> collab_world)" where
  "capture_documents Y retention now [] c = Inr ([], c)"
| "capture_documents Y retention now (D # Ds) c =
     (case reconcile_collaboration_document Y retention now D (load_state D c) None c of
        Inl e \<Rightarrow> Inl e
      | Inr (r, c1) \<Rightarrow>
          (case capture_documents Y retention now Ds c1 of
             Inl e \<Rightarrow> Inl e
           | Inr (changes, c2) \<Rightarrow> Inr (change_of r @ changes, c2)))"

definition flush_project_collaboration_for_capture ::
  "('d, 'u) yjs \<Rightarrow> int \<Rightarrow> instant \<Rightarrow> uuid \<Rightarrow> collab_world \<Rightarrow> yjs_error + (workspace_change list \<times> collab_world)" where
  "flush_project_collaboration_for_capture Y retention now pid c =
     (case latest_project_update_id pid c of
        None \<Rightarrow> Inr ([], c)
      | Some target \<Rightarrow> capture_documents Y retention now (pending_project_documents pid target c) c)"

text \<open>
  A batch of the projection worker: at most 64 documents, until nothing is pending or a document fails.
\<close>

definition projection_batch_size :: nat where "projection_batch_size = 64"

fun projector_batch :: "nat \<Rightarrow> ('d, 'u) yjs \<Rightarrow> int \<Rightarrow> instant \<Rightarrow> collab_world \<Rightarrow> workspace_change list \<times> collab_world" where
  "projector_batch 0 Y retention now c = ([], c)"
| "projector_batch (Suc n) Y retention now c =
     (case next_pending_document c of
        None \<Rightarrow> ([], c)
      | Some D \<Rightarrow>
          (case reconcile_pending_document Y retention now D c of
             Inl e \<Rightarrow> ([], c)
           | Inr (r, c1) \<Rightarrow> let (changes, c2) = projector_batch n Y retention now c1 in (change_of r @ changes, c2)))"

section \<open>Bootstrap\<close>

datatype bootstrap_error = DocumentChanged_bootstrap | Projection_bootstrap yjs_error

definition document_collaboration_seed :: "uuid \<Rightarrow> uuid \<Rightarrow> int \<Rightarrow> workspace_db \<Rightarrow> string option" where
  "document_collaboration_seed pid document_id revision w =
     map_option dc_content (lock_by_collaboration_identity pid document_id revision w)"

definition prepare_document_bootstrap ::
  "('d, 'u) yjs \<Rightarrow> int \<Rightarrow> instant \<Rightarrow> collaboration_document \<Rightarrow> collab_world \<Rightarrow>
   (bootstrap_error + (bootstrap_state \<times> workspace_change list)) \<times> collab_world" where
  "prepare_document_bootstrap Y retention now D c =
     (case document_collaboration_seed (cd_project_id D) (cd_document_id D) (cd_collaboration_revision D) (cw_db c) of
        None \<Rightarrow> (Inl DocumentChanged_bootstrap, c)
      | Some content \<Rightarrow>
          let c1 = clear_superseded_document_revisions D c;
              st = load_state D c1;
              has_persisted_state = (bs_snapshot_payload st \<noteq> None \<or> bs_updates st \<noteq> []);
              canonical_seed = (if has_persisted_state then None else Some (seed_text Y content))
          in case reconcile_collaboration_document Y retention now D st canonical_seed c1 of
               Inl e \<Rightarrow> (Inl (Projection_bootstrap e), c)
             | Inr (Current_reconciled x, c2) \<Rightarrow>
                 (Inr (\<lparr>bs_upto_update_id = rc_upto_update_id x, bs_snapshot_payload = Some (rc_snapshot_payload x),
                        bs_updates = [], bs_contributors = []\<rparr>,
                       change_of (Current_reconciled x)), c2)
             | Inr (_, _) \<Rightarrow> (Inl DocumentChanged_bootstrap, c))"

section \<open>Updates\<close>

record update_ack =
  ua_update_id :: int
  ua_projected :: bool
  ua_workspace_change :: "workspace_change option"

datatype persist_outcome =
    Accepted_update update_ack
  | ContentEpochChanged_update
  | AccessChanged_update
  | DocumentChanged_update

datatype persist_error = InsertUpdate_failed | Reconciliation_failed yjs_error

definition persist_update ::
  "('d, 'u) yjs \<Rightarrow> int \<Rightarrow> instant \<Rightarrow> collaboration_document \<Rightarrow> uuid option \<Rightarrow> update_kind \<Rightarrow> bytes \<Rightarrow> int \<Rightarrow> string option \<Rightarrow>
   collab_world \<Rightarrow> (persist_error + persist_outcome) \<times> collab_world" where
  "persist_update Y retention now D user_id kind payload access_epoch guest c =
     (if lock_project_content_epoch (cd_project_id D) (cd_content_epoch D) (cw_db c) \<noteq> Current_epoch
      then (Inr ContentEpochChanged_update, c)
      else case lock_project_access_epoch (cd_project_id D) access_epoch (cw_access c) of
        Changed \<Rightarrow> (Inr AccessChanged_update, c)
      | ProjectNotFound \<Rightarrow> (Inr ContentEpochChanged_update, c)
      | Current \<Rightarrow>
          if \<not> lock_project_collaboration_document (cd_project_id D) (cd_document_id D) (cd_collaboration_revision D) (cw_db c)
          then (Inr DocumentChanged_update, c)
          else case insert_update \<lparr>uw_document = D, uw_user_id = user_id, uw_kind = kind, uw_payload = payload,
                      uw_guest_display_name = guest\<rparr> now c of
            None \<Rightarrow> (Inl InsertUpdate_failed, c)
          | Some (update_id, c1) \<Rightarrow>
              if kind = Sync_kind
              then (case reconcile_collaboration_document Y retention now D (load_state D c1) None c1 of
                      Inl e \<Rightarrow> (Inl (Reconciliation_failed e), c)
                    | Inr (Current_reconciled x, c2) \<Rightarrow>
                        (Inr (Accepted_update \<lparr>ua_update_id = update_id, ua_projected = True,
                           ua_workspace_change = rc_workspace_change x\<rparr>), c2)
                    | Inr (ContentEpochChanged_reconcile, _) \<Rightarrow> (Inr ContentEpochChanged_update, c)
                    | Inr (DocumentChanged_reconcile, _) \<Rightarrow> (Inr DocumentChanged_update, c))
              else (Inr (Accepted_update \<lparr>ua_update_id = update_id, ua_projected = False, ua_workspace_change = None\<rparr>),
                    prune_updates retention D update_id c1))"

section \<open>Runs\<close>

text \<open>
  The content of a project is replaced together with the collaboration state: the transaction of
  \<open>apply_repo_import\<close> in \<open>versioning/materialization.rs\<close>.
\<close>

definition replace_and_clear :: "(nat \<Rightarrow> uuid) \<Rightarrow> replace_content \<Rightarrow> collab_world \<Rightarrow> collab_world" where
  "replace_and_clear fresh r c =
     (case replace_project_content fresh r (cw_db c) of
        Some (Replaced old v ep, w) \<Rightarrow>
          let c1 = clear_project (rp_project_id r) (cascade (set_db w c)) in
          c1\<lparr>cw_workspace := (cw_workspace c1)\<lparr>ww_queue := enqueue_object_deletions (rp_updated_at r) old (ww_queue (cw_workspace c1))\<rparr>\<rparr>
      | _ \<Rightarrow> c)"

datatype collab_event =
    Persist collaboration_document "uuid option" update_kind bytes int "string option" instant
  | Bootstrap collaboration_document instant
  | ProjectorBatch instant
  | Flush uuid instant
  | Capture uuid instant
  | Replace "nat \<Rightarrow> uuid" replace_content
  | WorkspaceOperation workspace_event
  | AccessOperation access_db

text \<open>
  A replacement and a projection are steps of their own here; every other operation of the Workspace
  and every change of the access tables may come in between.
\<close>

fun collab_step :: "('d, 'u) yjs \<Rightarrow> int \<Rightarrow> collab_event \<Rightarrow> collab_world \<Rightarrow> collab_world" where
  "collab_step Y retention (Persist D user kind payload access_epoch guest now) c =
     snd (persist_update Y retention now D user kind payload access_epoch guest c)"
| "collab_step Y retention (Bootstrap D now) c = snd (prepare_document_bootstrap Y retention now D c)"
| "collab_step Y retention (ProjectorBatch now) c = snd (projector_batch projection_batch_size Y retention now c)"
| "collab_step Y retention (Flush pid now) c = snd (flush_project_collaboration Y retention now pid c)"
| "collab_step Y retention (Capture pid now) c =
     (case flush_project_collaboration_for_capture Y retention now pid c of Inl e \<Rightarrow> c | Inr (changes, c1) \<Rightarrow> c1)"
| "collab_step Y retention (Replace fresh r) c = replace_and_clear fresh r c"
| "collab_step Y retention (WorkspaceOperation e) c =
     (if is_replacement e \<or> is_projection e then c
      else cascade (c\<lparr>cw_workspace := workspace_step e (cw_workspace c)\<rparr>))"
| "collab_step Y retention (AccessOperation a) c = c\<lparr>cw_access := a\<rparr>"

end
