(* ===== verification/Collaboration_Invariant.thy ===== *)
theory Collaboration_Invariant
  imports Collaboration
begin

text \<open>
  What the collaboration operations keep: the invariant of the update log and the snapshots, the
  agreement between a snapshot and the text of its document in the Workspace, and the state of a room,
  the document that its snapshot and the later updates merge to.
\<close>

section \<open>Content epochs\<close>

text \<open>Only a replacement advances the epoch of a project.\<close>

definition epochs_kept :: "workspace_db \<Rightarrow> workspace_db \<Rightarrow> bool" where
  "epochs_kept w w' \<longleftrightarrow>
     (\<forall>pid ep. project_content_epoch pid w = Some ep \<longrightarrow> project_content_epoch pid w' = Some ep)"

lemma epochs_same: "w_projects w' = w_projects w \<Longrightarrow> epochs_kept w w'"
  by (simp add: epochs_kept_def project_content_epoch_def find_project_def)

lemma epoch_version [simp]: "project_content_epoch pid (advance_workspace_version q w) = project_content_epoch pid w"
  by (cases "find (\<lambda>p. pr_id p = pid) (w_projects w)")
    (simp_all add: project_content_epoch_def find_project_def advance_workspace_version_def find_update_where)

lemma epoch_tables [simp]:
  "project_content_epoch pid (w\<lparr>w_activity := a\<rparr>) = project_content_epoch pid w"
  "project_content_epoch pid (w\<lparr>w_documents := ds\<rparr>) = project_content_epoch pid w"
  "project_content_epoch pid (w\<lparr>w_assets := as\<rparr>) = project_content_epoch pid w"
  "project_content_epoch pid (w\<lparr>w_directories := rs\<rparr>) = project_content_epoch pid w"
  "project_content_epoch pid (w\<lparr>w_settings := ss\<rparr>) = project_content_epoch pid w"
  "project_content_epoch pid (w\<lparr>w_next_sequence := n\<rparr>) = project_content_epoch pid w"
  by (simp_all add: project_content_epoch_def find_project_def)

lemma epoch_dirty [simp]: "project_content_epoch pid (mark_project_dirty q a g w) = project_content_epoch pid w"
  by (simp add: mark_project_dirty_def Let_def)

lemma epochs_dirty [simp]: "epochs_kept w (mark_project_dirty q a g w') = epochs_kept w w'"
  by (simp add: epochs_kept_def)

lemma epochs_statements:
  "document_insert i pid path content now w = Some (d, w') \<Longrightarrow> epochs_kept w w'"
  "document_upsert i pid path content now w = Some (d, w') \<Longrightarrow> epochs_kept w w'"
  "update_content pid i pr cr content now w = Some (d, w') \<Longrightarrow> epochs_kept w w'"
  "update_projected_content pid i cr content now w = Some (d, w') \<Longrightarrow> epochs_kept w w'"
  "settings_insert pid entry engine now w = Some w' \<Longrightarrow> epochs_kept w w'"
  "settings_ensure pid entry engine now w = Some w' \<Longrightarrow> epochs_kept w w'"
  "update_entry_file_path pid entry now w = Some w' \<Longrightarrow> epochs_kept w w'"
  "update_latex_engine pid eng now w = Some w' \<Longrightarrow> epochs_kept w w'"
  "move_subtree pid source target now w = Some (c, w') \<Longrightarrow> epochs_kept w w'"
  "asset_upsert a w = Some (r, w') \<Longrightarrow> epochs_kept w w'"
  "insert_directory pid path now w = Some (b, w') \<Longrightarrow> epochs_kept w w'"
  by (auto simp: document_insert_def document_upsert_def update_content_def update_projected_content_def settings_insert_def
      settings_ensure_def update_entry_file_path_def update_latex_engine_def move_subtree_def asset_upsert_def insert_directory_def
      Let_def split: if_splits option.splits prod.splits intro!: epochs_same)

lemma epochs_create_project:
  assumes "create_project_graph fresh g w = Some w'"
  shows "epochs_kept w w'"
proof -
  obtain p w1 w2 w3 where
    w1: "settings_insert (cg_project_id g) (cg_entry_file_path g) (cg_latex_engine g) (cg_created_at g) (w\<lparr>w_projects := w_projects w @ [p]\<rparr>) = Some w1"
    and w2: "insert_directories (cg_project_id g) (cg_created_at g) (cg_directories g) w1 = Some w2"
    and w3: "insert_documents fresh 0 (cg_project_id g) (cg_created_at g) (cg_documents g) w2 = Some w3"
    and w': "insert_assets (cg_project_id g) (Some (cg_owner_user_id g)) (cg_created_at g) (cg_assets g) w3 = Some w'"
    using assms by (auto simp: create_project_graph_def Let_def split: option.splits)
  have "w_projects w' = w_projects w @ [p]"
    using w1 insert_directories_tables [OF w2] insert_documents_sound [OF w3] insert_assets_tables [OF w']
    by (auto simp: settings_insert_def split: if_splits)
  then show ?thesis
    by (auto simp: epochs_kept_def project_content_epoch_def find_project_def find_append split: option.split)
qed

lemma epochs_persist_prepared: "persist_prepared env pid path f w = Some (changed, replaced, w') \<Longrightarrow> epochs_kept w w'"
  by (cases f) (auto split: option.splits dest!: epochs_statements simp: epochs_kept_def delete_asset_at_path_def delete_document_at_path_def)

lemma epochs_step:
  assumes "\<not> is_replacement e"
  shows "epochs_kept (ww_db s) (ww_db (workspace_step e s))"
proof (cases e)
  case (CreateFile env pid path kind content ct is_text actor guest)
  obtain r s1 where prep: "prepare_file env pid path kind content ct is_text actor s = (r, s1)"
    by (cases "prepare_file env pid path kind content ct is_text actor s")
  with CreateFile prepare_file_db [OF prep] epochs_same [of "ww_db s" "ww_db s"] show ?thesis
    by (auto simp: create_project_file_def Let_def split: sum.split option.split dest: epochs_persist_prepared)
next
  case (UploadAsset env pid path ct content actor guest)
  then show ?thesis
    by (cases rule: upload_project_asset_cases [of content env pid path ct actor guest s])
      (auto dest: epochs_statements intro: epochs_same)
next
  case (MoveFile env pid source target actor guest)
  then show ?thesis
    by (auto simp: move_project_file_def Let_def follow_entry_def epochs_kept_def split: option.split dest!: epochs_statements)
next
  case (ChangeSetting pid change actor now)
  then show ?thesis
    by (auto simp: change_project_setting_def Let_def epochs_kept_def split: option.split setting_change.split dest!: epochs_statements)
next
  case (ReplaceContent fresh c)
  with assms show ?thesis by simp
qed (auto simp: in_transaction_def op_defs delete_asset_by_id_def delete_project_file_def delete_subtree_def delete_document_def
      delete_document_by_id_def Let_def split: option.split content_epoch_match.split prod.split
      dest: epochs_statements epochs_create_project intro: epochs_same)

section \<open>The state of a room\<close>

definition covered :: "collaboration_document \<Rightarrow> collab_world \<Rightarrow> int" where
  "covered D c = (case find (snapshot_of D) (cw_snapshots c) of None \<Rightarrow> 0 | Some s \<Rightarrow> sr_upto_update_id s)"

text \<open>What a client that opens the document receives: the snapshot and the later updates.\<close>

definition room_payloads :: "collaboration_document \<Rightarrow> collab_world \<Rightarrow> bytes list" where
  "room_payloads D c =
     (let st = load_state D c in
      (case bs_snapshot_payload st of None \<Rightarrow> [] | Some p \<Rightarrow> [p]) @ map snd (bs_updates st))"

definition document_state :: "('d, 'u) yjs \<Rightarrow> collaboration_document \<Rightarrow> collab_world \<Rightarrow> yjs_error + 'd" where
  "document_state Y D c = apply_payloads Y (room_payloads D c) (yj_new Y)"

text \<open>The document exists with this revision in the current epoch of its project.\<close>

definition current_document :: "collaboration_document \<Rightarrow> workspace_db \<Rightarrow> bool" where
  "current_document D w \<longleftrightarrow>
     lock_project_content_epoch (cd_project_id D) (cd_content_epoch D) w = Current_epoch \<and>
     lock_project_collaboration_document (cd_project_id D) (cd_document_id D) (cd_collaboration_revision D) w"

lemma current_epoch_iff [simp]:
  "lock_project_content_epoch pid ep w = Current_epoch \<longleftrightarrow> project_content_epoch pid w = Some ep"
  by (auto simp: lock_project_content_epoch_def split: option.split)

lemma lock_document_iff:
  "lock_project_collaboration_document pid i r w \<longleftrightarrow>
     (\<exists>d \<in> set (w_documents w). dc_project_id d = pid \<and> dc_id d = i \<and> dc_collaboration_revision d = r)"
  by (auto simp: lock_project_collaboration_document_def lock_by_collaboration_identity_def find_None_iff)

lemma apply_payloads_append:
  "apply_payloads Y (ps @ qs) d = (case apply_payloads Y ps d of Inl e \<Rightarrow> Inl e | Inr d' \<Rightarrow> apply_payloads Y qs d')"
  by (induction ps arbitrary: d) (auto split: sum.split)

lemma load_rows_spec:
  assumes "\<forall>u \<in> set us. parse_kind (ur_kind u) \<noteq> None"
  shows "bs_snapshot_payload (load_rows us b) = bs_snapshot_payload b \<and>
    map snd (bs_updates (load_rows us b)) = map snd (bs_updates b) @ map ur_payload us \<and>
    bs_upto_update_id (load_rows us b) = (if us = [] then bs_upto_update_id b else ur_id (last us))"
  using assms
proof (induction us arbitrary: b)
  case Nil
  then show ?case by simp
next
  case (Cons u us)
  then obtain k where "parse_kind (ur_kind u) = Some k" by auto
  with Cons show ?case by (simp add: Let_def)
qed

section \<open>Invariant\<close>

definition belongs :: "uuid \<Rightarrow> uuid \<Rightarrow> int \<Rightarrow> int \<Rightarrow> workspace_db \<Rightarrow> bool" where
  "belongs pid i r ep w \<longleftrightarrow> project_content_epoch pid w = Some ep \<and>
     (\<exists>d \<in> set (w_documents w). dc_id d = i \<and> dc_project_id d = pid \<and> r \<le> dc_collaboration_revision d)"

definition updates_ok :: "workspace_db \<Rightarrow> int \<Rightarrow> update_row list \<Rightarrow> bool" where
  "updates_ok w n us \<longleftrightarrow> sorted_wrt (<) (map ur_id us) \<and>
     (\<forall>u \<in> set us. 0 < ur_id u \<and> ur_id u < n \<and> parse_kind (ur_kind u) \<noteq> None \<and>
        belongs (ur_project_id u) (ur_document_id u) (ur_collaboration_revision u) (ur_content_epoch u) w)"

definition snapshot_key :: "snapshot_row \<Rightarrow> uuid \<times> uuid \<times> int" where
  "snapshot_key s = (sr_project_id s, sr_document_id s, sr_collaboration_revision s)"

definition snapshots_ok :: "workspace_db \<Rightarrow> int \<Rightarrow> snapshot_row list \<Rightarrow> bool" where
  "snapshots_ok w n ss \<longleftrightarrow> distinct (map snapshot_key ss) \<and>
     (\<forall>s \<in> set ss. 0 \<le> sr_upto_update_id s \<and> sr_upto_update_id s < n \<and>
        belongs (sr_project_id s) (sr_document_id s) (sr_collaboration_revision s) (sr_content_epoch s) w)"

text \<open>A snapshot of the current revision of a document holds the text that the Workspace has.\<close>

definition snapshot_text :: "('d, 'u) yjs \<Rightarrow> bytes \<Rightarrow> string \<Rightarrow> bool" where
  "snapshot_text Y p t \<longleftrightarrow> (\<exists>d. apply_payload Y p (yj_new Y) = Inr d \<and> yj_get_text Y d = t)"

definition projected_ok :: "('d, 'u) yjs \<Rightarrow> workspace_db \<Rightarrow> snapshot_row list \<Rightarrow> bool" where
  "projected_ok Y w ss \<longleftrightarrow>
     (\<forall>s \<in> set ss. \<forall>d \<in> set (w_documents w). dc_id d = sr_document_id s \<longrightarrow>
        dc_collaboration_revision d = sr_collaboration_revision s \<longrightarrow> snapshot_text Y (sr_state_update s) (dc_content d))"

definition collab_inv :: "('d, 'u) yjs \<Rightarrow> collab_world \<Rightarrow> bool" where
  "collab_inv Y c \<longleftrightarrow> workspace_inv (cw_db c) \<and> 0 < cw_next_id c \<and> updates_ok (cw_db c) (cw_next_id c) (cw_updates c) \<and>
     snapshots_ok (cw_db c) (cw_next_id c) (cw_snapshots c) \<and> projected_ok Y (cw_db c) (cw_snapshots c)"

text \<open>The law of Yjs that compaction rests on: the encoded state of a document restores it.\<close>

definition yjs_restores :: "('d, 'u) yjs \<Rightarrow> bool" where
  "yjs_restores Y \<longleftrightarrow> (\<forall>d. apply_payload Y (yj_encode_state Y d) (yj_new Y) = Inr d)"

text \<open>Below the invariant, the rows of a room are those of its log beyond the snapshot, in order.\<close>

lemma pending_rows_eq:
  assumes "sorted_wrt (<) (map ur_id (cw_updates c))"
  shows "pending_rows D n c = filter (\<lambda>u. update_of D u \<and> n < ur_id u) (cw_updates c)"
proof -
  have "sorted (map ur_id (cw_updates c))" using assms by (rule strict_sorted_imp_sorted)
  then have "sorted (map ur_id (filter P (cw_updates c)))" for P by (rule sorted_filter)
  then show ?thesis unfolding pending_rows_def by (rule sort_key_id_if_sorted)
qed

lemma load_state_spec:
  assumes "collab_inv Y c"
  shows "bs_snapshot_payload (load_state D c) = map_option sr_state_update (find (snapshot_of D) (cw_snapshots c))"
    and "map snd (bs_updates (load_state D c)) =
      map ur_payload (filter (\<lambda>u. update_of D u \<and> covered D c < ur_id u) (cw_updates c))"
    and "bs_upto_update_id (load_state D c) =
      (let us = filter (\<lambda>u. update_of D u \<and> covered D c < ur_id u) (cw_updates c) in
       if us = [] then covered D c else ur_id (last us))"
proof -
  let ?us = "filter (\<lambda>u. update_of D u \<and> covered D c < ur_id u) (cw_updates c)"
  have rows: "pending_rows D (covered D c) c = ?us"
    using assms by (intro pending_rows_eq) (simp add: collab_inv_def updates_ok_def)
  have "\<forall>u \<in> set ?us. parse_kind (ur_kind u) \<noteq> None" using assms by (auto simp: collab_inv_def updates_ok_def)
  note spec = load_rows_spec [OF this]
  show "bs_snapshot_payload (load_state D c) = map_option sr_state_update (find (snapshot_of D) (cw_snapshots c))"
    "map snd (bs_updates (load_state D c)) = map ur_payload ?us"
    "bs_upto_update_id (load_state D c) = (let us = ?us in if us = [] then covered D c else ur_id (last us))"
    using rows spec by (simp_all add: load_state_def covered_def Let_def)
qed

lemma covered_nonneg: "collab_inv Y c \<Longrightarrow> 0 \<le> covered D c"
  by (auto simp: covered_def collab_inv_def snapshots_ok_def split: option.split dest!: find_Some_set)

lemma covered_less: "collab_inv Y c \<Longrightarrow> covered D c < cw_next_id c"
  by (auto simp: covered_def collab_inv_def snapshots_ok_def split: option.split dest!: find_Some_set)

lemma sorted_last: "sorted_wrt (<) (map f xs) \<Longrightarrow> x \<in> set xs \<Longrightarrow> f x \<le> (f (last xs) :: int)"
  by (induction xs) (auto simp: less_imp_le)

text \<open>The bound of a loaded state covers every update of the room.\<close>

lemma upto_bounds:
  assumes "collab_inv Y c"
  shows "covered D c \<le> bs_upto_update_id (load_state D c)" and "bs_upto_update_id (load_state D c) < cw_next_id c"
    and "u \<in> set (cw_updates c) \<Longrightarrow> update_of D u \<Longrightarrow> ur_id u \<le> bs_upto_update_id (load_state D c)"
proof -
  let ?us = "filter (\<lambda>u. update_of D u \<and> covered D c < ur_id u) (cw_updates c)"
  have n: "bs_upto_update_id (load_state D c) = (if ?us = [] then covered D c else ur_id (last ?us))"
    using load_state_spec(3) [OF assms] by (simp add: Let_def)
  have last: "last ?us \<in> set (cw_updates c) \<and> covered D c < ur_id (last ?us)" if "?us \<noteq> []"
    using last_in_set [OF that] by simp
  have below: "ur_id v < cw_next_id c" if "v \<in> set (cw_updates c)" for v
    using assms that by (simp add: collab_inv_def updates_ok_def)
  show "covered D c \<le> bs_upto_update_id (load_state D c)" using n last by auto
  show "bs_upto_update_id (load_state D c) < cw_next_id c" using n last below covered_less [OF assms] by auto
  have "sorted_wrt (<) (map ur_id (cw_updates c))" using assms by (simp add: collab_inv_def updates_ok_def)
  then have srt: "sorted_wrt (<) (map ur_id ?us)" by (simp add: sorted_wrt_map sorted_wrt_filter)
  show "ur_id u \<le> bs_upto_update_id (load_state D c)" if "u \<in> set (cw_updates c)" "update_of D u"
  proof (cases "covered D c < ur_id u")
    case True
    with that have mem: "u \<in> set ?us" by simp
    then have "?us \<noteq> []" by force
    with sorted_last [OF srt mem] n show ?thesis by simp
  next
    case False
    with n last show ?thesis by auto
  qed
qed

lemma room_payloads_eq:
  assumes "find (snapshot_of D) (cw_snapshots c') = find (snapshot_of D) (cw_snapshots c)"
    and "filter (\<lambda>u. update_of D u \<and> covered D c < ur_id u) (cw_updates c') =
      filter (\<lambda>u. update_of D u \<and> covered D c < ur_id u) (cw_updates c)"
  shows "room_payloads D c' = room_payloads D c"
proof -
  have "pending_rows D (covered D c) c' = pending_rows D (covered D c) c" using assms(2) by (simp add: pending_rows_def)
  with assms(1) show ?thesis by (simp add: room_payloads_def load_state_def Let_def covered_def)
qed

lemma set_db_simps [simp]:
  "cw_db (set_db w c) = w" "cw_updates (set_db w c) = cw_updates c" "cw_snapshots (set_db w c) = cw_snapshots c"
  "cw_next_id (set_db w c) = cw_next_id c" "cw_access (set_db w c) = cw_access c" "set_db (cw_db c) c = c"
  by (simp_all add: set_db_def)

section \<open>Statements\<close>

lemma snapshot_of_key: "snapshot_of_revision D s \<longleftrightarrow> snapshot_key s = (cd_project_id D, cd_document_id D, cd_collaboration_revision D)"
  by (auto simp: snapshot_of_revision_def snapshot_key_def)

lemma find_snapshot:
  assumes "distinct (map snapshot_key ss)" and "s \<in> set ss" and "snapshot_of D s"
  shows "find (snapshot_of D) ss = Some s"
proof -
  obtain s' where s': "find (snapshot_of D) ss = Some s'" using assms(2,3) by (metis find_None_iff option.exhaust)
  have "s' = s"
    by (rule key_unique [OF assms(1) _ assms(2)]) (use find_Some_set [OF s'] assms(3) in \<open>auto simp: snapshot_of_def snapshot_of_key\<close>)
  with s' show ?thesis by simp
qed

lemma updates_ok_filter: "updates_ok w n us \<Longrightarrow> updates_ok w n (filter P us)"
  by (auto simp: updates_ok_def sorted_wrt_map sorted_wrt_filter)

lemma snapshots_ok_filter: "snapshots_ok w n ss \<Longrightarrow> snapshots_ok w n (filter P ss)"
  by (auto simp: snapshots_ok_def distinct_map_filter)

lemma projected_ok_filter: "projected_ok Y w ss \<Longrightarrow> projected_ok Y w (filter P ss)"
  by (auto simp: projected_ok_def)

lemma inv_delete_rows:
  assumes "collab_inv Y c"
  shows "collab_inv Y (c\<lparr>cw_updates := filter P (cw_updates c), cw_snapshots := filter Q (cw_snapshots c)\<rparr>)"
  using assms by (simp add: collab_inv_def updates_ok_filter snapshots_ok_filter projected_ok_filter)

lemma prune_simps [simp]:
  "cw_workspace (prune_updates k D n c) = cw_workspace c" "cw_snapshots (prune_updates k D n c) = cw_snapshots c"
  "cw_next_id (prune_updates k D n c) = cw_next_id c" "cw_access (prune_updates k D n c) = cw_access c"
  by (simp_all add: prune_updates_def Let_def)

lemma prune_inv:
  assumes "collab_inv Y c"
  shows "collab_inv Y (prune_updates k D n c)"
proof -
  obtain P where "prune_updates k D n c = c\<lparr>cw_updates := filter P (cw_updates c), cw_snapshots := filter (\<lambda>_. True) (cw_snapshots c)\<rparr>"
    by (cases "i64_saturating_sub n k \<le> 0") (auto simp: prune_updates_def delete_where_def Let_def intro: that [of "\<lambda>_. True"])
  with inv_delete_rows [OF assms] show ?thesis by metis
qed

text \<open>Pruning drops only rows that the snapshot covers.\<close>

lemma prune_room:
  assumes "collab_inv Y c"
  shows "room_payloads E (prune_updates k D n c) = room_payloads E c"
proof (rule room_payloads_eq)
  have keys: "distinct (map snapshot_key (cw_snapshots c))" using assms by (simp add: collab_inv_def snapshots_ok_def)
  let ?cut = "i64_saturating_sub n k"
  have "\<not> covered E c < ur_id u"
    if "update_of E u" "update_of D u" "ur_id u < ?cut" "s \<in> set (cw_snapshots c)" "snapshot_of D s" "?cut \<le> sr_upto_update_id s" for u s
  proof -
    have "snapshot_of E = snapshot_of D"
      using that(1,2) by (auto simp: fun_eq_iff update_of_def update_of_revision_def snapshot_of_def snapshot_of_revision_def)
    then have "covered E c = sr_upto_update_id s" using find_snapshot [OF keys that(4)] that(5) by (simp add: covered_def)
    with that show ?thesis by simp
  qed
  then show "filter (\<lambda>u. update_of E u \<and> covered E c < ur_id u) (cw_updates (prune_updates k D n c)) =
      filter (\<lambda>u. update_of E u \<and> covered E c < ur_id u) (cw_updates c)"
    by (auto simp: prune_updates_def Let_def delete_where_def intro!: filter_cong)
qed simp

section \<open>Projection\<close>

text \<open>The text of one document is set; nothing else that the collaboration state refers to changes.\<close>

definition projected_to :: "collaboration_document \<Rightarrow> string \<Rightarrow> workspace_db \<Rightarrow> workspace_db \<Rightarrow> bool" where
  "projected_to D t w w' \<longleftrightarrow> workspace_inv w' \<and> (\<forall>pid. project_content_epoch pid w' = project_content_epoch pid w) \<and>
     (\<exists>g. w_documents w' = map g (w_documents w) \<and>
        (\<forall>d \<in> set (w_documents w). dc_id (g d) = dc_id d \<and> dc_project_id (g d) = dc_project_id d \<and> dc_path (g d) = dc_path d \<and>
           dc_collaboration_revision (g d) = dc_collaboration_revision d \<and>
           dc_content (g d) = (if dc_id d = cd_document_id D then t else dc_content d)))"

lemma current_row:
  assumes "workspace_inv w" and "lock_by_collaboration_identity pid i r w = Some d0" and "d \<in> set (w_documents w)" and "dc_id d = i"
  shows "d = d0"
proof (rule key_unique [OF _ assms(3)])
  show "distinct (map dc_id (w_documents w))" using assms(1) by (simp add: workspace_inv_def documents_ok_def)
qed (use assms(2,4) in \<open>auto simp: lock_by_collaboration_identity_def dest: find_Some_set\<close>)

lemma activity_tables [simp]:
  "w_documents (record_collaborative_document_activity pid cs w) = w_documents w"
  "project_content_epoch q (record_collaborative_document_activity pid cs w) = project_content_epoch q w"
  by (simp_all add: record_collaborative_document_activity_def advance_workspace_version_def Let_def)
    (metis advance_workspace_version_def epoch_version epoch_tables(1))

lemma activity_inv: "workspace_inv (record_collaborative_document_activity pid cs w) = workspace_inv (mark_project_dirty pid None None w)"
  by (simp add: record_collaborative_document_activity_def mark_project_dirty_def Let_def workspace_inv_def project_ids_def)

lemma project_collaboration_document_cases:
  assumes inv: "workspace_inv w" and "project_collaboration_document D t cs now w = (r, w')"
  obtains (epoch) "r = ContentEpochChanged_projection" "w' = w" "project_content_epoch (cd_project_id D) w \<noteq> Some (cd_content_epoch D)"
  | (document) "r = DocumentChanged_projection" "w' = w"
      "\<not> lock_project_collaboration_document (cd_project_id D) (cd_document_id D) (cd_collaboration_revision D) w"
  | (done_projected) path i rv n where "r = Projected path i rv n" "current_document D w" "projected_to D t w w'"
  | (done_unchanged) "r = Unchanged" "current_document D w" "projected_to D t w w'"
proof (cases "project_content_epoch (cd_project_id D) w = Some (cd_content_epoch D)")
  case False
  with assms(2) epoch show ?thesis by (simp add: project_collaboration_document_def)
next
  case True
  let ?find = "lock_by_collaboration_identity (cd_project_id D) (cd_document_id D) (cd_collaboration_revision D) w"
  let ?P = "\<lambda>d. dc_project_id d = cd_project_id D \<and> dc_id d = cd_document_id D \<and> dc_collaboration_revision d = cd_collaboration_revision D"
  show ?thesis
  proof (cases ?find)
    case None
    with True assms(2) document show ?thesis
      by (simp add: project_collaboration_document_def lock_project_collaboration_document_def)
  next
    case (Some d0)
    have cur: "current_document D w" using True Some by (simp add: current_document_def lock_project_collaboration_document_def)
    have row: "d = d0" if "d \<in> set (w_documents w)" "dc_id d = cd_document_id D" for d by (rule current_row [OF inv Some that])
    show ?thesis
    proof (cases "dc_content d0 = t")
      case same: True
      have "projected_to D t w w" unfolding projected_to_def using inv row same by (auto intro!: exI [of _ id])
      with True Some same cur assms(2) done_unchanged show ?thesis by (simp add: project_collaboration_document_def)
    next
      case False
      let ?f = "\<lambda>d. d\<lparr>dc_content := t, dc_updated_at := now, dc_change_sequence := w_next_sequence w\<rparr>"
      let ?w1 = "w\<lparr>w_documents := update_where ?P ?f (w_documents w), w_next_sequence := w_next_sequence w + 1\<rparr>"
      have fd: "find ?P (w_documents w) = Some d0" using Some by (simp add: lock_by_collaboration_identity_def)
      have up: "update_projected_content (cd_project_id D) (cd_document_id D) (cd_collaboration_revision D) t now w = Some (?f d0, ?w1)"
        using fd by (simp add: update_projected_content_def Let_def)
      have w': "w' = record_collaborative_document_activity (cd_project_id D) cs ?w1"
        and r: "\<exists>path i rv n. r = Projected path i rv n"
        using True Some False up assms(2) by (auto simp: project_collaboration_document_def)
      have "sound_step w (mark_project_dirty (cd_project_id D) None None ?w1)"
        by (intro sound_dirty sound_statements(4) [OF up])
      then have "workspace_inv w'" using inv unfolding w' activity_inv sound_step_def by blast
      moreover have "?P d" if "d \<in> set (w_documents w)" "dc_id d = cd_document_id D" for d
        using row [OF that] find_Some_set [OF fd] by simp
      ultimately have "projected_to D t w w'"
        unfolding projected_to_def w' update_where_def by (auto intro!: exI [of _ "\<lambda>d. if ?P d then ?f d else d"])
      with r cur done_projected show ?thesis by blast
    qed
  qed
qed

lemma belongs_projected: "projected_to D t w w' \<Longrightarrow> belongs pid i r ep w' = belongs pid i r ep w"
  by (fastforce simp: projected_to_def belongs_def)

lemma current_projected: "projected_to D t w w' \<Longrightarrow> current_document E w' = current_document E w"
  by (fastforce simp: projected_to_def current_document_def lock_project_collaboration_document_def lock_by_collaboration_identity_def
      find_None_iff)

lemma find_update_where_other: "(\<And>x. P x \<Longrightarrow> \<not> Q x \<and> \<not> Q (f x)) \<Longrightarrow> find Q (update_where P f t) = find Q t"
  by (induction t) (auto simp: update_where_def)

lemma update_where_cong: "(\<And>r. r \<in> set t \<Longrightarrow> P r = Q r) \<Longrightarrow> update_where P f t = update_where Q f t"
  by (auto simp: update_where_def)

text \<open>Two current documents with the same revision are the same room.\<close>

lemma current_same_room:
  "current_document D w \<Longrightarrow> current_document E w \<Longrightarrow> cd_project_id E = cd_project_id D \<Longrightarrow> cd_document_id E = cd_document_id D \<Longrightarrow>
   cd_collaboration_revision E = cd_collaboration_revision D \<Longrightarrow> E = D"
  by (simp add: current_document_def)

text \<open>The snapshot of a current document is written: it is there or it is not newer.\<close>

lemma upsert_snapshot_cases:
  assumes inv: "collab_inv Y c" and cur: "current_document D (cw_db c)" and n: "covered D c \<le> n"
  obtains (insert) "\<forall>s \<in> set (cw_snapshots c). \<not> snapshot_of_revision D s"
      "cw_snapshots (upsert_snapshot D n p now c) = cw_snapshots c @
         [\<lparr>sr_project_id = cd_project_id D, sr_document_id = cd_document_id D, sr_collaboration_revision = cd_collaboration_revision D,
           sr_upto_update_id = n, sr_state_update = p, sr_updated_at = now, sr_content_epoch = cd_content_epoch D\<rparr>]"
  | (update) s0 where "s0 \<in> set (cw_snapshots c)" "snapshot_of D s0"
      "cw_snapshots (upsert_snapshot D n p now c) = update_where (snapshot_of_revision D)
         (\<lambda>s. s\<lparr>sr_upto_update_id := n, sr_state_update := p, sr_updated_at := now, sr_content_epoch := cd_content_epoch D\<rparr>) (cw_snapshots c)"
proof (cases "exists_where (snapshot_of_revision D) (cw_snapshots c)")
  case False
  then show ?thesis using insert by (simp add: upsert_snapshot_def)
next
  case True
  then obtain s0 where s0: "s0 \<in> set (cw_snapshots c)" "snapshot_of_revision D s0" by auto
  have keys: "distinct (map snapshot_key (cw_snapshots c))" using inv by (simp add: collab_inv_def snapshots_ok_def)
  have ep: "sr_content_epoch s = cd_content_epoch D" if "s \<in> set (cw_snapshots c)" "snapshot_of_revision D s" for s
    using inv that cur by (auto simp: collab_inv_def snapshots_ok_def belongs_def current_document_def snapshot_of_revision_def)
  have "snapshot_of D s0" using s0 ep by (simp add: snapshot_of_def)
  moreover have "sr_upto_update_id s \<le> n" if "s \<in> set (cw_snapshots c)" "snapshot_of_revision D s" for s
  proof -
    have "snapshot_of D s" using that ep by (simp add: snapshot_of_def)
    from find_snapshot [OF keys that(1) this] n show ?thesis by (simp add: covered_def)
  qed
  then have "cw_snapshots (upsert_snapshot D n p now c) = update_where (snapshot_of_revision D)
         (\<lambda>s. s\<lparr>sr_upto_update_id := n, sr_state_update := p, sr_updated_at := now, sr_content_epoch := cd_content_epoch D\<rparr>) (cw_snapshots c)"
    using True ep by (auto simp: upsert_snapshot_def intro!: update_where_cong)
  ultimately show ?thesis using update s0 by blast
qed

lemma upsert_simps [simp]:
  "cw_workspace (upsert_snapshot D n p now c) = cw_workspace c" "cw_updates (upsert_snapshot D n p now c) = cw_updates c"
  "cw_next_id (upsert_snapshot D n p now c) = cw_next_id c" "cw_access (upsert_snapshot D n p now c) = cw_access c"
  by (simp_all add: upsert_snapshot_def)

lemma upsert_rows:
  assumes "collab_inv Y c" "current_document D (cw_db c)" "covered D c \<le> n" "s \<in> set (cw_snapshots (upsert_snapshot D n p now c))"
  shows "(s \<in> set (cw_snapshots c) \<and> \<not> snapshot_of_revision D s) \<or> (snapshot_of D s \<and> sr_upto_update_id s = n \<and> sr_state_update s = p)"
  using assms(1-3)
proof (cases rule: upsert_snapshot_cases [where p = p and now = now])
  case insert
  with assms(4) show ?thesis by (auto simp: snapshot_of_def snapshot_of_revision_def)
next
  case (update s0)
  let ?f = "\<lambda>s. s\<lparr>sr_upto_update_id := n, sr_state_update := p, sr_updated_at := now, sr_content_epoch := cd_content_epoch D\<rparr>"
  from update assms(4) obtain s1 where "s1 \<in> set (cw_snapshots c)" "s = (if snapshot_of_revision D s1 then ?f s1 else s1)"
    by (auto simp: in_update_where)
  then show ?thesis by (cases "snapshot_of_revision D s1") (simp_all add: snapshot_of_def snapshot_of_revision_def)
qed

lemma upsert_keys:
  assumes "collab_inv Y c" "current_document D (cw_db c)" "covered D c \<le> n"
  shows "distinct (map snapshot_key (cw_snapshots (upsert_snapshot D n p now c)))"
    and "\<exists>s \<in> set (cw_snapshots (upsert_snapshot D n p now c)). snapshot_of D s"
    and "current_document E (cw_db c) \<Longrightarrow> E \<noteq> D \<Longrightarrow>
      find (snapshot_of E) (cw_snapshots (upsert_snapshot D n p now c)) = find (snapshot_of E) (cw_snapshots c)"
proof -
  have keys: "distinct (map snapshot_key (cw_snapshots c))" using assms(1) by (simp add: collab_inv_def snapshots_ok_def)
  have other: "\<not> snapshot_of_revision E s" if "current_document E (cw_db c)" "E \<noteq> D" "snapshot_of_revision D s" for E s
    using current_same_room [OF assms(2) that(1)] that(2,3) by (auto simp: snapshot_of_revision_def)
  have "distinct (map snapshot_key (cw_snapshots (upsert_snapshot D n p now c))) \<and>
    (\<exists>s \<in> set (cw_snapshots (upsert_snapshot D n p now c)). snapshot_of D s) \<and>
    (current_document E (cw_db c) \<and> E \<noteq> D \<longrightarrow>
      find (snapshot_of E) (cw_snapshots (upsert_snapshot D n p now c)) = find (snapshot_of E) (cw_snapshots c))"
    using assms
  proof (cases rule: upsert_snapshot_cases [where p = p and now = now])
    case insert
    with keys other show ?thesis
      by (auto simp: snapshot_of_def snapshot_of_revision_def snapshot_key_def find_append split: option.split)
  next
    case (update s0)
    let ?f = "\<lambda>s. s\<lparr>sr_upto_update_id := n, sr_state_update := p, sr_updated_at := now, sr_content_epoch := cd_content_epoch D\<rparr>"
    have "map snapshot_key (update_where (snapshot_of_revision D) ?f (cw_snapshots c)) = map snapshot_key (cw_snapshots c)"
      by (rule map_update_where) (simp add: snapshot_key_def)
    moreover have "?f s0 \<in> set (update_where (snapshot_of_revision D) ?f (cw_snapshots c)) \<and> snapshot_of D (?f s0)"
      using update(1,2) by (force simp: in_update_where snapshot_of_def snapshot_of_revision_def)
    moreover have "find (snapshot_of E) (update_where (snapshot_of_revision D) ?f (cw_snapshots c)) = find (snapshot_of E) (cw_snapshots c)"
      if "current_document E (cw_db c)" "E \<noteq> D"
      by (rule find_update_where_other) (use other [OF that] in \<open>auto simp: snapshot_of_def snapshot_of_revision_def\<close>)
    ultimately show ?thesis using keys update(3) by (metis (no_types, lifting))
  qed
  then show "distinct (map snapshot_key (cw_snapshots (upsert_snapshot D n p now c)))"
    "\<exists>s \<in> set (cw_snapshots (upsert_snapshot D n p now c)). snapshot_of D s"
    "current_document E (cw_db c) \<Longrightarrow> E \<noteq> D \<Longrightarrow>
      find (snapshot_of E) (cw_snapshots (upsert_snapshot D n p now c)) = find (snapshot_of E) (cw_snapshots c)"
    by blast+
qed

section \<open>Reconciliation\<close>

definition merged_payloads :: "bootstrap_state \<Rightarrow> bytes option \<Rightarrow> bytes list" where
  "merged_payloads st seed =
     (case (case bs_snapshot_payload st of Some s \<Rightarrow> Some s | None \<Rightarrow> seed) of None \<Rightarrow> [] | Some s \<Rightarrow> [s]) @ map snd (bs_updates st)"

lemma merged_room: "merged_payloads (load_state D c) None = room_payloads D c"
  by (simp add: merged_payloads_def room_payloads_def Let_def split: option.split)

lemma reconcile_cases:
  assumes inv: "collab_inv Y c" and res: "reconcile_collaboration_document Y k now D st seed c = Inr (r, c')"
  obtains (epoch) "r = ContentEpochChanged_reconcile" "c' = c"
      "project_content_epoch (cd_project_id D) (cw_db c) \<noteq> Some (cd_content_epoch D)"
  | (document) "r = DocumentChanged_reconcile" "c' = clear_document_revision D c"
      "\<not> lock_project_collaboration_document (cd_project_id D) (cd_document_id D) (cd_collaboration_revision D) (cw_db c)"
  | (current) d x w where "apply_payloads Y (merged_payloads st seed) (yj_new Y) = Inr d" "current_document D (cw_db c)"
      "projected_to D (yj_get_text Y d) (cw_db c) w" "r = Current_reconciled x" "rc_snapshot_payload x = yj_encode_state Y d"
      "rc_upto_update_id x = bs_upto_update_id st"
      "c' = prune_updates k D (bs_upto_update_id st)
         (upsert_snapshot D (bs_upto_update_id st) (yj_encode_state Y d) now (set_db w c))"
proof -
  obtain d where d: "apply_payloads Y (merged_payloads st seed) (yj_new Y) = Inr d"
    and merged: "merge_updates Y (case bs_snapshot_payload st of Some s \<Rightarrow> Some s | None \<Rightarrow> seed) (map snd (bs_updates st)) =
      Inr \<lparr>ms_update = yj_encode_state Y d, ms_text = yj_get_text Y d\<rparr>"
    using res by (auto simp: reconcile_collaboration_document_def merge_updates_def merged_payloads_def split: sum.splits)
  obtain q w where pr: "project_collaboration_document D (yj_get_text Y d) (contributors st) now (cw_db c) = (q, w)"
    by (cases "project_collaboration_document D (yj_get_text Y d) (contributors st) now (cw_db c)")
  have "workspace_inv (cw_db c)" using inv by (simp add: collab_inv_def)
  then show ?thesis using pr
  proof (cases rule: project_collaboration_document_cases)
    case epoch
    with res merged pr show ?thesis by (intro that(1)) (simp_all add: reconcile_collaboration_document_def Let_def)
  next
    case document
    with res merged pr show ?thesis by (intro that(2)) (simp_all add: reconcile_collaboration_document_def Let_def)
  next
    case (done_projected path i rv n)
    with res merged pr show ?thesis
      by (intro that(3) [OF d done_projected(2,3)]) (auto simp: reconcile_collaboration_document_def Let_def)
  next
    case done_unchanged
    with res merged pr show ?thesis
      by (intro that(3) [OF d done_unchanged(2,3)]) (auto simp: reconcile_collaboration_document_def Let_def)
  qed
qed

lemma upsert_set_db: "cw_snapshots (upsert_snapshot D n p now (set_db w c)) = cw_snapshots (upsert_snapshot D n p now c)"
  by (simp add: upsert_snapshot_def)

lemma belongs_current: "current_document D w \<Longrightarrow>
  belongs (cd_project_id D) (cd_document_id D) (cd_collaboration_revision D) (cd_content_epoch D) w"
  by (auto simp: current_document_def belongs_def lock_project_collaboration_document_def lock_by_collaboration_identity_def
      dest!: find_Some_set)

lemma document_unique: "workspace_inv w \<Longrightarrow> d \<in> set (w_documents w) \<Longrightarrow> e \<in> set (w_documents w) \<Longrightarrow> dc_id d = dc_id e \<Longrightarrow> d = e"
  unfolding workspace_inv_def documents_ok_def by (metis key_unique)

text \<open>The snapshot written with the projection agrees with the text that was projected.\<close>

lemma reconciled_inv:
  assumes inv: "collab_inv Y c" and laws: "yjs_restores Y" and cur: "current_document D (cw_db c)"
    and w: "projected_to D (yj_get_text Y d) (cw_db c) w" and n: "covered D c \<le> n" "n < cw_next_id c"
  shows "collab_inv Y (upsert_snapshot D n (yj_encode_state Y d) now (set_db w c))"
proof -
  let ?p = "yj_encode_state Y d"
  let ?ss = "cw_snapshots (upsert_snapshot D n ?p now c)"
  note rows = upsert_rows [OF inv cur n(1), of _ ?p now]
  have winv: "workspace_inv (cw_db c)" using inv by (simp add: collab_inv_def)
  have "0 \<le> n" using covered_nonneg [OF inv, of D] n(1) by simp
  have ss: "snapshots_ok w (cw_next_id c) ?ss"
    unfolding snapshots_ok_def belongs_projected [OF w]
  proof (intro conjI ballI)
    show "distinct (map snapshot_key ?ss)" by (rule upsert_keys(1) [OF inv cur n(1)])
    fix s assume "s \<in> set ?ss"
    from rows [OF this] show "0 \<le> sr_upto_update_id s" "sr_upto_update_id s < cw_next_id c"
      "belongs (sr_project_id s) (sr_document_id s) (sr_collaboration_revision s) (sr_content_epoch s) (cw_db c)"
      using inv n(2) \<open>0 \<le> n\<close> belongs_current [OF cur]
      by (auto simp: collab_inv_def snapshots_ok_def snapshot_of_def snapshot_of_revision_def)
  qed
  have "projected_ok Y w ?ss"
    unfolding projected_ok_def
  proof (intro ballI impI)
    fix s e assume s: "s \<in> set ?ss" and e: "e \<in> set (w_documents w)"
      and same: "dc_id e = sr_document_id s" "dc_collaboration_revision e = sr_collaboration_revision s"
    obtain e0 where e0: "e0 \<in> set (w_documents (cw_db c))" "dc_id e = dc_id e0" "dc_project_id e = dc_project_id e0"
      "dc_collaboration_revision e = dc_collaboration_revision e0"
      "dc_content e = (if dc_id e0 = cd_document_id D then yj_get_text Y d else dc_content e0)"
      using w e by (auto simp: projected_to_def)
    show "snapshot_text Y (sr_state_update s) (dc_content e)"
    proof (cases "dc_id e0 = cd_document_id D")
      case True
      obtain d0 where d0: "d0 \<in> set (w_documents (cw_db c))" "dc_id d0 = cd_document_id D" "dc_project_id d0 = cd_project_id D"
        "dc_collaboration_revision d0 = cd_collaboration_revision D"
        using cur by (auto simp: current_document_def lock_project_collaboration_document_def lock_by_collaboration_identity_def
            dest!: find_Some_set)
      have eq: "e0 = d0" by (rule document_unique [OF winv e0(1) d0(1)]) (use True d0 in simp)
      have "snapshot_of_revision D s" if old: "s \<in> set (cw_snapshots c)"
      proof -
        have "belongs (sr_project_id s) (sr_document_id s) (sr_collaboration_revision s) (sr_content_epoch s) (cw_db c)"
          using inv old by (simp add: collab_inv_def snapshots_ok_def)
        then obtain f where f: "f \<in> set (w_documents (cw_db c))" "dc_id f = sr_document_id s" "dc_project_id f = sr_project_id s"
          by (auto simp: belongs_def)
        have "f = d0" by (rule document_unique [OF winv f(1) d0(1)]) (use f same e0 eq in simp)
        with f d0 same e0 eq show ?thesis by (simp add: snapshot_of_revision_def)
      qed
      with rows [OF s] have "sr_state_update s = ?p" by auto
      with laws e0(5) True show ?thesis by (simp add: snapshot_text_def yjs_restores_def)
    next
      case False
      then have "\<not> snapshot_of_revision D s" using same e0 by (auto simp: snapshot_of_revision_def)
      with rows [OF s] have "s \<in> set (cw_snapshots c)" by (auto simp: snapshot_of_def)
      with inv e0 same False show ?thesis by (auto simp: collab_inv_def projected_ok_def)
    qed
  qed
  with inv w ss show ?thesis
    by (simp add: collab_inv_def upsert_set_db updates_ok_def belongs_projected [OF w] projected_to_def)
qed

lemma reconciled_room:
  assumes inv: "collab_inv Y c" and laws: "yjs_restores Y" and cur: "current_document D (cw_db c)"
    and w: "projected_to D (yj_get_text Y d) (cw_db c) w" and n: "covered D c \<le> n" "n < cw_next_id c"
    and all: "\<forall>u \<in> set (cw_updates c). update_of D u \<longrightarrow> ur_id u \<le> n"
    and c2_def: "c2 = upsert_snapshot D n (yj_encode_state Y d) now (set_db w c)"
  shows "room_payloads D c2 = [yj_encode_state Y d]" and "covered D c2 = n"
    and "current_document E (cw_db c) \<Longrightarrow> E \<noteq> D \<Longrightarrow> room_payloads E c2 = room_payloads E c"
proof -
  have inv2: "collab_inv Y c2" unfolding c2_def by (rule reconciled_inv [OF inv laws cur w n])
  obtain s where s: "s \<in> set (cw_snapshots c2)" "snapshot_of D s"
    using upsert_keys(2) [OF inv cur n(1)] unfolding c2_def upsert_set_db by blast
  have "sr_upto_update_id s = n \<and> sr_state_update s = yj_encode_state Y d"
    using upsert_rows [OF inv cur n(1)] s unfolding c2_def upsert_set_db snapshot_of_def by blast
  moreover have "find (snapshot_of D) (cw_snapshots c2) = Some s"
    by (rule find_snapshot [OF _ s]) (use inv2 in \<open>simp add: collab_inv_def snapshots_ok_def\<close>)
  ultimately have fs: "covered D c2 = n" "map_option sr_state_update (find (snapshot_of D) (cw_snapshots c2)) = Some (yj_encode_state Y d)"
    by (simp_all add: covered_def)
  have "filter (\<lambda>u. update_of D u \<and> n < ur_id u) (cw_updates c2) = []"
    using all by (force simp: c2_def filter_empty_conv)
  with fs load_state_spec(1,2) [OF inv2, of D] show "room_payloads D c2 = [yj_encode_state Y d]" "covered D c2 = n"
    by (auto simp: room_payloads_def Let_def)
  show "room_payloads E c2 = room_payloads E c" if "current_document E (cw_db c)" "E \<noteq> D"
    by (rule room_payloads_eq) (use upsert_keys(3) [OF inv cur n(1) that] in \<open>simp_all add: c2_def upsert_set_db\<close>)
qed

text \<open>No update of the room is beyond its snapshot.\<close>

definition settled :: "collaboration_document \<Rightarrow> collab_world \<Rightarrow> bool" where
  "settled D c \<longleftrightarrow> (\<forall>u \<in> set (cw_updates c). update_of D u \<longrightarrow> ur_id u \<le> covered D c)"

lemma prune_covered [simp]: "covered D (prune_updates k E n c) = covered D c"
  by (simp add: covered_def)

lemma prune_subset: "set (cw_updates (prune_updates k E n c)) \<subseteq> set (cw_updates c)"
  by (auto simp: prune_updates_def Let_def)

lemma prune_settled: "settled D c \<Longrightarrow> settled D (prune_updates k E n c)"
  using prune_subset [of k E n c] by (auto simp: settled_def)

lemma clear_document_revision_effect:
  assumes "collab_inv Y c" and "\<not> lock_project_collaboration_document (cd_project_id D) (cd_document_id D) (cd_collaboration_revision D) (cw_db c)"
  shows "collab_inv Y (clear_document_revision D c)"
    and "current_document E (cw_db c) \<Longrightarrow> room_payloads E (clear_document_revision D c) = room_payloads E c \<and>
      covered E (clear_document_revision D c) = covered E c"
proof -
  show "collab_inv Y (clear_document_revision D c)"
    using inv_delete_rows [OF assms(1), where P = "\<lambda>u. \<not> update_of_revision D u" and Q = "\<lambda>s. \<not> snapshot_of_revision D s"]
    by (simp add: clear_document_revision_def delete_where_def)
  assume cur: "current_document E (cw_db c)"
  then have ne: "\<not> (cd_project_id E = cd_project_id D \<and> cd_document_id E = cd_document_id D \<and>
      cd_collaboration_revision E = cd_collaboration_revision D)" using assms(2) by (auto simp: current_document_def)
  have "find (snapshot_of E) (filter (\<lambda>s. \<not> snapshot_of_revision D s) ss) = find (snapshot_of E) ss" for ss
    using ne by (induction ss) (auto simp: snapshot_of_def snapshot_of_revision_def)
  moreover have "filter (\<lambda>u. update_of E u \<and> n < ur_id u) (filter (\<lambda>u. \<not> update_of_revision D u) us) = filter (\<lambda>u. update_of E u \<and> n < ur_id u) us" for n us
    using ne by (induction us) (auto simp: update_of_def update_of_revision_def)
  ultimately show "room_payloads E (clear_document_revision D c) = room_payloads E c \<and>
      covered E (clear_document_revision D c) = covered E c"
    by (intro conjI room_payloads_eq) (simp_all add: clear_document_revision_def delete_where_def covered_def)
qed

lemma reconciled_effect:
  assumes inv: "collab_inv Y c" and laws: "yjs_restores Y" and cur: "current_document D (cw_db c)"
    and w: "projected_to D (yj_get_text Y d) (cw_db c) w" and n: "n = bs_upto_update_id (load_state D c)"
    and c': "c' = prune_updates k D n (upsert_snapshot D n (yj_encode_state Y d) now (set_db w c))"
  shows "collab_inv Y c'" and "current_document E (cw_db c') = current_document E (cw_db c)"
    and "document_state Y D c' = Inr d" and "settled D c'"
    and "current_document E (cw_db c) \<Longrightarrow> E \<noteq> D \<Longrightarrow> document_state Y E c' = document_state Y E c"
    and "current_document E (cw_db c) \<Longrightarrow> settled E c \<Longrightarrow> settled E c'"
    and "project_content_epoch pid (cw_db c') = project_content_epoch pid (cw_db c)"
proof -
  let ?c2 = "upsert_snapshot D n (yj_encode_state Y d) now (set_db w c)"
  note b = upto_bounds [OF inv, where D = D, folded n]
  have inv2: "collab_inv Y ?c2" by (rule reconciled_inv [OF inv laws cur w b(1,2)])
  have all: "\<forall>u \<in> set (cw_updates c). update_of D u \<longrightarrow> ur_id u \<le> n" using b(3) by blast
  note room = reconciled_room [OF inv laws cur w b(1,2) all refl, where now = now]
  show "collab_inv Y c'" unfolding c' by (rule prune_inv [OF inv2])
  show "current_document E (cw_db c') = current_document E (cw_db c)" unfolding c' using current_projected [OF w] by simp
  show "project_content_epoch pid (cw_db c') = project_content_epoch pid (cw_db c)" unfolding c' using w by (simp add: projected_to_def)
  show "document_state Y D c' = Inr d"
    using room(1) laws unfolding c' document_state_def prune_room [OF inv2] by (simp add: yjs_restores_def)
  have sD: "settled D ?c2" using room(2) b(3) by (simp add: settled_def)
  then show "settled D c'" unfolding c' by (rule prune_settled)
  show "document_state Y E c' = document_state Y E c" if "current_document E (cw_db c)" "E \<noteq> D"
    using room(3) [OF that] unfolding c' document_state_def prune_room [OF inv2] by simp
  show "settled E c'" if "current_document E (cw_db c)" "settled E c"
  proof (cases "E = D")
    case True
    with sD show ?thesis unfolding c' by (simp add: prune_settled)
  next
    case False
    from upsert_keys(3) [OF inv cur b(1) that(1) False] have "covered E ?c2 = covered E c" by (simp add: covered_def upsert_set_db)
    with that(2) have "settled E ?c2" by (simp add: settled_def)
    then show ?thesis unfolding c' by (rule prune_settled)
  qed
qed

text \<open>A reconciliation keeps the state of every room and settles its own.\<close>

definition rooms_kept :: "('d, 'u) yjs \<Rightarrow> collab_world \<Rightarrow> collab_world \<Rightarrow> bool" where
  "rooms_kept Y c c' \<longleftrightarrow> collab_inv Y c' \<and> (\<forall>pid. project_content_epoch pid (cw_db c') = project_content_epoch pid (cw_db c)) \<and>
     (\<forall>E. current_document E (cw_db c') = current_document E (cw_db c)) \<and>
     (\<forall>E. current_document E (cw_db c) \<longrightarrow> document_state Y E c' = document_state Y E c \<and> (settled E c \<longrightarrow> settled E c'))"

lemma rooms_kept_refl: "collab_inv Y c \<Longrightarrow> rooms_kept Y c c"
  by (simp add: rooms_kept_def)

lemma rooms_kept_trans: "rooms_kept Y a b \<Longrightarrow> rooms_kept Y b c \<Longrightarrow> rooms_kept Y a c"
  by (simp add: rooms_kept_def)

lemma reconcile_rooms:
  assumes inv: "collab_inv Y c" and laws: "yjs_restores Y"
    and res: "reconcile_collaboration_document Y k now D (load_state D c) None c = Inr (r, c')"
  shows "rooms_kept Y c c'" and "current_document D (cw_db c) \<Longrightarrow> settled D c'"
proof -
  have "rooms_kept Y c c' \<and> (current_document D (cw_db c) \<longrightarrow> settled D c')"
    using inv res
  proof (cases rule: reconcile_cases)
    case epoch
    with inv show ?thesis by (simp add: rooms_kept_refl current_document_def)
  next
    case document
    note eff = clear_document_revision_effect [OF inv document(3)]
    have "settled E (clear_document_revision D c)" if "current_document E (cw_db c)" "settled E c" for E
      using that(2) eff(2) [OF that(1)] by (auto simp: settled_def) (simp add: clear_document_revision_def)
    moreover have "cw_workspace (clear_document_revision D c) = cw_workspace c" by (simp add: clear_document_revision_def)
    ultimately show ?thesis using document eff by (auto simp: rooms_kept_def document_state_def current_document_def)
  next
    case (current d x w)
    note eff = reconciled_effect [OF inv laws current(2,3) refl current(7)]
    have "document_state Y D c = Inr d" using current(1) by (simp add: document_state_def merged_room)
    with eff show ?thesis unfolding rooms_kept_def by metis
  qed
  then show "rooms_kept Y c c'" "current_document D (cw_db c) \<Longrightarrow> settled D c'" by blast+
qed

end
