(* ===== verification/Collaboration_Steps.thy ===== *)
theory Collaboration_Steps
  imports Collaboration_Invariant
begin

text \<open>
  Every step of the collaboration system keeps the invariant, and what it does to the state of the room
  of a current document: it stays, or it is extended by the payload that the step accepts.
\<close>

section \<open>Flushing\<close>

lemma reconcile_pending_rooms:
  assumes "collab_inv Y c" "yjs_restores Y" "reconcile_pending_document Y k now D c = Inr (r, c')"
  shows "rooms_kept Y c c'" and "current_document D (cw_db c) \<Longrightarrow> settled D c'"
  using assms reconcile_rooms [OF assms(1,2), of k now D r c']
  by (auto simp: reconcile_pending_document_def rooms_kept_refl current_document_def split: if_splits)

lemma flush_documents_rooms:
  assumes "yjs_restores Y"
  shows "collab_inv Y c \<Longrightarrow> rooms_kept Y c (snd (flush_documents Y k now Ds c))"
proof (induction Ds arbitrary: c)
  case Nil
  then show ?case by (simp add: rooms_kept_refl)
next
  case (Cons D Ds)
  show ?case
  proof (cases "reconcile_pending_document Y k now D c")
    case (Inl e)
    with Cons show ?thesis by (simp add: rooms_kept_refl)
  next
    case (Inr q)
    obtain r c1 where q: "q = (r, c1)" by (cases q)
    have one: "rooms_kept Y c c1" by (rule reconcile_pending_rooms(1) [OF Cons.prems assms Inr [unfolded q]])
    then have "collab_inv Y c1" by (simp add: rooms_kept_def)
    from rooms_kept_trans [OF one Cons.IH [OF this]] Inr q show ?thesis by (simp add: split_beta)
  qed
qed

lemma projector_batch_rooms:
  assumes "yjs_restores Y"
  shows "collab_inv Y c \<Longrightarrow> rooms_kept Y c (snd (projector_batch n Y k now c))"
proof (induction n arbitrary: c)
  case 0
  then show ?case by (simp add: rooms_kept_refl)
next
  case (Suc n)
  show ?case
  proof (cases "next_pending_document c")
    case None
    with Suc show ?thesis by (simp add: rooms_kept_refl)
  next
    case (Some D)
    show ?thesis
    proof (cases "reconcile_pending_document Y k now D c")
      case (Inl e)
      with Suc Some show ?thesis by (simp add: rooms_kept_refl)
    next
      case (Inr q)
      obtain r c1 where q: "q = (r, c1)" by (cases q)
      have one: "rooms_kept Y c c1" by (rule reconcile_pending_rooms(1) [OF Suc.prems assms Inr [unfolded q]])
      then have "collab_inv Y c1" by (simp add: rooms_kept_def)
      from rooms_kept_trans [OF one Suc.IH [OF this]] Some Inr q show ?thesis by (simp add: split_beta)
    qed
  qed
qed

text \<open>A capture settles every room it visits.\<close>

lemma capture_documents_rooms:
  assumes "yjs_restores Y"
  shows "collab_inv Y c \<Longrightarrow> capture_documents Y k now Ds c = Inr (changes, c') \<Longrightarrow>
    rooms_kept Y c c' \<and> (\<forall>D \<in> set Ds. current_document D (cw_db c) \<longrightarrow> settled D c')"
proof (induction Ds arbitrary: c changes)
  case Nil
  then show ?case by (simp add: rooms_kept_refl)
next
  case (Cons D Ds)
  then obtain r c1 ch where one: "reconcile_collaboration_document Y k now D (load_state D c) None c = Inr (r, c1)"
    and go: "capture_documents Y k now Ds c1 = Inr (ch, c')" by (auto split: sum.splits)
  note kept = reconcile_rooms [OF Cons.prems(1) assms one]
  then have inv1: "collab_inv Y c1" by (simp add: rooms_kept_def)
  note rest = Cons.IH [OF inv1 go]
  have "settled E c'" if "E \<in> set (D # Ds)" "current_document E (cw_db c)" for E
    using that kept rest by (auto simp: rooms_kept_def)
  with rooms_kept_trans [OF kept(1) conjunct1 [OF rest]] show ?case by blast
qed

lemma flush_project_rooms:
  "yjs_restores Y \<Longrightarrow> collab_inv Y c \<Longrightarrow> rooms_kept Y c (snd (flush_project_collaboration Y k now pid c))"
  by (simp add: flush_project_collaboration_def flush_documents_rooms rooms_kept_refl split: option.split)

lemma capture_rooms:
  "yjs_restores Y \<Longrightarrow> collab_inv Y c \<Longrightarrow> flush_project_collaboration_for_capture Y k now pid c = Inr (changes, c') \<Longrightarrow> rooms_kept Y c c'"
  by (auto simp: flush_project_collaboration_for_capture_def rooms_kept_refl split: option.splits dest: capture_documents_rooms)

section \<open>Bootstrap\<close>

lemma clear_superseded_effect:
  assumes "collab_inv Y c" and "lock_project_collaboration_document (cd_project_id D) (cd_document_id D) (cd_collaboration_revision D) (cw_db c)"
  shows "collab_inv Y (clear_superseded_document_revisions D c)"
    and "cw_workspace (clear_superseded_document_revisions D c) = cw_workspace c"
    and "current_document E (cw_db c) \<Longrightarrow> room_payloads E (clear_superseded_document_revisions D c) = room_payloads E c"
proof -
  let ?P = "\<lambda>u. \<not> (ur_project_id u = cd_project_id D \<and> ur_document_id u = cd_document_id D \<and> ur_collaboration_revision u \<noteq> cd_collaboration_revision D)"
  let ?Q = "\<lambda>s. \<not> (sr_project_id s = cd_project_id D \<and> sr_document_id s = cd_document_id D \<and> sr_collaboration_revision s \<noteq> cd_collaboration_revision D)"
  have c: "clear_superseded_document_revisions D c = c\<lparr>cw_updates := filter ?P (cw_updates c), cw_snapshots := filter ?Q (cw_snapshots c)\<rparr>"
    by (simp add: clear_superseded_document_revisions_def delete_where_def)
  show "collab_inv Y (clear_superseded_document_revisions D c)" unfolding c by (rule inv_delete_rows [OF assms(1)])
  show "cw_workspace (clear_superseded_document_revisions D c) = cw_workspace c" unfolding c by simp
  assume cur: "current_document E (cw_db c)"
  have winv: "workspace_inv (cw_db c)" using assms(1) by (simp add: collab_inv_def)
  have same: "cd_collaboration_revision E = cd_collaboration_revision D" if "cd_document_id E = cd_document_id D"
  proof -
    obtain d where d: "d \<in> set (w_documents (cw_db c))" "dc_id d = cd_document_id D" "dc_collaboration_revision d = cd_collaboration_revision D"
      using assms(2) by (auto simp: lock_document_iff)
    obtain e where e: "e \<in> set (w_documents (cw_db c))" "dc_id e = cd_document_id E" "dc_collaboration_revision e = cd_collaboration_revision E"
      using cur by (auto simp: current_document_def lock_document_iff)
    have "d = e" by (rule document_unique [OF winv d(1) e(1)]) (use d e that in simp)
    with d e show ?thesis by simp
  qed
  have "find (snapshot_of E) (filter ?Q ss) = find (snapshot_of E) ss" for ss
    using same by (induction ss) (auto simp: snapshot_of_def snapshot_of_revision_def)
  moreover have "filter (\<lambda>u. update_of E u \<and> n < ur_id u) (filter ?P us) = filter (\<lambda>u. update_of E u \<and> n < ur_id u) us" for n us
    using same by (induction us) (auto simp: update_of_def update_of_revision_def)
  ultimately show "room_payloads E (clear_superseded_document_revisions D c) = room_payloads E c"
    by (intro room_payloads_eq) (simp_all add: c)
qed

text \<open>The payload that a bootstrap gives to a room without state.\<close>

definition seed_payloads :: "('d, 'u) yjs \<Rightarrow> collaboration_document \<Rightarrow> collab_world \<Rightarrow> bytes list" where
  "seed_payloads Y D c =
     (if room_payloads D c \<noteq> [] then []
      else case document_collaboration_seed (cd_project_id D) (cd_document_id D) (cd_collaboration_revision D) (cw_db c) of
        None \<Rightarrow> [] | Some content \<Rightarrow> [seed_text Y content])"

lemma room_empty_iff:
  "room_payloads D c = [] \<longleftrightarrow> bs_snapshot_payload (load_state D c) = None \<and> bs_updates (load_state D c) = []"
  by (auto simp: room_payloads_def Let_def split: option.split)

lemma bootstrap_effect:
  assumes inv: "collab_inv Y c" and laws: "yjs_restores Y" and res: "prepare_document_bootstrap Y k now D c = (Inr (st, changes), c')"
  shows "collab_inv Y c'" and "\<And>E. current_document E (cw_db c') = current_document E (cw_db c)"
    and "current_document D (cw_db c)"
    and "\<And>E. current_document E (cw_db c) \<Longrightarrow> E \<noteq> D \<Longrightarrow> document_state Y E c' = document_state Y E c"
    and "document_state Y D c' = apply_payloads Y (room_payloads D c @ seed_payloads Y D c) (yj_new Y)"
    and "\<exists>d. document_state Y D c' = Inr d \<and> st = \<lparr>bs_upto_update_id = covered D c', bs_snapshot_payload = Some (yj_encode_state Y d),
      bs_updates = [], bs_contributors = []\<rparr>"
proof -
  obtain content where seed: "document_collaboration_seed (cd_project_id D) (cd_document_id D) (cd_collaboration_revision D) (cw_db c) = Some content"
    using res by (auto simp: prepare_document_bootstrap_def split: option.splits)
  then have lock: "lock_project_collaboration_document (cd_project_id D) (cd_document_id D) (cd_collaboration_revision D) (cw_db c)"
    by (auto simp: document_collaboration_seed_def lock_project_collaboration_document_def)
  let ?c1 = "clear_superseded_document_revisions D c"
  note c1 = clear_superseded_effect [OF inv lock]
  let ?st = "load_state D ?c1"
  let ?seed = "if bs_snapshot_payload ?st \<noteq> None \<or> bs_updates ?st \<noteq> [] then None else Some (seed_text Y content)"
  obtain x where rec: "reconcile_collaboration_document Y k now D ?st ?seed ?c1 = Inr (Current_reconciled x, c')"
    and st: "st = \<lparr>bs_upto_update_id = rc_upto_update_id x, bs_snapshot_payload = Some (rc_snapshot_payload x), bs_updates = [], bs_contributors = []\<rparr>"
    using res seed by (auto simp: prepare_document_bootstrap_def Let_def split: sum.splits reconcile_outcome.splits)
  from reconcile_cases [OF c1(1) rec] obtain d w where
    d: "apply_payloads Y (merged_payloads ?st ?seed) (yj_new Y) = Inr d" and cur1: "current_document D (cw_db ?c1)"
    and w: "projected_to D (yj_get_text Y d) (cw_db ?c1) w" and x: "rc_snapshot_payload x = yj_encode_state Y d"
      "rc_upto_update_id x = bs_upto_update_id ?st"
    and c': "c' = prune_updates k D (bs_upto_update_id ?st) (upsert_snapshot D (bs_upto_update_id ?st) (yj_encode_state Y d) now (set_db w ?c1))"
    by blast
  note eff = reconciled_effect [OF c1(1) laws cur1 w refl c']
  show cur: "current_document D (cw_db c)" using cur1 c1(2) by simp
  show "collab_inv Y c'" "\<And>E. current_document E (cw_db c') = current_document E (cw_db c)" using eff(1,2) c1(2) by simp_all
  show "\<And>E. current_document E (cw_db c) \<Longrightarrow> E \<noteq> D \<Longrightarrow> document_state Y E c' = document_state Y E c"
    using eff(5) c1(2,3) by (simp add: document_state_def)
  have "merged_payloads ?st ?seed = room_payloads D ?c1 @ (if room_payloads D ?c1 \<noteq> [] then [] else [seed_text Y content])"
    by (auto simp: merged_payloads_def room_payloads_def Let_def split: option.split)
  then have "merged_payloads ?st ?seed = room_payloads D c @ seed_payloads Y D c"
    using c1(3) [OF cur] seed by (simp add: seed_payloads_def)
  with eff(3) d show "document_state Y D c' = apply_payloads Y (room_payloads D c @ seed_payloads Y D c) (yj_new Y)" by simp
  have all: "\<forall>u \<in> set (cw_updates ?c1). update_of D u \<longrightarrow> ur_id u \<le> bs_upto_update_id ?st"
    using upto_bounds(3) [OF c1(1)] by blast
  have "covered D c' = bs_upto_update_id ?st"
    using reconciled_room(2) [OF c1(1) laws cur1 w upto_bounds(1,2) [OF c1(1)] all refl] unfolding c' by simp
  with eff(3) st x show "\<exists>d. document_state Y D c' = Inr d \<and> st = \<lparr>bs_upto_update_id = covered D c', bs_snapshot_payload = Some (yj_encode_state Y d),
      bs_updates = [], bs_contributors = []\<rparr>" by simp
qed

section \<open>Updates\<close>

lemma insert_update_effect:
  assumes inv: "collab_inv Y c" and cur: "current_document D (cw_db c)" and u: "uw_document u = D"
    and ins: "insert_update u now c = Some (n, c1)"
  shows "collab_inv Y c1" and "cw_workspace c1 = cw_workspace c" and "room_payloads D c1 = room_payloads D c @ [uw_payload u]"
    and "current_document E (cw_db c) \<Longrightarrow> E \<noteq> D \<Longrightarrow> room_payloads E c1 = room_payloads E c"
proof -
  obtain r where r: "ur_id r = cw_next_id c" "ur_project_id r = cd_project_id D" "ur_document_id r = cd_document_id D"
      "ur_collaboration_revision r = cd_collaboration_revision D" "ur_content_epoch r = cd_content_epoch D"
      "ur_kind r = kind_str (uw_kind u)" "ur_payload r = uw_payload u"
    and c1: "c1 = c\<lparr>cw_updates := cw_updates c @ [r], cw_next_id := cw_next_id c + 1\<rparr>"
  proof (rule that [of "last (cw_updates c1)"])
  qed (use ins u in \<open>auto simp: insert_update_def Let_def split: if_splits\<close>)
  have of_D: "update_of D r" using r by (simp add: update_of_def update_of_revision_def)
  have kind: "parse_kind (ur_kind r) \<noteq> None" by (cases "uw_kind u") (simp_all add: r parse_kind_def)
  have "updates_ok (cw_db c) (cw_next_id c + 1) (cw_updates c @ [r])"
    using inv belongs_current [OF cur] r kind
    by (auto simp: collab_inv_def updates_ok_def sorted_wrt_append less_Suc_eq)
  moreover have "snapshots_ok (cw_db c) (cw_next_id c + 1) (cw_snapshots c)" using inv by (auto simp: collab_inv_def snapshots_ok_def)
  ultimately show inv1: "collab_inv Y c1" using inv by (simp add: collab_inv_def c1)
  show "cw_workspace c1 = cw_workspace c" by (simp add: c1)
  have cov: "covered E c1 = covered E c" for E by (simp add: covered_def c1)
  have "covered D c < ur_id r" using covered_less [OF inv] r by simp
  then show "room_payloads D c1 = room_payloads D c @ [uw_payload u]"
    using load_state_spec(1,2) [OF inv, of D] load_state_spec(1,2) [OF inv1, of D] cov of_D r
    by (simp add: room_payloads_def Let_def c1 split: option.split)
  show "room_payloads E c1 = room_payloads E c" if "current_document E (cw_db c)" "E \<noteq> D"
  proof (rule room_payloads_eq)
    have "\<not> update_of E r"
      using current_same_room [OF cur that(1)] that(2) r by (auto simp: update_of_def update_of_revision_def)
    then show "filter (\<lambda>u. update_of E u \<and> covered E c < ur_id u) (cw_updates c1) =
        filter (\<lambda>u. update_of E u \<and> covered E c < ur_id u) (cw_updates c)" by (simp add: c1)
  qed (simp add: c1)
qed

fun is_accepted :: "persist_error + persist_outcome \<Rightarrow> bool" where
  "is_accepted (Inr (Accepted_update ack)) = True"
| "is_accepted _ = False"

lemma persist_update_refused:
  "\<not> is_accepted (fst (persist_update Y k now D user kind payload ae guest c)) \<Longrightarrow>
   snd (persist_update Y k now D user kind payload ae guest c) = c"
  by (auto simp: persist_update_def split: epoch_match.split option.split sum.split reconcile_outcome.split)

lemma persist_update_accepted:
  assumes inv: "collab_inv Y c" and laws: "yjs_restores Y"
    and res: "persist_update Y k now D user kind payload ae guest c = (r, c')" and ok: "is_accepted r"
  shows "current_document D (cw_db c)" and "lock_project_access_epoch (cd_project_id D) ae (cw_access c) = Current"
    and "collab_inv Y c'" and "\<And>E. current_document E (cw_db c') = current_document E (cw_db c)"
    and "document_state Y D c' = apply_payloads Y (room_payloads D c @ [payload]) (yj_new Y)"
    and "\<And>E. current_document E (cw_db c) \<Longrightarrow> E \<noteq> D \<Longrightarrow> document_state Y E c' = document_state Y E c"
proof -
  let ?u = "\<lparr>uw_document = D, uw_user_id = user, uw_kind = kind, uw_payload = payload, uw_guest_display_name = guest\<rparr>"
  show cur: "current_document D (cw_db c)" and acc: "lock_project_access_epoch (cd_project_id D) ae (cw_access c) = Current"
    using res ok by (auto simp: persist_update_def current_document_def split: if_splits epoch_match.splits)
  obtain n c1 where ins: "insert_update ?u now c = Some (n, c1)"
    using res ok cur acc by (auto simp: persist_update_def current_document_def split: option.splits)
  note i = insert_update_effect [OF inv cur _ ins, simplified]
  have "rooms_kept Y c1 c'"
  proof (cases kind)
    case Update_kind
    then have c': "c' = prune_updates k D n c1" using res ok cur acc ins by (simp add: persist_update_def current_document_def)
    show ?thesis
      unfolding c' rooms_kept_def document_state_def prune_room [OF i(1)] by (simp add: prune_inv [OF i(1)] prune_settled)
  next
    case Sync_kind
    then obtain x where "reconcile_collaboration_document Y k now D (load_state D c1) None c1 = Inr (Current_reconciled x, c')"
      using res ok cur acc ins
      by (auto simp: persist_update_def current_document_def split: sum.splits reconcile_outcome.splits)
    from reconcile_rooms(1) [OF i(1) laws this] show ?thesis .
  qed
  with i cur show "collab_inv Y c'" "\<And>E. current_document E (cw_db c') = current_document E (cw_db c)"
    "document_state Y D c' = apply_payloads Y (room_payloads D c @ [payload]) (yj_new Y)"
    "\<And>E. current_document E (cw_db c) \<Longrightarrow> E \<noteq> D \<Longrightarrow> document_state Y E c' = document_state Y E c"
    by (simp_all add: rooms_kept_def document_state_def)
qed

section \<open>Operations of the Workspace\<close>

text \<open>A change of the Workspace in which the surviving documents keep their identity, with the cascade.\<close>

lemma cascade_inv:
  assumes inv: "collab_inv Y c" and winv: "workspace_inv (ww_db s)" and ep: "epochs_kept (cw_db c) (ww_db s)"
    and keep: "\<And>i. live i (cw_db c) \<Longrightarrow> keeps_rows same_text i (cw_db c) (ww_db s)"
  shows "collab_inv Y (cascade (c\<lparr>cw_workspace := s\<rparr>))"
proof -
  let ?w = "cw_db c"
  have w: "workspace_inv ?w" using inv by (simp add: collab_inv_def)
  have old: "\<exists>d \<in> set (w_documents ?w). dc_id d = dc_id d' \<and> same_text d d'"
    if "d' \<in> set (w_documents (ww_db s))" "live (dc_id d') ?w" for d'
    using keep [OF that(2)] that(1) by (auto simp: keeps_rows_def)
  have belongs: "belongs pid i r ep (ww_db s)" if b: "belongs pid i r ep ?w" and m: "i \<in> dc_id ` set (w_documents (ww_db s))" for pid i r ep
  proof -
    obtain d where d: "d \<in> set (w_documents ?w)" "dc_id d = i" "dc_project_id d = pid" "r \<le> dc_collaboration_revision d"
      using b by (auto simp: belongs_def)
    obtain d' where d': "d' \<in> set (w_documents (ww_db s))" "dc_id d' = i" using m by auto
    have "live (dc_id d') ?w" using d d' by (force simp: live_def)
    from old [OF d'(1) this] obtain e where e: "e \<in> set (w_documents ?w)" "dc_id e = dc_id d'" "same_text e d'" by blast
    have "e = d" by (rule document_unique [OF w e(1) d(1)]) (use d d' e in simp)
    with e d d' b ep show ?thesis by (auto simp: belongs_def epochs_kept_def same_text_def)
  qed
  have "snapshot_text Y (sr_state_update x) (dc_content d')"
    if x: "x \<in> set (cw_snapshots c)" and d': "d' \<in> set (w_documents (ww_db s))" "dc_id d' = sr_document_id x"
      "dc_collaboration_revision d' = sr_collaboration_revision x" for x d'
  proof -
    have "belongs (sr_project_id x) (sr_document_id x) (sr_collaboration_revision x) (sr_content_epoch x) ?w"
      using inv x by (simp add: collab_inv_def snapshots_ok_def)
    then obtain d where d: "d \<in> set (w_documents ?w)" "dc_id d = sr_document_id x" "sr_collaboration_revision x \<le> dc_collaboration_revision d"
      by (auto simp: belongs_def)
    have "live (dc_id d') ?w" using d d' by (force simp: live_def)
    from old [OF d'(1) this] obtain e where e: "e \<in> set (w_documents ?w)" "dc_id e = dc_id d'" "same_text e d'" by blast
    have "e = d" by (rule document_unique [OF w e(1) d(1)]) (use d d' e in simp)
    with e d d' have "dc_collaboration_revision d = sr_collaboration_revision x" "dc_content d' = dc_content d"
      by (auto simp: same_text_def)
    with inv x d show ?thesis by (simp add: collab_inv_def projected_ok_def)
  qed
  then show ?thesis
    using inv winv belongs
    by (auto simp: collab_inv_def cascade_def Let_def updates_ok_def snapshots_ok_def projected_ok_def sorted_wrt_map sorted_wrt_filter
        distinct_map_filter)
qed

lemma cascade_room:
  assumes "current_document D (ww_db s)"
  shows "room_payloads D (cascade (c\<lparr>cw_workspace := s\<rparr>)) = room_payloads D c"
proof -
  have live: "cd_document_id D \<in> dc_id ` set (w_documents (ww_db s))" using assms by (force simp: current_document_def lock_document_iff)
  have "find (snapshot_of D) (filter (\<lambda>x. sr_document_id x \<in> dc_id ` set (w_documents (ww_db s))) ss) = find (snapshot_of D) ss" for ss
    using live by (induction ss) (auto simp: snapshot_of_def snapshot_of_revision_def)
  moreover have "filter (\<lambda>u. update_of D u \<and> n < ur_id u) (filter (\<lambda>u. ur_document_id u \<in> dc_id ` set (w_documents (ww_db s))) us) =
      filter (\<lambda>u. update_of D u \<and> n < ur_id u) us" for n us
    using live by (induction us) (auto simp: update_of_def update_of_revision_def)
  ultimately show ?thesis
    by (intro room_payloads_eq) (simp_all add: cascade_def Let_def)
qed

lemma workspace_operation_inv:
  assumes "collab_inv Y c" and "\<not> is_replacement e" and "\<not> is_projection e"
  shows "collab_inv Y (cascade (c\<lparr>cw_workspace := workspace_step e (cw_workspace c)\<rparr>))"
proof (rule cascade_inv [OF assms(1)])
  have "workspace_inv (cw_db c)" using assms(1) by (simp add: collab_inv_def)
  then show "workspace_inv (ww_db (workspace_step e (cw_workspace c)))" by (rule ws.inv_step)
qed (use assms(2,3) in \<open>auto intro: epochs_step same.keeps_step\<close>)

section \<open>Replacement\<close>

text \<open>A replacement changes the documents and the epoch of its project only, and its epoch for good.\<close>

lemma insert_documents_others:
  "insert_documents fresh k pid now ds w = Some w' \<Longrightarrow>
   filter (\<lambda>d. dc_project_id d \<noteq> pid) (w_documents w') = filter (\<lambda>d. dc_project_id d \<noteq> pid) (w_documents w)"
proof (induction ds arbitrary: k w)
  case Nil
  then show ?case by simp
next
  case (Cons d ds)
  then obtain e w1 where ins: "document_insert (fresh k) pid (wd_path d) (wd_content d) now w = Some (e, w1)"
    and go: "insert_documents fresh (k + 1) pid now ds w1 = Some w'" by (auto split: option.splits)
  from ins have "filter (\<lambda>d. dc_project_id d \<noteq> pid) (w_documents w1) = filter (\<lambda>d. dc_project_id d \<noteq> pid) (w_documents w)"
    by (auto simp: document_insert_def new_document_def Let_def split: if_splits option.splits)
  with Cons.IH [OF go] show ?case by simp
qed

lemma replace_others:
  assumes "replace_project_content fresh r w = Some (Replaced old v ep, w')"
  shows "filter (\<lambda>d. dc_project_id d \<noteq> rp_project_id r) (w_documents w') = filter (\<lambda>d. dc_project_id d \<noteq> rp_project_id r) (w_documents w)"
    and "q \<noteq> rp_project_id r \<Longrightarrow> project_content_epoch q w' = project_content_epoch q w"
    and "project_content_epoch (rp_project_id r) w' \<noteq> project_content_epoch (rp_project_id r) w"
proof -
  let ?pid = "rp_project_id r"
  obtain p w1 w2 w3 where p: "find_project ?pid w = Some p"
    and w1: "settings_ensure ?pid (default_entry_file_path (pr_project_type p)) (default_latex_engine (pr_project_type p)) (rp_updated_at r) w = Some w1"
    and w2: "insert_content fresh r (delete_content ?pid w1) = Some w2"
    and w3: "update_entry_file_path ?pid (rp_entry_file_path r) (rp_updated_at r) w2 = Some w3"
    and w': "w' = advance_generation ?pid w3"
    using assms by (cases rule: replace_project_content_parts) blast+
  obtain v1 v2 where v1: "insert_documents fresh 0 ?pid (rp_updated_at r) (rp_documents r) (delete_content ?pid w1) = Some v1"
    and v2: "insert_assets ?pid (rp_asset_uploaded_by r) (rp_updated_at r) (rp_assets r) v1 = Some v2"
    and v3: "insert_directories ?pid (rp_updated_at r) (rp_directories r) v2 = Some w2"
    using w2 by (auto simp: insert_content_def split: option.splits)
  have docs: "w_documents w' = w_documents v1"
    using insert_assets_tables [OF v2] insert_directories_tables [OF v3] settings_statement_documents(3) [OF w3] w'
    by (simp add: advance_generation_def)
  show "filter (\<lambda>d. dc_project_id d \<noteq> ?pid) (w_documents w') = filter (\<lambda>d. dc_project_id d \<noteq> ?pid) (w_documents w)"
    unfolding docs insert_documents_others [OF v1]
    using settings_statement_documents(2) [OF w1] by (simp add: delete_content_def delete_where_def)
  have projects: "w_projects w3 = w_projects w"
    using settings_statement_projects(2) [OF w1] settings_statement_projects(3) [OF w3] insert_documents_sound [OF v1]
      insert_assets_tables [OF v2] insert_directories_tables [OF v3] by (simp add: delete_content_def)
  have found: "find (\<lambda>p. pr_id p = q) (w_projects w') =
      map_option (\<lambda>p. if pr_id p = ?pid then p\<lparr>pr_workspace_version := pr_workspace_version p + 1, pr_content_epoch := pr_content_epoch p + 1\<rparr> else p)
        (find (\<lambda>p. pr_id p = q) (w_projects w))" for q
    by (simp add: w' advance_generation_def projects find_update_where)
  show "project_content_epoch q w' = project_content_epoch q w" if "q \<noteq> ?pid"
    using that found [of q] by (cases "find (\<lambda>p. pr_id p = q) (w_projects w)")
      (auto simp: project_content_epoch_def find_project_def dest: find_Some_set)
  show "project_content_epoch ?pid w' \<noteq> project_content_epoch ?pid w"
    using p found [of ?pid] by (auto simp: project_content_epoch_def find_project_def dest: find_Some_set)
qed

lemma replace_and_clear_effect:
  assumes inv: "collab_inv Y c"
  shows "collab_inv Y (replace_and_clear fresh r c)"
    and "current_document D (cw_db c) \<Longrightarrow> current_document D (cw_db (replace_and_clear fresh r c)) \<Longrightarrow>
      room_payloads D (replace_and_clear fresh r c) = room_payloads D c"
proof -
  let ?pid = "rp_project_id r"
  have "collab_inv Y (replace_and_clear fresh r c) \<and>
    (current_document D (cw_db c) \<and> current_document D (cw_db (replace_and_clear fresh r c)) \<longrightarrow>
      room_payloads D (replace_and_clear fresh r c) = room_payloads D c)"
  proof (cases "\<exists>old v ep w. replace_project_content fresh r (cw_db c) = Some (Replaced old v ep, w)")
    case False
    then have "replace_and_clear fresh r c = c"
      by (auto simp: replace_and_clear_def split: option.split prod.split replace_result.split)
    with inv show ?thesis by simp
  next
    case True
    then obtain old v ep w where res: "replace_project_content fresh r (cw_db c) = Some (Replaced old v ep, w)" by blast
    note others = replace_others [OF res]
    have winv: "workspace_inv w"
      using sound_replace_project_content [OF res] inv by (simp add: sound_step_def collab_inv_def)
    let ?c' = "replace_and_clear fresh r c"
    have c': "cw_db ?c' = w" "cw_next_id ?c' = cw_next_id c"
      "cw_updates ?c' = filter (\<lambda>u. ur_project_id u \<noteq> ?pid \<and> ur_document_id u \<in> dc_id ` set (w_documents w)) (cw_updates c)"
      "cw_snapshots ?c' = filter (\<lambda>s. sr_project_id s \<noteq> ?pid \<and> sr_document_id s \<in> dc_id ` set (w_documents w)) (cw_snapshots c)"
      by (simp_all add: replace_and_clear_def res clear_project_def cascade_def delete_where_def Let_def conj_commute)
    have same: "d \<in> set (w_documents w) \<longleftrightarrow> d \<in> set (w_documents (cw_db c))" if "dc_project_id d \<noteq> ?pid" for d
      using arg_cong [OF others(1), of set] that by auto
    have belongs: "belongs q i n e w" if "belongs q i n e (cw_db c)" "q \<noteq> ?pid" for q i n e
      using that same others(2) [OF that(2)] by (auto simp: belongs_def)
    have "snapshot_text Y (sr_state_update s) (dc_content d)"
      if s: "s \<in> set (cw_snapshots c)" "sr_project_id s \<noteq> ?pid" and d: "d \<in> set (w_documents w)" "dc_id d = sr_document_id s"
        "dc_collaboration_revision d = sr_collaboration_revision s" for s d
    proof -
      have "belongs (sr_project_id s) (sr_document_id s) (sr_collaboration_revision s) (sr_content_epoch s) w"
        using inv s belongs by (auto simp: collab_inv_def snapshots_ok_def)
      then obtain e where e: "e \<in> set (w_documents w)" "dc_id e = sr_document_id s" "dc_project_id e = sr_project_id s"
        by (auto simp: belongs_def)
      have "d = e" by (rule document_unique [OF winv d(1) e(1)]) (use d e in simp)
      with inv s d e same show ?thesis by (auto simp: collab_inv_def projected_ok_def)
    qed
    then have "collab_inv Y ?c'"
      using inv winv belongs unfolding collab_inv_def c'
      by (auto simp: updates_ok_def snapshots_ok_def projected_ok_def sorted_wrt_map sorted_wrt_filter distinct_map_filter)
    moreover have "room_payloads D ?c' = room_payloads D c" if "current_document D (cw_db c)" "current_document D (cw_db ?c')"
    proof -
      have other: "cd_project_id D \<noteq> ?pid" using that others(3) by (auto simp: current_document_def c')
      have live: "cd_document_id D \<in> dc_id ` set (w_documents w)" using that(2) by (force simp: current_document_def lock_document_iff c')
      have "find (snapshot_of D) (filter (\<lambda>s. sr_project_id s \<noteq> ?pid \<and> sr_document_id s \<in> dc_id ` set (w_documents w)) ss) =
          find (snapshot_of D) ss" for ss
        using live other by (induction ss) (auto simp: snapshot_of_def snapshot_of_revision_def)
      moreover have "filter (\<lambda>u. update_of D u \<and> n < ur_id u)
          (filter (\<lambda>u. ur_project_id u \<noteq> ?pid \<and> ur_document_id u \<in> dc_id ` set (w_documents w)) us) =
          filter (\<lambda>u. update_of D u \<and> n < ur_id u) us" for n us
        using live other by (induction us) (auto simp: update_of_def update_of_revision_def)
      ultimately show ?thesis by (intro room_payloads_eq) (simp_all only: c')
    qed
    ultimately show ?thesis by blast
  qed
  then show "collab_inv Y (replace_and_clear fresh r c)"
    "current_document D (cw_db c) \<Longrightarrow> current_document D (cw_db (replace_and_clear fresh r c)) \<Longrightarrow>
      room_payloads D (replace_and_clear fresh r c) = room_payloads D c" by blast+
qed

section \<open>Runs\<close>

text \<open>The payloads that a step accepts for a room: an acknowledged update, or the seed of an empty room.\<close>

fun event_payloads :: "('d, 'u) yjs \<Rightarrow> int \<Rightarrow> collaboration_document \<Rightarrow> collab_event \<Rightarrow> collab_world \<Rightarrow> bytes list" where
  "event_payloads Y k D (Persist E user kind payload ae guest now) c =
     (if E = D \<and> is_accepted (fst (persist_update Y k now E user kind payload ae guest c)) then [payload] else [])"
| "event_payloads Y k D (Bootstrap E now) c =
     (case fst (prepare_document_bootstrap Y k now E c) of Inl e \<Rightarrow> [] | Inr r \<Rightarrow> if E = D then seed_payloads Y D c else [])"
| "event_payloads Y k D _ c = []"

fun accepted_payloads :: "('d, 'u) yjs \<Rightarrow> int \<Rightarrow> collaboration_document \<Rightarrow> collab_event list \<Rightarrow> collab_world \<Rightarrow> bytes list" where
  "accepted_payloads Y k D [] c = []"
| "accepted_payloads Y k D (e # es) c = event_payloads Y k D e c @ accepted_payloads Y k D es (collab_step Y k e c)"

fun stays_current :: "('d, 'u) yjs \<Rightarrow> int \<Rightarrow> collaboration_document \<Rightarrow> collab_event list \<Rightarrow> collab_world \<Rightarrow> bool" where
  "stays_current Y k D [] c = current_document D (cw_db c)"
| "stays_current Y k D (e # es) c = (current_document D (cw_db c) \<and> stays_current Y k D es (collab_step Y k e c))"

definition extended :: "('d, 'u) yjs \<Rightarrow> bytes list \<Rightarrow> yjs_error + 'd \<Rightarrow> yjs_error + 'd" where
  "extended Y ps r = (case r of Inl e \<Rightarrow> Inl e | Inr d \<Rightarrow> apply_payloads Y ps d)"

lemma extended_simps [simp]:
  "extended Y [] r = r" "extended Y qs (apply_payloads Y ps d) = apply_payloads Y (ps @ qs) d"
  "extended Y qs (extended Y ps r) = extended Y (ps @ qs) r"
  by (auto simp: extended_def apply_payloads_append split: sum.split)

lemma collab_step_inv:
  assumes "yjs_restores Y" and inv: "collab_inv Y c"
  shows "collab_inv Y (collab_step Y k e c)"
proof (cases e)
  case (Persist D user kind payload ae guest now)
  obtain r c' where res: "persist_update Y k now D user kind payload ae guest c = (r, c')"
    by (cases "persist_update Y k now D user kind payload ae guest c")
  show ?thesis
    using persist_update_accepted(3) [OF inv assms(1) res] persist_update_refused [of Y k now D user kind payload ae guest c] res inv Persist
    by (cases "is_accepted r") auto
next
  case (Bootstrap D now)
  obtain r c' where res: "prepare_document_bootstrap Y k now D c = (r, c')"
    by (cases "prepare_document_bootstrap Y k now D c")
  show ?thesis
  proof (cases r)
    case (Inl e)
    with res have "c' = c"
      by (auto simp: prepare_document_bootstrap_def Let_def split: option.splits sum.splits reconcile_outcome.splits)
    with res inv Bootstrap show ?thesis by simp
  next
    case (Inr q)
    obtain st changes where "q = (st, changes)" by (cases q)
    with res Inr bootstrap_effect(1) [OF inv assms(1)] Bootstrap show ?thesis by simp
  qed
next
  case (WorkspaceOperation e)
  with inv workspace_operation_inv [OF inv] show ?thesis by simp
next
  case (Replace fresh r)
  with replace_and_clear_effect(1) [OF inv] show ?thesis by simp
qed (use inv projector_batch_rooms [OF assms] flush_project_rooms [OF assms] capture_rooms [OF assms] in
    \<open>auto simp: rooms_kept_def collab_inv_def split: sum.split\<close>)

text \<open>A step extends the room of a document that stays current by what it accepts, and by nothing else.\<close>

lemma collab_step_room:
  assumes laws: "yjs_restores Y" and inv: "collab_inv Y c" and cur: "current_document D (cw_db c)"
    and cur': "current_document D (cw_db (collab_step Y k e c))"
  shows "document_state Y D (collab_step Y k e c) = extended Y (event_payloads Y k D e c) (document_state Y D c)"
proof (cases e)
  case (Persist E user kind payload ae guest now)
  obtain r c' where res: "persist_update Y k now E user kind payload ae guest c = (r, c')"
    by (cases "persist_update Y k now E user kind payload ae guest c")
  show ?thesis
  proof (cases "is_accepted r")
    case True
    note eff = persist_update_accepted [OF inv laws res True]
    show ?thesis using eff(5) eff(6) [OF cur] Persist res True by (auto simp: document_state_def)
  next
    case False
    with persist_update_refused [of Y k now E user kind payload ae guest c] res Persist show ?thesis by simp
  qed
next
  case (Bootstrap E now)
  obtain r c' where res: "prepare_document_bootstrap Y k now E c = (r, c')"
    by (cases "prepare_document_bootstrap Y k now E c")
  show ?thesis
  proof (cases r)
    case (Inl e)
    with res have "c' = c"
      by (auto simp: prepare_document_bootstrap_def Let_def split: option.splits sum.splits reconcile_outcome.splits)
    with res Inl Bootstrap show ?thesis by simp
  next
    case (Inr q)
    obtain st changes where q: "q = (st, changes)" by (cases q)
    note eff = bootstrap_effect [OF inv laws res [unfolded Inr q]]
    show ?thesis using eff(4) [OF cur] eff(5) res Inr Bootstrap by (auto simp: document_state_def)
  qed
next
  case (WorkspaceOperation e)
  have "room_payloads D (cascade (c\<lparr>cw_workspace := workspace_step e (cw_workspace c)\<rparr>)) = room_payloads D c"
    if "\<not> is_replacement e" "\<not> is_projection e"
    by (rule cascade_room) (use that cur' WorkspaceOperation in \<open>simp add: cascade_def Let_def\<close>)
  with WorkspaceOperation show ?thesis by (simp add: document_state_def)
next
  case (Replace fresh r)
  with replace_and_clear_effect(2) [OF inv cur] cur' show ?thesis by (simp add: document_state_def)
next
  case (AccessOperation a)
  then show ?thesis by (simp add: document_state_def room_payloads_def load_state_def pending_rows_def)
qed (use cur projector_batch_rooms [OF laws inv] flush_project_rooms [OF laws inv] capture_rooms [OF laws inv] in
    \<open>auto simp: rooms_kept_def split: sum.split\<close>)

definition empty_collab :: "access_db \<Rightarrow> collab_world" where
  "empty_collab a = \<lparr>cw_workspace = empty_world, cw_access = a, cw_updates = [], cw_snapshots = [], cw_next_id = 1\<rparr>"

interpretation cs: transition_system "collab_step Y k" "empty_collab a" "\<lambda>c. yjs_restores Y \<longrightarrow> collab_inv Y c" for Y k a
proof
  show "yjs_restores Y \<longrightarrow> collab_inv Y (empty_collab a)"
    by (simp add: empty_collab_def collab_inv_def updates_ok_def snapshots_ok_def projected_ok_def empty_world_def empty_workspace_inv)
  show "yjs_restores Y \<longrightarrow> collab_inv Y (collab_step Y k e c)" if "yjs_restores Y \<longrightarrow> collab_inv Y c" for c e
    using that collab_step_inv [of Y c k e] by blast
qed

lemma run_room:
  assumes "yjs_restores Y"
  shows "collab_inv Y c \<Longrightarrow> stays_current Y k D es c \<Longrightarrow>
    document_state Y D (run_events (collab_step Y k) es c) = extended Y (accepted_payloads Y k D es c) (document_state Y D c)"
proof (induction es arbitrary: c)
  case Nil
  then show ?case by simp
next
  case (Cons e es)
  have inv1: "collab_inv Y (collab_step Y k e c)" by (rule collab_step_inv [OF assms Cons.prems(1)])
  have "current_document D (cw_db (collab_step Y k e c))" using Cons.prems(2) by (cases es) auto
  with Cons.prems have "document_state Y D (collab_step Y k e c) = extended Y (event_payloads Y k D e c) (document_state Y D c)"
    by (intro collab_step_room [OF assms]) auto
  with Cons.IH [OF inv1] Cons.prems(2) show ?case by simp
qed

section \<open>The text of a settled room\<close>

lemma set_first_documents [simp]: "set (first_documents Ds) = set Ds"
  by (induction Ds) auto

lemma settled_text:
  assumes inv: "collab_inv Y c" and "settled D c" and "room_payloads D c \<noteq> []"
    and "d \<in> set (w_documents (cw_db c))" "dc_id d = cd_document_id D" "dc_collaboration_revision d = cd_collaboration_revision D"
  shows "\<exists>st. document_state Y D c = Inr st \<and> yj_get_text Y st = dc_content d"
proof -
  have "filter (\<lambda>u. update_of D u \<and> covered D c < ur_id u) (cw_updates c) = []" using assms(2) by (force simp: settled_def filter_empty_conv)
  then have room: "room_payloads D c = (case find (snapshot_of D) (cw_snapshots c) of None \<Rightarrow> [] | Some s \<Rightarrow> [sr_state_update s])"
    using load_state_spec(1,2) [OF inv, of D] by (auto simp: room_payloads_def Let_def split: option.split)
  with assms(3) obtain s where s: "find (snapshot_of D) (cw_snapshots c) = Some s" by (auto split: option.splits)
  then have mem: "s \<in> set (cw_snapshots c)" "snapshot_of D s" using find_Some_set by fastforce+
  have "snapshot_text Y (sr_state_update s) (dc_content d)"
    using inv mem assms(4-6) by (auto simp: collab_inv_def projected_ok_def snapshot_of_def snapshot_of_revision_def)
  then show ?thesis using room s by (auto simp: document_state_def snapshot_text_def)
qed

text \<open>A capture settles every room of the project.\<close>

lemma foldl_max: "x \<in> set (i # is) \<Longrightarrow> x \<le> foldl max (i :: int) is"
proof (induction "is" arbitrary: i x)
  case Nil
  then show ?case by simp
next
  case (Cons j js)
  have "max i j \<le> foldl max (max i j) js" by (rule Cons.IH) simp
  with Cons.IH [of x "max i j"] Cons.prems show ?case by auto
qed

lemma capture_settles:
  assumes laws: "yjs_restores Y" and inv: "collab_inv Y c"
    and res: "flush_project_collaboration_for_capture Y k now pid c = Inr (changes, c')"
    and cur: "current_document D (cw_db c)" and D: "cd_project_id D = pid"
  shows "settled D c'"
proof (cases "settled D c")
  case True
  with capture_rooms [OF laws inv res] cur show ?thesis by (simp add: rooms_kept_def)
next
  case False
  then obtain u where u: "u \<in> set (cw_updates c)" "update_of D u" "covered D c < ur_id u" by (auto simp: settled_def)
  have doc: "document_of u = D" using u(2) by (simp add: document_of_def update_of_def update_of_revision_def)
  have pend: "update_pending c u" using u(3) doc by (auto simp: update_pending_def covered_def split: option.splits)
  let ?ids = "map ur_id (filter (\<lambda>u. ur_project_id u = pid) (cw_updates c))"
  have mem: "ur_id u \<in> set ?ids" using u D by (auto simp: update_of_def update_of_revision_def)
  then obtain i "is" where ids: "?ids = i # is" by (cases ?ids) auto
  define target where "target = foldl max i is"
  have target: "latest_project_update_id pid c = Some target" "ur_id u \<le> target"
    using mem foldl_max [of "ur_id u" i "is"] unfolding ids target_def by (simp_all add: latest_project_update_id_def ids)
  have "D \<in> set (pending_project_documents pid target c)"
    using u D doc pend target(2) by (force simp: pending_project_documents_def update_of_def update_of_revision_def)
  moreover have "capture_documents Y k now (pending_project_documents pid target c) c = Inr (changes, c')"
    using res target(1) by (simp add: flush_project_collaboration_for_capture_def)
  ultimately show ?thesis using capture_documents_rooms [OF laws inv] cur by blast
qed

end
