(* ===== verification/Collaboration_Properties.thy ===== *)
theory Collaboration_Properties
  imports Collaboration_Steps Workspace_Properties
begin

text \<open>
  The properties of the collaboration component: an acknowledged update is never lost, and a capture
  of a project sees every one of them.
\<close>

section \<open>An example\<close>

text \<open>
  A stand-in for Yjs in the examples: a document is its text, an update is appended to it; an update
  that starts with a question mark cannot be decoded.
\<close>

definition ex_yjs :: "(string, string) yjs" where
  "ex_yjs = \<lparr>yj_new = [], yj_with_client_id = (\<lambda>_. []),
     yj_decode_v1 = (\<lambda>p. if p = ''?'' then None else Some p),
     yj_apply_update = (\<lambda>u d. Some (d @ (if u = [] \<or> hd u \<noteq> CHR ''='' then u else tl u))),
     yj_insert_text = (\<lambda>t d. t @ d), yj_get_text = (\<lambda>d. d), yj_encode_state = (\<lambda>d. CHR ''='' # d)\<rparr>"

lemma ex_yjs_restores: "yjs_restores ex_yjs"
  by (simp add: yjs_restores_def ex_yjs_def apply_payload_def)

definition ex_open_access :: access_db where
  "ex_open_access = \<lparr>roles = [], organization_access = [], memberships = [], template_access = [], share_links = [],
     guest_sessions = [], auth_sessions = [], anonymous_setting = None, access_epochs = [(1, 0)]\<rparr>"

definition ex_room :: collaboration_document where
  "ex_room = \<lparr>cd_project_id = 1, cd_document_id = 10, cd_collaboration_revision = 0, cd_content_epoch = 0\<rparr>"

definition ex_opened :: "collab_event list" where
  "ex_opened = [WorkspaceOperation ex_create, Bootstrap ex_room 1]"

definition ex_edits :: "collab_event list" where
  "ex_edits =
     [Persist ex_room (Some 7) Update_kind ''a'' 0 None 2,
      Persist ex_room None Sync_kind ''b'' 0 (Some ''guest'') 3,
      Persist ex_room (Some 7) Update_kind ''stale'' 4 None 4,
      WorkspaceOperation (MoveFile (ex_service 5) 1 ''src'' ''deck'' None None),
      Persist ex_room (Some 7) Update_kind ''c'' 0 None 5]"

section \<open>Properties\<close>

text \<open>
  C11. No acknowledged update is lost. From every reachable state and along every run of bootstraps,
  updates, compactions, prunings, flushes, captures, replacements, file operations and changes of
  access, as long as the document stays current (its revision and the content epoch of its project stay)
  the state that its snapshot and its remaining updates merge to is the earlier state with exactly the
  acknowledged updates applied in order, after the seed if the room was empty. The hypothesis is the
  property of Yjs that the encoded state of a document restores it.
\<close>

theorem acknowledged_updates_kept:
  assumes "yjs_restores Y" and "stays_current Y retention D es' (run_events (collab_step Y retention) es (empty_collab a))"
  shows "document_state Y D (run_events (collab_step Y retention) es' (run_events (collab_step Y retention) es (empty_collab a))) =
    extended Y (accepted_payloads Y retention D es' (run_events (collab_step Y retention) es (empty_collab a)))
      (document_state Y D (run_events (collab_step Y retention) es (empty_collab a)))"
proof (rule run_room [OF assms(1) _ assms(2)])
  show "collab_inv Y (run_events (collab_step Y retention) es (empty_collab a))" using cs.inv_run assms(1) by blast
qed

theorem acknowledged_updates_kept_witness:
  "document_state ex_yjs ex_room
     (run_events (collab_step ex_yjs 100) ex_edits (run_events (collab_step ex_yjs 100) ex_opened (empty_collab ex_open_access))) =
   Inr ''= Hiabc''"
proof -
  let ?c = "run_events (collab_step ex_yjs 100) ex_opened (empty_collab ex_open_access)"
  have "stays_current ex_yjs 100 ex_room ex_edits ?c" by code_simp
  from acknowledged_updates_kept [OF ex_yjs_restores this]
  have "document_state ex_yjs ex_room (run_events (collab_step ex_yjs 100) ex_edits ?c) =
    extended ex_yjs (accepted_payloads ex_yjs 100 ex_room ex_edits ?c) (document_state ex_yjs ex_room ?c)" .
  also have "\<dots> = Inr ''= Hiabc''" by code_simp
  finally show ?thesis .
qed

text \<open>
  A capture sees what was acknowledged: when the flush that precedes a capture of a project succeeds
  in a reachable state, then afterwards the Workspace text of every document of the project that has
  collaboration state is the text of that state, with every update that was acknowledged before the
  capture.
\<close>

theorem capture_sees_acknowledged:
  assumes "yjs_restores Y"
    and "flush_project_collaboration_for_capture Y retention now pid (run_events (collab_step Y retention) es (empty_collab a)) = Inr (changes, c')"
    and "d \<in> set (w_documents (cw_db c'))" and "dc_project_id d = pid" and "project_content_epoch pid (cw_db c') = Some ep"
    and "D = \<lparr>cd_project_id = pid, cd_document_id = dc_id d, cd_collaboration_revision = dc_collaboration_revision d, cd_content_epoch = ep\<rparr>"
    and "room_payloads D c' \<noteq> []"
  shows "\<exists>st. document_state Y D (run_events (collab_step Y retention) es (empty_collab a)) = Inr st \<and> dc_content d = yj_get_text Y st"
proof -
  let ?c = "run_events (collab_step Y retention) es (empty_collab a)"
  have inv: "collab_inv Y ?c" using cs.inv_run assms(1) by blast
  note kept = capture_rooms [OF assms(1) inv assms(2)]
  have cur': "current_document D (cw_db c')" using assms(3-6) by (auto simp: current_document_def lock_document_iff)
  with kept have cur: "current_document D (cw_db ?c)" by (simp add: rooms_kept_def)
  have "settled D c'" by (rule capture_settles [OF assms(1) inv assms(2) cur]) (simp add: assms(6))
  moreover have "collab_inv Y c'" "document_state Y D c' = document_state Y D ?c" using kept cur by (simp_all add: rooms_kept_def)
  moreover have "dc_id d = cd_document_id D" "dc_collaboration_revision d = cd_collaboration_revision D" by (simp_all add: assms(6))
  ultimately show ?thesis using settled_text [of Y c' D d] assms(3,7) by metis
qed

theorem capture_sees_acknowledged_witness:
  "\<exists>st c'. flush_project_collaboration_for_capture ex_yjs 100 9 1
       (run_events (collab_step ex_yjs 100) (ex_opened @ ex_edits) (empty_collab ex_open_access)) = Inr ([Document_change ''deck/main.typ'' 10 0 4], c') \<and>
     document_state ex_yjs ex_room (run_events (collab_step ex_yjs 100) (ex_opened @ ex_edits) (empty_collab ex_open_access)) = Inr st \<and>
     map dc_content (w_documents (cw_db c')) = [st]"
proof -
  let ?c = "run_events (collab_step ex_yjs 100) (ex_opened @ ex_edits) (empty_collab ex_open_access)"
  let ?r = "flush_project_collaboration_for_capture ex_yjs 100 9 1 ?c"
  have "(case ?r of Inl e \<Rightarrow> False | Inr (ch, c') \<Rightarrow> ch = [Document_change ''deck/main.typ'' 10 0 4])" by code_simp
  then obtain c' where c': "?r = Inr ([Document_change ''deck/main.typ'' 10 0 4], c')" by (auto split: sum.splits)
  have "(case ?r of Inl e \<Rightarrow> False | Inr (ch, c') \<Rightarrow> project_content_epoch 1 (cw_db c') = Some 0)" by code_simp
  moreover have "(case ?r of Inl e \<Rightarrow> False | Inr (ch, c') \<Rightarrow> room_payloads ex_room c' \<noteq> [])" by code_simp
  moreover have "(case ?r of Inl e \<Rightarrow> False | Inr (ch, c') \<Rightarrow>
      map (\<lambda>d. (dc_project_id d, dc_id d, dc_collaboration_revision d)) (w_documents (cw_db c')) = [(1, 10, 0)])" by code_simp
  ultimately have f: "project_content_epoch 1 (cw_db c') = Some 0" "room_payloads ex_room c' \<noteq> []"
    "map (\<lambda>d. (dc_project_id d, dc_id d, dc_collaboration_revision d)) (w_documents (cw_db c')) = [(1, 10, 0)]"
    unfolding c' by simp_all
  from f(3) obtain d where d: "w_documents (cw_db c') = [d]" "dc_project_id d = 1" "dc_id d = 10" "dc_collaboration_revision d = 0" by auto
  have room: "ex_room = \<lparr>cd_project_id = 1, cd_document_id = dc_id d, cd_collaboration_revision = dc_collaboration_revision d, cd_content_epoch = 0\<rparr>"
    using d by (simp add: ex_room_def)
  have "d \<in> set (w_documents (cw_db c'))" using d by simp
  from capture_sees_acknowledged [OF ex_yjs_restores c' this d(2) f(1) room f(2)] c' d(1) show ?thesis
    by (auto simp: ex_yjs_def)
qed

end
