(* ===== verification/Project_Input.thy ===== *)
theory Project_Input
  imports Collaboration_Steps Worker_Input
begin

text \<open>
  The input of a project job: \<open>document_processing/project_input.rs\<close>. The collaboration rooms are
  flushed and the content of the project is read in one transaction that pins the stored assets; then
  the files are loaded, checked against the limits, sorted and packed with a manifest.

  The ZIP writer, \<open>serde_json\<close>, SHA-256, the hexadecimal codec and Yjs are parameters, and so is
  \<open>pe_get_ok\<close>, which requests of the object storage succeed. Assets are loaded in the order of the
  snapshot; the server loads up to eight at a time and keeps their order. Its maps of documents and
  assets have no order of their own, and the files are sorted by path in the end.
\<close>

section \<open>Data\<close>

record captured_bundle =
  cb_schema :: string
  cb_media_type :: string
  cb_bytes :: bytes
  cb_digest :: bytes
  cb_workspace_version :: int
  cb_content_epoch :: int
  cb_source_epoch :: int
  cb_project_type :: project_type
  cb_entry_file_path :: string
  cb_latex_engine :: "latex_engine option"

datatype load_asset_error = StorageUnavailable_asset string | Storage_asset string

datatype capture_error =
    ProjectNotFound_capture
  | EntryFileNotFound_capture
  | DuplicatePath_capture
  | TooManyFiles_capture
  | TooLarge_capture
  | Collaboration_capture yjs_error
  | Persistence_capture
  | Asset_capture load_asset_error
  | Manifest_capture
  | Archive_capture

record input_file =
  bf_path :: string
  bf_kind :: string
  bf_bytes :: bytes

record project_bundle_manifest =
  bm_schema :: string
  bm_project_type :: project_type
  bm_entry_file_path :: string
  bm_latex_engine :: "latex_engine option"
  bm_workspace_version :: int
  bm_content_generation :: int
  bm_source_epoch :: int
  bm_files :: "project_bundle_file list"

record ('d, 'u) project_env =
  pe_yjs :: "('d, 'u) yjs"
  pe_retention :: int
  pe_storage :: bool
  pe_get_ok :: "string \<Rightarrow> bool"
  pe_sha256 :: "bytes \<Rightarrow> bytes"
  pe_hex :: "bytes \<Rightarrow> string"
  pe_to_json :: "project_bundle_manifest \<Rightarrow> bytes option"
  pe_zip :: "(string \<times> bytes) list \<Rightarrow> bytes option"

record processing_world =
  px_collab :: collab_world
  px_db :: processing_db

fun engine_str :: "latex_engine \<Rightarrow> string" where
  "engine_str Pdftex = ''pdftex''"
| "engine_str Xetex = ''xetex''"

definition max_project_files :: nat where "max_project_files = 4096"

section \<open>Materialisation\<close>

definition load_project_content_asset_bytes ::
  "('d, 'u) project_env \<Rightarrow> (string \<rightharpoonup> bytes) \<Rightarrow> content_asset \<Rightarrow> load_asset_error + bytes" where
  "load_project_content_asset_bytes env objects asset =
     (case ca_inline_data asset of
        Some inline_data \<Rightarrow> Inr inline_data
      | None \<Rightarrow>
          if \<not> pe_storage env then Inl (StorageUnavailable_asset (ca_object_key asset))
          else if \<not> pe_get_ok env (ca_object_key asset) then Inl (Storage_asset (ca_object_key asset))
          else (case objects (ca_object_key asset) of
                  None \<Rightarrow> Inl (Storage_asset (ca_object_key asset))
                | Some bytes \<Rightarrow> Inr bytes))"

fun load_assets :: "('d, 'u) project_env \<Rightarrow> (string \<rightharpoonup> bytes) \<Rightarrow> (string \<times> content_asset) list \<Rightarrow> load_asset_error + input_file list" where
  "load_assets env objects [] = Inr []"
| "load_assets env objects ((path, asset) # rest) =
     (case load_project_content_asset_bytes env objects asset of
        Inl e \<Rightarrow> Inl e
      | Inr bytes \<Rightarrow>
          (case load_assets env objects rest of
             Inl e \<Rightarrow> Inl e
           | Inr files \<Rightarrow> Inr (\<lparr>bf_path = path, bf_kind = ''asset'', bf_bytes = bytes\<rparr> # files)))"

text \<open>The sum of the sizes, \<open>None\<close> when it is not an \<open>i64\<close>.\<close>

fun sum_sizes :: "int \<Rightarrow> input_file list \<Rightarrow> int option" where
  "sum_sizes acc [] = Some acc"
| "sum_sizes acc (f # fs) =
     (let n = int (length (bf_bytes f)) in
      if i64_max < n \<or> i64_max < acc + n then None else sum_sizes (acc + n) fs)"

definition file_record :: "('d, 'u) project_env \<Rightarrow> input_file \<Rightarrow> project_bundle_file" where
  "file_record env f =
     \<lparr>pf_path = bf_path f, pf_kind = bf_kind f, pf_size_bytes = int (length (bf_bytes f)),
      pf_sha256 = pe_hex env (pe_sha256 env (bf_bytes f))\<rparr>"

definition build_bundle_zip :: "('d, 'u) project_env \<Rightarrow> bytes \<Rightarrow> input_file list \<Rightarrow> bytes option" where
  "build_bundle_zip env manifest files =
     pe_zip env ((''manifest.json'', manifest) # map (\<lambda>f. (''project/'' @ bf_path f, bf_bytes f)) files)"

definition bundle_files :: "content_snapshot \<Rightarrow> input_file list \<Rightarrow> input_file list" where
  "bundle_files snapshot asset_files =
     map (\<lambda>(path, content). \<lparr>bf_path = path, bf_kind = ''document'', bf_bytes = content\<rparr>) (sn_documents snapshot) @ asset_files"

definition manifest_of :: "('d, 'u) project_env \<Rightarrow> string \<Rightarrow> content_snapshot \<Rightarrow> input_file list \<Rightarrow> project_bundle_manifest" where
  "manifest_of env schema snapshot files =
     \<lparr>bm_schema = schema, bm_project_type = sn_project_type snapshot, bm_entry_file_path = sn_entry_file_path snapshot,
      bm_latex_engine = sn_latex_engine snapshot, bm_workspace_version = sn_workspace_version snapshot,
      bm_content_generation = sn_content_epoch snapshot, bm_source_epoch = sn_source_epoch snapshot,
      bm_files = map (file_record env) files\<rparr>"

definition materialize_bundle ::
  "('d, 'u) project_env \<Rightarrow> (string \<rightharpoonup> bytes) \<Rightarrow> content_snapshot \<Rightarrow> string \<Rightarrow> string \<Rightarrow> int \<Rightarrow> capture_error + captured_bundle" where
  "materialize_bundle env objects snapshot schema media_type max_input_bytes =
     (case load_assets env objects (sn_assets snapshot) of
        Inl e \<Rightarrow> Inl (Asset_capture e)
      | Inr asset_files \<Rightarrow>
          let unsorted = bundle_files snapshot asset_files in
          if max_project_files < length unsorted then Inl TooManyFiles_capture
          else
            let files = sort_key bf_path unsorted in
            if card (set (map bf_path files)) \<noteq> length files then Inl DuplicatePath_capture
            else if \<not> list_ex (\<lambda>f. bf_kind f = ''document'' \<and> bf_path f = sn_entry_file_path snapshot) files
            then Inl EntryFileNotFound_capture
            else if (case sum_sizes 0 files of None \<Rightarrow> True | Some n \<Rightarrow> max_input_bytes < n) then Inl TooLarge_capture
            else (case pe_to_json env (manifest_of env schema snapshot files) of
              None \<Rightarrow> Inl Manifest_capture
            | Some manifest_bytes \<Rightarrow>
                (case build_bundle_zip env manifest_bytes files of
                   None \<Rightarrow> Inl Archive_capture
                 | Some bytes \<Rightarrow>
                     if i64_max < int (length bytes) \<or> max_input_bytes < int (length bytes) then Inl TooLarge_capture
                     else Inr \<lparr>cb_schema = schema, cb_media_type = media_type, cb_bytes = bytes, cb_digest = pe_sha256 env bytes,
                            cb_workspace_version = sn_workspace_version snapshot, cb_content_epoch = sn_content_epoch snapshot,
                            cb_source_epoch = sn_source_epoch snapshot, cb_project_type = sn_project_type snapshot,
                            cb_entry_file_path = sn_entry_file_path snapshot, cb_latex_engine = sn_latex_engine snapshot\<rparr>)))"

section \<open>Capture\<close>

text \<open>One transaction: an error at any point leaves the state as it was.\<close>

definition capture_project_snapshot ::
  "('d, 'u) project_env \<Rightarrow> uuid \<Rightarrow> uuid \<Rightarrow> instant \<Rightarrow> processing_world \<Rightarrow>
   (capture_error + (content_snapshot \<times> workspace_change list)) \<times> processing_world" where
  "capture_project_snapshot env job_id pid now s =
     (case flush_project_collaboration_for_capture (pe_yjs env) (pe_retention env) now pid (px_collab s) of
        Inl e \<Rightarrow> (Inl (Collaboration_capture e), s)
      | Inr (changes, c) \<Rightarrow>
          (case lock_project_content_snapshot pid (cw_db c) of
             None \<Rightarrow> (Inl ProjectNotFound_capture, s)
           | Some snapshot \<Rightarrow>
               (case pin_project_assets job_id (map (ca_object_key \<circ> snd) (sn_assets snapshot)) now (px_db s) of
                  (Inl _, _) \<Rightarrow> (Inl Persistence_capture, s)
                | (Inr _, db) \<Rightarrow> (Inr (snapshot, changes), \<lparr>px_collab = c, px_db = db\<rparr>))))"

definition capture_project_bundle ::
  "('d, 'u) project_env \<Rightarrow> processing_operation \<Rightarrow> uuid \<Rightarrow> uuid \<Rightarrow> int \<Rightarrow> instant \<Rightarrow> processing_world \<Rightarrow>
   (capture_error + captured_bundle) \<times> processing_world" where
  "capture_project_bundle env operation job_id pid max_input_bytes now s =
     (case capture_project_snapshot env job_id pid now s of
        (Inl e, s1) \<Rightarrow> (Inl e, s1)
      | (Inr (snapshot, changes), s1) \<Rightarrow>
          let r = materialize_bundle env (ww_objects (cw_workspace (px_collab s1))) snapshot
                    (oc_input_schema (contract operation)) (oc_input_media_type (contract operation)) max_input_bytes
          in (r, s1\<lparr>px_db := release_project_asset_pins job_id (px_db s1)\<rparr>))"

end
