(* ===== verification/Project_Properties.thy ===== *)
theory Project_Properties
  imports Project_Input Collaboration_Properties Example_Run "HOL-Library.Multiset"
begin

text \<open>
  The input of a project job on both sides of the wire: a bundle that the server packs is unpacked by
  the worker into exactly the files of the snapshot.
\<close>

section \<open>The manifest on the wire\<close>

fun project_type_str :: "project_type \<Rightarrow> string" where
  "project_type_str Typst = ''typst''"
| "project_type_str Latex = ''latex''"

text \<open>The JSON object of a manifest as the worker reads it.\<close>

definition wire_manifest :: "project_bundle_manifest \<Rightarrow> project_manifest" where
  "wire_manifest m =
     \<lparr>pm_schema = bm_schema m, pm_project_type = project_type_str (bm_project_type m),
      pm_entry_file_path = bm_entry_file_path m, pm_latex_engine = map_option engine_str (bm_latex_engine m),
      pm_workspace_version = bm_workspace_version m, pm_content_generation = bm_content_generation m,
      pm_source_epoch = bm_source_epoch m, pm_files = bm_files m\<rparr>"

text \<open>
  Server and worker use the same SHA-256, hexadecimal digits, ZIP format and JSON: what one writes the
  other reads back.
\<close>

definition same_formats :: "('d, 'u) project_env \<Rightarrow> input_env \<Rightarrow> bool" where
  "same_formats env w \<longleftrightarrow>
     in_sha256 w = pe_sha256 env \<and> in_hex w = pe_hex env \<and>
     (\<forall>b. length (pe_hex env (pe_sha256 env b)) = 64 \<and> in_unhex w (pe_hex env b) = Some b) \<and>
     (\<forall>m b. pe_to_json env m = Some b \<longrightarrow> in_parse_manifest w b = Some (wire_manifest m)) \<and>
     (\<forall>es b. pe_zip env es = Some b \<longrightarrow> in_zip_open w b = Some (map (Some \<circ> plain_entry) es))"

abbreviation named_bytes :: "input_file \<Rightarrow> string \<times> bytes" where
  "named_bytes f \<equiv> (bf_path f, bf_bytes f)"

section \<open>Packing\<close>

lemma load_assets_kind: "load_assets env objects assets = Inr fs \<Longrightarrow> f \<in> set fs \<Longrightarrow> bf_kind f = ''asset''"
  by (induction env objects assets arbitrary: fs rule: load_assets.induct) (auto split: sum.splits)

lemma bundle_files_kind:
  "load_assets env objects (sn_assets sn) = Inr fs \<Longrightarrow> f \<in> set (bundle_files sn fs) \<Longrightarrow> bf_kind f \<in> {''document'', ''asset''}"
  using load_assets_kind by (fastforce simp: bundle_files_def)

lemma materialize_bundleE:
  assumes "materialize_bundle env objects sn schema mt limit = Inr cb" and "load_assets env objects (sn_assets sn) = Inr fs"
  obtains mb where "length (bundle_files sn fs) \<le> max_project_files"
    and "\<exists>f \<in> set (bundle_files sn fs). bf_kind f = ''document'' \<and> bf_path f = sn_entry_file_path sn"
    and "pe_to_json env (manifest_of env schema sn (sort_key bf_path (bundle_files sn fs))) = Some mb"
    and "build_bundle_zip env mb (sort_key bf_path (bundle_files sn fs)) = Some (cb_bytes cb)"
    and "int (length (cb_bytes cb)) \<le> i64_max" and "cb_digest cb = pe_sha256 env (cb_bytes cb)" and "cb_schema cb = schema"
  using assms by (auto simp: materialize_bundle_def Let_def list_ex_iff not_less split: if_splits option.splits)

lemma sorted_records:
  assumes "in_sha256 w = pe_sha256 env" and "in_hex w = pe_hex env" and "\<forall>f \<in> set files. bf_kind f \<in> {''document'', ''asset''}"
  shows "list_all2 (record_for w) (map named_bytes files) (map (file_record env) files)"
  using assms by (simp add: list_all2_map1 list_all2_map2 list_all2_same record_for_def file_record_def)

lemma worker_accepts_permuted:
  assumes "mset gs = mset fs" and "worker_accepts w fs"
  shows "worker_accepts w gs"
proof -
  have "mset (map fst gs) = mset (map fst fs)" using assms(1) by simp
  then have "distinct (map fst gs) = distinct (map fst fs)" by (rule mset_eq_imp_distinct_iff)
  with assms(2) mset_eq_setD [OF assms(1)] show ?thesis by (simp add: worker_accepts_def)
qed

lemma tree_holds_set: "set gs = set fs \<Longrightarrow> tree_holds gs t = tree_holds fs t"
  by (simp add: tree_holds_def)

lemma content_bytes_permuted: "mset gs = mset fs \<Longrightarrow> content_bytes gs = content_bytes fs"
proof -
  assume "mset gs = mset fs"
  then have "sum_mset (image_mset (\<lambda>f. int (length (snd f))) (mset gs)) = sum_mset (image_mset (\<lambda>f. int (length (snd f))) (mset fs))"
    by simp
  then show ?thesis by (simp add: content_bytes_def sum_mset_sum_list [symmetric])
qed

text \<open>The files of the bundle, and the limits of the worker beyond those of the server.\<close>

definition worker_limits :: "('d, 'u) project_env \<Rightarrow> input_env \<Rightarrow> string \<Rightarrow> content_snapshot \<Rightarrow> input_file list \<Rightarrow> bool" where
  "worker_limits env w schema sn fs \<longleftrightarrow>
     worker_accepts w (map named_bytes (bundle_files sn fs)) \<and> \<not> in_refuses w [] \<and>
     0 \<le> sn_workspace_version sn \<and> 0 \<le> sn_content_epoch sn \<and> 0 \<le> sn_source_epoch sn \<and> sn_source_epoch sn \<le> max_source_epoch \<and>
     (case pe_to_json env (manifest_of env schema sn (sort_key bf_path (bundle_files sn fs))) of
        None \<Rightarrow> False
      | Some mb \<Rightarrow>
          int (length mb) \<le> max_manifest_bytes_input \<and>
          int (length mb) + content_bytes (map named_bytes (bundle_files sn fs)) \<le> max_expanded_bytes)"

lemma captured_bundle_unpacks:
  assumes cb: "materialize_bundle env objects sn schema mt limit = Inr cb"
    and fs: "load_assets env objects (sn_assets sn) = Inr fs"
    and fmt: "same_formats env w" and lim: "worker_limits env w schema sn fs" and sch: "schema \<in> set project_schemas"
  shows "\<exists>t. verify_and_extract_project w (cb_bytes cb) schema =
      Inr (t, wire_manifest (manifest_of env schema sn (sort_key bf_path (bundle_files sn fs)))) \<and>
    tree_holds (map named_bytes (bundle_files sn fs)) t"
proof -
  let ?files = "sort_key bf_path (bundle_files sn fs)"
  let ?named = "map named_bytes ?files" and ?m = "wire_manifest (manifest_of env schema sn ?files)"
  obtain mb where small: "length (bundle_files sn fs) \<le> max_project_files"
    and entry: "\<exists>f \<in> set (bundle_files sn fs). bf_kind f = ''document'' \<and> bf_path f = sn_entry_file_path sn"
    and mb: "pe_to_json env (manifest_of env schema sn ?files) = Some mb"
    and zip: "build_bundle_zip env mb ?files = Some (cb_bytes cb)" using materialize_bundleE [OF cb fs] by metis
  have same: "mset ?named = mset (map named_bytes (bundle_files sn fs))" by simp
  have acc: "worker_accepts w (map named_bytes (bundle_files sn fs))" using lim by (simp add: worker_limits_def)
  then have "worker_accepts w ?named" by (rule worker_accepts_permuted [OF same])
  moreover have "length ?named \<le> max_bundle_files" using small by (simp add: max_project_files_def max_bundle_files_def)
  moreover have "list_all2 (record_for w) ?named (pm_files ?m)"
    using sorted_records [of w env ?files] fmt bundle_files_kind [OF fs] by (simp add: same_formats_def wire_manifest_def manifest_of_def)
  moreover have "int (length mb) \<le> max_manifest_bytes_input" "int (length mb) + content_bytes ?named \<le> max_expanded_bytes"
    using lim mb content_bytes_permuted [OF same] by (simp_all add: worker_limits_def)
  moreover have "in_zip_open w (cb_bytes cb) =
      Some (map (Some \<circ> plain_entry) ((''manifest.json'', mb) # map (\<lambda>f. (''project/'' @ fst f, snd f)) ?named))"
    using zip fmt by (simp add: build_bundle_zip_def same_formats_def comp_def)
  moreover have "in_parse_manifest w mb = Some ?m" using mb fmt by (simp add: same_formats_def)
  moreover have "\<exists>r \<in> set (pm_files ?m). pf_path r = pm_entry_file_path ?m \<and> pf_kind r = ''document''"
    using entry by (auto simp: wire_manifest_def manifest_of_def file_record_def)
  ultimately have "\<exists>t. verify_and_extract_project w (cb_bytes cb) schema = Inr (t, ?m) \<and> tree_holds ?named t"
    using fmt lim sch
    by (intro verify_plain_archive) (simp_all add: same_formats_def worker_limits_def wire_manifest_def manifest_of_def)
  then show ?thesis using tree_holds_set [OF mset_eq_setD [OF same]] by simp
qed

section \<open>An example\<close>

definition ex_snapshot :: content_snapshot where
  "ex_snapshot = \<lparr>sn_workspace_version = 3, sn_content_epoch = 0, sn_project_type = Typst, sn_entry_file_path = ''src/main.typ'',
     sn_latex_engine = None, sn_source_epoch = 5, sn_documents = [(''src/main.typ'', ''= Hi'')],
     sn_assets = [(''logo.png'', \<lparr>ca_object_key = ''k'', ca_content_type = ''image/png'', ca_inline_data = None\<rparr>)], sn_directories = [''src'']\<rparr>"

definition ex_hex :: "bytes \<Rightarrow> string" where "ex_hex b = b @ b"

definition ex_records :: "project_bundle_file list" where
  "ex_records = [\<lparr>pf_path = ''logo.png'', pf_kind = ''asset'', pf_size_bytes = 3, pf_sha256 = ex_hex (ex_sha ''png'')\<rparr>,
     \<lparr>pf_path = ''src/main.typ'', pf_kind = ''document'', pf_size_bytes = 4, pf_sha256 = ex_hex (ex_sha ''= Hi'')\<rparr>]"

definition ex_manifest :: project_bundle_manifest where
  "ex_manifest = \<lparr>bm_schema = ''typst-project-bundle/v1'', bm_project_type = Typst, bm_entry_file_path = ''src/main.typ'',
     bm_latex_engine = None, bm_workspace_version = 3, bm_content_generation = 0, bm_source_epoch = 5, bm_files = ex_records\<rparr>"

definition ex_entries :: "(string \<times> bytes) list" where
  "ex_entries = [(''manifest.json'', ''M''), (''project/logo.png'', ''png''), (''project/src/main.typ'', ''= Hi'')]"

text \<open>Stand-ins for the ZIP writer and the JSON writer that accept the example only.\<close>

definition ex_project_env :: "(string, string) project_env" where
  "ex_project_env = \<lparr>pe_yjs = ex_yjs, pe_retention = 100, pe_storage = True, pe_get_ok = (\<lambda>_. True), pe_sha256 = ex_sha,
     pe_hex = ex_hex, pe_to_json = (\<lambda>m. if m = ex_manifest then Some ''M'' else None),
     pe_zip = (\<lambda>es. if es = ex_entries then Some ''Z'' else None)\<rparr>"

definition ex_input_env :: input_env where
  "ex_input_env = \<lparr>in_zip_open = (\<lambda>_. Some (map (Some \<circ> plain_entry) ex_entries)),
     in_parse_manifest = (\<lambda>_. Some (wire_manifest ex_manifest)), in_sha256 = ex_sha, in_hex = ex_hex,
     in_unhex = (\<lambda>s. Some (take (length s div 2) s)), in_refuses = (\<lambda>_. False)\<rparr>"

definition ex_asset_file :: input_file where
  "ex_asset_file = \<lparr>bf_path = ''logo.png'', bf_kind = ''asset'', bf_bytes = ''png''\<rparr>"

definition ex_bundle :: captured_bundle where
  "ex_bundle = \<lparr>cb_schema = ''typst-project-bundle/v1'', cb_media_type = typst_project_bundle_media_type, cb_bytes = ''Z'',
     cb_digest = ex_sha ''Z'', cb_workspace_version = 3, cb_content_epoch = 0, cb_source_epoch = 5, cb_project_type = Typst,
     cb_entry_file_path = ''src/main.typ'', cb_latex_engine = None\<rparr>"

lemma ex_same_formats: "same_formats ex_project_env ex_input_env"
  by (simp add: same_formats_def ex_project_env_def ex_input_env_def ex_hex_def ex_sha_def)

lemma ex_worker_limits: "worker_limits ex_project_env ex_input_env ''typst-project-bundle/v1'' ex_snapshot [ex_asset_file]"
proof -
  have names: "map named_bytes (bundle_files ex_snapshot [ex_asset_file]) = [(''src/main.typ'', ''= Hi''), (''logo.png'', ''png'')]"
    by code_simp
  have "worker_path ''src/main.typ''" "worker_path ''logo.png''" by code_simp+
  moreover have "separate ''src/main.typ'' ''logo.png''" "separate ''logo.png'' ''src/main.typ''" by code_simp+
  ultimately have "worker_accepts ex_input_env (map named_bytes (bundle_files ex_snapshot [ex_asset_file]))"
    unfolding names by (simp add: worker_accepts_def pairwise_def ex_input_env_def)
  moreover have "(case pe_to_json ex_project_env (manifest_of ex_project_env ''typst-project-bundle/v1'' ex_snapshot
        (sort_key bf_path (bundle_files ex_snapshot [ex_asset_file]))) of None \<Rightarrow> False
      | Some mb \<Rightarrow> int (length mb) \<le> max_manifest_bytes_input \<and>
          int (length mb) + content_bytes (map named_bytes (bundle_files ex_snapshot [ex_asset_file])) \<le> max_expanded_bytes)"
    by code_simp
  ultimately show ?thesis
    by (simp only: worker_limits_def) (simp add: ex_input_env_def ex_snapshot_def max_source_epoch_def)
qed

section \<open>Properties\<close>

text \<open>
  C12. Round trip of a project input. When the server packs a snapshot into a bundle, the worker that
  downloads these bytes, with the size and digest that a claim names, accepts them and unpacks a tree
  that holds exactly the documents and loaded assets of the snapshot, with the manifest that the server
  wrote. The hypotheses are that both sides read and write the same formats (\<open>same_formats\<close>) and that
  the content is within the limits that only the worker has (\<open>worker_limits\<close>: portable paths that do
  not contain one another, a manifest of 4 MiB, 256 MiB in all).
\<close>

theorem captured_bundle_accepted:
  assumes "materialize_bundle env objects sn schema media_type limit = Inr cb"
    and "load_assets env objects (sn_assets sn) = Inr fs"
    and "same_formats env w" and "worker_limits env w schema sn fs" and "schema \<in> set project_schemas"
  shows "\<exists>t. verify_input w (cb_bytes cb)
      \<lparr>ci_schema = cb_schema cb, ci_size_bytes = int (length (cb_bytes cb)), ci_sha256 = pe_hex env (cb_digest cb),
       ci_download_url = url, ci_download_token = token\<rparr> =
      Inr (Project t (wire_manifest (manifest_of env schema sn (sort_key bf_path (bundle_files sn fs))))) \<and>
    tree_holds (map named_bytes (bundle_files sn fs)) t"
proof -
  obtain mb where "int (length (cb_bytes cb)) \<le> i64_max" "cb_digest cb = pe_sha256 env (cb_bytes cb)" "cb_schema cb = schema"
    using materialize_bundleE [OF assms(1,2)] by metis
  with captured_bundle_unpacks [OF assms] assms(3,5) show ?thesis by (auto simp: verify_input_def same_formats_def)
qed

theorem captured_bundle_accepted_witness:
  "materialize_bundle ex_project_env [''k'' \<mapsto> ''png''] ex_snapshot ''typst-project-bundle/v1'' typst_project_bundle_media_type 100 = Inr ex_bundle \<and>
   (\<exists>t. verify_input ex_input_env ''Z''
      \<lparr>ci_schema = ''typst-project-bundle/v1'', ci_size_bytes = 1, ci_sha256 = ex_hex (ex_sha ''Z''),
       ci_download_url = [], ci_download_token = []\<rparr> = Inr (Project t (wire_manifest ex_manifest)) \<and>
    tree_holds [(''src/main.typ'', ''= Hi''), (''logo.png'', ''png'')] t)"
proof -
  let ?objects = "[''k'' \<mapsto> ''png''] :: string \<rightharpoonup> bytes"
  have cb: "materialize_bundle ex_project_env ?objects ex_snapshot ''typst-project-bundle/v1'' typst_project_bundle_media_type 100 = Inr ex_bundle"
    by code_simp
  have fs: "load_assets ex_project_env ?objects (sn_assets ex_snapshot) = Inr [ex_asset_file]" by code_simp
  have sch: "''typst-project-bundle/v1'' \<in> set project_schemas" by code_simp
  have m: "manifest_of ex_project_env ''typst-project-bundle/v1'' ex_snapshot (sort_key bf_path (bundle_files ex_snapshot [ex_asset_file])) = ex_manifest"
    by code_simp
  have n: "map named_bytes (bundle_files ex_snapshot [ex_asset_file]) = [(''src/main.typ'', ''= Hi''), (''logo.png'', ''png'')]"
    by code_simp
  have h: "pe_hex ex_project_env = ex_hex" by (simp add: ex_project_env_def)
  have b: "cb_bytes ex_bundle = ''Z''" "cb_digest ex_bundle = ex_sha ''Z''" "cb_schema ex_bundle = ''typst-project-bundle/v1''"
    by (simp_all add: ex_bundle_def)
  from captured_bundle_accepted [OF cb fs ex_same_formats ex_worker_limits sch, of "[]" "[]"] cb show ?thesis
    unfolding m n h b by simp
qed

end
