(* ===== verification/Public_Http.thy ===== *)
theory Public_Http
  imports Project_Input Worker_Http
begin

text \<open>
  The user edge of document processing: \<open>document_processing/public_http.rs\<close>. Creating a job is a
  sequence of transactions, reserve, capture, store; \<open>pu_meanwhile\<close> is what other requests and the
  maintenance worker do between them. \<open>ApiError\<close> carries the status, the code and the message;
  diagnostics are logged. Encoding a \<open>serde_json::Value\<close> cannot fail, so \<open>pu_json\<close> is total. The
  media type parser (crate \<open>mime\<close>), the ZIP reader, the textual form of identifiers and the header
  values that \<open>HeaderValue::from_str\<close> accepts are parameters.
\<close>

section \<open>Errors\<close>

definition user_authentication_required :: api_error where
  "user_authentication_required = \<lparr>ae_status = 401, ae_code = ''auth_required'', ae_message = ''Authentication required''\<rparr>"

fun authorization_response :: "authorization_error \<Rightarrow> api_error" where
  "authorization_response AuthenticationRequired = user_authentication_required"
| "authorization_response PermissionDenied =
     \<lparr>ae_status = 403, ae_code = ''project_access_forbidden'', ae_message = ''Project access is forbidden''\<rparr>"
| "authorization_response Store_authorization =
     \<lparr>ae_status = 503, ae_code = ''authorization_unavailable'', ae_message = ''Authorization service is unavailable''\<rparr>"

definition processing_unavailable :: api_error where
  "processing_unavailable =
     \<lparr>ae_status = 503, ae_code = ''processing_service_unavailable'', ae_message = ''Background processing is unavailable''\<rparr>"

definition processing_job_not_found :: api_error where
  "processing_job_not_found =
     \<lparr>ae_status = 404, ae_code = ''processing_job_not_found'', ae_message = ''Processing job was not found''\<rparr>"

definition entry_point_not_found :: api_error where
  "entry_point_not_found = \<lparr>ae_status = 404, ae_code = ''project_not_found'', ae_message = ''Project was not found''\<rparr>"

fun reserve_error :: "reserve_job_error \<Rightarrow> api_error" where
  "reserve_error IdempotencyConflict =
     \<lparr>ae_status = 409, ae_code = ''processing_idempotency_conflict'',
      ae_message = ''Idempotency-Key was already used for another command''\<rparr>"
| "reserve_error Persistence_reserve = processing_unavailable"
| "reserve_error _ =
     \<lparr>ae_status = 429, ae_code = ''processing_queue_full'', ae_message = ''Background processing capacity is full''\<rparr>"

fun capture_failure :: "capture_error \<Rightarrow> string \<times> string" where
  "capture_failure ProjectNotFound_capture = (''project_not_found'', ''Project was not found'')"
| "capture_failure EntryFileNotFound_capture = (''entry_file_not_found'', ''Project entry file was not found'')"
| "capture_failure DuplicatePath_capture = (''duplicate_path'', ''Project contains duplicate paths'')"
| "capture_failure TooManyFiles_capture = (''too_many_files'', ''Project contains too many files'')"
| "capture_failure TooLarge_capture = (''input_too_large'', ''Project exceeds the processing input limit'')"
| "capture_failure _ = (''input_capture_failed'', ''Project input could not be captured'')"

fun capture_error_response :: "capture_error \<Rightarrow> api_error" where
  "capture_error_response ProjectNotFound_capture =
     \<lparr>ae_status = 404, ae_code = ''project_not_found'', ae_message = ''Project was not found''\<rparr>"
| "capture_error_response EntryFileNotFound_capture =
     \<lparr>ae_status = 422, ae_code = ''processing_input_invalid'', ae_message = ''Project cannot be processed''\<rparr>"
| "capture_error_response DuplicatePath_capture =
     \<lparr>ae_status = 422, ae_code = ''processing_input_invalid'', ae_message = ''Project cannot be processed''\<rparr>"
| "capture_error_response TooManyFiles_capture =
     \<lparr>ae_status = 413, ae_code = ''processing_input_too_large'', ae_message = ''Project exceeds the processing input limit''\<rparr>"
| "capture_error_response TooLarge_capture =
     \<lparr>ae_status = 413, ae_code = ''processing_input_too_large'', ae_message = ''Project exceeds the processing input limit''\<rparr>"
| "capture_error_response _ = processing_unavailable"

fun pptx_input_error :: "pptx_error \<Rightarrow> api_error" where
  "pptx_input_error Limit_pptx =
     \<lparr>ae_status = 413, ae_code = ''processing_input_too_large'', ae_message = ''PPTX input exceeds structural limits''\<rparr>"
| "pptx_input_error _ =
     \<lparr>ae_status = 422, ae_code = ''processing_input_invalid'', ae_message = ''PPTX input is not a valid presentation package''\<rparr>"

definition invalid_input_profile :: api_error where
  "invalid_input_profile =
     \<lparr>ae_status = 422, ae_code = ''processing_operation_invalid'',
      ae_message = ''The requested processing input profile is unavailable''\<rparr>"

section \<open>Request parts\<close>

record input_profile_selector =
  ps_default_profile :: string
  ps_profiles :: "string list"

record ('d, 'u) public_env =
  pu_project :: "('d, 'u) project_env"
  pu_request :: request_env
  pu_config :: processing_config
  pu_supports :: "processing_operation \<Rightarrow> bool"
  pu_selector :: "processing_operation \<Rightarrow> input_profile_selector option"
  pu_json :: "json \<Rightarrow> bytes"
  pu_zip_open :: zip_reader
  pu_parse_mime :: "string \<Rightarrow> string option"
  pu_show :: "uuid \<Rightarrow> string"
  pu_header_ok :: "string \<Rightarrow> bool"
  pu_job_id :: uuid
  pu_blob_id :: uuid
  pu_now :: instant
  pu_meanwhile :: "nat \<Rightarrow> processing_world \<Rightarrow> processing_world"

definition ensure_operation_enabled :: "('d, 'u) public_env \<Rightarrow> processing_operation \<Rightarrow> api_error + unit" where
  "ensure_operation_enabled env operation =
     (if \<not> pu_supports env operation
      then Inl \<lparr>ae_status = 404, ae_code = ''processing_unavailable'',
             ae_message = ''This background operation is disabled in the distribution''\<rparr>
      else if \<not> operation_configured (pu_config env) operation
      then Inl \<lparr>ae_status = 503, ae_code = ''processing_unavailable'',
             ae_message = ''No compatible background processor is configured''\<rparr>
      else Inr ())"

definition require_pptx_content_type :: "('d, 'u) public_env \<Rightarrow> headers \<Rightarrow> api_error + unit" where
  "require_pptx_content_type env headers =
     (if Option.bind (headers ''content-type'') (pu_parse_mime env) = Some pptx_media_type then Inr ()
      else Inl \<lparr>ae_status = 415, ae_code = ''processing_input_invalid'', ae_message = ''PPTX import requires the PPTX media type''\<rparr>)"

definition idempotency_key :: "headers \<Rightarrow> api_error + string" where
  "idempotency_key headers =
     (case map_option trim (headers ''idempotency-key'') of
        Some key \<Rightarrow>
          if key = [] \<or> 128 < length key
          then Inl \<lparr>ae_status = 428, ae_code = ''processing_idempotency_required'', ae_message = ''Idempotency-Key is required''\<rparr>
          else if list_ex ascii_control key
          then Inl \<lparr>ae_status = 400, ae_code = ''processing_idempotency_invalid'', ae_message = ''Idempotency-Key is invalid''\<rparr>
          else Inr key
      | None \<Rightarrow> Inl \<lparr>ae_status = 428, ae_code = ''processing_idempotency_required'', ae_message = ''Idempotency-Key is required''\<rparr>)"

text \<open>\<open>Path::file_name\<close>, \<open>Path::extension\<close> and \<open>Path::file_stem\<close> of a Unix path.\<close>

definition path_file_name :: "string \<Rightarrow> string option" where
  "path_file_name p =
     (case filter (\<lambda>c. c \<noteq> [] \<and> c \<noteq> ''.'') (split_on (CHR ''/'') p) of
        [] \<Rightarrow> None
      | c # cs \<Rightarrow> if last (c # cs) = ''..'' then None else Some (last (c # cs)))"

definition rsplit_dot :: "string \<Rightarrow> string option \<times> string option" where
  "rsplit_dot f =
     (case split_on (CHR ''.'') f of
        [] \<Rightarrow> (None, Some f)
      | [x] \<Rightarrow> (None, Some f)
      | x # y # rest \<Rightarrow>
          let before = join_with (CHR ''.'') (butlast (x # y # rest)); after = last (y # rest) in
          if before = [] then (Some f, None) else (Some before, Some after))"

definition path_extension :: "string \<Rightarrow> string option" where
  "path_extension p =
     (case path_file_name p of None \<Rightarrow> None
      | Some f \<Rightarrow> (case rsplit_dot f of (Some _, after) \<Rightarrow> after | (None, _) \<Rightarrow> None))"

definition path_file_stem :: "string \<Rightarrow> string option" where
  "path_file_stem p =
     (case path_file_name p of None \<Rightarrow> None
      | Some f \<Rightarrow> (case rsplit_dot f of (Some stem, _) \<Rightarrow> Some stem | (None, after) \<Rightarrow> after))"

definition invalid_filename :: api_error where
  "invalid_filename = \<lparr>ae_status = 400, ae_code = ''processing_input_invalid'', ae_message = ''PPTX filename is invalid''\<rparr>"

definition normalize_import_filename :: "string \<Rightarrow> api_error + (string \<times> string)" where
  "normalize_import_filename raw =
     (let filename = trim raw in
      if filename = [] \<or> 255 < length filename \<or> path_file_name filename \<noteq> Some filename \<or>
         \<not> (case path_extension filename of None \<Rightarrow> False | Some e \<Rightarrow> map ascii_lowercase e = ''pptx'') \<or>
         CHR ''/'' \<in> set filename \<or> CHR 92 \<in> set filename \<or> list_ex ascii_control filename
      then Inl invalid_filename
      else case path_file_stem filename of
        None \<Rightarrow> Inl invalid_filename
      | Some stem \<Rightarrow>
          (case parse_project_name stem of
             None \<Rightarrow> Inl \<lparr>ae_status = 400, ae_code = ''project_name_invalid'',
                        ae_message = ''PPTX filename cannot be used as a project name''\<rparr>
           | Some name \<Rightarrow> Inr (filename, name)))"

definition resolve_input_profile :: "input_profile_selector option \<Rightarrow> string option \<Rightarrow> api_error + string option" where
  "resolve_input_profile configured requested =
     (let requested = map_option trim requested in
      if requested = Some [] then Inl invalid_input_profile
      else case configured of
        None \<Rightarrow> if requested = None then Inr None else Inl invalid_input_profile
      | Some sel \<Rightarrow>
          let selected = (case requested of None \<Rightarrow> ps_default_profile sel | Some r \<Rightarrow> r) in
          if selected \<in> set (ps_profiles sel) then Inr (Some selected) else Inl invalid_input_profile)"

section \<open>Creating jobs\<close>

type_synonym create_response = "int \<times> processing_job"

datatype job_start = Existing_job create_response | Reserved_job uuid uuid

definition public_job :: "('d, 'u) public_env \<Rightarrow> job_record \<Rightarrow> processing_db \<Rightarrow> processing_job" where
  "public_job env job db = into_public (pe_hex (pu_project env)) (pu_show env) job (artifacts_by_job (jr_id job) db)"

definition reserve_processing_job ::
  "('d, 'u) public_env \<Rightarrow> uuid \<Rightarrow> uuid option \<Rightarrow> string \<Rightarrow> string \<Rightarrow> processing_operation \<Rightarrow> json \<Rightarrow> json \<Rightarrow> processing_world \<Rightarrow>
   (api_error + job_start) \<times> processing_world" where
  "reserve_processing_job env actor project_id scope key operation command options s =
     (let sha = pe_sha256 (pu_project env) in
      case reserve_job (pu_config env)
             \<lparr>rc_id = pu_job_id env, rc_operation = operation, rc_requester_user_id = actor, rc_project_id = project_id,
              rc_idempotency_scope = scope, rc_idempotency_key = key, rc_command_digest = sha (pu_json env command),
              rc_normalized_options = options, rc_options_digest = sha (pu_json env options), rc_now = pu_now env\<rparr> (px_db s) of
        (Inl e, db) \<Rightarrow> (Inl (reserve_error e), s\<lparr>px_db := db\<rparr>)
      | (Inr Reserved, db) \<Rightarrow> (Inr (Reserved_job actor (pu_job_id env)), s\<lparr>px_db := db\<rparr>)
      | (Inr (Existing job), db) \<Rightarrow> (Inr (Existing_job (200, public_job env job db)), s\<lparr>px_db := db\<rparr>))"

definition begin_project_job ::
  "('d, 'u) public_env \<Rightarrow> headers \<Rightarrow> uuid \<Rightarrow> processing_operation \<Rightarrow> json \<Rightarrow> processing_world \<Rightarrow>
   (api_error + job_start) \<times> processing_world" where
  "begin_project_job env headers pid operation initial_options s =
     (case ensure_operation_enabled env operation of
        Inl e \<Rightarrow> (Inl e, s)
      | Inr () \<Rightarrow>
          (case ensure_project_role (pu_request env) headers pid Read (cw_access (px_collab s)) of
             Inl e \<Rightarrow> (Inl (authorization_response e), s)
           | Inr actor \<Rightarrow>
               (case find_project_entry_point pid (cw_db (px_collab s)) of
                  None \<Rightarrow> (Inl entry_point_not_found, s)
                | Some entry \<Rightarrow>
                    if operation_project_type operation \<noteq> Some (ep_project_type entry)
                    then (Inl \<lparr>ae_status = 422, ae_code = ''processing_operation_invalid'',
                             ae_message = ''The operation does not support this project type''\<rparr>, s)
                    else (case idempotency_key headers of
                            Inl e \<Rightarrow> (Inl e, s)
                          | Inr key \<Rightarrow>
                              reserve_processing_job env actor (Some pid) ''project-processing'' key operation
                                (JObj [(''operation'', JStr (operation_as_ref operation)), (''project_id'', JStr (pu_show env pid)),
                                       (''options'', initial_options)])
                                initial_options s))))"

definition fail_preparation ::
  "('d, 'u) public_env \<Rightarrow> uuid \<Rightarrow> string \<Rightarrow> string \<Rightarrow> api_error \<Rightarrow> processing_world \<Rightarrow>
   (api_error + create_response) \<times> processing_world" where
  "fail_preparation env job_id code message response s =
     (Inl response, s\<lparr>px_db := mark_preparation_failed job_id code message (pu_now env) (px_db s)\<rparr>)"

text \<open>
  The answer to a stored input; when the job no longer waits for it, a cancellation or the end of the
  queue deadline came first, and the answer is the job that is there.
\<close>

definition finish_reserved_job ::
  "('d, 'u) public_env \<Rightarrow> uuid \<Rightarrow> uuid \<Rightarrow> prepared_input \<Rightarrow> processing_world \<Rightarrow>
   (api_error + create_response) \<times> processing_world" where
  "finish_reserved_job env actor job_id input s =
     (case store_prepared_input (pu_blob_id env) job_id input (px_db s) of
        (Inr (Some job), db) \<Rightarrow>
          (Inr (202, into_public (pe_hex (pu_project env)) (pu_show env) job []), s\<lparr>px_db := db\<rparr>)
      | (Inr None, db) \<Rightarrow>
          (case job_for_user actor job_id db of
             Some job \<Rightarrow> (Inr (200, public_job env job db), s\<lparr>px_db := db\<rparr>)
           | None \<Rightarrow> fail_preparation env job_id ''input_state_conflict'' ''Processing input could not be queued''
                       processing_unavailable (s\<lparr>px_db := db\<rparr>))
      | (Inl _, db) \<Rightarrow>
          fail_preparation env job_id ''input_persistence_failed'' ''Processing input could not be queued''
            processing_unavailable (s\<lparr>px_db := db\<rparr>))"

definition finish_project_job ::
  "('d, 'u) public_env \<Rightarrow> uuid \<Rightarrow> uuid \<Rightarrow> captured_bundle \<Rightarrow> json \<Rightarrow> processing_world \<Rightarrow>
   (api_error + create_response) \<times> processing_world" where
  "finish_project_job env actor job_id captured options s =
     finish_reserved_job env actor job_id
       \<lparr>pi_schema = cb_schema captured, pi_media_type = cb_media_type captured, pi_bytes = cb_bytes captured,
        pi_digest = cb_digest captured, pi_normalized_options = options,
        pi_options_digest = pe_sha256 (pu_project env) (pu_json env options),
        pi_workspace_version = Some (cb_workspace_version captured), pi_content_epoch = Some (cb_content_epoch captured),
        pi_source_epoch = Some (cb_source_epoch captured), pi_now = pu_now env\<rparr> s"

text \<open>\<open>capture_or_fail\<close> and \<open>ensure_captured_project_type\<close>, with what follows on the captured bundle.\<close>

definition with_captured_bundle ::
  "('d, 'u) public_env \<Rightarrow> processing_operation \<Rightarrow> project_type \<Rightarrow> uuid \<Rightarrow> uuid \<Rightarrow>
   (captured_bundle \<Rightarrow> processing_world \<Rightarrow> (api_error + create_response) \<times> processing_world) \<Rightarrow>
   processing_world \<Rightarrow> (api_error + create_response) \<times> processing_world" where
  "with_captured_bundle env operation expected job_id pid continue s =
     (case capture_project_bundle (pu_project env) operation job_id pid (c_max_input_bytes (pu_config env)) (pu_now env) s of
        (Inl e, s1) \<Rightarrow>
          fail_preparation env job_id (fst (capture_failure e)) (snd (capture_failure e)) (capture_error_response e)
            (pu_meanwhile env 2 s1)
      | (Inr captured, s1) \<Rightarrow>
          if cb_project_type captured \<noteq> expected
          then fail_preparation env job_id ''project_type_changed'' ''Project type changed while the operation was being prepared''
                 \<lparr>ae_status = 409, ae_code = ''project_content_changed'',
                  ae_message = ''Project type changed while the operation was being prepared''\<rparr> (pu_meanwhile env 2 s1)
          else continue captured (pu_meanwhile env 2 s1))"

definition create_latex_pdf_build ::
  "('d, 'u) public_env \<Rightarrow> headers \<Rightarrow> uuid \<Rightarrow> processing_world \<Rightarrow> (api_error + create_response) \<times> processing_world" where
  "create_latex_pdf_build env headers pid s =
     (case begin_project_job env headers pid LatexCompilePdfV1 (JObj []) s of
        (Inl e, s1) \<Rightarrow> (Inl e, s1)
      | (Inr (Existing_job r), s1) \<Rightarrow> (Inr r, s1)
      | (Inr (Reserved_job actor job_id), s1) \<Rightarrow>
          with_captured_bundle env LatexCompilePdfV1 Latex job_id pid
            (\<lambda>captured s2.
               case cb_latex_engine captured of
                 None \<Rightarrow> fail_preparation env job_id ''latex_engine_missing'' ''LaTeX engine is missing from the captured project''
                           \<lparr>ae_status = 422, ae_code = ''processing_operation_invalid'',
                            ae_message = ''LaTeX engine is missing from the captured project''\<rparr> s2
               | Some engine \<Rightarrow>
                   finish_project_job env actor job_id captured
                     (JObj [(''engine'', JStr (engine_str engine)), (''entry_file_path'', JStr (cb_entry_file_path captured)),
                            (''source_epoch'', JNum (cb_source_epoch captured))]) s2)
            (pu_meanwhile env 1 s1))"

definition create_typst_pptx_export ::
  "('d, 'u) public_env \<Rightarrow> headers \<Rightarrow> uuid \<Rightarrow> processing_world \<Rightarrow> (api_error + create_response) \<times> processing_world" where
  "create_typst_pptx_export env headers pid s =
     (case begin_project_job env headers pid TypstExportPptxV1 (JObj []) s of
        (Inl e, s1) \<Rightarrow> (Inl e, s1)
      | (Inr (Existing_job r), s1) \<Rightarrow> (Inr r, s1)
      | (Inr (Reserved_job actor job_id), s1) \<Rightarrow>
          with_captured_bundle env TypstExportPptxV1 Typst job_id pid
            (\<lambda>captured s2. finish_project_job env actor job_id captured
               (JObj [(''entry_file_path'', JStr (cb_entry_file_path captured)), (''source_epoch'', JNum (cb_source_epoch captured))]) s2)
            (pu_meanwhile env 1 s1))"

text \<open>\<open>u64::saturating_mul\<close> of the input limit and four.\<close>

definition pptx_expanded_limit :: "processing_config \<Rightarrow> int" where
  "pptx_expanded_limit config =
     (let n = (if c_max_input_bytes config < 0 then u64_max else c_max_input_bytes config) in min u64_max (n * 4))"

definition create_pptx_import ::
  "('d, 'u) public_env \<Rightarrow> headers \<Rightarrow> string \<Rightarrow> string option \<Rightarrow> bytes \<Rightarrow> processing_world \<Rightarrow>
   (api_error + create_response) \<times> processing_world" where
  "create_pptx_import env headers raw_filename requested_profile body s =
     (let operation = PptxImportTypstV1; sha = pe_sha256 (pu_project env) in
      (case ensure_operation_enabled env operation of Inl e \<Rightarrow> (Inl e, s) | Inr () \<Rightarrow>
      (case require_pptx_content_type env headers of Inl e \<Rightarrow> (Inl e, s) | Inr () \<Rightarrow>
      (case request_user_id (pu_request env) headers (cw_access (px_collab s)) of None \<Rightarrow> (Inl user_authentication_required, s) | Some actor \<Rightarrow>
      (case normalize_import_filename raw_filename of Inl e \<Rightarrow> (Inl e, s) | Inr (filename, name) \<Rightarrow>
      (case resolve_input_profile (pu_selector env operation) requested_profile of Inl e \<Rightarrow> (Inl e, s) | Inr profile \<Rightarrow>
      if body = [] \<or> c_max_input_bytes (pu_config env) < i64_len body
      then (Inl \<lparr>ae_status = 413, ae_code = ''processing_input_too_large'',
              ae_message = ''PPTX input exceeds the processing input limit''\<rparr>, s)
      else
      (case validate_pptx (pu_zip_open env) body (pptx_expanded_limit (pu_config env)) of Inl e \<Rightarrow> (Inl (pptx_input_error e), s) | Inr () \<Rightarrow>
      let options = JObj ([(''filename'', JStr filename), (''project_name'', JStr name)] @
                      (case profile of None \<Rightarrow> [] | Some p \<Rightarrow> [(''input_profile'', JStr p)]));
          command = JObj [(''operation'', JStr (operation_as_ref operation)), (''input_sha256'', JStr (pe_hex (pu_project env) (sha body))),
                      (''options'', options)]
      in
      (case idempotency_key headers of Inl e \<Rightarrow> (Inl e, s) | Inr key \<Rightarrow>
      (case reserve_processing_job env actor None ''pptx-import'' key operation command options s of
        (Inl e, s1) \<Rightarrow> (Inl e, s1)
      | (Inr (Existing_job r), s1) \<Rightarrow> (Inr r, s1)
      | (Inr (Reserved_job actor job_id), s1) \<Rightarrow>
          finish_reserved_job env actor job_id
            \<lparr>pi_schema = oc_input_schema (contract operation), pi_media_type = oc_input_media_type (contract operation),
             pi_bytes = body, pi_digest = sha body, pi_normalized_options = options,
             pi_options_digest = sha (pu_json env options), pi_workspace_version = None, pi_content_epoch = None,
             pi_source_epoch = None, pi_now = pu_now env\<rparr> (pu_meanwhile env 1 s1))))))))))"

section \<open>Reading and cancelling\<close>

definition authorized_job :: "uuid \<Rightarrow> uuid \<Rightarrow> processing_world \<Rightarrow> api_error + job_record" where
  "authorized_job actor job_id s =
     (case job_for_user actor job_id (px_db s) of
        None \<Rightarrow> Inl processing_job_not_found
      | Some job \<Rightarrow>
          (case jr_project_id job of
             None \<Rightarrow> Inr job
           | Some pid \<Rightarrow>
               (case ensure_project_role_for_user actor pid Read (cw_access (px_collab s)) of
                  Inl e \<Rightarrow> Inl (authorization_response e)
                | Inr () \<Rightarrow> Inr job)))"

fun visible_jobs :: "uuid \<Rightarrow> access_db \<Rightarrow> job_record list \<Rightarrow> authorization_error + job_record list" where
  "visible_jobs actor adb [] = Inr []"
| "visible_jobs actor adb (job # rest) =
     (case (case jr_project_id job of None \<Rightarrow> Inr () | Some pid \<Rightarrow> ensure_project_role_for_user actor pid Read adb) of
        Inr () \<Rightarrow> (case visible_jobs actor adb rest of Inl e \<Rightarrow> Inl e | Inr js \<Rightarrow> Inr (job # js))
      | Inl PermissionDenied \<Rightarrow> visible_jobs actor adb rest
      | Inl e \<Rightarrow> Inl e)"

definition list_processing_jobs ::
  "('d, 'u) public_env \<Rightarrow> headers \<Rightarrow> processing_world \<Rightarrow> api_error + processing_job list" where
  "list_processing_jobs env headers s =
     (case request_user_id (pu_request env) headers (cw_access (px_collab s)) of
        None \<Rightarrow> Inl user_authentication_required
      | Some actor \<Rightarrow>
          (case visible_jobs actor (cw_access (px_collab s)) (list_jobs_for_user actor (px_db s)) of
             Inl e \<Rightarrow> Inl (authorization_response e)
           | Inr visible \<Rightarrow>
               let arts = artifacts_for_jobs (map jr_id visible) (px_db s) in
               Inr (map (\<lambda>job. into_public (pe_hex (pu_project env)) (pu_show env) job
                      (filter (\<lambda>a. ar_job_id a = jr_id job) arts)) visible)))"

definition get_processing_job ::
  "('d, 'u) public_env \<Rightarrow> headers \<Rightarrow> uuid \<Rightarrow> processing_world \<Rightarrow> api_error + processing_job" where
  "get_processing_job env headers job_id s =
     (case request_user_id (pu_request env) headers (cw_access (px_collab s)) of
        None \<Rightarrow> Inl user_authentication_required
      | Some actor \<Rightarrow>
          (case authorized_job actor job_id s of
             Inl e \<Rightarrow> Inl e | Inr job \<Rightarrow> Inr (public_job env job (px_db s))))"

definition cancel_processing_job ::
  "('d, 'u) public_env \<Rightarrow> headers \<Rightarrow> uuid \<Rightarrow> processing_world \<Rightarrow> (api_error + processing_job) \<times> processing_world" where
  "cancel_processing_job env headers job_id s =
     (case request_user_id (pu_request env) headers (cw_access (px_collab s)) of
        None \<Rightarrow> (Inl user_authentication_required, s)
      | Some actor \<Rightarrow>
          (case authorized_job actor job_id s of
             Inl e \<Rightarrow> (Inl e, s)
           | Inr _ \<Rightarrow>
               (case cancel_job actor job_id (pu_now env) (px_db s) of
                  (None, db) \<Rightarrow> (Inl processing_job_not_found, s\<lparr>px_db := db\<rparr>)
                | (Some job, db) \<Rightarrow> (Inr (public_job env job db), s\<lparr>px_db := db\<rparr>))))"

record download =
  dl_content :: bytes
  dl_media_type :: string
  dl_disposition :: string

definition download_processing_artifact ::
  "('d, 'u) public_env \<Rightarrow> headers \<Rightarrow> uuid \<Rightarrow> uuid \<Rightarrow> processing_world \<Rightarrow> api_error + download" where
  "download_processing_artifact env headers job_id artifact_id s =
     (case request_user_id (pu_request env) headers (cw_access (px_collab s)) of
        None \<Rightarrow> Inl user_authentication_required
      | Some actor \<Rightarrow>
          (case authorized_job actor job_id s of
             Inl e \<Rightarrow> Inl e
           | Inr _ \<Rightarrow>
               (case artifact_content_for_user actor job_id artifact_id (px_db s) of
                  None \<Rightarrow> Inl \<lparr>ae_status = 404, ae_code = ''processing_artifact_not_found'',
                             ae_message = ''Processing artifact was not found''\<rparr>
                | Some (_, artifact, content) \<Rightarrow>
                    let disposition = ''attachment; filename=\"'' @ ar_filename artifact @ ''\"'' in
                    Inr \<lparr>dl_content = content,
                         dl_media_type = (if pu_header_ok env (ar_media_type artifact) then ar_media_type artifact
                                          else ''application/octet-stream''),
                         dl_disposition = (if pu_header_ok env disposition then disposition else ''attachment'')\<rparr>)))"

section \<open>Capabilities\<close>

datatype capability_state = Available | Waiting

record processing_capability =
  cap_operation :: processing_operation
  cap_state :: capability_state
  cap_selector :: "input_profile_selector option"
  cap_stats :: capability_stats
  cap_reason :: "string option"

definition capability_of :: "('d, 'u) public_env \<Rightarrow> processing_db \<Rightarrow> processing_operation \<Rightarrow> processing_capability" where
  "capability_of env db operation =
     (let stats = capability_stats operation (pu_now env) db;
          waiting = (cs_healthy_sessions stats = 0)
      in \<lparr>cap_operation = operation, cap_state = (if waiting then Waiting else Available), cap_selector = pu_selector env operation,
          cap_stats = stats, cap_reason = (if waiting then Some ''worker_temporarily_offline'' else None)\<rparr>)"

definition enabled_operations :: "('d, 'u) public_env \<Rightarrow> processing_operation list" where
  "enabled_operations env = filter (pu_supports env) (configured_operations (pu_config env))"

definition processing_capabilities ::
  "('d, 'u) public_env \<Rightarrow> headers \<Rightarrow> processing_world \<Rightarrow> api_error + processing_capability list" where
  "processing_capabilities env headers s =
     (case request_user_id (pu_request env) headers (cw_access (px_collab s)) of
        None \<Rightarrow> Inl user_authentication_required
      | Some _ \<Rightarrow> Inr (map (capability_of env (px_db s)) (enabled_operations env)))"

definition project_processing_capabilities ::
  "('d, 'u) public_env \<Rightarrow> headers \<Rightarrow> uuid \<Rightarrow> processing_world \<Rightarrow>
   api_error + (processing_operation \<times> capability_state \<times> string option) list" where
  "project_processing_capabilities env headers pid s =
     (case ensure_project_role (pu_request env) headers pid Read (cw_access (px_collab s)) of
        Inl e \<Rightarrow> Inl (authorization_response e)
      | Inr _ \<Rightarrow>
          (case find_project_entry_point pid (cw_db (px_collab s)) of
             None \<Rightarrow> Inl entry_point_not_found
           | Some entry \<Rightarrow>
               Inr (map (\<lambda>operation. let c = capability_of env (px_db s) operation in (operation, cap_state c, cap_reason c))
                 (filter (\<lambda>operation. operation_project_type operation = Some (ep_project_type entry)) (enabled_operations env)))))"

end
