(* ===== verification/Public_Properties.thy ===== *)
theory Public_Properties
  imports Public_Http Project_Properties
begin

text \<open>
  Properties of the user edge of document processing. A reserved job never stays without its input,
  whatever runs between the transactions of its preparation; jobs and their artifacts are read and
  cancelled only by their requester, with current access to the project.
\<close>

declare unit.case_cong_weak [cong del]

lemma case_unit_const [simp]: "(case u of () \<Rightarrow> x) = x"
  by (cases u) (simp only: unit.case)

section \<open>Preparation\<close>

text \<open>
  How a creation leaves the job that it reserved: it does not wait for an input, and the answer 202
  is given for a queued job with its input only.
\<close>

definition preparation_over :: "uuid \<Rightarrow> (api_error + create_response) \<times> processing_world \<Rightarrow> bool" where
  "preparation_over i r \<longleftrightarrow>
     list_all (\<lambda>j. \<not> awaiting_input i j) (jobs (px_db (snd r))) \<and>
     (case fst r of
        Inl e \<Rightarrow> True
      | Inr (status, p) \<Rightarrow>
          status \<noteq> 202 \<or>
          list_ex (\<lambda>j. j_id j = i \<and> j_state j = Queued \<and> j_input_blob_id j \<noteq> None) (jobs (px_db (snd r))))"

definition unreserved :: "uuid \<Rightarrow> processing_world \<Rightarrow> bool" where
  "unreserved i s \<longleftrightarrow> list_all (\<lambda>j. j_id j \<noteq> i) (jobs (px_db s))"

lemma none_awaits_updated:
  assumes "\<And>j. awaiting_input i j \<Longrightarrow> P j" and "\<And>j. j_state (f j) \<noteq> Preparing"
  shows "list_all (\<lambda>j. \<not> awaiting_input i j) (update_where P f t)"
  unfolding list_all_iff
proof
  fix x assume "x \<in> set (update_where P f t)"
  then obtain r where "r \<in> set t" "x = (if P r then f r else r)" by (auto simp: update_where_def)
  then show "\<not> awaiting_input i x" using assms [of r] by (cases "P r") (auto simp: awaiting_input_def)
qed

lemma fail_preparation_over: "preparation_over i (fail_preparation env i code message e s)"
proof -
  have "list_all (\<lambda>j. \<not> awaiting_input i j) (jobs (mark_preparation_failed i code message (pu_now env) (px_db s)))"
    unfolding mark_preparation_failed_def processing_db.select_convs processing_db.update_convs
    by (simp, rule none_awaits_updated) (simp_all add: awaiting_input_def)
  then show ?thesis by (simp add: preparation_over_def fail_preparation_def)
qed

lemma finish_reserved_over: "preparation_over i (finish_reserved_job env actor i input s)"
proof (cases "store_prepared_input (pu_blob_id env) i input (px_db s)")
  case (Pair r db)
  show ?thesis
  proof (cases r)
    case (Inl u)
    with Pair show ?thesis by (simp add: finish_reserved_job_def fail_preparation_over)
  next
    case (Inr m)
    show ?thesis
    proof (cases m)
      case None
      with Pair Inr have "list_all (\<lambda>j. \<not> awaiting_input i j) (jobs db)"
        by (auto simp: store_prepared_input_def find_None_iff list_all_iff split: option.splits if_splits prod.splits)
      with Pair Inr None show ?thesis
        by (cases "job_for_user actor i db") (simp_all add: finish_reserved_job_def fail_preparation_over, simp add: preparation_over_def)
    next
      case (Some job)
      with Pair Inr obtain j b where j: "j \<in> set (jobs (px_db s))" "awaiting_input i j"
        and db: "jobs db = update_where (awaiting_input i) (attach_input input b) (jobs (px_db s))"
        by (auto simp: store_prepared_input_def dest!: find_Some_set split: option.splits if_splits prod.splits)
      have "attach_input input b j \<in> set (jobs db)" using j unfolding db update_where_def by force
      moreover have "j_id (attach_input input b j) = i \<and> j_state (attach_input input b j) = Queued \<and>
          j_input_blob_id (attach_input input b j) \<noteq> None" using j(2) by (simp add: attach_input_def awaiting_input_def)
      ultimately have "list_ex (\<lambda>j. j_id j = i \<and> j_state j = Queued \<and> j_input_blob_id j \<noteq> None) (jobs db)"
        unfolding list_ex_iff by blast
      moreover have "list_all (\<lambda>j. \<not> awaiting_input i j) (jobs db)"
        unfolding db by (rule none_awaits_updated) (simp_all add: attach_input_def)
      ultimately show ?thesis using Pair Inr Some by (simp add: finish_reserved_job_def preparation_over_def)
    qed
  qed
qed

text \<open>The first transaction reserves the new identifier or changes nothing.\<close>

definition job_started :: "uuid \<Rightarrow> processing_db \<Rightarrow> (api_error + job_start) \<times> processing_world \<Rightarrow> bool" where
  "job_started i db r \<longleftrightarrow>
     (case fst r of
        Inl e \<Rightarrow> px_db (snd r) = db
      | Inr (Existing_job (status, p)) \<Rightarrow> status = 200 \<and> px_db (snd r) = db
      | Inr (Reserved_job actor job_id) \<Rightarrow> job_id = i)"

lemma job_started_Inl [simp]: "job_started i (px_db s) (Inl e, s)"
  by (simp add: job_started_def)

lemma reserve_job_unchanged: "reserve_job config command db = (r, db') \<Longrightarrow> r = Inr Reserved \<or> db' = db"
  by (auto simp: reserve_job_def split: option.splits if_splits)

lemma reserve_processing_job_started:
  "job_started (pu_job_id env) (px_db s) (reserve_processing_job env actor p scope key opn command options s)"
  by (auto simp: job_started_def reserve_processing_job_def Let_def dest: reserve_job_unchanged
      split: prod.split sum.split reserve_job_outcome.split)

lemma begin_project_job_started:
  "job_started (pu_job_id env) (px_db s) (begin_project_job env headers pid opn options s)"
  by (simp add: begin_project_job_def reserve_processing_job_started split: sum.split option.split )

lemma preparation_over_started:
  assumes "job_started i (px_db s) r" and "unreserved i s"
    and "\<And>actor s1. r = (Inr (Reserved_job actor i), s1) \<Longrightarrow> preparation_over i (go actor i s1)"
  shows "preparation_over i (case r of (Inl e, s1) \<Rightarrow> (Inl e, s1) | (Inr (Existing_job x), s1) \<Rightarrow> (Inr x, s1)
    | (Inr (Reserved_job actor job_id), s1) \<Rightarrow> go actor job_id s1)"
proof -
  obtain a s1 where r: "r = (a, s1)" by fastforce
  have idle: "list_all (\<lambda>j. \<not> awaiting_input i j) (jobs (px_db s))"
    using assms(2) by (simp add: unreserved_def list_all_iff awaiting_input_def)
  show ?thesis
  proof (cases a)
    case (Inl e)
    with assms(1) idle show ?thesis by (simp add: r job_started_def preparation_over_def)
  next
    case (Inr b)
    with assms idle show ?thesis
      by (cases b) (auto simp: r job_started_def preparation_over_def [of i "(_, s1)"])
  qed
qed

lemma with_captured_bundle_over:
  assumes "\<And>captured s'. preparation_over i (continue captured s')"
  shows "preparation_over i (with_captured_bundle env opn ty i pid continue s)"
  using assms by (simp add: with_captured_bundle_def fail_preparation_over split: prod.split sum.split)

lemma finish_project_over: "preparation_over i (finish_project_job env actor i captured options s)"
  by (simp add: finish_project_job_def finish_reserved_over)

lemma create_latex_over: "unreserved (pu_job_id env) s \<Longrightarrow> preparation_over (pu_job_id env) (create_latex_pdf_build env headers pid s)"
  unfolding create_latex_pdf_build_def
  by (rule preparation_over_started [OF begin_project_job_started])
    (auto simp: finish_project_over fail_preparation_over intro!: with_captured_bundle_over split: option.split)

lemma create_typst_over: "unreserved (pu_job_id env) s \<Longrightarrow> preparation_over (pu_job_id env) (create_typst_pptx_export env headers pid s)"
  unfolding create_typst_pptx_export_def
  by (rule preparation_over_started [OF begin_project_job_started])
    (auto simp: finish_project_over intro!: with_captured_bundle_over)

lemma unreserved_over: "unreserved i s \<Longrightarrow> preparation_over i (Inl e, s)"
  by (simp add: unreserved_def preparation_over_def awaiting_input_def list_all_iff)

lemma create_import_over:
  assumes "unreserved (pu_job_id env) s"
  shows "preparation_over (pu_job_id env) (create_pptx_import env headers raw profile body s)"
proof -
  have "preparation_over (pu_job_id env)
      (case reserve_processing_job env actor p scope key opn command options s of
         (Inl e, s1) \<Rightarrow> (Inl e, s1) | (Inr (Existing_job x), s1) \<Rightarrow> (Inr x, s1)
       | (Inr (Reserved_job actor job_id), s1) \<Rightarrow> finish_reserved_job env actor job_id input (pu_meanwhile env 1 s1))"
    for actor p scope key opn command options input
    by (rule preparation_over_started [OF reserve_processing_job_started assms]) (rule finish_reserved_over)
  then show ?thesis
    by (simp add: create_pptx_import_def Let_def unreserved_over [OF assms] split: sum.split option.split  prod.split)
qed

section \<open>Access to jobs\<close>

text \<open>The user may see the job: it is the requester, and still may read the project of the job.\<close>

definition may_see_job :: "uuid \<Rightarrow> processing_world \<Rightarrow> job_row \<Rightarrow> bool" where
  "may_see_job actor s j \<longleftrightarrow>
     j_requester_user_id j = actor \<and>
     (case j_project_id j of
        None \<Rightarrow> True
      | Some pid \<Rightarrow> ensure_project_role_for_user actor pid Read (cw_access (px_collab s)) = Inr ())"

lemma authorized_job_row:
  assumes "authorized_job actor job_id s = Inr job"
  obtains j where "j \<in> set (jobs (px_db s))" and "j_id j = job_id" and "may_see_job actor s j" and "job = job_from_row j"
proof -
  from assms obtain j where j: "find (\<lambda>j. j_id j = job_id \<and> j_requester_user_id j = actor) (jobs (px_db s)) = Some j"
    and job: "job = job_from_row j" and "may_see_job actor s j"
    by (auto simp: authorized_job_def job_for_user_def may_see_job_def job_from_row_def split: option.splits sum.splits
        dest: find_Some_set)
  with find_Some_set [OF j] that show thesis by blast
qed

lemma visible_jobs_filter:
  "visible_jobs actor adb js = Inr (filter (\<lambda>job. case jr_project_id job of None \<Rightarrow> True
     | Some pid \<Rightarrow> ensure_project_role_for_user actor pid Read adb = Inr ()) js)"
proof (induction js)
  case Nil
  then show ?case by simp
next
  case (Cons job js)
  have "ensure_project_role_for_user actor pid Read adb \<in> {Inr (), Inl PermissionDenied}" for pid
    by (simp add: ensure_project_role_for_user_def split: prod.split)
  with Cons show ?case by (cases "jr_project_id job") fastforce+
qed

lemma listed_artifacts:
  "job \<in> set vis \<Longrightarrow>
   into_public hx sh job (filter (\<lambda>a. ar_job_id a = jr_id job) (artifacts_for_jobs (map jr_id vis) db)) =
   into_public hx sh job (artifacts_by_job (jr_id job) db)"
proof -
  assume job: "job \<in> set vis"
  have eq: "(f_job_id f \<in> jr_id ` set vis \<and> f_job_id f = jr_id job) = (f_job_id f = jr_id job)" for f
    using job by auto
  from job have "vis \<noteq> []" by auto
  then have "filter (\<lambda>a. ar_job_id a = jr_id job) (artifacts_for_jobs (map jr_id vis) db) = artifacts_by_job (jr_id job) db"
    by (simp add: artifacts_for_jobs_def artifacts_by_job_def filter_map comp_def artifact_from_row_def filter_sort eq)
  then show ?thesis by simp
qed

lemma listed_jobs:
  assumes "request_user_id (pu_request env) headers (cw_access (px_collab s)) = Some actor"
  shows "\<exists>out. list_processing_jobs env headers s = Inr out \<and>
    set out \<subseteq> (\<lambda>j. public_job env (job_from_row j) (px_db s)) ` {j \<in> set (jobs (px_db s)). may_see_job actor s j}"
proof -
  let ?vis = "filter (\<lambda>job. case jr_project_id job of None \<Rightarrow> True
     | Some pid \<Rightarrow> ensure_project_role_for_user actor pid Read (cw_access (px_collab s)) = Inr ()) (list_jobs_for_user actor (px_db s))"
  have row: "\<exists>j \<in> set (jobs (px_db s)). may_see_job actor s j \<and> job = job_from_row j" if "job \<in> set ?vis" for job
    using that by (auto simp: list_jobs_for_user_def may_see_job_def job_from_row_def dest!: in_set_takeD)
  have "list_processing_jobs env headers s = Inr (map (\<lambda>job. public_job env job (px_db s)) ?vis)"
    unfolding list_processing_jobs_def assms option.case visible_jobs_filter sum.case Let_def public_job_def
    by (rule arg_cong [of _ _ Inr], rule map_cong [OF refl], rule listed_artifacts)
  then show ?thesis using row by force
qed

section \<open>An example\<close>

definition ex_member :: access_db where
  "ex_member = ex_open_access\<lparr>roles := [\<lparr>ro_project_id = 1, ro_user_id = 7, ro_role = ReadOnly, ro_granted_at = 0, ro_source = DirectRole\<rparr>]\<rparr>"

definition ex_world :: processing_world where
  "ex_world = \<lparr>px_collab = run_events (collab_step ex_yjs 100) (ex_opened @ ex_edits) (empty_collab ex_member), px_db = empty_db\<rparr>"

definition ex_public_env :: "(string, string) public_env" where
  "ex_public_env = \<lparr>pu_project = ex_project_env\<lparr>pe_to_json := (\<lambda>_. Some ''M''), pe_zip := (\<lambda>_. Some ''Z'')\<rparr>,
     pu_request = \<lparr>re_sha256 = ex_sha, re_dev_header = True, re_parse_uuid = (\<lambda>v. if v = ''7'' then Some 7 else Some 8), re_now = 10\<rparr>,
     pu_config = ex_config\<lparr>c_identities := [\<lparr>wi_id = ''w'', wi_token_fingerprint = [], wi_operations = [(TypstExportPptxV1, [''p''])]\<rparr>]\<rparr>,
     pu_supports = (\<lambda>_. True), pu_selector = (\<lambda>_. None), pu_json = (\<lambda>_. ''J''), pu_zip_open = (\<lambda>_. None), pu_parse_mime = Some,
     pu_show = (\<lambda>_. ''id''), pu_header_ok = (\<lambda>_. True), pu_job_id = 90, pu_blob_id = 91, pu_now = 10, pu_meanwhile = (\<lambda>_ s. s)\<rparr>"

definition ex_headers :: "string \<Rightarrow> headers" where
  "ex_headers user = [''x-user-id'' \<mapsto> user, ''idempotency-key'' \<mapsto> ''k'']"

section \<open>Properties\<close>

text \<open>
  C13. No job is left waiting for its input. Whatever other requests and the maintenance worker do
  between its transactions, each of the three creations ends with the job that it reserved out of its
  preparation: queued with its input, failed with the reason, or already ended by someone else; and it
  answers 202 only for a queued job with its input.
\<close>

theorem preparation_always_ends:
  assumes "unreserved (pu_job_id env) s"
  shows "preparation_over (pu_job_id env) (create_latex_pdf_build env headers pid s) \<and>
    preparation_over (pu_job_id env) (create_typst_pptx_export env headers pid s) \<and>
    preparation_over (pu_job_id env) (create_pptx_import env headers filename profile body s)"
  using assms by (intro conjI create_latex_over create_typst_over create_import_over)

theorem preparation_always_ends_witness:
  "preparation_over 90 (create_typst_pptx_export ex_public_env (ex_headers ''7'') 1 ex_world) \<and>
   map (\<lambda>j. (j_id j, j_state j)) (jobs (px_db (snd (create_typst_pptx_export ex_public_env (ex_headers ''7'') 1 ex_world)))) = [(90, Queued)]"
proof
  have i: "pu_job_id ex_public_env = 90" by (simp add: ex_public_env_def)
  have "unreserved (pu_job_id ex_public_env) ex_world" by (simp add: unreserved_def ex_world_def empty_db_def)
  from preparation_always_ends [OF this, of "ex_headers ''7''" 1 "[]" None "[]"]
  show "preparation_over 90 (create_typst_pptx_export ex_public_env (ex_headers ''7'') 1 ex_world)" unfolding i by blast
  show "map (\<lambda>j. (j_id j, j_state j)) (jobs (px_db (snd (create_typst_pptx_export ex_public_env (ex_headers ''7'') 1 ex_world)))) = [(90, Queued)]"
    by code_simp
qed

text \<open>
  C14. Jobs belong to their requester. A user who did not request the job, or who may no longer read its
  project, can neither read it nor download an artifact nor cancel it: the answers are errors and the
  state stays as it was. The list of jobs of a user has only jobs that the user requested and may see.
\<close>

theorem jobs_seen_by_requester_only:
  assumes "request_user_id (pu_request env) headers (cw_access (px_collab s)) = Some actor"
    and "\<forall>j \<in> set (jobs (px_db s)). j_id j = i \<longrightarrow> \<not> may_see_job actor s j"
  shows "get_processing_job env headers i s \<in> range Inl \<and>
    download_processing_artifact env headers i artifact s \<in> range Inl \<and>
    cancel_processing_job env headers i s \<in> range (\<lambda>e. (Inl e, s)) \<and>
    (\<exists>out. list_processing_jobs env headers s = Inr out \<and>
       set out \<subseteq> (\<lambda>j. public_job env (job_from_row j) (px_db s)) ` {j \<in> set (jobs (px_db s)). may_see_job actor s j})"
proof -
  obtain e where e: "authorized_job actor i s = Inl e"
    using assms(2) by (cases "authorized_job actor i s") (auto elim: authorized_job_row)
  show ?thesis using listed_jobs [OF assms(1)]
    by (simp add: get_processing_job_def download_processing_artifact_def cancel_processing_job_def assms(1) e)
qed

theorem jobs_seen_by_requester_only_witness:
  "cancel_processing_job ex_public_env (ex_headers ''8'') 90 (snd (create_typst_pptx_export ex_public_env (ex_headers ''7'') 1 ex_world)) \<in>
     range (\<lambda>e. (Inl e, snd (create_typst_pptx_export ex_public_env (ex_headers ''7'') 1 ex_world)))"
proof -
  let ?s = "snd (create_typst_pptx_export ex_public_env (ex_headers ''7'') 1 ex_world)"
  have actor: "request_user_id (pu_request ex_public_env) (ex_headers ''8'') (cw_access (px_collab ?s)) = Some 8" by code_simp
  have "list_all (\<lambda>j. j_requester_user_id j = 7) (jobs (px_db ?s))" by code_simp
  then have other: "\<forall>j \<in> set (jobs (px_db ?s)). j_id j = 90 \<longrightarrow> \<not> may_see_job 8 ?s j" by (simp add: list_all_iff may_see_job_def)
  from jobs_seen_by_requester_only [OF actor other, of 0] show ?thesis by blast
qed

end
