(* ===== verification/Worker_Client.thy ===== *)
theory Worker_Client
  imports Worker_Http
begin

text \<open>
  The client of the worker protocol: \<open>workers/processing-sdk/src/client.rs\<close>. Every mutation is sent up to
  four times with the same request identifier and payload; transfers are sent again after failures of the
  transport. The URL parser, the connection (crate \<open>reqwest\<close>) and the decoding of a response body
  (\<open>serde_json\<close>) are parameters: \<open>delivery\<close> is what the connection does with one attempt.
\<close>

section \<open>Errors\<close>

datatype client_error = Transport | InvalidUrl | Protocol int string string | InvalidResponse

definition mutation_attempts :: nat where "mutation_attempts = 4"
definition download_attempts :: nat where "download_attempts = 3"

definition status_is_server_error :: "int \<Rightarrow> bool" where
  "status_is_server_error status \<longleftrightarrow> 500 \<le> status \<and> status \<le> 599"

fun retryable_mutation_error :: "client_error \<Rightarrow> bool" where
  "retryable_mutation_error Transport = True"
| "retryable_mutation_error InvalidResponse = True"
| "retryable_mutation_error (Protocol status code _) \<longleftrightarrow> code = ''worker_request_in_progress'' \<or> status_is_server_error status"
| "retryable_mutation_error InvalidUrl = False"

fun retryable_transfer_error :: "client_error \<Rightarrow> bool" where
  "retryable_transfer_error Transport = True"
| "retryable_transfer_error InvalidResponse = True"
| "retryable_transfer_error (Protocol status _ _) \<longleftrightarrow> status_is_server_error status"
| "retryable_transfer_error InvalidUrl = False"

text \<open>The pause after an attempt, in milliseconds.\<close>

definition mutation_backoff :: "nat \<Rightarrow> int" where
  "mutation_backoff attempt = min u64_max (100 * 2 ^ min attempt 4)"

section \<open>Requests\<close>

record url_parts =
  url_scheme :: string
  url_host :: "string option"
  url_port :: "int option"
  url_path :: string

text \<open>\<open>url_join\<close> is \<open>Url::join\<close> with the base URL; the port is the known default when none is given.\<close>

definition resolve :: "(string \<Rightarrow> url_parts option) \<Rightarrow> url_parts \<Rightarrow> string \<Rightarrow> client_error + url_parts" where
  "resolve url_join base relative_url =
     (case url_join relative_url of
        None \<Rightarrow> Inl InvalidUrl
      | Some resolved \<Rightarrow>
          if url_scheme resolved \<noteq> url_scheme base \<or> url_host resolved \<noteq> url_host base \<or> url_port resolved \<noteq> url_port base
          then Inl InvalidUrl else Inr resolved)"

text \<open>The body of an error answer, \<open>WorkerApiErrorResponse\<close>.\<close>

definition error_response :: "json option \<Rightarrow> string \<times> string" where
  "error_response body =
     (case body of
        Some b \<Rightarrow>
          (case (json_get b ''code'', json_get b ''message'') of
             (Some (JStr code), Some (JStr message)) \<Rightarrow> (code, message)
           | _ \<Rightarrow> (''unexpected_response'', ''Core returned an unexpected response''))
      | None \<Rightarrow> (''unexpected_response'', ''Core returned an unexpected response''))"

definition checked :: "response \<Rightarrow> client_error + json option" where
  "checked rsp =
     (if 200 \<le> rsp_status rsp \<and> rsp_status rsp \<le> 299 then Inr (rsp_body rsp)
      else let (code, message) = error_response (rsp_body rsp) in Inl (Protocol (rsp_status rsp) code message))"

text \<open>An error of a handler on the wire.\<close>

definition wire_response :: "api_error + response \<Rightarrow> response" where
  "wire_response r = (case r of Inl e \<Rightarrow> Response (ae_status e) (Some (error_body e)) | Inr rsp \<Rightarrow> rsp)"

datatype delivery = Request_lost | Response_lost | Body_lost | Answered

text \<open>One attempt: the handler runs unless the request is lost; an error body that is lost is not read.\<close>

definition transmit :: "delivery \<Rightarrow> (bool \<Rightarrow> 'r \<Rightarrow> client_error + 'b) \<Rightarrow> ('s \<Rightarrow> 'r \<times> 's) \<Rightarrow> 's \<Rightarrow> (client_error + 'b) \<times> 's" where
  "transmit d receive request s =
     (case d of
        Request_lost \<Rightarrow> (Inl Transport, s)
      | Response_lost \<Rightarrow> (Inl Transport, snd (request s))
      | Body_lost \<Rightarrow> (case request s of (r, s1) \<Rightarrow> (receive False r, s1))
      | Answered \<Rightarrow> (case request s of (r, s1) \<Rightarrow> (receive True r, s1)))"

definition receive_status :: "bool \<Rightarrow> api_error + response \<Rightarrow> client_error + json option" where
  "receive_status readable r =
     (let rsp = wire_response r in checked (if readable then rsp else Response (rsp_status rsp) None))"

definition receive_json :: "(json option \<Rightarrow> 'a option) \<Rightarrow> bool \<Rightarrow> api_error + response \<Rightarrow> client_error + 'a" where
  "receive_json decode readable r =
     (case receive_status readable r of
        Inl e \<Rightarrow> Inl e
      | Inr body \<Rightarrow>
          if \<not> readable then Inl InvalidResponse
          else (case decode body of None \<Rightarrow> Inl InvalidResponse | Some v \<Rightarrow> Inr v))"

definition worker_json_attempt ::
  "(json option \<Rightarrow> 'a option) \<Rightarrow> delivery \<Rightarrow> mutation \<Rightarrow> processing_db \<Rightarrow> (client_error + 'a) \<times> processing_db" where
  "worker_json_attempt decode d request db = transmit d (receive_json decode) request db"

text \<open>The loop of every operation: \<open>call\<close> is one attempt.\<close>

function retry_loop ::
  "nat \<Rightarrow> (client_error \<Rightarrow> bool) \<Rightarrow> (nat \<Rightarrow> 's \<Rightarrow> (client_error + 'a) \<times> 's) \<Rightarrow> nat \<Rightarrow> 's \<Rightarrow> (client_error + 'a) \<times> 's" where
  "retry_loop limit again call attempt s =
     (case call attempt s of
        (Inl e, s1) \<Rightarrow>
          if again e \<and> attempt + 1 < limit then retry_loop limit again call (attempt + 1) s1 else (Inl e, s1)
      | (Inr v, s1) \<Rightarrow> (Inr v, s1))"
  by pat_completeness auto
termination
  by (relation "measure (\<lambda>(limit, _, _, attempt, _). limit - attempt)") auto

declare retry_loop.simps [simp del]

text \<open>
  Every operation resolves its path against the base URL first; \<open>base\<close> holds the parser and the base URL,
  \<open>request\<close> is what the server does with a request for a URL, at each attempt.
\<close>

record base_url =
  bu_join :: "string \<Rightarrow> url_parts option"
  bu_url :: url_parts

definition at_url ::
  "base_url \<Rightarrow> string \<Rightarrow> (url_parts \<Rightarrow> 's \<Rightarrow> (client_error + 'a) \<times> 's) \<Rightarrow> 's \<Rightarrow> (client_error + 'a) \<times> 's" where
  "at_url base path f s = (case resolve (bu_join base) (bu_url base) path of Inl e \<Rightarrow> (Inl e, s) | Inr url \<Rightarrow> f url s)"

definition worker_json ::
  "base_url \<Rightarrow> string \<Rightarrow> (json option \<Rightarrow> 'a option) \<Rightarrow> (nat \<Rightarrow> delivery) \<Rightarrow> (url_parts \<Rightarrow> nat \<Rightarrow> mutation) \<Rightarrow> processing_db \<Rightarrow>
   (client_error + 'a) \<times> processing_db" where
  "worker_json base path decode net request =
     at_url base path (\<lambda>url. retry_loop mutation_attempts retryable_mutation_error
       (\<lambda>k. worker_json_attempt decode (net k) (request url k)) 0)"

definition worker_empty ::
  "base_url \<Rightarrow> string \<Rightarrow> (nat \<Rightarrow> delivery) \<Rightarrow> (url_parts \<Rightarrow> nat \<Rightarrow> mutation) \<Rightarrow> processing_db \<Rightarrow> (client_error + unit) \<times> processing_db" where
  "worker_empty base path net request =
     at_url base path (\<lambda>url. retry_loop mutation_attempts retryable_mutation_error
       (\<lambda>k. transmit (net k) (\<lambda>readable r. map_sum id (\<lambda>_. ()) (receive_status readable r)) (request url k)) 0)"

definition worker_json_once ::
  "base_url \<Rightarrow> string \<Rightarrow> (json option \<Rightarrow> 'a option) \<Rightarrow> delivery \<Rightarrow> (url_parts \<Rightarrow> mutation) \<Rightarrow> processing_db \<Rightarrow>
   (client_error + 'a) \<times> processing_db" where
  "worker_json_once base path decode d request = at_url base path (\<lambda>url. worker_json_attempt decode d (request url))"

text \<open>An acquisition: the answer 204 has no body and is an empty batch.\<close>

definition acquire_claims ::
  "base_url \<Rightarrow> (json option \<Rightarrow> worker_claim list option) \<Rightarrow> (nat \<Rightarrow> delivery) \<Rightarrow> (url_parts \<Rightarrow> nat \<Rightarrow> mutation) \<Rightarrow> processing_db \<Rightarrow>
   (client_error + worker_claim list) \<times> processing_db" where
  "acquire_claims base decode net request =
     at_url base ''/internal/v1/processing/claims:acquire''
       (\<lambda>url. retry_loop mutation_attempts retryable_mutation_error
         (\<lambda>k. transmit (net k) (\<lambda>readable r. if rsp_status (wire_response r) = 204 then Inr [] else receive_json decode readable r)
            (request url k)) 0)"

text \<open>Transfers: the handler answers with the content, or with the stored size and digest.\<close>

definition receive_transfer :: "bool \<Rightarrow> api_error + 'b \<Rightarrow> client_error + 'b" where
  "receive_transfer readable r =
     (case r of
        Inl e \<Rightarrow> let (code, message) = error_response (if readable then Some (error_body e) else None) in Inl (Protocol (ae_status e) code message)
      | Inr v \<Rightarrow> Inr v)"

definition download_transfer_client ::
  "base_url \<Rightarrow> string \<Rightarrow> (nat \<Rightarrow> delivery) \<Rightarrow>
   (url_parts \<Rightarrow> nat \<Rightarrow> processing_db \<Rightarrow> (api_error + bytes \<times> string \<times> bytes) \<times> processing_db) \<Rightarrow> processing_db \<Rightarrow>
   (client_error + bytes) \<times> processing_db" where
  "download_transfer_client base relative_url net request =
     at_url base relative_url (\<lambda>url. retry_loop download_attempts retryable_transfer_error
       (\<lambda>k. transmit (net k) (\<lambda>readable r. case receive_transfer readable r of
          Inl e \<Rightarrow> Inl e | Inr (content, _) \<Rightarrow> if readable then Inr content else Inl InvalidResponse) (request url k)) 0)"

definition upload_transfer_client ::
  "base_url \<Rightarrow> string \<Rightarrow> (nat \<Rightarrow> delivery) \<Rightarrow> (url_parts \<Rightarrow> nat \<Rightarrow> processing_db \<Rightarrow> (api_error + int \<times> bytes) \<times> processing_db) \<Rightarrow>
   processing_db \<Rightarrow> (client_error + unit) \<times> processing_db" where
  "upload_transfer_client base relative_url net request =
     at_url base relative_url (\<lambda>url. retry_loop mutation_attempts retryable_transfer_error
       (\<lambda>k. transmit (net k) (\<lambda>readable r. map_sum id (\<lambda>_. ()) (receive_transfer readable r)) (request url k)) 0)"

end
