(* ===== verification/Worker_Agent.thy ===== *)
theory Worker_Agent
  imports Worker_Client Worker_Input
begin

text \<open>
  The agent of a worker: \<open>workers/processing-sdk/src/agent.rs\<close>. It registers processors, takes one claim
  per free slot, executes it (download, verify, process, validate, upload, complete), reports failures and
  keeps the lease of the claim alive from a task of its own.

  The server is the record \<open>core\<close>: each operation of the client with its effect on a state \<open>'s\<close>, which
  also holds whatever the other tasks and the server do meanwhile; \<open>co_cancelled\<close> reads the flag that the
  lease task sets. The processor is a parameter. Times are those of the worker's monotonic clock.
\<close>

section \<open>Processors\<close>

definition max_slots :: int where "max_slots = 16"
definition max_artifacts :: nat where "max_artifacts = 16"
definition claim_renewal_margin :: duration where "claim_renewal_margin = seconds 3"

record processor_descriptor =
  pd_operation :: string
  pd_processor_contract :: string
  pd_runtime_version :: string
  pd_slots :: int

record processor_artifact =
  out_role :: string
  out_media_type :: string
  out_filename :: string
  out_content :: bytes

record processor_result =
  res_artifacts :: "processor_artifact list"
  res_metadata :: json

record processor_failure =
  fl_class :: worker_failure_class
  fl_code :: string
  fl_message :: string

datatype agent_error = Configuration | Client_agent client_error | Protocol_agent

definition validate_descriptor :: "processor_descriptor \<Rightarrow> agent_error + unit" where
  "validate_descriptor d =
     (if pd_operation d = [] \<or> pd_runtime_version d = [] \<or> pd_slots d \<le> 0 \<or> max_slots < pd_slots d \<or>
         \<not> (case strip_prefix ''sha256:'' (pd_processor_contract d) of
              None \<Rightarrow> False | Some digest \<Rightarrow> length digest = 64 \<and> list_all ascii_hexdigit digest)
      then Inl Configuration else Inr ())"

definition processor_key :: "string \<Rightarrow> string \<Rightarrow> string \<times> string" where
  "processor_key operation processor_contract = (operation, processor_contract)"

text \<open>The registry is the list of registered descriptors by key; the slots are shared.\<close>

fun register_processors ::
  "processor_descriptor list \<Rightarrow> ((string \<times> string) \<times> processor_descriptor) list \<Rightarrow> int \<Rightarrow>
   agent_error + ((string \<times> string) \<times> processor_descriptor) list \<times> int" where
  "register_processors [] registry shared_slots = Inr (registry, shared_slots)"
| "register_processors (d # ds) registry shared_slots =
     (case validate_descriptor d of
        Inl e \<Rightarrow> Inl e
      | Inr () \<Rightarrow>
          let key = processor_key (pd_operation d) (pd_processor_contract d) in
          if map_of registry key \<noteq> None then Inl Configuration
          else register_processors ds ((key, d) # registry) (max shared_slots (pd_slots d)))"

definition prepare_agent ::
  "processor_descriptor list \<Rightarrow> agent_error + ((string \<times> string) \<times> processor_descriptor) list \<times> int" where
  "prepare_agent descriptors =
     (if descriptors = [] then Inl Configuration else register_processors descriptors [] 0)"

section \<open>Reports\<close>

definition normalize_code :: "string \<Rightarrow> string" where
  "normalize_code value =
     (let normalized = map (\<lambda>b. if (CHR ''a'' \<le> b \<and> b \<le> CHR ''z'') \<or> ascii_digit b \<or> b = CHR ''_'' then b else CHR ''_'') (take 96 value)
      in if normalized = [] then ''processor_failed'' else normalized)"

text \<open>\<open>str::is_char_boundary\<close>: the start, the end, or a byte that does not continue a character.\<close>

definition is_char_boundary :: "string \<Rightarrow> nat \<Rightarrow> bool" where
  "is_char_boundary s k \<longleftrightarrow>
     k = 0 \<or> k = length s \<or> (k < length s \<and> \<not> (128 \<le> (of_char (s ! k) :: nat) \<and> (of_char (s ! k) :: nat) < 192))"

fun boundary_below :: "string \<Rightarrow> nat \<Rightarrow> nat" where
  "boundary_below s 0 = 0"
| "boundary_below s (Suc k) = (if is_char_boundary s (Suc k) then Suc k else boundary_below s k)"

definition truncate_text :: "string \<Rightarrow> int \<Rightarrow> string" where
  "truncate_text value max_bytes =
     (let limit = nat (max max_bytes 1) in
      if length value \<le> limit then value else take (boundary_below value (min limit (length value))) value)"

section \<open>Artifacts\<close>

definition contract_failure :: "string \<Rightarrow> processor_failure" where
  "contract_failure message = \<lparr>fl_class = InternalContractViolation, fl_code = ''processor_output_invalid'', fl_message = message\<rparr>"

definition i64_saturating_add :: "int \<Rightarrow> int \<Rightarrow> int" where
  "i64_saturating_add a b = max (- i64_max - 1) (min i64_max (a + b))"

fun artifacts_total :: "claim_limits \<Rightarrow> string list \<Rightarrow> int \<Rightarrow> processor_artifact list \<Rightarrow> processor_failure + int" where
  "artifacts_total limits roles acc [] = Inr acc"
| "artifacts_total limits roles acc (a # as) =
     (let n = i64_len (out_content a);
          role_limit = (if out_role a \<in> {''log'', ''report''} then l_diagnostic_bytes limits else l_output_bytes limits)
      in if out_role a = [] \<or> out_role a \<in> set roles \<or> n \<le> 0 \<or> role_limit < n
         then Inl (contract_failure ''Processor returned an invalid artifact'')
         else artifacts_total limits (out_role a # roles) (i64_saturating_add acc n) as)"

definition validate_artifacts :: "processor_artifact list \<Rightarrow> claim_limits \<Rightarrow> processor_failure + processor_artifact list" where
  "validate_artifacts outs limits =
     (if outs = [] \<or> max_artifacts < length outs
      then Inl (contract_failure ''Processor returned an invalid artifact count'')
      else case artifacts_total limits [] 0 outs of
        Inl e \<Rightarrow> Inl e
      | Inr n \<Rightarrow>
          if i64_saturating_add (l_output_bytes limits) (l_diagnostic_bytes limits) < n
          then Inl (contract_failure ''Processor artifact set exceeds its byte limit'')
          else Inr outs)"

section \<open>Executing a claim\<close>

record ticket_input =
  ti_role :: string
  ti_media_type :: string
  ti_filename :: string
  ti_size_bytes :: int
  ti_sha256 :: string

record ticket =
  tk_transfer_id :: uuid
  tk_upload_url :: string
  tk_upload_token :: string

record 's core =
  co_download :: "string \<Rightarrow> string \<Rightarrow> 's \<Rightarrow> (client_error + bytes) \<times> 's"
  co_ticket :: "uuid \<Rightarrow> ticket_input \<Rightarrow> 's \<Rightarrow> (client_error + ticket) \<times> 's"
  co_upload :: "string \<Rightarrow> string \<Rightarrow> bytes \<Rightarrow> 's \<Rightarrow> (client_error + unit) \<times> 's"
  co_complete :: "uuid \<Rightarrow> completed_artifact list \<Rightarrow> json \<Rightarrow> 's \<Rightarrow> (client_error + unit) \<times> 's"
  co_fail :: "uuid \<Rightarrow> worker_failure_class \<Rightarrow> string \<Rightarrow> string \<Rightarrow> 's \<Rightarrow> (client_error + unit) \<times> 's"
  co_release :: "uuid \<Rightarrow> string \<Rightarrow> 's \<Rightarrow> (client_error + unit) \<times> 's"
  co_cancelled :: "'s \<Rightarrow> bool"

record processor_request =
  rq_job_id :: uuid
  rq_attempt :: int
  rq_claim_id :: uuid
  rq_input :: processor_input
  rq_options :: json
  rq_limits :: claim_limits

type_synonym 's processor = "processor_request \<Rightarrow> 's \<Rightarrow> (processor_failure + processor_result) \<times> 's"

datatype execute_error = Cancelled_execution | Client_execution client_error

definition processor_request_of :: "worker_claim \<Rightarrow> processor_input \<Rightarrow> processor_request" where
  "processor_request_of claim input =
     \<lparr>rq_job_id = wc_job_id claim, rq_attempt = wc_attempt claim, rq_claim_id = wc_claim_id claim, rq_input = input,
      rq_options = wc_options claim, rq_limits = wc_limits claim\<rparr>"

definition report_failure :: "'s core \<Rightarrow> worker_claim \<Rightarrow> processor_failure \<Rightarrow> 's \<Rightarrow> 's" where
  "report_failure core claim failure s =
     snd (co_fail core (wc_claim_id claim) (fl_class failure) (normalize_code (fl_code failure))
            (truncate_text (fl_message failure) (l_diagnostic_bytes (wc_limits claim))) s)"

definition release_cancelled :: "'s core \<Rightarrow> worker_claim \<Rightarrow> 's \<Rightarrow> 's" where
  "release_cancelled core claim s = snd (co_release core (wc_claim_id claim) ''cancellation_or_lease_loss'' s)"

text \<open>The loop over the artifacts, with the completed ones in reverse order.\<close>

fun upload_artifacts ::
  "input_env \<Rightarrow> 's core \<Rightarrow> worker_claim \<Rightarrow> completed_artifact list \<Rightarrow> processor_artifact list \<Rightarrow> 's \<Rightarrow>
   (execute_error + completed_artifact list) \<times> 's" where
  "upload_artifacts env core claim completed [] s = (Inr (rev completed), s)"
| "upload_artifacts env core claim completed (a # as) s =
     (if co_cancelled core s then (Inl Cancelled_execution, release_cancelled core claim s)
      else
        let size_bytes = i64_len (out_content a); sha = in_hex env (in_sha256 env (out_content a)) in
        (case co_ticket core (wc_claim_id claim)
                \<lparr>ti_role = out_role a, ti_media_type = out_media_type a, ti_filename = out_filename a,
                 ti_size_bytes = size_bytes, ti_sha256 = sha\<rparr> s of
           (Inl e, s1) \<Rightarrow> (Inl (Client_execution e), s1)
         | (Inr t, s1) \<Rightarrow>
             (case co_upload core (tk_upload_url t) (tk_upload_token t) (out_content a) s1 of
                (Inl e, s2) \<Rightarrow> (Inl (Client_execution e), s2)
              | (Inr _, s2) \<Rightarrow>
                  upload_artifacts env core claim
                    (\<lparr>ca_transfer_id = tk_transfer_id t, ca_role = out_role a, ca_size_bytes = size_bytes, ca_sha256 = sha\<rparr> # completed)
                    as s2)))"

definition deliver_result ::
  "input_env \<Rightarrow> 's core \<Rightarrow> worker_claim \<Rightarrow> processor_result \<Rightarrow> 's \<Rightarrow> (execute_error + unit) \<times> 's" where
  "deliver_result env core claim result s =
     (case validate_artifacts (res_artifacts result) (wc_limits claim) of
        Inl failure \<Rightarrow> (Inr (), report_failure core claim failure s)
      | Inr outs \<Rightarrow>
          (case upload_artifacts env core claim [] outs s of
             (Inl e, s1) \<Rightarrow> (Inl e, s1)
           | (Inr completed, s1) \<Rightarrow>
               (case co_complete core (wc_claim_id claim) completed (res_metadata result) s1 of
                  (Inl e, s2) \<Rightarrow> (Inl (Client_execution e), s2)
                | (Inr _, s2) \<Rightarrow> (Inr (), s2))))"

definition execute_claim ::
  "input_env \<Rightarrow> 's core \<Rightarrow> 's processor \<Rightarrow> worker_claim \<Rightarrow> 's \<Rightarrow> (execute_error + unit) \<times> 's" where
  "execute_claim env core process claim s =
     (case co_download core (ci_download_url (wc_input claim)) (ci_download_token (wc_input claim)) s of
        (Inl e, s1) \<Rightarrow>
          (Inl (Client_execution e),
           report_failure core claim \<lparr>fl_class = TransientInfrastructure, fl_code = ''input_transfer_failed'',
             fl_message = ''Immutable input could not be downloaded''\<rparr> s1)
      | (Inr content, s1) \<Rightarrow>
          if co_cancelled core s1 then (Inl Cancelled_execution, release_cancelled core claim s1)
          else (case verify_input env content (wc_input claim) of
             Inl e \<Rightarrow>
               (Inr (), report_failure core claim \<lparr>fl_class = InvalidInput, fl_code = ''processing_input_invalid'',
                  fl_message = ''The immutable processing input is invalid''\<rparr> s1)
           | Inr input \<Rightarrow>
               (case process (processor_request_of claim input) s1 of (outcome, s2) \<Rightarrow>
                  if co_cancelled core s2 then (Inl Cancelled_execution, release_cancelled core claim s2)
                  else (case outcome of
                     Inl failure \<Rightarrow> (Inr (), report_failure core claim failure s2)
                   | Inr result \<Rightarrow> deliver_result env core claim result s2))))"

text \<open>What the agent does with an acquired batch: all but the first claim are given back.\<close>

fun release_extra :: "'s core \<Rightarrow> worker_claim list \<Rightarrow> 's \<Rightarrow> 's" where
  "release_extra core [] s = s"
| "release_extra core (c # cs) s = release_extra core cs (snd (co_release core (wc_claim_id c) ''claim_batch_contract_mismatch'' s))"

definition accept_batch ::
  "'s core \<Rightarrow> ((string \<times> string) \<times> processor_descriptor) list \<Rightarrow> worker_claim list \<Rightarrow> 's \<Rightarrow> worker_claim option \<times> 's" where
  "accept_batch core registry batch s =
     (case batch of
        [] \<Rightarrow> (None, s)
      | claim # granted \<Rightarrow>
          let s1 = release_extra core granted s in
          if map_of registry (processor_key (operation_as_ref (wc_operation claim)) (wc_processor_contract claim)) = None
          then (None, snd (co_release core (wc_claim_id claim) ''processor_registry_mismatch'' s1))
          else (Some claim, s1))"

section \<open>The lease task\<close>

record lease_state =
  ls_stop_at :: instant
  ls_cancelled :: bool
  ls_ended :: bool

text \<open>
  What happens to the task: the deadline fires, the stop signal comes, or a heartbeat that was sent
  is answered, fails or is overtaken, at a time of the worker's clock.
\<close>

record heartbeat_answer =
  ha_state :: claim_heartbeat_state
  ha_server_time :: instant
  ha_lease_expires_at :: "instant option"

datatype lease_event =
    Deadline instant
  | Stopped instant
  | Heartbeat_answered instant "client_error + heartbeat_answer"

definition saturating_remaining :: "instant \<Rightarrow> instant \<Rightarrow> duration" where
  "saturating_remaining expiry now = max 0 (max 0 (expiry - now) - claim_renewal_margin)"

text \<open>\<open>wall\<close> is the wall clock of the worker at the start, \<open>now\<close> its monotonic clock.\<close>

definition start_lease :: "instant \<Rightarrow> instant \<Rightarrow> instant \<Rightarrow> lease_state" where
  "start_lease initial_expiry wall now =
     \<lparr>ls_stop_at = now + saturating_remaining initial_expiry wall, ls_cancelled = False, ls_ended = False\<rparr>"

fun lease_step :: "lease_event \<Rightarrow> lease_state \<Rightarrow> lease_state" where
  "lease_step (Deadline t) l =
     (if ls_ended l \<or> t < ls_stop_at l then l else l\<lparr>ls_cancelled := True, ls_ended := True\<rparr>)"
| "lease_step (Stopped t) l = (if ls_ended l then l else l\<lparr>ls_ended := True\<rparr>)"
| "lease_step (Heartbeat_answered t response) l =
     (if ls_ended l then l
      else if ls_stop_at l \<le> t then l\<lparr>ls_cancelled := True, ls_ended := True\<rparr>
      else (case response of
              Inl e \<Rightarrow> l
            | Inr a \<Rightarrow>
                if ha_state a \<noteq> Active then l\<lparr>ls_cancelled := True, ls_ended := True\<rparr>
                else (case ha_lease_expires_at a of
                        None \<Rightarrow> l
                      | Some expiry \<Rightarrow> l\<lparr>ls_stop_at := t + saturating_remaining expiry (ha_server_time a)\<rparr>)))"

text \<open>The session heartbeat: the session is lost after four failures in a row.\<close>

fun session_failures :: "nat \<Rightarrow> bool list \<Rightarrow> bool" where
  "session_failures failures [] = False"
| "session_failures failures (answered # rest) =
     (if answered then session_failures 0 rest
      else if 4 \<le> min 255 (failures + 1) then True else session_failures (min 255 (failures + 1)) rest)"

end
