(* ===== verification/Agent_Properties.thy ===== *)
theory Agent_Properties
  imports Worker_Agent Operation_Properties
begin

text \<open>
  Properties of the worker: its retries against the replay records of the server, how an execution
  closes its claim, that its failure reports pass the server's checks, and when its lease task stops.
\<close>

section \<open>Retries\<close>

lemma wire_rendered: "wire_response r = rendered r"
  by (simp add: wire_response_def rendered_def split: sum.split)

text \<open>What every attempt keeps, the loop keeps, and its result is the result of an attempt.\<close>

lemma retry_loop_attempt:
  assumes "I s" and "\<And>k s. k < limit \<Longrightarrow> I s \<Longrightarrow> I (snd (call k s))" and "attempt < limit"
    and "retry_loop limit again call attempt s = (r, s')"
  shows "\<exists>k s0. k < limit \<and> I s0 \<and> call k s0 = (r, s')"
  using assms(1,3,4)
proof (induction "limit - attempt" arbitrary: attempt s rule: less_induct)
  case less
  obtain r1 s1 where c: "call attempt s = (r1, s1)" by fastforce
  have I1: "I s1" using assms(2) [OF less.prems(2,1)] c by simp
  have here: "\<exists>k s0. k < limit \<and> I s0 \<and> call k s0 = (r1, s1)" using c less.prems(1,2) by blast
  show ?case
  proof (cases "\<exists>e. r1 = Inl e \<and> again e \<and> attempt + 1 < limit")
    case True
    then have "retry_loop limit again call (attempt + 1) s1 = (r, s')" "limit - (attempt + 1) < limit - attempt"
      using less.prems(3) c by (auto simp: retry_loop.simps [of limit again call attempt])
    with less.hyps I1 True show ?thesis by blast
  next
    case False
    then have "(r1, s1) = (r, s')"
      using less.prems(3) c by (subst (asm) retry_loop.simps) (auto split: sum.splits if_splits)
    with here show ?thesis by simp
  qed
qed

text \<open>The tables other than the replay records.\<close>

abbreviation tables :: "processing_db \<Rightarrow> processing_db" where
  "tables db \<equiv> db\<lparr>requests := []\<rparr>"

text \<open>
  A mutation that the replay records protect: it leaves them alone, it changes nothing when it answers
  with a server error, and its status can be recorded.
\<close>

definition replayable :: "mutation \<Rightarrow> bool" where
  "replayable action \<longleftrightarrow>
     (\<forall>d. requests (snd (action d)) = requests d \<and> (server_error (fst (action d)) \<longrightarrow> snd (action d) = d) \<and>
        100 \<le> rsp_status (rendered (fst (action d))) \<and> rsp_status (rendered (fst (action d))) \<le> 999 \<and>
        rsp_status (rendered (fst (action d))) \<noteq> request_pending_status)"

text \<open>Nothing ran yet, and no record of the request is left; or it ran once, and its answer is recorded.\<close>

definition not_run :: "string \<Rightarrow> uuid \<Rightarrow> processing_db \<Rightarrow> processing_db \<Rightarrow> bool" where
  "not_run ident r db s \<longleftrightarrow> tables s = tables db \<and> find (request_key ident r) (requests s) = None"

definition ran_once :: "string \<Rightarrow> uuid \<Rightarrow> string \<Rightarrow> bytes \<Rightarrow> instant \<Rightarrow> (nat \<Rightarrow> mutation) \<Rightarrow> processing_db \<Rightarrow> processing_db \<Rightarrow> bool" where
  "ran_once ident r route digest expiry action db s \<longleftrightarrow>
     (\<exists>j d q. j < mutation_attempts \<and> tables d = tables db \<and> tables s = tables (snd (action j d)) \<and> \<not> server_error (fst (action j d)) \<and>
        find (request_key ident r) (requests s) = Some q \<and> q_route_key q = route \<and> q_payload_digest q = digest \<and>
        expiry \<le> q_expires_at q \<and> q_response_status q = rsp_status (rendered (fst (action j d))) \<and>
        q_response_body q = rsp_body (rendered (fst (action j d))))"

lemma request_when_not_run:
  assumes run: "not_run (aw_identity worker) r db s" and act: "\<And>k. replayable (action k)" and len: "length (sha payload) = 32" and k: "k < mutation_attempts"
    and w: "with_worker_request sha worker r route payload t1 t2 (action k) s = (out, s')" and expiry: "expiry \<le> t2 + request_replay_ttl"
  shows "(server_error out \<and> not_run (aw_identity worker) r db s') \<or>
    (\<exists>j d. j < mutation_attempts \<and> tables d = tables db \<and> tables s' = tables (snd (action j d)) \<and> out = fst (action j d) \<and>
       ran_once (aw_identity worker) r route (sha payload) expiry action db s')"
proof -
  let ?i = "aw_identity worker"
  let ?b = "begin_worker_request sha ?i r route payload t1 s"
  from run len obtain rv s1 where b: "?b = (Inr (Execute rv), s1)" and t1: "tables s1 = tables db"
    by (auto simp: not_run_def begin_worker_request_def reserve_request_def Let_def)
  obtain res s2 where a: "action k s1 = (res, s2)" by fastforce
  note facts = act [unfolded replayable_def, rule_format, of k s1]
  have same: "requests s2 = requests s1" using facts a by simp
  note only = reserved_only(1) [OF b same] and row = reserved_only(2) [OF b same]
  show ?thesis
  proof (cases "server_error res")
    case True
    then obtain e where e: "res = Inl e" "is_server_error e" by (auto simp: server_error_def split: sum.splits)
    have s2: "s2 = s1" using facts a True by simp
    have ab: "abort_request rv s2 = (Inr (), s2\<lparr>requests := delete_where (reserved_by rv) (requests s2)\<rparr>)"
      using only by (simp add: abort_request_def)
    have out: "out = Inl e" "s' = s2\<lparr>requests := delete_where (reserved_by rv) (requests s2)\<rparr>"
      using w by (simp_all add: with_worker_request_def b a e ab split: unit.splits)
    have none: "find (request_key ?i r) (delete_where (reserved_by rv) (requests s1)) = None"
      unfolding find_None_set
    proof
      fix q assume q: "q \<in> set (delete_where (reserved_by rv) (requests s1))"
      show "\<not> request_key ?i r q"
      proof
        assume k: "request_key ?i r q"
        from q have q1: "q \<in> set (requests s1)" "\<not> reserved_by rv q" by (simp_all add: delete_where_def)
        from q1(1) k begin_execute(2) [OF b]
        have "q_response_status q = request_pending_status \<and> q_route_key q = route \<and> q_payload_digest q = sha payload"
          by (auto simp: delete_where_def)
        with q1(2) k begin_execute(1) [OF b] show False by (simp add: reserved_by_def)
      qed
    qed
    then have "not_run ?i r db s'" using t1 by (simp add: not_run_def out(2) s2)
    moreover have "server_error out" by (simp add: out(1) server_error_def e(2))
    ultimately show ?thesis by simp
  next
    case False
    have w2: "out = res" "s' = snd (finish_request rv (rsp_status (rendered res)) (rsp_body (rendered res)) t2 s2)"
      using with_request_executed [OF b, of "action k" res s2 t2, OF a same False] w by simp_all
    let ?f = "\<lambda>q. q\<lparr>q_response_status := rsp_status (rendered res), q_response_body := rsp_body (rendered res), q_expires_at := t2 + request_replay_ttl\<rparr>"
    have s': "s' = s2\<lparr>requests := update_where (reserved_by rv) ?f (requests s2)\<rparr>" by (simp add: w2(2) finish_request_def)
    let ?q = "\<lparr>q_worker_identity = ?i, q_request_id = r, q_route_key = route, q_payload_digest = sha payload,
        q_response_status = rsp_status (rendered res), q_response_body = rsp_body (rendered res), q_created_at = t1,
        q_expires_at = t2 + request_replay_ttl\<rparr>"
    have "find (request_key ?i r) (requests s') = Some ?q" using row [of ?f] by (simp add: s' request_key_def)
    then have "ran_once ?i r route (sha payload) expiry action db s'"
      unfolding ran_once_def using t1 a False expiry k by (intro exI [of _ k] exI [of _ s1] exI [of _ ?q]) (simp add: s')
    moreover have "tables s' = tables (snd (action k s1))" by (simp add: s' a)
    ultimately show ?thesis using t1 w2(1) a k by (intro disjI2 exI [of _ k] exI [of _ s1]) simp
  qed
qed

lemma request_when_ran:
  assumes run: "ran_once (aw_identity worker) r route (sha payload) expiry action db s" and act: "\<And>k. replayable (action k)" and t: "t1 < expiry"
    and w: "with_worker_request sha worker r route payload t1 t2 action' s = (out, s')"
  shows "s' = s \<and> (\<exists>j d. j < mutation_attempts \<and> tables d = tables db \<and> tables s' = tables (snd (action j d)) \<and> out = Inr (rendered (fst (action j d))))"
proof -
  from run obtain j d q where j: "j < mutation_attempts" and d: "tables d = tables db" "tables s = tables (snd (action j d))"
    and q: "find (request_key (aw_identity worker) r) (requests s) = Some q" "q_route_key q = route" "q_payload_digest q = sha payload"
      "expiry \<le> q_expires_at q" "q_response_status q = rsp_status (rendered (fst (action j d)))"
      "q_response_body q = rsp_body (rendered (fst (action j d)))"
    unfolding ran_once_def by blast
  note facts = act [unfolded replayable_def, rule_format, of j d]
  have "begin_worker_request sha (aw_identity worker) r route payload t1 s =
      (Inr (Replay (rsp_status (rendered (fst (action j d)))) (rsp_body (rendered (fst (action j d))))), s)"
    using q t facts by (simp add: begin_worker_request_def)
  then have "out = Inr (rendered (fst (action j d)))" "s' = s"
    using w facts by (auto simp: with_worker_request_def replay_response_def)
  with j d show ?thesis by blast
qed

text \<open>The call of the client at its attempt \<open>k\<close>.\<close>

definition retried_request :: "(bytes \<Rightarrow> bytes) \<Rightarrow> authenticated_worker \<Rightarrow> uuid \<Rightarrow> string \<Rightarrow> bytes \<Rightarrow> (nat \<Rightarrow> instant) \<Rightarrow> (nat \<Rightarrow> instant) \<Rightarrow>
  (nat \<Rightarrow> mutation) \<Rightarrow> nat \<Rightarrow> mutation" where
  "retried_request sha worker r route payload t1 t2 action k = with_worker_request sha worker r route payload (t1 k) (t2 k) (action k)"

lemma receive_json_rendered: "receive_json decode b (Inr (rendered x)) = receive_json decode b x"
  by (cases x) (simp_all add: receive_json_def receive_status_def wire_response_def rendered_def)

lemma attempt_step:
  assumes act: "\<And>k. replayable (action k)" and len: "length (sha payload) = 32"
    and tk: "k < mutation_attempts" "t1 k < expiry" "expiry \<le> t2 k + request_replay_ttl"
    and I: "not_run (aw_identity worker) r db s \<or> ran_once (aw_identity worker) r route (sha payload) expiry action db s"
    and call: "worker_json_attempt decode net (retried_request sha worker r route payload t1 t2 action k) s = (out, s')"
  shows "not_run (aw_identity worker) r db s' \<or> ran_once (aw_identity worker) r route (sha payload) expiry action db s'"
    and "out = Inr v \<Longrightarrow> \<exists>j d. j < mutation_attempts \<and> tables d = tables db \<and> tables s' = tables (snd (action j d)) \<and> receive_json decode True (fst (action j d)) = Inr v"
proof -
  let ?i = "aw_identity worker"
  obtain a s1 where w: "with_worker_request sha worker r route payload (t1 k) (t2 k) (action k) s = (a, s1)" by fastforce
  have ran: "\<not> server_error a \<longrightarrow> (\<exists>j d. j < mutation_attempts \<and> tables d = tables db \<and> tables s1 = tables (snd (action j d)) \<and>
      (a = fst (action j d) \<or> a = Inr (rendered (fst (action j d)))))"
    and kept: "not_run ?i r db s1 \<or> ran_once ?i r route (sha payload) expiry action db s1"
    using I request_when_not_run [of worker r db s action, OF _ act len tk(1) w tk(3)] request_when_ran [of worker r route sha payload expiry action db s, OF _ act tk(2) w] by metis+
  have sv: "receive_json decode b a = Inr x \<Longrightarrow> \<not> server_error a" for b x
    by (auto simp: server_error_def is_server_error_def receive_json_def receive_status_def wire_response_def checked_def
        split: sum.splits if_splits prod.splits)
  show "not_run ?i r db s' \<or> ran_once ?i r route (sha payload) expiry action db s'"
    using call I kept w by (auto simp: worker_json_attempt_def transmit_def retried_request_def split: delivery.splits)
  assume v: "out = Inr v"
  from call v w have "net = Answered" "s' = s1" "receive_json decode True a = Inr v"
    by (auto simp: worker_json_attempt_def transmit_def retried_request_def receive_json_def split: delivery.splits sum.splits)
  with ran sv show "\<exists>j d. j < mutation_attempts \<and> tables d = tables db \<and> tables s' = tables (snd (action j d)) \<and> receive_json decode True (fst (action j d)) = Inr v"
    by (metis receive_json_rendered)
qed

text \<open>
  C21. A mutation of a worker is applied at most once although the client repeats it. Whatever the network
  loses of up to four attempts (the request, the response or its body), in the end the tables are as
  before or as after one application; and when the client gets a result, it is that of the one
  application, that of the attempt that ran. The hypotheses are that the request identifier is new, that the
  attempts fall into the lifetime of a replay record, and that the mutation (which may read the time of its
  attempt) is one that replay records protect.
\<close>

theorem retried_mutation_applied_once:
  assumes "find (request_key (aw_identity worker) r) (requests db) = None" and "length (sha payload) = 32"
    and "\<forall>k. replayable (action k)"
    and "\<forall>k < mutation_attempts. t1 k < expiry \<and> expiry \<le> t2 k + request_replay_ttl"
    and "worker_json base path decode net (\<lambda>_. retried_request sha worker r route payload t1 t2 action) db = (out, db')"
  shows "(tables db' = tables db \<or> (\<exists>j d. j < mutation_attempts \<and> tables d = tables db \<and> tables db' = tables (snd (action j d)))) \<and>
    (\<forall>v. out = Inr v \<longrightarrow> (\<exists>j d. j < mutation_attempts \<and> tables d = tables db \<and> tables db' = tables (snd (action j d)) \<and>
       receive_json decode True (fst (action j d)) = Inr v))"
proof -
  let ?I = "\<lambda>s. not_run (aw_identity worker) r db s \<or> ran_once (aw_identity worker) r route (sha payload) expiry action db s"
  let ?call = "\<lambda>k. worker_json_attempt decode (net k) (retried_request sha worker r route payload t1 t2 action k)"
  note step = attempt_step [of action sha payload _ t1 expiry t2, OF assms(3) [rule_format] assms(2)]
  have tk: "k < mutation_attempts" "t1 k < expiry" "expiry \<le> t2 k + request_replay_ttl" if "k < mutation_attempts" for k using assms(4) that by blast+
  have start: "?I db" using assms(1) by (simp add: not_run_def)
  have keeps: "?I (snd (?call k s))" if "k < mutation_attempts" "?I s" for k s
    by (rule step(1) [OF tk [OF that(1)] that(2)]) (rule prod.collapse [symmetric])
  show ?thesis
  proof (cases "resolve (bu_join base) (bu_url base) path")
    case (Inl e)
    with assms(5) show ?thesis by (auto simp: worker_json_def at_url_def)
  next
    case (Inr url)
    have "0 < mutation_attempts" by (simp add: mutation_attempts_def)
    moreover have "retry_loop mutation_attempts retryable_mutation_error ?call 0 db = (out, db')"
      using assms(5) Inr by (simp add: worker_json_def at_url_def)
    ultimately obtain k s0 where c: "k < mutation_attempts" "?I s0" "?call k s0 = (out, db')"
      using retry_loop_attempt [of ?I db mutation_attempts ?call 0, OF start keeps] by blast
    from step(1) [OF tk [OF c(1)] c(2,3)]
    have "tables db' = tables db \<or> (\<exists>j d. j < mutation_attempts \<and> tables d = tables db \<and> tables db' = tables (snd (action j d)))"
      unfolding not_run_def ran_once_def by blast
    with step(2) [OF tk [OF c(1)] c(2,3)] show ?thesis by blast
  qed
qed

section \<open>Executions\<close>

text \<open>The calls that a client makes, recorded beside the state.\<close>

datatype core_call =
    Download_call
  | Ticket_call uuid string
  | Upload_call
  | Complete_call uuid "completed_artifact list"
  | Fail_call uuid worker_failure_class string string
  | Release_call uuid string

definition note_call :: "core_call \<Rightarrow> ('s \<Rightarrow> 'r \<times> 's) \<Rightarrow> 's \<times> core_call list \<Rightarrow> 'r \<times> 's \<times> core_call list" where
  "note_call c f x = (case f (fst x) of (r, s) \<Rightarrow> (r, s, snd x @ [c]))"

definition logged :: "'s core \<Rightarrow> ('s \<times> core_call list) core" where
  "logged core =
     \<lparr>co_download = (\<lambda>url token. note_call Download_call (co_download core url token)),
      co_ticket = (\<lambda>i t. note_call (Ticket_call i (ti_role t)) (co_ticket core i t)),
      co_upload = (\<lambda>url token content. note_call Upload_call (co_upload core url token content)),
      co_complete = (\<lambda>i arts m. note_call (Complete_call i arts) (co_complete core i arts m)),
      co_fail = (\<lambda>i cls code message. note_call (Fail_call i cls code message) (co_fail core i cls code message)),
      co_release = (\<lambda>i reason. note_call (Release_call i reason) (co_release core i reason)),
      co_cancelled = (\<lambda>x. co_cancelled core (fst x))\<rparr>"

definition unlogged :: "'s processor \<Rightarrow> ('s \<times> core_call list) processor" where
  "unlogged process rq x = (case process rq (fst x) of (r, s) \<Rightarrow> (r, s, snd x))"

fun closes :: "uuid \<Rightarrow> core_call \<Rightarrow> bool" where
  "closes i (Complete_call j _) \<longleftrightarrow> j = i"
| "closes i (Fail_call j _ _ _) \<longleftrightarrow> j = i"
| "closes i (Release_call j _) \<longleftrightarrow> j = i"
| "closes i _ = False"

fun is_closing :: "core_call \<Rightarrow> bool" where
  "is_closing Download_call = False"
| "is_closing (Ticket_call _ _) = False"
| "is_closing Upload_call = False"
| "is_closing _ = True"

text \<open>
  A log that ends with one call that closes the claim; or, when the execution ends with a client error,
  a log without one. What is complete names one artifact for each upload.
\<close>

definition closed_once :: "uuid \<Rightarrow> (execute_error + 'a) \<Rightarrow> core_call list \<Rightarrow> bool" where
  "closed_once i r log \<longleftrightarrow>
     (log \<noteq> [] \<and> closes i (last log) \<and> list_all (\<lambda>c. \<not> is_closing c) (butlast log)) \<or>
     ((\<exists>e. r = Inl (Client_execution e)) \<and> list_all (\<lambda>c. \<not> is_closing c) log)"

definition ticket_roles :: "core_call list \<Rightarrow> string list" where
  "ticket_roles log = concat (map (\<lambda>d. case d of Ticket_call j role \<Rightarrow> [role] | _ \<Rightarrow> []) log)"

definition uploads :: "core_call list \<Rightarrow> nat" where
  "uploads log = length (filter (\<lambda>d. d = Upload_call) log)"

definition completes_uploads :: "core_call list \<Rightarrow> bool" where
  "completes_uploads log \<longleftrightarrow>
     (\<forall>i arts. Complete_call i arts \<in> set log \<longrightarrow>
        arts \<noteq> [] \<and> map ca_role arts = ticket_roles log \<and> length arts = uploads log)"

lemma logged_sel [simp]:
  "co_download (logged core) url token = note_call Download_call (co_download core url token)"
  "co_ticket (logged core) i t = note_call (Ticket_call i (ti_role t)) (co_ticket core i t)"
  "co_upload (logged core) url token content = note_call Upload_call (co_upload core url token content)"
  "co_complete (logged core) i arts m = note_call (Complete_call i arts) (co_complete core i arts m)"
  "co_fail (logged core) i cls code message = note_call (Fail_call i cls code message) (co_fail core i cls code message)"
  "co_release (logged core) i reason = note_call (Release_call i reason) (co_release core i reason)"
  "co_cancelled (logged core) x = co_cancelled core (fst x)"
  by (simp_all add: logged_def)

lemma report_log: "snd (report_failure (logged core) claim failure x) = snd x @ [Fail_call (wc_claim_id claim) (fl_class failure)
    (normalize_code (fl_code failure)) (truncate_text (fl_message failure) (l_diagnostic_bytes (wc_limits claim)))]"
  by (simp add: report_failure_def note_call_def split: prod.split)

lemma release_log: "snd (release_cancelled (logged core) claim x) = snd x @ [Release_call (wc_claim_id claim) ''cancellation_or_lease_loss'']"
  by (simp add: release_cancelled_def note_call_def split: prod.split)

lemma ticket_roles_append [simp]: "ticket_roles (xs @ ys) = ticket_roles xs @ ticket_roles ys"
  by (simp add: ticket_roles_def)

lemma uploads_append [simp]: "uploads (xs @ ys) = uploads xs + uploads ys"
  by (simp add: uploads_def)

lemma upload_artifacts_log:
  assumes "upload_artifacts env (logged core) claim completed as x = (r, y)"
    and "list_all (\<lambda>c. \<not> is_closing c) (snd x)"
    and "map ca_role (rev completed) = ticket_roles (snd x)" and "length completed = uploads (snd x)"
  shows "(\<exists>cs. r = Inr cs \<and> list_all (\<lambda>c. \<not> is_closing c) (snd y) \<and> length cs = length completed + length as \<and>
      map ca_role cs = ticket_roles (snd y) \<and> length cs = uploads (snd y)) \<or>
    (\<exists>e. r = Inl e \<and> closed_once (wc_claim_id claim) r (snd y) \<and> list_all (\<lambda>c. \<not> is_closing c) (butlast (snd y)) \<and>
      (\<forall>i arts. Complete_call i arts \<notin> set (snd y)))"
  using assms
proof (induction as arbitrary: completed x)
  case Nil
  then show ?case by auto
next
  case (Cons a as)
  have no: "Complete_call i arts \<notin> set (snd x)" for i arts using Cons.prems(2) by (auto simp: list_all_iff)
  show ?case
  proof (cases "co_cancelled core (fst x)")
    case True
    with Cons.prems(1) have r: "r = Inl Cancelled_execution" "y = release_cancelled (logged core) claim x" by auto
    have "snd y = snd x @ [Release_call (wc_claim_id claim) ''cancellation_or_lease_loss'']"
      unfolding r(2) by (rule release_log)
    with r Cons.prems(2) no show ?thesis by (auto simp: closed_once_def)
  next
    case False
    let ?n = "i64_len (out_content a)" and ?sha = "in_hex env (in_sha256 env (out_content a))"
    obtain t1 s1 where t1: "co_ticket core (wc_claim_id claim) \<lparr>ti_role = out_role a, ti_media_type = out_media_type a,
        ti_filename = out_filename a, ti_size_bytes = ?n, ti_sha256 = ?sha\<rparr> (fst x) = (t1, s1)" by fastforce
    let ?l1 = "snd x @ [Ticket_call (wc_claim_id claim) (out_role a)]"
    show ?thesis
    proof (cases t1)
      case (Inl e)
      with Cons.prems(1) False t1 have "r = Inl (Client_execution e)" "y = (s1, ?l1)" by (auto simp: note_call_def Let_def)
      with Cons.prems(2) no show ?thesis by (auto simp: closed_once_def butlast_append list_all_iff)
    next
      case (Inr t)
      obtain u s2 where u: "co_upload core (tk_upload_url t) (tk_upload_token t) (out_content a) s1 = (u, s2)" by fastforce
      let ?l2 = "?l1 @ [Upload_call]"
      show ?thesis
      proof (cases u)
        case (Inl e)
        with Cons.prems(1) False t1 Inr u have "r = Inl (Client_execution e)" "y = (s2, ?l2)" by (auto simp: note_call_def Let_def)
        with Cons.prems(2) no show ?thesis by (auto simp: closed_once_def butlast_append list_all_iff)
      next
        case (Inr _)
        let ?c = "\<lparr>ca_transfer_id = tk_transfer_id t, ca_role = out_role a, ca_size_bytes = ?n, ca_sha256 = ?sha\<rparr>"
        have "upload_artifacts env (logged core) claim (?c # completed) as (s2, ?l2) = (r, y)"
          using Cons.prems(1) False t1 \<open>t1 = Inr t\<close> u Inr by (auto simp: note_call_def Let_def)
        from Cons.IH [OF this] Cons.prems(2-4) show ?thesis
          by (auto simp: ticket_roles_def uploads_def)
      qed
    qed
  qed
qed

lemma closed_once_append [simp]:
  "closed_once i r (log @ [c]) \<longleftrightarrow>
     (closes i c \<and> list_all (\<lambda>c. \<not> is_closing c) log) \<or>
     ((\<exists>e. r = Inl (Client_execution e)) \<and> list_all (\<lambda>c. \<not> is_closing c) (log @ [c]))"
  by (simp add: closed_once_def)

lemma completes_uploads_none: "(\<forall>i arts. Complete_call i arts \<notin> set log) \<Longrightarrow> completes_uploads log"
  by (simp add: completes_uploads_def)

lemma open_log: "list_all (\<lambda>c. \<not> is_closing c) log \<Longrightarrow> Complete_call i arts \<notin> set log"
  by (auto simp: list_all_iff)

lemma deliver_result_log:
  assumes "deliver_result env (logged core) claim result x = (r, y)"
    and log: "list_all (\<lambda>c. \<not> is_closing c) (snd x)" "ticket_roles (snd x) = []" "uploads (snd x) = 0"
  shows "closed_once (wc_claim_id claim) r (snd y) \<and> completes_uploads (snd y)"
proof (cases "validate_artifacts (res_artifacts result) (wc_limits claim)")
  case (Inl failure)
  with assms(1) have "y = report_failure (logged core) claim failure x" by (simp add: deliver_result_def)
  then show ?thesis using log open_log [OF log(1)] by (auto simp: report_log completes_uploads_def)
next
  case (Inr arts)
  then have ne: "arts \<noteq> []" by (auto simp: validate_artifacts_def split: if_splits sum.splits)
  obtain u z where u: "upload_artifacts env (logged core) claim [] arts x = (u, z)"
    by (cases "upload_artifacts env (logged core) claim [] arts x")
  note up = upload_artifacts_log [OF u log(1)]
  show ?thesis
  proof (cases u)
    case (Inl e)
    with assms(1) Inr u have "r = Inl e" "y = z" by (simp_all add: deliver_result_def)
    with up log Inl show ?thesis by (auto intro: completes_uploads_none simp: closed_once_def)
  next
    case (Inr cs)
    with up log have z: "list_all (\<lambda>c. \<not> is_closing c) (snd z)" "length cs = length arts"
      "map ca_role cs = ticket_roles (snd z)" "length cs = uploads (snd z)" by auto
    have "snd y = snd z @ [Complete_call (wc_claim_id claim) cs]"
      using assms(1) \<open>validate_artifacts _ _ = Inr arts\<close> u Inr
      by (auto simp: deliver_result_def note_call_def split: prod.splits sum.splits)
    then show ?thesis using z ne open_log [OF z(1)]
      by (auto simp: completes_uploads_def ticket_roles_def uploads_def)
  qed
qed

definition well_closed :: "worker_claim \<Rightarrow> (execute_error + 'a) \<times> 's \<times> core_call list \<Rightarrow> bool" where
  "well_closed claim x \<longleftrightarrow> closed_once (wc_claim_id claim) (fst x) (snd (snd x)) \<and> completes_uploads (snd (snd x))"

lemma well_closed_calls [simp]:
  "well_closed claim (r, report_failure (logged core) claim failure (s, [Download_call]))"
  "well_closed claim (r, release_cancelled (logged core) claim (s, [Download_call]))"
  "well_closed claim (deliver_result env (logged core) claim result (s, [Download_call]))"
proof -
  have "completes_uploads [Download_call, c]" if "\<forall>i arts. c \<noteq> Complete_call i arts" for c
    using that by (auto simp: completes_uploads_def)
  then show "well_closed claim (r, report_failure (logged core) claim failure (s, [Download_call]))"
    "well_closed claim (r, release_cancelled (logged core) claim (s, [Download_call]))"
    by (simp_all add: well_closed_def report_log release_log closed_once_def)
  obtain q y where d: "deliver_result env (logged core) claim result (s, [Download_call]) = (q, y)"
    by (cases "deliver_result env (logged core) claim result (s, [Download_call])")
  from deliver_result_log [OF d] show "well_closed claim (deliver_result env (logged core) claim result (s, [Download_call]))"
    by (simp add: d well_closed_def ticket_roles_def uploads_def)
qed


section \<open>Reports of failures\<close>

text \<open>A non-empty UTF-8 string: its first character ends within four bytes.\<close>

definition starts_with_character :: "string \<Rightarrow> bool" where
  "starts_with_character m \<longleftrightarrow> m \<noteq> [] \<and> list_ex (\<lambda>k. k \<le> length m \<and> is_char_boundary m k) [1, 2, 3, 4]"

lemma boundary_below_le: "boundary_below s k \<le> k"
  by (induction s k rule: boundary_below.induct) auto

lemma boundary_below_ge: "is_char_boundary s b \<Longrightarrow> b \<le> k \<Longrightarrow> b \<le> boundary_below s k"
  by (induction s k rule: boundary_below.induct) (auto simp: le_Suc_eq)

lemma normalize_code_ok:
  "normalize_code code \<noteq> []" "length (normalize_code code) \<le> 96"
  "list_all (\<lambda>b. (CHR ''a'' \<le> b \<and> b \<le> CHR ''z'') \<or> ascii_digit b \<or> b = CHR ''_'') (normalize_code code)"
proof -
  have d: "list_all (\<lambda>b. (CHR ''a'' \<le> b \<and> b \<le> CHR ''z'') \<or> ascii_digit b \<or> b = CHR ''_'') ''processor_failed''" by code_simp
  show "normalize_code code \<noteq> []" "length (normalize_code code) \<le> 96" by (simp_all add: normalize_code_def Let_def)
  show "list_all (\<lambda>b. (CHR ''a'' \<le> b \<and> b \<le> CHR ''z'') \<or> ascii_digit b \<or> b = CHR ''_'') (normalize_code code)"
    unfolding normalize_code_def Let_def using d by (auto simp: list_all_iff)
qed

lemma truncate_text_ok:
  assumes "starts_with_character m" and "4 \<le> limit"
  shows "truncate_text m limit \<noteq> [] \<and> int (length (truncate_text m limit)) \<le> limit"
proof -
  from assms(1) obtain b :: nat where "b \<in> set [1, 2, 3, 4]" and b4: "b \<le> length m" "is_char_boundary m b"
    unfolding starts_with_character_def list_ex_iff by blast
  then have b: "1 \<le> b" "b \<le> 4" "b \<le> length m" "is_char_boundary m b" by auto
  let ?k = "boundary_below m (min (nat (max limit 1)) (length m))"
  have "b \<le> ?k" using b assms(2) by (intro boundary_below_ge) auto
  moreover have "?k \<le> min (nat (max limit 1)) (length m)" by (rule boundary_below_le)
  ultimately show ?thesis using assms b by (auto simp: truncate_text_def Let_def starts_with_character_def)
qed

text \<open>
  The server accepts the failure reports of the agent: for every failure of a processor, with any code
  and any message that is a non-empty UTF-8 text, the code and the message that the agent sends pass the
  server's validation of a failure, when the limit of the claim is the configured one.
\<close>

lemma failure_report_valid:
  assumes "starts_with_character (fl_message failure)" and "l_diagnostic_bytes (wc_limits claim) = c_max_diagnostic_bytes config"
    and "4 \<le> c_max_diagnostic_bytes config" and "c_max_diagnostic_bytes config \<le> i64_max"
  shows "validate_failure config (normalize_code (fl_code failure))
      (truncate_text (fl_message failure) (l_diagnostic_bytes (wc_limits claim))) = Inr ()"
  using truncate_text_ok [OF assms(1,3)] normalize_code_ok [of "fl_code failure"] assms(2,4)
  by (auto simp: validate_failure_def)

section \<open>The lease task\<close>

text \<open>The expiry that the last accepted heartbeat confirmed.\<close>

fun confirms :: "lease_event \<Rightarrow> lease_state \<Rightarrow> instant option" where
  "confirms (Heartbeat_answered t (Inr a)) l =
     (if \<not> ls_ended l \<and> t < ls_stop_at l \<and> ha_state a = Active then ha_lease_expires_at a else None)"
| "confirms _ l = None"

fun confirmed_expiry :: "lease_event list \<Rightarrow> lease_state \<Rightarrow> instant \<Rightarrow> instant" where
  "confirmed_expiry [] l x = x"
| "confirmed_expiry (e # es) l x = confirmed_expiry es (lease_step e l) (case confirms e l of None \<Rightarrow> x | Some y \<Rightarrow> y)"

text \<open>
  An answer arrives in time: with the clock of the server \<open>off\<close> ahead of the worker's, it is at most the
  renewal margin old, and the lease that it confirms is at least that long.
\<close>

fun timely :: "int \<Rightarrow> lease_event \<Rightarrow> bool" where
  "timely off (Heartbeat_answered t (Inr a)) \<longleftrightarrow>
     t + off \<le> ha_server_time a + claim_renewal_margin \<and>
     (case ha_lease_expires_at a of None \<Rightarrow> True | Some y \<Rightarrow> claim_renewal_margin \<le> y - ha_server_time a)"
| "timely off _ = True"

lemma lease_run_fenced:
  "ls_stop_at l + off \<le> x \<Longrightarrow> list_all (timely off) es \<Longrightarrow> ls_stop_at (foldl (\<lambda>l e. lease_step e l) l es) + off \<le> confirmed_expiry es l x"
proof (induction es arbitrary: l x)
  case Nil
  then show ?case by simp
next
  case (Cons e es)
  have "ls_stop_at (lease_step e l) + off \<le> (case confirms e l of None \<Rightarrow> x | Some y \<Rightarrow> y)"
  proof (cases e)
    case (Heartbeat_answered t resp)
    then show ?thesis using Cons.prems
      by (cases resp) (auto simp: saturating_remaining_def claim_renewal_margin_def seconds_def split: option.splits)
  qed (use Cons.prems in auto)
  then show ?case using Cons.IH Cons.prems(2) by simp
qed


section \<open>Examples\<close>

text \<open>The server as the core of a worker, at the state in which the example job is claimed.\<close>

definition ex_core :: "processing_db core" where
  "ex_core =
     \<lparr>co_download = (\<lambda>url token db. case download_transfer ex_sha 42 token 4 db of
        (Inr (Content content _ _), db1) \<Rightarrow> (Inr content, db1) | (_, db1) \<Rightarrow> (Inl (Protocol 404 [] []), db1)),
      co_ticket = (\<lambda>i t db. case create_artifact_transfer ex_sha ex_worker
          \<lparr>tr_session_id = 30, tr_claim_id = i, tr_role = ti_role t, tr_media_type = ti_media_type t, tr_filename = ti_filename t,
           tr_size_bytes = ti_size_bytes t, tr_expected_sha256 = take 32 (ti_sha256 t)\<rparr> ex_config 50 ''u'' 4 4 db of
        (Inr (transfer_id, token, _), db1) \<Rightarrow> (Inr \<lparr>tk_transfer_id = transfer_id, tk_upload_url = [], tk_upload_token = token\<rparr>, db1)
      | (Inl _, db1) \<Rightarrow> (Inl (Protocol 409 [] []), db1)),
      co_upload = (\<lambda>url token content db. case upload_transfer ex_sha 50 token content 51 5 db of
        (Inr (Stored _ _), db1) \<Rightarrow> (Inr (), db1) | (_, db1) \<Rightarrow> (Inl (Protocol 422 [] []), db1)),
      co_complete = (\<lambda>i arts m db. case complete_claim ex_unhex ex_worker 30 i arts 6 db of
        (Accepted _, db1) \<Rightarrow> (Inr (), db1) | (_, db1) \<Rightarrow> (Inl (Protocol 409 [] []), db1)),
      co_fail = (\<lambda>i cls code message db. (Inr (), snd (fail_claim ex_worker 30 i cls code message 6 db))),
      co_release = (\<lambda>i reason db. (Inr (), snd (release_claim ex_worker 30 i 6 db))),
      co_cancelled = (\<lambda>_. False)\<rparr>"

definition ex_worker_env :: input_env where
  "ex_worker_env = \<lparr>in_zip_open = (\<lambda>_. Some (map (Some \<circ> plain_entry) [(''manifest.json'', ''M''), (''project/main.tex'', ''x'')])),
     in_parse_manifest = (\<lambda>_. Some \<lparr>pm_schema = ''project-bundle/v1'', pm_project_type = ''latex'', pm_entry_file_path = ''main.tex'',
       pm_latex_engine = None, pm_workspace_version = 1, pm_content_generation = 1, pm_source_epoch = 1,
       pm_files = [\<lparr>pf_path = ''main.tex'', pf_kind = ''document'', pf_size_bytes = 1, pf_sha256 = replicate 64 (CHR ''h'')\<rparr>]\<rparr>),
     in_sha256 = ex_sha, in_hex = (\<lambda>b. b @ b), in_unhex = (\<lambda>s. Some (take 32 s)), in_refuses = (\<lambda>_. False)\<rparr>"

definition ex_worker_claim :: worker_claim where
  "ex_worker_claim = \<lparr>wc_job_id = 1, wc_attempt = 1, wc_claim_id = 41, wc_lease_expires_at = 103, wc_operation = LatexCompilePdfV1,
     wc_processor_contract = ''tex/v1'', wc_options = JNull,
     wc_input = \<lparr>ci_schema = ''project-bundle/v1'', ci_size_bytes = 3, ci_sha256 = ex_sha [], ci_download_url = [], ci_download_token = ''ptx_t''\<rparr>,
     wc_limits = \<lparr>l_wall_seconds = 300, l_output_bytes = 1000, l_diagnostic_bytes = 100\<rparr>\<rparr>"

definition ex_processor :: "processing_db processor" where
  "ex_processor rq db = (Inr \<lparr>res_artifacts = [\<lparr>out_role = ''pdf'', out_media_type = ''application/pdf'', out_filename = ''out.pdf'',
     out_content = ''%PDF- %%EOF''\<rparr>], res_metadata = JNull\<rparr>, db)"

definition ex_execution :: "(execute_error + unit) \<times> processing_db \<times> core_call list" where
  "ex_execution = execute_claim ex_worker_env (logged ex_core) (unlogged ex_processor) ex_worker_claim (ex_db ex_started, [])"

text \<open>The mutation that releases the example claim, as its handler runs it.\<close>

definition ex_release :: mutation where
  "ex_release db = (case release_claim ex_worker 30 41 6 db of
     (Updated _ _, db1) \<Rightarrow> (Inr (Response 200 None), db1) | (Lost_mutation, db1) \<Rightarrow> (Inl claim_lost, db1))"

lemma ex_release_replayable: "replayable ex_release"
proof -
  have "requests (snd (release_claim w s i now d)) = requests d" for w s i now d
    by (auto simp: release_claim_def mutate_failed_claim_def Let_def split: option.splits prod.splits)
  then show ?thesis
    by (auto simp: replayable_def ex_release_def server_error_def rendered_def claim_lost_def is_server_error_def
        request_pending_status_def split: prod.splits mutation_outcome.splits) (metis snd_conv)+
qed

definition ex_base :: base_url where
  "ex_base = (let u = \<lparr>url_scheme = ''https'', url_host = Some ''core'', url_port = Some 443, url_path = []\<rparr> in
     \<lparr>bu_join = (\<lambda>path. Some (u\<lparr>url_path := path\<rparr>)), bu_url = u\<rparr>)"

definition ex_net :: "nat \<Rightarrow> delivery" where
  "ex_net k = (if k = 0 then Request_lost else if k = 1 then Response_lost else Answered)"

theorem retried_mutation_applied_once_witness:
  "\<exists>db' d. worker_json ex_base ''/release'' Some ex_net (\<lambda>_. retried_request ex_sha ex_worker 5 ''POST /release'' ''p'' int (\<lambda>k. int k + 1) (\<lambda>_. ex_release)) (ex_db ex_started) =
      (Inr None, db') \<and> tables d = tables (ex_db ex_started) \<and> tables db' = tables (snd (ex_release d))"
proof -
  let ?w = "worker_json ex_base ''/release'' Some ex_net (\<lambda>_. retried_request ex_sha ex_worker 5 ''POST /release'' ''p'' int (\<lambda>k. int k + 1) (\<lambda>_. ex_release)) (ex_db ex_started)"
  have new: "find (request_key (aw_identity ex_worker) 5) (requests (ex_db ex_started)) = None" by code_simp
  have len: "length (ex_sha ''p'') = 32" by (simp add: ex_sha_def)
  have t: "\<forall>k < mutation_attempts. int k < 10 \<and> 10 \<le> int k + 1 + request_replay_ttl"
    by (simp add: mutation_attempts_def request_replay_ttl_def seconds_def)
  have "fst ?w = Inr None" by code_simp
  then have w: "?w = (Inr None, snd ?w)" by (metis prod.collapse)
  from retried_mutation_applied_once [OF new len allI [OF ex_release_replayable] t w] w show ?thesis by metis
qed


lemma failure_report_valid_witness:
  "validate_failure ex_config (normalize_code ''TeX-failed'') (truncate_text (replicate 200 (CHR ''x'')) 100) = Inr () \<and>
   normalize_code ''TeX-failed'' = ''_e__failed'' \<and> length (truncate_text (replicate 200 (CHR ''x'')) 100) = 100"
proof -
  let ?f = "\<lparr>fl_class = ProcessorRejected, fl_code = ''TeX-failed'', fl_message = replicate 200 (CHR ''x'')\<rparr>"
  have m: "starts_with_character (fl_message ?f)" by code_simp
  have l: "l_diagnostic_bytes (wc_limits ex_worker_claim) = c_max_diagnostic_bytes ex_config" by code_simp
  have "4 \<le> c_max_diagnostic_bytes ex_config" "c_max_diagnostic_bytes ex_config \<le> i64_max" by code_simp+
  from failure_report_valid [OF m l this]
  have "validate_failure ex_config (normalize_code ''TeX-failed'') (truncate_text (replicate 200 (CHR ''x'')) 100) = Inr ()"
    by (simp add: ex_worker_claim_def)
  moreover have "normalize_code ''TeX-failed'' = ''_e__failed''" by code_simp
  moreover have "length (truncate_text (replicate 200 (CHR ''x'')) 100) = 100" by code_simp
  ultimately show ?thesis by blast
qed

definition ex_beats :: "lease_event list" where
  "ex_beats = [Heartbeat_answered (seconds 15) (Inr \<lparr>ha_state = Active, ha_server_time = seconds 114, ha_lease_expires_at = Some (seconds 159)\<rparr>),
     Heartbeat_answered (seconds 30) (Inl Transport)]"


end
