(* ===== verification/Collaboration_Rooms.thy ===== *)
theory Collaboration_Rooms
  imports Collaboration
begin

text \<open>
  The rooms through which realtime connections hear of each other: \<open>collaboration/rooms.rs\<close>, and the
  count of connections of \<open>collaboration/connection_lifecycle.rs\<close>.

  A room is a broadcast channel of \<open>tokio\<close>. A channel is a number, and a receiver is named by the task
  that owns it; it holds the events that it has not received yet, at most 512. When an event arrives in a
  full receiver the oldest one is lost, and the receiver is told that it lags the next time it receives.
\<close>

section \<open>Events\<close>

datatype room_event_kind =
    YjsUpdate | YjsSync | YjsAck | PresenceJoin | PresenceLeave | PresenceMetadata | PresenceCursor
  | BootstrapDone | WorkspaceChanged | DocumentChanged | ProjectReplaced | AccessChanged | ServerError

datatype room_event_origin = System_origin | Connection_origin string uuid

record room_event =
  ev_doc_id :: string
  ev_origin :: room_event_origin
  ev_kind :: room_event_kind
  ev_payload :: json
  ev_at :: instant

definition system_event :: "string \<Rightarrow> room_event_kind \<Rightarrow> json \<Rightarrow> instant \<Rightarrow> room_event" where
  "system_event doc_id kind payload now =
     \<lparr>ev_doc_id = doc_id, ev_origin = System_origin, ev_kind = kind, ev_payload = payload, ev_at = now\<rparr>"

definition connection_event :: "string \<Rightarrow> string \<Rightarrow> uuid \<Rightarrow> room_event_kind \<Rightarrow> json \<Rightarrow> instant \<Rightarrow> room_event" where
  "connection_event doc_id member_id connection_id kind payload now =
     \<lparr>ev_doc_id = doc_id, ev_origin = Connection_origin member_id connection_id, ev_kind = kind, ev_payload = payload, ev_at = now\<rparr>"

section \<open>Rooms\<close>

definition project_control_room :: string where "project_control_room = ''__project_control__''"

definition room_capacity :: nat where "room_capacity = 512"

type_synonym room_key = "uuid \<times> string"

record room_receiver =
  rx_id :: nat
  rx_channel :: nat
  rx_queue :: "room_event list"
  rx_lagged :: bool

record rooms =
  rm_channels :: "(room_key \<times> nat) list"
  rm_receivers :: "room_receiver list"
  rm_next :: nat

definition no_rooms :: rooms where
  "no_rooms = \<lparr>rm_channels = [], rm_receivers = [], rm_next = 0\<rparr>"

definition find_receiver :: "nat \<Rightarrow> rooms \<Rightarrow> room_receiver option" where
  "find_receiver k r = find (\<lambda>x. rx_id x = k) (rm_receivers r)"

definition push_event :: "room_event \<Rightarrow> room_receiver \<Rightarrow> room_receiver" where
  "push_event e x =
     (if length (rx_queue x) < room_capacity then x\<lparr>rx_queue := rx_queue x @ [e]\<rparr>
      else x\<lparr>rx_queue := tl (rx_queue x) @ [e], rx_lagged := True\<rparr>)"

definition room_send :: "nat \<Rightarrow> room_event \<Rightarrow> rooms \<Rightarrow> rooms" where
  "room_send channel e r = r\<lparr>rm_receivers := update_where (\<lambda>x. rx_channel x = channel) (push_event e) (rm_receivers r)\<rparr>"

definition receiver_count :: "nat \<Rightarrow> rooms \<Rightarrow> nat" where
  "receiver_count channel r = rows_affected (\<lambda>x. rx_channel x = channel) (rm_receivers r)"

definition drop_receiver :: "nat \<Rightarrow> rooms \<Rightarrow> rooms" where
  "drop_receiver k r = r\<lparr>rm_receivers := delete_where (\<lambda>x. rx_id x = k) (rm_receivers r)\<rparr>"

definition add_receiver :: "nat \<Rightarrow> nat \<Rightarrow> rooms \<Rightarrow> rooms" where
  "add_receiver channel k r =
     r\<lparr>rm_receivers := rm_receivers r @ [\<lparr>rx_id = k, rx_channel = channel, rx_queue = [], rx_lagged = False\<rparr>]\<rparr>"

text \<open>The result is the channel, whose sender the task keeps with its new receiver \<open>k\<close>.\<close>

definition subscribe :: "uuid \<Rightarrow> string \<Rightarrow> nat \<Rightarrow> rooms \<Rightarrow> nat \<times> rooms" where
  "subscribe project_id doc_id k r =
     (case map_of (rm_channels r) (project_id, doc_id) of
        Some channel \<Rightarrow> (channel, add_receiver channel k r)
      | None \<Rightarrow>
          let channel = rm_next r in
          (channel, add_receiver channel k (r\<lparr>rm_channels := ((project_id, doc_id), channel) # rm_channels r, rm_next := channel + 1\<rparr>)))"

definition subscribe_project :: "uuid \<Rightarrow> nat \<Rightarrow> rooms \<Rightarrow> nat \<times> rooms" where
  "subscribe_project project_id k r = subscribe project_id project_control_room k r"

definition remove_if_idle :: "uuid \<Rightarrow> string \<Rightarrow> nat \<Rightarrow> rooms \<Rightarrow> rooms" where
  "remove_if_idle project_id doc_id channel r =
     (if receiver_count channel r \<noteq> 0 then r
      else if map_of (rm_channels r) (project_id, doc_id) = Some channel
      then r\<lparr>rm_channels := delete_where (\<lambda>(key, _). key = (project_id, doc_id)) (rm_channels r)\<rparr>
      else r)"

definition remove_project_sender_if_idle :: "uuid \<Rightarrow> nat \<Rightarrow> rooms \<Rightarrow> rooms" where
  "remove_project_sender_if_idle project_id channel r = remove_if_idle project_id project_control_room channel r"

text \<open>Every room of the project, in the order in which the map is walked.\<close>

definition broadcast_project :: "uuid \<Rightarrow> room_event_kind \<Rightarrow> json \<Rightarrow> instant \<Rightarrow> rooms \<Rightarrow> rooms" where
  "broadcast_project project_id kind payload now r =
     foldl (\<lambda>r ((_, doc_id), channel). room_send channel (system_event doc_id kind payload now) r) r
       (filter (\<lambda>((p, _), _). p = project_id) (rm_channels r))"

definition invalidate_project :: "uuid \<Rightarrow> int \<Rightarrow> instant \<Rightarrow> rooms \<Rightarrow> rooms" where
  "invalidate_project project_id content_epoch now r =
     broadcast_project project_id ProjectReplaced (JObj [(''content_epoch'', JNum content_epoch)]) now r"

definition access_changed :: "uuid \<Rightarrow> instant \<Rightarrow> rooms \<Rightarrow> rooms" where
  "access_changed project_id now r = broadcast_project project_id AccessChanged (JObj []) now r"

definition json_option :: "('a \<Rightarrow> json) \<Rightarrow> 'a option \<Rightarrow> json" where
  "json_option f x = (case x of None \<Rightarrow> JNull | Some v \<Rightarrow> f v)"

definition changed_payload ::
  "(uuid \<Rightarrow> string) \<Rightarrow> string \<Rightarrow> string option \<Rightarrow> uuid option \<Rightarrow> int option \<Rightarrow> int option \<Rightarrow> json" where
  "changed_payload uuid_str scope path document_id collaboration_revision change_sequence =
     JObj [(''scope'', JStr scope), (''path'', json_option JStr path), (''document_id'', json_option (JStr \<circ> uuid_str) document_id),
       (''collaboration_revision'', json_option JNum collaboration_revision), (''change_sequence'', json_option JNum change_sequence)]"

fun workspace_change_payload :: "(uuid \<Rightarrow> string) \<Rightarrow> workspace_change \<Rightarrow> json" where
  "workspace_change_payload uuid_str (Document_change path i revision sequence) =
     changed_payload uuid_str ''document'' (Some path) (Some i) (Some revision) (Some sequence)"
| "workspace_change_payload uuid_str (Tree_change path) = changed_payload uuid_str ''tree'' path None None None"
| "workspace_change_payload uuid_str Settings_change = changed_payload uuid_str ''settings'' None None None None"
| "workspace_change_payload uuid_str (Assets_change path) = changed_payload uuid_str ''assets'' path None None None"

definition workspace_changed :: "(uuid \<Rightarrow> string) \<Rightarrow> uuid \<Rightarrow> workspace_change \<Rightarrow> instant \<Rightarrow> rooms \<Rightarrow> rooms" where
  "workspace_changed uuid_str project_id change now r =
     (case map_of (rm_channels r) (project_id, project_control_room) of
        None \<Rightarrow> r
      | Some channel \<Rightarrow>
          room_send channel (system_event (uuid_str project_id) WorkspaceChanged (workspace_change_payload uuid_str change) now) r)"

section \<open>Tracked connections\<close>

definition usize_max :: nat where "usize_max = 2 ^ 64 - 1"

definition track :: "nat \<Rightarrow> nat" where "track active = min usize_max (active + 1)"

definition untrack :: "nat \<Rightarrow> nat" where "untrack active = active - 1"

definition quiescent :: "nat \<Rightarrow> bool" where "quiescent active \<longleftrightarrow> active = 0"

section \<open>Facts\<close>

text \<open>
  What a subscriber relies on: as long as it has its receiver, the room that it asked for is the channel
  of the receiver (\<open>attached\<close>). Every operation keeps that, and an event for the room is then in the
  queue, or the receiver lags.
\<close>

definition attached :: "room_key \<Rightarrow> nat \<Rightarrow> nat \<Rightarrow> rooms \<Rightarrow> bool" where
  "attached key channel k r \<longleftrightarrow>
     map_of (rm_channels r) key = Some channel \<and>
     (case find_receiver k r of None \<Rightarrow> False | Some x \<Rightarrow> rx_channel x = channel)"

definition will_hear :: "room_event_kind \<Rightarrow> nat \<Rightarrow> rooms \<Rightarrow> bool" where
  "will_hear kind k r \<longleftrightarrow>
     (case find_receiver k r of None \<Rightarrow> False | Some x \<Rightarrow> rx_lagged x \<or> kind \<in> ev_kind ` set (rx_queue x))"

lemma push_event_simps [simp]: "rx_id (push_event e x) = rx_id x" "rx_channel (push_event e x) = rx_channel x"
  by (simp_all add: push_event_def)

lemma find_receiver_send:
  "find_receiver k (room_send channel e r) =
     map_option (\<lambda>x. if rx_channel x = channel then push_event e x else x) (find_receiver k r)"
  by (simp add: find_receiver_def room_send_def find_update_where)

lemma room_send_channels [simp]: "rm_channels (room_send channel e r) = rm_channels r"
  by (simp add: room_send_def)

lemma attached_send: "attached key c k (room_send channel e r) = attached key c k r"
  by (simp add: attached_def find_receiver_send split: option.split)

lemma push_event_hears: "rx_lagged x \<or> kind \<in> ev_kind ` set (rx_queue x) \<Longrightarrow>
    rx_lagged (push_event e x) \<or> kind \<in> ev_kind ` set (rx_queue (push_event e x))"
  by (auto simp: push_event_def)

lemma push_event_now: "rx_lagged (push_event e x) \<or> ev_kind e \<in> ev_kind ` set (rx_queue (push_event e x))"
  by (simp add: push_event_def)

lemma will_hear_send: "will_hear kind k r \<Longrightarrow> will_hear kind k (room_send channel e r)"
  using push_event_hears by (fastforce simp: will_hear_def find_receiver_send split: option.splits)

lemma send_will_hear: "attached key channel k r \<Longrightarrow> will_hear (ev_kind e) k (room_send channel e r)"
  using push_event_now by (fastforce simp: will_hear_def attached_def find_receiver_send split: option.splits)

text \<open>A broadcast is a sequence of sends, one of which is for the room of an attached receiver.\<close>

lemma foldl_sends:
  fixes f :: "room_key \<times> nat \<Rightarrow> room_event"
  shows "rm_channels (foldl (\<lambda>r x. room_send (snd x) (f x) r) r xs) = rm_channels r"
    and "attached key c k (foldl (\<lambda>r x. room_send (snd x) (f x) r) r xs) = attached key c k r"
    and "will_hear kind k r \<Longrightarrow> will_hear kind k (foldl (\<lambda>r x. room_send (snd x) (f x) r) r xs)"
    and "find_receiver k (foldl (\<lambda>r x. room_send (snd x) (f x) r) r xs) = None \<longleftrightarrow> find_receiver k r = None"
  by (induction xs arbitrary: r) (simp_all add: attached_send will_hear_send find_receiver_send)

lemma broadcast_foldl:
  "broadcast_project p kind payload now r =
     foldl (\<lambda>r x. room_send (snd x) ((\<lambda>x. system_event (snd (fst x)) kind payload now) x) r) r
       (filter (\<lambda>x. fst (fst x) = p) (rm_channels r))"
  by (simp add: broadcast_project_def case_prod_unfold)

lemma broadcast_reaches:
  assumes "attached (p, doc) c k r"
  shows "will_hear kind k (broadcast_project p kind payload now r)"
proof -
  have "((p, doc), c) \<in> set (filter (\<lambda>x. fst (fst x) = p) (rm_channels r))"
    using assms map_of_SomeD by (fastforce simp: attached_def)
  then obtain xs ys where xs: "filter (\<lambda>x. fst (fst x) = p) (rm_channels r) = xs @ ((p, doc), c) # ys"
    by (meson split_list)
  let ?f = "\<lambda>x :: room_key \<times> nat. system_event (snd (fst x)) kind payload now"
  let ?g = "foldl (\<lambda>r x. room_send (snd x) (?f x) r)"
  have "will_hear (ev_kind (?f ((p, doc), c))) k (room_send c (?f ((p, doc), c)) (?g r xs))"
    by (rule send_will_hear [of "(p, doc)"]) (simp add: foldl_sends(2) assms)
  then have "will_hear kind k (room_send c (?f ((p, doc), c)) (?g r xs))" by (simp add: system_event_def)
  then have "will_hear kind k (?g (room_send c (?f ((p, doc), c)) (?g r xs)) ys)" by (rule foldl_sends(3))
  then show ?thesis unfolding broadcast_foldl xs by simp
qed

lemma broadcast_keeps:
  "rm_channels (broadcast_project p kind payload now r) = rm_channels r"
  "attached key c k (broadcast_project p kind payload now r) = attached key c k r"
  "will_hear kind' k r \<Longrightarrow> will_hear kind' k (broadcast_project p kind payload now r)"
  "find_receiver k (broadcast_project p kind payload now r) = None \<longleftrightarrow> find_receiver k r = None"
  unfolding broadcast_foldl by (simp_all add: foldl_sends)

lemma find_receiver_drop: "find_receiver k (drop_receiver j r) = (if k = j then None else find_receiver k r)"
proof -
  have "find (\<lambda>x. rx_id x = k) (delete_where (\<lambda>x. rx_id x = j) xs) = (if k = j then None else find (\<lambda>x. rx_id x = k) xs)" for xs :: "room_receiver list"
    by (induction xs) (auto simp: delete_where_def)
  then show ?thesis unfolding find_receiver_def drop_receiver_def by simp
qed

lemma drop_receiver_channels [simp]: "rm_channels (drop_receiver j r) = rm_channels r"
  by (simp add: drop_receiver_def)

lemma find_receiver_add:
  "find_receiver k (add_receiver c j r) =
     (case find_receiver k r of Some x \<Rightarrow> Some x
      | None \<Rightarrow> if j = k then Some \<lparr>rx_id = j, rx_channel = c, rx_queue = [], rx_lagged = False\<rparr> else None)"
proof -
  have "find P (xs @ [y]) = (case find P xs of Some x \<Rightarrow> Some x | None \<Rightarrow> if P y then Some y else None)" for P xs and y :: room_receiver
    by (induction xs) auto
  then show ?thesis by (simp add: find_receiver_def add_receiver_def)
qed

lemma remove_if_idle_receivers [simp]: "rm_receivers (remove_if_idle p d c r) = rm_receivers r"
  by (simp add: remove_if_idle_def)

lemma find_receiver_idle [simp]: "find_receiver k (remove_if_idle p d c r) = find_receiver k r"
  by (simp add: find_receiver_def)

lemma map_of_delete_key: "key \<noteq> key' \<Longrightarrow> map_of (delete_where (\<lambda>(x, _). x = key') t) key = map_of t key"
  by (induction t) (auto simp: delete_where_def)

text \<open>The room of a live receiver is not removed: its channel is not idle.\<close>

lemma attached_idle:
  assumes "attached key c k r"
  shows "attached key c k (remove_if_idle p d c' r)"
proof -
  from assms obtain x where x: "find_receiver k r = Some x" "rx_channel x = c" and m: "map_of (rm_channels r) key = Some c"
    by (auto simp: attached_def split: option.splits)
  have "receiver_count c r \<noteq> 0"
    using x find_Some_set [of _ "rm_receivers r" x] by (auto simp: receiver_count_def rows_affected_def find_receiver_def filter_empty_conv)
  then have "map_of (rm_channels (remove_if_idle p d c' r)) key = Some c"
    using m map_of_delete_key [of key "(p, d)" "rm_channels r"] by (cases "key = (p, d)") (auto simp: remove_if_idle_def)
  then show ?thesis using assms by (simp add: attached_def)
qed

lemma find_receiver_channels [simp]:
  "find_receiver k (r\<lparr>rm_channels := cs\<rparr>) = find_receiver k r" "find_receiver k (r\<lparr>rm_next := n\<rparr>) = find_receiver k r"
  "rm_channels (add_receiver c j r) = rm_channels r"
  by (simp_all add: find_receiver_def add_receiver_def)

lemma subscribe_attached:
  assumes "find_receiver k r = None" and "subscribe p d k r = (c, r')"
  shows "attached (p, d) c k r'" and "j \<noteq> k \<Longrightarrow> find_receiver j r' = find_receiver j r"
    and "attached key c' j r \<Longrightarrow> attached key c' j r'" and "find_receiver k r' \<noteq> None"
  using assms
  by (auto simp: subscribe_def attached_def find_receiver_add Let_def split: option.splits if_splits)

end
