(* ===== verification/Realtime.thy ===== *)
theory Realtime
  imports Collaboration_Rooms
begin

text \<open>
  Realtime connections: \<open>collaboration/websocket.rs\<close>. A connection is upgraded after authorisation,
  subscribes to its room, is authorised again, gets the state of its document, and then runs two tasks:
  a reader, which handles the messages of the client and checks the access every 30 seconds, and a
  forwarder, which sends the events of the room and the commands of the reader to the client.

  Every await point between two effects separates two steps of \<open>realtime_step\<close>, so the steps of different
  connections, of the operations on documents and of changes of the access tables interleave. The parts
  that are not under \<open>src\<close> are in \<open>realtime_env\<close>: Yjs, Base64, the text form of a UUID and the check of a
  header value. Whether a frame reaches the client is an argument of the steps. The channel from the
  reader to the forwarder holds 8 commands and makes the reader wait when it is full; here it is a list.
\<close>

section \<open>Requests\<close>

record ('d, 'u) realtime_env =
  rv_yjs :: "('d, 'u) yjs"
  rv_retention :: int
  rv_request :: request_env
  rv_decode64 :: "string \<Rightarrow> bytes option"
  rv_encode64 :: "bytes \<Rightarrow> string"
  rv_uuid_str :: "uuid \<Rightarrow> string"
  rv_header_value :: "string \<Rightarrow> string option option"

text \<open>\<open>rv_header_value v\<close> is \<open>None\<close> when \<open>v\<close> is refused, and the text that is read back otherwise.\<close>

definition request_at :: "('d, 'u) realtime_env \<Rightarrow> instant \<Rightarrow> request_env" where
  "request_at env now = (rv_request env)\<lparr>re_now := now\<rparr>"

record ws_query =
  wq_protocol_epoch :: "string option"
  wq_project_id :: "string option"
  wq_user_id :: "string option"
  wq_user_name :: "string option"
  wq_session_token :: "string option"
  wq_share_token :: "string option"
  wq_guest_session :: "string option"
  wq_collaboration_revision :: "int option"

datatype ws_target = Project_target | Document_target uuid int

record ws_auth =
  wa_project_id :: uuid
  wa_user_id :: "uuid option"
  wa_guest_session_id :: "uuid option"
  wa_guest_display_name :: "string option"
  wa_effective_id :: uuid
  wa_can_write :: bool
  wa_content_epoch :: int
  wa_access_epoch :: int
  wa_target :: ws_target
  wa_headers :: headers

datatype authorize_error =
    MissingProjectId | InvalidProjectId | InvalidCredentialHeader string | Authorization_failed authorization_error
  | ProjectNotFound_ws | DocumentNotFound_ws

definition protocol_epoch :: int where "protocol_epoch = 1"
definition protocol_incompatible_close_code :: int where "protocol_incompatible_close_code = 4406"
definition restart_close_code :: int where "restart_close_code = 1012"

text \<open>\<open>str::parse::<u32>\<close>: an optional plus sign, at least one digit, a value in range.\<close>

definition parse_u32 :: "string \<Rightarrow> int option" where
  "parse_u32 s =
     (let ds = (case s of x # xs \<Rightarrow> if x = CHR ''+'' then xs else s | [] \<Rightarrow> []);
          n = foldl (\<lambda>v d. 10 * v + (int (of_char d) - 48)) 0 ds
      in if ds = [] \<or> \<not> list_all ascii_digit ds \<or> 4294967295 < n then None else Some n)"

definition protocol_epoch_matches :: "string option \<Rightarrow> bool" where
  "protocol_epoch_matches epoch =
     (case epoch of None \<Rightarrow> True | Some e \<Rightarrow> (case parse_u32 e of None \<Rightarrow> False | Some n \<Rightarrow> n = protocol_epoch))"

text \<open>A credential of the query replaces the header of the request.\<close>

definition insert_credential ::
  "('d, 'u) realtime_env \<Rightarrow> string \<Rightarrow> string \<Rightarrow> (string \<Rightarrow> string) \<Rightarrow> string option \<Rightarrow> headers \<Rightarrow> authorize_error + headers" where
  "insert_credential env name header render credential hs =
     (case credential of
        None \<Rightarrow> Inr hs
      | Some v \<Rightarrow>
          (case rv_header_value env (render (trim v)) of
             None \<Rightarrow> Inl (InvalidCredentialHeader name)
           | Some value \<Rightarrow> Inr (hs(header := value))))"

definition query_headers :: "('d, 'u) realtime_env \<Rightarrow> ws_query \<Rightarrow> headers \<Rightarrow> authorize_error + headers" where
  "query_headers env query hs =
     (case insert_credential env ''user_id'' ''x-user-id'' (\<lambda>v. v) (wq_user_id query) hs of
        Inl e \<Rightarrow> Inl e
      | Inr h1 \<Rightarrow>
     (case insert_credential env ''session_token'' ''cookie'' (\<lambda>v. ''typst_session='' @ v) (wq_session_token query) h1 of
        Inl e \<Rightarrow> Inl e
      | Inr h2 \<Rightarrow>
     (case insert_credential env ''share_token'' ''x-share-token'' (\<lambda>v. v) (wq_share_token query) h2 of
        Inl e \<Rightarrow> Inl e
      | Inr h3 \<Rightarrow> insert_credential env ''guest_session'' ''x-guest-session'' (\<lambda>v. v) (wq_guest_session query) h3)))"

definition set_access :: "access_db \<Rightarrow> collab_world \<Rightarrow> collab_world" where
  "set_access a c = c\<lparr>cw_access := a\<rparr>"

definition authorize_project_ws_user ::
  "('d, 'u) realtime_env \<Rightarrow> headers \<Rightarrow> ws_query \<Rightarrow> uuid \<Rightarrow> uuid \<Rightarrow> instant \<Rightarrow> collab_world \<Rightarrow> (authorize_error + ws_auth) \<times> collab_world" where
  "authorize_project_ws_user env hs query project_id fresh now c =
     (case query_headers env query hs of
        Inl e \<Rightarrow> (Inl e, c)
      | Inr auth_headers \<Rightarrow>
          (case ensure_project_access (request_at env now) auth_headers project_id Read (cw_access c) of
             (Inl e, a) \<Rightarrow> (Inl (Authorization_failed e), set_access a c)
           | (Inr who, a) \<Rightarrow>
               let c1 = set_access a c;
                   effective_id = (case ap_user_id who of Some u \<Rightarrow> u
                     | None \<Rightarrow> (case ap_guest_session_id who of Some g \<Rightarrow> g | None \<Rightarrow> fresh))
               in (case project_content_epoch project_id (cw_db c1) of
                     None \<Rightarrow> (Inl ProjectNotFound_ws, c1)
                   | Some content_epoch \<Rightarrow>
                       (case project_access_epoch project_id (cw_access c1) of
                          None \<Rightarrow> (Inl ProjectNotFound_ws, c1)
                        | Some access_epoch \<Rightarrow>
                            (Inr \<lparr>wa_project_id = project_id, wa_user_id = ap_user_id who,
                               wa_guest_session_id = ap_guest_session_id who, wa_guest_display_name = ap_guest_display_name who,
                               wa_effective_id = effective_id, wa_can_write = ap_can_write who, wa_content_epoch = content_epoch,
                               wa_access_epoch = access_epoch, wa_target = Project_target, wa_headers = auth_headers\<rparr>, c1)))))"

definition document_collaboration_revision_matches :: "uuid \<Rightarrow> uuid \<Rightarrow> int \<Rightarrow> workspace_db \<Rightarrow> bool" where
  "document_collaboration_revision_matches pid document_id revision w =
     exists_where (\<lambda>d. dc_project_id d = pid \<and> dc_id d = document_id \<and> dc_collaboration_revision d = revision) (w_documents w)"

definition authorize_ws_user ::
  "('d, 'u) realtime_env \<Rightarrow> headers \<Rightarrow> ws_query \<Rightarrow> uuid \<Rightarrow> int \<Rightarrow> uuid \<Rightarrow> instant \<Rightarrow> collab_world \<Rightarrow>
   (authorize_error + ws_auth) \<times> collab_world" where
  "authorize_ws_user env hs query document_id revision fresh now c =
     (case wq_project_id query of
        None \<Rightarrow> (Inl MissingProjectId, c)
      | Some text_id \<Rightarrow>
          (case re_parse_uuid (rv_request env) text_id of
             None \<Rightarrow> (Inl InvalidProjectId, c)
           | Some project_id \<Rightarrow>
               (case authorize_project_ws_user env hs query project_id fresh now c of
                  (Inl e, c1) \<Rightarrow> (Inl e, c1)
                | (Inr auth, c1) \<Rightarrow>
                    if \<not> document_collaboration_revision_matches project_id document_id revision (cw_db c1)
                    then (Inl DocumentNotFound_ws, c1)
                    else (Inr (auth\<lparr>wa_target := Document_target document_id revision\<rparr>), c1))))"

datatype ws_response = Incompatible_close int | Refused_ws int string string | Upgraded_ws nat

definition authorization_error_response :: "authorize_error \<Rightarrow> ws_response" where
  "authorization_error_response e =
     (if e = Authorization_failed Store_authorization
      then Refused_ws 503 ''authorization_unavailable'' ''Realtime authorization is unavailable''
      else Refused_ws 401 ''unauthorized'' ''Realtime authentication failed'')"

definition realtime_auth :: "('d, 'u) realtime_env \<Rightarrow> headers \<Rightarrow> uuid \<Rightarrow> instant \<Rightarrow> access_db \<Rightarrow> authorization_error + uuid" where
  "realtime_auth env hs project_id now adb = ensure_project_role (request_at env now) hs project_id Read adb"

section \<open>Messages and events\<close>

datatype client_message =
    YjsUpdate_message string string string
  | YjsSync_message string string string
  | PresenceMetadata_message string string bool
  | PresenceCursor_message string int int string bool

text \<open>The fields are the origin, the request identifier and the payload; of a presence, those of its payload.\<close>

record incoming_event =
  ie_kind :: room_event_kind
  ie_payload :: json
  ie_persisted_kind :: "update_kind option"
  ie_request_id :: "string option"

fun client_message_event :: "client_message \<Rightarrow> bool \<Rightarrow> incoming_event" where
  "client_message_event (YjsUpdate_message origin request_id payload) may_write =
     \<lparr>ie_kind = YjsUpdate, ie_payload = JStr payload, ie_persisted_kind = Some Update_kind, ie_request_id = Some request_id\<rparr>"
| "client_message_event (YjsSync_message origin request_id payload) may_write =
     \<lparr>ie_kind = YjsSync, ie_payload = JStr payload, ie_persisted_kind = Some Sync_kind, ie_request_id = Some request_id\<rparr>"
| "client_message_event (PresenceMetadata_message origin user_name claimed) may_write =
     \<lparr>ie_kind = PresenceMetadata, ie_payload = JObj [(''user_name'', JStr user_name), (''can_write'', JBool may_write)],
      ie_persisted_kind = None, ie_request_id = None\<rparr>"
| "client_message_event (PresenceCursor_message origin line column user_name claimed) may_write =
     \<lparr>ie_kind = PresenceCursor,
      ie_payload = JObj [(''line'', JNum line), (''column'', JNum column), (''user_name'', JStr user_name), (''can_write'', JBool may_write)],
      ie_persisted_kind = None, ie_request_id = None\<rparr>"

fun event_kind_str :: "room_event_kind \<Rightarrow> string" where
  "event_kind_str YjsUpdate = ''yjs.update''"
| "event_kind_str YjsSync = ''yjs.sync''"
| "event_kind_str YjsAck = ''yjs.ack''"
| "event_kind_str PresenceJoin = ''presence.join''"
| "event_kind_str PresenceLeave = ''presence.leave''"
| "event_kind_str PresenceMetadata = ''presence.meta''"
| "event_kind_str PresenceCursor = ''presence.cursor''"
| "event_kind_str BootstrapDone = ''bootstrap.done''"
| "event_kind_str WorkspaceChanged = ''workspace.changed''"
| "event_kind_str DocumentChanged = ''document.changed''"
| "event_kind_str ProjectReplaced = ''project.replaced''"
| "event_kind_str AccessChanged = ''access.changed''"
| "event_kind_str ServerError = ''server.error''"

record server_event =
  se_doc_id :: string
  se_user_id :: string
  se_connection_id :: "uuid option"
  se_is_current_connection :: bool
  se_kind :: string
  se_payload :: json
  se_at :: instant

definition room_event_to_protocol :: "room_event \<Rightarrow> uuid option \<Rightarrow> server_event" where
  "room_event_to_protocol e recipient =
     (let (user_id, connection_id) = (case ev_origin e of
            System_origin \<Rightarrow> (''system'', None) | Connection_origin member_id i \<Rightarrow> (member_id, Some i))
      in \<lparr>se_doc_id = ev_doc_id e, se_user_id = user_id, se_connection_id = connection_id,
          se_is_current_connection = (connection_id \<noteq> None \<and> connection_id = recipient),
          se_kind = event_kind_str (ev_kind e), se_payload = ev_payload e, se_at = ev_at e\<rparr>)"

definition yjs_payload_to_bytes :: "('d, 'u) realtime_env \<Rightarrow> json \<Rightarrow> bytes option" where
  "yjs_payload_to_bytes env payload = Option.bind (json_as_str payload) (rv_decode64 env)"

definition bytes_to_json_payload :: "('d, 'u) realtime_env \<Rightarrow> bytes \<Rightarrow> json" where
  "bytes_to_json_payload env content = JStr (rv_encode64 env content)"

definition resync_payload :: "string \<Rightarrow> json" where
  "resync_payload message = JObj [(''message'', JStr message), (''resync_required'', JBool True)]"

definition closes_stream :: "room_event \<Rightarrow> bool" where
  "closes_stream e \<longleftrightarrow> ev_kind e \<in> {AccessChanged, DocumentChanged, ProjectReplaced} \<or>
     (ev_kind e = ServerError \<and> json_get (ev_payload e) ''resync_required'' = Some (JBool True))"

section \<open>Updates of a client\<close>

datatype persist_event_outcome =
    Accepted_event update_ack | InvalidPayload | StaleGeneration | AccessChanged_event | DocumentChanged_event | Failed_event

definition persist_yjs_event ::
  "('d, 'u) realtime_env \<Rightarrow> instant \<Rightarrow> ws_auth \<Rightarrow> update_kind \<Rightarrow> json \<Rightarrow> collab_world \<Rightarrow> persist_event_outcome \<times> collab_world" where
  "persist_yjs_event env now auth kind payload c =
     (case yjs_payload_to_bytes env payload of
        None \<Rightarrow> (InvalidPayload, c)
      | Some content \<Rightarrow>
          (case ensure_project_access (request_at env now) (wa_headers auth) (wa_project_id auth) Write (cw_access c) of
             (Inl Store_authorization, a) \<Rightarrow> (Failed_event, set_access a c)
           | (Inl _, a) \<Rightarrow> (AccessChanged_event, set_access a c)
           | (Inr _, a) \<Rightarrow>
               let c1 = set_access a c in
               (case validate_update (rv_yjs env) content of
                  Inl _ \<Rightarrow> (InvalidPayload, c1)
                | Inr _ \<Rightarrow>
                    (case wa_target auth of
                       Project_target \<Rightarrow> (Failed_event, c1)
                     | Document_target document_id revision \<Rightarrow>
                         (case persist_update (rv_yjs env) (rv_retention env) now
                                 \<lparr>cd_project_id = wa_project_id auth, cd_document_id = document_id,
                                  cd_collaboration_revision = revision, cd_content_epoch = wa_content_epoch auth\<rparr>
                                 (wa_user_id auth) kind content (wa_access_epoch auth) (wa_guest_display_name auth) c1 of
                            (Inr (Accepted_update ack), c2) \<Rightarrow> (Accepted_event ack, c2)
                          | (Inr ContentEpochChanged_update, c2) \<Rightarrow> (StaleGeneration, c2)
                          | (Inr AccessChanged_update, c2) \<Rightarrow> (AccessChanged_event, c2)
                          | (Inr DocumentChanged_update, c2) \<Rightarrow> (DocumentChanged_event, c2)
                          | (Inl _, c2) \<Rightarrow> (Failed_event, c2))))))"

section \<open>Revalidation\<close>

datatype revalidation_outcome = Current_validation | AccessChanged_validation | ProjectReplaced_validation | Unavailable_validation

definition same_principal :: "access_principal \<Rightarrow> ws_auth \<Rightarrow> bool" where
  "same_principal who auth \<longleftrightarrow> ap_user_id who = wa_user_id auth \<and> ap_guest_session_id who = wa_guest_session_id auth \<and>
     ap_guest_display_name who = wa_guest_display_name auth \<and> ap_can_write who = wa_can_write auth"

definition revalidate_project ::
  "('d, 'u) realtime_env \<Rightarrow> instant \<Rightarrow> ws_auth \<Rightarrow> collab_world \<Rightarrow> revalidation_outcome \<times> collab_world" where
  "revalidate_project env now auth c =
     (case ensure_project_access (request_at env now) (wa_headers auth) (wa_project_id auth) Read (cw_access c) of
        (Inl Store_authorization, a) \<Rightarrow> (Unavailable_validation, set_access a c)
      | (Inl _, a) \<Rightarrow> (AccessChanged_validation, set_access a c)
      | (Inr who, a) \<Rightarrow>
          let c1 = set_access a c in
          if \<not> same_principal who auth then (AccessChanged_validation, c1)
          else if project_content_epoch (wa_project_id auth) (cw_db c1) \<noteq> Some (wa_content_epoch auth)
          then (ProjectReplaced_validation, c1)
          else if project_access_epoch (wa_project_id auth) (cw_access c1) \<noteq> Some (wa_access_epoch auth)
          then (AccessChanged_validation, c1)
          else (Current_validation, c1))"

definition revalidation_event :: "string \<Rightarrow> revalidation_outcome \<Rightarrow> instant \<Rightarrow> room_event option" where
  "revalidation_event stream_id outcome now =
     (case outcome of
        Current_validation \<Rightarrow> None
      | AccessChanged_validation \<Rightarrow> Some (system_event stream_id AccessChanged (JObj []) now)
      | ProjectReplaced_validation \<Rightarrow> Some (system_event stream_id ProjectReplaced (JObj []) now)
      | Unavailable_validation \<Rightarrow>
          Some (system_event stream_id ServerError (resync_payload ''Realtime authorization could not be revalidated'') now))"

section \<open>Connections\<close>

text \<open>
  The stage of the reader of a connection. \<open>cn_listening\<close>: the connection still owns its receiver, from
  the subscription until the forwarder ends.
\<close>

datatype stage = Upgrading_stage | Subscribed_stage | Admitted_stage | Open_stage | Draining_stage

datatype socket_command = Event_command room_event | ServiceRestart

record connection =
  cn_key :: nat
  cn_auth :: ws_auth
  cn_stream_id :: string
  cn_user_name :: "string option"
  cn_connection_id :: uuid
  cn_stage :: stage
  cn_listening :: bool
  cn_sender :: nat
  cn_commands :: "socket_command list"

datatype ws_frame = Event_frame server_event | Close_frame "int option"

text \<open>
  \<open>rt_outstanding\<close> and \<open>rt_replaced\<close> are the notifications that committed operations have still to send;
  \<open>rt_sent\<close> records the frames for every connection.
\<close>

record realtime_world =
  rt_collab :: collab_world
  rt_rooms :: rooms
  rt_connections :: "connection list"
  rt_next :: nat
  rt_active :: nat
  rt_draining :: bool
  rt_outstanding :: "uuid list"
  rt_replaced :: "(uuid \<times> int) list"
  rt_sent :: "(nat \<times> ws_frame) list"

definition cn_room :: "connection \<Rightarrow> room_key" where
  "cn_room n = (wa_project_id (cn_auth n),
     (case wa_target (cn_auth n) of Project_target \<Rightarrow> project_control_room | Document_target _ _ \<Rightarrow> cn_stream_id n))"

definition recipient :: "connection \<Rightarrow> uuid option" where
  "recipient n = (case wa_target (cn_auth n) of Project_target \<Rightarrow> None | Document_target _ _ \<Rightarrow> Some (cn_connection_id n))"

definition find_connection :: "nat \<Rightarrow> realtime_world \<Rightarrow> connection option" where
  "find_connection k w = find (\<lambda>n. cn_key n = k) (rt_connections w)"

definition set_connection :: "nat \<Rightarrow> (connection \<Rightarrow> connection) \<Rightarrow> realtime_world \<Rightarrow> realtime_world" where
  "set_connection k f w = w\<lparr>rt_connections := update_where (\<lambda>n. cn_key n = k) f (rt_connections w)\<rparr>"

definition in_rooms :: "(rooms \<Rightarrow> rooms) \<Rightarrow> realtime_world \<Rightarrow> realtime_world" where
  "in_rooms f w = w\<lparr>rt_rooms := f (rt_rooms w)\<rparr>"

definition set_collab :: "collab_world \<Rightarrow> realtime_world \<Rightarrow> realtime_world" where
  "set_collab c w = w\<lparr>rt_collab := c\<rparr>"

definition send_frames :: "nat \<Rightarrow> ws_frame list \<Rightarrow> realtime_world \<Rightarrow> realtime_world" where
  "send_frames k fs w = w\<lparr>rt_sent := rt_sent w @ map (Pair k) fs\<rparr>"

definition push_command :: "nat \<Rightarrow> socket_command \<Rightarrow> realtime_world \<Rightarrow> realtime_world" where
  "push_command k command w = set_connection k (\<lambda>n. n\<lparr>cn_commands := cn_commands n @ [command]\<rparr>) w"

definition send_terminal_event_and_close :: "nat \<Rightarrow> room_event \<Rightarrow> realtime_world \<Rightarrow> realtime_world" where
  "send_terminal_event_and_close k e w = send_frames k [Event_frame (room_event_to_protocol e None), Close_frame None] w"

definition send_server_error_and_close :: "nat \<Rightarrow> string \<Rightarrow> string \<Rightarrow> instant \<Rightarrow> realtime_world \<Rightarrow> realtime_world" where
  "send_server_error_and_close k stream_id message now w =
     send_terminal_event_and_close k (system_event stream_id ServerError (resync_payload message) now) w"

text \<open>The end of a connection: its receiver is dropped, an idle room goes, and the connection is not tracked any more.\<close>

definition stop_listening :: "nat \<Rightarrow> realtime_world \<Rightarrow> realtime_world" where
  "stop_listening k w = set_connection k (\<lambda>n. n\<lparr>cn_listening := False\<rparr>) (in_rooms (drop_receiver k) w)"

definition forget_connection :: "nat \<Rightarrow> realtime_world \<Rightarrow> realtime_world" where
  "forget_connection k w =
     w\<lparr>rt_connections := delete_where (\<lambda>n. cn_key n = k) (rt_connections w), rt_active := untrack (rt_active w)\<rparr>"

definition end_connection :: "connection \<Rightarrow> realtime_world \<Rightarrow> realtime_world" where
  "end_connection n w =
     forget_connection (cn_key n)
       (in_rooms (remove_if_idle (fst (cn_room n)) (snd (cn_room n)) (cn_sender n)) (stop_listening (cn_key n) w))"

text \<open>The upgrade: the handlers authorise the request and start the task of the connection.\<close>

definition upgrade :: "ws_auth \<Rightarrow> string \<Rightarrow> string option \<Rightarrow> uuid \<Rightarrow> realtime_world \<Rightarrow> ws_response \<times> realtime_world" where
  "upgrade auth stream_id user_name connection_id w =
     (Upgraded_ws (rt_next w),
      w\<lparr>rt_connections := rt_connections w @
          [\<lparr>cn_key = rt_next w, cn_auth = auth, cn_stream_id = stream_id, cn_user_name = user_name, cn_connection_id = connection_id,
            cn_stage = Upgrading_stage, cn_listening = False, cn_sender = 0, cn_commands = []\<rparr>],
        rt_next := rt_next w + 1, rt_active := track (rt_active w)\<rparr>)"

fun nat_str :: "nat \<Rightarrow> string" where
  "nat_str n = (if n < 10 then [char_of (48 + n)] else nat_str (n div 10) @ [char_of (48 + n mod 10)])"

declare nat_str.simps [simp del]

definition ws_handler ::
  "('d, 'u) realtime_env \<Rightarrow> string \<Rightarrow> ws_query \<Rightarrow> headers \<Rightarrow> uuid \<Rightarrow> uuid \<Rightarrow> instant \<Rightarrow> realtime_world \<Rightarrow> ws_response \<times> realtime_world" where
  "ws_handler env doc_id query hs fresh connection_id now w =
     (if \<not> protocol_epoch_matches (wq_protocol_epoch query) then (Incompatible_close protocol_incompatible_close_code, w)
      else case re_parse_uuid (rv_request env) doc_id of
        None \<Rightarrow> (Refused_ws 400 ''bad_request'' ''Realtime document ID is invalid'', w)
      | Some document_id \<Rightarrow>
          (case (case wq_collaboration_revision query of Some r \<Rightarrow> if 0 \<le> r then Some r else None | None \<Rightarrow> None) of
             None \<Rightarrow> (Refused_ws 400 ''bad_request'' ''Realtime collaboration revision is required'', w)
           | Some revision \<Rightarrow>
               (case authorize_ws_user env hs query document_id revision fresh now (rt_collab w) of
                  (Inl e, c) \<Rightarrow> (authorization_error_response e, set_collab c w)
                | (Inr auth, c) \<Rightarrow>
                    upgrade auth (rv_uuid_str env document_id @ '':'' @ nat_str (nat revision)) (wq_user_name query) connection_id (set_collab c w))))"

definition project_ws_handler ::
  "('d, 'u) realtime_env \<Rightarrow> uuid \<Rightarrow> ws_query \<Rightarrow> headers \<Rightarrow> uuid \<Rightarrow> uuid \<Rightarrow> instant \<Rightarrow> realtime_world \<Rightarrow> ws_response \<times> realtime_world" where
  "project_ws_handler env project_id query hs fresh connection_id now w =
     (if \<not> protocol_epoch_matches (wq_protocol_epoch query) then (Incompatible_close protocol_incompatible_close_code, w)
      else case authorize_project_ws_user env hs query project_id fresh now (rt_collab w) of
        (Inl e, c) \<Rightarrow> (authorization_error_response e, set_collab c w)
      | (Inr auth, c) \<Rightarrow> upgrade auth (rv_uuid_str env project_id) None connection_id (set_collab c w))"

section \<open>The reader\<close>

text \<open>\<open>handle_socket\<close> and \<open>handle_project_socket\<close> up to the subscription.\<close>

definition start_socket :: "connection \<Rightarrow> realtime_world \<Rightarrow> realtime_world" where
  "start_socket n w =
     (if rt_draining w then forget_connection (cn_key n) (send_frames (cn_key n) [Close_frame (Some restart_close_code)] w)
      else case subscribe (fst (cn_room n)) (snd (cn_room n)) (cn_key n) (rt_rooms w) of
        (channel, r) \<Rightarrow>
          set_connection (cn_key n) (\<lambda>n. n\<lparr>cn_stage := Subscribed_stage, cn_listening := True, cn_sender := channel\<rparr>) (w\<lparr>rt_rooms := r\<rparr>))"

definition revalidate_new_subscription :: "('d, 'u) realtime_env \<Rightarrow> instant \<Rightarrow> connection \<Rightarrow> realtime_world \<Rightarrow> realtime_world" where
  "revalidate_new_subscription env now n w =
     (case revalidate_project env now (cn_auth n) (rt_collab w) of
        (outcome, c) \<Rightarrow>
          (case revalidation_event (cn_stream_id n) outcome now of
             None \<Rightarrow> set_connection (cn_key n) (\<lambda>n. n\<lparr>cn_stage := Admitted_stage\<rparr>) (set_collab c w)
           | Some e \<Rightarrow> end_connection n (send_terminal_event_and_close (cn_key n) e (set_collab c w))))"

definition bootstrap_events :: "('d, 'u) realtime_env \<Rightarrow> string \<Rightarrow> bootstrap_state \<Rightarrow> instant \<Rightarrow> room_event list" where
  "bootstrap_events env doc_id b now =
     (case bs_snapshot_payload b of None \<Rightarrow> [] | Some s \<Rightarrow> [system_event doc_id YjsSync (bytes_to_json_payload env s) now]) @
     map (\<lambda>(kind, payload). system_event doc_id (case kind of Update_kind \<Rightarrow> YjsUpdate | Sync_kind \<Rightarrow> YjsSync)
            (bytes_to_json_payload env payload) now) (bs_updates b) @
     [system_event doc_id BootstrapDone (JObj []) now]"

text \<open>The events that a client gets before its forwarder starts; \<open>sent\<close> of the frames are delivered.\<close>

definition send_bootstrap_state :: "nat \<Rightarrow> connection \<Rightarrow> room_event list \<Rightarrow> realtime_world \<Rightarrow> bool \<times> realtime_world" where
  "send_bootstrap_state sent n es w =
     (length es \<le> sent,
      send_frames (cn_key n) (take sent (map (\<lambda>e. Event_frame (room_event_to_protocol e (recipient n))) es)) w)"

definition joined_event :: "('d, 'u) realtime_env \<Rightarrow> connection \<Rightarrow> instant \<Rightarrow> room_event" where
  "joined_event env n now =
     (let user_id = rv_uuid_str env (wa_effective_id (cn_auth n)) in
      connection_event (cn_stream_id n) user_id (cn_connection_id n) PresenceJoin
        (JObj [(''user_id'', JStr user_id), (''user_name'', json_option JStr (cn_user_name n)), (''auth_kind'', JStr ''project-scoped''),
               (''can_write'', JBool (wa_can_write (cn_auth n)))]) now)"

definition open_stream :: "nat \<Rightarrow> realtime_world \<Rightarrow> realtime_world" where
  "open_stream k w = set_connection k (\<lambda>n. n\<lparr>cn_stage := Open_stage\<rparr>) w"

text \<open>A project connection gets only the event that it is ready.\<close>

definition ready_socket :: "nat \<Rightarrow> instant \<Rightarrow> connection \<Rightarrow> realtime_world \<Rightarrow> realtime_world" where
  "ready_socket sent now n w =
     (case send_bootstrap_state sent n [system_event (cn_stream_id n) BootstrapDone (JObj []) now] w of
        (ok, w1) \<Rightarrow> if ok then open_stream (cn_key n) w1 else end_connection n w1)"

definition bootstrap_socket :: "('d, 'u) realtime_env \<Rightarrow> nat \<Rightarrow> instant \<Rightarrow> connection \<Rightarrow> realtime_world \<Rightarrow> realtime_world" where
  "bootstrap_socket env sent now n w =
     (case wa_target (cn_auth n) of
        Project_target \<Rightarrow> ready_socket sent now n w
      | Document_target document_id revision \<Rightarrow>
          (case prepare_document_bootstrap (rv_yjs env) (rv_retention env) now
                  \<lparr>cd_project_id = wa_project_id (cn_auth n), cd_document_id = document_id, cd_collaboration_revision = revision,
                   cd_content_epoch = wa_content_epoch (cn_auth n)\<rparr> (rt_collab w) of
             (Inl e, c) \<Rightarrow>
               end_connection n (send_server_error_and_close (cn_key n) (cn_stream_id n) ''Failed to load collaborative document state'' now
                 (set_collab c w))
           | (Inr (b, changes), c) \<Rightarrow>
               let w1 = in_rooms (\<lambda>r. foldl (\<lambda>r ch. workspace_changed (rv_uuid_str env) (wa_project_id (cn_auth n)) ch now r) r changes)
                          (set_collab c w)
               in (case send_bootstrap_state sent n (bootstrap_events env (cn_stream_id n) b now) w1 of
                     (ok, w2) \<Rightarrow>
                       if ok then open_stream (cn_key n) (in_rooms (room_send (cn_sender n) (joined_event env n now)) w2)
                       else end_connection n w2)))"

text \<open>
  The end of the loop: a document connection says that it leaves; a forwarder that has still a closing
  command to deliver goes on, any other one is aborted.
\<close>

definition leave :: "('d, 'u) realtime_env \<Rightarrow> instant \<Rightarrow> bool \<Rightarrow> connection \<Rightarrow> realtime_world \<Rightarrow> realtime_world" where
  "leave env now drain_close_event n w =
     (let w1 = (case wa_target (cn_auth n) of
            Project_target \<Rightarrow> w
          | Document_target _ _ \<Rightarrow>
              in_rooms (room_send (cn_sender n) (connection_event (cn_stream_id n) (rv_uuid_str env (wa_effective_id (cn_auth n)))
                (cn_connection_id n) PresenceLeave (JObj []) now)) w)
      in if drain_close_event then set_connection (cn_key n) (\<lambda>n. n\<lparr>cn_stage := Draining_stage\<rparr>) w1 else end_connection n w1)"

definition close_with :: "('d, 'u) realtime_env \<Rightarrow> instant \<Rightarrow> socket_command \<Rightarrow> connection \<Rightarrow> realtime_world \<Rightarrow> realtime_world" where
  "close_with env now command n w =
     leave env now (cn_listening n) n (if cn_listening n then push_command (cn_key n) command w else w)"

definition handle_text :: "('d, 'u) realtime_env \<Rightarrow> instant \<Rightarrow> client_message \<Rightarrow> connection \<Rightarrow> realtime_world \<Rightarrow> realtime_world" where
  "handle_text env now message n w =
     (let auth = cn_auth n;
          incoming = client_message_event message (wa_can_write auth);
          publish = in_rooms (room_send (cn_sender n) (connection_event (cn_stream_id n) (rv_uuid_str env (wa_effective_id auth))
            (cn_connection_id n) (ie_kind incoming) (ie_payload incoming) now));
          stream_event = (\<lambda>kind payload. Event_command (system_event (cn_stream_id n) kind payload now))
      in if ie_kind incoming = PresenceCursor \<and> \<not> wa_can_write auth then w
         else case ie_persisted_kind incoming of
           None \<Rightarrow> publish w
         | Some kind \<Rightarrow>
             if \<not> wa_can_write auth then w
             else (case ie_request_id incoming of
                None \<Rightarrow> w
              | Some request_id \<Rightarrow>
                  (case persist_yjs_event env now auth kind (ie_payload incoming) (rt_collab w) of
                     (Accepted_event ack, c) \<Rightarrow>
                       if \<not> cn_listening n then leave env now False n (set_collab c w)
                       else
                         let w1 = push_command (cn_key n) (stream_event YjsAck (JObj [(''request_id'', JStr request_id),
                                    (''update_id'', JNum (ua_update_id ack)), (''projected'', JBool (ua_projected ack))])) (set_collab c w);
                             w2 = (case ua_workspace_change ack of
                                     None \<Rightarrow> w1
                                   | Some change \<Rightarrow> in_rooms (workspace_changed (rv_uuid_str env) (wa_project_id auth) change now) w1)
                         in publish w2
                   | (InvalidPayload, c) \<Rightarrow> set_collab c w
                   | (StaleGeneration, c) \<Rightarrow> close_with env now (stream_event ProjectReplaced (JObj [])) n (set_collab c w)
                   | (AccessChanged_event, c) \<Rightarrow> close_with env now (stream_event AccessChanged (JObj [])) n (set_collab c w)
                   | (DocumentChanged_event, c) \<Rightarrow> close_with env now (stream_event DocumentChanged (JObj [])) n (set_collab c w)
                   | (Failed_event, c) \<Rightarrow>
                       close_with env now (stream_event ServerError (resync_payload ''Failed to persist collaborative update'')) n (set_collab c w))))"

text \<open>A message of the client; \<open>Text_message None\<close> is a text that is not a message of the protocol.\<close>

datatype client_input = Text_message "client_message option" | Binary_message | Close_message | Other_message | Stream_ended

text \<open>A project connection ignores what its client sends, but for the end of the stream.\<close>

definition handle_project_input :: "('d, 'u) realtime_env \<Rightarrow> instant \<Rightarrow> client_input \<Rightarrow> connection \<Rightarrow> realtime_world \<Rightarrow> realtime_world" where
  "handle_project_input env now input n w =
     (case input of Stream_ended \<Rightarrow> leave env now False n w | Close_message \<Rightarrow> leave env now False n w | _ \<Rightarrow> w)"

definition handle_input :: "('d, 'u) realtime_env \<Rightarrow> instant \<Rightarrow> client_input \<Rightarrow> connection \<Rightarrow> realtime_world \<Rightarrow> realtime_world" where
  "handle_input env now input n w =
     (case wa_target (cn_auth n) of
        Project_target \<Rightarrow> handle_project_input env now input n w
      | Document_target _ _ \<Rightarrow>
          (case input of
             Stream_ended \<Rightarrow> leave env now False n w
           | Close_message \<Rightarrow> leave env now False n w
           | Text_message (Some message) \<Rightarrow> handle_text env now message n w
           | _ \<Rightarrow> w))"

definition authorization_tick :: "('d, 'u) realtime_env \<Rightarrow> instant \<Rightarrow> connection \<Rightarrow> realtime_world \<Rightarrow> realtime_world" where
  "authorization_tick env now n w =
     (case revalidate_project env now (cn_auth n) (rt_collab w) of
        (outcome, c) \<Rightarrow>
          (case revalidation_event (cn_stream_id n) outcome now of
             None \<Rightarrow> set_collab c w
           | Some e \<Rightarrow> close_with env now (Event_command e) n (set_collab c w)))"

section \<open>The forwarder\<close>

definition deliver_event :: "bool \<Rightarrow> room_event \<Rightarrow> connection \<Rightarrow> realtime_world \<Rightarrow> realtime_world" where
  "deliver_event ok e n w =
     (if \<not> ok then stop_listening (cn_key n) w
      else
        let w1 = send_frames (cn_key n) [Event_frame (room_event_to_protocol e (recipient n))] w in
        if closes_stream e then stop_listening (cn_key n) (send_frames (cn_key n) [Close_frame None] w1) else w1)"

text \<open>One turn of \<open>forward_room_events\<close>; the task takes a command or an event, whichever is ready.\<close>

definition forward_command :: "bool \<Rightarrow> connection \<Rightarrow> realtime_world \<Rightarrow> realtime_world" where
  "forward_command ok n w =
     (case cn_commands n of
        [] \<Rightarrow> w
      | command # rest \<Rightarrow>
          let w1 = set_connection (cn_key n) (\<lambda>n. n\<lparr>cn_commands := rest\<rparr>) w in
          (case command of
             ServiceRestart \<Rightarrow> stop_listening (cn_key n) (send_frames (cn_key n) [Close_frame (Some restart_close_code)] w1)
           | Event_command e \<Rightarrow> deliver_event ok e n w1))"

definition pop_receiver :: "nat \<Rightarrow> rooms \<Rightarrow> rooms" where
  "pop_receiver k r = r\<lparr>rm_receivers := update_where (\<lambda>x. rx_id x = k) (\<lambda>x. x\<lparr>rx_queue := tl (rx_queue x)\<rparr>) (rm_receivers r)\<rparr>"

definition forward_event :: "bool \<Rightarrow> instant \<Rightarrow> connection \<Rightarrow> realtime_world \<Rightarrow> realtime_world" where
  "forward_event ok now n w =
     (case find_receiver (cn_key n) (rt_rooms w) of
        None \<Rightarrow> w
      | Some x \<Rightarrow>
          if rx_lagged x
          then stop_listening (cn_key n) (send_server_error_and_close (cn_key n) (cn_stream_id n)
                 ''Realtime stream fell behind; reconnect to resynchronize'' now w)
          else (case rx_queue x of
                  [] \<Rightarrow> w
                | e # _ \<Rightarrow> deliver_event ok e n (in_rooms (pop_receiver (cn_key n)) w)))"

section \<open>Steps\<close>

datatype realtime_event =
    Open_document string ws_query headers uuid uuid instant
  | Open_project uuid ws_query headers uuid uuid instant
  | Start nat
  | Revalidate nat instant
  | Bootstrap_stream nat nat instant
  | Input nat client_input instant
  | Tick nat instant
  | Observe_drain nat instant
  | Forward_command nat bool
  | Forward_event nat bool instant
  | Finish nat
  | Trigger_drain
  | Collaborate collab_event
  | Change_access uuid "access_db \<Rightarrow> access_db"
  | Other_access "access_db \<Rightarrow> access_db"
  | Announce_access uuid instant
  | Replace_project "nat \<Rightarrow> uuid" replace_content
  | Announce_replaced uuid int instant

definition when_stage :: "(connection \<Rightarrow> bool) \<Rightarrow> nat \<Rightarrow> (connection \<Rightarrow> realtime_world \<Rightarrow> realtime_world) \<Rightarrow> realtime_world \<Rightarrow> realtime_world" where
  "when_stage P k f w = (case find_connection k w of None \<Rightarrow> w | Some n \<Rightarrow> if P n then f n w else w)"

definition forwarding :: "connection \<Rightarrow> bool" where
  "forwarding n \<longleftrightarrow> cn_listening n \<and> cn_stage n \<in> {Open_stage, Draining_stage}"

text \<open>
  A change of the access tables by an operation that advances the access epoch of the project in its
  transaction (\<open>grant.rs\<close>, \<open>sharing.rs\<close>), and any other change, which leaves the epochs alone.
\<close>

definition keeps_epochs :: "access_db \<Rightarrow> access_db \<Rightarrow> bool" where
  "keeps_epochs a b \<longleftrightarrow> list_all (\<lambda>(p, _). project_access_epoch p b = project_access_epoch p a) (access_epochs a)"

definition change_access :: "uuid \<Rightarrow> (access_db \<Rightarrow> access_db) \<Rightarrow> realtime_world \<Rightarrow> realtime_world" where
  "change_access pid f w =
     (let a = cw_access (rt_collab w); b = f a in
      if \<not> keeps_epochs a b then w
      else case advance_project_access_epoch pid b of
        None \<Rightarrow> w
      | Some (_, b') \<Rightarrow> (set_collab (set_access b' (rt_collab w)) w)\<lparr>rt_outstanding := pid # rt_outstanding w\<rparr>)"

definition replace_project :: "(nat \<Rightarrow> uuid) \<Rightarrow> replace_content \<Rightarrow> realtime_world \<Rightarrow> realtime_world" where
  "replace_project fresh r w =
     (let c = replace_and_clear fresh r (rt_collab w) in
      case project_content_epoch (rp_project_id r) (cw_db c) of
        None \<Rightarrow> set_collab c w
      | Some epoch \<Rightarrow>
          if project_content_epoch (rp_project_id r) (cw_db (rt_collab w)) = Some epoch then set_collab c w
          else (set_collab c w)\<lparr>rt_replaced := (rp_project_id r, epoch) # rt_replaced w\<rparr>)"

definition is_access_or_replacement :: "collab_event \<Rightarrow> bool" where
  "is_access_or_replacement e = (case e of AccessOperation _ \<Rightarrow> True | Replace _ _ \<Rightarrow> True | _ \<Rightarrow> False)"

fun realtime_step :: "('d, 'u) realtime_env \<Rightarrow> realtime_event \<Rightarrow> realtime_world \<Rightarrow> realtime_world" where
  "realtime_step env (Open_document doc_id query hs fresh cid now) w = snd (ws_handler env doc_id query hs fresh cid now w)"
| "realtime_step env (Open_project pid query hs fresh cid now) w = snd (project_ws_handler env pid query hs fresh cid now w)"
| "realtime_step env (Start k) w = when_stage (\<lambda>n. cn_stage n = Upgrading_stage) k start_socket w"
| "realtime_step env (Revalidate k now) w = when_stage (\<lambda>n. cn_stage n = Subscribed_stage) k (revalidate_new_subscription env now) w"
| "realtime_step env (Bootstrap_stream k sent now) w = when_stage (\<lambda>n. cn_stage n = Admitted_stage) k (bootstrap_socket env sent now) w"
| "realtime_step env (Input k input now) w = when_stage (\<lambda>n. cn_stage n = Open_stage) k (handle_input env now input) w"
| "realtime_step env (Tick k now) w = when_stage (\<lambda>n. cn_stage n = Open_stage) k (authorization_tick env now) w"
| "realtime_step env (Observe_drain k now) w =
     (if rt_draining w then when_stage (\<lambda>n. cn_stage n = Open_stage) k (close_with env now ServiceRestart) w else w)"
| "realtime_step env (Forward_command k ok) w = when_stage forwarding k (forward_command ok) w"
| "realtime_step env (Forward_event k ok now) w = when_stage forwarding k (forward_event ok now) w"
| "realtime_step env (Finish k) w = when_stage (\<lambda>n. cn_stage n = Draining_stage \<and> \<not> cn_listening n) k end_connection w"
| "realtime_step env Trigger_drain w = w\<lparr>rt_draining := True\<rparr>"
| "realtime_step env (Collaborate e) w =
     (if is_access_or_replacement e then w else set_collab (collab_step (rv_yjs env) (rv_retention env) e (rt_collab w)) w)"
| "realtime_step env (Change_access pid f) w = change_access pid f w"
| "realtime_step env (Other_access f) w =
     (let a = cw_access (rt_collab w) in if keeps_epochs a (f a) then set_collab (set_access (f a) (rt_collab w)) w else w)"
| "realtime_step env (Announce_access pid now) w =
     (if pid \<in> set (rt_outstanding w)
      then in_rooms (access_changed pid now) (w\<lparr>rt_outstanding := remove1 pid (rt_outstanding w)\<rparr>) else w)"
| "realtime_step env (Replace_project fresh r) w = replace_project fresh r w"
| "realtime_step env (Announce_replaced pid epoch now) w =
     (if (pid, epoch) \<in> set (rt_replaced w)
      then in_rooms (invalidate_project pid epoch now) (w\<lparr>rt_replaced := remove1 (pid, epoch) (rt_replaced w)\<rparr>) else w)"

definition realtime_start :: "collab_world \<Rightarrow> realtime_world" where
  "realtime_start c = \<lparr>rt_collab = c, rt_rooms = no_rooms, rt_connections = [], rt_next = 0, rt_active = 0, rt_draining = False,
     rt_outstanding = [], rt_replaced = [], rt_sent = []\<rparr>"

end
