(* ===== verification/Realtime_Invariant.thy ===== *)
theory Realtime_Invariant
  imports Realtime Collaboration_Steps
begin

text \<open>
  The invariant of the realtime connections: a connection that listens is attached to its room, and one
  that has been admitted under an access epoch that is not current any more has the event that ends it
  before it, unless the notification of the change is still to be sent.
\<close>

definition admitted :: "connection \<Rightarrow> bool" where
  "admitted n \<longleftrightarrow> cn_stage n \<in> {Admitted_stage, Open_stage, Draining_stage}"

definition stale :: "access_db \<Rightarrow> connection \<Rightarrow> bool" where
  "stale a n \<longleftrightarrow> project_access_epoch (wa_project_id (cn_auth n)) a \<noteq> Some (wa_access_epoch (cn_auth n))"

definition connection_ok :: "access_db \<Rightarrow> uuid list \<Rightarrow> rooms \<Rightarrow> connection \<Rightarrow> bool" where
  "connection_ok a outstanding r n \<longleftrightarrow>
     (cn_listening n \<longleftrightarrow> find_receiver (cn_key n) r \<noteq> None) \<and>
     (cn_listening n \<longrightarrow> attached (cn_room n) (cn_sender n) (cn_key n) r) \<and>
     (cn_listening n \<and> admitted n \<and> stale a n \<longrightarrow>
        wa_project_id (cn_auth n) \<in> set outstanding \<or> will_hear AccessChanged (cn_key n) r) \<and>
     (cn_stage n = Upgrading_stage \<longrightarrow> \<not> cn_listening n)"

definition rinv :: "realtime_world \<Rightarrow> bool" where
  "rinv w \<longleftrightarrow>
     distinct (map cn_key (rt_connections w)) \<and>
     (\<forall>n \<in> set (rt_connections w). cn_key n < rt_next w \<and>
        connection_ok (cw_access (rt_collab w)) (rt_outstanding w) (rt_rooms w) n) \<and>
     (\<forall>k. find_receiver k (rt_rooms w) \<noteq> None \<longrightarrow> (\<exists>n \<in> set (rt_connections w). cn_key n = k))"

lemma rinv_connection:
  "rinv w \<Longrightarrow> n \<in> set (rt_connections w) \<Longrightarrow> connection_ok (cw_access (rt_collab w)) (rt_outstanding w) (rt_rooms w) n"
  by (simp add: rinv_def)

lemma find_connection_set: "find_connection k w = Some n \<Longrightarrow> n \<in> set (rt_connections w) \<and> cn_key n = k"
  unfolding find_connection_def by (drule find_Some_set) simp

section \<open>Parts of the steps\<close>

lemma cn_room_update [simp]:
  "cn_room (n\<lparr>cn_commands := cs\<rparr>) = cn_room n" "cn_room (n\<lparr>cn_stage := st\<rparr>) = cn_room n"
  "cn_room (n\<lparr>cn_listening := b\<rparr>) = cn_room n" "cn_room (n\<lparr>cn_sender := c\<rparr>) = cn_room n"
  by (simp_all add: cn_room_def split: ws_target.split)

lemma admitted_stale_update [simp]:
  "admitted (n\<lparr>cn_commands := cs\<rparr>) = admitted n" "stale a (n\<lparr>cn_commands := cs\<rparr>) = stale a n"
  "stale a (n\<lparr>cn_stage := st\<rparr>) = stale a n" "admitted (n\<lparr>cn_listening := b\<rparr>) = admitted n"
  by (simp_all add: admitted_def stale_def)

lemma send_frames_simps [simp]:
  "rt_collab (send_frames k fs w) = rt_collab w" "rt_rooms (send_frames k fs w) = rt_rooms w"
  "rt_connections (send_frames k fs w) = rt_connections w" "rt_outstanding (send_frames k fs w) = rt_outstanding w"
  "rt_next (send_frames k fs w) = rt_next w"
  by (simp_all add: send_frames_def)

lemma set_connection_simps [simp]:
  "rt_collab (set_connection k f w) = rt_collab w" "rt_rooms (set_connection k f w) = rt_rooms w"
  "rt_outstanding (set_connection k f w) = rt_outstanding w" "rt_next (set_connection k f w) = rt_next w"
  by (simp_all add: set_connection_def)

lemma in_rooms_simps [simp]:
  "rt_collab (in_rooms f w) = rt_collab w" "rt_rooms (in_rooms f w) = f (rt_rooms w)"
  "rt_connections (in_rooms f w) = rt_connections w" "rt_outstanding (in_rooms f w) = rt_outstanding w"
  "rt_next (in_rooms f w) = rt_next w"
  by (simp_all add: in_rooms_def)

lemma set_collab_simps [simp]:
  "rt_collab (set_collab c w) = c" "rt_rooms (set_collab c w) = rt_rooms w"
  "rt_connections (set_collab c w) = rt_connections w" "rt_outstanding (set_collab c w) = rt_outstanding w"
  "rt_next (set_collab c w) = rt_next w"
  by (simp_all add: set_collab_def)

lemma stop_listening_simps [simp]:
  "rt_collab (stop_listening k w) = rt_collab w" "rt_rooms (stop_listening k w) = drop_receiver k (rt_rooms w)"
  "rt_outstanding (stop_listening k w) = rt_outstanding w" "rt_next (stop_listening k w) = rt_next w"
  by (simp_all add: stop_listening_def)

lemma rinv_frames [simp]: "rinv (send_frames k fs w) = rinv w"
  by (simp add: rinv_def)

lemma rinv_terminal [simp]: "rinv (send_terminal_event_and_close k e w) = rinv w"
  "rinv (send_server_error_and_close k s m now w) = rinv w"
  by (simp_all add: send_terminal_event_and_close_def send_server_error_and_close_def)

text \<open>Operations on the rooms that take nothing from anybody.\<close>

definition gentle :: "(rooms \<Rightarrow> rooms) \<Rightarrow> bool" where
  "gentle f \<longleftrightarrow> (\<forall>r.
     (\<forall>key c k. attached key c k r \<longrightarrow> attached key c k (f r)) \<and>
     (\<forall>k. find_receiver k (f r) = None \<longleftrightarrow> find_receiver k r = None) \<and>
     (\<forall>kind k. will_hear kind k r \<longrightarrow> will_hear kind k (f r)))"

lemma gentle_send [simp]: "gentle (room_send c e)"
  by (simp add: gentle_def attached_send will_hear_send find_receiver_send)

lemma gentle_id [simp]: "gentle (\<lambda>r. r)"
  by (simp add: gentle_def)

lemma gentle_workspace_changed [simp]: "gentle (workspace_changed us p ch now)"
proof -
  have "\<exists>g. gentle g \<and> workspace_changed us p ch now r = g r" for r
    unfolding workspace_changed_def by (cases "map_of (rm_channels r) (p, project_control_room)") (auto intro: gentle_id gentle_send)
  then show ?thesis unfolding gentle_def by metis
qed

lemma gentle_comp: "gentle f \<Longrightarrow> gentle g \<Longrightarrow> gentle (\<lambda>r. f (g r))"
  unfolding gentle_def by blast

lemma gentle_foldl: "(\<And>x. gentle (f x)) \<Longrightarrow> gentle (\<lambda>r. foldl (\<lambda>r x. f x r) r xs)"
proof (induction xs rule: rev_induct)
  case (snoc x xs)
  then show ?case using gentle_comp [of "f x" "\<lambda>r. foldl (\<lambda>r x. f x r) r xs"] by simp
qed simp

lemma gentle_broadcast [simp]: "gentle (broadcast_project p kind payload now)"
  by (simp add: gentle_def broadcast_keeps)

lemma gentle_idle [simp]: "gentle (remove_if_idle p d c)"
  unfolding gentle_def by (simp add: attached_idle will_hear_def)

lemma rinv_rooms:
  assumes "rinv w" and "gentle f"
  shows "rinv (in_rooms f w)"
proof -
  have a: "attached key c k r \<Longrightarrow> attached key c k (f r)" and b: "find_receiver k (f r) = None \<longleftrightarrow> find_receiver k r = None"
    and h: "will_hear kind k r \<Longrightarrow> will_hear kind k (f r)" for key c k kind r
    using assms(2) unfolding gentle_def by blast+
  have "connection_ok (cw_access (rt_collab w)) (rt_outstanding w) (f (rt_rooms w)) n" if "n \<in> set (rt_connections w)" for n
    using rinv_connection [OF assms(1) that] unfolding connection_ok_def b by (auto intro: a h)
  then show ?thesis using assms(1) by (simp add: rinv_def b)
qed

text \<open>The collaboration state matters only through the access epochs of existing projects.\<close>

definition epochs_kept :: "access_db \<Rightarrow> access_db \<Rightarrow> bool" where
  "epochs_kept a b \<longleftrightarrow> (\<forall>p e. project_access_epoch p a = Some e \<longrightarrow> project_access_epoch p b = Some e)"

lemma rinv_collab:
  assumes "rinv w" and "epochs_kept (cw_access (rt_collab w)) (cw_access c)"
  shows "rinv (set_collab c w)"
proof -
  have "stale (cw_access c) n \<Longrightarrow> stale (cw_access (rt_collab w)) n" for n
    using assms(2) by (auto simp: stale_def epochs_kept_def)
  then show ?thesis using assms(1) by (auto simp: rinv_def connection_ok_def)
qed

lemma connections_update: "n' \<in> set (update_where (\<lambda>n. cn_key n = k) f ns) \<longleftrightarrow> (\<exists>n \<in> set ns. n' = (if cn_key n = k then f n else n))"
  by (simp only: update_where_def set_map image_iff)

lemma keys_update: "(\<And>n. cn_key (f n) = cn_key n) \<Longrightarrow> map cn_key (update_where P f ns) = map cn_key ns"
  by (simp add: update_where_def)

lemma rinv_set_connection:
  assumes "rinv w" and "\<And>n. cn_key (f n) = cn_key n"
    and "\<And>n. n \<in> set (rt_connections w) \<Longrightarrow> cn_key n = k \<Longrightarrow> connection_ok (cw_access (rt_collab w)) (rt_outstanding w) (rt_rooms w) n \<Longrightarrow>
      connection_ok (cw_access (rt_collab w)) (rt_outstanding w) (rt_rooms w) (f n)"
  shows "rinv (set_connection k f w)"
proof -
  have "distinct (map cn_key (rt_connections (set_connection k f w)))"
    using assms(1) by (simp add: set_connection_def keys_update assms(2) rinv_def)
  moreover have "cn_key n' < rt_next w \<and> connection_ok (cw_access (rt_collab w)) (rt_outstanding w) (rt_rooms w) n'"
    if "n' \<in> set (rt_connections (set_connection k f w))" for n'
  proof -
    from that obtain n where n: "n \<in> set (rt_connections w)" "n' = (if cn_key n = k then f n else n)"
      by (auto simp: set_connection_def connections_update)
    then show ?thesis using assms(1,2) assms(3) [of n] rinv_connection [of w n] by (auto simp: rinv_def)
  qed
  moreover have "\<exists>n \<in> set (rt_connections (set_connection k f w)). cn_key n = j" if "find_receiver j (rt_rooms w) \<noteq> None" for j
  proof -
    from that assms(1) obtain n where "n \<in> set (rt_connections w)" "cn_key n = j" unfolding rinv_def by blast
    then show ?thesis using assms(2)
      by (intro bexI [of _ "if cn_key n = k then f n else n"]) (auto simp: set_connection_def connections_update)
  qed
  ultimately show ?thesis by (simp add: rinv_def)
qed

lemma rinv_push [simp]: "rinv w \<Longrightarrow> rinv (push_command k c w)"
  unfolding push_command_def by (rule rinv_set_connection) (auto simp: connection_ok_def)

lemma rinv_stop:
  assumes "rinv w"
  shows "rinv (stop_listening k w)"
proof -
  let ?w = "stop_listening k w"
  have keys: "map cn_key (rt_connections ?w) = map cn_key (rt_connections w)"
    by (simp add: stop_listening_def set_connection_def keys_update)
  have "cn_key n' < rt_next w \<and> connection_ok (cw_access (rt_collab w)) (rt_outstanding w) (drop_receiver k (rt_rooms w)) n'"
    if "n' \<in> set (rt_connections ?w)" for n'
  proof -
    from that obtain n where n: "n \<in> set (rt_connections w)" "n' = (if cn_key n = k then n\<lparr>cn_listening := False\<rparr> else n)"
      by (auto simp: stop_listening_def set_connection_def connections_update)
    with rinv_connection [OF assms n(1)] assms show ?thesis
      by (auto simp: rinv_def connection_ok_def attached_def will_hear_def find_receiver_drop)
  qed
  moreover have "\<exists>n \<in> set (rt_connections ?w). cn_key n = j" if "find_receiver j (drop_receiver k (rt_rooms w)) \<noteq> None" for j
  proof -
    from that have "find_receiver j (rt_rooms w) \<noteq> None" by (auto simp: find_receiver_drop split: if_splits)
    with assms have "j \<in> set (map cn_key (rt_connections w))" by (fastforce simp: rinv_def)
    then show ?thesis unfolding keys [symmetric] by auto
  qed
  ultimately show ?thesis using assms keys unfolding rinv_def by (simp del: map_eq_conv)
qed

lemma rinv_forget:
  assumes "rinv w" and "find_receiver k (rt_rooms w) = None"
  shows "rinv (forget_connection k w)"
proof -
  have "distinct (map cn_key (delete_where (\<lambda>n. cn_key n = k) (rt_connections w)))"
    using assms(1) by (simp add: rinv_def delete_where_def distinct_map_filter)
  moreover have "\<exists>n \<in> set (delete_where (\<lambda>n. cn_key n = k) (rt_connections w)). cn_key n = j" if "find_receiver j (rt_rooms w) \<noteq> None" for j
    using that assms by (fastforce simp: rinv_def delete_where_def)
  ultimately show ?thesis using assms(1) by (auto simp: rinv_def forget_connection_def delete_where_def)
qed

lemma rinv_end:
  assumes "rinv w"
  shows "rinv (end_connection n w)"
  unfolding end_connection_def
  by (rule rinv_forget) (simp_all add: rinv_rooms rinv_stop assms find_receiver_drop)

end
