(* ===== verification/Realtime_Steps.thy ===== *)
theory Realtime_Steps
  imports Realtime_Invariant
begin

text \<open>
  Every step of the realtime connections keeps their invariant; the connections with the operations on
  documents and the changes of the access tables are a transition system.
\<close>

section \<open>The access tables\<close>

lemma epochs_kept_refl [simp]: "epochs_kept a a"
  by (simp add: epochs_kept_def)

lemma epochs_kept_same: "access_epochs b = access_epochs a \<Longrightarrow> epochs_kept a b"
  by (simp add: epochs_kept_def project_access_epoch_def)

lemma set_access_simps [simp]: "cw_access (set_access a c) = a" "cw_workspace (set_access a c) = cw_workspace c"
  "cw_updates (set_access a c) = cw_updates c" "cw_snapshots (set_access a c) = cw_snapshots c"
  by (simp_all add: set_access_def)

lemma via_guest_epochs: "project_access_via_guest_session env p t a = (x, b) \<Longrightarrow> access_epochs b = access_epochs a"
  by (auto simp: project_access_via_guest_session_def touch_guest_session_def split: option.splits)

lemma ensure_access_epochs: "ensure_project_access env hs p need a = (x, b) \<Longrightarrow> access_epochs b = access_epochs a"
  unfolding ensure_project_access_def
  by (auto simp: Let_def via_guest_epochs split: option.splits sum.splits unit.splits if_splits authorization_error.splits prod.splits)

lemma keeps_epochs_kept: "keeps_epochs a b \<Longrightarrow> epochs_kept a b"
  unfolding keeps_epochs_def epochs_kept_def
proof (intro allI impI)
  fix p e assume k: "list_all (\<lambda>(p, _). project_access_epoch p b = project_access_epoch p a) (access_epochs a)"
    and e: "project_access_epoch p a = Some e"
  then have "(p, e) \<in> set (access_epochs a)" by (simp add: project_access_epoch_def map_of_SomeD)
  with k e show "project_access_epoch p b = Some e" by (auto simp: list_all_iff)
qed

lemma reconcile_access:
  "reconcile_collaboration_document Y ret now D st seed c = Inr (r, c') \<Longrightarrow> cw_access c' = cw_access c"
  by (auto simp: reconcile_collaboration_document_def clear_document_revision_def set_db_def Let_def upsert_snapshot_def prune_updates_def
      split: sum.splits prod.splits projection_outcome.splits if_splits)

lemma pending_access: "reconcile_pending_document Y ret now D c = Inr (r, c') \<Longrightarrow> cw_access c' = cw_access c"
  by (auto simp: reconcile_pending_document_def dest: reconcile_access split: if_splits)

lemma flush_access: "cw_access (snd (flush_documents Y ret now Ds c)) = cw_access c"
  by (induction Y ret now Ds c rule: flush_documents.induct)
    (auto simp: Let_def case_prod_unfold dest: pending_access split: sum.splits)

lemma capture_access: "capture_documents Y ret now Ds c = Inr (ch, c') \<Longrightarrow> cw_access c' = cw_access c"
  by (induction Y ret now Ds c arbitrary: ch c' rule: capture_documents.induct)
    (fastforce dest: reconcile_access split: sum.splits)+

lemma projector_access: "cw_access (snd (projector_batch n Y ret now c)) = cw_access c"
  by (induction n Y ret now c rule: projector_batch.induct)
    (auto simp: Let_def case_prod_unfold dest: pending_access split: option.splits sum.splits)

lemma bootstrap_access: "cw_access (snd (prepare_document_bootstrap Y ret now D c)) = cw_access c"
  by (auto simp: prepare_document_bootstrap_def clear_superseded_document_revisions_def Let_def dest: reconcile_access
      split: option.splits sum.splits reconcile_outcome.splits)

lemma persist_access: "cw_access (snd (persist_update Y ret now D u kind p ae g c)) = cw_access c"
proof -
  have "insert_update x now c = Some (i, c1) \<Longrightarrow> cw_access c1 = cw_access c" for x i c1
    by (auto simp: insert_update_def Let_def split: if_splits)
  moreover have "cw_access (prune_updates ret D i c1) = cw_access c1" for i c1 by (simp add: prune_updates_def Let_def)
  ultimately show ?thesis unfolding persist_update_def
    by (auto dest!: reconcile_access split: epoch_match.splits option.splits sum.splits reconcile_outcome.splits)
qed

lemma collab_step_access: "\<not> is_access_or_replacement e \<Longrightarrow> cw_access (collab_step Y ret e c) = cw_access c"
proof (cases e)
  case (Capture pid now)
  then show ?thesis
    by (auto simp: flush_project_collaboration_for_capture_def dest: capture_access split: sum.splits option.splits)
qed (auto simp: is_access_or_replacement_def persist_access bootstrap_access projector_access flush_access flush_project_collaboration_def
    cascade_def Let_def split: option.split)

lemma replace_access: "cw_access (replace_and_clear fresh r c) = cw_access c"
  by (auto simp: replace_and_clear_def clear_project_def cascade_def set_db_def Let_def split: option.splits prod.splits replace_result.splits)

section \<open>The handlers\<close>

lemma revalidate_epochs:
  assumes "revalidate_project env now auth c = (outcome, c')"
  shows "epochs_kept (cw_access c) (cw_access c')"
    and "outcome = Current_validation \<Longrightarrow> project_access_epoch (wa_project_id auth) (cw_access c') = Some (wa_access_epoch auth)"
proof -
  obtain x b where e: "ensure_project_access (request_at env now) (wa_headers auth) (wa_project_id auth) Read (cw_access c) = (x, b)"
    by (cases "ensure_project_access (request_at env now) (wa_headers auth) (wa_project_id auth) Read (cw_access c)")
  from assms have c': "c' = set_access b c" unfolding revalidate_project_def e
    by (auto simp: Let_def split: sum.splits authorization_error.splits if_splits)
  then show "epochs_kept (cw_access c) (cw_access c')" using ensure_access_epochs [OF e] by (simp add: epochs_kept_same)
  show "outcome = Current_validation \<Longrightarrow> project_access_epoch (wa_project_id auth) (cw_access c') = Some (wa_access_epoch auth)"
    using assms unfolding revalidate_project_def e
    by (auto simp: Let_def split: sum.splits authorization_error.splits if_splits)
qed

lemma persist_event_epochs:
  assumes "persist_yjs_event env now auth kind payload c = (outcome, c')"
  shows "epochs_kept (cw_access c) (cw_access c')"
proof -
  obtain x b where e: "ensure_project_access (request_at env now) (wa_headers auth) (wa_project_id auth) Write (cw_access c) = (x, b)"
    by (cases "ensure_project_access (request_at env now) (wa_headers auth) (wa_project_id auth) Write (cw_access c)")
  have p: "persist_update Y ret now D u kind p ae g c1 = (y, c2) \<Longrightarrow> cw_access c2 = cw_access c1" for Y :: "('a, 'b) yjs" and ret D u p ae g c1 y c2
    using persist_access [of Y ret now D u kind p ae g c1] by simp
  from assms have "cw_access c' = cw_access c \<or> cw_access c' = b" unfolding persist_yjs_event_def e
    by (auto simp: Let_def dest!: p split: option.splits sum.splits authorization_error.splits ws_target.splits persist_outcome.splits prod.splits)
  then show ?thesis using ensure_access_epochs [OF e] by (auto intro: epochs_kept_same)
qed

lemma authorize_project_epochs: "epochs_kept (cw_access c) (cw_access (snd (authorize_project_ws_user env hs q p f now c)))"
proof -
  obtain h where h: "query_headers env q hs = h" by blast
  show ?thesis
  proof (cases h)
    case (Inr hs')
    obtain x b where e: "ensure_project_access (request_at env now) hs' p Read (cw_access c) = (x, b)"
      by (cases "ensure_project_access (request_at env now) hs' p Read (cw_access c)")
    have "cw_access (snd (authorize_project_ws_user env hs q p f now c)) = b"
      unfolding authorize_project_ws_user_def h Inr by (auto simp: e Let_def split: sum.split option.split)
    with ensure_access_epochs [OF e] show ?thesis by (simp add: epochs_kept_same)
  qed (simp add: authorize_project_ws_user_def h)
qed

lemma authorize_epochs: "epochs_kept (cw_access c) (cw_access (snd (authorize_ws_user env hs q d r f now c)))"
proof -
  have "epochs_kept (cw_access c) (cw_access c1)" if "authorize_project_ws_user env hs q p f now c = (x, c1)" for p x c1
    using authorize_project_epochs [of c env hs q p f now] that by simp
  then show ?thesis unfolding authorize_ws_user_def by (auto split: option.split prod.split sum.split)
qed

section \<open>The steps keep the invariant\<close>

lemma rinv_upgrade: "rinv w \<Longrightarrow> rinv (snd (upgrade auth stream user cid w))"
proof -
  assume w: "rinv w"
  have new: "find_receiver (rt_next w) (rt_rooms w) = None"
  proof (rule ccontr)
    assume "find_receiver (rt_next w) (rt_rooms w) \<noteq> None"
    then obtain n where "n \<in> set (rt_connections w)" "cn_key n = rt_next w" using w unfolding rinv_def by blast
    then show False using w by (auto simp: rinv_def)
  qed
  have "rt_next w \<notin> cn_key ` set (rt_connections w)" using w by (fastforce simp: rinv_def)
  with w new show ?thesis by (auto simp: upgrade_def rinv_def connection_ok_def admitted_def less_Suc_eq)
qed

lemma rinv_ws_handler: "rinv w \<Longrightarrow> rinv (snd (ws_handler env d q hs f cid now w))"
proof -
  assume w: "rinv w"
  have "rinv (set_collab c w)" if "authorize_ws_user env hs q i r f now (rt_collab w) = (x, c)" for i r x c
    using authorize_epochs [of "rt_collab w" env hs q i r f now] that by (intro rinv_collab [OF w]) simp
  with w show ?thesis unfolding ws_handler_def by (auto simp: rinv_upgrade split: option.split sum.split prod.split)
qed

lemma rinv_project_ws_handler: "rinv w \<Longrightarrow> rinv (snd (project_ws_handler env p q hs f cid now w))"
proof -
  assume w: "rinv w"
  have "rinv (set_collab c w)" if "authorize_project_ws_user env hs q p f now (rt_collab w) = (x, c)" for x c
    using authorize_project_epochs [of "rt_collab w" env hs q p f now] that by (intro rinv_collab [OF w]) simp
  with w show ?thesis unfolding project_ws_handler_def by (auto simp: rinv_upgrade split: option.split sum.split prod.split)
qed

lemma rinv_start_socket:
  assumes w: "rinv w" and n: "n \<in> set (rt_connections w)" and st: "cn_stage n = Upgrading_stage"
  shows "rinv (start_socket n w)"
proof -
  from rinv_connection [OF w n] st have none: "find_receiver (cn_key n) (rt_rooms w) = None" by (auto simp: connection_ok_def)
  obtain c r where s: "subscribe (fst (cn_room n)) (snd (cn_room n)) (cn_key n) (rt_rooms w) = (c, r)"
    by (cases "subscribe (fst (cn_room n)) (snd (cn_room n)) (cn_key n) (rt_rooms w)")
  note sub = subscribe_attached [OF none s]
  let ?f = "\<lambda>n. n\<lparr>cn_stage := Subscribed_stage, cn_listening := True, cn_sender := c\<rparr>"
  let ?w = "set_connection (cn_key n) ?f (w\<lparr>rt_rooms := r\<rparr>)"
  have same: "m = n" if "m \<in> set (rt_connections w)" "cn_key m = cn_key n" for m
    using that n w by (auto simp: rinv_def distinct_map inj_on_def)
  have ok: "connection_ok (cw_access (rt_collab w)) (rt_outstanding w) r (if cn_key m = cn_key n then ?f m else m)"
    if m: "m \<in> set (rt_connections w)" for m
  proof (cases "cn_key m = cn_key n")
    case True
    with same [OF m] sub(1,4) show ?thesis by (auto simp: connection_ok_def admitted_def)
  next
    case False
    with rinv_connection [OF w m] sub(2) [of "cn_key m"] sub(3) show ?thesis
      by (auto simp: connection_ok_def will_hear_def)
  qed
  have "rinv ?w"
    unfolding rinv_def
  proof (intro conjI ballI allI impI)
    show "distinct (map cn_key (rt_connections ?w))" using w by (simp add: set_connection_def keys_update rinv_def)
  next
    fix m' assume "m' \<in> set (rt_connections ?w)"
    then obtain m where m: "m \<in> set (rt_connections w)" "m' = (if cn_key m = cn_key n then ?f m else m)"
      by (auto simp: set_connection_def connections_update)
    then show "cn_key m' < rt_next ?w" using w by (auto simp: rinv_def)
    show "connection_ok (cw_access (rt_collab ?w)) (rt_outstanding ?w) (rt_rooms ?w) m'" using ok [OF m(1)] m(2) by simp
  next
    fix k assume "find_receiver k (rt_rooms ?w) \<noteq> None"
    then have "k \<in> cn_key ` set (rt_connections w)" using sub(2) [of k] w n by (cases "k = cn_key n") (auto simp: rinv_def image_iff)
    moreover have "map cn_key (rt_connections ?w) = map cn_key (rt_connections w)" by (simp add: set_connection_def keys_update)
    ultimately have "k \<in> cn_key ` set (rt_connections ?w)" by (metis set_map)
    then show "\<exists>m \<in> set (rt_connections ?w). cn_key m = k" by auto
  qed
  moreover have "rinv (forget_connection (cn_key n) (send_frames (cn_key n) fs w))" for fs by (rule rinv_forget) (simp_all add: w none)
  ultimately show ?thesis by (simp add: start_socket_def s)
qed

text \<open>A connection is admitted under the current epoch.\<close>

lemma rinv_revalidate:
  assumes w: "rinv w" and n: "n \<in> set (rt_connections w)"
  shows "rinv (revalidate_new_subscription env now n w)"
proof -
  obtain x c where v: "revalidate_project env now (cn_auth n) (rt_collab w) = (x, c)"
    by (cases "revalidate_project env now (cn_auth n) (rt_collab w)")
  note e = revalidate_epochs [OF v]
  have w1: "rinv (set_collab c w)" by (rule rinv_collab [OF w e(1)])
  have same: "m = n" if "m \<in> set (rt_connections w)" "cn_key m = cn_key n" for m
    using that n w by (auto simp: rinv_def distinct_map inj_on_def)
  have "rinv (set_connection (cn_key n) (\<lambda>n. n\<lparr>cn_stage := Admitted_stage\<rparr>) (set_collab c w))" if x: "x = Current_validation"
  proof (rule rinv_set_connection [OF w1], goal_cases)
    case (2 m)
    then have "\<not> stale (cw_access c) m" using e(2) [OF x] same [of m] by (simp add: stale_def)
    with 2 show ?case by (auto simp: connection_ok_def)
  qed simp
  then show ?thesis using w1
    by (auto simp: revalidate_new_subscription_def v revalidation_event_def rinv_end split: revalidation_outcome.split)
qed

lemma rinv_stage:
  "rinv w \<Longrightarrow> (\<And>m. m \<in> set (rt_connections w) \<Longrightarrow> cn_key m = k \<Longrightarrow> admitted m) \<Longrightarrow> st \<noteq> Upgrading_stage \<Longrightarrow>
    rinv (set_connection k (\<lambda>n. n\<lparr>cn_stage := st\<rparr>) w)"
  by (rule rinv_set_connection) (auto simp: connection_ok_def)

lemma rinv_bootstrap:
  assumes w: "rinv w" and n: "n \<in> set (rt_connections w)" and st: "cn_stage n = Admitted_stage"
  shows "rinv (bootstrap_socket env sent now n w)"
proof -
  have same: "m = n" if "m \<in> set (rt_connections w)" "cn_key m = cn_key n" for m
    using that n w by (auto simp: rinv_def distinct_map inj_on_def)
  have opened: "rinv (open_stream (cn_key n) w1)" if "rinv w1" "rt_connections w1 = rt_connections w" for w1
    unfolding open_stream_def by (rule rinv_stage [OF that(1)]) (use that same st in \<open>auto simp: admitted_def\<close>)
  show ?thesis
  proof (cases "wa_target (cn_auth n)")
    case Project_target
    then show ?thesis using w by (auto simp: bootstrap_socket_def ready_socket_def send_bootstrap_state_def rinv_end opened)
  next
    case (Document_target d r)
    let ?D = "\<lparr>cd_project_id = wa_project_id (cn_auth n), cd_document_id = d, cd_collaboration_revision = r,
       cd_content_epoch = wa_content_epoch (cn_auth n)\<rparr>"
    obtain b c where b: "prepare_document_bootstrap (rv_yjs env) (rv_retention env) now ?D (rt_collab w) = (b, c)"
      by (cases "prepare_document_bootstrap (rv_yjs env) (rv_retention env) now ?D (rt_collab w)")
    then have "epochs_kept (cw_access (rt_collab w)) (cw_access c)"
      using bootstrap_access [of "rv_yjs env" "rv_retention env" now ?D "rt_collab w"] by simp
    then have w1: "rinv (set_collab c w)" by (rule rinv_collab [OF w])
    have "rinv (in_rooms (\<lambda>r. foldl (\<lambda>r ch. workspace_changed us p ch now r) r chs) (set_collab c w))" for us p chs
      by (rule rinv_rooms [OF w1 gentle_foldl]) simp
    then show ?thesis using w1
      by (auto simp: bootstrap_socket_def Document_target b send_bootstrap_state_def Let_def rinv_end opened rinv_rooms split: sum.split)
  qed
qed

lemma rinv_leave:
  assumes w: "rinv w" and a: "\<And>m. m \<in> set (rt_connections w) \<Longrightarrow> cn_key m = cn_key n \<Longrightarrow> admitted m"
  shows "rinv (leave env now d n w)"
proof -
  have "rinv (set_connection (cn_key n) (\<lambda>n. n\<lparr>cn_stage := Draining_stage\<rparr>) w1)"
    if "rinv w1" "rt_connections w1 = rt_connections w" for w1
    by (rule rinv_stage [OF that(1)]) (use that a in auto)
  then show ?thesis using w by (auto simp: leave_def Let_def rinv_end rinv_rooms split: ws_target.split)
qed

text \<open>The reader of an open connection.\<close>

lemma push_command_keys:
  "m \<in> set (rt_connections (push_command k c w)) \<Longrightarrow> \<exists>m' \<in> set (rt_connections w). cn_key m' = cn_key m \<and> admitted m' = admitted m"
  by (auto simp: push_command_def set_connection_def connections_update)

lemma rinv_close_with:
  assumes w: "rinv w" and a: "\<And>m. m \<in> set (rt_connections w) \<Longrightarrow> cn_key m = cn_key n \<Longrightarrow> admitted m"
  shows "rinv (close_with env now command n w)"
proof -
  have "rinv (leave env now d n (push_command (cn_key n) command w))" for d
    by (rule rinv_leave) (use w a push_command_keys [of _ "cn_key n" command w] in \<open>auto simp: rinv_push\<close>, metis)
  moreover have "rinv (leave env now False n w)" by (rule rinv_leave [OF w a])
  ultimately show ?thesis by (simp add: close_with_def)
qed

lemma rinv_handle_text:
  assumes w: "rinv w" and a: "\<And>m. m \<in> set (rt_connections w) \<Longrightarrow> cn_key m = cn_key n \<Longrightarrow> admitted m"
  shows "rinv (handle_text env now message n w)"
proof -
  have c: "rinv (set_collab c w)" if "persist_yjs_event env now (cn_auth n) kind payload (rt_collab w) = (x, c)" for kind payload x c
    by (rule rinv_collab [OF w persist_event_epochs [OF that]])
  have "rinv (close_with env now command n (set_collab c w))" "rinv (leave env now False n (set_collab c w))"
    if "persist_yjs_event env now (cn_auth n) kind payload (rt_collab w) = (x, c)" for kind payload x c command
    by (rule rinv_close_with rinv_leave, rule c [OF that], use a in simp)+
  with w c show ?thesis unfolding handle_text_def Let_def
    by (auto simp: rinv_rooms split: option.split persist_event_outcome.split prod.split)
qed

lemma rinv_handle_input:
  assumes w: "rinv w" and a: "\<And>m. m \<in> set (rt_connections w) \<Longrightarrow> cn_key m = cn_key n \<Longrightarrow> admitted m"
  shows "rinv (handle_input env now input n w)"
proof -
  have "rinv (leave env now False n w)" "rinv (handle_text env now message n w)" for message
    by (rule rinv_leave [OF w a] rinv_handle_text [OF w a]; assumption)+
  with w show ?thesis unfolding handle_input_def handle_project_input_def by (auto split: client_input.split option.split ws_target.split)
qed

lemma rinv_tick:
  assumes w: "rinv w" and a: "\<And>m. m \<in> set (rt_connections w) \<Longrightarrow> cn_key m = cn_key n \<Longrightarrow> admitted m"
  shows "rinv (authorization_tick env now n w)"
proof -
  obtain x c where v: "revalidate_project env now (cn_auth n) (rt_collab w) = (x, c)"
    by (cases "revalidate_project env now (cn_auth n) (rt_collab w)")
  have w1: "rinv (set_collab c w)" by (rule rinv_collab [OF w revalidate_epochs(1) [OF v]])
  have "rinv (close_with env now command n (set_collab c w))" for command
    by (rule rinv_close_with [OF w1]) (use a in simp)
  with w1 show ?thesis by (simp add: authorization_tick_def v split: option.split)
qed

text \<open>The forwarder: only the event that it takes is gone, and one that ends the stream ends it.\<close>

lemma rinv_deliver:
  assumes "rinv (stop_listening (cn_key n) w)" and "\<not> closes_stream e \<Longrightarrow> rinv w"
  shows "rinv (deliver_event ok e n w)"
proof -
  have "stop_listening k (send_frames k fs w) = send_frames k fs (stop_listening k w)" for k fs w
    by (simp add: stop_listening_def send_frames_def set_connection_def in_rooms_def)
  then show ?thesis using assms by (simp add: deliver_event_def Let_def)
qed

lemma rinv_forward_command: "rinv w \<Longrightarrow> rinv (forward_command ok n w)"
proof -
  assume w: "rinv w"
  have "rinv (set_connection (cn_key n) (\<lambda>n. n\<lparr>cn_commands := rest\<rparr>) w)" for rest
    by (rule rinv_set_connection [OF w]) (auto simp: connection_ok_def)
  then show ?thesis using w
    by (auto simp: forward_command_def Let_def rinv_stop rinv_deliver split: list.split socket_command.split)
qed

lemma find_receiver_pop:
  "find_receiver j (pop_receiver k r) = map_option (\<lambda>x. if rx_id x = k then x\<lparr>rx_queue := tl (rx_queue x)\<rparr> else x) (find_receiver j r)"
  by (simp add: find_receiver_def pop_receiver_def find_update_where)

lemma attached_pop: "attached key c j (pop_receiver k r) = attached key c j r"
proof -
  have "rm_channels (pop_receiver k r) = rm_channels r" by (simp add: pop_receiver_def)
  then show ?thesis by (auto simp: attached_def find_receiver_pop split: option.split)
qed

lemma stop_pop: "stop_listening k (in_rooms (pop_receiver k) w) = stop_listening k w"
proof -
  have "delete_where (\<lambda>x. rx_id x = k) (update_where (\<lambda>x. rx_id x = k) (\<lambda>x. x\<lparr>rx_queue := tl (rx_queue x)\<rparr>) xs) = delete_where (\<lambda>x. rx_id x = k) xs"
    for xs :: "room_receiver list"
    by (induction xs) (auto simp: delete_where_def update_where_def)
  then show ?thesis by (simp add: stop_listening_def in_rooms_def drop_receiver_def pop_receiver_def)
qed

lemma rinv_pop:
  assumes w: "rinv w" and x: "find_receiver k (rt_rooms w) = Some x" "rx_queue x = e # es" "ev_kind e \<noteq> AccessChanged"
  shows "rinv (in_rooms (pop_receiver k) w)"
proof -
  have h: "will_hear AccessChanged j (pop_receiver k (rt_rooms w))" if "will_hear AccessChanged j (rt_rooms w)" for j
  proof (cases "j = k")
    case True
    with that x show ?thesis by (auto simp: will_hear_def find_receiver_pop)
  next
    case False
    then have "rx_id y \<noteq> k" if "find_receiver j (rt_rooms w) = Some y" for y
      using that find_Some_set [of "\<lambda>x. rx_id x = j" "rm_receivers (rt_rooms w)" y] by (auto simp: find_receiver_def)
    with that show ?thesis by (auto simp: will_hear_def find_receiver_pop split: option.splits)
  qed
  have "connection_ok (cw_access (rt_collab w)) (rt_outstanding w) (pop_receiver k (rt_rooms w)) n" if "n \<in> set (rt_connections w)" for n
    using rinv_connection [OF w that] h [of "cn_key n"] unfolding connection_ok_def attached_pop find_receiver_pop by auto
  then show ?thesis using w by (simp add: rinv_def find_receiver_pop)
qed

lemma rinv_forward_event:
  assumes w: "rinv w"
  shows "rinv (forward_event ok now n w)"
proof (cases "find_receiver (cn_key n) (rt_rooms w)")
  case (Some x)
  have "rinv (deliver_event ok e n (in_rooms (pop_receiver (cn_key n)) w))" if q: "rx_queue x = e # es" for e es
  proof (rule rinv_deliver)
    show "rinv (stop_listening (cn_key n) (in_rooms (pop_receiver (cn_key n)) w))" by (simp add: stop_pop rinv_stop [OF w])
    show "rinv (in_rooms (pop_receiver (cn_key n)) w)" if "\<not> closes_stream e"
      by (rule rinv_pop [OF w Some q]) (use that in \<open>auto simp: closes_stream_def\<close>)
  qed
  then show ?thesis using w Some by (auto simp: forward_event_def rinv_stop split: list.split)
qed (simp add: forward_event_def w)

text \<open>Changes of the access tables: the epoch of one project moves on, and its notification is outstanding.\<close>

lemma project_epoch_advance:
  assumes "advance_project_access_epoch pid b = Some (x, b')" and "p \<noteq> pid"
  shows "project_access_epoch p b' = project_access_epoch p b"
proof -
  have "map_of (update_where (\<lambda>(q, _). q = pid) (\<lambda>(q, e). (q, e + 1)) t) p = map_of t p" for t :: "(uuid \<times> int) list"
    using assms(2) by (induction t) (auto simp: update_where_def)
  with assms(1) show ?thesis by (auto simp: advance_project_access_epoch_def project_access_epoch_def split: option.splits)
qed

lemma rinv_change_access: "rinv w \<Longrightarrow> rinv (change_access pid f w)"
proof -
  assume w: "rinv w"
  let ?a = "cw_access (rt_collab w)"
  show ?thesis
  proof (cases "keeps_epochs ?a (f ?a) \<and> advance_project_access_epoch pid (f ?a) \<noteq> None")
    case True
    then obtain x b where b: "advance_project_access_epoch pid (f ?a) = Some (x, b)" by auto
    have "stale ?a n \<or> wa_project_id (cn_auth n) = pid" if "stale b n" for n
      using that keeps_epochs_kept [of ?a "f ?a"] True project_epoch_advance [OF b, of "wa_project_id (cn_auth n)"]
      unfolding stale_def epochs_kept_def by metis
    then have "connection_ok b (pid # rt_outstanding w) (rt_rooms w) n" if "n \<in> set (rt_connections w)" for n
      using rinv_connection [OF w that] by (auto simp: connection_ok_def)
    then show ?thesis using w True by (auto simp: change_access_def b Let_def rinv_def)
  qed (use w in \<open>auto simp: change_access_def Let_def split: option.split\<close>)
qed

text \<open>The notification reaches every connection of the project that listens.\<close>

lemma rinv_announce:
  assumes w: "rinv w"
  shows "rinv (in_rooms (access_changed pid now) (w\<lparr>rt_outstanding := remove1 pid (rt_outstanding w)\<rparr>))"
proof -
  let ?r = "access_changed pid now (rt_rooms w)"
  have "connection_ok (cw_access (rt_collab w)) (remove1 pid (rt_outstanding w)) ?r n" if n: "n \<in> set (rt_connections w)" for n
  proof -
    note ok = rinv_connection [OF w n, unfolded connection_ok_def]
    have k: "attached (cn_room n) (cn_sender n) (cn_key n) ?r = attached (cn_room n) (cn_sender n) (cn_key n) (rt_rooms w)"
      "find_receiver (cn_key n) ?r = None \<longleftrightarrow> find_receiver (cn_key n) (rt_rooms w) = None"
      "will_hear AccessChanged (cn_key n) (rt_rooms w) \<Longrightarrow> will_hear AccessChanged (cn_key n) ?r"
      by (simp_all add: access_changed_def broadcast_keeps)
    have "will_hear AccessChanged (cn_key n) ?r" if "cn_listening n" "wa_project_id (cn_auth n) = pid"
      using broadcast_reaches [of pid "snd (cn_room n)" "cn_sender n" "cn_key n" "rt_rooms w"] ok that
      by (simp add: access_changed_def cn_room_def)
    moreover have "p \<in> set (remove1 pid (rt_outstanding w))" if "p \<in> set (rt_outstanding w)" "p \<noteq> pid" for p using that by simp
    ultimately show ?thesis using ok k unfolding connection_ok_def by metis
  qed
  then show ?thesis using w by (simp add: rinv_def access_changed_def broadcast_keeps)
qed

lemma rinv_replace: "rinv w \<Longrightarrow> rinv (replace_project fresh r w)"
proof -
  assume w: "rinv w"
  have "rinv (set_collab (replace_and_clear fresh r (rt_collab w)) w)" by (rule rinv_collab [OF w]) (simp add: replace_access)
  then show ?thesis by (auto simp: replace_project_def Let_def rinv_def split: option.split)
qed

lemma rinv_when:
  assumes "rinv w" and "\<And>n. n \<in> set (rt_connections w) \<Longrightarrow> P n \<Longrightarrow> rinv (f n w)"
  shows "rinv (when_stage P k f w)"
  using assms find_connection_set [of k w] by (auto simp: when_stage_def split: option.split)

lemma open_admitted:
  assumes "rinv w" and "n \<in> set (rt_connections w)" and "cn_stage n = Open_stage" and "m \<in> set (rt_connections w)" and "cn_key m = cn_key n"
  shows "admitted m"
proof -
  have "m = n" using assms by (auto simp: rinv_def distinct_map inj_on_def)
  with assms(3) show ?thesis by (simp add: admitted_def)
qed

lemma rinv_step: "rinv w \<Longrightarrow> rinv (realtime_step env e w)"
proof (induction env e w rule: realtime_step.induct)
  case (6 env k input now w)
  then show ?case by (auto intro!: rinv_when rinv_handle_input intro: open_admitted)
next
  case (7 env k now w)
  then show ?case by (auto intro!: rinv_when rinv_tick intro: open_admitted)
next
  case (8 env k now w)
  then show ?case by (auto intro!: rinv_when rinv_close_with intro: open_admitted)
next
  case (13 env e w)
  then show ?case by (auto intro!: rinv_collab simp: collab_step_access)
next
  case (15 env f w)
  then show ?case by (auto intro!: rinv_collab simp: Let_def keeps_epochs_kept)
next
  case (18 env pid epoch now w)
  then have "rinv (w\<lparr>rt_replaced := x\<rparr>)" for x by (simp add: rinv_def)
  with 18 show ?case by (auto intro!: rinv_rooms simp: invalidate_project_def gentle_def broadcast_keeps)
qed (auto intro!: rinv_when rinv_ws_handler rinv_project_ws_handler rinv_start_socket rinv_revalidate rinv_bootstrap
    rinv_forward_command rinv_forward_event rinv_end rinv_change_access rinv_announce rinv_replace simp: rinv_def [of "_\<lparr>rt_draining := True\<rparr>"],
    auto simp: rinv_def)

lemma rinv_realtime_start: "rinv (realtime_start c)"
  by (simp add: rinv_def realtime_start_def no_rooms_def find_receiver_def)

interpretation realtime: transition_system "realtime_step env" "realtime_start c" rinv for env :: "('d, 'u) realtime_env" and c
  by unfold_locales (rule rinv_realtime_start, rule rinv_step)

end
