(* ===== verification/Realtime_Properties.thy ===== *)
theory Realtime_Properties
  imports Realtime_Steps Collaboration_Properties
begin

text \<open>
  Properties of the realtime connections: whose updates are persisted, what happens to a connection when
  access changes, and that the connections do nothing to the durable state but what the operations of
  the collaboration component do.
\<close>

section \<open>The durable state\<close>

lemma collab_simps [simp]:
  "rt_collab (push_command k c w) = rt_collab w" "rt_collab (send_terminal_event_and_close k e w) = rt_collab w"
  "rt_collab (send_server_error_and_close k s m now w) = rt_collab w" "rt_collab (forget_connection k w) = rt_collab w"
  "rt_collab (end_connection n w) = rt_collab w" "rt_collab (open_stream k w) = rt_collab w"
  "rt_collab (leave env now d n w) = rt_collab w" "rt_collab (close_with env now command n w) = rt_collab w"
  "rt_collab (deliver_event ok e n w) = rt_collab w" "rt_collab (forward_command ok n w) = rt_collab w"
  "rt_collab (forward_event ok now n w) = rt_collab w" "rt_collab (snd (upgrade auth stream user cid w)) = rt_collab w"
  "rt_collab (start_socket n w) = rt_collab w"
proof -
  show p: "rt_collab (push_command k c w) = rt_collab w" for k c w by (simp add: push_command_def)
  show t: "rt_collab (send_terminal_event_and_close k e w) = rt_collab w" for k e w by (simp add: send_terminal_event_and_close_def)
  show s: "rt_collab (send_server_error_and_close k s m now w) = rt_collab w" for k s m now w by (simp add: send_server_error_and_close_def t)
  show f: "rt_collab (forget_connection k w) = rt_collab w" for k w by (simp add: forget_connection_def)
  show e: "rt_collab (end_connection n w) = rt_collab w" for n w by (simp add: end_connection_def f)
  show "rt_collab (open_stream k w) = rt_collab w" by (simp add: open_stream_def)
  show l: "rt_collab (leave env now d n w) = rt_collab w" for env :: "('a, 'b) realtime_env" and now d n w
    by (simp add: leave_def Let_def e split: ws_target.split)
  show "rt_collab (close_with env now command n w) = rt_collab w" by (simp add: close_with_def l p)
  show d: "rt_collab (deliver_event ok e n w) = rt_collab w" for ok e n w by (simp add: deliver_event_def Let_def)
  show "rt_collab (forward_command ok n w) = rt_collab w"
    by (simp add: forward_command_def Let_def d split: list.split socket_command.split)
  show "rt_collab (forward_event ok now n w) = rt_collab w" by (simp add: forward_event_def d s split: option.split list.split)
  show "rt_collab (snd (upgrade auth stream user cid w)) = rt_collab w" by (simp add: upgrade_def)
  show "rt_collab (start_socket n w) = rt_collab w" by (simp add: start_socket_def f split: prod.split)
qed

text \<open>What a text message does to the durable state is what \<open>persist_yjs_event\<close> does.\<close>

lemma handle_text_collab:
  "rt_collab (handle_text env now message n w) = rt_collab w \<or>
   (\<exists>kind outcome. wa_can_write (cn_auth n) \<and>
      ie_persisted_kind (client_message_event message (wa_can_write (cn_auth n))) = Some kind \<and>
      persist_yjs_event env now (cn_auth n) kind (ie_payload (client_message_event message (wa_can_write (cn_auth n)))) (rt_collab w) =
        (outcome, rt_collab (handle_text env now message n w)))"
  unfolding handle_text_def Let_def by (auto split: option.split persist_event_outcome.split prod.split)

text \<open>Equal up to the time at which a guest session was last used.\<close>

definition same_durable :: "collab_world \<Rightarrow> collab_world \<Rightarrow> bool" where
  "same_durable c c' \<longleftrightarrow> cw_workspace c' = cw_workspace c \<and> cw_updates c' = cw_updates c \<and> cw_snapshots c' = cw_snapshots c"

lemma same_durable_access [simp]: "same_durable c c" "same_durable c (set_access a c)"
  by (simp_all add: same_durable_def)

definition document_of_auth :: "ws_auth \<Rightarrow> uuid \<Rightarrow> int \<Rightarrow> collaboration_document" where
  "document_of_auth auth d r = \<lparr>cd_project_id = wa_project_id auth, cd_document_id = d, cd_collaboration_revision = r,
     cd_content_epoch = wa_content_epoch auth\<rparr>"

lemma persist_event_changes:
  assumes p: "persist_yjs_event env now auth kind payload c = (outcome, c')" and ch: "\<not> same_durable c c'"
  obtains content who a d r ack where "yjs_payload_to_bytes env payload = Some content"
    and "ensure_project_access (request_at env now) (wa_headers auth) (wa_project_id auth) Write (cw_access c) = (Inr who, a)"
    and "validate_update (rv_yjs env) content = Inr ()" and "wa_target auth = Document_target d r"
    and "persist_update (rv_yjs env) (rv_retention env) now (document_of_auth auth d r) (wa_user_id auth) kind content
      (wa_access_epoch auth) (wa_guest_display_name auth) (set_access a c) = (Inr (Accepted_update ack), c')"
proof -
  obtain x a where e: "ensure_project_access (request_at env now) (wa_headers auth) (wa_project_id auth) Write (cw_access c) = (x, a)"
    by (cases "ensure_project_access (request_at env now) (wa_headers auth) (wa_project_id auth) Write (cw_access c)")
  note p = p [unfolded persist_yjs_event_def e]
  from p ch obtain content who where b: "yjs_payload_to_bytes env payload = Some content" "x = Inr who"
    by (auto split: option.splits sum.splits authorization_error.splits)
  have v: "validate_update (rv_yjs env) content = Inr ()"
    using p ch b by (cases "validate_update (rv_yjs env) content") (auto simp: Let_def)
  obtain d r where t: "wa_target auth = Document_target d r" using p ch b v by (cases "wa_target auth") (auto simp: Let_def)
  obtain y c2 where u: "persist_update (rv_yjs env) (rv_retention env) now (document_of_auth auth d r) (wa_user_id auth) kind content
      (wa_access_epoch auth) (wa_guest_display_name auth) (set_access a c) = (y, c2)"
    by (cases "persist_update (rv_yjs env) (rv_retention env) now (document_of_auth auth d r) (wa_user_id auth) kind content
      (wa_access_epoch auth) (wa_guest_display_name auth) (set_access a c)")
  have c2: "c' = c2" using p b v t u
    by (auto simp: Let_def document_of_auth_def split: sum.splits persist_outcome.splits)
  have "is_accepted y"
  proof (rule ccontr)
    assume "\<not> is_accepted y"
    with persist_update_refused [of "rv_yjs env" "rv_retention env" now "document_of_auth auth d r" "wa_user_id auth" kind content
        "wa_access_epoch auth" "wa_guest_display_name auth" "set_access a c"] u c2 have "c' = set_access a c" by simp
    with ch show False by simp
  qed
  then obtain ack where "y = Inr (Accepted_update ack)" by (cases y rule: is_accepted.cases) auto
  with that b e v t u c2 show thesis by blast
qed

lemma persist_accepted_current:
  assumes "persist_update Y k now D user kind payload ae guest c = (Inr (Accepted_update ack), c')"
  shows "current_document D (cw_db c)" and "project_access_epoch (cd_project_id D) (cw_access c) = Some ae"
  using assms by (auto simp: persist_update_def current_document_def lock_project_access_epoch_def
      split: if_splits epoch_match.splits option.splits)

lemma handle_input_collab:
  "rt_collab (handle_input env now input n w) = rt_collab w \<or>
   (\<exists>message d r. input = Text_message (Some message) \<and> wa_target (cn_auth n) = Document_target d r \<and>
      handle_input env now input n w = handle_text env now message n w)"
  by (auto simp: handle_input_def handle_project_input_def split: client_input.split option.split ws_target.split)

section \<open>Properties\<close>

text \<open>
  C15. Only an authorised update of a client is persisted. When a message on a connection changes anything
  durable but the last use of a guest session, then the connection is open on a document and was opened
  with write access, its credentials give write access now, the payload is a valid Yjs update, the
  document still has the revision and its project the content epoch and the access epoch under which the
  connection was opened, and the new state is that of one accepted update of this document.
\<close>

theorem realtime_updates_authorized:
  assumes "\<not> same_durable (rt_collab w) (rt_collab (realtime_step env (Input k input now) w))"
  shows "\<exists>n message d r kind content who a ack.
    find_connection k w = Some n \<and> cn_stage n = Open_stage \<and> wa_can_write (cn_auth n) \<and> wa_target (cn_auth n) = Document_target d r \<and>
    input = Text_message (Some message) \<and>
    yjs_payload_to_bytes env (ie_payload (client_message_event message True)) = Some content \<and> validate_update (rv_yjs env) content = Inr () \<and>
    ensure_project_access (request_at env now) (wa_headers (cn_auth n)) (wa_project_id (cn_auth n)) Write (cw_access (rt_collab w)) = (Inr who, a) \<and>
    current_document (document_of_auth (cn_auth n) d r) (cw_db (rt_collab w)) \<and>
    project_access_epoch (wa_project_id (cn_auth n)) (cw_access (rt_collab w)) = Some (wa_access_epoch (cn_auth n)) \<and>
    persist_update (rv_yjs env) (rv_retention env) now (document_of_auth (cn_auth n) d r) (wa_user_id (cn_auth n)) kind content
      (wa_access_epoch (cn_auth n)) (wa_guest_display_name (cn_auth n)) (set_access a (rt_collab w)) =
      (Inr (Accepted_update ack), rt_collab (realtime_step env (Input k input now) w))"
proof -
  from assms obtain n where n: "find_connection k w = Some n" "cn_stage n = Open_stage"
    and step: "realtime_step env (Input k input now) w = handle_input env now input n w"
    by (auto simp: when_stage_def split: option.splits if_splits)
  from assms step handle_input_collab [of env now input n w] obtain message d r where
    m: "input = Text_message (Some message)" "wa_target (cn_auth n) = Document_target d r"
    and tx: "realtime_step env (Input k input now) w = handle_text env now message n w" by auto
  from assms tx handle_text_collab [of env now message n w] obtain kind outcome where can: "wa_can_write (cn_auth n)"
    and p: "persist_yjs_event env now (cn_auth n) kind (ie_payload (client_message_event message True)) (rt_collab w) =
      (outcome, rt_collab (realtime_step env (Input k input now) w))" by auto
  obtain content who a d' r' ack where f: "yjs_payload_to_bytes env (ie_payload (client_message_event message True)) = Some content"
    "ensure_project_access (request_at env now) (wa_headers (cn_auth n)) (wa_project_id (cn_auth n)) Write (cw_access (rt_collab w)) = (Inr who, a)"
    "validate_update (rv_yjs env) content = Inr ()" "wa_target (cn_auth n) = Document_target d' r'"
    and u: "persist_update (rv_yjs env) (rv_retention env) now (document_of_auth (cn_auth n) d' r') (wa_user_id (cn_auth n)) kind content
      (wa_access_epoch (cn_auth n)) (wa_guest_display_name (cn_auth n)) (set_access a (rt_collab w)) =
      (Inr (Accepted_update ack), rt_collab (realtime_step env (Input k input now) w))"
    by (rule persist_event_changes [OF p assms])
  note cur = persist_accepted_current [OF u]
  have "project_access_epoch (wa_project_id (cn_auth n)) a = project_access_epoch (wa_project_id (cn_auth n)) (cw_access (rt_collab w))"
    using ensure_access_epochs [OF f(2)] by (simp add: project_access_epoch_def)
  with cur have "current_document (document_of_auth (cn_auth n) d' r') (cw_db (rt_collab w))"
    "project_access_epoch (wa_project_id (cn_auth n)) (cw_access (rt_collab w)) = Some (wa_access_epoch (cn_auth n))"
    by (simp_all add: document_of_auth_def)
  with n can m(1) f u show ?thesis by blast
qed

section \<open>Revocation\<close>

lemma find_connection_iff:
  assumes "rinv w"
  shows "find_connection k w = Some n \<longleftrightarrow> n \<in> set (rt_connections w) \<and> cn_key n = k"
proof
  assume n: "n \<in> set (rt_connections w) \<and> cn_key n = k"
  then obtain m where m: "find_connection k w = Some m"
    by (cases "find_connection k w") (auto simp: find_connection_def find_None_set)
  with find_connection_set [OF m] n assms show "find_connection k w = Some n" by (auto simp: rinv_def distinct_map inj_on_def)
qed (rule find_connection_set)

lemma find_connection_stop:
  "find_connection k w = Some n \<Longrightarrow> find_connection k (stop_listening k w) = Some (n\<lparr>cn_listening := False\<rparr>)"
  by (auto simp: find_connection_def stop_listening_def set_connection_def in_rooms_def find_update_where dest: find_Some_set)

text \<open>The stream of the connection is closed: the last frame is a close frame, and nothing is forwarded any more.\<close>

definition stream_closed :: "nat \<Rightarrow> realtime_world \<Rightarrow> bool" where
  "stream_closed k w \<longleftrightarrow> (\<exists>n. find_connection k w = Some n \<and> \<not> cn_listening n) \<and> (\<exists>fs. rt_sent w = fs @ [(k, Close_frame None)])"

definition queue_length :: "nat \<Rightarrow> realtime_world \<Rightarrow> nat" where
  "queue_length k w = (case find_receiver k (rt_rooms w) of None \<Rightarrow> 0 | Some x \<Rightarrow> length (rx_queue x))"

text \<open>A turn of the forwarder with a queued closing event before it: the stream is closed, or the queue is shorter.\<close>

lemma forward_turn:
  assumes f: "find_connection k w = Some n" "forwarding n" and h: "will_hear AccessChanged k (rt_rooms w)"
    and v: "v = realtime_step env (Forward_event k True now) w"
  shows "stream_closed k v \<or>
    (find_connection k v = Some n \<and> rt_collab v = rt_collab w \<and> rt_outstanding v = rt_outstanding w \<and> queue_length k v < queue_length k w)"
proof -
  have k: "cn_key n = k" using find_connection_set [OF f(1)] by simp
  have v': "v = forward_event True now n w" using f v by (simp add: when_stage_def)
  have find: "find_connection k (in_rooms g w) = find_connection k w" "find_connection k (send_frames j fs w) = find_connection k w" for g j fs w
    by (simp_all add: find_connection_def)
  have sent: "rt_sent (stop_listening k w) = rt_sent w" for w by (simp add: stop_listening_def set_connection_def in_rooms_def)
  obtain x where x: "find_receiver k (rt_rooms w) = Some x" "rx_lagged x \<or> AccessChanged \<in> ev_kind ` set (rx_queue x)"
    using h by (auto simp: will_hear_def split: option.splits)
  show ?thesis
  proof (cases "rx_lagged x")
    case True
    let ?w = "send_server_error_and_close k (cn_stream_id n) ''Realtime stream fell behind; reconnect to resynchronize'' now w"
    have "v = stop_listening k ?w" using True x(1) k by (simp add: v' forward_event_def)
    moreover have "find_connection k ?w = Some n" using f(1) by (simp add: send_server_error_and_close_def send_terminal_event_and_close_def find)
    ultimately show ?thesis using find_connection_stop [of k ?w n]
      by (simp add: stream_closed_def sent) (simp add: send_server_error_and_close_def send_terminal_event_and_close_def send_frames_def)
  next
    case False
    with x(2) obtain e es where q: "rx_queue x = e # es" by (cases "rx_queue x") auto
    let ?p = "send_frames k [Event_frame (room_event_to_protocol e (recipient n))] (in_rooms (pop_receiver k) w)"
    have v2: "v = (if closes_stream e then stop_listening k (send_frames k [Close_frame None] ?p) else ?p)"
      using False x(1) k q by (simp add: v' forward_event_def deliver_event_def)
    have "find_connection k ?p = Some n" using f(1) by (simp add: find)
    moreover have "rx_id x = k" using x(1) by (auto simp: find_receiver_def dest: find_Some_set)
    then have "queue_length k ?p < queue_length k w" using x(1) q by (simp add: queue_length_def find_receiver_pop)
    moreover have "stream_closed k (stop_listening k (send_frames k [Close_frame None] ?p))"
      using find_connection_stop [of k "send_frames k [Close_frame None] ?p" n] f(1)
      by (simp add: stream_closed_def sent find) (simp add: send_frames_def in_rooms_def)
    ultimately show ?thesis by (simp add: v2)
  qed
qed

text \<open>
  C16. A connection hears of a change of access. In every reachable state, once the notification of a
  change has been sent, a connection whose access epoch is not the current one has the closing event in
  its queue or has lost events of it; and when its forwarder takes what is queued, at most one turn per
  queued event later the client has got a close frame and the connection forwards nothing any more. So
  neither a change between the authorisation and the subscription nor an overflow of the queue leaves a
  connection open.
\<close>

theorem revoked_connection_closes:
  assumes "w = run_events (realtime_step env) es (realtime_start c)" and "find_connection k w = Some n" and "forwarding n"
    and "project_access_epoch (wa_project_id (cn_auth n)) (cw_access (rt_collab w)) \<noteq> Some (wa_access_epoch (cn_auth n))"
    and "wa_project_id (cn_auth n) \<notin> set (rt_outstanding w)"
  shows "will_hear AccessChanged k (rt_rooms w) \<and>
    (\<exists>m \<le> Suc (queue_length k w). stream_closed k (run_events (realtime_step env) (replicate m (Forward_event k True now)) w))"
proof -
  have hears: "will_hear AccessChanged k (rt_rooms w)" if "rinv w" "find_connection k w = Some n"
      "project_access_epoch (wa_project_id (cn_auth n)) (cw_access (rt_collab w)) \<noteq> Some (wa_access_epoch (cn_auth n))"
      "wa_project_id (cn_auth n) \<notin> set (rt_outstanding w)" for w
    using rinv_connection [OF that(1)] find_connection_set [OF that(2)] that(3,4) assms(3)
    by (auto simp: connection_ok_def forwarding_def admitted_def stale_def)
  have "rinv w" using assms(1) realtime.inv_run by simp
  then have "\<exists>m \<le> Suc (queue_length k w). stream_closed k (run_events (realtime_step env) (replicate m (Forward_event k True now)) w)"
    using assms(2,4,5)
  proof (induction "queue_length k w" arbitrary: w rule: less_induct)
    case less
    let ?v = "realtime_step env (Forward_event k True now) w"
    have r: "rinv ?v" by (rule rinv_step [OF less.prems(1)])
    from forward_turn [OF less.prems(2) assms(3) hears [OF less.prems] refl]
    consider "stream_closed k ?v" | "find_connection k ?v = Some n" "rt_collab ?v = rt_collab w" "rt_outstanding ?v = rt_outstanding w"
      "queue_length k ?v < queue_length k w" by blast
    then show ?case
    proof cases
      case 1
      then show ?thesis by (intro exI [of _ 1]) simp
    next
      case 2
      with less.hyps [OF 2(4) r 2(1)] less.prems obtain m where "m \<le> Suc (queue_length k ?v)"
        "stream_closed k (run_events (realtime_step env) (replicate m (Forward_event k True now)) ?v)" by auto
      with 2(4) show ?thesis by (intro exI [of _ "Suc m"]) simp
    qed
  qed
  with hears [OF \<open>rinv w\<close> assms(2,4,5)] show ?thesis by blast
qed

section \<open>Refinement\<close>

text \<open>The durable states that runs of the operations of the collaboration component lead to.\<close>

definition reaches :: "('d, 'u) realtime_env \<Rightarrow> collab_world \<Rightarrow> collab_world \<Rightarrow> bool" where
  "reaches env c c' \<longleftrightarrow> (\<exists>es. c' = run_events (collab_step (rv_yjs env) (rv_retention env)) es c)"

lemma reaches_refl [simp]: "reaches env c c"
  unfolding reaches_def by (rule exI [of _ "[]"]) simp

lemma reaches_trans: "reaches env a b \<Longrightarrow> reaches env b c \<Longrightarrow> reaches env a c"
  unfolding reaches_def by (metis run_events_append)

lemma reaches_event: "reaches env c (collab_step (rv_yjs env) (rv_retention env) e c)"
  unfolding reaches_def by (rule exI [of _ "[e]"]) simp

lemma reaches_access [simp]: "reaches env c (set_access a c)"
  using reaches_event [of env c "AccessOperation a"] by (simp add: set_access_def)

lemma reaches_persist:
  assumes "persist_yjs_event env now auth kind payload c = (x, c')"
  shows "reaches env c c'"
proof (cases "\<exists>a. c' = set_access a c \<or> c' = c")
  case True
  then show ?thesis by auto
next
  case False
  obtain y a where e: "ensure_project_access (request_at env now) (wa_headers auth) (wa_project_id auth) Write (cw_access c) = (y, a)"
    by (cases "ensure_project_access (request_at env now) (wa_headers auth) (wa_project_id auth) Write (cw_access c)")
  have "\<exists>D u content ae g. c' = snd (persist_update (rv_yjs env) (rv_retention env) now D u kind content ae g (set_access a c))"
    using assms False unfolding persist_yjs_event_def e
    by (auto simp: Let_def split: option.splits sum.splits authorization_error.splits ws_target.splits prod.splits persist_outcome.splits)
      (metis snd_conv)+
  then obtain D u content ae g where "c' = collab_step (rv_yjs env) (rv_retention env) (Persist D u kind content ae g now) (set_access a c)"
    by auto
  with reaches_event reaches_trans [OF reaches_access] show ?thesis by metis
qed

lemma reaches_revalidate: "revalidate_project env now auth c = (x, c') \<Longrightarrow> reaches env c c'"
  by (auto simp: revalidate_project_def Let_def split: prod.splits sum.splits authorization_error.splits if_splits)

lemma reaches_authorize: "reaches env c (snd (authorize_project_ws_user env hs q p f now c))"
  by (auto simp: authorize_project_ws_user_def Let_def split: sum.split prod.split option.split)

lemma reaches_step: "reaches env (rt_collab w) (rt_collab (realtime_step env e w))"
proof (cases e)
  case (Open_document d q hs f cid now)
  have "reaches env c c'" if "authorize_ws_user env hs q i r f now c = (x, c')" for i r c x c'
    using that reaches_authorize [of env c hs q _ f now]
    by (auto simp: authorize_ws_user_def split: option.splits prod.splits sum.splits if_splits) (metis snd_conv)+
  then show ?thesis by (auto simp: Open_document ws_handler_def split: option.split prod.split sum.split)
next
  case (Open_project p q hs f cid now)
  show ?thesis using reaches_authorize [of env "rt_collab w" hs q p f now]
    by (auto simp: Open_project project_ws_handler_def split: prod.split sum.split)
next
  case (Revalidate k now)
  then show ?thesis by (auto simp: when_stage_def revalidate_new_subscription_def dest: reaches_revalidate split: option.split prod.split)
next
  case (Tick k now)
  then show ?thesis by (auto simp: when_stage_def authorization_tick_def dest: reaches_revalidate split: option.split prod.split)
next
  case (Bootstrap_stream k sent now)
  have "reaches env c c'" if "prepare_document_bootstrap (rv_yjs env) (rv_retention env) now D c = (x, c')" for D c x c'
    using reaches_event [of env c "Bootstrap D now"] that by simp
  then show ?thesis
    by (auto simp: Bootstrap_stream when_stage_def bootstrap_socket_def ready_socket_def send_bootstrap_state_def Let_def
        split: option.split ws_target.split prod.split sum.split)
next
  case (Input k input now)
  have "reaches env (rt_collab w) (rt_collab (handle_input env now input n w))" for n
    using handle_input_collab [of env now input n w] handle_text_collab [of env now _ n w] reaches_persist by (metis reaches_refl)
  then show ?thesis by (simp add: Input when_stage_def split: option.split)
next
  case (Collaborate x)
  then show ?thesis by (simp add: reaches_event)
next
  case (Replace_project fresh r)
  then show ?thesis using reaches_event [of env "rt_collab w" "Replace fresh r"] by (auto simp: replace_project_def Let_def split: option.split)
qed (auto simp: when_stage_def change_access_def Let_def split: option.split prod.split)


section \<open>Examples\<close>

text \<open>A member of the project opens its document, and later loses the role.\<close>

definition ex_rt :: "(string, string) realtime_env" where
  "ex_rt = \<lparr>rv_yjs = ex_yjs, rv_retention = 100,
     rv_request = \<lparr>re_sha256 = (\<lambda>b. b), re_dev_header = True,
       re_parse_uuid = (\<lambda>s. if s = ''7'' then Some 7 else if s = ''1'' then Some 1 else if s = ''10'' then Some 10 else None), re_now = 0\<rparr>,
     rv_decode64 = Some, rv_encode64 = (\<lambda>b. b), rv_uuid_str = nat_str, rv_header_value = (\<lambda>v. Some (Some v))\<rparr>"

definition ex_member_access :: access_db where
  "ex_member_access = ex_open_access\<lparr>roles := [\<lparr>ro_project_id = 1, ro_user_id = 7, ro_role = ReadWrite, ro_granted_at = 0, ro_source = DirectRole\<rparr>]\<rparr>"

definition ex_query :: ws_query where
  "ex_query = \<lparr>wq_protocol_epoch = Some ''1'', wq_project_id = Some ''1'', wq_user_id = Some ''7'', wq_user_name = Some ''Ann'',
     wq_session_token = None, wq_share_token = None, wq_guest_session = None, wq_collaboration_revision = Some 0\<rparr>"

definition ex_connecting :: "realtime_event list" where
  "ex_connecting = [Open_document ''10'' ex_query (\<lambda>_. None) 98 50 2, Start 0, Revalidate 0 3, Bootstrap_stream 0 5 4]"

definition ex_revoking :: "realtime_event list" where
  "ex_revoking = ex_connecting @ [Change_access 1 (\<lambda>a. a\<lparr>roles := []\<rparr>), Announce_access 1 6]"

definition ex_live :: "realtime_event list \<Rightarrow> realtime_world" where
  "ex_live es = run_events (realtime_step ex_rt) es (realtime_start (run_events (collab_step ex_yjs 100) ex_opened (empty_collab ex_member_access)))"

definition ex_typed :: realtime_event where
  "ex_typed = Input 0 (Text_message (Some (YjsUpdate_message ''me'' ''q1'' ''!''))) 5"

theorem realtime_updates_authorized_witness:
  "\<exists>n who a. find_connection 0 (ex_live ex_connecting) = Some n \<and> wa_can_write (cn_auth n) \<and>
     ensure_project_access (request_at ex_rt 5) (wa_headers (cn_auth n)) (wa_project_id (cn_auth n)) Write
       (cw_access (rt_collab (ex_live ex_connecting))) = (Inr who, a) \<and>
     map ur_payload (cw_updates (rt_collab (realtime_step ex_rt ex_typed (ex_live ex_connecting)))) = [''!'']"
proof -
  have a: "map ur_payload (cw_updates (rt_collab (ex_live ex_connecting))) = []" by code_simp
  have b: "map ur_payload (cw_updates (rt_collab (realtime_step ex_rt ex_typed (ex_live ex_connecting)))) = [''!'']" by code_simp
  from a b have "\<not> same_durable (rt_collab (ex_live ex_connecting)) (rt_collab (realtime_step ex_rt ex_typed (ex_live ex_connecting)))"
    by (auto simp: same_durable_def)
  from realtime_updates_authorized [OF this [unfolded ex_typed_def]] b show ?thesis by (elim exE conjE) (intro exI conjI)
qed

theorem revoked_connection_closes_witness:
  "will_hear AccessChanged 0 (rt_rooms (ex_live ex_revoking)) \<and>
   (\<exists>m \<le> Suc (queue_length 0 (ex_live ex_revoking)).
      stream_closed 0 (run_events (realtime_step ex_rt) (replicate m (Forward_event 0 True 7)) (ex_live ex_revoking)))"
proof -
  let ?w = "ex_live ex_revoking"
  have "(case find_connection 0 ?w of None \<Rightarrow> False | Some n \<Rightarrow> forwarding n)" by code_simp
  moreover have "(case find_connection 0 ?w of None \<Rightarrow> False | Some n \<Rightarrow>
      project_access_epoch (wa_project_id (cn_auth n)) (cw_access (rt_collab ?w)) \<noteq> Some (wa_access_epoch (cn_auth n)))" by code_simp
  moreover have "rt_outstanding ?w = []" by code_simp
  ultimately obtain n where "find_connection 0 ?w = Some n" "forwarding n"
    "project_access_epoch (wa_project_id (cn_auth n)) (cw_access (rt_collab ?w)) \<noteq> Some (wa_access_epoch (cn_auth n))"
    "wa_project_id (cn_auth n) \<notin> set (rt_outstanding ?w)" by (auto split: option.splits)
  from revoked_connection_closes [OF ex_live_def this] show ?thesis by simp
qed

end
