(* ===== verification/External_Git.thy ===== *)
theory External_Git
  imports Collaboration
begin

text \<open>
  The jobs that exchange a project with an external Git repository: inbound imports and synchronisations
  (\<open>external_repositories/inbound\<close>), outbound checkpoints (\<open>external_repositories/checkpoint\<close>) and the links
  they need (\<open>external_repositories/linking\<close>).

  The jobs are rows with a state, a phase and the time at which a worker took them. A worker takes a row
  that is due, or whose worker has not touched it for 15 minutes (10 for a checkpoint). Every statement or
  transaction is one function; the Git commands, the local Git repository and the object storage are
  outcomes that the functions get as arguments.
\<close>

section \<open>Tables\<close>

datatype inbound_operation = Import_operation | Sync_operation

datatype git_job_state = Pending_job | Processing_job | RetryWait_job | Paused_job | Failed_job | Succeeded_job

datatype inbound_phase =
    Queued_phase | Fetch_phase | Lfs_phase | Validate_phase | Assets_phase | Apply_phase | Revision_phase | Complete_phase

datatype git_failure_code =
    CheckpointBranchMoved | GitAuthorizationRequired | GitPermissionDenied | GitProviderUnavailable | GitCommandTimeout
  | GitPushVerificationFailed | GitCheckpointFailed | GitCommandFailed | GitRepositoryNotFound | GitFetchFailed
  | RepositoryContentUnreadable | RepositorySymlinksNotSupported | RepositorySubmodulesNotSupported
  | RepositorySpecialFilesNotSupported | RepositoryFileLimitExceeded | RepositoryFileSizeLimitExceeded
  | RepositoryTotalSizeLimitExceeded | RepositoryPathInvalid | RepositoryLfsObjectMissing | RepositoryTextEncodingInvalid
  | RepositoryMissingEntryFile | RepositoryIsEmpty | RepositoryRevisionInvalid | RepositoryImportStateFailed
  | RepositoryAssetStoreFailed | RepositoryApplyFailed | RepositoryRevisionFailed | ProjectNotFound_code | ExternalGitLinkMissing

datatype link_status = Linking | Active_link | ReauthRequired_link | Conflict_link | Error_link

datatype checkpoint_state = Pending_checkpoint | Processing_checkpoint | RetryWait_checkpoint | Paused_checkpoint

datatype checkpoint_phase = Queued_checkpoint | Snapshot_checkpoint | CommitLocal_checkpoint | PushGit_checkpoint

record inbound_job =
  ij_id :: uuid
  ij_project_id :: uuid
  ij_provider :: string
  ij_operation :: inbound_operation
  ij_source_branch :: string
  ij_requested_by :: uuid
  ij_state :: git_job_state
  ij_phase :: inbound_phase
  ij_attempt_count :: int
  ij_next_attempt_at :: instant
  ij_last_attempt_at :: "instant option"
  ij_locked_at :: "instant option"
  ij_remote_sha :: "string option"
  ij_last_error :: "git_failure_code option"
  ij_created_at :: instant
  ij_updated_at :: instant
  ij_completed_at :: "instant option"
  ij_applied_version :: "int option"

record git_link =
  gl_project_id :: uuid
  gl_provider :: string
  gl_repository_id :: string
  gl_full_path :: string
  gl_web_url :: string
  gl_clone_url :: string
  gl_default_branch :: string
  gl_checkpoint_branch :: string
  gl_status :: link_status
  gl_synced_version :: int
  gl_last_remote_sha :: "string option"
  gl_last_error :: "git_failure_code option"
  gl_linked_by :: uuid
  gl_created_at :: instant
  gl_updated_at :: instant
  gl_last_import_branch :: "string option"
  gl_last_import_sha :: "string option"
  gl_last_import_at :: "instant option"
  gl_last_import_error :: "git_failure_code option"

record checkpoint_row =
  cq_project_id :: uuid
  cq_target_version :: int
  cq_captured_version :: "int option"
  cq_checkpoint_sha :: "string option"
  cq_captured_at :: "instant option"
  cq_next_attempt_at :: instant
  cq_state :: checkpoint_state
  cq_phase :: checkpoint_phase
  cq_attempt_count :: int
  cq_last_attempt_at :: "instant option"
  cq_locked_at :: "instant option"
  cq_last_error :: "git_failure_code option"
  cq_created_at :: instant
  cq_updated_at :: instant

record git_db =
  g_links :: "git_link list"
  g_inbound :: "inbound_job list"
  g_queue :: "checkpoint_row list"
  g_authors :: "(uuid \<times> uuid \<times> instant) list"
  g_guest_authors :: "(uuid \<times> string \<times> instant) list"

text \<open>\<open>gw_applied\<close> is the history of the jobs whose content transaction was committed.\<close>

record git_world =
  gw_db :: git_db
  gw_collab :: collab_world
  gw_applied :: "uuid list"

text \<open>The index \<open>external_git_inbound_jobs_one_active_project\<close> and the check on the phase.\<close>

definition job_active :: "inbound_job \<Rightarrow> bool" where
  "job_active j \<longleftrightarrow> ij_state j \<in> {Pending_job, Processing_job, RetryWait_job, Paused_job}"

definition revision_recovery_check :: "inbound_job \<Rightarrow> bool" where
  "revision_recovery_check j \<longleftrightarrow> ij_phase j \<noteq> Revision_phase \<or> (ij_remote_sha j \<noteq> None \<and> ij_applied_version j \<noteq> None)"

definition due :: "instant option \<Rightarrow> instant \<Rightarrow> bool" where
  "due t bound \<longleftrightarrow> (case t of None \<Rightarrow> False | Some x \<Rightarrow> x \<le> bound)"

definition find_link :: "uuid \<Rightarrow> git_db \<Rightarrow> git_link option" where
  "find_link pid g = find (\<lambda>l. gl_project_id l = pid) (g_links g)"

definition lock_workspace_version :: "uuid \<Rightarrow> workspace_db \<Rightarrow> int option" where
  "lock_workspace_version pid w = map_option pr_workspace_version (find_project pid w)"

section \<open>Inbound statements\<close>

definition active_job_exists :: "uuid \<Rightarrow> git_db \<Rightarrow> bool" where
  "active_job_exists pid g = exists_where (\<lambda>j. ij_project_id j = pid \<and> job_active j) (g_inbound g)"

definition resume_reauthorized_jobs :: "uuid \<Rightarrow> string \<Rightarrow> instant \<Rightarrow> git_db \<Rightarrow> git_db" where
  "resume_reauthorized_jobs user_id provider now g =
     g\<lparr>g_inbound := update_where
         (\<lambda>j. ij_state j = Paused_job \<and> ij_last_error j = Some GitAuthorizationRequired \<and>
              exists_where (\<lambda>l. gl_project_id l = ij_project_id j \<and> gl_linked_by l = user_id \<and> gl_provider l = provider) (g_links g))
         (\<lambda>j. j\<lparr>ij_state := Pending_job, ij_phase := Queued_phase, ij_next_attempt_at := now, ij_locked_at := None,
                ij_last_error := None, ij_updated_at := now\<rparr>) (g_inbound g)\<rparr>"

datatype insert_job_error = OneActiveProject_violation | Other_violation

definition insert_inbound_job ::
  "uuid \<Rightarrow> uuid \<Rightarrow> string \<Rightarrow> inbound_operation \<Rightarrow> string \<Rightarrow> uuid \<Rightarrow> instant \<Rightarrow> git_db \<Rightarrow> insert_job_error + git_db" where
  "insert_inbound_job job_id pid provider operation source_branch requested_by now g =
     (if active_job_exists pid g then Inl OneActiveProject_violation
      else if exists_where (\<lambda>j. ij_id j = job_id) (g_inbound g) \<or>
         \<not> exists_where (\<lambda>l. gl_project_id l = pid \<and> gl_provider l = provider) (g_links g)
      then Inl Other_violation
      else Inr (g\<lparr>g_inbound := g_inbound g @
        [\<lparr>ij_id = job_id, ij_project_id = pid, ij_provider = provider, ij_operation = operation, ij_source_branch = source_branch,
          ij_requested_by = requested_by, ij_state = Pending_job, ij_phase = Queued_phase, ij_attempt_count = 0,
          ij_next_attempt_at = now, ij_last_attempt_at = None, ij_locked_at = None, ij_remote_sha = None, ij_last_error = None,
          ij_created_at = now, ij_updated_at = now, ij_completed_at = None, ij_applied_version = None\<rparr>]\<rparr>))"

definition update_link :: "uuid \<Rightarrow> (git_link \<Rightarrow> git_link) \<Rightarrow> git_db \<Rightarrow> git_db" where
  "update_link pid f g = g\<lparr>g_links := update_where (\<lambda>l. gl_project_id l = pid) f (g_links g)\<rparr>"

definition clear_last_import_error :: "uuid \<Rightarrow> instant \<Rightarrow> git_db \<Rightarrow> git_db" where
  "clear_last_import_error pid now g = update_link pid (\<lambda>l. l\<lparr>gl_last_import_error := None, gl_updated_at := now\<rparr>) g"

definition record_link_import :: "uuid \<Rightarrow> string \<Rightarrow> string \<Rightarrow> instant \<Rightarrow> git_db \<Rightarrow> git_db" where
  "record_link_import pid source_branch remote_sha now g =
     update_link pid (\<lambda>l. l\<lparr>gl_last_import_branch := Some source_branch, gl_last_import_sha := Some remote_sha,
       gl_last_import_at := Some now, gl_last_import_error := None, gl_updated_at := now\<rparr>) g"

definition update_link_import_error :: "uuid \<Rightarrow> git_failure_code \<Rightarrow> instant \<Rightarrow> git_db \<Rightarrow> git_db" where
  "update_link_import_error pid code now g =
     update_link pid (\<lambda>l. l\<lparr>gl_last_import_error := Some code, gl_updated_at := now\<rparr>) g"

definition latest_inbound_job :: "uuid \<Rightarrow> git_db \<Rightarrow> inbound_job option" where
  "latest_inbound_job pid g = first_by (\<lambda>j. - ij_created_at j) (filter (\<lambda>j. ij_project_id j = pid) (g_inbound g))"

record claimed_inbound_job =
  ci_id :: uuid
  ci_project_id :: uuid
  ci_attempt_count :: int
  ci_phase :: inbound_phase
  ci_remote_sha :: "string option"
  ci_applied_version :: "int option"

definition applied_state :: "claimed_inbound_job \<Rightarrow> (string \<times> int) option" where
  "applied_state c =
     (if ci_phase c \<noteq> Revision_phase then None
      else case (ci_remote_sha c, ci_applied_version c) of (Some sha, Some v) \<Rightarrow> Some (sha, v) | _ \<Rightarrow> None)"

definition inbound_due :: "string \<Rightarrow> instant \<Rightarrow> instant \<Rightarrow> inbound_job \<Rightarrow> bool" where
  "inbound_due provider now stale_before j \<longleftrightarrow> ij_provider j = provider \<and>
     ((ij_state j \<in> {Pending_job, RetryWait_job} \<and> ij_next_attempt_at j \<le> now) \<or>
      (ij_state j = Processing_job \<and> due (ij_locked_at j) stale_before))"

definition has_applied :: "inbound_job \<Rightarrow> bool" where
  "has_applied j \<longleftrightarrow> ij_phase j = Revision_phase \<and> ij_remote_sha j \<noteq> None \<and> ij_applied_version j \<noteq> None"

definition take_inbound :: "instant \<Rightarrow> inbound_job \<Rightarrow> inbound_job" where
  "take_inbound now j =
     j\<lparr>ij_state := Processing_job, ij_phase := (if has_applied j then Revision_phase else Fetch_phase),
       ij_remote_sha := (if has_applied j then ij_remote_sha j else None),
       ij_applied_version := (if has_applied j then ij_applied_version j else None),
       ij_attempt_count := ij_attempt_count j + 1, ij_last_attempt_at := Some now, ij_locked_at := Some now, ij_updated_at := now\<rparr>"

definition claim_due_job :: "string \<Rightarrow> instant \<Rightarrow> instant \<Rightarrow> git_db \<Rightarrow> claimed_inbound_job option \<times> git_db" where
  "claim_due_job provider now stale_before g =
     (case sort_key ij_next_attempt_at (sort_key ij_created_at (filter (inbound_due provider now stale_before) (g_inbound g))) of
        [] \<Rightarrow> (None, g)
      | j # _ \<Rightarrow>
          let k = take_inbound now j in
          (Some \<lparr>ci_id = ij_id k, ci_project_id = ij_project_id k, ci_attempt_count = ij_attempt_count k, ci_phase = ij_phase k,
                 ci_remote_sha = ij_remote_sha k, ci_applied_version = ij_applied_version k\<rparr>,
           g\<lparr>g_inbound := update_where (\<lambda>x. ij_id x = ij_id j) (take_inbound now) (g_inbound g)\<rparr>))"

definition is_processing :: "uuid \<Rightarrow> inbound_job \<Rightarrow> bool" where
  "is_processing job_id j \<longleftrightarrow> ij_id j = job_id \<and> ij_state j = Processing_job"

definition mark_job_applied :: "uuid \<Rightarrow> string \<Rightarrow> int \<Rightarrow> instant \<Rightarrow> git_db \<Rightarrow> git_db option" where
  "mark_job_applied job_id remote_sha workspace_version now g =
     (if rows_affected (is_processing job_id) (g_inbound g) \<noteq> 1 then None
      else Some (g\<lparr>g_inbound := update_where (is_processing job_id)
        (\<lambda>j. j\<lparr>ij_phase := Revision_phase, ij_remote_sha := Some remote_sha, ij_applied_version := Some workspace_version,
               ij_locked_at := Some now, ij_updated_at := now\<rparr>) (g_inbound g)\<rparr>))"

record inbound_job_link =
  il_id :: uuid
  il_project_id :: uuid
  il_operation :: inbound_operation
  il_source_branch :: string
  il_requested_by :: uuid
  il_linked_by :: uuid
  il_clone_url :: string
  il_full_path :: string

definition inbound_job_link_of :: "uuid \<Rightarrow> git_db \<Rightarrow> inbound_job_link option" where
  "inbound_job_link_of job_id g =
     (case find (\<lambda>j. ij_id j = job_id) (g_inbound g) of
        None \<Rightarrow> None
      | Some j \<Rightarrow>
          map_option (\<lambda>l. \<lparr>il_id = ij_id j, il_project_id = ij_project_id j, il_operation = ij_operation j,
            il_source_branch = ij_source_branch j, il_requested_by = ij_requested_by j, il_linked_by = gl_linked_by l,
            il_clone_url = gl_clone_url l, il_full_path = gl_full_path l\<rparr>) (find_link (ij_project_id j) g))"

definition update_job_phase :: "uuid \<Rightarrow> inbound_phase \<Rightarrow> instant \<Rightarrow> git_db \<Rightarrow> git_db" where
  "update_job_phase job_id phase now g =
     g\<lparr>g_inbound := update_where (is_processing job_id)
        (\<lambda>j. j\<lparr>ij_phase := phase, ij_locked_at := Some now, ij_updated_at := now\<rparr>) (g_inbound g)\<rparr>"

definition complete_statement :: "uuid \<Rightarrow> instant \<Rightarrow> git_db \<Rightarrow> bool \<times> git_db" where
  "complete_statement job_id now g =
     (let P = (\<lambda>j. is_processing job_id j \<and> has_applied j) in
      (rows_affected P (g_inbound g) = 1,
       g\<lparr>g_inbound := update_where P
          (\<lambda>j. j\<lparr>ij_state := Succeeded_job, ij_phase := Complete_phase, ij_last_error := None, ij_locked_at := None,
                 ij_updated_at := now, ij_completed_at := Some now\<rparr>) (g_inbound g)\<rparr>))"

text \<open>The statement fails on a row that it would leave in the phase \<open>revision\<close> without an applied state.\<close>

definition fail_row :: "git_job_state \<Rightarrow> inbound_phase \<Rightarrow> instant \<Rightarrow> git_failure_code \<Rightarrow> instant \<Rightarrow> inbound_job \<Rightarrow> inbound_job" where
  "fail_row state retry_phase next_attempt_at code now j =
     j\<lparr>ij_state := state, ij_phase := retry_phase, ij_next_attempt_at := next_attempt_at,
       ij_remote_sha := (if retry_phase = Revision_phase then ij_remote_sha j else None),
       ij_applied_version := (if retry_phase = Revision_phase then ij_applied_version j else None),
       ij_locked_at := None, ij_last_error := Some code, ij_updated_at := now,
       ij_completed_at := (if state = Failed_job then Some now else None)\<rparr>"

definition fail_job ::
  "uuid \<Rightarrow> git_job_state \<Rightarrow> inbound_phase \<Rightarrow> instant \<Rightarrow> git_failure_code \<Rightarrow> instant \<Rightarrow> git_db \<Rightarrow> (bool \<times> git_db) option" where
  "fail_job job_id state retry_phase next_attempt_at code now g =
     (let f = fail_row state retry_phase next_attempt_at code now in
      if exists_where (\<lambda>j. is_processing job_id j \<and> \<not> revision_recovery_check (f j)) (g_inbound g) then None
      else Some (rows_affected (is_processing job_id) (g_inbound g) = 1,
                 g\<lparr>g_inbound := update_where (is_processing job_id) f (g_inbound g)\<rparr>))"

section \<open>The life cycle of inbound jobs\<close>

datatype command_failure_kind = ReauthRequired | Forbidden | Conflict_failure | Retryable_failure

datatype inbound_failure_policy =
    PreserveProcessingLease | PauseForReauthorization | Retry_policy inbound_phase | Fail_policy inbound_phase

record inbound_failure =
  if_policy :: inbound_failure_policy
  if_error_code :: git_failure_code

definition failure_from_command :: "command_failure_kind \<Rightarrow> git_failure_code \<Rightarrow> inbound_failure" where
  "failure_from_command kind code =
     \<lparr>if_policy = (case kind of ReauthRequired \<Rightarrow> PauseForReauthorization | Retryable_failure \<Rightarrow> Retry_policy Queued_phase
        | Forbidden \<Rightarrow> Fail_policy Queued_phase | Conflict_failure \<Rightarrow> Fail_policy Queued_phase), if_error_code = code\<rparr>"

definition failure_retryable :: "git_failure_code \<Rightarrow> inbound_failure" where
  "failure_retryable code = \<lparr>if_policy = Retry_policy Queued_phase, if_error_code = code\<rparr>"

definition failure_terminal :: "git_failure_code \<Rightarrow> inbound_failure" where
  "failure_terminal code = \<lparr>if_policy = Fail_policy Queued_phase, if_error_code = code\<rparr>"

definition failure_from_revision :: "git_failure_code \<Rightarrow> inbound_failure" where
  "failure_from_revision code = \<lparr>if_policy = Retry_policy Revision_phase, if_error_code = code\<rparr>"

definition ambiguous_apply :: inbound_failure where
  "ambiguous_apply = \<lparr>if_policy = PreserveProcessingLease, if_error_code = RepositoryApplyFailed\<rparr>"

definition git_retry_delay_seconds :: "int \<Rightarrow> int" where
  "git_retry_delay_seconds attempt_count =
     (if attempt_count \<le> 1 then 10 else if attempt_count = 2 then 60 else if attempt_count = 3 then 300
      else if attempt_count = 4 then 1800 else 3600)"

text \<open>\<open>None\<close>: the processing lease is preserved.\<close>

definition failure_transition :: "inbound_failure \<Rightarrow> int \<Rightarrow> instant \<Rightarrow> (git_job_state \<times> inbound_phase \<times> instant) option" where
  "failure_transition failure attempt_count now =
     (case if_policy failure of
        PreserveProcessingLease \<Rightarrow> None
      | PauseForReauthorization \<Rightarrow> Some (Paused_job, Queued_phase, now)
      | Retry_policy phase \<Rightarrow> Some (RetryWait_job, phase, now + seconds (git_retry_delay_seconds attempt_count))
      | Fail_policy phase \<Rightarrow> Some (Failed_job, phase, now))"

datatype complete_error = NotProcessing_complete

definition complete_job :: "uuid \<Rightarrow> uuid \<Rightarrow> instant \<Rightarrow> git_db \<Rightarrow> (complete_error + unit) \<times> git_db" where
  "complete_job job_id pid now g =
     (case complete_statement job_id now g of
        (completed, g1) \<Rightarrow>
          if \<not> completed then (Inl NotProcessing_complete, g) else (Inr (), clear_last_import_error pid now g1))"

text \<open>A statement that fails leaves the tables as they were.\<close>

definition record_failure :: "claimed_inbound_job \<Rightarrow> inbound_failure \<Rightarrow> instant \<Rightarrow> git_db \<Rightarrow> git_db" where
  "record_failure claimed failure now g =
     (case failure_transition failure (ci_attempt_count claimed) now of
        None \<Rightarrow> g
      | Some (state, retry_phase, next_attempt_at) \<Rightarrow>
          (case fail_job (ci_id claimed) state retry_phase next_attempt_at (if_error_code failure) now g of
             None \<Rightarrow> g
           | Some (updated, g1) \<Rightarrow>
               if \<not> updated then g1 else update_link_import_error (ci_project_id claimed) (if_error_code failure) now g1))"


section \<open>Links\<close>

record new_repository_link =
  nl_project_id :: uuid
  nl_provider :: string
  nl_repository_id :: string
  nl_full_path :: string
  nl_web_url :: string
  nl_clone_url :: string
  nl_default_branch :: string
  nl_checkpoint_branch :: string
  nl_actor_user_id :: uuid
  nl_now :: instant

definition new_link :: "new_repository_link \<Rightarrow> git_link" where
  "new_link n =
     \<lparr>gl_project_id = nl_project_id n, gl_provider = nl_provider n, gl_repository_id = nl_repository_id n,
      gl_full_path = nl_full_path n, gl_web_url = nl_web_url n, gl_clone_url = nl_clone_url n,
      gl_default_branch = nl_default_branch n, gl_checkpoint_branch = nl_checkpoint_branch n, gl_status = Linking,
      gl_synced_version = 0, gl_last_remote_sha = None, gl_last_error = None, gl_linked_by = nl_actor_user_id n,
      gl_created_at = nl_now n, gl_updated_at = nl_now n, gl_last_import_branch = None, gl_last_import_sha = None,
      gl_last_import_at = None, gl_last_import_error = None\<rparr>"

definition same_repository :: "new_repository_link \<Rightarrow> git_link \<Rightarrow> bool" where
  "same_repository n l \<longleftrightarrow> gl_provider l = nl_provider n \<and> gl_repository_id l = nl_repository_id n"

datatype insert_link_error = ProviderRepositoryKey_violation | ProjectKey_violation

definition insert_repository_link :: "new_repository_link \<Rightarrow> git_db \<Rightarrow> insert_link_error + git_db" where
  "insert_repository_link n g =
     (if exists_where (same_repository n) (g_links g) then Inl ProviderRepositoryKey_violation
      else if exists_where (\<lambda>l. gl_project_id l = nl_project_id n) (g_links g) then Inl ProjectKey_violation
      else Inr (g\<lparr>g_links := g_links g @ [new_link n]\<rparr>))"

definition refresh_link :: "new_repository_link \<Rightarrow> git_link \<Rightarrow> git_link" where
  "refresh_link n l =
     l\<lparr>gl_provider := nl_provider n, gl_repository_id := nl_repository_id n, gl_full_path := nl_full_path n,
       gl_web_url := nl_web_url n, gl_clone_url := nl_clone_url n, gl_default_branch := nl_default_branch n,
       gl_checkpoint_branch := nl_checkpoint_branch n, gl_status := Linking, gl_last_error := None,
       gl_linked_by := nl_actor_user_id n, gl_updated_at := nl_now n\<rparr>"

definition upsert_repository_link :: "new_repository_link \<Rightarrow> git_db \<Rightarrow> (insert_link_error + bool) \<times> git_db" where
  "upsert_repository_link n g =
     (case find_link (nl_project_id n) g of
        Some l \<Rightarrow>
          if same_repository n l then (Inr True, update_link (nl_project_id n) (refresh_link n) g) else (Inr False, g)
      | None \<Rightarrow>
          (case insert_repository_link n g of Inl e \<Rightarrow> (Inl e, g) | Inr g1 \<Rightarrow> (Inr True, g1)))"

datatype persist_link_error =
    NotConfigured_link | InvalidProviderResponse_link | Conflict_persist | Persistence_link

record remote_repository_details =
  rr_id :: string
  rr_full_path :: string
  rr_web_url :: string
  rr_default_branch :: "string option"
  rr_clone_url :: string

text \<open>
  \<open>validate\<close> is the provider's check of what it returned, \<open>branch_for\<close> the configured name of a
  project's checkpoint branch.
\<close>

definition persist_external_git_repository_link ::
  "(remote_repository_details \<Rightarrow> bool) \<Rightarrow> (uuid \<Rightarrow> string) \<Rightarrow> string option \<Rightarrow> uuid \<Rightarrow> uuid \<Rightarrow>
   remote_repository_details \<Rightarrow> instant \<Rightarrow> git_db \<Rightarrow> (persist_link_error + unit) \<times> git_db" where
  "persist_external_git_repository_link validate branch_for provider pid actor details now g =
     (case provider of
        None \<Rightarrow> (Inl NotConfigured_link, g)
      | Some provider_id \<Rightarrow>
          if \<not> validate details then (Inl InvalidProviderResponse_link, g)
          else
            let default_branch =
              (case map_option trim (rr_default_branch details) of None \<Rightarrow> ''main'' | Some b \<Rightarrow> if b = [] then ''main'' else b) in
            (case upsert_repository_link
                \<lparr>nl_project_id = pid, nl_provider = provider_id, nl_repository_id = rr_id details,
                 nl_full_path = rr_full_path details, nl_web_url = rr_web_url details, nl_clone_url = rr_clone_url details,
                 nl_default_branch = default_branch, nl_checkpoint_branch = branch_for pid, nl_actor_user_id = actor,
                 nl_now = now\<rparr> g of
               (Inr True, g1) \<Rightarrow> (Inr (), g1)
             | (Inr False, g1) \<Rightarrow> (Inl Conflict_persist, g1)
             | (Inl ProviderRepositoryKey_violation, g1) \<Rightarrow> (Inl Conflict_persist, g1)
             | (Inl ProjectKey_violation, g1) \<Rightarrow> (Inl Persistence_link, g1)))"

definition resume_reauthorized_links :: "uuid \<Rightarrow> string \<Rightarrow> instant \<Rightarrow> git_db \<Rightarrow> git_db" where
  "resume_reauthorized_links user_id provider now g =
     g\<lparr>g_links := update_where
         (\<lambda>l. gl_linked_by l = user_id \<and> gl_provider l = provider \<and> gl_status l = ReauthRequired_link)
         (\<lambda>l. l\<lparr>gl_status := (if gl_synced_version l > 0 then Active_link else Linking), gl_last_error := None,
                gl_updated_at := now\<rparr>) (g_links g)\<rparr>"

text \<open>A link that is deleted takes its jobs, its queue row and its pending authors with it.\<close>

definition delete_repository_link :: "uuid \<Rightarrow> git_db \<Rightarrow> git_link option \<times> git_db" where
  "delete_repository_link pid g =
     (case find_link pid g of
        None \<Rightarrow> (None, g)
      | Some l \<Rightarrow>
          (Some l,
           \<lparr>g_links = delete_where (\<lambda>x. gl_project_id x = pid) (g_links g),
            g_inbound = delete_where (\<lambda>j. ij_project_id j = pid \<and> ij_provider j = gl_provider l) (g_inbound g),
            g_queue = delete_where (\<lambda>q. cq_project_id q = pid) (g_queue g),
            g_authors = filter (\<lambda>a. fst a \<noteq> pid) (g_authors g),
            g_guest_authors = filter (\<lambda>a. fst a \<noteq> pid) (g_guest_authors g)\<rparr>))"

section \<open>Checkpoint statements\<close>

text \<open>\<open>on conflict do update\<close> on the tables of pending authors.\<close>

definition touch_author :: "uuid \<Rightarrow> 'a \<Rightarrow> instant \<Rightarrow> (uuid \<times> 'a \<times> instant) list \<Rightarrow> (uuid \<times> 'a \<times> instant) list" where
  "touch_author pid a now t =
     (if exists_where (\<lambda>(p, b, _). p = pid \<and> b = a) t
      then map (\<lambda>(p, b, at). if p = pid \<and> b = a then (p, b, now) else (p, b, at)) t else t @ [(pid, a, now)])"

definition record_project_activity :: "uuid \<Rightarrow> uuid option \<Rightarrow> string option \<Rightarrow> instant \<Rightarrow> git_db \<Rightarrow> git_db" where
  "record_project_activity pid actor guest now g =
     (case actor of
        Some u \<Rightarrow> if find_link pid g = None then g else g\<lparr>g_authors := touch_author pid u now (g_authors g)\<rparr>
      | None \<Rightarrow>
          (case map_option trim guest of
             None \<Rightarrow> g
           | Some name \<Rightarrow>
               if name = [] \<or> find_link pid g = None then g
               else g\<lparr>g_guest_authors := touch_author pid name now (g_guest_authors g)\<rparr>))"

definition checkpoint_operation_exists :: "uuid \<Rightarrow> git_db \<Rightarrow> bool" where
  "checkpoint_operation_exists pid g = exists_where (\<lambda>q. cq_project_id q = pid) (g_queue g)"

definition update_queue :: "uuid \<Rightarrow> (checkpoint_row \<Rightarrow> checkpoint_row) \<Rightarrow> git_db \<Rightarrow> git_db" where
  "update_queue pid f g = g\<lparr>g_queue := update_where (\<lambda>q. cq_project_id q = pid) f (g_queue g)\<rparr>"

definition resume_reauthorized_checkpoints :: "uuid \<Rightarrow> string \<Rightarrow> instant \<Rightarrow> git_db \<Rightarrow> git_db" where
  "resume_reauthorized_checkpoints user_id provider now g =
     g\<lparr>g_queue := update_where
         (\<lambda>q. cq_state q = Paused_checkpoint \<and> cq_last_error q = Some GitAuthorizationRequired \<and>
              exists_where (\<lambda>l. gl_project_id l = cq_project_id q \<and> gl_linked_by l = user_id \<and> gl_provider l = provider) (g_links g))
         (\<lambda>q. q\<lparr>cq_state := Pending_checkpoint, cq_phase := Queued_checkpoint, cq_next_attempt_at := now,
                cq_locked_at := None, cq_last_error := None, cq_updated_at := now\<rparr>) (g_queue g)\<rparr>"

definition checkpoint_due :: "string \<Rightarrow> instant \<Rightarrow> instant \<Rightarrow> git_db \<Rightarrow> checkpoint_row \<Rightarrow> bool" where
  "checkpoint_due provider now stale_before g q \<longleftrightarrow>
     exists_where (\<lambda>l. gl_project_id l = cq_project_id q \<and> gl_provider l = provider) (g_links g) \<and>
     ((cq_state q \<in> {Pending_checkpoint, RetryWait_checkpoint} \<and> cq_next_attempt_at q \<le> now) \<or>
      (cq_state q = Processing_checkpoint \<and> due (cq_locked_at q) stale_before))"

record claimed_checkpoint =
  cc_project_id :: uuid
  cc_attempt_count :: int

definition claim_due :: "string \<Rightarrow> instant \<Rightarrow> instant \<Rightarrow> git_db \<Rightarrow> claimed_checkpoint option \<times> git_db" where
  "claim_due provider now stale_before g =
     (case sort_key cq_next_attempt_at (sort_key cq_created_at (filter (checkpoint_due provider now stale_before g) (g_queue g))) of
        [] \<Rightarrow> (None, g)
      | q # _ \<Rightarrow>
          (Some \<lparr>cc_project_id = cq_project_id q, cc_attempt_count = cq_attempt_count q + 1\<rparr>,
           update_queue (cq_project_id q)
             (\<lambda>x. x\<lparr>cq_state := Processing_checkpoint, cq_phase := Snapshot_checkpoint, cq_attempt_count := cq_attempt_count x + 1,
                    cq_last_attempt_at := Some now, cq_locked_at := Some now, cq_updated_at := now\<rparr>) g))"

record checkpoint_target =
  ct_synced_version :: int
  ct_last_remote_sha :: "string option"
  ct_inbound_active :: bool
  ct_queued_version :: "int option"

definition find_queue :: "uuid \<Rightarrow> git_db \<Rightarrow> checkpoint_row option" where
  "find_queue pid g = find (\<lambda>q. cq_project_id q = pid) (g_queue g)"

definition target_for_update :: "uuid \<Rightarrow> git_db \<Rightarrow> checkpoint_target option" where
  "target_for_update pid g =
     map_option (\<lambda>l. \<lparr>ct_synced_version = gl_synced_version l, ct_last_remote_sha = gl_last_remote_sha l,
       ct_inbound_active = active_job_exists pid g, ct_queued_version = map_option cq_target_version (find_queue pid g)\<rparr>)
       (find_link pid g)"

definition resume_queue :: "uuid \<Rightarrow> instant \<Rightarrow> git_db \<Rightarrow> git_db" where
  "resume_queue pid now g =
     update_link pid (\<lambda>l. l\<lparr>gl_last_error := None, gl_updated_at := now\<rparr>)
       (update_queue pid
          (\<lambda>q. q\<lparr>cq_state := Pending_checkpoint,
                 cq_phase := (if cq_checkpoint_sha q = None then Queued_checkpoint else PushGit_checkpoint),
                 cq_next_attempt_at := now, cq_locked_at := None, cq_last_error := None, cq_updated_at := now\<rparr>) g)"

definition insert_queue :: "uuid \<Rightarrow> int \<Rightarrow> instant \<Rightarrow> git_db \<Rightarrow> int option \<times> git_db" where
  "insert_queue pid target_version now g =
     (if find_link pid g = None then (None, g)
      else case find_queue pid g of
        Some q \<Rightarrow>
          (Some (cq_target_version q),
           update_queue pid (\<lambda>x. x\<lparr>cq_state := Pending_checkpoint, cq_next_attempt_at := now, cq_locked_at := None,
             cq_last_error := None, cq_updated_at := now\<rparr>) g)
      | None \<Rightarrow>
          (Some target_version,
           g\<lparr>g_queue := g_queue g @
             [\<lparr>cq_project_id = pid, cq_target_version = target_version, cq_captured_version = None, cq_checkpoint_sha = None,
               cq_captured_at = None, cq_next_attempt_at = now, cq_state = Pending_checkpoint, cq_phase = Queued_checkpoint,
               cq_attempt_count = 0, cq_last_attempt_at = None, cq_locked_at = None, cq_last_error = None,
               cq_created_at = now, cq_updated_at = now\<rparr>]\<rparr>))"

record checkpoint_link =
  cl_linked_by :: uuid
  cl_clone_url :: string
  cl_checkpoint_branch :: string
  cl_last_remote_sha :: "string option"
  cl_captured_version :: "int option"
  cl_checkpoint_sha :: "string option"
  cl_captured_at :: "instant option"

definition checkpoint_link_of :: "uuid \<Rightarrow> git_db \<Rightarrow> checkpoint_link option" where
  "checkpoint_link_of pid g =
     (case (find_link pid g, find_queue pid g) of
        (Some l, Some q) \<Rightarrow>
          Some \<lparr>cl_linked_by = gl_linked_by l, cl_clone_url = gl_clone_url l, cl_checkpoint_branch = gl_checkpoint_branch l,
                cl_last_remote_sha = gl_last_remote_sha l, cl_captured_version = cq_captured_version q,
                cl_checkpoint_sha = cq_checkpoint_sha q, cl_captured_at = cq_captured_at q\<rparr>
      | _ \<Rightarrow> None)"

definition coauthor_ids :: "uuid \<Rightarrow> uuid \<Rightarrow> instant \<Rightarrow> git_db \<Rightarrow> uuid list" where
  "coauthor_ids pid connector captured_at g =
     take 100 (map (fst \<circ> snd) (sort_key (snd \<circ> snd)
       (filter (\<lambda>(p, u, at). p = pid \<and> u \<noteq> connector \<and> at \<le> captured_at) (g_authors g))))"

definition guest_coauthors :: "uuid \<Rightarrow> instant \<Rightarrow> git_db \<Rightarrow> string list" where
  "guest_coauthors pid captured_at g =
     take 100 (map (fst \<circ> snd) (sort_key (snd \<circ> snd) (filter (\<lambda>(p, u, at). p = pid \<and> at \<le> captured_at) (g_guest_authors g))))"

definition update_queue_phase :: "uuid \<Rightarrow> checkpoint_phase \<Rightarrow> instant \<Rightarrow> git_db \<Rightarrow> git_db" where
  "update_queue_phase pid phase now g = update_queue pid (\<lambda>q. q\<lparr>cq_phase := phase, cq_updated_at := now\<rparr>) g"

definition capture_checkpoint :: "uuid \<Rightarrow> int \<Rightarrow> string \<Rightarrow> instant \<Rightarrow> git_db \<Rightarrow> git_db" where
  "capture_checkpoint pid version sha captured_at g =
     update_queue pid (\<lambda>q. q\<lparr>cq_phase := PushGit_checkpoint, cq_captured_version := Some version,
       cq_checkpoint_sha := Some sha, cq_captured_at := Some captured_at, cq_updated_at := captured_at\<rparr>) g"

definition complete_checkpoint :: "uuid \<Rightarrow> int \<Rightarrow> string \<Rightarrow> instant \<Rightarrow> git_db \<Rightarrow> git_db" where
  "complete_checkpoint pid version remote_sha now g =
     (let g1 = update_link pid (\<lambda>l. l\<lparr>gl_status := Active_link, gl_synced_version := max (gl_synced_version l) version,
                 gl_last_remote_sha := Some remote_sha, gl_last_error := None, gl_updated_at := now\<rparr>) g in
      case find_queue pid g1 of
        None \<Rightarrow> g1
      | Some q \<Rightarrow>
          let g2 = (case cq_captured_at q of
                      None \<Rightarrow> g1
                    | Some captured_at \<Rightarrow>
                        g1\<lparr>g_authors := filter (\<lambda>(p, _, at). \<not> (p = pid \<and> at \<le> captured_at)) (g_authors g1),
                           g_guest_authors := filter (\<lambda>(p, _, at). \<not> (p = pid \<and> at \<le> captured_at)) (g_guest_authors g1)\<rparr>) in
          g2\<lparr>g_queue := delete_where (\<lambda>q. cq_project_id q = pid) (g_queue g2)\<rparr>)"

definition fail_checkpoint_statement ::
  "uuid \<Rightarrow> checkpoint_state \<Rightarrow> link_status \<Rightarrow> instant \<Rightarrow> git_failure_code \<Rightarrow> instant \<Rightarrow> git_db \<Rightarrow> git_db" where
  "fail_checkpoint_statement pid state status next_attempt_at code now g =
     update_queue pid (\<lambda>q. q\<lparr>cq_state := state, cq_phase := Queued_checkpoint, cq_next_attempt_at := next_attempt_at,
         cq_locked_at := None, cq_last_error := Some code, cq_updated_at := now\<rparr>)
       (update_link pid (\<lambda>l. l\<lparr>gl_status := status, gl_last_error := Some code, gl_updated_at := now\<rparr>) g)"

definition checkpoint_failure_transition ::
  "command_failure_kind \<Rightarrow> int \<Rightarrow> instant \<Rightarrow> checkpoint_state \<times> link_status \<times> instant" where
  "checkpoint_failure_transition kind attempt_count now =
     (case kind of
        ReauthRequired \<Rightarrow> (Paused_checkpoint, ReauthRequired_link, now)
      | Forbidden \<Rightarrow> (Paused_checkpoint, Error_link, now)
      | Conflict_failure \<Rightarrow> (Paused_checkpoint, Conflict_link, now)
      | Retryable_failure \<Rightarrow>
          (RetryWait_checkpoint, Error_link, now + seconds (git_retry_delay_seconds attempt_count)))"

definition fail_checkpoint :: "claimed_checkpoint \<Rightarrow> command_failure_kind \<Rightarrow> git_failure_code \<Rightarrow> instant \<Rightarrow> git_db \<Rightarrow> git_db" where
  "fail_checkpoint claimed kind code now g =
     (case checkpoint_failure_transition kind (cc_attempt_count claimed) now of
        (state, status, next_attempt_at) \<Rightarrow>
          fail_checkpoint_statement (cc_project_id claimed) state status next_attempt_at code now g)"

section \<open>Transactions that start and stop operations\<close>

definition gw_workspace :: "git_world \<Rightarrow> workspace_db" where
  "gw_workspace w = cw_db (gw_collab w)"

datatype enqueue_sync_error = ProjectNotFound_sync | OutboundCheckpointActive | InboundJobActive | Persistence_sync

definition enqueue_sync ::
  "uuid \<Rightarrow> uuid \<Rightarrow> uuid \<Rightarrow> string \<Rightarrow> string \<Rightarrow> instant \<Rightarrow> git_world \<Rightarrow> (enqueue_sync_error + unit) \<times> git_world" where
  "enqueue_sync job_id pid actor provider source_branch now w =
     (if lock_workspace_version pid (gw_workspace w) = None then (Inl ProjectNotFound_sync, w)
      else if checkpoint_operation_exists pid (gw_db w) then (Inl OutboundCheckpointActive, w)
      else case insert_inbound_job job_id pid provider Sync_operation source_branch actor now (gw_db w) of
        Inl OneActiveProject_violation \<Rightarrow> (Inl InboundJobActive, w)
      | Inl Other_violation \<Rightarrow> (Inl Persistence_sync, w)
      | Inr g \<Rightarrow> (Inr (), w\<lparr>gw_db := clear_last_import_error pid now g\<rparr>))"

datatype create_import_error = RepositoryConflict_import | Persistence_import

definition create_import_project ::
  "(nat \<Rightarrow> uuid) \<Rightarrow> create_graph \<Rightarrow> uuid \<Rightarrow> new_repository_link \<Rightarrow> string \<Rightarrow> git_world \<Rightarrow> (create_import_error + unit) \<times> git_world" where
  "create_import_project fresh graph job_id link source_branch w =
     (case create_project_graph fresh graph (gw_workspace w) of
        None \<Rightarrow> (Inl Persistence_import, w)
      | Some db \<Rightarrow>
          (case insert_repository_link link (gw_db w) of
             Inl ProviderRepositoryKey_violation \<Rightarrow> (Inl RepositoryConflict_import, w)
           | Inl ProjectKey_violation \<Rightarrow> (Inl Persistence_import, w)
           | Inr g \<Rightarrow>
               (case insert_inbound_job job_id (nl_project_id link) (nl_provider link) Import_operation source_branch
                       (nl_actor_user_id link) (nl_now link) g of
                  Inl e \<Rightarrow> (Inl Persistence_import, w)
                | Inr g1 \<Rightarrow> (Inr (), w\<lparr>gw_db := g1, gw_collab := set_db db (gw_collab w)\<rparr>))))"

datatype enqueue_checkpoint_result = NotLinked_checkpoint | InboundActive_checkpoint | UpToDate int | Queued_result int

definition enqueue_checkpoint :: "uuid \<Rightarrow> instant \<Rightarrow> git_world \<Rightarrow> enqueue_checkpoint_result \<times> git_world" where
  "enqueue_checkpoint pid now w =
     (case lock_workspace_version pid (gw_workspace w) of
        None \<Rightarrow> (NotLinked_checkpoint, w)
      | Some version \<Rightarrow>
          (case target_for_update pid (gw_db w) of
             None \<Rightarrow> (NotLinked_checkpoint, w)
           | Some target \<Rightarrow>
               if ct_inbound_active target then (InboundActive_checkpoint, w)
               else (case ct_queued_version target of
                       Some queued \<Rightarrow> (Queued_result queued, w\<lparr>gw_db := resume_queue pid now (gw_db w)\<rparr>)
                     | None \<Rightarrow>
                         if ct_last_remote_sha target \<noteq> None \<and> ct_synced_version target \<ge> version then (UpToDate version, w)
                         else (case insert_queue pid version now (gw_db w) of
                                 (Some v, g) \<Rightarrow> (Queued_result v, w\<lparr>gw_db := g\<rparr>)
                               | (None, g) \<Rightarrow> (NotLinked_checkpoint, w\<lparr>gw_db := g\<rparr>)))))"

datatype unlink_error = ProjectNotFound_unlink | ActiveOperation_unlink

definition unlink_repository_link :: "uuid \<Rightarrow> git_world \<Rightarrow> (unlink_error + git_link option) \<times> git_world" where
  "unlink_repository_link pid w =
     (if lock_workspace_version pid (gw_workspace w) = None then (Inl ProjectNotFound_unlink, w)
      else if checkpoint_operation_exists pid (gw_db w) \<or> active_job_exists pid (gw_db w) then (Inl ActiveOperation_unlink, w)
      else case delete_repository_link pid (gw_db w) of (deleted, g) \<Rightarrow> (Inr deleted, w\<lparr>gw_db := g\<rparr>))"

definition resume_work :: "uuid \<Rightarrow> string \<Rightarrow> instant \<Rightarrow> git_db \<Rightarrow> git_db" where
  "resume_work user_id provider now g =
     resume_reauthorized_jobs user_id provider now
       (resume_reauthorized_checkpoints user_id provider now (resume_reauthorized_links user_id provider now g))"

end
