(* ===== verification/External_Git_Workers.thy ===== *)
theory External_Git_Workers
  imports External_Git
begin

text \<open>
  The workers of the external repositories: \<open>inbound/content.rs\<close>, \<open>inbound/worker.rs\<close> and
  \<open>checkpoint/worker.rs\<close>. A turn of a worker takes a job, processes it and records a failure.

  What is outside of the tables is an outcome: a call is done with a value, has failed, or the worker
  crashed in it. Commands on the remote repository are functions of an abstract state of the provider.
\<close>

section \<open>Outcomes\<close>

datatype ('e, 'a) outcome = Done 'a | FailedWith 'e | Crashed

record command_failure =
  cf_kind :: command_failure_kind
  cf_code :: git_failure_code

section \<open>Inbound content\<close>

record inbound_command =
  ic_job_id :: uuid
  ic_project_id :: uuid
  ic_actor_user_id :: uuid
  ic_operation :: inbound_operation
  ic_source_branch :: string
  ic_remote_sha :: string
  ic_entry_file_path :: string
  ic_documents :: "workspace_document list"
  ic_directories :: "string list"
  ic_assets :: "workspace_asset list"

record applied_inbound_state =
  ai_workspace_version :: int
  ai_content_epoch :: int
  ai_old_object_keys :: "string list"

datatype apply_error =
    ProjectNotFound_apply | WorkspaceChanged_apply | InvalidEntryFile_apply | WorkspaceFlush_apply
  | Persistence_apply | CommitAmbiguous_apply

datatype commit_outcome = Committed | Ambiguous_committed | Ambiguous_lost

definition inbound_replacement :: "inbound_command \<Rightarrow> instant \<Rightarrow> replace_content" where
  "inbound_replacement c now =
     \<lparr>rp_project_id = ic_project_id c, rp_expected_workspace_version = None, rp_documents = ic_documents c,
      rp_assets = ic_assets c, rp_directories = ic_directories c, rp_entry_file_path = ic_entry_file_path c,
      rp_asset_uploaded_by = Some (ic_actor_user_id c), rp_updated_at = now\<rparr>"

text \<open>
  The transaction. The versioning tables are not part of the state, and neither is the local repository
  that a pending commit is written to before a synchronisation.
\<close>

definition inbound_transaction ::
  "(nat \<Rightarrow> uuid) \<Rightarrow> inbound_command \<Rightarrow> instant \<Rightarrow> git_world \<Rightarrow> apply_error + (applied_inbound_state \<times> git_world)" where
  "inbound_transaction fresh c now w =
     (case replace_project_content fresh (inbound_replacement c now) (gw_workspace w) of
        None \<Rightarrow> Inl Persistence_apply
      | Some (NotFound_replace, _) \<Rightarrow> Inl ProjectNotFound_apply
      | Some (WorkspaceVersionChanged, _) \<Rightarrow> Inl WorkspaceChanged_apply
      | Some (InvalidEntryFile, _) \<Rightarrow> Inl InvalidEntryFile_apply
      | Some (Replaced old version epoch, db) \<Rightarrow>
          let c1 = clear_project (ic_project_id c) (cascade (set_db db (gw_collab w)));
              g1 = record_project_activity (ic_project_id c) (Some (ic_actor_user_id c)) None now (gw_db w);
              g2 = record_link_import (ic_project_id c) (ic_source_branch c) (ic_remote_sha c) now g1 in
          (case mark_job_applied (ic_job_id c) (ic_remote_sha c) version now g2 of
             None \<Rightarrow> Inl Persistence_apply
           | Some g3 \<Rightarrow>
               let c2 = c1\<lparr>cw_workspace := (cw_workspace c1)\<lparr>ww_queue := enqueue_object_deletions now old (ww_queue (cw_workspace c1))\<rparr>\<rparr> in
               Inr (\<lparr>ai_workspace_version = version, ai_content_epoch = epoch, ai_old_object_keys = old\<rparr>,
                    w\<lparr>gw_db := g3, gw_collab := c2, gw_applied := gw_applied w @ [ic_job_id c]\<rparr>)))"

definition apply_external_git_inbound_content ::
  "bool \<Rightarrow> commit_outcome \<Rightarrow> (nat \<Rightarrow> uuid) \<Rightarrow> inbound_command \<Rightarrow> instant \<Rightarrow> git_world \<Rightarrow>
   (apply_error + applied_inbound_state) \<times> git_world" where
  "apply_external_git_inbound_content flushed commit fresh c now w =
     (if ic_operation c = Sync_operation \<and> \<not> flushed then (Inl WorkspaceFlush_apply, w)
      else case inbound_transaction fresh c now w of
        Inl e \<Rightarrow> (Inl e, w)
      | Inr (applied, w1) \<Rightarrow>
          (case commit of
             Committed \<Rightarrow> (Inr applied, w1)
           | Ambiguous_committed \<Rightarrow> (Inl CommitAmbiguous_apply, w1)
           | Ambiguous_lost \<Rightarrow> (Inl CommitAmbiguous_apply, w)))"

section \<open>The inbound worker\<close>

datatype inbound_job_error =
    LinkMissing_inbound | EntryPoint_not_found | EntryPoint_persistence | Persistence_inbound | Checkout_failed
  | Provider_failed command_failure | InvalidRemoteRevision | Import_rejected git_failure_code | ContentRead_failed
  | AssetStorage_failed | Apply_failed apply_error | Revision_failed | Completion_failed complete_error

definition inbound_job_failure :: "inbound_job_error \<Rightarrow> inbound_failure" where
  "inbound_job_failure e =
     (case e of
        Provider_failed f \<Rightarrow> failure_from_command (cf_kind f) (cf_code f)
      | LinkMissing_inbound \<Rightarrow> failure_terminal ExternalGitLinkMissing
      | EntryPoint_not_found \<Rightarrow> failure_terminal ProjectNotFound_code
      | EntryPoint_persistence \<Rightarrow> failure_retryable RepositoryImportStateFailed
      | Checkout_failed \<Rightarrow> failure_retryable GitFetchFailed
      | InvalidRemoteRevision \<Rightarrow> failure_retryable RepositoryRevisionInvalid
      | Import_rejected code \<Rightarrow> failure_terminal code
      | ContentRead_failed \<Rightarrow> failure_terminal RepositoryContentUnreadable
      | AssetStorage_failed \<Rightarrow> failure_retryable RepositoryAssetStoreFailed
      | Apply_failed ProjectNotFound_apply \<Rightarrow> failure_terminal ProjectNotFound_code
      | Apply_failed InvalidEntryFile_apply \<Rightarrow> failure_terminal RepositoryMissingEntryFile
      | Apply_failed CommitAmbiguous_apply \<Rightarrow> ambiguous_apply
      | Apply_failed _ \<Rightarrow> failure_retryable RepositoryApplyFailed
      | Revision_failed \<Rightarrow> failure_from_revision RepositoryRevisionFailed
      | Completion_failed _ \<Rightarrow> failure_from_revision RepositoryImportStateFailed
      | Persistence_inbound \<Rightarrow> failure_retryable RepositoryImportStateFailed)"

definition valid_remote_revision :: "string \<Rightarrow> bool" where
  "valid_remote_revision sha \<longleftrightarrow> length sha \<in> {40, 64} \<and> list_all ascii_hexdigit sha"

record imported_document =
  im_path :: string
  im_source_path :: string

record imported_asset =
  ia_path :: string
  ia_source_path :: string
  ia_content_type :: string
  ia_size_bytes :: int

record prepared_import =
  pi_documents :: "imported_document list"
  pi_directories :: "string list"
  pi_assets :: "imported_asset list"
  pi_entry_file_path :: string

record staged_asset =
  sg_id :: uuid
  sg_path :: string
  sg_object_key :: string
  sg_content_type :: string
  sg_size_bytes :: int
  sg_inline_source_path :: "string option"

datatype entry_point_error = ProjectNotFound_entry | Persistence_entry

definition entry_point_failed :: "entry_point_error \<Rightarrow> inbound_job_error" where
  "entry_point_failed e = (case e of ProjectNotFound_entry \<Rightarrow> EntryPoint_not_found | Persistence_entry \<Rightarrow> EntryPoint_persistence)"

text \<open>
  What a turn gets from outside: the entry point of the project, the clone, the Git LFS objects, the
  revision of the clone, the validated content, the files of the checkout, the identifiers of the assets,
  after how many of them the worker crashes, the object storage, whether pending edits were committed
  before the content is applied, the commit, the revision that is created afterwards, and whether the
  link could be loaded, each phase and the failure recorded.
\<close>

record inbound_env =
  ie_now :: instant
  ie_fresh :: "nat \<Rightarrow> uuid"
  ie_service :: service_env
  ie_link_loaded :: bool
  ie_phase_recorded :: "inbound_phase \<Rightarrow> bool"
  ie_entry_point :: "(entry_point_error, unit) outcome"
  ie_checkout :: "(unit, unit) outcome"
  ie_clone :: "(command_failure, unit) outcome"
  ie_lfs_pull :: "(command_failure, unit) outcome"
  ie_rev_parse :: "(command_failure, string) outcome"
  ie_import :: "(git_failure_code, prepared_import) outcome"
  ie_read :: "string \<Rightarrow> bytes option"
  ie_read_to_string :: "string \<Rightarrow> string option"
  ie_asset_id :: "nat \<Rightarrow> uuid"
  ie_crash_after :: "nat option"
  ie_flushed :: bool
  ie_commit :: commit_outcome
  ie_revision :: "(unit, unit) outcome"
  ie_failure_recorded :: bool

definition phase_update :: "uuid \<Rightarrow> inbound_phase \<Rightarrow> inbound_env \<Rightarrow> git_world \<Rightarrow> git_world option" where
  "phase_update job_id phase env w =
     (if ie_phase_recorded env phase then Some (w\<lparr>gw_db := update_job_phase job_id phase (ie_now env) (gw_db w)\<rparr>) else None)"

text \<open>\<open>prepare_inbound_state\<close>: the commands, the phases in between and the check of the revision.\<close>

definition fetch_revision ::
  "inbound_env \<Rightarrow> inbound_job_link \<Rightarrow> git_world \<Rightarrow> (inbound_job_error, string) outcome \<times> git_world" where
  "fetch_revision env link w =
     (case ie_checkout env of Crashed \<Rightarrow> (Crashed, w) | FailedWith _ \<Rightarrow> (FailedWith Checkout_failed, w)
      | Done _ \<Rightarrow>
     (case ie_clone env of Crashed \<Rightarrow> (Crashed, w) | FailedWith f \<Rightarrow> (FailedWith (Provider_failed f), w)
      | Done _ \<Rightarrow>
     (case phase_update (il_id link) Lfs_phase env w of None \<Rightarrow> (FailedWith Persistence_inbound, w)
      | Some w1 \<Rightarrow>
     (case ie_lfs_pull env of Crashed \<Rightarrow> (Crashed, w1) | FailedWith f \<Rightarrow> (FailedWith (Provider_failed f), w1)
      | Done _ \<Rightarrow>
     (case ie_rev_parse env of Crashed \<Rightarrow> (Crashed, w1) | FailedWith f \<Rightarrow> (FailedWith (Provider_failed f), w1)
      | Done out \<Rightarrow>
          let remote_sha = to_ascii_lowercase (trim out) in
          if \<not> valid_remote_revision remote_sha then (FailedWith InvalidRemoteRevision, w1) else (Done remote_sha, w1))))))"

definition prepare_inbound_state ::
  "inbound_env \<Rightarrow> inbound_job_link \<Rightarrow> git_world \<Rightarrow> (inbound_job_error, string \<times> prepared_import) outcome \<times> git_world" where
  "prepare_inbound_state env link w =
     (case fetch_revision env link w of
        (Crashed, w1) \<Rightarrow> (Crashed, w1) | (FailedWith e, w1) \<Rightarrow> (FailedWith e, w1)
      | (Done remote_sha, w1) \<Rightarrow>
     (case phase_update (il_id link) Validate_phase env w1 of None \<Rightarrow> (FailedWith Persistence_inbound, w1)
      | Some w2 \<Rightarrow>
     (case ie_import env of Crashed \<Rightarrow> (Crashed, w2) | FailedWith code \<Rightarrow> (FailedWith (Import_rejected code), w2)
      | Done prepared \<Rightarrow> (Done (remote_sha, prepared), w2))))"

definition on_workspace :: "(workspace_world \<Rightarrow> workspace_world) \<Rightarrow> git_world \<Rightarrow> git_world" where
  "on_workspace f w = w\<lparr>gw_collab := (gw_collab w)\<lparr>cw_workspace := f (cw_workspace (gw_collab w))\<rparr>\<rparr>"

definition cleanup_staged_assets :: "inbound_env \<Rightarrow> staged_asset list \<Rightarrow> git_world \<Rightarrow> git_world" where
  "cleanup_staged_assets env staged w =
     on_workspace (fold (cleanup_uncommitted_object (ie_service env)) (map sg_object_key staged)) w"

fun stage_assets ::
  "inbound_env \<Rightarrow> uuid \<Rightarrow> uuid \<Rightarrow> imported_asset list \<Rightarrow> staged_asset list \<Rightarrow> git_world \<Rightarrow>
   (inbound_job_error, staged_asset list) outcome \<times> git_world" where
  "stage_assets env job_id pid [] staged w =
     (if ie_crash_after env = Some (length staged) then (Crashed, w) else (Done staged, w))"
| "stage_assets env job_id pid (a # rest) staged w =
     (if ie_crash_after env = Some (length staged) then (Crashed, w)
      else
        let asset_id = ie_asset_id env (length staged); sv = ie_service env;
            key = (if sv_storage sv then ''projects/'' @ sv_show sv pid @ ''/assets/'' @ sv_show sv asset_id
                   else ''inline://'' @ sv_show sv asset_id);
            x = \<lparr>sg_id = asset_id, sg_path = ia_path a, sg_object_key = key, sg_content_type = ia_content_type a,
                 sg_size_bytes = ia_size_bytes a,
                 sg_inline_source_path = (if sv_storage sv then None else Some (ia_source_path a))\<rparr>;
            go = (\<lambda>w1. case phase_update job_id Assets_phase env w1 of
                    None \<Rightarrow> (FailedWith Persistence_inbound, cleanup_staged_assets env (staged @ [x]) w1)
                  | Some w2 \<Rightarrow> stage_assets env job_id pid rest (staged @ [x]) w2) in
        if \<not> sv_storage sv then go w
        else (case ie_read env (ia_source_path a) of
                None \<Rightarrow> (FailedWith ContentRead_failed, cleanup_staged_assets env staged w)
              | Some content \<Rightarrow>
                  (case put_object sv key content (cw_workspace (gw_collab w)) of
                     None \<Rightarrow>
                       (FailedWith AssetStorage_failed,
                        cleanup_staged_assets env staged (on_workspace (cleanup_uncommitted_object sv key) w))
                   | Some ws \<Rightarrow> go (on_workspace (\<lambda>_. ws) w))))"

definition read_documents :: "inbound_env \<Rightarrow> imported_document list \<Rightarrow> workspace_document list option" where
  "read_documents env docs =
     those (map (\<lambda>d. map_option (\<lambda>content. \<lparr>wd_path = im_path d, wd_content = content\<rparr>) (ie_read_to_string env (im_source_path d))) docs)"

definition read_assets :: "inbound_env \<Rightarrow> staged_asset list \<Rightarrow> workspace_asset list option" where
  "read_assets env staged =
     those (map (\<lambda>a. map_option (\<lambda>inline_data. \<lparr>wa_id = sg_id a, wa_path = sg_path a, wa_object_key = sg_object_key a,
         wa_content_type = sg_content_type a, wa_size_bytes = sg_size_bytes a, wa_inline_data = inline_data\<rparr>)
       (case sg_inline_source_path a of None \<Rightarrow> Some None | Some path \<Rightarrow> map_option Some (ie_read env path))) staged)"

definition apply_inbound_state ::
  "inbound_env \<Rightarrow> inbound_job_link \<Rightarrow> string \<Rightarrow> prepared_import \<Rightarrow> staged_asset list \<Rightarrow> git_world \<Rightarrow>
   (inbound_job_error + applied_inbound_state) \<times> git_world" where
  "apply_inbound_state env link remote_sha prepared staged w =
     (case (read_documents env (pi_documents prepared), read_assets env staged) of
        (Some documents, Some assets) \<Rightarrow>
          (case apply_external_git_inbound_content (ie_flushed env) (ie_commit env) (ie_fresh env)
                  \<lparr>ic_job_id = il_id link, ic_project_id = il_project_id link, ic_actor_user_id = il_requested_by link,
                   ic_operation = il_operation link, ic_source_branch = il_source_branch link, ic_remote_sha = remote_sha,
                   ic_entry_file_path = pi_entry_file_path prepared, ic_documents = documents,
                   ic_directories = pi_directories prepared, ic_assets = assets\<rparr> (ie_now env) w of
             (Inl e, w1) \<Rightarrow> (Inl (Apply_failed e), w1)
           | (Inr applied, w1) \<Rightarrow> (Inr applied, w1))
      | _ \<Rightarrow> (Inl ContentRead_failed, w))"

definition staged_assets_may_be_referenced :: "inbound_job_error \<Rightarrow> bool" where
  "staged_assets_may_be_referenced e \<longleftrightarrow> e = Apply_failed CommitAmbiguous_apply"

text \<open>The content is applied and the objects that it replaced are deleted, or the staged objects are.\<close>

definition apply_staged ::
  "inbound_env \<Rightarrow> inbound_job_link \<Rightarrow> string \<Rightarrow> prepared_import \<Rightarrow> staged_asset list \<Rightarrow> git_world \<Rightarrow>
   (inbound_job_error, applied_inbound_state) outcome \<times> git_world" where
  "apply_staged env link remote_sha prepared staged w =
     (case apply_inbound_state env link remote_sha prepared staged w of
        (Inl e, w1) \<Rightarrow>
          (FailedWith e, if staged_assets_may_be_referenced e then w1 else cleanup_staged_assets env staged w1)
      | (Inr applied, w1) \<Rightarrow>
          (Done applied, on_workspace (delete_queued_objects_now (ie_service env) (ai_old_object_keys applied)) w1))"

definition finalize_inbound_job ::
  "inbound_env \<Rightarrow> inbound_job_link \<Rightarrow> git_world \<Rightarrow> (inbound_job_error, unit) outcome \<times> git_world" where
  "finalize_inbound_job env link w =
     (case ie_revision env of Crashed \<Rightarrow> (Crashed, w) | FailedWith _ \<Rightarrow> (FailedWith Revision_failed, w)
      | Done _ \<Rightarrow>
          (case complete_job (il_id link) (il_project_id link) (ie_now env) (gw_db w) of
             (Inl e, g) \<Rightarrow> (FailedWith (Completion_failed e), w\<lparr>gw_db := g\<rparr>)
           | (Inr _, g) \<Rightarrow> (Done (), w\<lparr>gw_db := g\<rparr>)))"

definition import_inbound_job ::
  "inbound_env \<Rightarrow> inbound_job_link \<Rightarrow> git_world \<Rightarrow> (inbound_job_error, applied_inbound_state) outcome \<times> git_world" where
  "import_inbound_job env link w =
     (case ie_entry_point env of Crashed \<Rightarrow> (Crashed, w) | FailedWith e \<Rightarrow> (FailedWith (entry_point_failed e), w)
      | Done _ \<Rightarrow>
     (case prepare_inbound_state env link w of
        (Crashed, w1) \<Rightarrow> (Crashed, w1) | (FailedWith e, w1) \<Rightarrow> (FailedWith e, w1)
      | (Done (remote_sha, prepared), w1) \<Rightarrow>
     (case phase_update (il_id link) Assets_phase env w1 of None \<Rightarrow> (FailedWith Persistence_inbound, w1)
      | Some w2 \<Rightarrow>
     (case stage_assets env (il_id link) (il_project_id link) (pi_assets prepared) [] w2 of
        (Crashed, w3) \<Rightarrow> (Crashed, w3) | (FailedWith e, w3) \<Rightarrow> (FailedWith e, w3)
      | (Done staged, w3) \<Rightarrow>
     (case phase_update (il_id link) Apply_phase env w3 of None \<Rightarrow> (FailedWith Persistence_inbound, w3)
      | Some w4 \<Rightarrow> apply_staged env link remote_sha prepared staged w4)))))"

text \<open>A job whose content was applied is only finished.\<close>

definition process_inbound_job ::
  "inbound_env \<Rightarrow> claimed_inbound_job \<Rightarrow> git_world \<Rightarrow> (inbound_job_error, unit) outcome \<times> git_world" where
  "process_inbound_job env claimed w =
     (if \<not> ie_link_loaded env then (FailedWith Persistence_inbound, w)
      else case inbound_job_link_of (ci_id claimed) (gw_db w) of
        None \<Rightarrow> (FailedWith LinkMissing_inbound, w)
      | Some link \<Rightarrow>
          if applied_state claimed \<noteq> None then finalize_inbound_job env link w
          else
            (case import_inbound_job env link w of
               (Crashed, w1) \<Rightarrow> (Crashed, w1) | (FailedWith e, w1) \<Rightarrow> (FailedWith e, w1)
             | (Done _, w1) \<Rightarrow> finalize_inbound_job env link w1))"

definition inbound_turn :: "string \<Rightarrow> inbound_env \<Rightarrow> git_world \<Rightarrow> git_world" where
  "inbound_turn provider env w =
     (case claim_due_job provider (ie_now env) (ie_now env - seconds (15 * 60)) (gw_db w) of
        (None, _) \<Rightarrow> w
      | (Some claimed, g) \<Rightarrow>
          (case process_inbound_job env claimed (w\<lparr>gw_db := g\<rparr>) of
             (FailedWith e, w1) \<Rightarrow>
               if ie_failure_recorded env
               then w1\<lparr>gw_db := record_failure claimed (inbound_job_failure e) (ie_now env) (gw_db w1)\<rparr> else w1
           | (_, w1) \<Rightarrow> w1))"

section \<open>The checkpoint worker\<close>

record 'r git_remote =
  rm_ls_remote :: "string \<Rightarrow> string \<Rightarrow> 'r \<Rightarrow> (command_failure, string) outcome \<times> 'r"
  rm_push :: "string \<Rightarrow> string \<Rightarrow> string \<Rightarrow> 'r \<Rightarrow> (command_failure, unit) outcome \<times> 'r"

datatype checkpoint_error =
    LinkMissing_checkpoint | ProjectMissing_checkpoint | LocalRepositoryMissing | ConnectorIdentityMissing
  | Persistence_checkpoint | Identity_checkpoint | WorkspaceFlush_checkpoint | CollaborationProjection | Git_checkpoint
  | ProviderCommand command_failure | BranchMoved | PushVerificationFailed

definition checkpoint_error_kind :: "checkpoint_error \<Rightarrow> command_failure_kind" where
  "checkpoint_error_kind e =
     (case e of ProviderCommand f \<Rightarrow> cf_kind f | BranchMoved \<Rightarrow> Conflict_failure | _ \<Rightarrow> Retryable_failure)"

definition checkpoint_error_code :: "checkpoint_error \<Rightarrow> git_failure_code" where
  "checkpoint_error_code e =
     (case e of ProviderCommand f \<Rightarrow> cf_code f | BranchMoved \<Rightarrow> CheckpointBranchMoved
      | PushVerificationFailed \<Rightarrow> GitPushVerificationFailed | LinkMissing_checkpoint \<Rightarrow> ExternalGitLinkMissing
      | _ \<Rightarrow> GitCheckpointFailed)"

definition first_word :: "string \<Rightarrow> string option" where
  "first_word line =
     (let word = takeWhile (\<lambda>c. \<not> char_is_whitespace c) (dropWhile char_is_whitespace (utf8_split line)) in
      if word = [] then None else Some (concat word))"

definition parse_ls_remote :: "string \<Rightarrow> string option" where
  "parse_ls_remote out =
     (case filter (\<lambda>x. x \<noteq> None) (map first_word (split_on (CHR 0x0A) out)) of
        Some value # _ \<Rightarrow>
          if length value = 40 \<and> list_all ascii_hexdigit value then Some (to_ascii_lowercase value) else None
      | _ \<Rightarrow> None)"

definition remote_checkpoint_sha ::
  "'r git_remote \<Rightarrow> checkpoint_link \<Rightarrow> 'r \<Rightarrow> (command_failure, string option) outcome \<times> 'r" where
  "remote_checkpoint_sha R link r =
     (case rm_ls_remote R (cl_clone_url link) (cl_checkpoint_branch link) r of
        (Done out, r1) \<Rightarrow> (Done (parse_ls_remote out), r1)
      | (FailedWith f, r1) \<Rightarrow> (FailedWith f, r1)
      | (Crashed, r1) \<Rightarrow> (Crashed, r1))"

definition base_matches :: "string option \<Rightarrow> string option \<Rightarrow> bool" where
  "base_matches last_sha remote =
     (case (last_sha, remote) of
        (None, None) \<Rightarrow> True
      | (Some expected, Some actual) \<Rightarrow> eq_ignore_ascii_case expected actual
      | _ \<Rightarrow> False)"

definition verify_push ::
  "'r git_remote \<Rightarrow> checkpoint_link \<Rightarrow> string \<Rightarrow> 'r \<Rightarrow> (checkpoint_error, unit) outcome \<times> 'r" where
  "verify_push R link sha r =
     (case remote_checkpoint_sha R link r of
        (FailedWith f, r1) \<Rightarrow> (FailedWith (ProviderCommand f), r1)
      | (Crashed, r1) \<Rightarrow> (Crashed, r1)
      | (Done verified, r1) \<Rightarrow> (if verified \<noteq> Some sha then FailedWith PushVerificationFailed else Done (), r1))"

definition push_checkpoint_ref ::
  "'r git_remote \<Rightarrow> checkpoint_link \<Rightarrow> string \<Rightarrow> 'r \<Rightarrow> (checkpoint_error, unit) outcome \<times> 'r" where
  "push_checkpoint_ref R link sha r =
     (case remote_checkpoint_sha R link r of
        (FailedWith f, r1) \<Rightarrow> (FailedWith (ProviderCommand f), r1)
      | (Crashed, r1) \<Rightarrow> (Crashed, r1)
      | (Done remote, r1) \<Rightarrow>
          if remote = Some sha then (Done (), r1)
          else if \<not> base_matches (cl_last_remote_sha link) remote then (FailedWith BranchMoved, r1)
          else (case rm_push R (cl_clone_url link) sha (cl_checkpoint_branch link) r1 of
                  (FailedWith f, r2) \<Rightarrow> (FailedWith (ProviderCommand f), r2)
                | (Crashed, r2) \<Rightarrow> (Crashed, r2)
                | (Done _, r2) \<Rightarrow> verify_push R link sha r2))"

datatype context_failure =
    LoadContext_failed | Identity_lookup_failed | Identity_missing | Repository_missing

datatype local_commit_failure =
    Flush_failed | LoadAuthors_failed | AuthorIdentity_failed | Commit_failed

definition context_error :: "context_failure \<Rightarrow> checkpoint_error" where
  "context_error f =
     (case f of LoadContext_failed \<Rightarrow> Persistence_checkpoint | Identity_lookup_failed \<Rightarrow> Identity_checkpoint
      | Identity_missing \<Rightarrow> ConnectorIdentityMissing | Repository_missing \<Rightarrow> LocalRepositoryMissing)"

definition local_commit_error :: "local_commit_failure \<Rightarrow> checkpoint_error" where
  "local_commit_error f =
     (case f of Flush_failed \<Rightarrow> WorkspaceFlush_checkpoint | LoadAuthors_failed \<Rightarrow> Persistence_checkpoint
      | AuthorIdentity_failed \<Rightarrow> Identity_checkpoint | Commit_failed \<Rightarrow> Git_checkpoint)"

text \<open>
  What a turn gets from outside: whether the link, the workspace version, the identity of the connector
  and the local repository could be loaded (the first error, if any), the local repository marked as
  pending, the phases recorded, the local commit with its authors created and recorded, and the
  completion and the failure recorded.
\<close>

record checkpoint_env =
  ce_now :: instant
  ce_context :: "(context_failure, unit) outcome"
  ce_marked_pending :: bool
  ce_phase_recorded :: "checkpoint_phase \<Rightarrow> bool"
  ce_local_commit :: "(local_commit_failure, string) outcome"
  ce_captured :: bool
  ce_completed :: bool
  ce_failure_recorded :: bool

text \<open>The link is loaded before the workspace version; \<open>ce_context\<close> is the rest.\<close>

definition load_checkpoint_context ::
  "checkpoint_env \<Rightarrow> uuid \<Rightarrow> git_world \<Rightarrow> (checkpoint_error, checkpoint_link \<times> int) outcome" where
  "load_checkpoint_context env pid w =
     (case checkpoint_link_of pid (gw_db w) of
        None \<Rightarrow> FailedWith LinkMissing_checkpoint
      | Some link \<Rightarrow>
          (case lock_workspace_version pid (gw_workspace w) of
             None \<Rightarrow> FailedWith ProjectMissing_checkpoint
           | Some version \<Rightarrow>
               (case ce_context env of Crashed \<Rightarrow> Crashed | FailedWith f \<Rightarrow> FailedWith (context_error f) | Done _ \<Rightarrow> Done (link, version))))"

definition record_queue_phase :: "checkpoint_env \<Rightarrow> uuid \<Rightarrow> checkpoint_phase \<Rightarrow> git_world \<Rightarrow> git_world option" where
  "record_queue_phase env pid phase w =
     (if ce_phase_recorded env phase then Some (w\<lparr>gw_db := update_queue_phase pid phase (ce_now env) (gw_db w)\<rparr>) else None)"

text \<open>The outcome, the world and the remote after a push of \<open>sha\<close> for \<open>version\<close>.\<close>

definition pushed ::
  "'r git_remote \<Rightarrow> checkpoint_link \<Rightarrow> int \<Rightarrow> string \<Rightarrow> git_world \<Rightarrow> 'r \<Rightarrow>
   (checkpoint_error, int \<times> string) outcome \<times> git_world \<times> 'r" where
  "pushed R link version sha w r =
     (case push_checkpoint_ref R link sha r of
        (Done _, r1) \<Rightarrow> (Done (version, sha), w, r1)
      | (FailedWith e, r1) \<Rightarrow> (FailedWith e, w, r1)
      | (Crashed, r1) \<Rightarrow> (Crashed, w, r1))"

definition push_captured_checkpoint ::
  "'r git_remote \<Rightarrow> checkpoint_env \<Rightarrow> uuid \<Rightarrow> checkpoint_link \<Rightarrow> int \<Rightarrow> string \<Rightarrow> git_world \<Rightarrow> 'r \<Rightarrow>
   (checkpoint_error, int \<times> string) outcome \<times> git_world \<times> 'r" where
  "push_captured_checkpoint R env pid link version sha w r =
     (case record_queue_phase env pid PushGit_checkpoint w of
        None \<Rightarrow> (FailedWith Persistence_checkpoint, w, r)
      | Some w1 \<Rightarrow> pushed R link version sha w1 r)"

definition create_and_push_checkpoint ::
  "'r git_remote \<Rightarrow> checkpoint_env \<Rightarrow> uuid \<Rightarrow> checkpoint_link \<Rightarrow> int \<Rightarrow> git_world \<Rightarrow> 'r \<Rightarrow>
   (checkpoint_error, int \<times> string) outcome \<times> git_world \<times> 'r" where
  "create_and_push_checkpoint R env pid link version w r =
     (if \<not> ce_marked_pending env then (FailedWith Persistence_checkpoint, w, r)
      else case record_queue_phase env pid CommitLocal_checkpoint w of
        None \<Rightarrow> (FailedWith Persistence_checkpoint, w, r)
      | Some w1 \<Rightarrow>
          (case ce_local_commit env of
             Crashed \<Rightarrow> (Crashed, w1, r)
           | FailedWith f \<Rightarrow> (FailedWith (local_commit_error f), w1, r)
           | Done oid \<Rightarrow>
               if \<not> ce_captured env then (FailedWith Persistence_checkpoint, w1, r)
               else
                 pushed R (link\<lparr>cl_captured_version := Some version, cl_checkpoint_sha := Some oid,
                                cl_captured_at := Some (ce_now env)\<rparr>) version oid
                   (w1\<lparr>gw_db := capture_checkpoint pid version oid (ce_now env) (gw_db w1)\<rparr>) r))"

definition process_checkpoint ::
  "('d, 'u) yjs \<Rightarrow> int \<Rightarrow> 'r git_remote \<Rightarrow> checkpoint_env \<Rightarrow> uuid \<Rightarrow> git_world \<Rightarrow> 'r \<Rightarrow>
   (checkpoint_error, int \<times> string) outcome \<times> git_world \<times> 'r" where
  "process_checkpoint Y retention R env pid w r =
     (case flush_project_collaboration Y retention (ce_now env) pid (gw_collab w) of
        ((flush_error, _), c) \<Rightarrow>
          let w1 = w\<lparr>gw_collab := c\<rparr> in
          if flush_error \<noteq> None then (FailedWith CollaborationProjection, w1, r)
          else (case load_checkpoint_context env pid w1 of
                  Crashed \<Rightarrow> (Crashed, w1, r)
                | FailedWith e \<Rightarrow> (FailedWith e, w1, r)
                | Done (link, version) \<Rightarrow>
                    (case (cl_captured_version link, cl_checkpoint_sha link) of
                       (Some captured_version, Some sha) \<Rightarrow> push_captured_checkpoint R env pid link captured_version sha w1 r
                     | _ \<Rightarrow> create_and_push_checkpoint R env pid link version w1 r)))"

definition settle_checkpoint ::
  "checkpoint_env \<Rightarrow> claimed_checkpoint \<Rightarrow> (checkpoint_error, int \<times> string) outcome \<Rightarrow> git_world \<Rightarrow> git_world" where
  "settle_checkpoint env claimed res w =
     (case res of
        Crashed \<Rightarrow> w
      | Done (version, sha) \<Rightarrow>
          if ce_completed env
          then w\<lparr>gw_db := complete_checkpoint (cc_project_id claimed) version sha (ce_now env) (gw_db w)\<rparr> else w
      | FailedWith e \<Rightarrow>
          if ce_failure_recorded env
          then w\<lparr>gw_db := fail_checkpoint claimed (checkpoint_error_kind e) (checkpoint_error_code e) (ce_now env) (gw_db w)\<rparr>
          else w)"

definition checkpoint_turn ::
  "('d, 'u) yjs \<Rightarrow> int \<Rightarrow> 'r git_remote \<Rightarrow> string \<Rightarrow> checkpoint_env \<Rightarrow> git_world \<times> 'r \<Rightarrow> git_world \<times> 'r" where
  "checkpoint_turn Y retention R provider env s =
     (case s of (w, r) \<Rightarrow>
        (case claim_due provider (ce_now env) (ce_now env - seconds (10 * 60)) (gw_db w) of
           (None, _) \<Rightarrow> s
         | (Some claimed, g) \<Rightarrow>
             (case process_checkpoint Y retention R env (cc_project_id claimed) (w\<lparr>gw_db := g\<rparr>) r of
                (res, w1, r1) \<Rightarrow> (settle_checkpoint env claimed res w1, r1))))"

section \<open>Runs\<close>

definition initial_git :: "collab_world \<Rightarrow> git_world" where
  "initial_git c =
     \<lparr>gw_db = \<lparr>g_links = [], g_inbound = [], g_queue = [], g_authors = [], g_guest_authors = []\<rparr>, gw_collab = c, gw_applied = []\<rparr>"

text \<open>What users do: requests of the linking, checkpoint and inbound interfaces, and edits of the content.\<close>

datatype user_operation =
    EnqueueSync uuid uuid uuid string string instant
  | CreateImport "nat \<Rightarrow> uuid" create_graph uuid new_repository_link string
  | EnqueueCheckpoint uuid instant
  | LinkRepository new_repository_link
  | UnlinkRepository uuid
  | ResumeWork uuid string instant
  | ProjectActivity uuid "uuid option" "string option" instant
  | EditContent collab_world

fun user_step :: "user_operation \<Rightarrow> git_world \<Rightarrow> git_world" where
  "user_step (EnqueueSync job_id pid actor provider branch now) w = snd (enqueue_sync job_id pid actor provider branch now w)"
| "user_step (CreateImport fresh graph job_id link branch) w = snd (create_import_project fresh graph job_id link branch w)"
| "user_step (EnqueueCheckpoint pid now) w = snd (enqueue_checkpoint pid now w)"
| "user_step (LinkRepository n) w = w\<lparr>gw_db := snd (upsert_repository_link n (gw_db w))\<rparr>"
| "user_step (UnlinkRepository pid) w = snd (unlink_repository_link pid w)"
| "user_step (ResumeWork user provider now) w = w\<lparr>gw_db := resume_work user provider now (gw_db w)\<rparr>"
| "user_step (ProjectActivity pid actor guest now) w = w\<lparr>gw_db := record_project_activity pid actor guest now (gw_db w)\<rparr>"
| "user_step (EditContent c) w = w\<lparr>gw_collab := c\<rparr>"

text \<open>
  Single transactions, in any order and with any arguments: this includes workers that were taken for
  dead and come back.
\<close>

datatype git_transaction =
    ClaimInbound string instant instant
  | RecordJobPhase uuid inbound_phase instant
  | ApplyContent bool commit_outcome "nat \<Rightarrow> uuid" inbound_command instant
  | CompleteJob uuid uuid instant
  | RecordInboundFailure claimed_inbound_job inbound_job_error instant
  | ClaimCheckpoint string instant instant
  | RecordQueuePhase uuid checkpoint_phase instant
  | CaptureCheckpoint uuid int string instant
  | CompleteCheckpoint uuid int string instant
  | FailCheckpoint claimed_checkpoint checkpoint_error instant
  | UserTransaction user_operation

fun git_step :: "git_transaction \<Rightarrow> git_world \<Rightarrow> git_world" where
  "git_step (ClaimInbound provider now stale) w = w\<lparr>gw_db := snd (claim_due_job provider now stale (gw_db w))\<rparr>"
| "git_step (RecordJobPhase job_id phase now) w = w\<lparr>gw_db := update_job_phase job_id phase now (gw_db w)\<rparr>"
| "git_step (ApplyContent flushed commit fresh c now) w = snd (apply_external_git_inbound_content flushed commit fresh c now w)"
| "git_step (CompleteJob job_id pid now) w = w\<lparr>gw_db := snd (complete_job job_id pid now (gw_db w))\<rparr>"
| "git_step (RecordInboundFailure claimed e now) w =
     w\<lparr>gw_db := record_failure claimed (inbound_job_failure e) now (gw_db w)\<rparr>"
| "git_step (ClaimCheckpoint provider now stale) w = w\<lparr>gw_db := snd (claim_due provider now stale (gw_db w))\<rparr>"
| "git_step (RecordQueuePhase pid phase now) w = w\<lparr>gw_db := update_queue_phase pid phase now (gw_db w)\<rparr>"
| "git_step (CaptureCheckpoint pid version sha at) w = w\<lparr>gw_db := capture_checkpoint pid version sha at (gw_db w)\<rparr>"
| "git_step (CompleteCheckpoint pid version sha now) w = w\<lparr>gw_db := complete_checkpoint pid version sha now (gw_db w)\<rparr>"
| "git_step (FailCheckpoint claimed e now) w =
     w\<lparr>gw_db := fail_checkpoint claimed (checkpoint_error_kind e) (checkpoint_error_code e) now (gw_db w)\<rparr>"
| "git_step (UserTransaction u) w = user_step u w"

text \<open>Turns of the workers and requests of users, one after the other.\<close>

datatype git_event =
    InboundTurn string inbound_env
  | CheckpointTurn string checkpoint_env
  | UserRequest user_operation

fun worker_step ::
  "('d, 'u) yjs \<Rightarrow> int \<Rightarrow> 'r git_remote \<Rightarrow> git_event \<Rightarrow> git_world \<times> 'r \<Rightarrow> git_world \<times> 'r" where
  "worker_step Y retention R (InboundTurn provider env) s = (inbound_turn provider env (fst s), snd s)"
| "worker_step Y retention R (CheckpointTurn provider env) s = checkpoint_turn Y retention R provider env s"
| "worker_step Y retention R (UserRequest u) s = (user_step u (fst s), snd s)"

end
