(* ===== verification/External_Git_Exclusive.thy ===== *)
theory External_Git_Exclusive
  imports External_Git_Workers
begin

text \<open>
  An import or a synchronisation and a checkpoint of one project never run at the same time. The steps
  are single transactions in any order, so this holds with any number of workers, late ones included.
\<close>

section \<open>One operation at a time\<close>

definition active_jobs :: "uuid \<Rightarrow> git_db \<Rightarrow> int" where
  "active_jobs p g = count_where (\<lambda>j. ij_project_id j = p \<and> job_active j) (g_inbound g)"

definition queued_projects :: "git_db \<Rightarrow> uuid set" where
  "queued_projects g = cq_project_id ` set (g_queue g)"

definition linked_projects :: "git_db \<Rightarrow> uuid set" where
  "linked_projects g = gl_project_id ` set (g_links g)"

lemma active_job_exists_iff: "active_job_exists p g \<longleftrightarrow> 0 < active_jobs p g"
  by (auto simp: active_job_exists_def active_jobs_def count_where_pos)

lemma checkpoint_operation_exists_iff: "checkpoint_operation_exists p g \<longleftrightarrow> p \<in> queued_projects g"
  by (auto simp: checkpoint_operation_exists_def queued_projects_def)

definition exclusive :: "git_db \<Rightarrow> bool" where
  "exclusive g \<longleftrightarrow>
     distinct (map ij_id (g_inbound g)) \<and> (\<forall>p. active_jobs p g \<le> 1) \<and> (\<forall>p \<in> queued_projects g. active_jobs p g = 0) \<and> queued_projects g \<subseteq> linked_projects g"

text \<open>A statement that starts nothing: no job becomes active, no row is queued, no link is lost.\<close>

definition quieter :: "git_db \<Rightarrow> git_db \<Rightarrow> bool" where
  "quieter g g' \<longleftrightarrow>
     map ij_id (g_inbound g') = map ij_id (g_inbound g) \<and>
     (\<forall>p. active_jobs p g' \<le> active_jobs p g) \<and> queued_projects g' \<subseteq> queued_projects g \<and>
     linked_projects g \<subseteq> linked_projects g'"

lemma active_jobs_nonneg: "0 \<le> active_jobs p g"
  by (simp add: active_jobs_def)

lemma exclusive_quieter:
  assumes "exclusive g" and "quieter g g'"
  shows "exclusive g'"
proof -
  have le: "active_jobs p g' \<le> active_jobs p g" for p using assms(2) by (simp add: quieter_def)
  have le1: "active_jobs p g' \<le> 1" for p
    using le [of p] assms(1) order.trans [of "active_jobs p g'" "active_jobs p g" 1] by (simp add: exclusive_def)
  have sub: "queued_projects g' \<subseteq> queued_projects g" "linked_projects g \<subseteq> linked_projects g'"
    using assms(2) by (simp_all add: quieter_def)
  have "active_jobs p g' = 0" if "p \<in> queued_projects g'" for p
  proof -
    have "p \<in> queued_projects g" using that sub(1) by blast
    then have "active_jobs p g = 0" using assms(1) by (simp add: exclusive_def)
    then show ?thesis using le [of p] active_jobs_nonneg [of p g'] by simp
  qed
  moreover have "queued_projects g' \<subseteq> linked_projects g'" using sub assms(1) unfolding exclusive_def by blast
  ultimately show ?thesis using assms le1 by (simp add: exclusive_def quieter_def)
qed

lemma quieter_refl [simp, intro]: "quieter g g"
  by (simp add: quieter_def)

lemma quieter_trans [trans]:
  assumes "quieter a b" and "quieter b c"
  shows "quieter a c"
proof -
  have "active_jobs p c \<le> active_jobs p a" for p
    using assms order.trans [of "active_jobs p c" "active_jobs p b"] by (simp add: quieter_def)
  with assms show ?thesis by (auto simp: quieter_def)
qed

lemma quieter_inbound:
  assumes "\<And>j. P j \<Longrightarrow> ij_project_id (f j) = ij_project_id j" and "\<And>j. P j \<Longrightarrow> ij_id (f j) = ij_id j"
    and "\<And>j. j \<in> set (g_inbound g) \<Longrightarrow> P j \<Longrightarrow> job_active (f j) \<Longrightarrow> job_active j"
  shows "quieter g (g\<lparr>g_inbound := update_where P f (g_inbound g)\<rparr>)"
  using assms
  by (auto simp: quieter_def active_jobs_def queued_projects_def linked_projects_def map_update_where intro!: count_update_where_le)

lemma projects_of_update: "(\<And>r. P r \<Longrightarrow> k (f r) = k r) \<Longrightarrow> k ` set (update_where P f t) = k ` set t"
  by (metis (mono_tags, lifting) list.set_map map_update_where)

lemma quieter_links:
  assumes "\<And>l. P l \<Longrightarrow> gl_project_id (f l) = gl_project_id l"
  shows "quieter g (g\<lparr>g_links := update_where P f (g_links g)\<rparr>)"
  using assms by (simp add: quieter_def active_jobs_def queued_projects_def linked_projects_def projects_of_update)

lemma quieter_queue:
  assumes "\<And>q. P q \<Longrightarrow> cq_project_id (f q) = cq_project_id q"
  shows "quieter g (g\<lparr>g_queue := update_where P f (g_queue g)\<rparr>)"
  using assms by (simp add: quieter_def active_jobs_def queued_projects_def linked_projects_def projects_of_update)

lemma quieter_link: "(\<And>l. gl_project_id (f l) = gl_project_id l) \<Longrightarrow> quieter g (update_link pid f g)"
  unfolding update_link_def by (rule quieter_links)

lemma quieter_queue_row: "(\<And>q. cq_project_id (f q) = cq_project_id q) \<Longrightarrow> quieter g (update_queue pid f g)"
  unfolding update_queue_def by (rule quieter_queue)

lemma sort_keys_head:
  assumes "sort_key k (sort_key k' (filter P xs)) = x # rest"
  shows "x \<in> set xs" and "P x"
proof -
  have "set (sort_key k (sort_key k' (filter P xs))) = set (filter P xs)" by simp
  with assms show "x \<in> set xs" "P x" by auto
qed

lemma distinct_map_eq: "distinct (map k xs) \<Longrightarrow> x \<in> set xs \<Longrightarrow> y \<in> set xs \<Longrightarrow> k x = k y \<Longrightarrow> x = y"
  by (simp add: distinct_map inj_on_def)

lemma quieter_claim_inbound:
  assumes "exclusive g"
  shows "quieter g (snd (claim_due_job provider now stale g))"
proof (cases "sort_key ij_next_attempt_at (sort_key ij_created_at (filter (inbound_due provider now stale) (g_inbound g)))")
  case Nil
  then show ?thesis by (simp add: claim_due_job_def)
next
  case (Cons j rest)
  from sort_keys_head [OF Cons] have j: "j \<in> set (g_inbound g)" "job_active j"
    by (auto simp: inbound_due_def job_active_def)
  have "x = j" if "x \<in> set (g_inbound g)" "ij_id x = ij_id j" for x
    using distinct_map_eq [of ij_id "g_inbound g" x j] that j(1) assms by (simp add: exclusive_def)
  then have "quieter g (g\<lparr>g_inbound := update_where (\<lambda>x. ij_id x = ij_id j) (take_inbound now) (g_inbound g)\<rparr>)"
    using j(2) by (intro quieter_inbound) (auto simp: take_inbound_def)
  then show ?thesis using Cons by (simp add: claim_due_job_def Let_def)
qed

lemma job_active_simps [simp]:
  "job_active (j\<lparr>ij_phase := ph\<rparr>) = job_active j" "job_active (j\<lparr>ij_locked_at := t\<rparr>) = job_active j"
  "job_active (j\<lparr>ij_updated_at := u\<rparr>) = job_active j" "job_active (j\<lparr>ij_remote_sha := sha\<rparr>) = job_active j"
  "job_active (j\<lparr>ij_applied_version := v\<rparr>) = job_active j" "job_active (j\<lparr>ij_next_attempt_at := n\<rparr>) = job_active j"
  "job_active (j\<lparr>ij_last_error := e\<rparr>) = job_active j" "job_active (j\<lparr>ij_completed_at := c\<rparr>) = job_active j"
  by (simp_all add: job_active_def)

lemma processing_active: "is_processing i j \<Longrightarrow> job_active j"
  by (simp add: is_processing_def job_active_def)

lemma quieter_job_phase: "quieter g (update_job_phase i phase now g)"
  unfolding update_job_phase_def by (rule quieter_inbound) auto

lemma quieter_mark_applied: "mark_job_applied i sha v now g = Some g' \<Longrightarrow> quieter g g'"
  unfolding mark_job_applied_def by (auto split: if_splits intro!: quieter_inbound)

lemma quieter_complete_statement: "quieter g (snd (complete_statement i now g))"
  unfolding complete_statement_def Let_def snd_conv by (rule quieter_inbound) (auto simp: processing_active)

lemma quieter_complete_job: "quieter g (snd (complete_job i pid now g))"
proof -
  have "quieter (snd (complete_statement i now g)) (clear_last_import_error pid now (snd (complete_statement i now g)))"
    unfolding clear_last_import_error_def by (rule quieter_link) simp
  with quieter_complete_statement [of g i now] show ?thesis
    by (auto simp: complete_job_def split: prod.splits intro: quieter_trans)
qed

lemma quieter_fail_job: "fail_job i st ph n code now g = Some (b, g') \<Longrightarrow> quieter g g'"
  unfolding fail_job_def Let_def
  by (auto simp: fail_row_def processing_active split: if_splits intro!: quieter_inbound)

lemma quieter_record_failure: "quieter g (record_failure claimed failure now g)"
proof -
  have "quieter g' (update_link_import_error pid code now g')" for pid code g'
    unfolding update_link_import_error_def by (rule quieter_link) simp
  then show ?thesis
    by (auto simp: record_failure_def split: option.splits prod.splits dest!: quieter_fail_job intro: quieter_trans)
qed

lemma quieter_activity: "quieter g (record_project_activity pid actor guest now g)"
  by (auto simp: record_project_activity_def quieter_def active_jobs_def queued_projects_def linked_projects_def
      split: option.splits)

lemma quieter_link_import: "quieter g (record_link_import pid branch sha now g)"
  unfolding record_link_import_def by (rule quieter_link) simp

lemma quieter_inbound_transaction:
  assumes "inbound_transaction fresh c now w = Inr (a, w')"
  shows "quieter (gw_db w) (gw_db w')"
proof -
  let ?g = "record_link_import (ic_project_id c) (ic_source_branch c) (ic_remote_sha c) now
    (record_project_activity (ic_project_id c) (Some (ic_actor_user_id c)) None now (gw_db w))"
  from assms obtain v where "mark_job_applied (ic_job_id c) (ic_remote_sha c) v now ?g = Some (gw_db w')"
    by (auto simp: inbound_transaction_def Let_def split: option.splits prod.splits replace_result.splits)
  then have "quieter ?g (gw_db w')" by (rule quieter_mark_applied)
  with quieter_activity quieter_link_import show ?thesis by (blast intro: quieter_trans)
qed

lemma quieter_apply: "quieter (gw_db w) (gw_db (snd (apply_external_git_inbound_content flushed commit fresh c now w)))"
  by (auto simp: apply_external_git_inbound_content_def dest: quieter_inbound_transaction
      split: sum.splits prod.splits commit_outcome.splits)

lemma quieter_checkpoint_statements:
  "quieter g (update_queue_phase pid phase now g)" "quieter g (capture_checkpoint pid v sha at g)"
  "quieter g (snd (claim_due provider now stale g))" "quieter g (resume_queue pid now g)"
  "quieter g (fail_checkpoint claimed kind code now g)"
proof -
  show "quieter g (update_queue_phase pid phase now g)" "quieter g (capture_checkpoint pid v sha at g)"
    by (simp_all add: update_queue_phase_def capture_checkpoint_def quieter_queue_row)
  show "quieter g (snd (claim_due provider now stale g))"
    by (auto simp: claim_due_def split: list.splits intro!: quieter_queue_row)
  show "quieter g (resume_queue pid now g)"
    unfolding resume_queue_def by (rule quieter_trans [OF quieter_queue_row quieter_link]) simp_all
  show "quieter g (fail_checkpoint claimed kind code now g)"
    unfolding fail_checkpoint_def fail_checkpoint_statement_def
    by (auto split: prod.splits intro!: quieter_trans [OF quieter_link quieter_queue_row])
qed

lemma quieter_complete_checkpoint: "quieter g (complete_checkpoint pid v sha now g)"
proof -
  let ?g = "update_link pid (\<lambda>l. l\<lparr>gl_status := Active_link, gl_synced_version := max (gl_synced_version l) v,
    gl_last_remote_sha := Some sha, gl_last_error := None, gl_updated_at := now\<rparr>) g"
  have "quieter g ?g" by (rule quieter_link) simp
  moreover have "quieter ?g (complete_checkpoint pid v sha now g)"
    by (auto simp: complete_checkpoint_def Let_def quieter_def active_jobs_def queued_projects_def linked_projects_def
        split: option.splits)
  ultimately show ?thesis by (rule quieter_trans)
qed

lemma quieter_resume_work: "quieter g (resume_work user provider now g)"
proof -
  have "quieter g (resume_reauthorized_links user provider now g)" for g
    unfolding resume_reauthorized_links_def by (rule quieter_links) simp
  moreover have "quieter g (resume_reauthorized_checkpoints user provider now g)" for g
    unfolding resume_reauthorized_checkpoints_def by (rule quieter_queue) simp
  moreover have "quieter g (resume_reauthorized_jobs user provider now g)" for g
    unfolding resume_reauthorized_jobs_def by (rule quieter_inbound) (auto simp: job_active_def)
  ultimately show ?thesis unfolding resume_work_def by (blast intro: quieter_trans)
qed

lemma quieter_insert_link: "insert_repository_link n g = Inr g' \<Longrightarrow> quieter g g'"
  by (auto simp: insert_repository_link_def quieter_def active_jobs_def queued_projects_def linked_projects_def split: if_splits)

lemma quieter_upsert_link: "quieter g (snd (upsert_repository_link n g))"
  by (auto simp: upsert_repository_link_def refresh_link_def split: option.splits sum.splits
      intro: quieter_insert_link intro!: quieter_link)

subsection \<open>Statements that start an operation\<close>

lemma exclusive_insert_job:
  assumes "exclusive g" and "insert_inbound_job i pid provider opn branch by_user now g = Inr g'" and "pid \<notin> queued_projects g"
  shows "exclusive g'"
proof -
  from assms(2) have "active_jobs pid g = 0"
    using active_job_exists_iff [of pid g] active_jobs_nonneg [of pid g] by (auto simp: insert_inbound_job_def split: if_splits)
  moreover have "active_jobs p g' = (if p = pid then active_jobs p g + 1 else active_jobs p g)" for p
    using assms(2) by (auto simp: insert_inbound_job_def active_jobs_def job_active_def split: if_splits)
  moreover have "queued_projects g' = queued_projects g" "linked_projects g' = linked_projects g"
    using assms(2) by (auto simp: insert_inbound_job_def queued_projects_def linked_projects_def split: if_splits)
  moreover have "distinct (map ij_id (g_inbound g'))"
    using assms(1,2) by (auto simp: insert_inbound_job_def exclusive_def split: if_splits)
  ultimately show ?thesis using assms(1,3) by (auto simp: exclusive_def)
qed

lemma find_link_iff: "find_link pid g = None \<longleftrightarrow> pid \<notin> linked_projects g"
  by (auto simp: find_link_def find_None_iff linked_projects_def)

lemma exclusive_insert_queue:
  assumes "exclusive g" and "active_jobs pid g = 0"
  shows "exclusive (snd (insert_queue pid v now g))"
proof (cases "find_link pid g = None \<or> find_queue pid g \<noteq> None")
  case True
  then have "quieter g (snd (insert_queue pid v now g))"
    by (auto simp: insert_queue_def intro!: quieter_queue_row split: option.splits)
  with assms(1) show ?thesis by (rule exclusive_quieter)
next
  case False
  then show ?thesis
    using assms find_link_iff [of pid g]
    by (auto simp: insert_queue_def exclusive_def active_jobs_def queued_projects_def linked_projects_def)
qed

lemma exclusive_enqueue_sync: "exclusive (gw_db w) \<Longrightarrow> exclusive (gw_db (snd (enqueue_sync i pid actor provider branch now w)))"
  by (auto simp: enqueue_sync_def checkpoint_operation_exists_iff clear_last_import_error_def
      split: sum.splits insert_job_error.splits intro!: exclusive_quieter [OF exclusive_insert_job quieter_link])

lemma exclusive_create_import:
  assumes "exclusive (gw_db w)"
  shows "exclusive (gw_db (snd (create_import_project fresh graph i link branch w)))"
proof -
  have "exclusive g2" if g1: "insert_repository_link link (gw_db w) = Inr g1"
    and g2: "insert_inbound_job i (nl_project_id link) provider opn branch u now g1 = Inr g2" for g1 g2 provider opn u now
  proof -
    have "nl_project_id link \<notin> queued_projects g1"
      using g1 assms
      by (fastforce simp: insert_repository_link_def exclusive_def queued_projects_def linked_projects_def image_subset_iff
          split: if_splits)
    with exclusive_quieter [OF assms quieter_insert_link [OF g1]] g2 show ?thesis by (blast intro: exclusive_insert_job)
  qed
  with assms show ?thesis
    by (auto simp: create_import_project_def split: option.splits sum.splits insert_link_error.splits)
qed

lemma exclusive_enqueue_checkpoint:
  assumes "exclusive (gw_db w)"
  shows "exclusive (gw_db (snd (enqueue_checkpoint pid now w)))"
proof -
  have "exclusive g" if "\<not> active_job_exists pid (gw_db w)" "insert_queue pid v now (gw_db w) = (res, g)" for v res g
    using that exclusive_insert_queue [OF assms, of pid v now] active_jobs_nonneg [of pid "gw_db w"]
    by (simp add: active_job_exists_iff)
  moreover have "exclusive (resume_queue pid now (gw_db w))"
    using assms quieter_checkpoint_statements(4) by (rule exclusive_quieter)
  ultimately show ?thesis using assms
    by (auto simp: enqueue_checkpoint_def target_for_update_def split: option.splits prod.splits)
qed

lemma exclusive_delete_link:
  assumes "exclusive g"
  shows "exclusive (snd (delete_repository_link pid g))"
proof (cases "find_link pid g")
  case (Some l)
  let ?g = "snd (delete_repository_link pid g)"
  have le: "active_jobs p ?g \<le> active_jobs p g" for p
    using Some by (auto simp: delete_repository_link_def active_jobs_def count_delete_where_le)
  have q: "queued_projects ?g = queued_projects g - {pid}" "linked_projects ?g = linked_projects g - {pid}"
    using Some by (auto simp: delete_repository_link_def queued_projects_def linked_projects_def)
  have d: "distinct (map ij_id (g_inbound ?g))"
    using assms Some by (simp add: delete_repository_link_def exclusive_def distinct_map_delete_where)
  have "active_jobs p ?g \<le> 1" for p
    using le [of p] assms order.trans by (fastforce simp: exclusive_def)
  moreover have "active_jobs p ?g = 0" if "p \<in> queued_projects ?g" for p
    using le [of p] active_jobs_nonneg [of p ?g] assms that q by (auto simp: exclusive_def)
  ultimately show ?thesis using assms d q by (auto simp: exclusive_def)
qed (use assms in \<open>simp add: delete_repository_link_def\<close>)

lemma exclusive_unlink: "exclusive (gw_db w) \<Longrightarrow> exclusive (gw_db (snd (unlink_repository_link pid w)))"
  using exclusive_delete_link [of "gw_db w" pid]
  by (cases "delete_repository_link pid (gw_db w)") (simp add: unlink_repository_link_def)

lemma exclusive_user_step: "exclusive (gw_db w) \<Longrightarrow> exclusive (gw_db (user_step u w))"
  by (cases u)
    (auto simp: exclusive_enqueue_sync exclusive_create_import exclusive_enqueue_checkpoint exclusive_unlink
      intro: exclusive_quieter quieter_upsert_link quieter_resume_work quieter_activity)

lemmas quieter_transactions =
  quieter_claim_inbound quieter_job_phase quieter_apply quieter_complete_job quieter_record_failure
  quieter_checkpoint_statements quieter_complete_checkpoint

lemma exclusive_git_step: "exclusive (gw_db w) \<Longrightarrow> exclusive (gw_db (git_step t w))"
  by (cases t) (auto simp: exclusive_user_step intro: exclusive_quieter quieter_transactions)

lemma exclusive_initial: "exclusive (gw_db (initial_git c))"
  by (simp add: exclusive_def initial_git_def active_jobs_def queued_projects_def count_where_def)

interpretation git: transition_system git_step "initial_git c" "\<lambda>w. exclusive (gw_db w)" for c
  by unfold_locales (auto intro: exclusive_initial exclusive_git_step)

end
