(* ===== verification/External_Git_Import.thy ===== *)
theory External_Git_Import
  imports External_Git_Workers
begin

text \<open>
  The inbound worker applies the content of an import once. Between its turns users may do anything; a
  worker may fail or crash in every call, and the answer to the commit may be lost.
\<close>

section \<open>Statements on one job\<close>

definition only_job :: "uuid \<Rightarrow> git_db \<Rightarrow> git_db \<Rightarrow> bool" where
  "only_job i g g' \<longleftrightarrow>
     map ij_id (g_inbound g') = map ij_id (g_inbound g) \<and> (\<forall>j \<in> set (g_inbound g'). ij_id j = i \<or> j \<in> set (g_inbound g))"

definition row_of :: "uuid \<Rightarrow> (inbound_job \<Rightarrow> bool) \<Rightarrow> git_db \<Rightarrow> bool" where
  "row_of i P g \<longleftrightarrow> (\<forall>j \<in> set (g_inbound g). ij_id j = i \<longrightarrow> P j)"

lemma only_job_refl [simp, intro]: "only_job i g g"
  by (simp add: only_job_def)

lemma only_job_trans: "only_job i a b \<Longrightarrow> only_job i b c \<Longrightarrow> only_job i a c"
  by (auto simp: only_job_def)

lemma only_job_update:
  assumes "\<And>j. P j \<Longrightarrow> ij_id j = i" and "\<And>j. ij_id (f j) = ij_id j"
  shows "only_job i g (g\<lparr>g_inbound := update_where P f (g_inbound g)\<rparr>)"
  using assms by (auto simp: only_job_def map_update_where in_update_where)

lemma row_of_update:
  assumes "\<And>j. P j \<Longrightarrow> ij_id (f j) = ij_id j"
    and "\<And>j. j \<in> set (g_inbound g) \<Longrightarrow> ij_id j = i \<Longrightarrow> Q (if P j then f j else j)"
  shows "row_of i Q (g\<lparr>g_inbound := update_where P f (g_inbound g)\<rparr>)"
  unfolding row_of_def
proof (intro ballI impI)
  fix j assume "j \<in> set (g_inbound (g\<lparr>g_inbound := update_where P f (g_inbound g)\<rparr>))" and i: "ij_id j = i"
  then obtain j0 where j0: "j0 \<in> set (g_inbound g)" "j = (if P j0 then f j0 else j0)" by (auto simp: in_update_where)
  then have "ij_id j0 = i" using i assms(1) [of j0] by (simp split: if_splits)
  with j0 assms(2) [of j0] show "Q j" by simp
qed

lemma same_inbound:
  assumes "g_inbound g' = g_inbound g"
  shows "only_job i g g'" and "row_of i P g' = row_of i P g"
  using assms by (simp_all add: only_job_def row_of_def)

lemma inbound_link_statements [simp]:
  "g_inbound (update_link pid f g) = g_inbound g" "g_inbound (record_link_import pid branch sha now g) = g_inbound g"
  "g_inbound (clear_last_import_error pid now g) = g_inbound g" "g_inbound (update_link_import_error pid code now g) = g_inbound g"
  "g_inbound (record_project_activity pid actor guest now g) = g_inbound g"
  by (auto simp: update_link_def record_link_import_def clear_last_import_error_def update_link_import_error_def
      record_project_activity_def split: option.splits)

section \<open>The steps of a turn\<close>

definition applied_processing :: "inbound_job \<Rightarrow> bool" where
  "applied_processing j \<longleftrightarrow> has_applied j \<and> ij_state j = Processing_job"

text \<open>A job that is never applied again: it is applied and waits to be finished, or it has ended.\<close>

definition import_settled :: "inbound_job \<Rightarrow> bool" where
  "import_settled j \<longleftrightarrow> (has_applied j \<and> ij_state j \<in> {Processing_job, RetryWait_job}) \<or> ij_state j \<in> {Succeeded_job, Failed_job}"

lemma applied_processing_settled: "applied_processing j \<Longrightarrow> import_settled j"
  by (simp add: applied_processing_def import_settled_def)

lemma only_job_phase: "phase_update i phase env w = Some w' \<Longrightarrow> only_job i (gw_db w) (gw_db w') \<and> gw_applied w' = gw_applied w"
  by (auto simp: phase_update_def update_job_phase_def is_processing_def split: if_splits intro!: only_job_update)

lemma complete_job_steps:
  assumes "complete_job i pid now g = (res, g')"
  shows "only_job i g g'"
    and "res = Inr () \<Longrightarrow> row_of i applied_processing g \<Longrightarrow> row_of i import_settled g'"
    and "res \<noteq> Inr () \<Longrightarrow> g' = g"
proof -
  let ?P = "\<lambda>j. is_processing i j \<and> has_applied j"
  obtain b g1 where c: "complete_statement i now g = (b, g1)" by (cases "complete_statement i now g")
  have g1: "g1 = g\<lparr>g_inbound := update_where ?P
      (\<lambda>j. j\<lparr>ij_state := Succeeded_job, ij_phase := Complete_phase, ij_last_error := None, ij_locked_at := None,
             ij_updated_at := now, ij_completed_at := Some now\<rparr>) (g_inbound g)\<rparr>"
    using c by (auto simp: complete_statement_def Let_def)
  have o: "only_job i g g1" unfolding g1 by (rule only_job_update) (auto simp: is_processing_def)
  have "row_of i import_settled g1" if "row_of i applied_processing g"
    using that unfolding g1
    by (intro row_of_update) (auto simp: row_of_def is_processing_def applied_processing_def import_settled_def)
  then show "res = Inr () \<Longrightarrow> row_of i applied_processing g \<Longrightarrow> row_of i import_settled g'"
    using assms c by (auto simp: complete_job_def row_of_def split: if_splits)
  show "only_job i g g'"
    using assms c o by (auto simp: complete_job_def only_job_def split: if_splits)
  show "res \<noteq> Inr () \<Longrightarrow> g' = g"
    using assms c by (auto simp: complete_job_def split: if_splits)
qed

lemma finalize_steps:
  assumes "finalize_inbound_job env link w = (res, w')"
  shows "only_job (il_id link) (gw_db w) (gw_db w')" and "gw_applied w' = gw_applied w"
    and "row_of (il_id link) applied_processing (gw_db w) \<Longrightarrow>
         (\<exists>x. res = Done x) \<and> row_of (il_id link) import_settled (gw_db w') \<or>
         (\<forall>x. res \<noteq> Done x) \<and> row_of (il_id link) applied_processing (gw_db w')"
    and "res = FailedWith e \<Longrightarrow> e = Revision_failed \<or> (\<exists>x. e = Completion_failed x)"
  using assms complete_job_steps [of "il_id link" "il_project_id link" "ie_now env" "gw_db w"]
  by (auto simp: finalize_inbound_job_def split: outcome.splits prod.splits sum.splits)

lemma mark_applied_steps:
  assumes "mark_job_applied i sha v now g = Some g'" and "distinct (map ij_id (g_inbound g))"
  shows "only_job i g g'" and "row_of i applied_processing g'"
proof -
  have g': "g' = g\<lparr>g_inbound := update_where (is_processing i)
      (\<lambda>j. j\<lparr>ij_phase := Revision_phase, ij_remote_sha := Some sha, ij_applied_version := Some v,
             ij_locked_at := Some now, ij_updated_at := now\<rparr>) (g_inbound g)\<rparr>"
    and one: "filter (is_processing i) (g_inbound g) \<noteq> []"
    using assms(1) by (auto simp: mark_job_applied_def rows_affected_def split: if_splits)
  show "only_job i g g'" unfolding g' by (rule only_job_update) (auto simp: is_processing_def)
  from one obtain k where k: "k \<in> set (g_inbound g)" "is_processing i k" by (auto simp: filter_empty_conv)
  have "is_processing i x" if "x \<in> set (g_inbound g)" "ij_id x = i" for x
  proof -
    have "x = k" using assms(2) that k by (simp add: distinct_map inj_on_def is_processing_def)
    then show ?thesis using k(2) by simp
  qed
  then show "row_of i applied_processing g'" unfolding g'
    by (intro row_of_update) (auto simp: applied_processing_def has_applied_def is_processing_def)
qed

lemma inbound_transaction_steps:
  assumes "inbound_transaction fresh c now w = Inr (a, w')" and "distinct (map ij_id (g_inbound (gw_db w)))"
  shows "only_job (ic_job_id c) (gw_db w) (gw_db w')" and "row_of (ic_job_id c) applied_processing (gw_db w')"
    and "gw_applied w' = gw_applied w @ [ic_job_id c]"
proof -
  let ?g = "record_link_import (ic_project_id c) (ic_source_branch c) (ic_remote_sha c) now
    (record_project_activity (ic_project_id c) (Some (ic_actor_user_id c)) None now (gw_db w))"
  from assms(1) obtain v where "mark_job_applied (ic_job_id c) (ic_remote_sha c) v now ?g = Some (gw_db w')"
    and "gw_applied w' = gw_applied w @ [ic_job_id c]"
    by (auto simp: inbound_transaction_def Let_def split: option.splits prod.splits replace_result.splits)
  with mark_applied_steps [of "ic_job_id c" "ic_remote_sha c" v now ?g "gw_db w'"] assms(2)
  show "only_job (ic_job_id c) (gw_db w) (gw_db w')" "row_of (ic_job_id c) applied_processing (gw_db w')"
    "gw_applied w' = gw_applied w @ [ic_job_id c]"
    by (simp_all add: only_job_def)
qed

text \<open>The content transaction was not committed, or it was and the job says so.\<close>

definition imported :: "uuid \<Rightarrow> git_world \<Rightarrow> (inbound_job_error, 'a) outcome \<Rightarrow> git_world \<Rightarrow> bool" where
  "imported i w res w' \<longleftrightarrow>
     only_job i (gw_db w) (gw_db w') \<and>
     (gw_applied w' = gw_applied w \<and> (\<forall>x. res \<noteq> Done x) \<or>
      gw_applied w' = gw_applied w @ [i] \<and> row_of i applied_processing (gw_db w') \<and>
      (\<forall>e. res = FailedWith e \<longrightarrow> e = Apply_failed CommitAmbiguous_apply))"

lemma imported_stop:
  assumes "only_job i (gw_db w) (gw_db w')" and "gw_applied w' = gw_applied w" and "\<And>x. res \<noteq> Done x"
  shows "imported i w res w'"
  using assms by (simp add: imported_def)

lemma imported_commit:
  assumes "inbound_transaction fresh c now w = Inr (a, w')" and "distinct (map ij_id (g_inbound (gw_db w)))"
    and "\<And>e. res = FailedWith e \<Longrightarrow> e = Apply_failed CommitAmbiguous_apply"
  shows "imported (ic_job_id c) w res w'"
  using inbound_transaction_steps [OF assms(1,2)] assms(3) by (simp add: imported_def)

lemma on_workspace_simps [simp]:
  "gw_db (on_workspace f w) = gw_db w" "gw_applied (on_workspace f w) = gw_applied w"
  "gw_db (cleanup_staged_assets env staged w) = gw_db w" "gw_applied (cleanup_staged_assets env staged w) = gw_applied w"
  by (simp_all add: on_workspace_def cleanup_staged_assets_def)

lemma imported_workspace: "gw_db w2 = gw_db w1 \<Longrightarrow> gw_applied w2 = gw_applied w1 \<Longrightarrow> imported i w res w2 = imported i w res w1"
  by (simp add: imported_def)

lemma apply_state_steps:
  assumes res: "apply_inbound_state env link sha prepared staged w = (r1, w1)"
    and d: "distinct (map ij_id (g_inbound (gw_db w)))"
  shows "imported (il_id link) w (case r1 of Inl e \<Rightarrow> FailedWith e | Inr a \<Rightarrow> Done a) w1"
proof (cases "read_documents env (pi_documents prepared) = None \<or> read_assets env staged = None")
  case True
  then have "w1 = w" "r1 = Inl ContentRead_failed" using res by (auto simp: apply_inbound_state_def split: option.splits)
  then show ?thesis by (intro imported_stop) auto
next
  case False
  then obtain docs assets where read: "read_documents env (pi_documents prepared) = Some docs" "read_assets env staged = Some assets" by auto
  define c where "c = \<lparr>ic_job_id = il_id link, ic_project_id = il_project_id link, ic_actor_user_id = il_requested_by link,
                   ic_operation = il_operation link, ic_source_branch = il_source_branch link, ic_remote_sha = sha,
                   ic_entry_file_path = pi_entry_file_path prepared, ic_documents = docs,
                   ic_directories = pi_directories prepared, ic_assets = assets\<rparr>"
  have i: "il_id link = ic_job_id c" by (simp add: c_def)
  obtain r2 w2 where ap: "apply_external_git_inbound_content (ie_flushed env) (ie_commit env) (ie_fresh env) c (ie_now env) w = (r2, w2)"
    by (cases "apply_external_git_inbound_content (ie_flushed env) (ie_commit env) (ie_fresh env) c (ie_now env) w")
  have res': "r1 = (case r2 of Inl e \<Rightarrow> Inl (Apply_failed e) | Inr a \<Rightarrow> Inr a)" "w1 = w2"
    using res read ap by (auto simp: apply_inbound_state_def c_def [symmetric] split: sum.splits)
  show ?thesis
  proof (cases "inbound_transaction (ie_fresh env) c (ie_now env) w")
    case (Inl e)
    then have "w2 = w" "\<exists>e. r2 = Inl e" using ap by (auto simp: apply_external_git_inbound_content_def split: if_splits)
    then show ?thesis unfolding res' by (intro imported_stop) auto
  next
    case (Inr p)
    then obtain a w3 where t: "inbound_transaction (ie_fresh env) c (ie_now env) w = Inr (a, w3)" by (cases p) auto
    then have "w2 = w \<and> (\<exists>e. r2 = Inl e) \<or> w2 = w3 \<and> (r2 = Inr a \<or> r2 = Inl CommitAmbiguous_apply)"
      using ap by (auto simp: apply_external_git_inbound_content_def split: if_splits commit_outcome.splits)
    then show ?thesis
    proof
      assume "w2 = w \<and> (\<exists>e. r2 = Inl e)"
      then show ?thesis unfolding res' by (intro imported_stop) auto
    next
      assume "w2 = w3 \<and> (r2 = Inr a \<or> r2 = Inl CommitAmbiguous_apply)"
      then show ?thesis unfolding res' i by (auto intro!: imported_commit [OF t d])
    qed
  qed
qed

lemma apply_staged_steps:
  assumes "apply_staged env link sha prepared staged w = (res, w')" and "distinct (map ij_id (g_inbound (gw_db w)))"
  shows "imported (il_id link) w res w'"
proof -
  obtain r1 w1 where ap: "apply_inbound_state env link sha prepared staged w = (r1, w1)"
    by (cases "apply_inbound_state env link sha prepared staged w")
  have "res = (case r1 of Inl e \<Rightarrow> FailedWith e | Inr a \<Rightarrow> Done a)" "gw_db w' = gw_db w1" "gw_applied w' = gw_applied w1"
    using assms(1) ap by (auto simp: apply_staged_def split: sum.splits)
  with apply_state_steps [OF ap assms(2)] show ?thesis by (simp add: imported_def)
qed

lemma stage_steps:
  assumes "stage_assets env i pid assets staged w = (res, w')"
  shows "only_job i (gw_db w) (gw_db w') \<and> gw_applied w' = gw_applied w"
  using assms
proof (induction assets arbitrary: staged w)
  case Nil
  then show ?case by (auto split: if_splits)
next
  case (Cons a rest)
  have go: "only_job i (gw_db w) (gw_db w') \<and> gw_applied w' = gw_applied w"
    if "phase_update i Assets_phase env w1 = Some w2" "gw_db w1 = gw_db w" "gw_applied w1 = gw_applied w"
      "stage_assets env i pid rest st w2 = (res, w')" for w1 w2 st
    using Cons.IH [OF that(4)] only_job_phase [OF that(1)] that(2,3) by (auto intro: only_job_trans)
  from Cons.prems show ?case
    by (auto simp: Let_def split: if_splits option.splits intro: go [THEN conjunct1] go [THEN conjunct2])
qed

lemma prepare_steps:
  assumes "prepare_inbound_state env link w = (res, w')"
  shows "only_job (il_id link) (gw_db w) (gw_db w')" and "gw_applied w' = gw_applied w"
proof -
  have f: "only_job (il_id link) (gw_db w) (gw_db w1) \<and> gw_applied w1 = gw_applied w"
    if "fetch_revision env link w = (r1, w1)" for r1 w1
    using that by (auto simp: fetch_revision_def Let_def split: outcome.splits option.splits if_splits dest: only_job_phase)
  obtain r1 w1 where p: "fetch_revision env link w = (r1, w1)" by (cases "fetch_revision env link w")
  have "only_job (il_id link) (gw_db w1) (gw_db w') \<and> gw_applied w' = gw_applied w1"
    using assms p by (auto simp: prepare_inbound_state_def split: outcome.splits option.splits dest: only_job_phase)
  with f [OF p] show "only_job (il_id link) (gw_db w) (gw_db w')" "gw_applied w' = gw_applied w"
    by (auto intro: only_job_trans)
qed

lemma imported_later:
  assumes "only_job i (gw_db w) (gw_db w1)" and "gw_applied w1 = gw_applied w" and "imported i w1 res w'"
  shows "imported i w res w'"
  using assms only_job_trans unfolding imported_def by metis

lemma only_job_distinct: "only_job i g g' \<Longrightarrow> distinct (map ij_id (g_inbound g')) = distinct (map ij_id (g_inbound g))"
  by (simp add: only_job_def)

lemma import_steps:
  assumes res: "import_inbound_job env link w = (res, w')" and d: "distinct (map ij_id (g_inbound (gw_db w)))"
  shows "imported (il_id link) w res w'"
proof -
  let ?i = "il_id link"
  let ?stops = "(\<forall>x. res \<noteq> Done x) \<and> only_job ?i (gw_db w) (gw_db w') \<and> gw_applied w' = gw_applied w"
  obtain r1 w1 where p: "prepare_inbound_state env link w = (r1, w1)" by (cases "prepare_inbound_state env link w")
  note o = prepare_steps [OF p]
  show ?thesis
  proof (cases "\<exists>sha prepared w2. ie_entry_point env = Done () \<and> r1 = Done (sha, prepared) \<and> phase_update ?i Assets_phase env w1 = Some w2")
    case False
    then have ?stops
      using res p o by (auto simp: import_inbound_job_def split: outcome.splits option.splits)
    then show ?thesis by (intro imported_stop) auto
  next
    case True
    then obtain sha prepared w2 where s: "ie_entry_point env = Done ()" "r1 = Done (sha, prepared)"
      "phase_update ?i Assets_phase env w1 = Some w2" by blast
    obtain r3 w3 where st: "stage_assets env ?i (il_project_id link) (pi_assets prepared) [] w2 = (r3, w3)"
      by (cases "stage_assets env ?i (il_project_id link) (pi_assets prepared) [] w2")
    have o3: "only_job ?i (gw_db w) (gw_db w3)" "gw_applied w3 = gw_applied w"
      using o only_job_phase [OF s(3)] stage_steps [OF st] by (auto intro: only_job_trans)
    show ?thesis
    proof (cases "\<exists>staged w4. r3 = Done staged \<and> phase_update ?i Apply_phase env w3 = Some w4")
      case False
      then have ?stops
        using res p s st o3 by (auto simp: import_inbound_job_def split: outcome.splits option.splits)
      then show ?thesis by (intro imported_stop) auto
    next
      case True
      then obtain staged w4 where s4: "r3 = Done staged" "phase_update ?i Apply_phase env w3 = Some w4" by blast
      have o4: "only_job ?i (gw_db w) (gw_db w4)" "gw_applied w4 = gw_applied w"
        using o3 only_job_phase [OF s4(2)] by (auto intro: only_job_trans)
      have "apply_staged env link sha prepared staged w4 = (res, w')"
        using res p s st s4 by (simp add: import_inbound_job_def)
      with apply_staged_steps d only_job_distinct [OF o4(1)] have "imported ?i w4 res w'" by simp
      with o4 show ?thesis by (rule imported_later)
    qed
  qed
qed

text \<open>Failures after which an applied job stays applied or ends.\<close>

definition late_error :: "inbound_job_error \<Rightarrow> bool" where
  "late_error e \<longleftrightarrow> e = Revision_failed \<or> (\<exists>x. e = Completion_failed x) \<or> e = LinkMissing_inbound \<or>
     e = Apply_failed CommitAmbiguous_apply"

fun finished :: "uuid \<Rightarrow> (inbound_job_error, 'a) outcome \<Rightarrow> git_db \<Rightarrow> bool" where
  "finished i (Done _) g = row_of i import_settled g"
| "finished i Crashed g = row_of i applied_processing g"
| "finished i (FailedWith e) g = (row_of i applied_processing g \<and> late_error e)"

lemma finalize_finished:
  assumes "finalize_inbound_job env link w = (res, w')" and "row_of (il_id link) applied_processing (gw_db w)"
  shows "finished (il_id link) res (gw_db w')"
  using finalize_steps(3,4) [OF assms(1)] assms(2) by (cases res) (auto simp: late_error_def)

lemma link_of_id: "inbound_job_link_of i g = Some link \<Longrightarrow> il_id link = i"
  by (auto simp: inbound_job_link_of_def find_link_def split: option.splits dest!: find_Some_set)

lemma process_steps:
  assumes res: "process_inbound_job env cl w = (res, w')" and loaded: "ie_link_loaded env"
    and d: "distinct (map ij_id (g_inbound (gw_db w)))"
  shows "only_job (ci_id cl) (gw_db w) (gw_db w')"
    and "gw_applied w' = gw_applied w \<or>
         gw_applied w' = gw_applied w @ [ci_id cl] \<and> applied_state cl = None \<and> finished (ci_id cl) res (gw_db w')"
    and "applied_state cl \<noteq> None \<Longrightarrow> row_of (ci_id cl) applied_processing (gw_db w) \<Longrightarrow> finished (ci_id cl) res (gw_db w')"
proof -
  let ?i = "ci_id cl"
  let ?goal = "only_job ?i (gw_db w) (gw_db w') \<and>
    (gw_applied w' = gw_applied w \<or>
     gw_applied w' = gw_applied w @ [?i] \<and> applied_state cl = None \<and> finished ?i res (gw_db w')) \<and>
    (applied_state cl \<noteq> None \<longrightarrow> row_of ?i applied_processing (gw_db w) \<longrightarrow> finished ?i res (gw_db w'))"
  have ?goal
  proof (cases "inbound_job_link_of ?i (gw_db w)")
    case None
    then show ?thesis using res loaded by (auto simp: process_inbound_job_def late_error_def)
  next
    case (Some link)
    note i = link_of_id [OF Some]
    show ?thesis
    proof (cases "applied_state cl = None")
      case False
      then have f: "finalize_inbound_job env link w = (res, w')" using res loaded Some by (auto simp: process_inbound_job_def)
      show ?thesis using finalize_steps(1,2) [OF f] finalize_finished [OF f] False i by simp
    next
      case True
      obtain r1 w1 where im: "import_inbound_job env link w = (r1, w1)" by (cases "import_inbound_job env link w")
      note imp = import_steps [OF im d, unfolded i]
      show ?thesis
      proof (cases "\<exists>x. r1 = Done x")
        case dn: True
        then have f: "finalize_inbound_job env link w1 = (res, w')"
          using res loaded Some True im by (auto simp: process_inbound_job_def)
        have "only_job ?i (gw_db w) (gw_db w1)" "gw_applied w1 = gw_applied w @ [?i]" "row_of ?i applied_processing (gw_db w1)"
          using imp dn by (auto simp: imported_def)
        with finalize_steps(1,2) [OF f] finalize_finished [OF f] True i show ?thesis by (auto intro: only_job_trans)
      next
        case stopped: False
        then have "w' = w1" "res = (case r1 of FailedWith e \<Rightarrow> FailedWith e | _ \<Rightarrow> Crashed)"
          using res loaded Some True im by (auto simp: process_inbound_job_def split: outcome.splits)
        with imp stopped True show ?thesis by (cases r1) (auto simp: imported_def late_error_def)
      qed
    qed
  qed
  then show "only_job ?i (gw_db w) (gw_db w')"
    "gw_applied w' = gw_applied w \<or> gw_applied w' = gw_applied w @ [?i] \<and> applied_state cl = None \<and> finished ?i res (gw_db w')"
    "applied_state cl \<noteq> None \<Longrightarrow> row_of ?i applied_processing (gw_db w) \<Longrightarrow> finished ?i res (gw_db w')"
    by blast+
qed

lemma late_error_transition:
  assumes "late_error e" and "failure_transition (inbound_job_failure e) n now = Some (st, ph, at)"
  shows "st = Failed_job \<or> st = RetryWait_job \<and> ph = Revision_phase"
  using assms
  by (auto simp: late_error_def inbound_job_failure_def failure_transition_def failure_from_revision_def failure_terminal_def
      ambiguous_apply_def)

lemma record_failure_steps:
  "only_job (ci_id cl) g (record_failure cl f now g)"
  "late_error e \<Longrightarrow> row_of (ci_id cl) applied_processing g \<Longrightarrow>
   row_of (ci_id cl) import_settled (record_failure cl (inbound_job_failure e) now g)"
proof -
  let ?i = "ci_id cl"
  have only: "only_job ?i g g'" if "fail_job ?i st ph n code now g = Some (b, g')" for st ph n code b g'
    using that by (auto simp: fail_job_def Let_def fail_row_def is_processing_def split: if_splits intro!: only_job_update)
  show "only_job ?i g (record_failure cl f now g)"
    by (auto simp: record_failure_def only_job_def split: option.splits prod.splits dest!: only)
  have row: "row_of ?i import_settled g'"
    if "fail_job ?i st ph n code now g = Some (b, g')" "st = Failed_job \<or> st = RetryWait_job \<and> ph = Revision_phase"
      "row_of ?i applied_processing g" for st ph n code b g'
  proof -
    have "g' = g\<lparr>g_inbound := update_where (is_processing ?i) (fail_row st ph n code now) (g_inbound g)\<rparr>"
      using that(1) by (auto simp: fail_job_def Let_def split: if_splits)
    moreover have "row_of ?i import_settled (g\<lparr>g_inbound := update_where (is_processing ?i) (fail_row st ph n code now) (g_inbound g)\<rparr>)"
      using that(2,3)
      by (intro row_of_update)
        (auto simp: fail_row_def row_of_def applied_processing_def import_settled_def has_applied_def is_processing_def)
    ultimately show ?thesis by simp
  qed
  assume e: "late_error e" and r: "row_of ?i applied_processing g"
  let ?f = "inbound_job_failure e"
  have same: "row_of ?i import_settled g" using r by (auto simp: row_of_def applied_processing_settled)
  show "row_of ?i import_settled (record_failure cl ?f now g)"
  proof (cases "failure_transition ?f (ci_attempt_count cl) now")
    case None
    then show ?thesis using same by (simp add: record_failure_def)
  next
    case (Some t)
    obtain st ph n where t: "t = (st, ph, n)" by (cases t)
    note tr = late_error_transition [OF e Some [unfolded t]]
    show ?thesis
    proof (cases "fail_job ?i st ph n (if_error_code ?f) now g")
      case None
      then show ?thesis using Some t same by (simp add: record_failure_def)
    next
      case (Some p)
      obtain b g1 where p: "p = (b, g1)" by (cases p)
      have "row_of ?i import_settled g1" by (rule row [OF Some [unfolded p] tr r])
      then show ?thesis using \<open>failure_transition ?f (ci_attempt_count cl) now = Some t\<close> t Some p
        by (simp add: record_failure_def row_of_def)
    qed
  qed
qed

lemma claim_steps:
  assumes "claim_due_job provider now stale g = (Some cl, g')" and "distinct (map ij_id (g_inbound g))"
  obtains j where "j \<in> set (g_inbound g)" "ij_id j = ci_id cl" "inbound_due provider now stale j"
    "only_job (ci_id cl) g g'" "applied_state cl \<noteq> None \<longleftrightarrow> has_applied j" "has_applied j \<longrightarrow> row_of (ci_id cl) applied_processing g'"
proof -
  from assms(1) obtain j rest
    where s: "sort_key ij_next_attempt_at (sort_key ij_created_at (filter (inbound_due provider now stale) (g_inbound g))) = j # rest"
      and g': "g' = g\<lparr>g_inbound := update_where (\<lambda>x. ij_id x = ij_id j) (take_inbound now) (g_inbound g)\<rparr>"
      and cl: "ci_id cl = ij_id j" "ci_phase cl = ij_phase (take_inbound now j)"
        "ci_remote_sha cl = ij_remote_sha (take_inbound now j)" "ci_applied_version cl = ij_applied_version (take_inbound now j)"
    by (auto simp: claim_due_job_def Let_def take_inbound_def split: list.splits)
  have "set (sort_key ij_next_attempt_at (sort_key ij_created_at (filter (inbound_due provider now stale) (g_inbound g)))) =
    set (filter (inbound_due provider now stale) (g_inbound g))" by simp
  with s have j: "j \<in> set (g_inbound g)" "inbound_due provider now stale j" by auto
  have o: "only_job (ci_id cl) g g'" unfolding g' cl(1) by (rule only_job_update) (auto simp: take_inbound_def)
  have same: "x = j" if "x \<in> set (g_inbound g)" "ij_id x = ij_id j" for x
    using assms(2) that j(1) by (simp add: distinct_map inj_on_def)
  have ap: "applied_state cl \<noteq> None \<longleftrightarrow> has_applied j"
    using cl by (auto simp: applied_state_def take_inbound_def has_applied_def)
  have row: "row_of (ci_id cl) applied_processing g'" if "has_applied j"
    unfolding g' cl(1)
  proof (rule row_of_update)
    fix x assume "x \<in> set (g_inbound g)" "ij_id x = ij_id j"
    then have "x = j" by (rule same)
    then show "applied_processing (if ij_id x = ij_id j then take_inbound now x else x)"
      using that by (simp add: applied_processing_def take_inbound_def has_applied_def)
  qed (simp add: take_inbound_def)
  show thesis by (rule that [of j]) (use j cl o ap row in auto)
qed

section \<open>The invariant of a run\<close>

text \<open>\<open>used\<close>: the job identifiers given out so far.\<close>

definition applied_ok :: "uuid set \<Rightarrow> git_world \<Rightarrow> bool" where
  "applied_ok used w \<longleftrightarrow>
     distinct (map ij_id (g_inbound (gw_db w))) \<and> distinct (gw_applied w) \<and>
     (\<forall>i \<in> set (gw_applied w). row_of i import_settled (gw_db w)) \<and>
     ij_id ` set (g_inbound (gw_db w)) \<union> set (gw_applied w) \<subseteq> used"

lemma only_job_ids: "only_job i g g' \<Longrightarrow> ij_id ` set (g_inbound g') = ij_id ` set (g_inbound g)"
  unfolding only_job_def by (metis list.set_map)

lemma only_job_row: "only_job i g g' \<Longrightarrow> k \<noteq> i \<Longrightarrow> row_of k P g \<Longrightarrow> row_of k P g'"
  by (auto simp: only_job_def row_of_def)

lemma applied_ok_turn:
  assumes ok: "applied_ok used w" and o: "only_job i (gw_db w) (gw_db w')" and i: "i \<in> used"
    and log: "gw_applied w' = gw_applied w \<or> gw_applied w' = gw_applied w @ [i] \<and> i \<notin> set (gw_applied w)"
    and row: "i \<in> set (gw_applied w') \<Longrightarrow> row_of i import_settled (gw_db w')"
  shows "applied_ok used w'"
proof -
  have "row_of k import_settled (gw_db w')" if "k \<in> set (gw_applied w')" for k
  proof (cases "k = i")
    case False
    then have "k \<in> set (gw_applied w)" using that log by auto
    then show ?thesis using ok only_job_row [OF o False] by (simp add: applied_ok_def)
  qed (use that row in simp)
  moreover have "distinct (gw_applied w')" "set (gw_applied w') \<subseteq> used" using ok log i by (auto simp: applied_ok_def)
  ultimately show ?thesis using ok only_job_distinct [OF o] only_job_ids [OF o] by (simp add: applied_ok_def)
qed

lemma applied_ok_inbound_turn:
  assumes ok: "applied_ok used w" and loaded: "ie_link_loaded env"
  shows "applied_ok used (inbound_turn provider env w)"
proof -
  have d: "distinct (map ij_id (g_inbound (gw_db w)))" using ok by (simp add: applied_ok_def)
  obtain c g where cg: "claim_due_job provider (ie_now env) (ie_now env - seconds (15 * 60)) (gw_db w) = (c, g)"
    by (cases "claim_due_job provider (ie_now env) (ie_now env - seconds (15 * 60)) (gw_db w)")
  show ?thesis
  proof (cases c)
    case None
    then show ?thesis using ok cg by (simp add: inbound_turn_def)
  next
    case (Some cl)
    let ?i = "ci_id cl" and ?w = "w\<lparr>gw_db := g\<rparr>"
    obtain j where j: "j \<in> set (g_inbound (gw_db w))" "ij_id j = ?i" "inbound_due provider (ie_now env) (ie_now env - seconds (15 * 60)) j"
      "only_job ?i (gw_db w) g" "applied_state cl \<noteq> None \<longleftrightarrow> has_applied j" "has_applied j \<longrightarrow> row_of ?i applied_processing g"
      using claim_steps [OF cg [unfolded Some] d] by blast
    obtain res w1 where pr: "process_inbound_job env cl ?w = (res, w1)" by (cases "process_inbound_job env cl ?w")
    have d1: "distinct (map ij_id (g_inbound (gw_db ?w)))" using d only_job_distinct [OF j(4)] by simp
    note steps = process_steps [OF pr loaded d1]
    let ?w' = "inbound_turn provider env w"
    have turn: "?w' = (case res of FailedWith e \<Rightarrow> if ie_failure_recorded env
        then w1\<lparr>gw_db := record_failure cl (inbound_job_failure e) (ie_now env) (gw_db w1)\<rparr> else w1 | _ \<Rightarrow> w1)"
      using cg Some pr by (simp add: inbound_turn_def split: outcome.splits)
    have o: "only_job ?i (gw_db w) (gw_db ?w')"
      using j(4) steps(1) record_failure_steps(1) unfolding turn
      by (auto split: outcome.splits intro: only_job_trans)
    have log: "gw_applied ?w' = gw_applied w1" unfolding turn by (auto split: outcome.splits)
    have in_log: "has_applied j" if "?i \<in> set (gw_applied w)"
    proof -
      have "import_settled j" using ok that j(1,2) by (simp add: applied_ok_def row_of_def)
      then show ?thesis using j(3) by (auto simp: import_settled_def inbound_due_def)
    qed
    have fin: "finished ?i res (gw_db w1)" if "?i \<in> set (gw_applied w1)"
      using steps(2,3) that in_log j(5,6) by auto
    have row: "row_of ?i import_settled (gw_db ?w')" if "?i \<in> set (gw_applied ?w')"
    proof -
      have "finished ?i res (gw_db w1)" using fin that log by simp
      then show ?thesis unfolding turn using record_failure_steps(2)
        by (cases res) (auto simp: row_of_def applied_processing_settled)
    qed
    have "?i \<in> used" using ok j(1,2) by (auto simp: applied_ok_def)
    moreover have "gw_applied ?w' = gw_applied w \<or> gw_applied ?w' = gw_applied w @ [?i] \<and> ?i \<notin> set (gw_applied w)"
      using steps(2) in_log j(5) by (auto simp: log)
    ultimately show ?thesis using applied_ok_turn [OF ok o] row by blast
  qed
qed

subsection \<open>Users and checkpoints in between\<close>

lemma applied_ok_rows:
  assumes "applied_ok used w" and "gw_applied w' = gw_applied w" and "distinct (map ij_id (g_inbound (gw_db w')))"
    and "\<And>j'. j' \<in> set (g_inbound (gw_db w')) \<Longrightarrow>
      \<exists>j \<in> set (g_inbound (gw_db w)). ij_id j = ij_id j' \<and> (import_settled j \<longrightarrow> import_settled j')"
  shows "applied_ok used w'"
proof -
  have "ij_id j' \<in> ij_id ` set (g_inbound (gw_db w))" if "j' \<in> set (g_inbound (gw_db w'))" for j'
    using assms(4) [OF that] by (metis imageI)
  then have "ij_id ` set (g_inbound (gw_db w')) \<subseteq> ij_id ` set (g_inbound (gw_db w))" by auto
  moreover have "row_of i import_settled (gw_db w')" if "row_of i import_settled (gw_db w)" for i
    using that assms(4) unfolding row_of_def by metis
  ultimately show ?thesis using assms(1-3) unfolding applied_ok_def by (metis Un_subset_iff order.trans)
qed

lemma applied_ok_same: "applied_ok used w \<Longrightarrow> g_inbound (gw_db w') = g_inbound (gw_db w) \<Longrightarrow> gw_applied w' = gw_applied w \<Longrightarrow> applied_ok used w'"
  by (rule applied_ok_rows) (auto simp: applied_ok_def)

lemma applied_ok_mono: "applied_ok used w \<Longrightarrow> used \<subseteq> used' \<Longrightarrow> applied_ok used' w"
  by (auto simp: applied_ok_def)

lemma applied_ok_insert:
  assumes "applied_ok used w" and "i \<notin> used" and "g_inbound (gw_db w') = g_inbound (gw_db w) @ [j]" and "ij_id j = i"
    and "gw_applied w' = gw_applied w"
  shows "applied_ok (insert i used) w'"
  using assms by (auto simp: applied_ok_def row_of_def)

lemma inserted_job:
  assumes "insert_inbound_job i pid provider opn branch u now g = Inr g'"
  obtains j where "g_inbound g' = g_inbound g @ [j]" "ij_id j = i"
  using assms by (auto simp: insert_inbound_job_def split: if_splits)

lemma inserted_link: "insert_repository_link n g = Inr g' \<Longrightarrow> g_inbound g' = g_inbound g"
  by (auto simp: insert_repository_link_def split: if_splits)

fun new_job_ids :: "git_event \<Rightarrow> uuid list" where
  "new_job_ids (UserRequest (EnqueueSync i _ _ _ _ _)) = [i]"
| "new_job_ids (UserRequest (CreateImport _ _ i _ _)) = [i]"
| "new_job_ids _ = []"

lemma applied_ok_enqueue_sync:
  assumes "applied_ok used w" and "i \<notin> used"
  shows "applied_ok (insert i used) (snd (enqueue_sync i pid actor provider branch now w))"
proof (cases "insert_inbound_job i pid provider Sync_operation branch actor now (gw_db w)")
  case (Inl e)
  then have "snd (enqueue_sync i pid actor provider branch now w) = w"
    by (cases e) (simp_all add: enqueue_sync_def)
  then show ?thesis using applied_ok_mono [OF assms(1)] by auto
next
  case (Inr g)
  from Inr obtain j where j: "g_inbound g = g_inbound (gw_db w) @ [j]" "ij_id j = i" by (rule inserted_job)
  have "applied_ok (insert i used) (w\<lparr>gw_db := clear_last_import_error pid now g\<rparr>)"
    by (rule applied_ok_insert [OF assms]) (use j in auto)
  then show ?thesis using Inr applied_ok_mono [OF assms(1)] by (auto simp: enqueue_sync_def)
qed

lemma applied_ok_create_import:
  assumes "applied_ok used w" and "i \<notin> used"
  shows "applied_ok (insert i used) (snd (create_import_project fresh graph i link branch w))"
proof -
  have "applied_ok (insert i used) (w\<lparr>gw_db := g1, gw_collab := c\<rparr>)"
    if "insert_repository_link link (gw_db w) = Inr g" "insert_inbound_job i pid provider opn branch u now g = Inr g1"
    for g g1 pid provider opn u now c
  proof -
    from that(2) obtain j where j: "g_inbound g1 = g_inbound g @ [j]" "ij_id j = i" by (rule inserted_job)
    then show ?thesis by (intro applied_ok_insert [OF assms]) (use inserted_link [OF that(1)] in auto)
  qed
  moreover have "applied_ok (insert i used) w" using applied_ok_mono [OF assms(1)] by auto
  ultimately show ?thesis
    by (auto simp: create_import_project_def split: option.splits sum.splits insert_link_error.splits)
qed

lemma inbound_user_statements [simp]:
  "g_inbound (resume_queue pid now g) = g_inbound g" "g_inbound (snd (insert_queue pid v now g)) = g_inbound g"
  "g_inbound (update_queue pid qf g) = g_inbound g" "g_inbound (resume_reauthorized_links user provider now g) = g_inbound g"
  "g_inbound (resume_reauthorized_checkpoints user provider now g) = g_inbound g"
  "g_inbound (snd (upsert_repository_link n g)) = g_inbound g"
  by (auto simp: resume_queue_def update_link_def update_queue_def insert_queue_def resume_reauthorized_links_def
      resume_reauthorized_checkpoints_def upsert_repository_link_def split: option.splits sum.splits dest: inserted_link)

lemma inbound_enqueue_checkpoint [simp]:
  "g_inbound (gw_db (snd (enqueue_checkpoint pid now w))) = g_inbound (gw_db w)"
  "gw_applied (snd (enqueue_checkpoint pid now w)) = gw_applied w"
proof -
  have "g_inbound g = g_inbound (gw_db w)" if "insert_queue pid v now (gw_db w) = (x, g)" for v x g
    using that inbound_user_statements(2) [of pid v now "gw_db w"] by simp
  then show "g_inbound (gw_db (snd (enqueue_checkpoint pid now w))) = g_inbound (gw_db w)"
    "gw_applied (snd (enqueue_checkpoint pid now w)) = gw_applied w"
    by (auto simp: enqueue_checkpoint_def split: option.splits prod.splits)
qed

lemma applied_ok_unlink:
  assumes "applied_ok used w"
  shows "applied_ok used (snd (unlink_repository_link pid w))"
  by (rule applied_ok_rows [OF assms])
    (use assms in \<open>auto simp: unlink_repository_link_def delete_repository_link_def applied_ok_def distinct_map_delete_where
      split: option.splits if_splits\<close>)

lemma applied_ok_resume_work:
  assumes "applied_ok used w"
  shows "applied_ok used (w\<lparr>gw_db := resume_work user provider now (gw_db w)\<rparr>)"
  by (rule applied_ok_rows [OF assms])
    (use assms in \<open>auto simp: resume_work_def resume_reauthorized_jobs_def applied_ok_def map_update_where in_update_where
      import_settled_def split: if_splits\<close>)

lemma applied_ok_user_step:
  assumes "applied_ok used w" and "set (new_job_ids (UserRequest u)) \<inter> used = {}"
  shows "applied_ok (used \<union> set (new_job_ids (UserRequest u))) (user_step u w)"
  using assms
  by (cases u)
    (auto simp: applied_ok_unlink applied_ok_resume_work intro: applied_ok_enqueue_sync applied_ok_create_import applied_ok_same)

lemma inbound_checkpoint_statements [simp]:
  "g_inbound (snd (claim_due provider now stale g)) = g_inbound g" "g_inbound (update_queue_phase pid ph now g) = g_inbound g"
  "g_inbound (capture_checkpoint pid v sha at g) = g_inbound g" "g_inbound (complete_checkpoint pid v sha now g) = g_inbound g"
  "g_inbound (fail_checkpoint c kind code now g) = g_inbound g"
  by (auto simp: claim_due_def update_queue_phase_def capture_checkpoint_def complete_checkpoint_def Let_def
      fail_checkpoint_def fail_checkpoint_statement_def split: list.splits option.splits prod.splits)

definition same_jobs :: "git_world \<Rightarrow> git_world \<Rightarrow> bool" where
  "same_jobs w w' \<longleftrightarrow> g_inbound (gw_db w') = g_inbound (gw_db w) \<and> gw_applied w' = gw_applied w"

lemma same_jobs_process_checkpoint:
  assumes "process_checkpoint Y retention R env pid w r = (res, w', r')"
  shows "same_jobs w w'"
  using assms
  by (auto simp: process_checkpoint_def push_captured_checkpoint_def create_and_push_checkpoint_def pushed_def
      record_queue_phase_def same_jobs_def Let_def split: prod.splits option.splits outcome.splits if_splits)

lemma same_jobs_checkpoint_turn: "same_jobs w (fst (checkpoint_turn Y retention R provider env (w, r)))"
proof -
  obtain c g where c: "claim_due provider (ce_now env) (ce_now env - seconds (10 * 60)) (gw_db w) = (c, g)"
    by (cases "claim_due provider (ce_now env) (ce_now env - seconds (10 * 60)) (gw_db w)")
  have g: "g_inbound g = g_inbound (gw_db w)"
    using c inbound_checkpoint_statements(1) [of provider "ce_now env" "ce_now env - seconds (10 * 60)" "gw_db w"] by simp
  show ?thesis
  proof (cases c)
    case None
    then show ?thesis using c by (simp add: checkpoint_turn_def same_jobs_def)
  next
    case (Some cl)
    obtain res w1 r1 where p: "process_checkpoint Y retention R env (cc_project_id cl) (w\<lparr>gw_db := g\<rparr>) r = (res, w1, r1)"
      by (cases "process_checkpoint Y retention R env (cc_project_id cl) (w\<lparr>gw_db := g\<rparr>) r")
    from same_jobs_process_checkpoint [OF p] c Some p g show ?thesis
      by (auto simp: checkpoint_turn_def settle_checkpoint_def same_jobs_def split: outcome.splits)
  qed
qed

section \<open>Applied once\<close>

fun links_loaded :: "git_event \<Rightarrow> bool" where
  "links_loaded (InboundTurn _ env) = ie_link_loaded env"
| "links_loaded _ = True"

lemma applied_ok_step:
  assumes "applied_ok used (fst s)" and "set (new_job_ids e) \<inter> used = {}" and "links_loaded e"
  shows "applied_ok (used \<union> set (new_job_ids e)) (fst (worker_step Y retention R e s))"
proof (cases e)
  case (InboundTurn provider env)
  then show ?thesis using assms applied_ok_inbound_turn by simp
next
  case (CheckpointTurn provider env)
  then show ?thesis
    using assms applied_ok_same same_jobs_checkpoint_turn [of "fst s" Y retention R provider env "snd s"] by (simp add: same_jobs_def)
next
  case (UserRequest u)
  then show ?thesis using assms applied_ok_user_step by simp
qed

lemma applied_ok_run:
  assumes "applied_ok used (fst s)" and "distinct (concat (map new_job_ids es))"
    and "set (concat (map new_job_ids es)) \<inter> used = {}" and "list_all links_loaded es"
  shows "\<exists>used'. applied_ok used' (fst (run_events (worker_step Y retention R) es s))"
  using assms
proof (induction es arbitrary: s used)
  case Nil
  then show ?case by auto
next
  case (Cons e es)
  have "applied_ok (used \<union> set (new_job_ids e)) (fst (worker_step Y retention R e s))"
    by (rule applied_ok_step) (use Cons.prems in auto)
  moreover have "set (concat (map new_job_ids es)) \<inter> (used \<union> set (new_job_ids e)) = {}" using Cons.prems by auto
  ultimately show ?case using Cons.IH [of "used \<union> set (new_job_ids e)"] Cons.prems by simp
qed

lemma applied_ok_initial: "applied_ok {} (initial_git c)"
  by (simp add: applied_ok_def initial_git_def)

end
