(* ===== verification/External_Git_Checkpoint.thy ===== *)
theory External_Git_Checkpoint
  imports External_Git_Workers
begin

text \<open>
  The checkpoint branch of a project stays at a commit that the server knows: the one it recorded on
  the link or the one it captured before it pushed. So a worker that fails or crashes at any point
  never mistakes its own push for somebody else's.
\<close>

section \<open>The output of \<open>git ls-remote\<close>\<close>

definition lower_hexdigit :: "char \<Rightarrow> bool" where
  "lower_hexdigit c \<longleftrightarrow> ascii_digit c \<or> (CHR ''a'' \<le> c \<and> c \<le> CHR ''f'')"

definition commit_id :: "string \<Rightarrow> bool" where
  "commit_id sha \<longleftrightarrow> length sha = 40 \<and> list_all lower_hexdigit sha"

definition ls_remote_output :: "string \<Rightarrow> string option \<Rightarrow> string" where
  "ls_remote_output branch tip_commit =
     (case tip_commit of None \<Rightarrow> [] | Some sha \<Rightarrow> sha @ CHR 0x09 # ''refs/heads/'' @ branch @ [CHR 0x0A])"

lemma lower_hexdigit_range:
  "lower_hexdigit c \<Longrightarrow> (48 \<le> (of_char c :: nat) \<and> (of_char c :: nat) \<le> 57) \<or> (97 \<le> (of_char c :: nat) \<and> (of_char c :: nat) \<le> 102)"
  by (auto simp: lower_hexdigit_def ascii_digit_def less_eq_char_def)

lemma hex_facts:
  assumes "lower_hexdigit c"
  shows "utf8_width c = Suc 0" "\<not> char_is_whitespace [c]" "ascii_hexdigit c" "ascii_lowercase c = c" "c \<noteq> CHR 0x0A"
proof -
  note range = lower_hexdigit_range [OF assms]
  then show "utf8_width c = Suc 0" by auto
  have "code_point [c] = of_char c" using range by auto
  then show "\<not> char_is_whitespace [c]" using range by (auto simp: char_is_whitespace_def Let_def)
  show "ascii_hexdigit c" using assms by (auto simp: lower_hexdigit_def ascii_hexdigit_def)
  show "ascii_lowercase c = c" using range by (auto simp: ascii_lowercase_def ascii_upper_def less_eq_char_def)
  show "c \<noteq> CHR 0x0A" using range by auto
qed

lemma utf8_split_hex:
  "list_all lower_hexdigit s \<Longrightarrow> utf8_split (s @ t) = map (\<lambda>c. [c]) s @ utf8_split t"
  by (induction s) (auto simp: hex_facts(1) simp del: utf8_width.simps)

lemma first_word_hex:
  assumes "list_all lower_hexdigit s" and "s \<noteq> []"
  shows "first_word (s @ CHR 0x09 # t) = Some s"
proof -
  have tab: "utf8_split (CHR 0x09 # t) = [CHR 0x09] # utf8_split t" by simp
  have ws: "char_is_whitespace [CHR 0x09]" by (simp add: char_is_whitespace_def)
  have all: "\<And>x. x \<in> set (map (\<lambda>c. [c]) s) \<Longrightarrow> \<not> char_is_whitespace x"
    using assms(1) by (auto simp: list_all_iff hex_facts(2))
  obtain c s' where s: "s = c # s'" using assms(2) by (cases s) auto
  have "takeWhile (\<lambda>c. \<not> char_is_whitespace c) (dropWhile char_is_whitespace (utf8_split (s @ CHR 0x09 # t))) = map (\<lambda>c. [c]) s"
  proof -
    have "utf8_split (s @ CHR 0x09 # t) = map (\<lambda>c. [c]) s @ [CHR 0x09] # utf8_split t"
      using utf8_split_hex [OF assms(1)] tab by simp
    moreover have "dropWhile char_is_whitespace (map (\<lambda>c. [c]) s @ [CHR 0x09] # utf8_split t) = map (\<lambda>c. [c]) s @ [CHR 0x09] # utf8_split t"
      using all s by simp
    moreover have "takeWhile (\<lambda>c. \<not> char_is_whitespace c) (map (\<lambda>c. [c]) s @ [CHR 0x09] # utf8_split t) =
        map (\<lambda>c. [c]) s @ takeWhile (\<lambda>c. \<not> char_is_whitespace c) ([CHR 0x09] # utf8_split t)"
      by (rule takeWhile_append2) (rule all)
    ultimately show ?thesis using ws by simp
  qed
  moreover have "concat (map (\<lambda>c. [c]) s) = s" by (induction s) auto
  ultimately show ?thesis using assms(2) by (simp add: first_word_def Let_def)
qed

lemma split_on_head:
  "c \<notin> set s \<Longrightarrow> \<exists>seg segs. split_on c (s @ t) = (s @ seg) # segs \<and> split_on c t = seg # segs"
proof (induction s)
  case Nil
  then show ?case by (cases "split_on c t") auto
qed auto

lemma parse_ls_remote_output:
  assumes "\<And>sha. tip_commit = Some sha \<Longrightarrow> commit_id sha"
  shows "parse_ls_remote (ls_remote_output branch tip_commit) = tip_commit"
proof (cases tip_commit)
  case None
  have "first_word [] = None" by (simp add: first_word_def)
  then show ?thesis using None by (simp add: ls_remote_output_def parse_ls_remote_def)
next
  case (Some sha)
  then have sha: "length sha = 40" "list_all lower_hexdigit sha" using assms by (auto simp: commit_id_def)
  have nl: "CHR 0x0A \<notin> set (sha @ [CHR 0x09])" using sha(2) hex_facts(5) by (auto simp: list_all_iff)
  obtain seg segs where "split_on (CHR 0x0A) ((sha @ [CHR 0x09]) @ ''refs/heads/'' @ branch @ [CHR 0x0A]) =
      ((sha @ [CHR 0x09]) @ seg) # segs"
    using split_on_head [OF nl] by blast
  then have "split_on (CHR 0x0A) (ls_remote_output branch tip_commit) = (sha @ CHR 0x09 # seg) # segs"
    using Some by (simp add: ls_remote_output_def)
  moreover have "sha \<noteq> []" using sha(1) by auto
  moreover have "list_all ascii_hexdigit sha" using sha(2) by (auto simp: list_all_iff hex_facts(3))
  moreover have "to_ascii_lowercase sha = sha" using sha(2) by (induction sha) (auto simp: to_ascii_lowercase_def hex_facts(4))
  ultimately show ?thesis using Some sha first_word_hex [OF sha(2)] by (simp add: parse_ls_remote_def)
qed

section \<open>The remote repository\<close>

text \<open>
  What Git documents, for a remote whose checkpoint branches nobody else moves: \<open>ls-remote\<close> prints the
  tip of the branch, if there is one, and changes nothing; \<open>push\<close> moves the branch to the commit or
  leaves it, and when it reports success the branch is there.
\<close>

definition remote_contract :: "'r git_remote \<Rightarrow> ('r \<Rightarrow> string \<times> string \<Rightarrow> string option) \<Rightarrow> bool" where
  "remote_contract R tip \<longleftrightarrow>
     (\<forall>url branch r. tip (snd (rm_ls_remote R url branch r)) = tip r \<and>
        (\<forall>out. fst (rm_ls_remote R url branch r) = Done out \<longrightarrow> out = ls_remote_output branch (tip r (url, branch)))) \<and>
     (\<forall>url sha branch r. commit_id sha \<longrightarrow>
        (tip (snd (rm_push R url sha branch r)) = tip r \<or> tip (snd (rm_push R url sha branch r)) = (tip r)((url, branch) := Some sha)) \<and>
        (\<forall>x. fst (rm_push R url sha branch r) = Done x \<longrightarrow> tip (snd (rm_push R url sha branch r)) (url, branch) = Some sha)) \<and>
     (\<forall>r loc sha. tip r loc = Some sha \<longrightarrow> commit_id sha)"

lemma contract_ls_remote:
  assumes "remote_contract R tip" and "rm_ls_remote R url branch r = (res, r')"
  shows "tip r' = tip r" and "res = Done out \<Longrightarrow> out = ls_remote_output branch (tip r (url, branch))"
proof -
  from assms(1) have "tip (snd (rm_ls_remote R url branch r)) = tip r \<and>
        (\<forall>out. fst (rm_ls_remote R url branch r) = Done out \<longrightarrow> out = ls_remote_output branch (tip r (url, branch)))"
    by (simp add: remote_contract_def)
  with assms(2) show "tip r' = tip r" "res = Done out \<Longrightarrow> out = ls_remote_output branch (tip r (url, branch))" by simp_all
qed

lemma contract_push:
  assumes "remote_contract R tip" and "rm_push R url sha branch r = (res, r')" and "commit_id sha"
  shows "tip r' = tip r \<or> tip r' = (tip r)((url, branch) := Some sha)" and "res = Done x \<Longrightarrow> tip r' (url, branch) = Some sha"
proof -
  from assms(1,3) have "(tip (snd (rm_push R url sha branch r)) = tip r \<or>
        tip (snd (rm_push R url sha branch r)) = (tip r)((url, branch) := Some sha)) \<and>
        (\<forall>x. fst (rm_push R url sha branch r) = Done x \<longrightarrow> tip (snd (rm_push R url sha branch r)) (url, branch) = Some sha)"
    unfolding remote_contract_def by blast
  with assms(2) show "tip r' = tip r \<or> tip r' = (tip r)((url, branch) := Some sha)" "res = Done x \<Longrightarrow> tip r' (url, branch) = Some sha"
    by auto
qed

lemma contract_commit_id: "remote_contract R tip \<Longrightarrow> tip r loc = Some sha \<Longrightarrow> commit_id sha"
  unfolding remote_contract_def by blast

lemma remote_sha_contract:
  assumes "remote_contract R tip" and "remote_checkpoint_sha R link r = (res, r')"
  shows "tip r' = tip r" and "res = Done x \<Longrightarrow> x = tip r (cl_clone_url link, cl_checkpoint_branch link)"
proof -
  obtain res1 r1 where ls: "rm_ls_remote R (cl_clone_url link) (cl_checkpoint_branch link) r = (res1, r1)"
    by (cases "rm_ls_remote R (cl_clone_url link) (cl_checkpoint_branch link) r")
  have r1: "r1 = r'" using assms(2) ls by (auto simp: remote_checkpoint_sha_def split: outcome.splits)
  show "tip r' = tip r" using contract_ls_remote(1) [OF assms(1) ls] r1 by simp
  assume "res = Done x"
  then obtain out where out: "res1 = Done out" "x = parse_ls_remote out"
    using assms(2) ls by (auto simp: remote_checkpoint_sha_def split: outcome.splits)
  have "out = ls_remote_output (cl_checkpoint_branch link) (tip r (cl_clone_url link, cl_checkpoint_branch link))"
    using contract_ls_remote(2) [OF assms(1) ls out(1)] .
  moreover have "\<And>sha. tip r (cl_clone_url link, cl_checkpoint_branch link) = Some sha \<Longrightarrow> commit_id sha"
    using contract_commit_id [OF assms(1)] .
  ultimately show "x = tip r (cl_clone_url link, cl_checkpoint_branch link)" using out(2) parse_ls_remote_output by simp
qed

lemma push_contract:
  assumes "remote_contract R tip" and "push_checkpoint_ref R link sha r = (res, r')" and "commit_id sha"
    and "loc = (cl_clone_url link, cl_checkpoint_branch link)"
  shows "tip r' = tip r \<or> tip r' = (tip r)(loc := Some sha)"
    and "res = Done x \<Longrightarrow> tip r' loc = Some sha"
    and "res = FailedWith BranchMoved \<Longrightarrow> tip r loc \<noteq> Some sha \<and> \<not> base_matches (cl_last_remote_sha link) (tip r loc)"
proof -
  obtain res1 r1 where q: "remote_checkpoint_sha R link r = (res1, r1)" by (cases "remote_checkpoint_sha R link r")
  note c1 = remote_sha_contract [OF assms(1) q]
  let ?goal = "(tip r' = tip r \<or> tip r' = (tip r)(loc := Some sha)) \<and> ((\<exists>x. res = Done x) \<longrightarrow> tip r' loc = Some sha) \<and>
    (res = FailedWith BranchMoved \<longrightarrow> tip r loc \<noteq> Some sha \<and> \<not> base_matches (cl_last_remote_sha link) (tip r loc))"
  have ?goal
  proof (cases "\<exists>remote. res1 = Done remote \<and> remote \<noteq> Some sha \<and> base_matches (cl_last_remote_sha link) remote")
    case False
    then show ?thesis using assms(2,4) q c1 by (cases res1) (auto simp: push_checkpoint_ref_def split: if_splits)
  next
    case True
    then obtain remote where remote: "res1 = Done remote" "remote \<noteq> Some sha" "base_matches (cl_last_remote_sha link) remote" by blast
    obtain res2 r2 where p: "rm_push R (cl_clone_url link) sha (cl_checkpoint_branch link) r1 = (res2, r2)"
      by (cases "rm_push R (cl_clone_url link) sha (cl_checkpoint_branch link) r1")
    have c2: "tip r2 = tip r1 \<or> tip r2 = (tip r1)(loc := Some sha)" "\<And>x. res2 = Done x \<Longrightarrow> tip r2 loc = Some sha"
      using contract_push [OF assms(1) p assms(3)] assms(4) by auto
    obtain res3 r3 where v: "remote_checkpoint_sha R link r2 = (res3, r3)" by (cases "remote_checkpoint_sha R link r2")
    note c3 = remote_sha_contract [OF assms(1) v]
    have "res2 = Done x \<Longrightarrow> res = FailedWith e \<Longrightarrow> e \<noteq> BranchMoved" for x e
      using assms(2) q remote p v by (auto simp: push_checkpoint_ref_def verify_push_def split: outcome.splits if_splits)
    then show ?thesis
      using assms(2) q remote p v c1 c2 c3
      by (cases res2) (auto simp: push_checkpoint_ref_def verify_push_def split: outcome.splits if_splits)
  qed
  then show "tip r' = tip r \<or> tip r' = (tip r)(loc := Some sha)" "res = Done x \<Longrightarrow> tip r' loc = Some sha"
    "res = FailedWith BranchMoved \<Longrightarrow> tip r loc \<noteq> Some sha \<and> \<not> base_matches (cl_last_remote_sha link) (tip r loc)"
    by blast+
qed

section \<open>Branches\<close>

text \<open>Where the branch of a project is and at which commit the server last saw it; what it has captured.\<close>

definition branch_of :: "git_db \<Rightarrow> uuid \<Rightarrow> ((string \<times> string) \<times> string option) option" where
  "branch_of g pid = map_option (\<lambda>l. ((gl_clone_url l, gl_checkpoint_branch l), gl_last_remote_sha l)) (find_link pid g)"

definition captured_of :: "git_db \<Rightarrow> uuid \<Rightarrow> (int option \<times> string option) option" where
  "captured_of g pid = map_option (\<lambda>q. (cq_captured_version q, cq_checkpoint_sha q)) (find_queue pid g)"

definition branches_known ::
  "(string \<times> string \<Rightarrow> string option) \<Rightarrow> (uuid \<Rightarrow> ((string \<times> string) \<times> string option) option) \<Rightarrow>
   (uuid \<Rightarrow> (int option \<times> string option) option) \<Rightarrow> bool" where
  "branches_known tips b c \<longleftrightarrow>
     (\<forall>pid loc last_sha. b pid = Some (loc, last_sha) \<longrightarrow>
        tips loc = last_sha \<or> (\<exists>v sha. c pid = Some (Some v, Some sha) \<and> tips loc = Some sha)) \<and>
     (\<forall>pid v s. c pid = Some (v, s) \<longrightarrow> (v = None \<longleftrightarrow> s = None) \<and> (\<forall>sha. s = Some sha \<longrightarrow> commit_id sha)) \<and>
     (\<forall>pid pid' loc x x'. b pid = Some (loc, x) \<longrightarrow> b pid' = Some (loc, x') \<longrightarrow> pid = pid')"

abbreviation known :: "('r \<Rightarrow> string \<times> string \<Rightarrow> string option) \<Rightarrow> git_db \<Rightarrow> 'r \<Rightarrow> bool" where
  "known tip g r \<equiv> branches_known (tip r) (branch_of g) (captured_of g)"

definition same_branches :: "git_db \<Rightarrow> git_db \<Rightarrow> bool" where
  "same_branches g g' \<longleftrightarrow> branch_of g' = branch_of g \<and> captured_of g' = captured_of g"

lemma same_branches_refl [simp, intro]: "same_branches g g"
  by (simp add: same_branches_def)

lemma same_branches_trans: "same_branches a b \<Longrightarrow> same_branches b c \<Longrightarrow> same_branches a c"
  by (simp add: same_branches_def)

lemma same_branches_links:
  assumes "\<And>l. gl_project_id (f l) = gl_project_id l" and "\<And>l. gl_clone_url (f l) = gl_clone_url l"
    and "\<And>l. gl_checkpoint_branch (f l) = gl_checkpoint_branch l" and "\<And>l. gl_last_remote_sha (f l) = gl_last_remote_sha l"
  shows "same_branches g (g\<lparr>g_links := update_where P f (g_links g)\<rparr>)"
proof -
  have "find_link pid (g\<lparr>g_links := update_where P f (g_links g)\<rparr>) = map_option (\<lambda>x. if P x then f x else x) (find_link pid g)" for pid
    unfolding find_link_def by (simp add: find_update_where assms(1))
  then show ?thesis using assms(2-4)
    by (auto simp: same_branches_def branch_of_def captured_of_def find_queue_def fun_eq_iff option.map_comp comp_def
        intro!: option.map_cong0)
qed

lemma same_branches_link:
  assumes "\<And>l. gl_project_id (f l) = gl_project_id l" and "\<And>l. gl_clone_url (f l) = gl_clone_url l"
    and "\<And>l. gl_checkpoint_branch (f l) = gl_checkpoint_branch l" and "\<And>l. gl_last_remote_sha (f l) = gl_last_remote_sha l"
  shows "same_branches g (update_link pid f g)"
  unfolding update_link_def by (rule same_branches_links) (simp_all add: assms)

lemma same_branches_rows:
  assumes "\<And>q. cq_project_id (f q) = cq_project_id q" and "\<And>q. cq_captured_version (f q) = cq_captured_version q"
    and "\<And>q. cq_checkpoint_sha (f q) = cq_checkpoint_sha q"
  shows "same_branches g (g\<lparr>g_queue := update_where P f (g_queue g)\<rparr>)"
proof -
  have "find_queue pid (g\<lparr>g_queue := update_where P f (g_queue g)\<rparr>) = map_option (\<lambda>x. if P x then f x else x) (find_queue pid g)" for pid
    unfolding find_queue_def by (simp add: find_update_where assms(1))
  then show ?thesis using assms(2-3)
    by (auto simp: same_branches_def branch_of_def captured_of_def find_link_def fun_eq_iff option.map_comp comp_def
        intro!: option.map_cong0)
qed

lemma same_branches_queue:
  assumes "\<And>q. cq_project_id (f q) = cq_project_id q" and "\<And>q. cq_captured_version (f q) = cq_captured_version q"
    and "\<And>q. cq_checkpoint_sha (f q) = cq_checkpoint_sha q"
  shows "same_branches g (update_queue pid f g)"
  unfolding update_queue_def by (rule same_branches_rows) (simp_all add: assms)

lemma same_branches_tables:
  "g_links g' = g_links g \<Longrightarrow> g_queue g' = g_queue g \<Longrightarrow> same_branches g g'"
  by (simp add: same_branches_def branch_of_def captured_of_def find_link_def find_queue_def fun_eq_iff)

subsection \<open>Inbound jobs and users\<close>

lemma same_branches_import_statements:
  "same_branches g (clear_last_import_error pid now g)" "same_branches g (record_link_import pid branch sha now g)"
  "same_branches g (update_link_import_error pid code now g)" "same_branches g (record_project_activity pid actor guest now g)"
  "same_branches g (update_job_phase i phase now g)" "same_branches g (snd (claim_due_job provider now stale g))"
  "same_branches g (snd (complete_statement i now g))"
proof -
  show "same_branches g (clear_last_import_error pid now g)" "same_branches g (record_link_import pid branch sha now g)"
    "same_branches g (update_link_import_error pid code now g)"
    by (simp_all add: clear_last_import_error_def record_link_import_def update_link_import_error_def same_branches_link)
  show "same_branches g (record_project_activity pid actor guest now g)" "same_branches g (update_job_phase i phase now g)"
    "same_branches g (snd (claim_due_job provider now stale g))" "same_branches g (snd (complete_statement i now g))"
    by (auto simp: record_project_activity_def update_job_phase_def claim_due_job_def complete_statement_def Let_def
        split: option.splits list.splits intro!: same_branches_tables)
qed

lemma same_branches_mark_applied: "mark_job_applied i sha v now g = Some g' \<Longrightarrow> same_branches g g'"
  by (auto simp: mark_job_applied_def split: if_splits intro!: same_branches_tables)

lemma same_branches_complete_job: "same_branches g (snd (complete_job i pid now g))"
proof -
  have "same_branches g (clear_last_import_error pid now (snd (complete_statement i now g)))"
    by (rule same_branches_trans [OF same_branches_import_statements(7) same_branches_import_statements(1)])
  then show ?thesis by (auto simp: complete_job_def split: prod.splits)
qed

lemma same_branches_record_failure: "same_branches g (record_failure cl f now g)"
proof -
  have "same_branches g g'" if "fail_job i st ph n code now g = Some (b, g')" for i st ph n code b g'
    using that by (auto simp: fail_job_def Let_def split: if_splits intro!: same_branches_tables)
  then have "same_branches g g' \<and> same_branches g (update_link_import_error pid c now g')"
    if "fail_job i st ph n code now g = Some (b, g')" for i st ph n code b g' pid c
    using that same_branches_trans same_branches_import_statements(3) by blast
  then show ?thesis by (auto simp: record_failure_def split: option.splits prod.splits)
qed

lemma same_branches_transaction:
  assumes "inbound_transaction fresh c now w = Inr (a, w')"
  shows "same_branches (gw_db w) (gw_db w')"
proof -
  let ?g = "record_link_import (ic_project_id c) (ic_source_branch c) (ic_remote_sha c) now
    (record_project_activity (ic_project_id c) (Some (ic_actor_user_id c)) None now (gw_db w))"
  from assms obtain v where "mark_job_applied (ic_job_id c) (ic_remote_sha c) v now ?g = Some (gw_db w')"
    by (auto simp: inbound_transaction_def Let_def split: option.splits prod.splits replace_result.splits)
  then show ?thesis
    by (rule same_branches_trans [OF same_branches_trans [OF same_branches_import_statements(4) same_branches_import_statements(2)]
        same_branches_mark_applied])
qed

lemma same_branches_phase: "phase_update i phase env w = Some w' \<Longrightarrow> same_branches (gw_db w) (gw_db w')"
  by (auto simp: phase_update_def same_branches_import_statements split: if_splits)

lemma same_branches_finalize: "finalize_inbound_job env link w = (res, w') \<Longrightarrow> same_branches (gw_db w) (gw_db w')"
  using same_branches_complete_job [of "gw_db w" "il_id link" "il_project_id link" "ie_now env"]
  by (auto simp: finalize_inbound_job_def split: outcome.splits prod.splits sum.splits)

lemma gw_db_on_workspace: "gw_db (on_workspace f w) = gw_db w" "gw_db (cleanup_staged_assets env staged w) = gw_db w"
  by (simp_all add: on_workspace_def cleanup_staged_assets_def)

lemma same_branches_apply_state: "apply_staged env link sha prepared staged w = (res, w') \<Longrightarrow> same_branches (gw_db w) (gw_db w')"
  by (auto simp: apply_staged_def apply_inbound_state_def apply_external_git_inbound_content_def gw_db_on_workspace
      dest: same_branches_transaction split: option.splits outcome.splits prod.splits sum.splits if_splits commit_outcome.splits)

lemma same_branches_stage:
  assumes "stage_assets env i pid assets staged w = (res, w')"
  shows "same_branches (gw_db w) (gw_db w')"
  using assms
proof (induction assets arbitrary: staged w)
  case Nil
  then show ?case by (auto split: if_splits)
next
  case (Cons a rest)
  have go: "same_branches (gw_db w) (gw_db w')"
    if "phase_update i Assets_phase env w1 = Some w2" "gw_db w1 = gw_db w" "stage_assets env i pid rest st w2 = (res, w')" for w1 w2 st
    using Cons.IH [OF that(3)] same_branches_phase [OF that(1)] that(2) by (auto intro: same_branches_trans)
  from Cons.prems show ?case
    by (auto simp: Let_def gw_db_on_workspace split: if_splits option.splits intro: go)
qed

lemma same_branches_prepare:
  assumes "prepare_inbound_state env link w = (res, w')"
  shows "same_branches (gw_db w) (gw_db w')"
proof -
  obtain r1 w1 where f: "fetch_revision env link w = (r1, w1)" by (cases "fetch_revision env link w")
  then have "same_branches (gw_db w) (gw_db w1)"
    by (auto simp: fetch_revision_def Let_def split: outcome.splits option.splits if_splits dest: same_branches_phase)
  moreover have "same_branches (gw_db w1) (gw_db w')"
    using assms f by (auto simp: prepare_inbound_state_def split: outcome.splits option.splits dest: same_branches_phase)
  ultimately show ?thesis by (rule same_branches_trans)
qed

lemma same_branches_import:
  assumes "import_inbound_job env link w = (res, w')"
  shows "same_branches (gw_db w) (gw_db w')"
proof -
  let ?i = "il_id link"
  obtain r1 w1 where p: "prepare_inbound_state env link w = (r1, w1)" by (cases "prepare_inbound_state env link w")
  note s1 = same_branches_prepare [OF p]
  show ?thesis
  proof (cases "\<exists>sha prepared w2. ie_entry_point env = Done () \<and> r1 = Done (sha, prepared) \<and> phase_update ?i Assets_phase env w1 = Some w2")
    case False
    then show ?thesis using assms p s1 by (auto simp: import_inbound_job_def split: outcome.splits option.splits)
  next
    case True
    then obtain sha prepared w2 where s: "ie_entry_point env = Done ()" "r1 = Done (sha, prepared)"
      "phase_update ?i Assets_phase env w1 = Some w2" by blast
    obtain r3 w3 where st: "stage_assets env ?i (il_project_id link) (pi_assets prepared) [] w2 = (r3, w3)"
      by (cases "stage_assets env ?i (il_project_id link) (pi_assets prepared) [] w2")
    have s3: "same_branches (gw_db w) (gw_db w3)"
      by (rule same_branches_trans [OF same_branches_trans [OF s1 same_branches_phase [OF s(3)]] same_branches_stage [OF st]])
    have "same_branches (gw_db w) (gw_db w4) \<and>
        (apply_staged env link sha prepared staged w4 = (res, w') \<longrightarrow> same_branches (gw_db w) (gw_db w'))"
      if "phase_update ?i Apply_phase env w3 = Some w4" for staged w4
      using same_branches_trans [OF s3 same_branches_phase [OF that]] same_branches_apply_state same_branches_trans by blast
    then show ?thesis using assms p s st s3
      by (auto simp: import_inbound_job_def split: outcome.splits option.splits)
  qed
qed

lemma same_branches_process_inbound:
  assumes "process_inbound_job env cl w = (res, w')"
  shows "same_branches (gw_db w) (gw_db w')"
proof -
  have "same_branches (gw_db w) (gw_db w2)"
    if "import_inbound_job env link w = (r1, w1)" "finalize_inbound_job env link w1 = (r2, w2)" for link r1 w1 r2 w2
    by (rule same_branches_trans [OF same_branches_import [OF that(1)] same_branches_finalize [OF that(2)]])
  with assms same_branches_import same_branches_finalize show ?thesis
    by (auto simp: process_inbound_job_def split: if_splits option.splits prod.splits outcome.splits)
qed

lemma same_branches_inbound_turn: "same_branches (gw_db w) (gw_db (inbound_turn provider env w))"
proof -
  obtain c g where c: "claim_due_job provider (ie_now env) (ie_now env - seconds (15 * 60)) (gw_db w) = (c, g)"
    by (cases "claim_due_job provider (ie_now env) (ie_now env - seconds (15 * 60)) (gw_db w)")
  have g: "same_branches (gw_db w) g"
    using c same_branches_import_statements(6) [of "gw_db w" provider "ie_now env" "ie_now env - seconds (15 * 60)"] by simp
  show ?thesis
  proof (cases c)
    case None
    then show ?thesis using c by (simp add: inbound_turn_def)
  next
    case (Some cl)
    obtain res w1 where p: "process_inbound_job env cl (w\<lparr>gw_db := g\<rparr>) = (res, w1)" by (cases "process_inbound_job env cl (w\<lparr>gw_db := g\<rparr>)")
    have w1: "same_branches (gw_db w) (gw_db w1)"
      using same_branches_trans [OF g] same_branches_process_inbound [OF p] by simp
    then have "same_branches (gw_db w) (record_failure cl f now (gw_db w1))" for f now
      using same_branches_record_failure by (rule same_branches_trans)
    with w1 show ?thesis using c Some p by (auto simp: inbound_turn_def split: outcome.splits)
  qed
qed

subsection \<open>What keeps the branches known\<close>

lemma known_cases:
  assumes "branches_known tips b c" and "b pid = Some (loc, last_sha)"
  obtains "tips loc = last_sha" | v sha where "c pid = Some (Some v, Some sha)" "tips loc = Some sha"
  using assms unfolding branches_known_def by blast

lemma known_captured:
  assumes "branches_known tips b c" and "c pid = Some (v, s)"
  shows "v = None \<longleftrightarrow> s = None" and "s = Some sha \<Longrightarrow> commit_id sha"
  using assms unfolding branches_known_def by blast+

lemma known_location:
  assumes "branches_known tips b c" and "b pid = Some (loc, x)" and "b pid' = Some (loc, x')"
  shows "pid = pid'"
  using assms unfolding branches_known_def by blast

lemma branches_knownI:
  assumes "\<And>pid loc last_sha. b pid = Some (loc, last_sha) \<Longrightarrow>
      tips loc = last_sha \<or> (\<exists>v sha. c pid = Some (Some v, Some sha) \<and> tips loc = Some sha)"
    and "\<And>pid v s. c pid = Some (v, s) \<Longrightarrow> (v = None \<longleftrightarrow> s = None) \<and> (\<forall>sha. s = Some sha \<longrightarrow> commit_id sha)"
    and "\<And>pid pid' loc x x'. b pid = Some (loc, x) \<Longrightarrow> b pid' = Some (loc, x') \<Longrightarrow> pid = pid'"
  shows "branches_known tips b c"
  using assms unfolding branches_known_def by blast

lemma known_capture:
  assumes k: "branches_known tips b c" and c: "c pid = Some (v, s)" "v = None \<or> s = None" and sha: "commit_id sha"
  shows "branches_known tips b (c(pid := Some (Some v', Some sha)))"
proof (rule branches_knownI)
  fix p loc last_sha assume b: "b p = Some (loc, last_sha)"
  from k b show "tips loc = last_sha \<or> (\<exists>v sha'. (c(pid := Some (Some v', Some sha))) p = Some (Some v, Some sha') \<and> tips loc = Some sha')"
    by (cases rule: known_cases) (use c in \<open>auto split: if_splits\<close>)
next
  fix p w t assume "(c(pid := Some (Some v', Some sha))) p = Some (w, t)"
  then show "(w = None \<longleftrightarrow> t = None) \<and> (\<forall>sha. t = Some sha \<longrightarrow> commit_id sha)"
    using sha known_captured [OF k, of p w t] by (auto split: if_splits)
qed (rule known_location [OF k])

lemma known_push:
  assumes k: "branches_known tips b c" and b: "b pid = Some (loc, x)" and c: "c pid = Some (Some v, Some sha)"
  shows "branches_known (tips(loc := Some sha)) b c"
proof (rule branches_knownI)
  fix p loc' last_sha assume p: "b p = Some (loc', last_sha)"
  show "(tips(loc := Some sha)) loc' = last_sha \<or> (\<exists>v sha'. c p = Some (Some v, Some sha') \<and> (tips(loc := Some sha)) loc' = Some sha')"
  proof (cases "loc' = loc")
    case True
    then show ?thesis using known_location [OF k b] p c by auto
  next
    case False
    with k p show ?thesis by (auto elim: known_cases)
  qed
qed (use known_captured [OF k] known_location [OF k] in blast)+

lemma known_complete:
  assumes k: "branches_known tips b c" and b: "b pid = Some (loc, x)" and t: "tips loc = Some sha"
  shows "branches_known tips (b(pid := Some (loc, Some sha))) (c(pid := None))"
proof (rule branches_knownI)
  fix p loc' last_sha assume p: "(b(pid := Some (loc, Some sha))) p = Some (loc', last_sha)"
  show "tips loc' = last_sha \<or> (\<exists>v sha. (c(pid := None)) p = Some (Some v, Some sha) \<and> tips loc' = Some sha)"
  proof (cases "p = pid")
    case True
    then show ?thesis using p t by simp
  next
    case False
    then have "b p = Some (loc', last_sha)" using p by simp
    from k this show ?thesis by (cases rule: known_cases) (use False in auto)
  qed
next
  fix p v s assume "(c(pid := None)) p = Some (v, s)"
  then show "(v = None \<longleftrightarrow> s = None) \<and> (\<forall>sha. s = Some sha \<longrightarrow> commit_id sha)"
    using known_captured [OF k, of p v s] by (auto split: if_splits)
next
  fix p p' l y y' assume "(b(pid := Some (loc, Some sha))) p = Some (l, y)" "(b(pid := Some (loc, Some sha))) p' = Some (l, y')"
  then show "p = p'" using known_location [OF k] b by (auto split: if_splits)
qed

lemma known_unlink:
  assumes k: "branches_known tips b c"
  shows "branches_known tips (b(pid := None)) (c(pid := None))"
proof (rule branches_knownI)
  fix p loc last_sha assume p: "(b(pid := None)) p = Some (loc, last_sha)"
  then have "b p = Some (loc, last_sha)" "p \<noteq> pid" by (auto split: if_splits)
  with k show "tips loc = last_sha \<or> (\<exists>v sha. (c(pid := None)) p = Some (Some v, Some sha) \<and> tips loc = Some sha)"
    by (auto elim: known_cases)
next
  fix p v s assume "(c(pid := None)) p = Some (v, s)"
  then show "(v = None \<longleftrightarrow> s = None) \<and> (\<forall>sha. s = Some sha \<longrightarrow> commit_id sha)"
    using known_captured [OF k, of p v s] by (auto split: if_splits)
next
  fix p p' l y y' assume "(b(pid := None)) p = Some (l, y)" "(b(pid := None)) p' = Some (l, y')"
  then show "p = p'" using known_location [OF k] by (auto split: if_splits)
qed

lemma known_queue:
  assumes k: "branches_known tips b c" and "c pid = None"
  shows "branches_known tips b (c(pid := Some (None, None)))"
proof (rule branches_knownI)
  fix p loc last_sha assume "b p = Some (loc, last_sha)"
  from k this show "tips loc = last_sha \<or> (\<exists>v sha. (c(pid := Some (None, None))) p = Some (Some v, Some sha) \<and> tips loc = Some sha)"
    by (cases rule: known_cases) (use assms(2) in auto)
next
  fix p v s assume "(c(pid := Some (None, None))) p = Some (v, s)"
  then show "(v = None \<longleftrightarrow> s = None) \<and> (\<forall>sha. s = Some sha \<longrightarrow> commit_id sha)"
    using known_captured [OF k, of p v s] by (auto split: if_splits)
qed (rule known_location [OF k])

lemma base_matches_refl [simp]: "base_matches x x"
  by (cases x) (simp_all add: base_matches_def eq_ignore_ascii_case_def)

lemma known_no_conflict:
  assumes "branches_known tips b c" and "b pid = Some (loc, last_sha)" and "c pid = Some (Some v, Some sha)"
  shows "tips loc = Some sha \<or> base_matches last_sha (tips loc)"
  using assms(1,2) by (cases rule: known_cases) (use assms(3) in auto)

subsection \<open>Statements that change what is known\<close>

lemma capture_views:
  assumes "captured_of g pid = Some x"
  shows "branch_of (capture_checkpoint pid v sha at g) = branch_of g"
    and "captured_of (capture_checkpoint pid v sha at g) = (captured_of g)(pid := Some (Some v, Some sha))"
proof -
  show "branch_of (capture_checkpoint pid v sha at g) = branch_of g"
    by (simp add: branch_of_def capture_checkpoint_def update_queue_def find_link_def fun_eq_iff)
  have f: "find_queue p (capture_checkpoint pid v sha at g) =
      map_option (\<lambda>q. if cq_project_id q = pid then q\<lparr>cq_phase := PushGit_checkpoint, cq_captured_version := Some v,
       cq_checkpoint_sha := Some sha, cq_captured_at := Some at, cq_updated_at := at\<rparr> else q) (find_queue p g)" for p
    unfolding find_queue_def capture_checkpoint_def update_queue_def by (simp add: find_update_where)
  show "captured_of (capture_checkpoint pid v sha at g) = (captured_of g)(pid := Some (Some v, Some sha))"
  proof (rule ext)
    fix p
    show "captured_of (capture_checkpoint pid v sha at g) p = ((captured_of g)(pid := Some (Some v, Some sha))) p"
    proof (cases "find_queue p g")
      case None
      then show ?thesis using assms by (auto simp: captured_of_def f)
    next
      case (Some q)
      then have "cq_project_id q = p" unfolding find_queue_def by (auto dest: find_Some_set)
      then show ?thesis using Some by (simp add: captured_of_def f)
    qed
  qed
qed

lemma find_delete_where:
  "find (\<lambda>x. k x = p) (delete_where (\<lambda>x. k x = pid) t) = (if p = pid then None else find (\<lambda>x. k x = p) t)"
  by (induction t) (auto simp: delete_where_def)

lemma complete_views:
  assumes "branch_of g pid = Some (loc, x)"
  shows "branch_of (complete_checkpoint pid v sha now g) = (branch_of g)(pid := Some (loc, Some sha))"
    and "captured_of (complete_checkpoint pid v sha now g) = (captured_of g)(pid := None)"
proof -
  let ?f = "\<lambda>l. l\<lparr>gl_status := Active_link, gl_synced_version := max (gl_synced_version l) v,
    gl_last_remote_sha := Some sha, gl_last_error := None, gl_updated_at := now\<rparr>"
  have links: "g_links (complete_checkpoint pid v sha now g) = update_where (\<lambda>l. gl_project_id l = pid) ?f (g_links g)"
    by (auto simp: complete_checkpoint_def Let_def update_link_def split: option.splits)
  have f: "find_link p (complete_checkpoint pid v sha now g) =
      map_option (\<lambda>l. if gl_project_id l = pid then ?f l else l) (find_link p g)" for p
    unfolding find_link_def links by (simp add: find_update_where)
  show "branch_of (complete_checkpoint pid v sha now g) = (branch_of g)(pid := Some (loc, Some sha))"
  proof (rule ext)
    fix p
    show "branch_of (complete_checkpoint pid v sha now g) p = ((branch_of g)(pid := Some (loc, Some sha))) p"
    proof (cases "find_link p g")
      case None
      then show ?thesis using assms by (auto simp: branch_of_def f)
    next
      case (Some l)
      then have "gl_project_id l = p" unfolding find_link_def by (auto dest: find_Some_set)
      then show ?thesis using Some assms by (auto simp: branch_of_def f)
    qed
  qed
  have q: "find_queue p (update_link pid f g) = find_queue p g" for p f by (simp add: find_queue_def update_link_def)
  have "find_queue p (complete_checkpoint pid v sha now g) = (if p = pid then None else find_queue p g)" for p
  proof (cases "find_queue pid g")
    case None
    then show ?thesis by (auto simp: complete_checkpoint_def Let_def q)
  next
    case (Some q0)
    then show ?thesis
      using find_delete_where [of cq_project_id p pid "g_queue g"]
      by (auto simp: complete_checkpoint_def Let_def q find_queue_def update_link_def split: option.splits)
  qed
  then show "captured_of (complete_checkpoint pid v sha now g) = (captured_of g)(pid := None)"
    by (simp add: captured_of_def fun_eq_iff)
qed

lemma same_branches_checkpoint_statements:
  "same_branches g (snd (claim_due provider now stale g))" "same_branches g (update_queue_phase pid ph now g)"
  "same_branches g (fail_checkpoint cl kind code now g)" "same_branches g (resume_queue pid now g)"
proof -
  show "same_branches g (snd (claim_due provider now stale g))"
    by (auto simp: claim_due_def split: list.splits intro!: same_branches_queue)
  show "same_branches g (update_queue_phase pid ph now g)"
    by (simp add: update_queue_phase_def same_branches_queue)
  show "same_branches g (fail_checkpoint cl kind code now g)"
    unfolding fail_checkpoint_def fail_checkpoint_statement_def
    by (auto split: prod.splits intro!: same_branches_trans [OF same_branches_link same_branches_queue])
  show "same_branches g (resume_queue pid now g)"
    unfolding resume_queue_def by (rule same_branches_trans [OF same_branches_queue same_branches_link]) simp_all
qed

lemma same_branches_known: "same_branches g g' \<Longrightarrow> branches_known tips (branch_of g') (captured_of g') = branches_known tips (branch_of g) (captured_of g)"
  by (simp add: same_branches_def)

section \<open>A turn of the checkpoint worker\<close>

definition commits_named :: "checkpoint_env \<Rightarrow> bool" where
  "commits_named env \<longleftrightarrow> (case ce_local_commit env of Done oid \<Rightarrow> commit_id oid | _ \<Rightarrow> True)"

text \<open>The outcome of a checkpoint keeps the branches known, reports no conflict and vouches for its commit.\<close>

definition vouched ::
  "('r \<Rightarrow> string \<times> string \<Rightarrow> string option) \<Rightarrow> uuid \<Rightarrow> (checkpoint_error, int \<times> string) outcome \<times> git_world \<times> 'r \<Rightarrow> bool" where
  "vouched tip pid x = (case x of (res, w, r) \<Rightarrow>
     known tip (gw_db w) r \<and> res \<noteq> FailedWith BranchMoved \<and>
     (\<forall>v sha. res = Done (v, sha) \<longrightarrow> (\<exists>loc y. branch_of (gw_db w) pid = Some (loc, y) \<and> tip r loc = Some sha)))"

lemma vouched_stop:
  "known tip (gw_db w) r \<Longrightarrow> vouched tip pid (Crashed, w, r)"
  "known tip (gw_db w) r \<Longrightarrow> e \<noteq> BranchMoved \<Longrightarrow> vouched tip pid (FailedWith e, w, r)"
  by (simp_all add: vouched_def)

lemma vouched_pushed:
  assumes R: "remote_contract R tip" and k: "known tip (gw_db w) r"
    and b: "branch_of (gw_db w) pid = Some ((cl_clone_url link, cl_checkpoint_branch link), cl_last_remote_sha link)"
    and c: "captured_of (gw_db w) pid = Some (Some v, Some sha)"
  shows "vouched tip pid (pushed R link version sha w r)"
proof -
  let ?loc = "(cl_clone_url link, cl_checkpoint_branch link)"
  obtain res r' where p: "push_checkpoint_ref R link sha r = (res, r')" by (cases "push_checkpoint_ref R link sha r")
  note push = push_contract [OF R p known_captured(2) [OF k c refl] refl]
  have k': "known tip (gw_db w) r'" using push(1) k known_push [OF k b c] by auto
  have "res \<noteq> FailedWith BranchMoved" using push(3) known_no_conflict [OF k b c] by blast
  then show ?thesis using k' push(2) p b by (cases res) (auto simp: vouched_def pushed_def)
qed

lemma vouched_process:
  assumes R: "remote_contract R tip" and k: "known tip (gw_db w) r" and n: "commits_named env"
  shows "vouched tip pid (process_checkpoint Y retention R env pid w r)"
proof -
  obtain err chg c where fl: "flush_project_collaboration Y retention (ce_now env) pid (gw_collab w) = ((err, chg), c)"
    by (metis prod.exhaust)
  let ?w = "w\<lparr>gw_collab := c\<rparr>"
  have k1: "known tip (gw_db ?w) r" using k by simp
  show ?thesis
  proof (cases "load_checkpoint_context env pid ?w")
    case Crashed
    then show ?thesis using fl k1 by (simp add: process_checkpoint_def Let_def vouched_stop)
  next
    case (FailedWith e)
    then have "e \<noteq> BranchMoved"
      by (auto simp: load_checkpoint_context_def context_error_def split: option.splits outcome.splits context_failure.splits)
    then show ?thesis using fl k1 FailedWith by (simp add: process_checkpoint_def Let_def vouched_stop)
  next
    case (Done x)
    obtain link version where x: "x = (link, version)" by (cases x)
    have "checkpoint_link_of pid (gw_db w) = Some link"
      using Done x by (auto simp: load_checkpoint_context_def split: option.splits outcome.splits)
    then have b: "branch_of (gw_db w) pid = Some ((cl_clone_url link, cl_checkpoint_branch link), cl_last_remote_sha link)"
      and c: "captured_of (gw_db w) pid = Some (cl_captured_version link, cl_checkpoint_sha link)"
      by (auto simp: checkpoint_link_of_def branch_of_def captured_of_def split: option.splits)
    have phase: "gw_db w' = update_queue_phase pid ph (ce_now env) (gw_db w)" if "record_queue_phase env pid ph ?w = Some w'" for ph w'
      using that by (auto simp: record_queue_phase_def split: if_splits)
    have same: "branch_of (update_queue_phase pid ph (ce_now env) (gw_db w)) = branch_of (gw_db w)"
      "captured_of (update_queue_phase pid ph (ce_now env) (gw_db w)) = captured_of (gw_db w)" for ph
      using same_branches_checkpoint_statements(2) by (simp_all add: same_branches_def)
    have captured: "vouched tip pid (push_captured_checkpoint R env pid link v sha ?w r)"
      if "cl_captured_version link = Some v" "cl_checkpoint_sha link = Some sha" for v sha
    proof (cases "record_queue_phase env pid PushGit_checkpoint ?w")
      case None
      then show ?thesis using k1 by (simp add: push_captured_checkpoint_def vouched_stop)
    next
      case (Some w')
      have "vouched tip pid (pushed R link v sha w' r)"
        by (rule vouched_pushed [OF R]) (use k b c that phase [OF Some] same in simp_all)
      then show ?thesis using Some by (simp add: push_captured_checkpoint_def)
    qed
    have fresh: "vouched tip pid (create_and_push_checkpoint R env pid link version ?w r)"
      if none: "cl_captured_version link = None \<or> cl_checkpoint_sha link = None"
    proof (cases "ce_marked_pending env \<and> record_queue_phase env pid CommitLocal_checkpoint ?w \<noteq> None")
      case False
      then show ?thesis using k1 by (auto simp: create_and_push_checkpoint_def vouched_stop)
    next
      case True
      then obtain w' where w': "record_queue_phase env pid CommitLocal_checkpoint ?w = Some w'" by blast
      have views: "branch_of (gw_db w') = branch_of (gw_db w)" "captured_of (gw_db w') = captured_of (gw_db w)"
        using phase [OF w'] same by simp_all
      have k': "known tip (gw_db w') r" using k views by simp
      show ?thesis
      proof (cases "ce_local_commit env")
        case Crashed
        then show ?thesis using True w' k' by (simp add: create_and_push_checkpoint_def vouched_stop)
      next
        case (FailedWith f)
        have "local_commit_error f \<noteq> BranchMoved" by (cases f) (simp_all add: local_commit_error_def)
        then show ?thesis using True w' k' FailedWith by (simp add: create_and_push_checkpoint_def vouched_stop)
      next
        case (Done oid)
        then have oid: "commit_id oid" using n by (simp add: commits_named_def)
        let ?w2 = "w'\<lparr>gw_db := capture_checkpoint pid version oid (ce_now env) (gw_db w')\<rparr>"
        have c': "captured_of (gw_db w') pid = Some (cl_captured_version link, cl_checkpoint_sha link)" using c views by simp
        note cap = capture_views [OF c', of version oid "ce_now env"]
        have "known tip (gw_db ?w2) r" using known_capture [OF k' c' none oid] cap by simp
        then have "vouched tip pid (pushed R (link\<lparr>cl_captured_version := Some version, cl_checkpoint_sha := Some oid,
            cl_captured_at := Some (ce_now env)\<rparr>) version oid ?w2 r)"
          by (rule vouched_pushed [OF R]) (use b cap views in simp_all)
        then show ?thesis using True w' k' Done by (simp add: create_and_push_checkpoint_def vouched_stop)
      qed
    qed
    have "vouched tip pid (case (cl_captured_version link, cl_checkpoint_sha link) of
        (Some v, Some sha) \<Rightarrow> push_captured_checkpoint R env pid link v sha ?w r
      | _ \<Rightarrow> create_and_push_checkpoint R env pid link version ?w r)"
      using captured fresh by (auto split: option.splits)
    then show ?thesis using fl k1 Done x by (simp add: process_checkpoint_def vouched_stop Let_def)
  qed
qed

lemma known_checkpoint_turn:
  assumes R: "remote_contract R tip" and k: "known tip (gw_db w) r" and n: "commits_named env"
    and turn: "checkpoint_turn Y retention R provider env (w, r) = (w', r')"
  shows "known tip (gw_db w') r'"
proof -
  obtain c g where c: "claim_due provider (ce_now env) (ce_now env - seconds (10 * 60)) (gw_db w) = (c, g)"
    by (cases "claim_due provider (ce_now env) (ce_now env - seconds (10 * 60)) (gw_db w)")
  have "same_branches (gw_db w) g"
    using c same_branches_checkpoint_statements(1) [of "gw_db w" provider "ce_now env" "ce_now env - seconds (10 * 60)"] by simp
  then have g: "known tip (gw_db (w\<lparr>gw_db := g\<rparr>)) r" using k by (simp add: same_branches_def)
  show ?thesis
  proof (cases c)
    case None
    then show ?thesis using c k turn by (simp add: checkpoint_turn_def)
  next
    case (Some cl)
    let ?p = "cc_project_id cl"
    obtain res w1 r1 where p: "process_checkpoint Y retention R env ?p (w\<lparr>gw_db := g\<rparr>) r = (res, w1, r1)"
      by (cases "process_checkpoint Y retention R env ?p (w\<lparr>gw_db := g\<rparr>) r")
    have v: "vouched tip ?p (res, w1, r1)" using vouched_process [OF R g n, of ?p Y retention] p by simp
    have "w' = settle_checkpoint env cl res w1" "r' = r1" using turn c Some p by (auto simp: checkpoint_turn_def)
    moreover have "known tip (gw_db (settle_checkpoint env cl res w1)) r1"
    proof (cases res)
      case (Done y)
      obtain version sha where y: "y = (version, sha)" by (cases y)
      with v Done obtain loc x where "branch_of (gw_db w1) ?p = Some (loc, x)" "tip r1 loc = Some sha" "known tip (gw_db w1) r1"
        by (auto simp: vouched_def)
      with known_complete complete_views Done y show ?thesis by (simp add: settle_checkpoint_def)
    next
      case (FailedWith e)
      then show ?thesis using v same_branches_checkpoint_statements(3)
        by (simp add: settle_checkpoint_def vouched_def same_branches_def)
    qed (use v in \<open>simp add: settle_checkpoint_def vouched_def\<close>)
    ultimately show ?thesis by simp
  qed
qed

section \<open>Runs in which no repository is linked anew\<close>

fun keeps_links :: "git_event \<Rightarrow> bool" where
  "keeps_links (CheckpointTurn _ env) = commits_named env"
| "keeps_links (UserRequest (LinkRepository _)) = False"
| "keeps_links (UserRequest (CreateImport _ _ _ _ _)) = False"
| "keeps_links _ = True"

lemma insert_queue_views:
  assumes "find_link pid g \<noteq> None" and "find_queue pid g = None"
  shows "branch_of (snd (insert_queue pid v now g)) = branch_of g"
    and "captured_of (snd (insert_queue pid v now g)) = (captured_of g)(pid := Some (None, None))"
  using assms by (auto simp: insert_queue_def branch_of_def captured_of_def find_link_def find_queue_def fun_eq_iff find_append
      split: option.splits)

lemma known_enqueue_checkpoint:
  assumes "known tip (gw_db w) r"
  shows "known tip (gw_db (snd (enqueue_checkpoint pid now w))) r"
proof -
  have "known tip g r" if "find_link pid (gw_db w) \<noteq> None" "find_queue pid (gw_db w) = None" "insert_queue pid v now (gw_db w) = (x, g)" for v x g
    using insert_queue_views [OF that(1,2), of v now] that(2,3) known_queue [OF assms, of pid] by (simp add: captured_of_def)
  moreover have "known tip (resume_queue pid now (gw_db w)) r"
    using assms same_branches_checkpoint_statements(4) by (simp add: same_branches_def)
  ultimately show ?thesis using assms
    by (auto simp: enqueue_checkpoint_def target_for_update_def split: option.splits prod.splits)
qed

lemma known_unlink_repository:
  assumes "known tip (gw_db w) r"
  shows "known tip (gw_db (snd (unlink_repository_link pid w))) r"
proof -
  have "branch_of (snd (delete_repository_link pid g)) = (branch_of g)(pid := None)"
    "captured_of (snd (delete_repository_link pid g)) = (captured_of g)(pid := None)" if "find_link pid g = Some l" for g l
    using that find_delete_where [of gl_project_id _ pid "g_links g"] find_delete_where [of cq_project_id _ pid "g_queue g"]
    by (auto simp: delete_repository_link_def branch_of_def captured_of_def find_link_def find_queue_def fun_eq_iff)
  then have "known tip (snd (delete_repository_link pid (gw_db w))) r"
    using assms known_unlink [OF assms, of pid] by (cases "find_link pid (gw_db w)") (auto simp: delete_repository_link_def)
  then show ?thesis using assms by (cases "delete_repository_link pid (gw_db w)") (simp add: unlink_repository_link_def)
qed

lemma same_branches_enqueue_sync: "same_branches (gw_db w) (gw_db (snd (enqueue_sync i pid actor provider branch now w)))"
proof -
  have "same_branches (gw_db w) g" if "insert_inbound_job i pid provider Sync_operation branch actor now (gw_db w) = Inr g" for g
    using that by (auto simp: insert_inbound_job_def split: if_splits intro!: same_branches_tables)
  then show ?thesis
    by (auto simp: enqueue_sync_def split: sum.splits insert_job_error.splits
        intro: same_branches_trans [OF _ same_branches_import_statements(1)])
qed

lemma same_branches_resume_work: "same_branches g (resume_work user provider now g)"
proof -
  have "same_branches g (resume_reauthorized_links user provider now g)" for g
    unfolding resume_reauthorized_links_def by (rule same_branches_links) simp_all
  moreover have "same_branches g (resume_reauthorized_checkpoints user provider now g)" for g
    unfolding resume_reauthorized_checkpoints_def by (rule same_branches_rows) simp_all
  moreover have "same_branches g (resume_reauthorized_jobs user provider now g)" for g
    unfolding resume_reauthorized_jobs_def by (rule same_branches_tables) simp_all
  ultimately show ?thesis unfolding resume_work_def by (blast intro: same_branches_trans)
qed

lemma known_user_step:
  assumes "known tip (gw_db w) r" and "keeps_links (UserRequest u)"
  shows "known tip (gw_db (user_step u w)) r"
proof (cases u)
  case (EnqueueSync i pid actor provider branch now)
  then show ?thesis using assms(1) same_branches_enqueue_sync by (simp add: same_branches_def)
next
  case (ResumeWork user provider now)
  then show ?thesis using assms(1) same_branches_resume_work by (simp add: same_branches_def)
next
  case (ProjectActivity pid actor guest now)
  then show ?thesis using assms(1) same_branches_import_statements(4) by (simp add: same_branches_def)
qed (use assms in \<open>auto simp: known_enqueue_checkpoint known_unlink_repository\<close>)

lemma known_run:
  assumes R: "remote_contract R tip" and "known tip (gw_db (fst s)) (snd s)" and "list_all keeps_links es"
    and "run_events (worker_step Y retention R) es s = (w', r')"
  shows "known tip (gw_db w') r'"
  using assms(2-4)
proof (induction es arbitrary: s)
  case Nil
  then show ?case by simp
next
  case (Cons e es)
  obtain w1 r1 where s1: "worker_step Y retention R e s = (w1, r1)" by (cases "worker_step Y retention R e s")
  have "known tip (gw_db w1) r1"
  proof (cases e)
    case (InboundTurn provider env)
    then show ?thesis using s1 Cons.prems(1) same_branches_inbound_turn [of "fst s" provider env] by (auto simp: same_branches_def)
  next
    case (CheckpointTurn provider env)
    then show ?thesis
      using s1 Cons.prems known_checkpoint_turn [OF R, where w = "fst s" and r = "snd s" and env = env and w' = w1 and r' = r1] by simp
  next
    case (UserRequest u)
    then show ?thesis using s1 Cons.prems known_user_step [where w = "fst s" and r = "snd s" and u = u] by auto
  qed
  then show ?case using Cons.IH [of "(w1, r1)"] Cons.prems s1 by simp
qed

end
