(* ===== verification/External_Git_Properties.thy ===== *)
theory External_Git_Properties
  imports External_Git_Exclusive External_Git_Import External_Git_Checkpoint Collaboration_Properties
begin

text \<open>
  The properties of the exchange with external repositories: one operation at a time, imports applied
  once, and checkpoint branches that stay known to the server when workers fail or crash.
\<close>

section \<open>An example\<close>

definition ex_git_collab :: collab_world where
  "ex_git_collab = run_events (collab_step ex_yjs 100) ex_opened (empty_collab ex_open_access)"

definition ex_git_link :: new_repository_link where
  "ex_git_link = \<lparr>nl_project_id = 1, nl_provider = ''forge'', nl_repository_id = ''42'', nl_full_path = ''a/b'', nl_web_url = ''w'',
     nl_clone_url = ''u'', nl_default_branch = ''main'', nl_checkpoint_branch = ''toss/1'', nl_actor_user_id = 7, nl_now = 0\<rparr>"

definition ex_commit :: string where
  "ex_commit = replicate 40 (CHR ''a'')"

text \<open>A turn that imports one document; the answer to its commit is lost. The next one finishes the job.\<close>

definition ex_inbound :: "instant \<Rightarrow> commit_outcome \<Rightarrow> inbound_env" where
  "ex_inbound now commit =
     \<lparr>ie_now = now, ie_fresh = (\<lambda>n. 50 + n), ie_service = ex_service 90, ie_link_loaded = True, ie_phase_recorded = (\<lambda>_. True), ie_entry_point = Done (),
      ie_checkout = Done (), ie_clone = Done (), ie_lfs_pull = Done (), ie_rev_parse = Done ex_commit,
      ie_import = Done \<lparr>pi_documents = [\<lparr>im_path = ''main.typ'', im_source_path = ''/r/main.typ''\<rparr>], pi_directories = [],
        pi_assets = [\<lparr>ia_path = ''a.png'', ia_source_path = ''/r/a.png'', ia_content_type = ''image/png'', ia_size_bytes = 3\<rparr>],
        pi_entry_file_path = ''main.typ''\<rparr>,
      ie_read = (\<lambda>_. Some ''png''), ie_read_to_string = (\<lambda>_. Some ''new''), ie_asset_id = (\<lambda>n. 80 + n), ie_crash_after = None,
      ie_flushed = True,
      ie_commit = commit, ie_revision = Done (), ie_failure_recorded = True\<rparr>"

definition ex_imports :: "git_event list" where
  "ex_imports =
     [UserRequest (LinkRepository ex_git_link), UserRequest (EnqueueSync 30 1 7 ''forge'' ''main'' 0),
      InboundTurn ''forge'' (ex_inbound 1 Ambiguous_committed), InboundTurn ''forge'' (ex_inbound 2000000000 Committed)]"

text \<open>
  A remote that obeys Git, whose connection breaks after the first push: the worker crashes although the
  branch was moved. The state is the branches and whether the connection is up.
\<close>

definition ex_tip :: "(string \<times> string \<Rightarrow> string option) \<times> bool \<Rightarrow> string \<times> string \<Rightarrow> string option" where
  "ex_tip r loc = (case fst r loc of None \<Rightarrow> None | Some sha \<Rightarrow> if commit_id sha then Some sha else None)"

definition ex_remote :: "((string \<times> string \<Rightarrow> string option) \<times> bool) git_remote" where
  "ex_remote =
     \<lparr>rm_ls_remote = (\<lambda>url branch r. (Done (ls_remote_output branch (ex_tip r (url, branch))), r)),
      rm_push = (\<lambda>url sha branch r. (if snd r then Done () else Crashed, ((fst r)((url, branch) := Some sha), True)))\<rparr>"

definition ex_checkpoint :: "instant \<Rightarrow> checkpoint_env" where
  "ex_checkpoint now =
     \<lparr>ce_now = now, ce_context = Done (), ce_marked_pending = True, ce_phase_recorded = (\<lambda>_. True), ce_local_commit = Done ex_commit,
      ce_captured = True, ce_completed = True, ce_failure_recorded = True\<rparr>"

definition ex_git_world :: git_world where
  "ex_git_world = user_step (LinkRepository ex_git_link) (initial_git ex_git_collab)"

definition ex_no_branches :: "(string \<times> string \<Rightarrow> string option) \<times> bool" where
  "ex_no_branches = (\<lambda>_. None, False)"

definition ex_checkpoints :: "git_event list" where
  "ex_checkpoints =
     [UserRequest (EnqueueCheckpoint 1 5), CheckpointTurn ''forge'' (ex_checkpoint 6), CheckpointTurn ''forge'' (ex_checkpoint 2000000000)]"

lemma ex_commit_id: "commit_id ex_commit"
  by code_simp

lemma ex_remote_contract: "remote_contract ex_remote ex_tip"
  unfolding remote_contract_def
  by (auto simp: ex_remote_def ex_tip_def fun_eq_iff split: option.splits if_splits)

lemma ex_known: "known ex_tip (gw_db ex_git_world) ex_no_branches"
  by (rule branches_knownI)
    (auto simp: ex_git_world_def initial_git_def upsert_repository_link_def insert_repository_link_def find_link_def
      branch_of_def captured_of_def find_queue_def ex_no_branches_def ex_tip_def new_link_def split: if_splits)

section \<open>Properties\<close>

text \<open>
  C20. One operation at a time. Whatever users request and whatever the workers do, in any order of their
  transactions and with any number of them (a worker that was taken for dead and comes back included), a
  project never has an import or synchronisation that is waiting, running or paused and a checkpoint at
  once, and never two of the former.
\<close>

theorem inbound_outbound_exclusive:
  "let g = gw_db (run_events git_step ts (initial_git c)) in
   \<not> (active_job_exists pid g \<and> checkpoint_operation_exists pid g) \<and>
   count_where (\<lambda>j. ij_project_id j = pid \<and> job_active j) (g_inbound g) \<le> 1"
proof -
  have "exclusive (gw_db (run_events git_step ts (initial_git c)))" by (rule git.inv_run)
  then show ?thesis
    by (auto simp: Let_def active_job_exists_iff checkpoint_operation_exists_iff exclusive_def active_jobs_def)
qed



text \<open>
  C19. Checkpoints survive crashes. Let nobody else move the checkpoint branches of a remote repository that
  obeys Git, let every branch be where the server knows it, and let no repository be linked anew. After any
  run of worker turns and requests, with commands that fail (a push may have moved the branch although it
  failed) and workers that crash at any point, the branch of a linked project is at the commit recorded on
  its link or at the one captured in its queue row, so that a checkpoint never fails because its own push
  looks like a foreign one.
\<close>

theorem checkpoint_crash_consistent:
  assumes "remote_contract R tip" and "known tip (gw_db w) r" and "list_all keeps_links es" and "commits_named env"
  shows "let s = run_events (worker_step Y retention R) es (w, r) in
    (\<forall>l. find_link pid (gw_db (fst s)) = Some l \<longrightarrow>
      tip (snd s) (gl_clone_url l, gl_checkpoint_branch l)
        \<in> insert (gl_last_remote_sha l) (cq_checkpoint_sha ` set_option (find_queue pid (gw_db (fst s))))) \<and>
    fst (process_checkpoint Y retention R env pid (fst s) (snd s)) \<noteq> FailedWith BranchMoved"
proof -
  obtain w' r' where run: "run_events (worker_step Y retention R) es (w, r) = (w', r')"
    by (cases "run_events (worker_step Y retention R) es (w, r)")
  have k: "known tip (gw_db w') r'" by (rule known_run [OF assms(1) _ assms(3) run]) (use assms(2) in simp)
  have "tip r' (gl_clone_url l, gl_checkpoint_branch l) \<in> insert (gl_last_remote_sha l) (cq_checkpoint_sha ` set_option (find_queue pid (gw_db w')))"
    if "find_link pid (gw_db w') = Some l" for l
  proof -
    have "branch_of (gw_db w') pid = Some ((gl_clone_url l, gl_checkpoint_branch l), gl_last_remote_sha l)"
      using that by (simp add: branch_of_def)
    from k this show ?thesis by (cases rule: known_cases) (auto simp: captured_of_def image_iff)
  qed
  moreover have "fst (process_checkpoint Y retention R env pid w' r') \<noteq> FailedWith BranchMoved"
    using vouched_process [OF assms(1) k assms(4), of pid Y retention] by (auto simp: vouched_def split: prod.splits)
  ultimately show ?thesis by (simp add: run Let_def)
qed

theorem checkpoint_crash_consistent_witness:
  "map gl_last_remote_sha (g_links (gw_db (fst (run_events (worker_step ex_yjs 100 ex_remote) ex_checkpoints (ex_git_world, ex_no_branches))))) =
     [Some ex_commit] \<and>
   fst (process_checkpoint ex_yjs 100 ex_remote (ex_checkpoint 9) 1
      (fst (run_events (worker_step ex_yjs 100 ex_remote) ex_checkpoints (ex_git_world, ex_no_branches)))
      (snd (run_events (worker_step ex_yjs 100 ex_remote) ex_checkpoints (ex_git_world, ex_no_branches)))) \<noteq> FailedWith BranchMoved"
proof -
  have c: "commits_named (ex_checkpoint t)" for t by (simp add: commits_named_def ex_checkpoint_def ex_commit_id)
  then have "list_all keeps_links ex_checkpoints" by (simp add: ex_checkpoints_def)
  from checkpoint_crash_consistent [OF ex_remote_contract ex_known this c, where pid = 1 and Y = ex_yjs and retention = 100, unfolded Let_def]
  have "fst (process_checkpoint ex_yjs 100 ex_remote (ex_checkpoint 9) 1
      (fst (run_events (worker_step ex_yjs 100 ex_remote) ex_checkpoints (ex_git_world, ex_no_branches)))
      (snd (run_events (worker_step ex_yjs 100 ex_remote) ex_checkpoints (ex_git_world, ex_no_branches)))) \<noteq> FailedWith BranchMoved"
    by blast
  moreover have "map gl_last_remote_sha (g_links (gw_db (fst (run_events (worker_step ex_yjs 100 ex_remote) ex_checkpoints (ex_git_world, ex_no_branches))))) =
     [Some ex_commit]" by code_simp
  ultimately show ?thesis by simp
qed

section \<open>An import that is forgotten\<close>

text \<open>
  The hypothesis on the statement that loads the link is needed: when it fails, the failure counts as one
  before the import, whatever the job says, the job forgets that its content was applied and the next turn
  applies it again.
\<close>

definition ex_forgotten :: "git_event list" where
  "ex_forgotten =
     [UserRequest (LinkRepository ex_git_link), UserRequest (EnqueueSync 30 1 7 ''forge'' ''main'' 0),
      InboundTurn ''forge'' (ex_inbound 1 Ambiguous_committed),
      InboundTurn ''forge'' ((ex_inbound 2000000000 Committed)\<lparr>ie_link_loaded := False\<rparr>),
      InboundTurn ''forge'' (ex_inbound 4000000000 Committed)]"

lemma link_load_failure_repeats_import:
  "gw_applied (fst (run_events (worker_step ex_yjs 100 ex_remote) ex_forgotten (initial_git ex_git_collab, ex_no_branches))) = [30, 30]"
  by code_simp

end
