(* ===== verification/Spec2Isabelle.thy ===== *)
theory Spec2Isabelle
  imports Component_Properties Workspace_Properties Worker_Input Collaboration_Properties Project_Properties Public_Properties Agent_Properties Realtime_Properties External_Git_Properties
begin

text \<open>
  \<^bold>\<open>TOSS: a verification development of the server side.\<close>

  TOSS is a collaborative editor for Typst and LaTeX projects. Its Rust backend (\<open>src/backend\<close>) keeps
  projects in PostgreSQL and an object storage (the \<^emph>\<open>Workspace\<close>), decides who may do what
  (\<^emph>\<open>Access\<close>), merges the concurrent edits of documents (\<^emph>\<open>Collaboration\<close>), and runs expensive operations (LaTeX builds, PPTX import and export) as durable jobs
  (\<^emph>\<open>document processing\<close>) that remote workers (\<open>src/workers\<close>) claim, execute and deliver. A user asks for
  a job on a project; the server reserves it under admission limits, captures the project as an archive,
  and queues it; a worker registers a session, polls for claims, downloads and verifies the input,
  uploads artifacts under tickets and completes or fails the claim; a finalizer on the server validates
  the artifacts and publishes them, or creates a project from them; maintenance recovers lost claims,
  expires what waited too long and sweeps what is not referenced any more.

  \<^bold>\<open>How the program is modelled.\<close> A table is the list of its rows (a \<open>record\<close> per table), a statement is
  a function on it, a transaction is one step: the functions are composed as the handlers compose them,
  every guard, early return and error branch included. Errors are values of sum types. Time is an integer
  number of microseconds and an argument; new UUIDs, SHA-256, hexadecimal and JSON coding, the zip reader
  and the reachability of the object storage are arguments. Integers are \<open>int\<close> with the bounds of their
  Rust type written out where the code checks or saturates them. Nothing is assumed: there are no axioms,
  and the interfaces between components are locales that are interpreted on the model.

  \<^bold>\<open>The theories\<close>, each with the sources it translates.

  \<^item> \<open>Toss_Prelude\<close>: types, integer and string functions of the standard library, SQL statements on
    lists, the locales \<open>transition_system\<close> (an invariant kept by every event holds along every run) and
    \<open>fenced_lease\<close> (who is not the holder changes nothing).
  \<^item> \<open>Processing_Model\<close> (\<open>document_processing/model.rs\<close>, \<open>operation_contract.rs\<close>, \<open>worker_protocol.rs\<close>),
    \<open>Processing_Config\<close> (\<open>config.rs\<close>), \<open>Processing_Store\<close> (the migration's nine tables),
    \<open>Processing_Jobs\<close> (\<open>persistence.rs\<close>), \<open>Worker_Sessions\<close>, \<open>Worker_Claims\<close>, \<open>Worker_Transfers\<close>
    (\<open>worker_persistence.rs\<close>), \<open>Processing_Finalization\<close> (\<open>finalization.rs\<close>), \<open>Archive_Validation\<close>
    (\<open>pptx.rs\<close>, \<open>workspace_bundle.rs\<close>), \<open>Worker_Http\<close> (\<open>worker_http.rs\<close>, \<open>worker_idempotency.rs\<close>).
  \<^item> \<open>Lifecycle_Invariant\<close>, \<open>Lifecycle_Steps\<close>, \<open>Maintenance_Steps\<close>, \<open>Job_Evolution\<close>,
    \<open>Processing_Lifecycle\<close>: the invariant of the processing database, that each of its events keeps it, and how a
    job may evolve; the interpretation of \<open>transition_system\<close> on the operations. \<open>Example_Run\<close>: a run for
    the witnesses. \<open>Run_Properties\<close>, \<open>Operation_Properties\<close>, \<open>Finalization_Properties\<close>: the properties
    of processing.
  \<^item> \<open>Project_Access\<close> (\<open>access/\<close>: authorization, principals, grants, share links) and
    \<open>Workspace_Paths\<close> (\<open>workspace/file_policy.rs\<close>, \<open>project_model.rs\<close>, \<open>project_name.rs\<close>);
    \<open>Component_Properties\<close>: properties of these, of the configuration and of the archives.
  \<^item> \<open>Workspace_Store\<close>, \<open>Workspace_Content\<close> (\<open>workspace/*_persistence.rs\<close>, \<open>persistence.rs\<close>,
    \<open>content.rs\<close>, \<open>activity.rs\<close>, \<open>content_generation.rs\<close>), \<open>Workspace_Files\<close> (\<open>document_mutations.rs\<close>,
    \<open>documents.rs\<close>, \<open>project_file_*.rs\<close>, \<open>project_asset_*.rs\<close>, \<open>project_settings.rs\<close>,
    \<open>object_cleanup.rs\<close>): tables, statements and operations of the Workspace. \<open>Workspace_Invariant\<close>: keys,
    references and change sequences, kept by every operation. \<open>Workspace_Tree\<close>: the file tree and the
    refinement of renaming and removal. \<open>Workspace_Entry\<close>: the entry file. \<open>Workspace_Storage\<close>: stored
    objects. \<open>Workspace_Sync\<close>: listing, revisions, rows of a replaced content. \<open>Workspace_Properties\<close>.
  \<^item> \<open>Worker_Input\<close> (\<open>workers/processing-sdk/src/input.rs\<close>): what a worker does with the bytes it
    downloaded, with the directory it extracts to as a map from paths to nodes. \<open>Worker_Client\<close> (\<open>client.rs\<close>)
    and \<open>Worker_Agent\<close> (\<open>agent.rs\<close>): the retries of its requests, the execution of a claim over the calls of
    a server (the record \<open>core\<close>), and the task that keeps its lease; \<open>Agent_Properties\<close>.
  \<^item> \<open>Collaboration_Store\<close> (\<open>collaboration/persistence.rs\<close>, \<open>yjs_state.rs\<close>), \<open>Collaboration\<close>
    (\<open>updates.rs\<close>, \<open>bootstrap.rs\<close>, \<open>projection.rs\<close>, \<open>workspace/collaboration_projection.rs\<close>): the log of
    updates, its snapshots and pruning, and the projection of the merged text into the Workspace.
    \<open>Collaboration_Invariant\<close>, \<open>Collaboration_Steps\<close>: what every event keeps; \<open>Collaboration_Properties\<close>.
  \<^item> \<open>Collaboration_Rooms\<close> (\<open>collaboration/rooms.rs\<close>, \<open>connection_lifecycle.rs\<close>) and \<open>Realtime\<close>
    (\<open>collaboration/websocket.rs\<close>): the broadcast rooms and the two tasks of every connection, as steps that
    interleave. \<open>Realtime_Invariant\<close>, \<open>Realtime_Steps\<close>: what every step keeps; \<open>Realtime_Properties\<close>.
  \<^item> \<open>Project_Input\<close> (\<open>document_processing/project_input.rs\<close>) and \<open>Public_Http\<close>
    (\<open>document_processing/public_http.rs\<close>): the capture of a project and the routes of users;
    \<open>Project_Properties\<close>, \<open>Public_Properties\<close>.
  \<^item> \<open>External_Git\<close> and \<open>External_Git_Workers\<close> (\<open>external_repositories/inbound\<close>, \<open>checkpoint\<close> and
    \<open>linking\<close>): the links of projects to external Git repositories, the jobs that import from them and
    the queue of checkpoints pushed to them, and the turns of the two workers. \<open>External_Git_Exclusive\<close>,
    \<open>External_Git_Import\<close>, \<open>External_Git_Checkpoint\<close>: what the steps keep; \<open>External_Git_Properties\<close>.

  \<^bold>\<open>What is shown.\<close> Processing: at most one claim holds a job, superseded and expired claims and finalizers
  change nothing, attempts and admissions are bounded, cancellation is final, published artifacts keep
  the contract of their operation and stay readable, requests of workers run once, waiting jobs reach a
  terminal state by their deadline and lost claims are recovered. Access: exactly the granted roles give
  access. Workspace: the main file of a project cannot disappear, live assets keep their stored objects,
  moves and deletions implement renaming and removal in the file tree, the incremental listing ends and
  misses nothing, stale writes are refused, what a replacement writes is what the next snapshot reads.
  Collaboration: no acknowledged update is lost while a document stays current, whatever is compacted
  and pruned, and a capture sees every update acknowledged before it. Connections: only authorised updates
  are persisted, a connection whose access changed is closed, and what connections do to the durable
  state is what the operations of collaboration do. Workers: a mutation that is sent again is applied once,
  an execution closes its claim at most once and only with what it uploaded, and the worker stops before its lease ends. External
  repositories: a project has one operation with its repository at a time, the content of an import is
  applied once, and a checkpoint branch stays where the server knows it, although workers fail and crash.
  Between the components: the bundle
  that the server packs is the tree that the worker unpacks, a reserved job never stays without its input,
  and jobs are visible to their requester only.

  \<^bold>\<open>Hypotheses on code that is not in the repository.\<close> Yjs restores a document from its encoded state
  (\<open>yjs_restores\<close>); server and worker read back what the other writes as ZIP, JSON and hexadecimal
  (\<open>same_formats\<close>); an answer reaches the worker within the renewal margin (\<open>timely\<close>);
  \<open>git ls-remote\<close> and \<open>git push\<close> do what Git documents on a branch that nobody else moves
  (\<open>remote_contract\<close>). Each property that uses one has a witness with a concrete instance.

  \<^bold>\<open>Bounds and fuel.\<close> Loops over rows and archive entries are structural recursion; the copy loop of the
  worker is a \<open>function\<close> with the remaining input as its measure. The paging client has fuel, and
  the number of documents plus one is shown to be enough. Long polling is a list of the instants at which the
  server looks. The retries of a client end by the measure of the attempts that are left.

  \<^bold>\<open>Not modelled.\<close> Outages of the database and row locks (a transaction is atomic); timers and task
  spawning (the steps of tasks interleave in the model of the connections); the main loop of the worker agent; the local Git repositories with their
  revisions, the forges and their OAuth grants (external processes and services), the validation of a checkout,
  account management, package caches, the TeX processes of the LaTeX worker, HTTP
  extraction and serialisation, the web client.
\<close>

end
